(* ===== verification/Guild_Prelude.thy ===== *)
theory Guild_Prelude
  imports Main "HOL-Library.Word" "HOL-Library.Char_ord" "HOL-Library.List_Lexorder"
    "HOL-Library.Sublist"
begin

text \<open>
  Shared ground of the development: the Rust integer and string types, the string and slice
  operations of the Rust standard library that the Guild sources call, the \<open>Result\<close>
  plumbing, and generic list lemmas.

  A Rust \<open>String\<close> is a sequence of UTF-8 bytes, so it is a \<^typ>\<open>string\<close> here: a HOL
  \<^typ>\<open>char\<close> is one byte. Machine integers keep their width as words; \<open>usize\<close>
  values (lengths, counts, parsed limits) are natural numbers below \<open>2 ^ 64\<close>.
\<close>

section \<open>Types\<close>

type_synonym u8 = "8 word"
type_synonym u16 = "16 word"
type_synonym u32 = "32 word"
type_synonym u64 = "64 word"
type_synonym usize = nat

named_theorems guild_defs "definitions of small helpers that proofs unfold"

section \<open>Result values\<close>

text \<open>\<open>Result<T, E>\<close> is the sum type with \<^const>\<open>Inl\<close> the error.\<close>

definition res_bind :: "'e + 'a \<Rightarrow> ('a \<Rightarrow> 'e + 'b) \<Rightarrow> 'e + 'b" where
  "res_bind r f = (case r of Inl e \<Rightarrow> Inl e | Inr x \<Rightarrow> f x)"

definition map_err :: "('e \<Rightarrow> 'f) \<Rightarrow> 'e + 'a \<Rightarrow> 'f + 'a" where
  "map_err f r = (case r of Inl e \<Rightarrow> Inl (f e) | Inr x \<Rightarrow> Inr x)"

definition ok_or :: "'e \<Rightarrow> 'a option \<Rightarrow> 'e + 'a" where
  "ok_or e x = (case x of None \<Rightarrow> Inl e | Some y \<Rightarrow> Inr y)"

definition res_ok :: "'e + 'a \<Rightarrow> 'a option" where
  "res_ok r = (case r of Inl _ \<Rightarrow> None | Inr x \<Rightarrow> Some x)"

definition is_ok :: "'e + 'a \<Rightarrow> bool" where
  "is_ok r = (case r of Inl _ \<Rightarrow> False | Inr _ \<Rightarrow> True)"

lemma res_bind_simps [simp]:
  "res_bind (Inl e) f = Inl e" "res_bind (Inr x) f = f x"
  by (simp_all add: res_bind_def)

lemma res_bind_Inr_iff: "res_bind r f = Inr y \<longleftrightarrow> (\<exists>x. r = Inr x \<and> f x = Inr y)"
  by (cases r) auto

lemma map_err_simps [simp]:
  "map_err f (Inl e) = Inl (f e)" "map_err f (Inr x) = Inr x"
  by (simp_all add: map_err_def)

lemma map_err_Inr_iff [simp]: "map_err f r = Inr x \<longleftrightarrow> r = Inr x"
  by (cases r) auto

lemma ok_or_simps [simp]: "ok_or e None = Inl e" "ok_or e (Some x) = Inr x"
  by (simp_all add: ok_or_def)

lemma ok_or_Inr_iff [simp]: "ok_or e x = Inr y \<longleftrightarrow> x = Some y"
  by (cases x) auto

lemma res_ok_simps [simp]: "res_ok (Inl e) = None" "res_ok (Inr x) = Some x"
  by (simp_all add: res_ok_def)

lemma res_ok_Some_iff [simp]: "res_ok r = Some x \<longleftrightarrow> r = Inr x"
  by (cases r) auto

lemma is_ok_simps [simp]: "\<not> is_ok (Inl e)" "is_ok (Inr x)"
  by (simp_all add: is_ok_def)

lemma is_ok_iff: "is_ok r \<longleftrightarrow> (\<exists>x. r = Inr x)"
  by (cases r) auto

lemma unit_res_cases: "(\<exists>e. r = Inl e) \<or> r = Inr ()"
  by (cases r) auto

section \<open>Options\<close>

text \<open>\<open>Option::is_none_or\<close> and \<open>Option::is_some_and\<close>.\<close>

definition is_none_or :: "'a option \<Rightarrow> ('a \<Rightarrow> bool) \<Rightarrow> bool" where
  "is_none_or x P = (case x of None \<Rightarrow> True | Some y \<Rightarrow> P y)"

definition is_some_and :: "'a option \<Rightarrow> ('a \<Rightarrow> bool) \<Rightarrow> bool" where
  "is_some_and x P = (case x of None \<Rightarrow> False | Some y \<Rightarrow> P y)"

definition unwrap_or :: "'a \<Rightarrow> 'a option \<Rightarrow> 'a" where
  "unwrap_or d x = (case x of None \<Rightarrow> d | Some y \<Rightarrow> y)"

lemma is_none_or_simps [simp]: "is_none_or None P" "is_none_or (Some x) P = P x"
  by (simp_all add: is_none_or_def)

lemma is_some_and_simps [simp]: "\<not> is_some_and None P" "is_some_and (Some x) P = P x"
  by (simp_all add: is_some_and_def)

lemma unwrap_or_simps [simp]: "unwrap_or d None = d" "unwrap_or d (Some x) = x"
  by (simp_all add: unwrap_or_def)

lemma is_none_or_iff: "is_none_or x P \<longleftrightarrow> (\<forall>y. x = Some y \<longrightarrow> P y)"
  by (cases x) auto

lemma is_some_and_iff: "is_some_and x P \<longleftrightarrow> (\<exists>y. x = Some y \<and> P y)"
  by (cases x) auto

section \<open>Lists\<close>

text \<open>The loop \<open>if !seen.contains(x) { seen.push(x) }\<close>, kept in first-occurrence order.\<close>

definition push_unique :: "'a list \<Rightarrow> 'a \<Rightarrow> 'a list" where
  "push_unique xs x = (if x \<in> set xs then xs else xs @ [x])"

lemma set_push_unique [simp]: "set (push_unique xs x) = insert x (set xs)"
  by (auto simp: push_unique_def)

lemma distinct_push_unique: "distinct xs \<Longrightarrow> distinct (push_unique xs x)"
  by (simp add: push_unique_def)

lemma push_unique_not_Nil [simp]: "push_unique xs x \<noteq> []"
  by (auto simp: push_unique_def)

lemma set_foldl_push_unique [simp]: "set (foldl push_unique acc xs) = set acc \<union> set xs"
  by (induction xs arbitrary: acc) auto

lemma distinct_foldl_push_unique: "distinct acc \<Longrightarrow> distinct (foldl push_unique acc xs)"
  by (induction xs arbitrary: acc) (auto intro: distinct_push_unique)

lemma foldl_push_unique_distinct:
  "distinct (acc @ xs) \<Longrightarrow> foldl push_unique acc xs = acc @ xs"
  by (induction xs arbitrary: acc) (auto simp: push_unique_def)

lemma mem_map_filter: "y \<in> set (List.map_filter f xs) \<longleftrightarrow> (\<exists>x \<in> set xs. f x = Some y)"
  by (force simp: List.map_filter_def)

lemma list_ex_set_cong: "set xs = set ys \<Longrightarrow> list_ex P xs = list_ex P ys"
  by (simp add: list_ex_iff)

lemma Nil_set_cong: "set xs = set ys \<Longrightarrow> xs = [] \<longleftrightarrow> ys = []"
  by auto

lemma foldl_invariant:
  "I st \<Longrightarrow> (\<And>st x. x \<in> set xs \<Longrightarrow> I st \<Longrightarrow> I (f st x)) \<Longrightarrow> I (foldl f st xs)"
  by (induction xs arbitrary: st) auto

text \<open>A fact that one element establishes and every step keeps holds at the end.\<close>

lemma foldl_established:
  assumes "x \<in> set xs" "\<And>st. Q (f st x)" "\<And>st y. Q st \<Longrightarrow> Q (f st y)"
  shows "Q (foldl f st xs)"
  using assms(1)
proof (induction xs arbitrary: st)
  case (Cons y ys)
  show ?case
  proof (cases "x = y")
    case True
    then show ?thesis
      using assms(2,3) foldl_invariant[of Q "f st x" ys f] by simp
  next
    case False
    then show ?thesis
      using Cons by simp
  qed
qed simp

lemma find_SomeD: "find P xs = Some x \<Longrightarrow> x \<in> set xs \<and> P x"
  by (auto simp: find_Some_iff)

section \<open>Strings\<close>

definition strip_prefix :: "string \<Rightarrow> string \<Rightarrow> string option" where
  "strip_prefix p s = (if prefix p s then Some (drop (length p) s) else None)"

definition strip_suffix :: "string \<Rightarrow> string \<Rightarrow> string option" where
  "strip_suffix p s = (if suffix p s then Some (take (length s - length p) s) else None)"

lemma strip_prefix_append [simp]: "strip_prefix p (p @ s) = Some s"
  by (simp add: strip_prefix_def)

lemma strip_prefix_Some_iff: "strip_prefix p s = Some r \<longleftrightarrow> s = p @ r"
  by (auto simp: strip_prefix_def prefix_def)

lemma strip_suffix_append [simp]: "strip_suffix p (s @ p) = Some s"
  by (simp add: strip_suffix_def suffix_def)

lemma strip_suffix_Some_iff: "strip_suffix p s = Some r \<longleftrightarrow> s = r @ p"
  by (auto simp: strip_suffix_def suffix_def)

text \<open>\<open>str::split(c)\<close> keeps empty pieces and always yields at least one.\<close>

fun split_on :: "char \<Rightarrow> string \<Rightarrow> string list" where
  "split_on c [] = [[]]"
| "split_on c (x # xs) =
     (if x = c then [] # split_on c xs
      else (case split_on c xs of [] \<Rightarrow> [[x]] | p # ps \<Rightarrow> (x # p) # ps))"

lemma split_on_not_Nil [simp]: "split_on c s \<noteq> []"
  by (induction s) (auto split: list.splits)

lemma split_on_no_sep: "c \<notin> set s \<Longrightarrow> split_on c s = [s]"
  by (induction s) auto

lemma split_on_append_sep:
  "c \<notin> set p \<Longrightarrow> split_on c (p @ c # s) = p # split_on c s"
  by (induction p) auto

lemma split_on_pieces: "p \<in> set (split_on c s) \<Longrightarrow> c \<notin> set p"
proof (induction s arbitrary: p)
  case (Cons x xs)
  obtain q qs where q: "split_on c xs = q # qs"
    by (cases "split_on c xs") auto
  have "c \<notin> set r" if "r \<in> set (q # qs)" for r
    using Cons.IH[of r] that q by simp
  then show ?case
    using Cons.prems q by (auto split: if_splits)
qed simp

text \<open>\<open>str::split_once\<close> and \<open>str::rsplit_once\<close> for a character.\<close>

fun split_once :: "char \<Rightarrow> string \<Rightarrow> (string \<times> string) option" where
  "split_once c [] = None"
| "split_once c (x # xs) =
     (if x = c then Some ([], xs)
      else map_option (\<lambda>(a, b). (x # a, b)) (split_once c xs))"

definition rsplit_once :: "char \<Rightarrow> string \<Rightarrow> (string \<times> string) option" where
  "rsplit_once c s = map_option (\<lambda>(a, b). (rev b, rev a)) (split_once c (rev s))"

lemma split_once_append: "c \<notin> set a \<Longrightarrow> split_once c (a @ c # b) = Some (a, b)"
  by (induction a) auto

lemma split_once_Some: "split_once c s = Some (a, b) \<Longrightarrow> s = a @ c # b \<and> c \<notin> set a"
  by (induction s arbitrary: a) (auto split: if_splits)

lemma split_once_None: "split_once c s = None \<longleftrightarrow> c \<notin> set s"
  by (induction s) auto

lemma rsplit_once_append: "c \<notin> set b \<Longrightarrow> rsplit_once c (a @ c # b) = Some (a, b)"
  by (simp add: rsplit_once_def split_once_append)

text \<open>\<open>str::contains\<close> for a literal pattern.\<close>

fun contains_str :: "string \<Rightarrow> string \<Rightarrow> bool" where
  "contains_str p [] = (p = [])"
| "contains_str p (x # xs) = (prefix p (x # xs) \<or> contains_str p xs)"

lemma contains_str_iff: "contains_str p s \<longleftrightarrow> sublist p s"
  by (induction s) (auto simp: sublist_Cons_right)

text \<open>\<open>to_ascii_lowercase\<close>.\<close>

definition ascii_lower_char :: "char \<Rightarrow> char" where
  "ascii_lower_char c =
     (let n = of_char c :: nat in if 65 \<le> n \<and> n \<le> 90 then char_of (n + 32) else c)"

definition to_ascii_lowercase :: "string \<Rightarrow> string" where
  "to_ascii_lowercase s = map ascii_lower_char s"

lemma ascii_lower_char_idem [simp]: "ascii_lower_char (ascii_lower_char c) = ascii_lower_char c"
proof -
  have "(of_char (char_of (n + 32)) :: nat) = n + 32" if "65 \<le> n" "n \<le> 90" for n :: nat
    using that by (simp add: of_char_of)
  then show ?thesis
    by (auto simp: ascii_lower_char_def Let_def)
qed

lemma to_ascii_lowercase_idem [simp]:
  "to_ascii_lowercase (to_ascii_lowercase s) = to_ascii_lowercase s"
  by (simp add: to_ascii_lowercase_def)

text \<open>
  \<open>str::trim\<close> removes the Unicode \<open>White_Space\<close> code points at both ends; these are
  their UTF-8 encodings. On valid UTF-8 no encoding is a proper part of another character.
\<close>

definition ws_encodings :: "string list" where
  "ws_encodings =
     [[CHR 0x09], [CHR 0x0A], [CHR 0x0B], [CHR 0x0C], [CHR 0x0D], [CHR 0x20],
      [CHR 0xC2, CHR 0x85], [CHR 0xC2, CHR 0xA0], [CHR 0xE1, CHR 0x9A, CHR 0x80],
      [CHR 0xE2, CHR 0x80, CHR 0x80], [CHR 0xE2, CHR 0x80, CHR 0x81],
      [CHR 0xE2, CHR 0x80, CHR 0x82], [CHR 0xE2, CHR 0x80, CHR 0x83],
      [CHR 0xE2, CHR 0x80, CHR 0x84], [CHR 0xE2, CHR 0x80, CHR 0x85],
      [CHR 0xE2, CHR 0x80, CHR 0x86], [CHR 0xE2, CHR 0x80, CHR 0x87],
      [CHR 0xE2, CHR 0x80, CHR 0x88], [CHR 0xE2, CHR 0x80, CHR 0x89],
      [CHR 0xE2, CHR 0x80, CHR 0x8A], [CHR 0xE2, CHR 0x80, CHR 0xA8],
      [CHR 0xE2, CHR 0x80, CHR 0xA9], [CHR 0xE2, CHR 0x80, CHR 0xAF],
      [CHR 0xE2, CHR 0x81, CHR 0x9F], [CHR 0xE3, CHR 0x80, CHR 0x80]]"

definition ws_len :: "string list \<Rightarrow> string \<Rightarrow> nat" where
  "ws_len ws s = (case find (\<lambda>w. prefix w s) ws of None \<Rightarrow> 0 | Some w \<Rightarrow> length w)"

lemma ws_len_Nil [simp]: "ws_len ws [] = 0"
  by (auto simp: ws_len_def find_Some_iff split: option.splits)

function trim_start_with :: "string list \<Rightarrow> string \<Rightarrow> string" where
  "trim_start_with ws s =
     (if ws_len ws s = 0 then s else trim_start_with ws (drop (ws_len ws s) s))"
  by pat_completeness auto
termination
proof (relation "measure (\<lambda>(ws, s). length s)")
  fix ws s assume "ws_len ws s \<noteq> 0"
  then have "s \<noteq> []" by auto
  with \<open>ws_len ws s \<noteq> 0\<close> show "((ws, drop (ws_len ws s) s), (ws, s)) \<in> measure (\<lambda>(ws, s). length s)"
    by simp
qed simp

declare trim_start_with.simps [simp del]

definition trim_str :: "string \<Rightarrow> string" where
  "trim_str s =
     rev (trim_start_with (map rev ws_encodings) (rev (trim_start_with ws_encodings s)))"

definition is_blank :: "string \<Rightarrow> bool" where
  "is_blank s \<longleftrightarrow> trim_str s = []"

lemma trim_str_Nil [simp]: "trim_str [] = []"
  by (simp add: trim_str_def trim_start_with.simps)

lemma is_blank_Nil [simp]: "is_blank []"
  by (simp add: is_blank_def)

section \<open>Bytes, UTF-8 and numbers\<close>

abbreviation byte :: "char \<Rightarrow> nat" where
  "byte c \<equiv> of_char c"

definition utf8_cont :: "char \<Rightarrow> bool" where
  "utf8_cont c \<longleftrightarrow> 0x80 \<le> byte c \<and> byte c \<le> 0xBF"

text \<open>\<open>String::from_utf8\<close> accepts exactly the well-formed byte sequences of the Unicode standard.\<close>

fun utf8_valid :: "string \<Rightarrow> bool" where
  "utf8_valid [] = True"
| "utf8_valid (b0 # r) =
    (if byte b0 < 0x80 then utf8_valid r
     else if 0xC2 \<le> byte b0 \<and> byte b0 \<le> 0xDF then
       (case r of b1 # r1 \<Rightarrow> utf8_cont b1 \<and> utf8_valid r1 | [] \<Rightarrow> False)
     else if 0xE0 \<le> byte b0 \<and> byte b0 \<le> 0xEF then
       (case r of b1 # b2 # r2 \<Rightarrow>
          utf8_cont b1 \<and> (byte b0 = 0xE0 \<longrightarrow> 0xA0 \<le> byte b1)
          \<and> (byte b0 = 0xED \<longrightarrow> byte b1 \<le> 0x9F) \<and> utf8_cont b2 \<and> utf8_valid r2
        | _ \<Rightarrow> False)
     else if 0xF0 \<le> byte b0 \<and> byte b0 \<le> 0xF4 then
       (case r of b1 # b2 # b3 # r3 \<Rightarrow>
          utf8_cont b1 \<and> (byte b0 = 0xF0 \<longrightarrow> 0x90 \<le> byte b1)
          \<and> (byte b0 = 0xF4 \<longrightarrow> byte b1 \<le> 0x8F) \<and> utf8_cont b2 \<and> utf8_cont b3 \<and> utf8_valid r3
        | _ \<Rightarrow> False)
     else False)"

lemma utf8_valid_ascii: "\<forall>c \<in> set s. byte c < 0x80 \<Longrightarrow> utf8_valid s"
  by (induction s) auto

text \<open>Decimal printing (\<open>Display\<close> of unsigned integers) and \<open>str::parse::<usize>\<close>.\<close>

fun dec_of_nat :: "nat \<Rightarrow> string" where
  "dec_of_nat n =
     (if n < 10 then [char_of (48 + n)] else dec_of_nat (n div 10) @ [char_of (48 + n mod 10)])"

declare dec_of_nat.simps [simp del]

definition dec_digit :: "char \<Rightarrow> nat option" where
  "dec_digit c = (if 48 \<le> byte c \<and> byte c \<le> 57 then Some (byte c - 48) else None)"

fun parse_digits :: "nat \<Rightarrow> string \<Rightarrow> nat option" where
  "parse_digits acc [] = Some acc"
| "parse_digits acc (c # cs) =
     (case dec_digit c of None \<Rightarrow> None | Some d \<Rightarrow> parse_digits (acc * 10 + d) cs)"

text \<open>One leading plus sign is accepted, an empty digit string is not, and overflow is an error.\<close>

definition parse_usize :: "string \<Rightarrow> usize option" where
  "parse_usize s =
     (let ds = (case s of c # cs \<Rightarrow> if c = CHR ''+'' then cs else s | [] \<Rightarrow> s)
      in if ds = [] then None
         else (case parse_digits 0 ds of
                 None \<Rightarrow> None | Some n \<Rightarrow> if n < 2 ^ 64 then Some n else None))"

lemma byte_digit [simp]: "n < 10 \<Longrightarrow> byte (char_of (48 + n)) = 48 + n"
  by (simp add: of_char_of)

lemma dec_digit_char [simp]: "n < 10 \<Longrightarrow> dec_digit (char_of (48 + n)) = Some n"
  by (simp add: dec_digit_def)

lemma parse_digits_append:
  "parse_digits acc (xs @ ys) =
     (case parse_digits acc xs of None \<Rightarrow> None | Some n \<Rightarrow> parse_digits n ys)"
  by (induction acc xs rule: parse_digits.induct) (auto split: option.splits)

lemma parse_digits_dec_of_nat: "parse_digits 0 (dec_of_nat n) = Some n"
proof (induction n rule: dec_of_nat.induct)
  case (1 n)
  show ?case
  proof (cases "n < 10")
    case True
    then show ?thesis by (simp add: dec_of_nat.simps[of n])
  next
    case False
    then show ?thesis
      using "1.IH" by (simp add: dec_of_nat.simps[of n] parse_digits_append)
  qed
qed

lemma dec_of_nat_digits: "c \<in> set (dec_of_nat n) \<Longrightarrow> 48 \<le> byte c \<and> byte c \<le> 57"
proof (induction n rule: dec_of_nat.induct)
  case (1 n)
  have m: "48 + n mod 10 \<le> 57" by simp
  show ?case
    using 1 by (subst (asm) (2) dec_of_nat.simps) (auto split: if_splits)
qed

lemma dec_of_nat_not_Nil [simp]: "dec_of_nat n \<noteq> []"
  by (subst dec_of_nat.simps) simp

lemma dec_of_nat_hd: "dec_of_nat n = c # cs \<Longrightarrow> c \<noteq> CHR ''+''"
  using dec_of_nat_digits[of c n] by auto

lemma parse_usize_dec_of_nat: "n < 2 ^ 64 \<Longrightarrow> parse_usize (dec_of_nat n) = Some n"
proof -
  assume n: "n < 2 ^ 64"
  obtain c cs where c: "dec_of_nat n = c # cs"
    by (cases "dec_of_nat n") auto
  then have "c \<noteq> CHR ''+''" by (rule dec_of_nat_hd)
  then show ?thesis
    using n c parse_digits_dec_of_nat[of n] by (auto simp: parse_usize_def Let_def)
qed

section \<open>Fixed-width arithmetic of the standard library\<close>

definition u64_max :: u64 where "u64_max = - 1"
definition u16_max :: u16 where "u16_max = - 1"

definition u64_of_usize :: "usize \<Rightarrow> u64" where
  "u64_of_usize n = (if n < 2 ^ 64 then of_nat n else u64_max)"

definition saturating_sub :: "'a::len word \<Rightarrow> 'a word \<Rightarrow> 'a word" where
  "saturating_sub a b = (if a < b then 0 else a - b)"

definition saturating_add :: "'a::len word \<Rightarrow> 'a word \<Rightarrow> 'a word" where
  "saturating_add a b = (if unat a + unat b < 2 ^ LENGTH('a) then a + b else - 1)"

definition checked_add :: "'a::len word \<Rightarrow> 'a word \<Rightarrow> 'a word option" where
  "checked_add a b = (if unat a + unat b < 2 ^ LENGTH('a) then Some (a + b) else None)"

lemma le_u64_max [simp]: "w \<le> u64_max"
  by (simp add: u64_max_def)

lemma unat_saturating_sub: "unat (saturating_sub a b) = unat a - unat b"
  by (auto simp: saturating_sub_def unat_sub_if' word_less_nat_alt word_le_nat_alt)

end
