(* ===== verification/Guild_Json.thy ===== *)
theory Guild_Json
  imports Guild_Prelude
begin

text \<open>
  JSON values as \<open>serde_json::Value\<close> has them. An object is a \<open>BTreeMap\<close> (the workspace
  enables no \<open>preserve_order\<close> feature), modelled as an association list kept sorted by
  key: \<open>json_obj\<close> is the \<open>json!({...})\<close> macro and \<open>json_get\<close> is \<open>Value::get\<close> with a
  string key. Integers are exact; a non-integral number carries its textual form.
\<close>

datatype json_number = NInt int | NFloat string

datatype json =
    JNull
  | JBool bool
  | JNumber json_number
  | JString string
  | JArray "json list"
  | JObject "(string \<times> json) list"

fun jinsert :: "string \<Rightarrow> 'v \<Rightarrow> (string \<times> 'v) list \<Rightarrow> (string \<times> 'v) list" where
  "jinsert k v [] = [(k, v)]"
| "jinsert k v ((k', v') # kvs) =
     (if k < k' then (k, v) # (k', v') # kvs
      else if k = k' then (k, v) # kvs
      else (k', v') # jinsert k v kvs)"

definition json_obj :: "(string \<times> json) list \<Rightarrow> json" where
  "json_obj kvs = JObject (foldl (\<lambda>m (k, v). jinsert k v m) [] kvs)"

fun json_get :: "json \<Rightarrow> string \<Rightarrow> json option" where
  "json_get (JObject kvs) k = map_of kvs k"
| "json_get _ k = None"

fun json_as_str :: "json \<Rightarrow> string option" where
  "json_as_str (JString s) = Some s"
| "json_as_str _ = None"

definition json_word :: "'a::len word \<Rightarrow> json" where
  "json_word w = JNumber (NInt (uint w))"

definition json_nat :: "nat \<Rightarrow> json" where
  "json_nat n = JNumber (NInt (int n))"

definition json_opt :: "('a \<Rightarrow> json) \<Rightarrow> 'a option \<Rightarrow> json" where
  "json_opt f x = (case x of None \<Rightarrow> JNull | Some y \<Rightarrow> f y)"

text \<open>A field with \<open>skip_serializing_if = "Option::is_none"\<close>.\<close>

definition opt_field :: "string \<Rightarrow> ('a \<Rightarrow> json) \<Rightarrow> 'a option \<Rightarrow> (string \<times> json) list" where
  "opt_field k f x = (case x of None \<Rightarrow> [] | Some y \<Rightarrow> [(k, f y)])"

section \<open>Lookup after construction\<close>

lemma map_of_jinsert [simp]: "map_of (jinsert k v kvs) = (map_of kvs)(k \<mapsto> v)"
  by (induction k v kvs rule: jinsert.induct) (auto simp: fun_eq_iff)

lemma map_of_foldl_jinsert:
  "map_of (foldl (\<lambda>m (k, v). jinsert k v m) acc kvs) k
     = (case map_of (rev kvs) k of None \<Rightarrow> map_of acc k | Some v \<Rightarrow> Some v)"
  by (induction kvs arbitrary: acc) (auto simp: map_add_def split: option.splits)

lemma json_get_obj: "json_get (json_obj kvs) k = map_of (rev kvs) k"
  by (simp add: json_obj_def map_of_foldl_jinsert split: option.splits)

lemma set_jinsert: "set (map fst (jinsert k v kvs)) = insert k (set (map fst kvs))"
  by (induction k v kvs rule: jinsert.induct) auto

lemma sorted_jinsert:
  "sorted_wrt (<) (map fst kvs) \<Longrightarrow> sorted_wrt (<) (map fst (jinsert k v kvs))"
proof (induction k v kvs rule: jinsert.induct)
  case (2 k v k' v' kvs)
  have "fst ` set (jinsert k v kvs) = insert k (fst ` set kvs)"
    using set_jinsert[of k v kvs] by simp
  then show ?case
    using 2 by (auto dest: less_trans)
qed simp

lemma sorted_foldl_jinsert:
  "sorted_wrt (<) (map fst acc) \<Longrightarrow>
     sorted_wrt (<) (map fst (foldl (\<lambda>m (k, v). jinsert k v m) acc kvs))"
  by (induction kvs arbitrary: acc) (auto simp: sorted_jinsert simp del: map_map)

text \<open>Objects built by the macro are sorted maps without duplicate keys.\<close>

lemma json_obj_sorted: "json_obj kvs = JObject m \<Longrightarrow> sorted_wrt (<) (map fst m)"
  using sorted_foldl_jinsert[of "[]" kvs] by (auto simp: json_obj_def)

end
