(* ===== verification/Guild_Types.thy ===== *)
theory Guild_Types
  imports Guild_Json
begin

text \<open>
  The shared data model of \<open>crates/guild-types/src/lib.rs\<close>: skill identity, capabilities and
  their family constraints, policy configuration, execution requests and records, with the
  label functions and the serde serialisation that the host uses in denials and reasons.

  Struct fields keep their source names where the name is unique; a field name that several
  structs share carries a short prefix. Semantic versions and version requirements belong to
  the \<open>semver\<close> crate; they appear through their canonical text.
\<close>

section \<open>Skill identity and enumerations\<close>

type_synonym semver_version = string
type_synonym semver_req = string

record SkillKey =
  sk_namespace :: string
  sk_name :: string

definition SkillKey_display :: "SkillKey \<Rightarrow> string" where
  "SkillKey_display k = sk_namespace k @ ''/'' @ sk_name k"

record RequestedSkillRef =
  rq_key :: SkillKey
  rq_version_req :: semver_req

record ResolvedSkillRef =
  rs_key :: SkillKey
  rs_version :: semver_version
  rs_digest :: string

datatype ManifestSchemaVersion = GuildManifestV1
datatype SkillApiVersion = Api_GuildSkillV1
datatype AbiVersion = Abi_GuildSkillV1 | Abi_GuildSkillInspectV1
datatype RuntimeKind = WasmComponent | InProcess | Process | Container
datatype SkillCategory = Inventory | Explain | Playbook | Transform
datatype Mutability = ReadOnly | Additive | Destructive
datatype FreshnessClass = Deterministic | EnvironmentBound | TimeBound
datatype ExecutionMode = Inspect | Plan | Apply

datatype CapabilityId =
    HttpRequest | ReadResource | InvokeSkill | EmitEvidence | GetSecret | CacheRead
  | CacheWrite | LogWrite | Filesystem | MonotonicClock | WallClock

fun CapabilityId_as_str :: "CapabilityId \<Rightarrow> string" where
  "CapabilityId_as_str HttpRequest = ''http-request''"
| "CapabilityId_as_str ReadResource = ''read-resource''"
| "CapabilityId_as_str InvokeSkill = ''invoke-skill''"
| "CapabilityId_as_str EmitEvidence = ''emit-evidence''"
| "CapabilityId_as_str GetSecret = ''get-secret''"
| "CapabilityId_as_str CacheRead = ''cache-read''"
| "CapabilityId_as_str CacheWrite = ''cache-write''"
| "CapabilityId_as_str LogWrite = ''log-write''"
| "CapabilityId_as_str Filesystem = ''filesystem''"
| "CapabilityId_as_str MonotonicClock = ''monotonic-clock''"
| "CapabilityId_as_str WallClock = ''wall-clock''"

definition capability_id_label :: "CapabilityId \<Rightarrow> string" where
  "capability_id_label i = CapabilityId_as_str i"

datatype CapabilityAccess = Read | Write | Invoke

fun capability_access_label :: "CapabilityAccess \<Rightarrow> string" where
  "capability_access_label Read = ''read''"
| "capability_access_label Write = ''write''"
| "capability_access_label Invoke = ''invoke''"

datatype HttpMethod = Get | Head
datatype HttpScheme = Http | Https
datatype ResourceKind = RK_Execution | RK_Object | RK_Query
datatype Severity = Info | Warn | Error
datatype EvidenceAudience = User | Assistant | Internal
datatype RedactionClass = RC_None | SecretsRemoved | PiiRemoved | TenantSensitive
datatype FilesystemOperation = FsRead | FsWrite | FsCreate | FsAppend

fun filesystem_operation_label :: "FilesystemOperation \<Rightarrow> string" where
  "filesystem_operation_label FsRead = ''read''"
| "filesystem_operation_label FsWrite = ''write''"
| "filesystem_operation_label FsCreate = ''create''"
| "filesystem_operation_label FsAppend = ''append''"

fun resource_kind_label :: "ResourceKind \<Rightarrow> string" where
  "resource_kind_label RK_Execution = ''execution''"
| "resource_kind_label RK_Object = ''object''"
| "resource_kind_label RK_Query = ''query''"

fun severity_label :: "Severity \<Rightarrow> string" where
  "severity_label Info = ''info''"
| "severity_label Warn = ''warn''"
| "severity_label Error = ''error''"

datatype ExecutionStatus = Succeeded | Failed | Partial | Rejected

fun execution_status_label :: "ExecutionStatus \<Rightarrow> string" where
  "execution_status_label Succeeded = ''succeeded''"
| "execution_status_label Failed = ''failed''"
| "execution_status_label Partial = ''partial''"
| "execution_status_label Rejected = ''rejected''"

datatype ExecutionPhase =
    Ph_Validation | Ph_Grant | Ph_Mode | Ph_RuntimeLoad | Ph_RuntimeExec | Ph_ChildInvocation
  | Ph_Persistence | Ph_SkillDomain

section \<open>Capability constraints\<close>

record ReadResourceConstraints =
  uri_prefixes :: "string list option"
  resource_kinds :: "ResourceKind list option"

record InvokeDependencyConstraints =
  aliases :: "string list option"

record EmitEvidenceConstraints =
  max_bytes :: "u64 option"
  audiences :: "EvidenceAudience list option"
  redactions :: "RedactionClass list option"

record LogConstraints =
  levels :: "Severity list option"

record FilesystemRoot =
  root_name :: string
  guest_path_prefix :: string
  host_path :: string
  operations :: "FilesystemOperation list"

record FilesystemConstraints =
  preopened_roots :: "FilesystemRoot list"

record HttpRequestConstraints =
  allowed_schemes :: "HttpScheme list option"
  allowed_hosts :: "string list option"
  allowed_host_suffixes :: "string list option"
  allowed_ports :: "u16 list option"
  allowed_methods :: "HttpMethod list option"
  allowed_path_prefixes :: "string list option"
  max_timeout_ms :: "u64 option"
  max_response_bytes :: "u64 option"
  follow_redirects :: "bool option"
  max_redirects :: "u8 option"
  allow_loopback :: "bool option"
  allow_link_local :: "bool option"
  allow_private_networks :: "bool option"
  allow_ip_literals :: "bool option"

text \<open>The derived \<open>Default\<close>: every restriction absent.\<close>

definition HttpRequestConstraints_default :: HttpRequestConstraints where
  "HttpRequestConstraints_default =
     \<lparr>allowed_schemes = None, allowed_hosts = None, allowed_host_suffixes = None,
      allowed_ports = None, allowed_methods = None, allowed_path_prefixes = None,
      max_timeout_ms = None, max_response_bytes = None, follow_redirects = None,
      max_redirects = None, allow_loopback = None, allow_link_local = None,
      allow_private_networks = None, allow_ip_literals = None\<rparr>"

datatype CapabilityConstraints =
    CC_None
  | CC_Filesystem FilesystemConstraints
  | CC_HttpRequest HttpRequestConstraints
  | CC_ReadResource ReadResourceConstraints
  | CC_InvokeDependency InvokeDependencyConstraints
  | CC_EmitEvidence EmitEvidenceConstraints
  | CC_Log LogConstraints

definition CapabilityConstraints_default :: CapabilityConstraints where
  "CapabilityConstraints_default = CC_None"

fun as_http_request :: "CapabilityConstraints \<Rightarrow> HttpRequestConstraints option" where
  "as_http_request (CC_HttpRequest v) = Some v"
| "as_http_request _ = None"

fun as_filesystem :: "CapabilityConstraints \<Rightarrow> FilesystemConstraints option" where
  "as_filesystem (CC_Filesystem v) = Some v"
| "as_filesystem _ = None"

fun as_read_resource :: "CapabilityConstraints \<Rightarrow> ReadResourceConstraints option" where
  "as_read_resource (CC_ReadResource v) = Some v"
| "as_read_resource _ = None"

fun as_invoke_dependency :: "CapabilityConstraints \<Rightarrow> InvokeDependencyConstraints option" where
  "as_invoke_dependency (CC_InvokeDependency v) = Some v"
| "as_invoke_dependency _ = None"

fun as_emit_evidence :: "CapabilityConstraints \<Rightarrow> EmitEvidenceConstraints option" where
  "as_emit_evidence (CC_EmitEvidence v) = Some v"
| "as_emit_evidence _ = None"

fun as_log :: "CapabilityConstraints \<Rightarrow> LogConstraints option" where
  "as_log (CC_Log v) = Some v"
| "as_log _ = None"

record CapabilityRequirement =
  req_id :: CapabilityId
  req_access :: CapabilityAccess
  req_constraints :: CapabilityConstraints
  required :: bool

record GrantedCapability =
  g_id :: CapabilityId
  g_access :: CapabilityAccess
  g_constraints :: CapabilityConstraints

record CapabilityGrantSet =
  grants :: "GrantedCapability list"

definition CapabilityGrantSet_default :: CapabilityGrantSet where
  "CapabilityGrantSet_default = \<lparr>grants = []\<rparr>"

record CapabilitySelector =
  sel_id :: CapabilityId
  sel_access :: CapabilityAccess

definition CapabilitySelector_matches :: "CapabilitySelector \<Rightarrow> GrantedCapability \<Rightarrow> bool" where
  "CapabilitySelector_matches s g \<longleftrightarrow> sel_id s = g_id g \<and> sel_access s = g_access g"

section \<open>Budgets, contexts and caller requests\<close>

record Budget =
  max_millis :: u64
  max_memory_bytes :: u64
  max_output_bytes :: u64
  max_network_requests :: u32
  max_child_executions :: u16

definition Budget_default :: Budget where
  "Budget_default =
     \<lparr>max_millis = 10000, max_memory_bytes = 64 * 1024 * 1024, max_output_bytes = 512 * 1024,
      max_network_requests = 8, max_child_executions = 4\<rparr>"

record ExecutionContext =
  cx_execution_id :: string
  cx_trace_id :: string
  cx_tenant_id :: string
  cx_skill :: ResolvedSkillRef
  cx_mode :: ExecutionMode
  cx_input_sha256 :: string
  cx_now_utc :: "string option"
  cx_budget :: Budget
  cx_granted_capabilities :: CapabilityGrantSet

record CallerRequest =
  cr_request_id :: string
  cr_skill :: RequestedSkillRef
  cr_tenant_id :: string
  cr_actor_id :: string
  cr_mode :: ExecutionMode
  cr_input :: json
  cr_budget :: Budget
  cr_requested_capabilities :: CapabilityGrantSet
  cr_idempotency_key :: "string option"
  cr_trace_id :: string

section \<open>Policy configuration and decisions\<close>

datatype LocalPolicyFormatVersion = GuildLocalPolicyV2
datatype LocalPolicyDefaultAction = AllowRequestedDeclared
datatype LocalTrustTier = LocalDev | TrustedImported | Restricted
datatype InstalledVerificationState = LocalSource | VerifiedImport
datatype PolicyRuleEffect = Deny | Cap
datatype PolicyRuleTarget = Any | Requested | Required

fun LocalTrustTier_display :: "LocalTrustTier \<Rightarrow> string" where
  "LocalTrustTier_display LocalDev = ''local-dev''"
| "LocalTrustTier_display TrustedImported = ''trusted-imported''"
| "LocalTrustTier_display Restricted = ''restricted''"

text \<open>\<open>FromStr\<close>; the error carries the rejected text.\<close>

definition LocalTrustTier_from_str :: "string \<Rightarrow> string + LocalTrustTier" where
  "LocalTrustTier_from_str s =
     (if s = ''local-dev'' then Inr LocalDev
      else if s = ''trusted-imported'' then Inr TrustedImported
      else if s = ''restricted'' then Inr Restricted
      else Inl s)"

fun InstalledVerificationState_display :: "InstalledVerificationState \<Rightarrow> string" where
  "InstalledVerificationState_display LocalSource = ''local-source''"
| "InstalledVerificationState_display VerifiedImport = ''verified-import''"

record PolicyReason =
  reason_code :: string
  reason_message :: string
  reason_detail :: "json option"

record PolicyRule =
  rule_name :: "string option"
  rule_skills :: "SkillKey list option"
  rule_publisher_ids :: "string list option"
  rule_trust_tiers :: "LocalTrustTier list option"
  rule_verification_states :: "InstalledVerificationState list option"
  applies_to :: PolicyRuleTarget
  effect :: PolicyRuleEffect
  rule_capabilities :: CapabilityGrantSet

record PolicyProfile =
  profile_name :: string
  default_action :: LocalPolicyDefaultAction
  rules :: "PolicyRule list"

record PolicyProfileBinding =
  binding_name :: "string option"
  binding_actor_ids :: "string list option"
  binding_tenant_ids :: "string list option"
  binding_profile :: string

record LocalPolicyConfig =
  format_version :: LocalPolicyFormatVersion
  default_profile :: string
  profiles :: "PolicyProfile list"
  bindings :: "PolicyProfileBinding list"

definition default_policy_profile :: PolicyProfile where
  "default_policy_profile =
     \<lparr>profile_name = ''default'', default_action = AllowRequestedDeclared, rules = []\<rparr>"

definition LocalPolicyConfig_default :: LocalPolicyConfig where
  "LocalPolicyConfig_default =
     \<lparr>format_version = GuildLocalPolicyV2, default_profile = ''default'',
      profiles = [default_policy_profile], bindings = []\<rparr>"

datatype PolicyDecisionOutcome = Allowed | Reduced | PD_Rejected

datatype AdmissionDisposition = AD_Allow | AD_Deny | AD_AskHuman | AD_ElevateIsolation

fun as_admission_disposition :: "PolicyDecisionOutcome \<Rightarrow> AdmissionDisposition" where
  "as_admission_disposition Allowed = AD_Allow"
| "as_admission_disposition Reduced = AD_Allow"
| "as_admission_disposition PD_Rejected = AD_Deny"

record PolicyDecision =
  outcome :: PolicyDecisionOutcome
  pd_summary :: string
  pd_profile_name :: string
  pd_trust_tier :: LocalTrustTier
  pd_verification_state :: InstalledVerificationState
  reasons :: "PolicyReason list"
  pd_detail :: "json option"

record ResolvedExecutionEnvelope =
  env_request :: CallerRequest
  env_resolved_skill :: ResolvedSkillRef
  env_granted_capabilities :: CapabilityGrantSet
  env_policy_decision :: PolicyDecision
  env_parent_execution_id :: "string option"

section \<open>Guest-visible requests and results\<close>

record EvidenceEmissionRequest =
  ee_payload :: string
  ee_mime_type :: string
  ee_title :: "string option"
  ee_audience :: EvidenceAudience
  ee_redaction :: RedactionClass
  ee_freshness :: "string option"

record HttpRequestMsg =
  hr_method :: HttpMethod
  hr_url :: string
  hr_timeout_ms :: "u64 option"

record HttpResponse =
  resp_url :: string
  resp_status :: u16
  resp_content_type :: "string option"
  resp_body :: string

datatype HttpAddressFamily = Ipv4 | Ipv6

record HttpResolvedAddress =
  ra_address :: string
  ra_family :: HttpAddressFamily

record HttpResolutionBinding =
  rb_requested_host :: string
  rb_port :: u16
  rb_addresses :: "HttpResolvedAddress list"
  rb_loopback_only :: bool

record SkillError =
  se_code :: string
  se_message :: string
  se_retryable :: bool
  se_detail :: "json option"

end
