(* ===== verification/Guild_Resource_Uri.thy ===== *)
theory Guild_Resource_Uri
  imports Guild_Types
begin

text \<open>
  Guild resource URIs (\<open>crates/guild-types/src/lib.rs\<close>): percent encoding of path components,
  the canonical execution-query URIs, the resource scopes used by \<open>read-resource\<close> grants,
  and the parser for concrete resource URIs. The lemmas show that the canonical printers are
  inverted by the parsers and that a parsed URI lies under the prefix of its scope.
\<close>

section \<open>Percent encoding\<close>

definition is_unreserved :: "char \<Rightarrow> bool" where
  "is_unreserved c \<longleftrightarrow>
     (65 \<le> byte c \<and> byte c \<le> 90) \<or> (97 \<le> byte c \<and> byte c \<le> 122) \<or> (48 \<le> byte c \<and> byte c \<le> 57)
     \<or> c = CHR ''-'' \<or> c = CHR ''_'' \<or> c = CHR ''.'' \<or> c = CHR ''~''"

definition hex_upper_digit :: "nat \<Rightarrow> char" where
  "hex_upper_digit n = (if n < 10 then char_of (48 + n) else char_of (55 + n))"

fun percent_encode_component :: "string \<Rightarrow> string" where
  "percent_encode_component [] = []"
| "percent_encode_component (c # cs) =
     (if is_unreserved c then c # percent_encode_component cs
      else CHR ''%'' # hex_upper_digit (byte c div 16) # hex_upper_digit (byte c mod 16)
           # percent_encode_component cs)"

definition hex_nibble :: "char \<Rightarrow> nat option" where
  "hex_nibble c =
     (if 48 \<le> byte c \<and> byte c \<le> 57 then Some (byte c - 48)
      else if 97 \<le> byte c \<and> byte c \<le> 102 then Some (byte c - 97 + 10)
      else if 65 \<le> byte c \<and> byte c \<le> 70 then Some (byte c - 65 + 10)
      else None)"

text \<open>The byte loop; \<open>16 * high + low\<close> is \<open>(high << 4) | low\<close> for nibbles.\<close>

fun percent_decode_bytes :: "string \<Rightarrow> string + string" where
  "percent_decode_bytes [] = Inr []"
| "percent_decode_bytes (c # cs) =
     (if c = CHR ''%'' then
        (case cs of
           h # l # rest \<Rightarrow>
             (case (hex_nibble h, hex_nibble l) of
                (Some high, Some low) \<Rightarrow>
                  res_bind (percent_decode_bytes rest)
                    (\<lambda>bs. Inr (char_of (16 * high + low) # bs))
              | _ \<Rightarrow> Inl ''invalid escape sequence'')
         | _ \<Rightarrow> Inl ''truncated escape sequence'')
      else res_bind (percent_decode_bytes cs) (\<lambda>bs. Inr (c # bs)))"

definition percent_decode_component :: "string \<Rightarrow> string + string" where
  "percent_decode_component s =
     res_bind (percent_decode_bytes s)
       (\<lambda>bs. if utf8_valid bs then Inr bs else Inl ''decoded component was not valid UTF-8'')"

lemma hex_nibble_upper: "n < 16 \<Longrightarrow> hex_nibble (hex_upper_digit n) = Some n"
  by (auto simp: hex_nibble_def hex_upper_digit_def of_char_of)

lemma percent_decode_encode_bytes: "percent_decode_bytes (percent_encode_component s) = Inr s"
proof (induction s)
  case (Cons c cs)
  have "byte c div 16 < 16"
    using nat_of_char_less_256[of c] by (simp only: div_less_iff_less_mult)
  moreover have "char_of (16 * (byte c div 16) + byte c mod 16) = c"
    by simp
  moreover have "is_unreserved c \<Longrightarrow> c \<noteq> CHR ''%''"
    by (auto simp: is_unreserved_def)
  ultimately show ?case
    using Cons.IH by (auto simp: hex_nibble_upper)
qed simp

lemma percent_decode_encode: "utf8_valid s \<Longrightarrow> percent_decode_component (percent_encode_component s) = Inr s"
  by (simp add: percent_decode_component_def percent_decode_encode_bytes)

lemma hex_upper_digit_unreserved: "n < 16 \<Longrightarrow> is_unreserved (hex_upper_digit n)"
  by (auto simp: is_unreserved_def hex_upper_digit_def of_char_of)

lemma percent_encode_chars: "c \<in> set (percent_encode_component s) \<Longrightarrow> is_unreserved c \<or> c = CHR ''%''"
proof (induction s)
  case (Cons x xs)
  have "byte x div 16 < 16"
    using nat_of_char_less_256[of x] by (simp only: div_less_iff_less_mult)
  then show ?case
    using Cons by (auto simp: hex_upper_digit_unreserved split: if_splits)
qed simp

lemma percent_encode_no_slash: "CHR ''/'' \<notin> set (percent_encode_component s)"
  using percent_encode_chars[of "CHR ''/''" s] by (auto simp: is_unreserved_def)

lemma percent_encode_Nil_iff [simp]: "percent_encode_component s = [] \<longleftrightarrow> s = []"
  by (cases s) auto

lemma percent_decode_valid: "percent_decode_component s = Inr t \<Longrightarrow> utf8_valid t"
  by (auto simp: percent_decode_component_def res_bind_Inr_iff split: if_splits)

section \<open>URI prefixes and scopes\<close>

definition GUILD_EXECUTION_URI_PREFIX :: string where
  [simp]: "GUILD_EXECUTION_URI_PREFIX = ''guild://executions/''"
definition GUILD_OBJECT_BLOB_URI_PREFIX :: string where
  [simp]: "GUILD_OBJECT_BLOB_URI_PREFIX = ''guild://objects/sha256/''"
definition GUILD_OBJECT_RECORD_URI_PREFIX :: string where
  [simp]: "GUILD_OBJECT_RECORD_URI_PREFIX = ''guild://objects/records/''"
definition GUILD_OBJECT_RECORD_METADATA_URI_SUFFIX :: string where
  [simp]: "GUILD_OBJECT_RECORD_METADATA_URI_SUFFIX = ''/metadata''"
definition GUILD_EXECUTION_QUERY_URI_PREFIX :: string where
  [simp]: "GUILD_EXECUTION_QUERY_URI_PREFIX = ''guild://queries/executions/''"
definition MAX_EXECUTION_QUERY_LIMIT :: usize where
  [simp]: "MAX_EXECUTION_QUERY_LIMIT = 50"

text \<open>\<open>GuildResourceParseError\<close> wraps its message.\<close>

datatype GuildResourceParseError = GuildResourceParseError string

datatype GuildResourceScope =
  Scope_Execution | Scope_ObjectBlob | Scope_ObjectRecord | Scope_ExecutionQuery

definition GuildResourceScope_parse :: "string \<Rightarrow> GuildResourceParseError + GuildResourceScope" where
  "GuildResourceScope_parse scope =
     (if scope = GUILD_EXECUTION_URI_PREFIX then Inr Scope_Execution
      else if scope = GUILD_OBJECT_BLOB_URI_PREFIX then Inr Scope_ObjectBlob
      else if scope = GUILD_OBJECT_RECORD_URI_PREFIX then Inr Scope_ObjectRecord
      else if scope = GUILD_EXECUTION_QUERY_URI_PREFIX then Inr Scope_ExecutionQuery
      else Inl (GuildResourceParseError
        (''read-resource uri_prefixes must use canonical Guild scope roots: `''
         @ GUILD_EXECUTION_URI_PREFIX @ ''`, `'' @ GUILD_OBJECT_BLOB_URI_PREFIX @ ''`, `''
         @ GUILD_OBJECT_RECORD_URI_PREFIX @ ''`, or `'' @ GUILD_EXECUTION_QUERY_URI_PREFIX @ ''`'')))"

fun GuildResourceScope_kind :: "GuildResourceScope \<Rightarrow> ResourceKind" where
  "GuildResourceScope_kind Scope_Execution = RK_Execution"
| "GuildResourceScope_kind Scope_ObjectBlob = RK_Object"
| "GuildResourceScope_kind Scope_ObjectRecord = RK_Object"
| "GuildResourceScope_kind Scope_ExecutionQuery = RK_Query"

fun canonical_prefix :: "GuildResourceScope \<Rightarrow> string" where
  "canonical_prefix Scope_Execution = GUILD_EXECUTION_URI_PREFIX"
| "canonical_prefix Scope_ObjectBlob = GUILD_OBJECT_BLOB_URI_PREFIX"
| "canonical_prefix Scope_ObjectRecord = GUILD_OBJECT_RECORD_URI_PREFIX"
| "canonical_prefix Scope_ExecutionQuery = GUILD_EXECUTION_QUERY_URI_PREFIX"

lemma scope_parse_canonical [simp]: "GuildResourceScope_parse (canonical_prefix s) = Inr s"
  by (cases s) (simp_all add: GuildResourceScope_parse_def)

lemma scope_parse_Inr_iff: "GuildResourceScope_parse p = Inr s \<longleftrightarrow> p = canonical_prefix s"
proof
  assume "GuildResourceScope_parse p = Inr s"
  then show "p = canonical_prefix s"
    by (auto simp: GuildResourceScope_parse_def split: if_splits)
qed simp

lemma canonical_prefix_inject [simp]: "canonical_prefix s = canonical_prefix t \<longleftrightarrow> s = t"
  by (metis scope_parse_canonical sum.inject(2))

section \<open>Execution queries\<close>

datatype ExecutionQueryResource =
    Q_Recent usize
  | Q_FailuresRecent usize
  | Q_ByStatus ExecutionStatus usize
  | Q_BySkill string string usize

fun ExecutionQueryResource_limit :: "ExecutionQueryResource \<Rightarrow> usize" where
  "ExecutionQueryResource_limit (Q_Recent l) = l"
| "ExecutionQueryResource_limit (Q_FailuresRecent l) = l"
| "ExecutionQueryResource_limit (Q_ByStatus s l) = l"
| "ExecutionQueryResource_limit (Q_BySkill ns n l) = l"

definition parse_execution_query_status :: "string \<Rightarrow> GuildResourceParseError + ExecutionStatus" where
  "parse_execution_query_status segment =
     (if segment = ''succeeded'' then Inr Succeeded
      else if segment = ''failed'' then Inr Failed
      else if segment = ''partial'' then Inr Partial
      else if segment = ''rejected'' then Inr Rejected
      else Inl (GuildResourceParseError (''unsupported execution query status `'' @ segment @ ''`'')))"

definition parse_execution_query_limit :: "string \<Rightarrow> GuildResourceParseError + usize" where
  "parse_execution_query_limit segment =
     (case parse_usize segment of
        None \<Rightarrow> Inl (GuildResourceParseError
          ''execution query limit must be a positive base-10 integer'')
      | Some limit \<Rightarrow>
          if 1 \<le> limit \<and> limit \<le> MAX_EXECUTION_QUERY_LIMIT then Inr limit
          else Inl (GuildResourceParseError
            (''execution query limit must be between 1 and '' @ dec_of_nat MAX_EXECUTION_QUERY_LIMIT)))"

text \<open>The literal segments of the query paths.\<close>

abbreviation seg_recent :: string where "seg_recent \<equiv> ''recent''"
abbreviation seg_failures :: string where "seg_failures \<equiv> ''failures''"
abbreviation seg_by_status :: string where "seg_by_status \<equiv> ''by-status''"
abbreviation seg_by_skill :: string where "seg_by_skill \<equiv> ''by-skill''"

definition parse_by_skill ::
  "string \<Rightarrow> string \<Rightarrow> string \<Rightarrow> GuildResourceParseError + ExecutionQueryResource" where
  "parse_by_skill namespace name limit =
     res_bind (map_err (\<lambda>e. GuildResourceParseError
         (''execution query namespace contained invalid percent encoding: '' @ e))
         (percent_decode_component namespace)) (\<lambda>namespace.
     res_bind (map_err (\<lambda>e. GuildResourceParseError
         (''execution query skill name contained invalid percent encoding: '' @ e))
         (percent_decode_component name)) (\<lambda>name.
     if namespace = [] \<or> name = [] then
       Inl (GuildResourceParseError
         ''execution query skill path must contain non-empty namespace and name'')
     else res_bind (parse_execution_query_limit limit) (\<lambda>limit. Inr (Q_BySkill namespace name limit))))"

abbreviation query_path_error :: "GuildResourceParseError + ExecutionQueryResource" where
  "query_path_error \<equiv> Inl (GuildResourceParseError
     ''execution query URI did not match a supported local Guild query path'')"

text \<open>The slice patterns of \<open>parse_uri\<close>, in source order.\<close>

fun query_of_segments :: "string list \<Rightarrow> GuildResourceParseError + ExecutionQueryResource" where
  "query_of_segments [a, limit] =
     (if a = seg_recent then
        res_bind (parse_execution_query_limit limit) (\<lambda>l. Inr (Q_Recent l))
      else query_path_error)"
| "query_of_segments [a, b, limit] =
     (if a = seg_failures \<and> b = seg_recent then
        res_bind (parse_execution_query_limit limit) (\<lambda>l. Inr (Q_FailuresRecent l))
      else if a = seg_by_status then
        res_bind (parse_execution_query_status b) (\<lambda>s.
        res_bind (parse_execution_query_limit limit) (\<lambda>l. Inr (Q_ByStatus s l)))
      else query_path_error)"
| "query_of_segments [a, namespace, name, limit] =
     (if a = seg_by_skill then parse_by_skill namespace name limit else query_path_error)"
| "query_of_segments _ = query_path_error"

definition ExecutionQueryResource_parse_uri ::
  "string \<Rightarrow> GuildResourceParseError + ExecutionQueryResource" where
  "ExecutionQueryResource_parse_uri uri =
     (case strip_prefix GUILD_EXECUTION_QUERY_URI_PREFIX uri of
        None \<Rightarrow> Inl (GuildResourceParseError
          (''execution query URI must start with `'' @ GUILD_EXECUTION_QUERY_URI_PREFIX @ ''`''))
      | Some path \<Rightarrow> query_of_segments (split_on CHR ''/'' path))"

fun canonical_uri :: "ExecutionQueryResource \<Rightarrow> string" where
  "canonical_uri (Q_Recent limit) = GUILD_EXECUTION_QUERY_URI_PREFIX @ ''recent/'' @ dec_of_nat limit"
| "canonical_uri (Q_FailuresRecent limit) =
     GUILD_EXECUTION_QUERY_URI_PREFIX @ ''failures/recent/'' @ dec_of_nat limit"
| "canonical_uri (Q_ByStatus status limit) =
     GUILD_EXECUTION_QUERY_URI_PREFIX @ ''by-status/'' @ execution_status_label status
       @ ''/'' @ dec_of_nat limit"
| "canonical_uri (Q_BySkill namespace name limit) =
     GUILD_EXECUTION_QUERY_URI_PREFIX @ ''by-skill/'' @ percent_encode_component namespace
       @ ''/'' @ percent_encode_component name @ ''/'' @ dec_of_nat limit"

text \<open>The queries that the API can build: a limit in range and proper skill names.\<close>

fun query_wf :: "ExecutionQueryResource \<Rightarrow> bool" where
  "query_wf (Q_BySkill namespace name limit) \<longleftrightarrow>
     1 \<le> limit \<and> limit \<le> MAX_EXECUTION_QUERY_LIMIT \<and> namespace \<noteq> [] \<and> name \<noteq> []
     \<and> utf8_valid namespace \<and> utf8_valid name"
| "query_wf q \<longleftrightarrow>
     1 \<le> ExecutionQueryResource_limit q \<and> ExecutionQueryResource_limit q \<le> MAX_EXECUTION_QUERY_LIMIT"

lemma parse_limit_Inr: "parse_execution_query_limit s = Inr l \<Longrightarrow> 1 \<le> l \<and> l \<le> MAX_EXECUTION_QUERY_LIMIT"
  by (auto simp: parse_execution_query_limit_def split: option.splits if_splits)

lemma parse_limit_dec:
  "1 \<le> l \<Longrightarrow> l \<le> MAX_EXECUTION_QUERY_LIMIT \<Longrightarrow> parse_execution_query_limit (dec_of_nat l) = Inr l"
  by (simp add: parse_execution_query_limit_def parse_usize_dec_of_nat)

lemma parse_status_label [simp]: "parse_execution_query_status (execution_status_label s) = Inr s"
  by (cases s) (simp_all add: parse_execution_query_status_def)

lemma dec_of_nat_no_slash: "CHR ''/'' \<notin> set (dec_of_nat n)"
  using dec_of_nat_digits[of "CHR ''/''" n] by auto

lemma status_label_no_slash: "CHR ''/'' \<notin> set (execution_status_label s)"
  by (cases s) auto

lemma split_sep2: "c \<notin> set a \<Longrightarrow> c \<notin> set b \<Longrightarrow> split_on c (a @ c # b) = [a, b]"
  by (simp add: split_on_append_sep split_on_no_sep)

lemma split_sep3:
  "c \<notin> set a \<Longrightarrow> c \<notin> set b \<Longrightarrow> c \<notin> set d \<Longrightarrow> split_on c (a @ c # b @ c # d) = [a, b, d]"
  by (simp add: split_on_append_sep split_on_no_sep)

lemma split_sep4:
  "c \<notin> set a \<Longrightarrow> c \<notin> set b \<Longrightarrow> c \<notin> set d \<Longrightarrow> c \<notin> set e \<Longrightarrow>
     split_on c (a @ c # b @ c # d @ c # e) = [a, b, d, e]"
  by (simp add: split_on_append_sep split_on_no_sep)

lemma parse_uri_prefix:
  "ExecutionQueryResource_parse_uri (GUILD_EXECUTION_QUERY_URI_PREFIX @ path)
     = query_of_segments (split_on CHR ''/'' path)"
  unfolding ExecutionQueryResource_parse_uri_def strip_prefix_append option.case ..

lemma parse_by_skill_encoded:
  assumes "namespace \<noteq> []" "name \<noteq> []" "utf8_valid namespace" "utf8_valid name"
    and "1 \<le> l" "l \<le> MAX_EXECUTION_QUERY_LIMIT"
  shows "parse_by_skill (percent_encode_component namespace) (percent_encode_component name)
           (dec_of_nat l) = Inr (Q_BySkill namespace name l)"
  using assms by (simp add: parse_by_skill_def percent_decode_encode parse_limit_dec)

lemma parse_by_skill_wf: "parse_by_skill ns n l = Inr q \<Longrightarrow> query_wf q"
  by (auto simp: parse_by_skill_def res_bind_Inr_iff split: if_splits
      dest!: parse_limit_Inr percent_decode_valid)

lemma query_of_segments_wf: "query_of_segments segs = Inr q \<Longrightarrow> query_wf q"
  by (induction segs rule: query_of_segments.induct)
    (auto simp: res_bind_Inr_iff split: if_splits dest!: parse_limit_Inr parse_by_skill_wf)

text \<open>Printing a well-formed query and parsing it back.\<close>

lemma query_roundtrip: "query_wf q \<Longrightarrow> ExecutionQueryResource_parse_uri (canonical_uri q) = Inr q"
proof (induction q)
  case (Q_Recent l)
  have "split_on CHR ''/'' (seg_recent @ CHR ''/'' # dec_of_nat l) = [seg_recent, dec_of_nat l]"
    by (rule split_sep2) (simp_all add: dec_of_nat_no_slash)
  with Q_Recent show ?case
    unfolding canonical_uri.simps parse_uri_prefix by (simp add: parse_limit_dec)
next
  case (Q_FailuresRecent l)
  have "split_on CHR ''/'' (seg_failures @ CHR ''/'' # seg_recent @ CHR ''/'' # dec_of_nat l)
          = [seg_failures, seg_recent, dec_of_nat l]"
    by (rule split_sep3) (simp_all add: dec_of_nat_no_slash)
  with Q_FailuresRecent show ?case
    unfolding canonical_uri.simps parse_uri_prefix by (simp add: parse_limit_dec)
next
  case (Q_ByStatus st l)
  have "split_on CHR ''/'' (seg_by_status @ CHR ''/'' # execution_status_label st @ CHR ''/'' # dec_of_nat l)
          = [seg_by_status, execution_status_label st, dec_of_nat l]"
    by (rule split_sep3) (simp_all add: dec_of_nat_no_slash status_label_no_slash)
  with Q_ByStatus show ?case
    unfolding canonical_uri.simps parse_uri_prefix by (simp add: parse_limit_dec)
next
  case (Q_BySkill ns n l)
  have "split_on CHR ''/'' (seg_by_skill @ CHR ''/'' # percent_encode_component ns @ CHR ''/''
            # percent_encode_component n @ CHR ''/'' # dec_of_nat l)
          = [seg_by_skill, percent_encode_component ns, percent_encode_component n, dec_of_nat l]"
    by (rule split_sep4) (simp_all add: dec_of_nat_no_slash percent_encode_no_slash)
  with Q_BySkill show ?case
    unfolding canonical_uri.simps parse_uri_prefix by (simp add: parse_by_skill_encoded)
qed

section \<open>Concrete resource URIs\<close>

datatype GuildResourceUri =
    Uri_Execution string
  | Uri_ObjectBlob string
  | Uri_ObjectRecord string
  | Uri_ObjectRecordMetadata string
  | Uri_ExecutionQuery ExecutionQueryResource

definition is_lower_hex_digit :: "char \<Rightarrow> bool" where
  "is_lower_hex_digit c \<longleftrightarrow>
     (48 \<le> byte c \<and> byte c \<le> 57) \<or> (97 \<le> byte c \<and> byte c \<le> 102)"

abbreviation uri_error :: "string \<Rightarrow> GuildResourceParseError + GuildResourceUri" where
  "uri_error m \<equiv> Inl (GuildResourceParseError m)"

definition parse_execution_part :: "string \<Rightarrow> GuildResourceParseError + GuildResourceUri" where
  "parse_execution_part encoded =
     (if encoded = [] then
        uri_error ''execution resource URI must contain a non-empty execution identifier''
      else
        res_bind (map_err (\<lambda>e. GuildResourceParseError
            (''execution resource URI contained invalid percent encoding: '' @ e))
            (percent_decode_component encoded)) (\<lambda>execution_id.
        if execution_id = [] then
          uri_error ''execution resource URI must contain a non-empty execution identifier''
        else Inr (Uri_Execution execution_id)))"

definition parse_blob_part :: "string \<Rightarrow> GuildResourceParseError + GuildResourceUri" where
  "parse_blob_part digest_hex =
     (if digest_hex = [] \<or> \<not> list_all is_lower_hex_digit digest_hex then
        uri_error ''object blob URI must contain a lowercase hexadecimal sha256 digest''
      else Inr (Uri_ObjectBlob digest_hex))"

definition parse_record_part :: "string \<Rightarrow> GuildResourceParseError + GuildResourceUri" where
  "parse_record_part encoded =
     (if encoded = [] then
        uri_error ''evidence record URI must contain a non-empty record identifier''
      else
        (let (encoded_record_id, metadata) =
           (case strip_suffix GUILD_OBJECT_RECORD_METADATA_URI_SUFFIX encoded of
              None \<Rightarrow> (encoded, False) | Some record_id \<Rightarrow> (record_id, True))
         in if encoded_record_id = [] then
              uri_error ''evidence record URI must contain a non-empty record identifier''
            else if CHR ''/'' \<in> set encoded_record_id then
              uri_error ''evidence record URI did not match a supported local Guild object path''
            else
              res_bind (map_err (\<lambda>e. GuildResourceParseError
                  (''evidence record URI contained invalid percent encoding: '' @ e))
                  (percent_decode_component encoded_record_id)) (\<lambda>evidence_record_id.
              if evidence_record_id = [] then
                uri_error ''evidence record URI must contain a non-empty record identifier''
              else Inr (if metadata then Uri_ObjectRecordMetadata evidence_record_id
                        else Uri_ObjectRecord evidence_record_id))))"

definition GuildResourceUri_parse :: "string \<Rightarrow> GuildResourceParseError + GuildResourceUri" where
  "GuildResourceUri_parse uri =
     (if prefix GUILD_EXECUTION_QUERY_URI_PREFIX uri then
        res_bind (ExecutionQueryResource_parse_uri uri) (\<lambda>query. Inr (Uri_ExecutionQuery query))
      else (case strip_prefix GUILD_EXECUTION_URI_PREFIX uri of
        Some encoded \<Rightarrow> parse_execution_part encoded
      | None \<Rightarrow> (case strip_prefix GUILD_OBJECT_BLOB_URI_PREFIX uri of
          Some digest_hex \<Rightarrow> parse_blob_part digest_hex
        | None \<Rightarrow> (case strip_prefix GUILD_OBJECT_RECORD_URI_PREFIX uri of
            Some encoded \<Rightarrow> parse_record_part encoded
          | None \<Rightarrow> uri_error ''resource URI did not match a supported local Guild resource''))))"

fun GuildResourceUri_kind :: "GuildResourceUri \<Rightarrow> ResourceKind" where
  "GuildResourceUri_kind (Uri_Execution _) = RK_Execution"
| "GuildResourceUri_kind (Uri_ObjectBlob _) = RK_Object"
| "GuildResourceUri_kind (Uri_ObjectRecord _) = RK_Object"
| "GuildResourceUri_kind (Uri_ObjectRecordMetadata _) = RK_Object"
| "GuildResourceUri_kind (Uri_ExecutionQuery _) = RK_Query"

fun GuildResourceUri_scope :: "GuildResourceUri \<Rightarrow> GuildResourceScope" where
  "GuildResourceUri_scope (Uri_Execution _) = Scope_Execution"
| "GuildResourceUri_scope (Uri_ObjectBlob _) = Scope_ObjectBlob"
| "GuildResourceUri_scope (Uri_ObjectRecord _) = Scope_ObjectRecord"
| "GuildResourceUri_scope (Uri_ObjectRecordMetadata _) = Scope_ObjectRecord"
| "GuildResourceUri_scope (Uri_ExecutionQuery _) = Scope_ExecutionQuery"

fun GuildResourceScope_matches :: "GuildResourceScope \<Rightarrow> GuildResourceUri \<Rightarrow> bool" where
  "GuildResourceScope_matches Scope_Execution (Uri_Execution _) = True"
| "GuildResourceScope_matches Scope_ObjectBlob (Uri_ObjectBlob _) = True"
| "GuildResourceScope_matches Scope_ObjectRecord (Uri_ObjectRecord _) = True"
| "GuildResourceScope_matches Scope_ObjectRecord (Uri_ObjectRecordMetadata _) = True"
| "GuildResourceScope_matches Scope_ExecutionQuery (Uri_ExecutionQuery _) = True"
| "GuildResourceScope_matches _ _ = False"

definition ResourceKind_from_uri :: "string \<Rightarrow> ResourceKind option" where
  "ResourceKind_from_uri uri = map_option GuildResourceUri_kind (res_ok (GuildResourceUri_parse uri))"

definition ResourceKind_from_uri_prefix :: "string \<Rightarrow> ResourceKind option" where
  "ResourceKind_from_uri_prefix p = map_option GuildResourceScope_kind (res_ok (GuildResourceScope_parse p))"

text \<open>The host-side printers of \<open>crates/guild-registry/src/lib.rs\<close>.\<close>

definition execution_resource_uri :: "string \<Rightarrow> string" where
  "execution_resource_uri execution_id =
     GUILD_EXECUTION_URI_PREFIX @ percent_encode_component execution_id"

definition object_resource_uri :: "string \<Rightarrow> string" where
  "object_resource_uri digest_hex = GUILD_OBJECT_BLOB_URI_PREFIX @ digest_hex"

definition evidence_record_resource_uri :: "string \<Rightarrow> string" where
  "evidence_record_resource_uri evidence_record_id =
     GUILD_OBJECT_RECORD_URI_PREFIX @ percent_encode_component evidence_record_id"

definition evidence_record_metadata_resource_uri :: "string \<Rightarrow> string" where
  "evidence_record_metadata_resource_uri evidence_record_id =
     GUILD_OBJECT_RECORD_URI_PREFIX @ percent_encode_component evidence_record_id
       @ GUILD_OBJECT_RECORD_METADATA_URI_SUFFIX"

lemma kind_of_scope [simp]: "GuildResourceScope_kind (GuildResourceUri_scope u) = GuildResourceUri_kind u"
  by (cases u) simp_all

lemma scope_matches_iff: "GuildResourceScope_matches s u \<longleftrightarrow> s = GuildResourceUri_scope u"
  by (cases s; cases u) simp_all

section \<open>Parsing inverts printing\<close>

lemma strip_suffix_metadata_encoded:
  "strip_suffix GUILD_OBJECT_RECORD_METADATA_URI_SUFFIX (percent_encode_component s) = None"
proof -
  have "\<not> suffix GUILD_OBJECT_RECORD_METADATA_URI_SUFFIX (percent_encode_component s)"
    using percent_encode_no_slash[of s] by (auto simp: suffix_def)
  then show ?thesis by (simp add: strip_suffix_def)
qed

lemma parse_execution_resource_uri:
  "execution_id \<noteq> [] \<Longrightarrow> utf8_valid execution_id \<Longrightarrow>
     GuildResourceUri_parse (execution_resource_uri execution_id) = Inr (Uri_Execution execution_id)"
  unfolding GuildResourceUri_parse_def execution_resource_uri_def strip_prefix_append
  by (simp add: parse_execution_part_def percent_decode_encode)

lemma parse_object_resource_uri:
  "digest_hex \<noteq> [] \<Longrightarrow> list_all is_lower_hex_digit digest_hex \<Longrightarrow>
     GuildResourceUri_parse (object_resource_uri digest_hex) = Inr (Uri_ObjectBlob digest_hex)"
  by (simp add: GuildResourceUri_parse_def object_resource_uri_def strip_prefix_def parse_blob_part_def)

lemma parse_record_resource_uri:
  "i \<noteq> [] \<Longrightarrow> utf8_valid i \<Longrightarrow>
     GuildResourceUri_parse (evidence_record_resource_uri i) = Inr (Uri_ObjectRecord i)"
  using strip_suffix_metadata_encoded[of i]
  by (simp add: GuildResourceUri_parse_def evidence_record_resource_uri_def strip_prefix_def
      parse_record_part_def percent_decode_encode percent_encode_no_slash)

lemma parse_record_metadata_resource_uri:
  "i \<noteq> [] \<Longrightarrow> utf8_valid i \<Longrightarrow>
     GuildResourceUri_parse (evidence_record_metadata_resource_uri i) = Inr (Uri_ObjectRecordMetadata i)"
  using strip_suffix_append[of GUILD_OBJECT_RECORD_METADATA_URI_SUFFIX "percent_encode_component i"]
  by (simp add: GuildResourceUri_parse_def evidence_record_metadata_resource_uri_def strip_prefix_def
      parse_record_part_def percent_decode_encode percent_encode_no_slash)

lemma parse_query_resource_uri:
  "query_wf q \<Longrightarrow> GuildResourceUri_parse (canonical_uri q) = Inr (Uri_ExecutionQuery q)"
proof -
  assume q: "query_wf q"
  have "prefix GUILD_EXECUTION_QUERY_URI_PREFIX (canonical_uri q)"
    by (cases q) (simp_all only: canonical_uri.simps prefixI)
  with query_roundtrip[OF q] show ?thesis
    by (simp add: GuildResourceUri_parse_def)
qed

section \<open>A parsed URI lies under its scope\<close>

lemma parse_execution_part_scope:
  "parse_execution_part e = Inr u \<Longrightarrow> GuildResourceUri_scope u = Scope_Execution"
  by (auto simp: parse_execution_part_def res_bind_Inr_iff split: if_splits)

lemma parse_blob_part_scope: "parse_blob_part e = Inr u \<Longrightarrow> GuildResourceUri_scope u = Scope_ObjectBlob"
  by (auto simp: parse_blob_part_def split: if_splits)

lemma parse_record_part_scope:
  "parse_record_part e = Inr u \<Longrightarrow> GuildResourceUri_scope u = Scope_ObjectRecord"
  by (auto simp: parse_record_part_def res_bind_Inr_iff Let_def split: if_splits option.splits)

lemma parse_scope_prefix:
  assumes "GuildResourceUri_parse uri = Inr u"
  shows "prefix (canonical_prefix (GuildResourceUri_scope u)) uri"
  using assms unfolding GuildResourceUri_parse_def
  by (auto simp: res_bind_Inr_iff strip_prefix_def simp del: GUILD_EXECUTION_QUERY_URI_PREFIX_def
      GUILD_EXECUTION_URI_PREFIX_def GUILD_OBJECT_BLOB_URI_PREFIX_def GUILD_OBJECT_RECORD_URI_PREFIX_def
      split: if_splits dest!: parse_execution_part_scope parse_blob_part_scope parse_record_part_scope)

section \<open>Claims\<close>

text \<open>C39: Query resources round-trip: a well-formed execution query, printed as its canonical URI, parses back to
  itself, and every query the parser accepts is well-formed (nonempty identifiers in valid UTF-8, a limit
  between 1 and the maximum).\<close>

theorem query_uri_roundtrip:
  "(query_wf q \<longrightarrow> ExecutionQueryResource_parse_uri (canonical_uri q) = Inr q)
   \<and> (\<forall>u. ExecutionQueryResource_parse_uri u = Inr q \<longrightarrow> query_wf q)"
  using query_roundtrip query_of_segments_wf
  by (auto simp: ExecutionQueryResource_parse_uri_def split: option.splits)

theorem query_uri_roundtrip_witness:
  "canonical_uri (Q_BySkill ''acme co'' ''a/b'' 7) = ''guild://queries/executions/by-skill/acme%20co/a%2Fb/7''
   \<and> ExecutionQueryResource_parse_uri ''guild://queries/executions/by-skill/acme%20co/a%2Fb/7''
       = Inr (Q_BySkill ''acme co'' ''a/b'' 7)"
proof -
  have wf: "query_wf (Q_BySkill ''acme co'' ''a/b'' 7)"
    and uri: "canonical_uri (Q_BySkill ''acme co'' ''a/b'' 7) = ''guild://queries/executions/by-skill/acme%20co/a%2Fb/7''"
    by code_simp+
  show ?thesis
    using uri query_uri_roundtrip [of "Q_BySkill ''acme co'' ''a/b'' 7"] wf by simp
qed



text \<open>A parsed resource lies in the scope whose canonical prefix its URI starts with, and a scope covers a
  resource exactly when it is that scope: prefix grants are decided on parsed resources, never on text.\<close>

theorem resource_scope_sound:
  assumes "GuildResourceUri_parse uri = Inr u" "GuildResourceScope_parse p = Inr s"
  shows "prefix (canonical_prefix (GuildResourceUri_scope u)) uri
    \<and> (GuildResourceScope_matches s u \<longleftrightarrow> p = canonical_prefix (GuildResourceUri_scope u))"
  using parse_scope_prefix [OF assms(1)] assms(2)
  by (auto simp: scope_parse_Inr_iff scope_matches_iff)

theorem resource_scope_sound_witness:
  "GuildResourceUri_parse ''guild://executions/e1'' = Inr (Uri_Execution ''e1'')
   \<and> GuildResourceScope_matches Scope_Execution (Uri_Execution ''e1'')"
proof -
  have u: "GuildResourceUri_parse ''guild://executions/e1'' = Inr (Uri_Execution ''e1'')"
    and s: "GuildResourceScope_parse ''guild://executions/'' = Inr Scope_Execution"
    by code_simp+
  show ?thesis
    using u resource_scope_sound [OF u s] by (simp add: GUILD_EXECUTION_URI_PREFIX_def)
qed

end
