(* ===== verification/Guild_Net.thy ===== *)
theory Guild_Net
  imports Guild_Prelude
begin

text \<open>
  The part of Rust's \<open>std::net\<close> that the HTTP authority uses: \<open>IpAddr\<close> with its parser
  (\<open>str::parse::<IpAddr>\<close>), its \<open>Display\<close> form and the address classes. The parser reads an
  IPv4 address first and an IPv6 address otherwise, must consume the whole text, rejects
  octal-looking octets, and accepts an embedded IPv4 tail and one \<open>::\<close>. The main fact is
  that parsing inverts printing, so a canonical host text is a fixed point.
\<close>

section \<open>Addresses and classes\<close>

datatype IpAddr =
    V4 u8 u8 u8 u8
  | V6 u16 u16 u16 u16 u16 u16 u16 u16

unbundle bit_operations_syntax

fun v4_is_loopback :: "IpAddr \<Rightarrow> bool" where
  "v4_is_loopback (V4 a b c d) = (a = 127)"
| "v4_is_loopback _ = False"

fun v6_is_loopback :: "IpAddr \<Rightarrow> bool" where
  "v6_is_loopback (V6 a b c d e f g h) =
     (a = 0 \<and> b = 0 \<and> c = 0 \<and> d = 0 \<and> e = 0 \<and> f = 0 \<and> g = 0 \<and> h = 1)"
| "v6_is_loopback _ = False"

definition ip_is_loopback :: "IpAddr \<Rightarrow> bool" where
  "ip_is_loopback ip \<longleftrightarrow> v4_is_loopback ip \<or> v6_is_loopback ip"

fun v4_is_link_local :: "IpAddr \<Rightarrow> bool" where
  "v4_is_link_local (V4 a b c d) = (a = 169 \<and> b = 254)"
| "v4_is_link_local _ = False"

fun v6_is_unicast_link_local :: "IpAddr \<Rightarrow> bool" where
  "v6_is_unicast_link_local (V6 a b c d e f g h) = (a AND 0xffc0 = 0xfe80)"
| "v6_is_unicast_link_local _ = False"

fun v4_is_private :: "IpAddr \<Rightarrow> bool" where
  "v4_is_private (V4 a b c d) =
     (a = 10 \<or> (a = 172 \<and> 16 \<le> b \<and> b \<le> 31) \<or> (a = 192 \<and> b = 168))"
| "v4_is_private _ = False"

fun v6_is_unique_local :: "IpAddr \<Rightarrow> bool" where
  "v6_is_unique_local (V6 a b c d e f g h) = (a AND 0xfe00 = 0xfc00)"
| "v6_is_unique_local _ = False"

datatype HttpDestinationClass = Loopback | LinkLocal | PrivateNetwork | OtherDestination

definition classify_destination_ip :: "IpAddr \<Rightarrow> HttpDestinationClass" where
  "classify_destination_ip a =
     (if v4_is_loopback a then Loopback
      else if v6_is_loopback a then Loopback
      else if v4_is_link_local a then LinkLocal
      else if v6_is_unicast_link_local a then LinkLocal
      else if v4_is_private a then PrivateNetwork
      else if v6_is_unique_local a then PrivateNetwork
      else OtherDestination)"

lemma classify_loopback: "classify_destination_ip a = Loopback \<longleftrightarrow> ip_is_loopback a"
  by (simp add: classify_destination_ip_def ip_is_loopback_def)

section \<open>Parsing\<close>

definition to_digit :: "nat \<Rightarrow> char \<Rightarrow> nat option" where
  "to_digit radix c =
     (let v = (if 48 \<le> byte c \<and> byte c \<le> 57 then Some (byte c - 48)
               else if 97 \<le> byte c \<and> byte c \<le> 122 then Some (byte c - 87)
               else if 65 \<le> byte c \<and> byte c \<le> 90 then Some (byte c - 55)
               else None)
      in case v of None \<Rightarrow> None | Some d \<Rightarrow> if d < radix then Some d else None)"

definition is_digit_of :: "nat \<Rightarrow> char \<Rightarrow> bool" where
  "is_digit_of radix c \<longleftrightarrow> to_digit radix c \<noteq> None"

definition digits_value :: "nat \<Rightarrow> string \<Rightarrow> nat" where
  "digits_value radix ds = foldl (\<lambda>acc c. acc * radix + the (to_digit radix c)) 0 ds"

definition read_number :: "nat \<Rightarrow> nat \<Rightarrow> bool \<Rightarrow> nat \<Rightarrow> string \<Rightarrow> (nat \<times> string) option" where
  "read_number radix max_digits allow_zero_prefix max_value s =
     (let ds = takeWhile (is_digit_of radix) s; rest = dropWhile (is_digit_of radix) s
      in if ds = [] then None
         else if length ds > max_digits then None
         else if \<not> allow_zero_prefix \<and> hd ds = CHR ''0'' \<and> length ds > 1 then None
         else if digits_value radix ds \<le> max_value then Some (digits_value radix ds, rest)
         else None)"

fun read_given_char :: "char \<Rightarrow> string \<Rightarrow> string option" where
  "read_given_char c [] = None"
| "read_given_char c (x # xs) = (if x = c then Some xs else None)"

definition read_separator :: "char \<Rightarrow> bool \<Rightarrow> string \<Rightarrow> string option" where
  "read_separator c first s = (if first then Some s else read_given_char c s)"

definition read_octet :: "bool \<Rightarrow> string \<Rightarrow> (nat \<times> string) option" where
  "read_octet first s =
     (case read_separator CHR ''.'' first s of None \<Rightarrow> None | Some s \<Rightarrow> read_number 10 3 False 255 s)"

definition read_ipv4_addr :: "string \<Rightarrow> ((nat \<times> nat \<times> nat \<times> nat) \<times> string) option" where
  "read_ipv4_addr s =
     (case read_octet True s of None \<Rightarrow> None | Some (a, s) \<Rightarrow>
     (case read_octet False s of None \<Rightarrow> None | Some (b, s) \<Rightarrow>
     (case read_octet False s of None \<Rightarrow> None | Some (c, s) \<Rightarrow>
     (case read_octet False s of None \<Rightarrow> None | Some (d, s) \<Rightarrow> Some ((a, b, c, d), s)))))"

text \<open>
  \<open>read_groups\<close> reads at most \<open>n\<close> groups; while at least two are left it first tries an
  embedded IPv4 address. The result is the groups, whether the IPv4 form was used, and the rest.
\<close>

fun read_groups :: "nat \<Rightarrow> bool \<Rightarrow> string \<Rightarrow> nat list \<times> bool \<times> string" where
  "read_groups 0 first s = ([], False, s)"
| "read_groups (Suc n) first s =
     (case (if n = 0 then None else Option.bind (read_separator CHR '':'' first s) read_ipv4_addr) of
        Some ((a, b, c, d), s') \<Rightarrow> ([256 * a + b, 256 * c + d], True, s')
      | None \<Rightarrow>
          (case Option.bind (read_separator CHR '':'' first s) (read_number 16 4 True 65535) of
             None \<Rightarrow> ([], False, s)
           | Some (g, s') \<Rightarrow>
               (case read_groups n False s' of (gs, v4, s'') \<Rightarrow> (g # gs, v4, s''))))"

definition read_ipv6_addr :: "string \<Rightarrow> (nat list \<times> string) option" where
  "read_ipv6_addr s =
     (case read_groups 8 True s of (head, head_ipv4, s1) \<Rightarrow>
        if length head = 8 then Some (head, s1)
        else if head_ipv4 then None
        else
          (case Option.bind (read_given_char CHR '':'' s1) (read_given_char CHR '':'') of
             None \<Rightarrow> None
           | Some s2 \<Rightarrow>
               (case read_groups (8 - (length head + 1)) True s2 of (tail, _, s3) \<Rightarrow>
                  Some (head @ replicate (8 - length head - length tail) 0 @ tail, s3))))"

fun v6_of_groups :: "nat list \<Rightarrow> IpAddr option" where
  "v6_of_groups [a, b, c, d, e, f, g, h] =
     Some (V6 (of_nat a) (of_nat b) (of_nat c) (of_nat d) (of_nat e) (of_nat f) (of_nat g) (of_nat h))"
| "v6_of_groups _ = None"

definition ip_parse :: "string \<Rightarrow> IpAddr option" where
  "ip_parse s =
     (case read_ipv4_addr s of
        Some ((a, b, c, d), rest) \<Rightarrow>
          if rest = [] then Some (V4 (of_nat a) (of_nat b) (of_nat c) (of_nat d)) else None
      | None \<Rightarrow>
          (case read_ipv6_addr s of
             Some (gs, rest) \<Rightarrow> if rest = [] then v6_of_groups gs else None
           | None \<Rightarrow> None))"

section \<open>Printing\<close>

fun hex_of_nat :: "nat \<Rightarrow> string" where
  "hex_of_nat n =
     (let d = (\<lambda>k. if k < 10 then char_of (48 + k) else char_of (87 + k))
      in if n < 16 then [d n] else hex_of_nat (n div 16) @ [d (n mod 16)])"

declare hex_of_nat.simps [simp del]

fun colon_join :: "string list \<Rightarrow> string" where
  "colon_join [] = []"
| "colon_join [s] = s"
| "colon_join (s # t # ts) = s @ CHR '':'' # colon_join (t # ts)"

definition v4_display :: "nat \<Rightarrow> nat \<Rightarrow> nat \<Rightarrow> nat \<Rightarrow> string" where
  "v4_display a b c d =
     dec_of_nat a @ CHR ''.'' # dec_of_nat b @ CHR ''.'' # dec_of_nat c @ CHR ''.'' # dec_of_nat d"

text \<open>The first longest run of zero segments: \<open>(start, length)\<close>.\<close>

fun longest_zero_run :: "nat \<Rightarrow> nat list \<Rightarrow> nat \<times> nat \<Rightarrow> nat \<times> nat \<Rightarrow> nat \<times> nat" where
  "longest_zero_run i [] longest current = longest"
| "longest_zero_run i (g # gs) longest current =
     (if g = 0 then
        (let current = ((if snd current = 0 then i else fst current), snd current + 1)
         in longest_zero_run (Suc i) gs (if snd current > snd longest then current else longest) current)
      else longest_zero_run (Suc i) gs longest (0, 0))"

definition v6_display :: "nat list \<Rightarrow> string" where
  "v6_display gs =
     (if take 6 gs = [0, 0, 0, 0, 0, 65535] then
        ''::ffff:'' @ v4_display (gs ! 6 div 256) (gs ! 6 mod 256) (gs ! 7 div 256) (gs ! 7 mod 256)
      else
        (case longest_zero_run 0 gs (0, 0) (0, 0) of (start, len) \<Rightarrow>
           if len > 1 then
             colon_join (map hex_of_nat (take start gs)) @ ''::''
               @ colon_join (map hex_of_nat (drop (start + len) gs))
           else colon_join (map hex_of_nat gs)))"

fun ip_display :: "IpAddr \<Rightarrow> string" where
  "ip_display (V4 a b c d) = v4_display (unat a) (unat b) (unat c) (unat d)"
| "ip_display (V6 a b c d e f g h) =
     v6_display [unat a, unat b, unat c, unat d, unat e, unat f, unat g, unat h]"

section \<open>Parsing inverts printing\<close>

definition ends_digits :: "nat \<Rightarrow> string \<Rightarrow> bool" where
  "ends_digits radix s \<longleftrightarrow> (case s of [] \<Rightarrow> True | c # _ \<Rightarrow> \<not> is_digit_of radix c)"

lemma ends_digits_simps [simp]:
  "ends_digits radix []" "ends_digits radix (c # s) = (\<not> is_digit_of radix c)"
  by (simp_all add: ends_digits_def)

lemma not_digit_sep [simp]:
  "\<not> is_digit_of 10 CHR ''.''" "\<not> is_digit_of 10 CHR '':''"
  "\<not> is_digit_of 16 CHR ''.''" "\<not> is_digit_of 16 CHR '':''"
  by (simp_all add: is_digit_of_def to_digit_def)

lemma to_digit_dec: "n < 10 \<Longrightarrow> to_digit 10 (char_of (48 + n)) = Some n"
  by (simp add: to_digit_def Let_def)

definition hex_char :: "nat \<Rightarrow> char" where
  "hex_char k = (if k < 10 then char_of (48 + k) else char_of (87 + k))"

lemma to_digit_hex_char: "k < 16 \<Longrightarrow> to_digit 16 (hex_char k) = Some k"
  by (auto simp: to_digit_def hex_char_def Let_def of_char_of)

lemma hex_of_nat_unfold:
  "hex_of_nat n = (if n < 16 then [hex_char n] else hex_of_nat (n div 16) @ [hex_char (n mod 16)])"
  by (simp add: hex_of_nat.simps[of n] hex_char_def Let_def)

lemma digits_value_snoc:
  "digits_value r (ds @ [c]) = digits_value r ds * r + the (to_digit r c)"
  by (simp add: digits_value_def)

lemma digits_value_Nil [simp]: "digits_value r [] = 0"
  by (simp add: digits_value_def)

lemma digits_value_single: "digits_value r [c] = the (to_digit r c)"
  by (simp add: digits_value_def)

lemma dec_of_nat_value:
  "digits_value 10 (dec_of_nat n) = n \<and> list_all (is_digit_of 10) (dec_of_nat n)"
proof (induction n rule: dec_of_nat.induct)
  case (1 n)
  then show ?case
    by (cases "n < 10")
      (simp_all add: dec_of_nat.simps[of n] digits_value_snoc digits_value_single to_digit_dec
        is_digit_of_def)
qed

lemma hex_of_nat_value:
  "digits_value 16 (hex_of_nat n) = n \<and> list_all (is_digit_of 16) (hex_of_nat n)"
proof (induction n rule: hex_of_nat.induct)
  case (1 n)
  then show ?case
    by (cases "n < 16")
      (simp_all add: hex_of_nat_unfold[of n] digits_value_snoc digits_value_single to_digit_hex_char
        is_digit_of_def)
qed

lemma hex_of_nat_not_Nil [simp]: "hex_of_nat n \<noteq> []"
  by (simp add: hex_of_nat_unfold[of n])

lemma dec_of_nat_length: "n < 10 ^ k \<Longrightarrow> 0 < k \<Longrightarrow> length (dec_of_nat n) \<le> k"
proof (induction n arbitrary: k rule: dec_of_nat.induct)
  case (1 n)
  show ?case
  proof (cases "n < 10")
    case True
    with "1.prems" show ?thesis by (simp add: dec_of_nat.simps[of n])
  next
    case False
    with "1.prems" obtain j where k: "k = Suc j" "0 < j"
      by (cases k; cases "k - 1") auto
    with "1.prems" have "n div 10 < 10 ^ j" by (simp add: less_mult_imp_div_less)
    with "1.IH"[OF False this] k False show ?thesis by (simp add: dec_of_nat.simps[of n])
  qed
qed

lemma hex_of_nat_length: "n < 16 ^ k \<Longrightarrow> 0 < k \<Longrightarrow> length (hex_of_nat n) \<le> k"
proof (induction n arbitrary: k rule: hex_of_nat.induct)
  case (1 n)
  show ?case
  proof (cases "n < 16")
    case True
    with "1.prems" show ?thesis by (simp add: hex_of_nat_unfold[of n])
  next
    case False
    with "1.prems" obtain j where k: "k = Suc j" "0 < j"
      by (cases k; cases "k - 1") auto
    with "1.prems" have "n div 16 < 16 ^ j" by (simp add: less_mult_imp_div_less)
    with "1.IH"[OF refl False this] k False show ?thesis by (simp add: hex_of_nat_unfold[of n])
  qed
qed

lemma dec_of_nat_zero_hd: "hd (dec_of_nat n) = CHR ''0'' \<Longrightarrow> n = 0"
proof (induction n rule: dec_of_nat.induct)
  case (1 n)
  show ?case
  proof (cases "n < 10")
    case True
    then have "byte (hd (dec_of_nat n)) = 48 + n" by (simp add: dec_of_nat.simps[of n])
    with "1.prems" show ?thesis by simp
  next
    case False
    with "1.prems" have "hd (dec_of_nat (n div 10)) = CHR ''0''"
      by (simp add: dec_of_nat.simps[of n])
    with "1.IH" False have "n div 10 = 0" by blast
    with False show ?thesis by simp
  qed
qed

lemma read_number_ok:
  assumes "list_all (is_digit_of radix) ds" "ends_digits radix rest" "ds \<noteq> []" "length ds \<le> m"
    and "z \<or> hd ds \<noteq> CHR ''0'' \<or> length ds = 1" "digits_value radix ds \<le> mx"
  shows "read_number radix m z mx (ds @ rest) = Some (digits_value radix ds, rest)"
proof -
  have d: "\<And>x. x \<in> set ds \<Longrightarrow> is_digit_of radix x"
    using assms(1) by (simp add: list_all_iff)
  have t: "takeWhile (is_digit_of radix) (ds @ rest) = ds"
    using d assms(2) by (cases rest) (simp_all add: takeWhile_append2)
  have "dropWhile (is_digit_of radix) (ds @ rest) = rest"
    using d assms(2) by (cases rest) (simp_all add: dropWhile_append2)
  with t assms(3-6) show ?thesis
    by (auto simp: read_number_def Let_def)
qed

lemma read_dec_octet:
  assumes "n \<le> 255" "ends_digits 10 rest"
  shows "read_number 10 3 False 255 (dec_of_nat n @ rest) = Some (n, rest)"
proof -
  have "length (dec_of_nat n) \<le> 3" by (rule dec_of_nat_length) (use assms in simp_all)
  moreover have "hd (dec_of_nat n) \<noteq> CHR ''0'' \<or> length (dec_of_nat n) = 1"
    using dec_of_nat_zero_hd[of n] by (auto simp: dec_of_nat.simps[of 0])
  ultimately show ?thesis
    using read_number_ok[of 10 "dec_of_nat n" rest 3 False 255] dec_of_nat_value[of n] assms
    by simp
qed

lemma read_hex_group:
  assumes "n < 65536" "ends_digits 16 rest"
  shows "read_number 16 4 True 65535 (hex_of_nat n @ rest) = Some (n, rest)"
proof -
  have "length (hex_of_nat n) \<le> 4" by (rule hex_of_nat_length) (use assms in simp_all)
  then show ?thesis
    using read_number_ok[of 16 "hex_of_nat n" rest 4 True 65535] hex_of_nat_value[of n] assms
    by simp
qed

lemma read_ipv4_display:
  assumes "a \<le> 255" "b \<le> 255" "c \<le> 255" "d \<le> 255" "ends_digits 10 rest"
  shows "read_ipv4_addr (v4_display a b c d @ rest) = Some ((a, b, c, d), rest)"
  using assms
  by (simp add: read_ipv4_addr_def v4_display_def read_octet_def read_separator_def read_dec_octet)

text \<open>A hexadecimal group that no dot follows is never read as an IPv4 address.\<close>

lemma is_digit_16_of_10: "is_digit_of 10 c \<Longrightarrow> is_digit_of 16 c"
  by (auto simp: is_digit_of_def to_digit_def Let_def split: if_splits)

lemma dropWhile_digits_no_dot:
  assumes "\<And>c. c \<in> set hs \<Longrightarrow> c \<noteq> CHR ''.''" "\<And>x xs. rest = x # xs \<Longrightarrow> x \<noteq> CHR ''.'' \<and> \<not> is_digit_of 10 x"
  shows "read_given_char CHR ''.'' (dropWhile (is_digit_of 10) (hs @ rest)) = None"
  using assms
proof (induction hs)
  case Nil
  then show ?case by (cases rest) auto
next
  case (Cons h hs)
  then show ?case by auto
qed

lemma read_number_rest: "read_number r m z mx s = Some (v, s') \<Longrightarrow> s' = dropWhile (is_digit_of r) s"
  by (auto simp: read_number_def Let_def split: if_splits)

lemma read_ipv4_hex_group:
  assumes "ends_digits 16 rest" "\<And>x xs. rest = x # xs \<Longrightarrow> x \<noteq> CHR ''.''"
  shows "read_ipv4_addr (hex_of_nat n @ rest) = None"
proof -
  have nd: "c \<noteq> CHR ''.''" if "c \<in> set (hex_of_nat n)" for c
    using hex_of_nat_value[of n] that by (auto simp: list_all_iff)
  have "x \<noteq> CHR ''.'' \<and> \<not> is_digit_of 10 x" if "rest = x # xs" for x xs
    using assms that is_digit_16_of_10[of x] by auto
  then have "read_given_char CHR ''.'' (dropWhile (is_digit_of 10) (hex_of_nat n @ rest)) = None"
    using nd by (intro dropWhile_digits_no_dot) auto
  then have "read_octet False s' = None" if "read_octet True (hex_of_nat n @ rest) = Some (v, s')" for v s'
    using that by (auto simp: read_octet_def read_separator_def dest!: read_number_rest)
  then show ?thesis
    by (auto simp: read_ipv4_addr_def split: option.splits)
qed

fun groups_text :: "bool \<Rightarrow> nat list \<Rightarrow> string" where
  "groups_text first [] = []"
| "groups_text first (g # gs) = (if first then [] else '':'') @ hex_of_nat g @ groups_text False gs"

lemma colon_join_groups: "colon_join (map hex_of_nat gs) = groups_text True gs"
proof (induction gs rule: induct_list012)
  case (3 g h gs)
  then show ?case by simp
qed simp_all

lemma read_none_sep [simp]:
  "read_number 16 4 True 65535 [] = None" "read_number 16 4 True 65535 (CHR '':'' # s) = None"
  "read_ipv4_addr [] = None" "read_ipv4_addr (CHR '':'' # s) = None"
  by (simp_all add: read_number_def read_ipv4_addr_def read_octet_def read_separator_def)

definition group_stop :: "string \<Rightarrow> bool" where
  "group_stop r \<longleftrightarrow> r = [] \<or> prefix ''::'' r"

lemma group_stop_cases:
  assumes "group_stop r"
  obtains "r = []" | r' where "r = CHR '':'' # CHR '':'' # r'"
  using assms by (auto simp: group_stop_def prefix_def)

lemma groups_text_ends:
  assumes "group_stop r"
  shows "ends_digits 16 (groups_text False gs @ r)"
    and "groups_text False gs @ r = x # xs \<Longrightarrow> x \<noteq> CHR ''.''"
proof -
  show "ends_digits 16 (groups_text False gs @ r)"
    using assms by (cases gs) (auto elim: group_stop_cases)
  show "x \<noteq> CHR ''.''" if "groups_text False gs @ r = x # xs"
    using that assms by (cases gs) (auto elim!: group_stop_cases)
qed

lemma read_groups_stop: "group_stop r \<Longrightarrow> read_groups n first r = ([], False, r)"
  by (cases n) (auto elim!: group_stop_cases simp: read_separator_def)

lemma read_groups_text:
  assumes "\<And>g. g \<in> set gs \<Longrightarrow> g < 65536" "length gs \<le> n" "group_stop r"
  shows "read_groups n first (groups_text first gs @ r) = (gs, False, r)"
  using assms
proof (induction gs arbitrary: n first)
  case Nil
  then show ?case by (simp add: read_groups_stop)
next
  case (Cons g gs)
  from Cons.prems(2) obtain m where n: "n = Suc m" "length gs \<le> m" by (cases n) auto
  let ?rest = "groups_text False gs @ r"
  have sep: "read_separator CHR '':'' first (groups_text first (g # gs) @ r) = Some (hex_of_nat g @ ?rest)"
    by (simp add: read_separator_def)
  have v4: "read_ipv4_addr (hex_of_nat g @ ?rest) = None"
    using groups_text_ends[OF Cons.prems(3), of gs] by (intro read_ipv4_hex_group) auto
  have num: "read_number 16 4 True 65535 (hex_of_nat g @ ?rest) = Some (g, ?rest)"
    using groups_text_ends[OF Cons.prems(3), of gs] Cons.prems(1) by (intro read_hex_group) auto
  have "read_groups m False ?rest = (gs, False, r)"
    using Cons.prems n by (intro Cons.IH) auto
  then show ?case
    using n by (simp only: read_groups.simps sep bind.bind_lunit v4 num) simp
qed

lemma longest_zero_run_zero:
  assumes "longest_zero_run i gs lo cu = (s, l)" "i = length P"
    and "fst lo + snd lo \<le> i" "\<forall>j. fst lo \<le> j \<and> j < fst lo + snd lo \<longrightarrow> P ! j = 0"
    and "snd cu = 0 \<or> fst cu + snd cu = i" "\<forall>j. fst cu \<le> j \<and> j < fst cu + snd cu \<longrightarrow> j < i \<and> P ! j = 0"
  shows "s + l \<le> length (P @ gs) \<and> (\<forall>j. s \<le> j \<and> j < s + l \<longrightarrow> (P @ gs) ! j = 0)"
  using assms
proof (induction i gs lo cu arbitrary: P rule: longest_zero_run.induct)
  case (1 i lo cu)
  then show ?case by auto
next
  case (2 i g gs lo cu)
  let ?cu = "((if snd cu = 0 then i else fst cu), snd cu + 1)"
  let ?P = "P @ [g]"
  have lo: "\<forall>j. fst lo \<le> j \<and> j < fst lo + snd lo \<longrightarrow> ?P ! j = 0"
    using 2(4-6) by (auto simp: nth_append)
  show ?case
  proof (cases "g = 0")
    case True
    have cu: "\<forall>j. fst ?cu \<le> j \<and> j < fst ?cu + snd ?cu \<longrightarrow> j < Suc i \<and> ?P ! j = 0"
      using 2(4) 2(7-8) True by (auto simp: nth_append less_Suc_eq split: if_splits)
    have e: "fst ?cu + snd ?cu = Suc i" using 2(7) by auto
    have "s + l \<le> length (?P @ gs) \<and> (\<forall>j. s \<le> j \<and> j < s + l \<longrightarrow> (?P @ gs) ! j = 0)"
      using True 2(3) 2(4) 2(5) lo cu e
      by (intro 2(1)[OF True refl, of ?P]) (auto simp: Let_def)
    then show ?thesis by simp
  next
    case False
    have "s + l \<le> length (?P @ gs) \<and> (\<forall>j. s \<le> j \<and> j < s + l \<longrightarrow> (?P @ gs) ! j = 0)"
      using False 2(3) 2(4) 2(5) lo by (intro 2(2)[OF False, of ?P]) auto
    then show ?thesis by simp
  qed
qed

lemma zero_run_replicate:
  assumes "longest_zero_run 0 gs (0, 0) (0, 0) = (s, l)"
  shows "gs = take s gs @ replicate l 0 @ drop (s + l) gs" "s + l \<le> length gs"
proof -
  have z: "s + l \<le> length gs \<and> (\<forall>j. s \<le> j \<and> j < s + l \<longrightarrow> gs ! j = 0)"
    using longest_zero_run_zero[OF assms, of "[]"] by simp
  then show "s + l \<le> length gs" by simp
  have "take l (drop s gs) = replicate l 0"
    using z by (intro nth_equalityI) auto
  then show "gs = take s gs @ replicate l 0 @ drop (s + l) gs"
    by (metis append_take_drop_id drop_drop add.commute)
qed

lemma read_ipv6_compressed:
  assumes "\<And>g. g \<in> set hd_gs \<union> set tl_gs \<Longrightarrow> g < 65536" "length hd_gs + length tl_gs < 8"
  shows "read_ipv6_addr (groups_text True hd_gs @ ''::'' @ groups_text True tl_gs)
           = Some (hd_gs @ replicate (8 - length hd_gs - length tl_gs) 0 @ tl_gs, [])"
proof -
  have "read_groups 8 True (groups_text True hd_gs @ ''::'' @ groups_text True tl_gs)
      = (hd_gs, False, ''::'' @ groups_text True tl_gs)"
    using assms by (intro read_groups_text) (auto simp: group_stop_def)
  moreover have "read_groups (8 - (length hd_gs + 1)) True (groups_text True tl_gs @ [])
      = (tl_gs, False, [])"
    using assms by (intro read_groups_text) (auto simp: group_stop_def)
  ultimately show ?thesis
    using assms(2) by (simp add: read_ipv6_addr_def)
qed

lemma read_ipv6_plain:
  assumes "\<And>g. g \<in> set gs \<Longrightarrow> g < 65536" "length gs = 8"
  shows "read_ipv6_addr (groups_text True gs) = Some (gs, [])"
  using read_groups_text[of gs 8 "[]" True] assms
  by (simp add: read_ipv6_addr_def group_stop_def)

lemma read_ipv6_mapped:
  assumes "x < 65536" "y < 65536"
  shows "read_ipv6_addr (''::ffff:'' @ v4_display (x div 256) (x mod 256) (y div 256) (y mod 256))
           = Some ([0, 0, 0, 0, 0, 65535, x, y], [])"
proof -
  let ?v4 = "v4_display (x div 256) (x mod 256) (y div 256) (y mod 256)"
  have "of_char (char_of (102 :: nat)) = (of_char CHR ''f'' :: nat)" by simp
  then have "char_of (102 :: nat) = CHR ''f''" by (rule of_char_eqI)
  then have hex: "hex_of_nat 65535 = ''ffff''"
    by (simp add: hex_of_nat_unfold hex_char_def)
  have head: "read_groups 8 True (CHR '':'' # CHR '':'' # ''ffff:'' @ ?v4)
      = ([], False, CHR '':'' # CHR '':'' # ''ffff:'' @ ?v4)"
    by (rule read_groups_stop) (simp add: group_stop_def)
  have "read_ipv4_addr (?v4 @ []) = Some ((x div 256, x mod 256, y div 256, y mod 256), [])"
    using assms by (intro read_ipv4_display) (auto simp: less_mult_imp_div_less div_le_mono)
  then have "read_groups 6 False (CHR '':'' # ?v4) = ([x, y], True, [])"
    using read_groups.simps(2)[of 5 False "CHR '':'' # ?v4"] by (simp add: read_separator_def)
  moreover have "read_ipv4_addr (hex_of_nat 65535 @ CHR '':'' # ?v4) = None"
    by (rule read_ipv4_hex_group) auto
  ultimately have "read_groups 7 True (hex_of_nat 65535 @ CHR '':'' # ?v4) = ([65535, x, y], True, [])"
    using read_groups.simps(2)[of 6 True "hex_of_nat 65535 @ CHR '':'' # ?v4"]
    by (simp add: read_separator_def read_hex_group)
  moreover have "replicate 5 (0 :: nat) = [0, 0, 0, 0, 0]" by (simp add: eval_nat_numeral)
  ultimately show ?thesis
    using head by (simp add: read_ipv6_addr_def hex)
qed

lemma v6_of_groups_words:
  "v6_of_groups [unat a, unat b, unat c, unat d, unat e, unat f, unat g, unat h]
     = Some (V6 a b c d e f g h)"
  by simp

lemma read_ipv4_groups_None:
  assumes "group_stop r"
  shows "read_ipv4_addr (groups_text True gs @ r) = None"
proof (cases gs)
  case Nil
  with assms show ?thesis by (auto elim!: group_stop_cases)
next
  case (Cons g gs')
  with groups_text_ends[OF assms, of gs'] show ?thesis
    by (auto intro: read_ipv4_hex_group)
qed

lemma read_display_v6:
  assumes "length gs = 8" "\<And>g. g \<in> set gs \<Longrightarrow> g < 65536"
  shows "read_ipv4_addr (v6_display gs) = None \<and> read_ipv6_addr (v6_display gs) = Some (gs, [])"
proof (cases "take 6 gs = [0, 0, 0, 0, 0, 65535]")
  case True
  have gs: "gs = take 6 gs @ [gs ! 6, gs ! 7]"
    using assms(1) by (auto simp: list_eq_iff_nth_eq nth_append less_Suc_eq numeral_eq_Suc)
  with assms(2) have "gs ! 6 < 65536" "gs ! 7 < 65536"
    using assms(1) by (auto intro: nth_mem)
  with True read_ipv6_mapped[of "gs ! 6" "gs ! 7"] gs show ?thesis
    by (simp add: v6_display_def)
next
  case False
  obtain s l where r: "longest_zero_run 0 gs (0, 0) (0, 0) = (s, l)" by fastforce
  note z = zero_run_replicate[OF r]
  show ?thesis
  proof (cases "l > 1")
    case True
    have d: "v6_display gs = groups_text True (take s gs) @ ''::'' @ groups_text True (drop (s + l) gs)"
      using False True r by (simp add: v6_display_def colon_join_groups)
    have "read_ipv6_addr (v6_display gs)
        = Some (take s gs @ replicate (8 - length (take s gs) - length (drop (s + l) gs)) 0 @ drop (s + l) gs, [])"
      unfolding d using assms z True
      by (intro read_ipv6_compressed) (auto dest: in_set_takeD in_set_dropD)
    moreover have "8 - length (take s gs) - length (drop (s + l) gs) = l"
      using z(2) assms(1) by simp
    ultimately show ?thesis
      using z(1) d by (simp add: read_ipv4_groups_None group_stop_def)
  next
    case nl: False
    have "v6_display gs = groups_text True gs"
      using False nl r by (simp add: v6_display_def colon_join_groups)
    with read_ipv6_plain[of gs] read_ipv4_groups_None[of "[]" gs] assms show ?thesis
      by (simp add: group_stop_def)
  qed
qed

lemma unat_bound: "unat w < 2 ^ LENGTH('a)" for w :: "'a::len word"
  by (rule unsigned_less)

text \<open>\<open>Display\<close> then \<open>parse\<close> gives the address back.\<close>

lemma ip_parse_display: "ip_parse (ip_display ip) = Some ip"
proof (cases ip)
  case (V4 a b c d)
  have le: "unat w \<le> 255" for w :: u8
    using unat_bound[of w] by simp
  have "read_ipv4_addr (ip_display ip @ []) = Some ((unat a, unat b, unat c, unat d), [])"
    unfolding V4 ip_display.simps by (intro read_ipv4_display) (auto simp: le)
  then show ?thesis by (simp add: ip_parse_def V4)
next
  case (V6 a b c d e f g h)
  let ?gs = "[unat a, unat b, unat c, unat d, unat e, unat f, unat g, unat h]"
  have lt: "unat w < 65536" for w :: u16
    using unat_bound[of w] by simp
  have "read_ipv4_addr (v6_display ?gs) = None \<and> read_ipv6_addr (v6_display ?gs) = Some (?gs, [])"
    using lt by (intro read_display_v6) auto
  then show ?thesis by (simp add: ip_parse_def V6)
qed

section \<open>Parsing ignores ASCII case\<close>

lemma to_digit_lower [simp]: "to_digit r (ascii_lower_char c) = to_digit r c"
proof (cases "65 \<le> byte c \<and> byte c \<le> 90")
  case True
  then have "byte (ascii_lower_char c) = byte c + 32"
    by (simp add: ascii_lower_char_def Let_def of_char_of)
  with True show ?thesis by (simp add: to_digit_def Let_def)
qed (auto simp: ascii_lower_char_def Let_def)

lemma ascii_lower_char_eq:
  "\<not> (97 \<le> byte d \<and> byte d \<le> 122) \<Longrightarrow> \<not> (65 \<le> byte d \<and> byte d \<le> 90) \<Longrightarrow>
     ascii_lower_char c = d \<longleftrightarrow> c = d"
  by (auto simp: ascii_lower_char_def Let_def of_char_of)

lemma lower_digit_comp: "is_digit_of r \<circ> ascii_lower_char = is_digit_of r"
  by (auto simp: is_digit_of_def)

lemma digits_value_lower: "digits_value r (to_ascii_lowercase ds) = digits_value r ds"
  by (simp add: digits_value_def to_ascii_lowercase_def foldl_map)

lemma read_number_lower:
  "read_number r m z mx (to_ascii_lowercase s)
     = map_option (\<lambda>(v, t). (v, to_ascii_lowercase t)) (read_number r m z mx s)"
proof -
  have t: "takeWhile (is_digit_of r) (to_ascii_lowercase s) = to_ascii_lowercase (takeWhile (is_digit_of r) s)"
    by (simp add: to_ascii_lowercase_def takeWhile_map lower_digit_comp)
  have d: "dropWhile (is_digit_of r) (to_ascii_lowercase s) = to_ascii_lowercase (dropWhile (is_digit_of r) s)"
    by (simp add: to_ascii_lowercase_def dropWhile_map lower_digit_comp)
  have h: "ds \<noteq> [] \<Longrightarrow> hd (to_ascii_lowercase ds) = CHR ''0'' \<longleftrightarrow> hd ds = CHR ''0''" for ds
    by (cases ds) (auto simp: to_ascii_lowercase_def ascii_lower_char_eq)
  have l: "length (to_ascii_lowercase ds) = length ds" "to_ascii_lowercase ds = [] \<longleftrightarrow> ds = []" for ds
    by (simp_all add: to_ascii_lowercase_def)
  show ?thesis
    unfolding read_number_def Let_def t d l digits_value_lower using h by auto
qed

abbreviation lower_rest :: "'a \<times> string \<Rightarrow> 'a \<times> string" where
  "lower_rest \<equiv> \<lambda>(v, t). (v, to_ascii_lowercase t)"

lemma read_given_char_lower:
  assumes "\<not> (97 \<le> byte c \<and> byte c \<le> 122)" "\<not> (65 \<le> byte c \<and> byte c \<le> 90)"
  shows "read_given_char c (to_ascii_lowercase s) = map_option to_ascii_lowercase (read_given_char c s)"
  using assms by (cases s) (auto simp: to_ascii_lowercase_def ascii_lower_char_eq)

lemma read_separator_lower:
  assumes "\<not> (97 \<le> byte c \<and> byte c \<le> 122)" "\<not> (65 \<le> byte c \<and> byte c \<le> 90)"
  shows "read_separator c first (to_ascii_lowercase s)
           = map_option to_ascii_lowercase (read_separator c first s)"
  using read_given_char_lower[OF assms] by (simp add: read_separator_def)

lemma read_octet_lower:
  "read_octet first (to_ascii_lowercase s) = map_option lower_rest (read_octet first s)"
  by (simp add: read_octet_def read_separator_lower read_number_lower split: option.splits)

lemma read_ipv4_lower:
  "read_ipv4_addr (to_ascii_lowercase s) = map_option lower_rest (read_ipv4_addr s)"
  by (auto simp: read_ipv4_addr_def read_octet_lower split: option.splits)

lemma read_groups_lower:
  "read_groups n first (to_ascii_lowercase s)
     = (case read_groups n first s of (gs, v4, t) \<Rightarrow> (gs, v4, to_ascii_lowercase t))"
proof (induction n first s rule: read_groups.induct)
  case (2 n first s)
  show ?case
  proof (cases "read_separator CHR '':'' first s")
    case None
    then show ?thesis by (simp add: read_separator_lower)
  next
    case (Some t)
    show ?thesis
    proof (cases "n = 0 \<or> read_ipv4_addr t = None")
      case True
      then show ?thesis
        using Some 2
        by (auto simp: read_separator_lower read_ipv4_lower read_number_lower split: option.splits prod.splits)
    next
      case False
      then show ?thesis
        using Some by (auto simp: read_separator_lower read_ipv4_lower)
    qed
  qed
qed simp

lemma read_ipv6_lower:
  "read_ipv6_addr (to_ascii_lowercase s) = map_option lower_rest (read_ipv6_addr s)"
  by (auto simp: read_ipv6_addr_def read_groups_lower read_given_char_lower Option.bind_map_option
      o_def split: prod.splits option.splits bind_splits)

lemma to_ascii_lowercase_Nil_iff [simp]: "to_ascii_lowercase s = [] \<longleftrightarrow> s = []"
  by (simp add: to_ascii_lowercase_def)

lemma ip_parse_lower [simp]: "ip_parse (to_ascii_lowercase s) = ip_parse s"
  by (auto simp: ip_parse_def read_ipv4_lower read_ipv6_lower split: option.splits)

section \<open>Evaluation\<close>

lemma read_groups_numeral:
  "read_groups (numeral k) first s =
     (case (if pred_numeral k = 0 then None else Option.bind (read_separator CHR '':'' first s) read_ipv4_addr) of
        Some ((a, b, c, d), s') \<Rightarrow> ([256 * a + b, 256 * c + d], True, s')
      | None \<Rightarrow>
          (case Option.bind (read_separator CHR '':'' first s) (read_number 16 4 True 65535) of
             None \<Rightarrow> ([], False, s)
           | Some (g, s') \<Rightarrow>
               (case read_groups (pred_numeral k) False s' of (gs, v4, s'') \<Rightarrow> (g # gs, v4, s''))))"
  by (simp only: numeral_eq_Suc read_groups.simps)

lemmas ip_eval = ip_parse_def read_ipv4_addr_def read_octet_def read_number_def is_digit_of_def
  to_digit_def read_separator_def read_ipv6_addr_def read_groups_numeral digits_value_def

lemma ip_parse_localhost [simp]: "ip_parse ''localhost'' = None"
  by (simp add: ip_eval)

end
