(* ===== verification/Guild_Scopes.thy ===== *)
theory Guild_Scopes
  imports Guild_Resource_Uri Guild_Net
begin

text \<open>
  The scope algebra of \<open>crates/guild-runner/src/lib.rs\<close>: an optional list (or limit, or flag)
  restricts one dimension of a capability, and the runner compares two scopes (\<open>covers\<close>) or
  intersects them (\<open>reduce\<close>). A parent scope is always the first argument, the required scope
  the second. The locales state what a reduction promises about the requests that a scope
  allows; every reduction of the source is an instance of the strongest one that it meets.
\<close>

section \<open>Hosts\<close>

definition canonicalize_http_host :: "string \<Rightarrow> string" where
  "canonicalize_http_host host =
     (case ip_parse host of None \<Rightarrow> to_ascii_lowercase host | Some address \<Rightarrow> ip_display address)"

definition canonicalize_http_host_suffix :: "string \<Rightarrow> string" where
  "canonicalize_http_host_suffix host = to_ascii_lowercase host"

definition is_ip_literal_host :: "string \<Rightarrow> bool" where
  "is_ip_literal_host host \<longleftrightarrow> ip_parse host \<noteq> None"

definition domain_suffix_matches :: "string \<Rightarrow> string \<Rightarrow> bool" where
  "domain_suffix_matches host sfx \<longleftrightarrow>
     host = sfx \<or> is_some_and (strip_suffix sfx host) (suffix ''.'')"

definition canonicalize_host_scope :: "string list \<Rightarrow> string list" where
  "canonicalize_host_scope hosts = foldl (\<lambda>acc h. push_unique acc (canonicalize_http_host h)) [] hosts"

definition canonicalize_host_suffix_scope :: "string list \<Rightarrow> string list" where
  "canonicalize_host_suffix_scope hosts =
     foldl (\<lambda>acc h. push_unique acc (canonicalize_http_host_suffix h)) [] hosts"

section \<open>Coverage of one scope by another\<close>

fun enum_scope_covers :: "'a list option \<Rightarrow> 'a list option \<Rightarrow> bool" where
  "enum_scope_covers granted None = True"
| "enum_scope_covers None (Some _) = True"
| "enum_scope_covers (Some granted) (Some wanted) = list_all (\<lambda>v. list_ex ((=) v) granted) wanted"

definition string_scope_covers_exact :: "string list option \<Rightarrow> string list option \<Rightarrow> bool" where
  "string_scope_covers_exact granted wanted = enum_scope_covers granted wanted"

fun path_prefix_scope_covers :: "string list option \<Rightarrow> string list option \<Rightarrow> bool" where
  "path_prefix_scope_covers granted None = True"
| "path_prefix_scope_covers None (Some _) = True"
| "path_prefix_scope_covers (Some granted) (Some wanted) =
     list_all (\<lambda>v. list_ex (\<lambda>p. prefix p v) granted) wanted"

fun parse_resource_scopes_from ::
  "GuildResourceScope list \<Rightarrow> string list \<Rightarrow> GuildResourceScope list option" where
  "parse_resource_scopes_from parsed [] = Some parsed"
| "parse_resource_scopes_from parsed (s # ss) =
     (case GuildResourceScope_parse s of
        Inl _ \<Rightarrow> None
      | Inr sc \<Rightarrow> parse_resource_scopes_from (push_unique parsed sc) ss)"

definition parse_resource_scopes :: "string list \<Rightarrow> GuildResourceScope list option" where
  "parse_resource_scopes scopes = parse_resource_scopes_from [] scopes"

definition canonicalize_resource_scopes :: "string list \<Rightarrow> string list option" where
  "canonicalize_resource_scopes scopes =
     map_option (map canonical_prefix) (parse_resource_scopes scopes)"

fun resource_scope_covers :: "string list option \<Rightarrow> string list option \<Rightarrow> bool" where
  "resource_scope_covers granted None = True"
| "resource_scope_covers None (Some _) = True"
| "resource_scope_covers (Some granted) (Some wanted) =
     (case parse_resource_scopes granted of
        None \<Rightarrow> False
      | Some gs \<Rightarrow>
          (case parse_resource_scopes wanted of
             None \<Rightarrow> False
           | Some ws \<Rightarrow> list_all (\<lambda>w. w \<in> set gs) ws))"

fun max_bytes_covers :: "u64 option \<Rightarrow> u64 option \<Rightarrow> bool" where
  "max_bytes_covers granted None = True"
| "max_bytes_covers None (Some _) = True"
| "max_bytes_covers (Some granted) (Some wanted) = (granted \<ge> wanted)"

fun max_redirects_covers :: "u8 option \<Rightarrow> u8 option \<Rightarrow> bool" where
  "max_redirects_covers granted None = True"
| "max_redirects_covers None (Some _) = True"
| "max_redirects_covers (Some granted) (Some wanted) = (granted \<ge> wanted)"

definition allow_flag_enabled :: "bool option \<Rightarrow> bool" where
  "allow_flag_enabled v \<longleftrightarrow> v = Some True"

definition allow_flag_covers :: "bool option \<Rightarrow> bool option \<Rightarrow> bool" where
  "allow_flag_covers granted wanted \<longleftrightarrow> \<not> allow_flag_enabled wanted \<or> allow_flag_enabled granted"

text \<open>Whether a candidate host falls under canonical host and suffix lists.\<close>

definition host_in_scope :: "string list \<Rightarrow> string list \<Rightarrow> string \<Rightarrow> bool" where
  "host_in_scope hosts sfxs host \<longleftrightarrow>
     list_ex ((=) host) hosts
     \<or> \<not> is_ip_literal_host host \<and> list_ex (domain_suffix_matches host) sfxs"

definition http_host_scope_covers ::
  "string list option \<Rightarrow> string list option \<Rightarrow> string list option \<Rightarrow> string list option \<Rightarrow> bool" where
  "http_host_scope_covers granted_hosts granted_suffixes required_hosts required_suffixes =
     (let gh = (case granted_hosts of None \<Rightarrow> [] | Some hosts \<Rightarrow> canonicalize_host_scope hosts);
          gs = (case granted_suffixes of None \<Rightarrow> [] | Some ss \<Rightarrow> canonicalize_host_suffix_scope ss)
      in is_none_or required_hosts
           (\<lambda>hosts. list_all (host_in_scope gh gs) (canonicalize_host_scope hosts))
         \<and> is_none_or required_suffixes
           (\<lambda>ss. list_all (\<lambda>s. list_ex (domain_suffix_matches s) gs) (canonicalize_host_suffix_scope ss)))"

section \<open>Reduction of a required scope to the parent's\<close>

datatype 'a ReducedConstraint = Unbounded | Limited 'a

fun into_option :: "'a ReducedConstraint \<Rightarrow> 'a option" where
  "into_option Unbounded = None"
| "into_option (Limited v) = Some v"

record ReducedHostScope =
  reduced_hosts :: "string list option"
  reduced_suffixes :: "string list option"

fun reduce_required_intersecting_enum_scope ::
  "'a list option \<Rightarrow> 'a list option \<Rightarrow> 'a list ReducedConstraint option" where
  "reduce_required_intersecting_enum_scope None None = Some Unbounded"
| "reduce_required_intersecting_enum_scope (Some parent) None = Some (Limited parent)"
| "reduce_required_intersecting_enum_scope None (Some wanted) = Some (Limited wanted)"
| "reduce_required_intersecting_enum_scope (Some parent) (Some wanted) =
     (let reduced = filter (\<lambda>c. list_ex ((=) c) parent) wanted
      in if reduced = [] then None else Some (Limited reduced))"

definition reduce_required_exact_string_scope ::
  "string list option \<Rightarrow> string list option \<Rightarrow> string list ReducedConstraint option" where
  "reduce_required_exact_string_scope parent wanted =
     reduce_required_intersecting_enum_scope parent wanted"

fun reduce_required_path_prefix_scope ::
  "string list option \<Rightarrow> string list option \<Rightarrow> string list ReducedConstraint option" where
  "reduce_required_path_prefix_scope None None = Some Unbounded"
| "reduce_required_path_prefix_scope (Some parent) None = Some (Limited parent)"
| "reduce_required_path_prefix_scope None (Some wanted) = Some (Limited wanted)"
| "reduce_required_path_prefix_scope (Some parent) (Some wanted) =
     (let reduced = filter (\<lambda>c. list_ex (\<lambda>p. prefix p c) parent) wanted
      in if reduced = [] then None else Some (Limited reduced))"

fun reduce_required_resource_scope ::
  "string list option \<Rightarrow> string list option \<Rightarrow> string list ReducedConstraint option" where
  "reduce_required_resource_scope None None = Some Unbounded"
| "reduce_required_resource_scope (Some parent) None =
     map_option Limited (canonicalize_resource_scopes parent)"
| "reduce_required_resource_scope None (Some wanted) =
     map_option Limited (canonicalize_resource_scopes wanted)"
| "reduce_required_resource_scope (Some parent) (Some wanted) =
     (case parse_resource_scopes parent of
        None \<Rightarrow> None
      | Some ps \<Rightarrow>
          (case parse_resource_scopes wanted of
             None \<Rightarrow> None
           | Some ws \<Rightarrow>
               (let reduced = map canonical_prefix (filter (\<lambda>c. c \<in> set ps) ws)
                in if reduced = [] then None else Some (Limited reduced))))"

fun reduce_required_enum_scope ::
  "'a list option \<Rightarrow> 'a list option \<Rightarrow> 'a list ReducedConstraint option" where
  "reduce_required_enum_scope None None = Some Unbounded"
| "reduce_required_enum_scope (Some parent) None = Some (Limited parent)"
| "reduce_required_enum_scope None (Some wanted) = Some (Limited wanted)"
| "reduce_required_enum_scope (Some parent) (Some wanted) =
     (if list_all (\<lambda>v. list_ex ((=) v) parent) wanted then Some (Limited wanted) else None)"

fun reduce_required_max_bytes :: "u64 option \<Rightarrow> u64 option \<Rightarrow> u64 ReducedConstraint option" where
  "reduce_required_max_bytes None None = Some Unbounded"
| "reduce_required_max_bytes (Some parent) None = Some (Limited parent)"
| "reduce_required_max_bytes None (Some wanted) = Some (Limited wanted)"
| "reduce_required_max_bytes (Some parent) (Some wanted) =
     (if parent \<ge> wanted then Some (Limited wanted) else None)"

fun reduce_required_max_redirects :: "u8 option \<Rightarrow> u8 option \<Rightarrow> u8 ReducedConstraint option" where
  "reduce_required_max_redirects None None = Some Unbounded"
| "reduce_required_max_redirects (Some parent) None = Some (Limited parent)"
| "reduce_required_max_redirects None (Some wanted) = Some (Limited wanted)"
| "reduce_required_max_redirects (Some parent) (Some wanted) =
     (if parent \<ge> wanted then Some (Limited wanted) else None)"

fun reduce_optional_allow_flag :: "bool option \<Rightarrow> bool option \<Rightarrow> bool ReducedConstraint option" where
  "reduce_optional_allow_flag parent (Some False) = Some (Limited False)"
| "reduce_optional_allow_flag parent (Some True) =
     (if allow_flag_enabled parent then Some (Limited True) else None)"
| "reduce_optional_allow_flag parent None =
     Some (case parent of Some v \<Rightarrow> Limited v | None \<Rightarrow> Unbounded)"

fun reduce_cap_allow_flag :: "bool option \<Rightarrow> bool option \<Rightarrow> bool option" where
  "reduce_cap_allow_flag (Some False) granted = Some False"
| "reduce_cap_allow_flag (Some True) granted = granted"
| "reduce_cap_allow_flag None granted = granted"

fun reduce_required_http_hosts ::
  "string list option \<Rightarrow> string list option \<Rightarrow> string list option \<Rightarrow> unit + string list option" where
  "reduce_required_http_hosts parent_hosts parent_suffixes None =
     Inr (map_option canonicalize_host_scope parent_hosts)"
| "reduce_required_http_hosts parent_hosts parent_suffixes (Some hosts) =
     (let wanted = canonicalize_host_scope hosts
      in if parent_hosts = None \<and> parent_suffixes = None then Inr (Some wanted)
         else
           let ph = (case parent_hosts of None \<Rightarrow> [] | Some hs \<Rightarrow> canonicalize_host_scope hs);
               ps = (case parent_suffixes of None \<Rightarrow> [] | Some ss \<Rightarrow> canonicalize_host_suffix_scope ss);
               reduced = filter (host_in_scope ph ps) wanted
           in if reduced = [] then Inl () else Inr (Some reduced))"

fun reduce_required_http_host_suffixes ::
  "string list option \<Rightarrow> string list option \<Rightarrow> unit + string list option" where
  "reduce_required_http_host_suffixes parent_suffixes None =
     Inr (map_option canonicalize_host_suffix_scope parent_suffixes)"
| "reduce_required_http_host_suffixes None (Some ss) = Inr (Some (canonicalize_host_suffix_scope ss))"
| "reduce_required_http_host_suffixes (Some ps) (Some ss) =
     (let parents = canonicalize_host_suffix_scope ps;
          reduced = filter (\<lambda>c. list_ex (domain_suffix_matches c) parents) (canonicalize_host_suffix_scope ss)
      in if reduced = [] then Inl () else Inr (Some reduced))"

definition reduce_required_host_scope ::
  "string list option \<Rightarrow> string list option \<Rightarrow> string list option \<Rightarrow> string list option
     \<Rightarrow> ReducedHostScope option" where
  "reduce_required_host_scope parent_hosts parent_suffixes required_hosts required_suffixes =
     (case res_ok (reduce_required_http_hosts parent_hosts parent_suffixes required_hosts) of
        None \<Rightarrow> None
      | Some hosts \<Rightarrow>
          (case res_ok (reduce_required_http_host_suffixes parent_suffixes required_suffixes) of
             None \<Rightarrow> None
           | Some sfxs \<Rightarrow> Some \<lparr>reduced_hosts = hosts, reduced_suffixes = sfxs\<rparr>))"

section \<open>Requests under a scope\<close>

definition matches_http_method :: "HttpMethod list option \<Rightarrow> HttpMethod \<Rightarrow> bool" where
  "matches_http_method allowed m = is_none_or allowed (list_ex ((=) m))"

definition matches_http_scheme :: "HttpScheme list option \<Rightarrow> HttpScheme \<Rightarrow> bool" where
  "matches_http_scheme allowed s = is_none_or allowed (list_ex ((=) s))"

definition matches_http_host ::
  "string list option \<Rightarrow> string list option \<Rightarrow> string \<Rightarrow> bool \<Rightarrow> bool" where
  "matches_http_host hosts sfxs host is_ip_literal =
     (if hosts = None \<and> sfxs = None then True
      else
        let canonical_host = canonicalize_http_host host;
            exact_allowed = is_some_and hosts (\<lambda>hs. list_ex ((=) canonical_host) (canonicalize_host_scope hs));
            suffix_allowed = (\<not> is_ip_literal \<and> is_some_and sfxs (\<lambda>ss.
              list_ex (domain_suffix_matches canonical_host) (canonicalize_host_suffix_scope ss)))
        in exact_allowed \<or> suffix_allowed)"

definition matches_http_port :: "u16 list option \<Rightarrow> u16 \<Rightarrow> bool" where
  "matches_http_port allowed p = is_none_or allowed (\<lambda>ps. p \<in> set ps)"

definition matches_http_path :: "string list option \<Rightarrow> string \<Rightarrow> bool" where
  "matches_http_path allowed path = is_none_or allowed (list_ex (\<lambda>p. prefix p path))"

text \<open>
  The common reading of a scope: an absent list allows every value, an absent limit every
  size, an absent flag nothing.
\<close>

definition in_enum_scope :: "'a list option \<Rightarrow> 'a \<Rightarrow> bool" where
  "in_enum_scope sc x = is_none_or sc (\<lambda>xs. x \<in> set xs)"

definition in_limit :: "'w::len word option \<Rightarrow> 'w word \<Rightarrow> bool" where
  "in_limit sc n = is_none_or sc (\<lambda>m. n \<le> m)"

definition in_resource_scope :: "string list option \<Rightarrow> GuildResourceScope \<Rightarrow> bool" where
  "in_resource_scope sc x =
     is_none_or sc (\<lambda>ps. is_some_and (parse_resource_scopes ps) (\<lambda>scs. x \<in> set scs))"

section \<open>The contract of a reduction\<close>

text \<open>
  A reduction takes the parent's scope and a required one. In every case the result stays
  within the parent; most reductions also stay within the requirement, some lose nothing that
  both sides allow, and the intersecting ones fail only on disjoint scopes.
\<close>

fun reduce_chain :: "('s \<Rightarrow> 'r \<Rightarrow> 's option) \<Rightarrow> 's \<Rightarrow> 'r list \<Rightarrow> 's option" where
  "reduce_chain f p [] = Some p"
| "reduce_chain f p (r # rs) = (case f p r of None \<Rightarrow> None | Some s \<Rightarrow> reduce_chain f s rs)"

locale scope_reduction =
  fixes allows :: "'s \<Rightarrow> 'x \<Rightarrow> bool"
    and reduce :: "'s \<Rightarrow> 's \<Rightarrow> 's option"
  assumes reduce_parent: "reduce p r = Some s \<Longrightarrow> allows s x \<Longrightarrow> allows p x"
begin

lemma reduce_subset: "reduce p r = Some s \<Longrightarrow> Collect (allows s) \<subseteq> Collect (allows p)"
  using reduce_parent by auto

lemma chain_parent: "reduce_chain reduce p rs = Some s \<Longrightarrow> allows s x \<Longrightarrow> allows p x"
  by (induction rs arbitrary: p) (auto split: option.splits dest: reduce_parent)

lemma chain_prefix:
  "reduce_chain reduce p (rs @ ts) = Some s \<Longrightarrow> \<exists>m. reduce_chain reduce p rs = Some m \<and> (allows s x \<longrightarrow> allows m x)"
  by (induction rs arbitrary: p) (auto split: option.splits dest: chain_parent)

end

locale scope_bound = scope_reduction +
  assumes reduce_required: "reduce p r = Some s \<Longrightarrow> allows s x \<Longrightarrow> allows r x"
begin

lemma reduce_within: "reduce p r = Some s \<Longrightarrow> allows s x \<Longrightarrow> allows p x \<and> allows r x"
  using reduce_parent reduce_required by blast

lemma chain_required:
  "reduce_chain reduce p rs = Some s \<Longrightarrow> allows s x \<Longrightarrow> r \<in> set rs \<Longrightarrow> allows r x"
  by (induction rs arbitrary: p) (auto split: option.splits dest: reduce_required chain_parent)

end

locale scope_meet = scope_bound +
  assumes reduce_keeps: "reduce p r = Some s \<Longrightarrow> allows p x \<Longrightarrow> allows r x \<Longrightarrow> allows s x"
begin

lemma reduce_meet: "reduce p r = Some s \<Longrightarrow> allows s x \<longleftrightarrow> allows p x \<and> allows r x"
  using reduce_within reduce_keeps by blast

lemma chain_meet:
  "reduce_chain reduce p rs = Some s \<Longrightarrow> allows s x \<longleftrightarrow> allows p x \<and> (\<forall>r \<in> set rs. allows r x)"
  by (induction rs arbitrary: p) (auto split: option.splits simp: reduce_meet)

end

locale scope_intersection = scope_meet +
  assumes reduce_None: "reduce p r = None \<Longrightarrow> allows p x \<Longrightarrow> allows r x \<Longrightarrow> False"
begin

lemma overlap_reduces: "allows p x \<Longrightarrow> allows r x \<Longrightarrow> \<exists>s. reduce p r = Some s \<and> allows s x"
  using reduce_None reduce_keeps by (cases "reduce p r") blast+

end

section \<open>Lemmas on the scope functions\<close>

lemma list_ex_eq [simp]: "list_ex ((=) x) xs \<longleftrightarrow> x \<in> set xs"
  by (auto simp: list_ex_iff)

lemma enum_scope_covers_iff:
  "enum_scope_covers g w \<longleftrightarrow> (\<forall>gs ws. g = Some gs \<longrightarrow> w = Some ws \<longrightarrow> set ws \<subseteq> set gs)"
  by (cases "(g, w)" rule: enum_scope_covers.cases) (auto simp: list_all_iff)

lemma enum_scope_covers_trans:
  assumes "enum_scope_covers a b" "enum_scope_covers b c" "b = None \<Longrightarrow> a = None \<or> c = None"
  shows "enum_scope_covers a c"
  using assms by (cases b) (auto simp: enum_scope_covers_iff)

lemma parse_resource_scopes_from_Some:
  "parse_resource_scopes_from acc ss = Some scs \<longleftrightarrow>
     (\<exists>ts. ss = map canonical_prefix ts \<and> scs = foldl push_unique acc ts)"
proof (induction ss arbitrary: acc)
  case (Cons s ss)
  show ?case
  proof (cases "GuildResourceScope_parse s")
    case (Inl e)
    then have "s \<noteq> canonical_prefix t" for t
      by auto
    with Inl show ?thesis
      by (auto simp: Cons_eq_map_conv)
  next
    case (Inr sc)
    then have "s = canonical_prefix sc"
      by (simp add: scope_parse_Inr_iff)
    then show ?thesis
      using Cons.IH[of "push_unique acc sc"] by (auto simp: Cons_eq_map_conv)
  qed
qed auto

lemma parse_resource_scopes_Some:
  "parse_resource_scopes ss = Some scs \<longleftrightarrow>
     (\<exists>ts. ss = map canonical_prefix ts \<and> scs = foldl push_unique [] ts)"
  by (simp add: parse_resource_scopes_def parse_resource_scopes_from_Some)

lemma parse_resource_scopes_canonical:
  "parse_resource_scopes (map canonical_prefix ts) = Some (foldl push_unique [] ts)"
  unfolding parse_resource_scopes_Some by blast

lemma in_resource_scope_canonical [simp]:
  "in_resource_scope (Some (map canonical_prefix ts)) x \<longleftrightarrow> x \<in> set ts"
  by (simp add: in_resource_scope_def parse_resource_scopes_canonical)

lemma set_foldl_push_unique_map:
  "set (foldl (\<lambda>acc h. push_unique acc (f h)) acc hs) = set acc \<union> f ` set hs"
  by (induction hs arbitrary: acc) auto

lemma set_canonicalize_host_scope [simp]:
  "set (canonicalize_host_scope hs) = canonicalize_http_host ` set hs"
  by (simp add: canonicalize_host_scope_def set_foldl_push_unique_map)

lemma set_canonicalize_host_suffix_scope [simp]:
  "set (canonicalize_host_suffix_scope hs) = canonicalize_http_host_suffix ` set hs"
  by (simp add: canonicalize_host_suffix_scope_def set_foldl_push_unique_map)

lemma canonicalize_http_host_idem [simp]:
  "canonicalize_http_host (canonicalize_http_host h) = canonicalize_http_host h"
  by (cases "ip_parse h") (simp_all add: canonicalize_http_host_def ip_parse_display)

lemma canonicalize_suffix_idem [simp]:
  "canonicalize_http_host_suffix (canonicalize_http_host_suffix h) = canonicalize_http_host_suffix h"
  by (simp add: canonicalize_http_host_suffix_def)

lemma is_ip_literal_canonical [simp]:
  "is_ip_literal_host (canonicalize_http_host h) = is_ip_literal_host h"
  by (cases "ip_parse h") (simp_all add: canonicalize_http_host_def is_ip_literal_host_def ip_parse_display)

lemma domain_suffix_matches_iff:
  "domain_suffix_matches h s \<longleftrightarrow> h = s \<or> (\<exists>p. h = p @ ''.'' @ s)"
  by (auto simp: domain_suffix_matches_def is_some_and_iff strip_suffix_Some_iff suffix_def)

lemma domain_suffix_matches_refl [simp]: "domain_suffix_matches h h"
  by (simp add: domain_suffix_matches_iff)

lemma domain_suffix_matches_trans:
  "domain_suffix_matches h s \<Longrightarrow> domain_suffix_matches s t \<Longrightarrow> domain_suffix_matches h t"
  by (auto simp: domain_suffix_matches_iff)

section \<open>Every reduction meets its contract\<close>

abbreviation intersect_enum :: "'a list option \<Rightarrow> 'a list option \<Rightarrow> 'a list option option" where
  "intersect_enum p r \<equiv> map_option into_option (reduce_required_intersecting_enum_scope p r)"

abbreviation subset_enum :: "'a list option \<Rightarrow> 'a list option \<Rightarrow> 'a list option option" where
  "subset_enum p r \<equiv> map_option into_option (reduce_required_enum_scope p r)"

abbreviation intersect_resource :: "string list option \<Rightarrow> string list option \<Rightarrow> string list option option" where
  "intersect_resource p r \<equiv> map_option into_option (reduce_required_resource_scope p r)"

abbreviation restrict_paths :: "string list option \<Rightarrow> string list option \<Rightarrow> string list option option" where
  "restrict_paths p r \<equiv> map_option into_option (reduce_required_path_prefix_scope p r)"

abbreviation restrict_bytes :: "u64 option \<Rightarrow> u64 option \<Rightarrow> u64 option option" where
  "restrict_bytes p r \<equiv> map_option into_option (reduce_required_max_bytes p r)"

abbreviation restrict_redirects :: "u8 option \<Rightarrow> u8 option \<Rightarrow> u8 option option" where
  "restrict_redirects p r \<equiv> map_option into_option (reduce_required_max_redirects p r)"

abbreviation restrict_flag :: "bool option \<Rightarrow> bool option \<Rightarrow> bool option option" where
  "restrict_flag p r \<equiv> map_option into_option (reduce_optional_allow_flag p r)"

interpretation enum_meet: scope_intersection in_enum_scope intersect_enum
proof
  fix p r :: "'a list option" and s x
  assume "intersect_enum p r = Some s"
  then have "in_enum_scope s x \<longleftrightarrow> in_enum_scope p x \<and> in_enum_scope r x"
    by (cases "(p, r)" rule: reduce_required_intersecting_enum_scope.cases)
      (auto simp: in_enum_scope_def Let_def split: if_splits)
  then show "in_enum_scope s x \<Longrightarrow> in_enum_scope p x"
    and "in_enum_scope s x \<Longrightarrow> in_enum_scope r x"
    and "in_enum_scope p x \<Longrightarrow> in_enum_scope r x \<Longrightarrow> in_enum_scope s x"
    by simp_all
next
  fix p r :: "'a list option" and x
  assume "intersect_enum p r = None" "in_enum_scope p x" "in_enum_scope r x"
  then show False
    by (cases "(p, r)" rule: reduce_required_intersecting_enum_scope.cases)
      (auto simp: in_enum_scope_def Let_def filter_empty_conv split: if_splits)
qed

interpretation enum_subset: scope_meet in_enum_scope subset_enum
proof
  fix p r :: "'a list option" and s x
  assume "subset_enum p r = Some s"
  then have "in_enum_scope s x \<longleftrightarrow> in_enum_scope p x \<and> in_enum_scope r x"
    by (cases "(p, r)" rule: reduce_required_enum_scope.cases)
      (auto simp: in_enum_scope_def list_all_iff split: if_splits)
  then show "in_enum_scope s x \<Longrightarrow> in_enum_scope p x"
    and "in_enum_scope s x \<Longrightarrow> in_enum_scope r x"
    and "in_enum_scope p x \<Longrightarrow> in_enum_scope r x \<Longrightarrow> in_enum_scope s x"
    by simp_all
qed

lemma reduce_resource_meet:
  assumes "intersect_resource p r = Some s"
  shows "in_resource_scope s x \<longleftrightarrow> in_resource_scope p x \<and> in_resource_scope r x"
  using assms
  by (cases "(p, r)" rule: reduce_required_resource_scope.cases)
    (auto simp: in_resource_scope_def canonicalize_resource_scopes_def parse_resource_scopes_canonical
      split: option.splits if_splits)

lemma reduce_resource_disjoint:
  assumes "intersect_resource p r = None" "in_resource_scope p x" "in_resource_scope r x"
  shows False
  using assms
  by (cases "(p, r)" rule: reduce_required_resource_scope.cases)
    (auto simp: in_resource_scope_def canonicalize_resource_scopes_def filter_empty_conv
      split: option.splits if_splits)

interpretation resource_meet: scope_intersection in_resource_scope intersect_resource
proof
  fix p r and x
  show "intersect_resource p r = None \<Longrightarrow> in_resource_scope p x \<Longrightarrow> in_resource_scope r x \<Longrightarrow> False"
    by (rule reduce_resource_disjoint)
qed (use reduce_resource_meet in \<open>blast+\<close>)

lemma reduce_bytes_meet:
  assumes "restrict_bytes p r = Some s"
  shows "in_limit s x \<longleftrightarrow> in_limit p x \<and> in_limit r x"
  using assms
  by (cases "(p, r)" rule: reduce_required_max_bytes.cases)
    (auto simp: in_limit_def split: if_splits)

interpretation bytes_meet: scope_meet in_limit restrict_bytes
  by unfold_locales (use reduce_bytes_meet in \<open>blast+\<close>)

lemma reduce_redirects_meet:
  assumes "restrict_redirects p r = Some s"
  shows "in_limit s x \<longleftrightarrow> in_limit p x \<and> in_limit r x"
  using assms
  by (cases "(p, r)" rule: reduce_required_max_redirects.cases)
    (auto simp: in_limit_def split: if_splits)

interpretation redirects_meet: scope_meet in_limit restrict_redirects
  by unfold_locales (use reduce_redirects_meet in \<open>blast+\<close>)

lemma reduce_paths_bound:
  assumes red: "restrict_paths p r = Some s" and m: "matches_http_path s x"
  shows "matches_http_path p x \<and> matches_http_path r x"
proof (cases "p = None \<or> r = None")
  case True
  with assms show ?thesis
    by (cases p; cases r) (auto simp: matches_http_path_def)
next
  case False
  then obtain ps rs where pr: "p = Some ps" "r = Some rs"
    by auto
  define f where "f = filter (\<lambda>c. list_ex (\<lambda>p. prefix p c) ps) rs"
  have "s = Some f"
    using red by (auto simp: pr f_def Let_def split: if_splits)
  then have "\<exists>q \<in> set f. prefix q x"
    using m by (simp add: matches_http_path_def list_ex_iff)
  then obtain q where q: "q \<in> set rs" "list_ex (\<lambda>p. prefix p q) ps" "prefix q x"
    unfolding f_def by auto
  moreover from q(2) obtain pp where "pp \<in> set ps" "prefix pp q"
    by (auto simp: list_ex_iff)
  then have "list_ex (\<lambda>p. prefix p x) ps"
    using q(3) prefix_order.trans by (auto simp: list_ex_iff)
  ultimately show ?thesis
    by (auto simp: pr matches_http_path_def list_ex_iff)
qed

interpretation paths_bound: scope_bound matches_http_path restrict_paths
  by unfold_locales (use reduce_paths_bound in \<open>blast+\<close>)

text \<open>
  A flag grants only when it is \<open>true\<close>. The reduction never enables a flag that the parent
  has not, but an unstated requirement inherits the parent's flag, so there is no bound by the
  requirement.
\<close>

definition flag_allows :: "bool option \<Rightarrow> unit \<Rightarrow> bool" where
  "flag_allows v u = allow_flag_enabled v"

lemma reduce_flag_parent:
  "restrict_flag p r = Some s \<Longrightarrow> allow_flag_enabled s \<Longrightarrow> allow_flag_enabled p"
  by (cases "(p, r)" rule: reduce_optional_allow_flag.cases)
    (auto simp: allow_flag_enabled_def split: if_splits option.splits)

interpretation flag_reduction: scope_reduction flag_allows restrict_flag
  by unfold_locales (use reduce_flag_parent in \<open>unfold flag_allows_def, blast\<close>)

lemma reduce_cap_allow_flag_grant:
  "allow_flag_enabled (reduce_cap_allow_flag c g) \<longleftrightarrow> allow_flag_enabled g \<and> c \<noteq> Some False"
  by (cases "(c, g)" rule: reduce_cap_allow_flag.cases) (auto simp: allow_flag_enabled_def)

section \<open>Host scopes\<close>

lemma matches_http_host_iff:
  "matches_http_host hosts sfxs h (is_ip_literal_host h) \<longleftrightarrow>
     hosts = None \<and> sfxs = None
     \<or> (\<exists>hs. hosts = Some hs \<and> canonicalize_http_host h \<in> canonicalize_http_host ` set hs)
     \<or> \<not> is_ip_literal_host h \<and> (\<exists>ss. sfxs = Some ss \<and> (\<exists>s \<in> set ss.
          domain_suffix_matches (canonicalize_http_host h) (canonicalize_http_host_suffix s)))"
  by (auto simp: matches_http_host_def is_some_and_iff list_ex_iff Let_def)

lemma host_in_scope_iff:
  "host_in_scope (case gh of None \<Rightarrow> [] | Some hs \<Rightarrow> canonicalize_host_scope hs)
     (case gs of None \<Rightarrow> [] | Some ss \<Rightarrow> canonicalize_host_suffix_scope ss) (canonicalize_http_host h)
   \<longleftrightarrow> matches_http_host gh gs h (is_ip_literal_host h) \<and> (gh \<noteq> None \<or> gs \<noteq> None)"
  by (auto simp: host_in_scope_def matches_http_host_iff list_ex_iff split: option.splits)

text \<open>
  What a reduced host scope allows: a host list within the required hosts and within the
  parent, together with a suffix list within the parent's suffixes, where it has any.
\<close>

lemma reduced_hosts_sound:
  assumes "reduce_required_http_hosts ph ps rh = Inr (Some hs)" "h \<in> set hs"
  shows "matches_http_host ph ps h (is_ip_literal_host h)"
proof (cases rh)
  case None
  with assms show ?thesis
    by (auto simp: matches_http_host_iff)
next
  case (Some wanted)
  with assms obtain w where w: "w \<in> set wanted" "h = canonicalize_http_host w"
    and "ph = None \<and> ps = None \<or>
      host_in_scope (case ph of None \<Rightarrow> [] | Some hs \<Rightarrow> canonicalize_host_scope hs)
        (case ps of None \<Rightarrow> [] | Some ss \<Rightarrow> canonicalize_host_suffix_scope ss) h"
    by (auto simp: Let_def split: if_splits)
  then show ?thesis
    using host_in_scope_iff[of ph ps h] by (auto simp: matches_http_host_def)
qed

lemma reduced_suffixes_sound:
  assumes "reduce_required_http_host_suffixes (Some ps) rs = Inr (Some ss)" "s \<in> set ss"
  shows "\<exists>p \<in> set ps. domain_suffix_matches (canonicalize_http_host_suffix s) (canonicalize_http_host_suffix p)"
proof (cases rs)
  case None
  with assms obtain p where "p \<in> set ps" "s = canonicalize_http_host_suffix p"
    by auto
  then show ?thesis
    by (intro bexI[of _ p]) simp_all
next
  case (Some wanted)
  with assms show ?thesis
    by (force simp: Let_def list_ex_iff split: if_splits)
qed

lemma reduced_hosts_match:
  assumes "reduce_required_http_hosts ph ps rh = Inr (Some hs)"
    and "canonicalize_http_host h \<in> canonicalize_http_host ` set hs"
  shows "matches_http_host ph ps h (is_ip_literal_host h)"
proof -
  obtain h' where h': "h' \<in> set hs" "canonicalize_http_host h = canonicalize_http_host h'"
    using assms(2) by auto
  then have "is_ip_literal_host h = is_ip_literal_host h'"
    by (metis is_ip_literal_canonical)
  then show ?thesis
    using reduced_hosts_sound[OF assms(1) h'(1)] h'(2)
    unfolding matches_http_host_iff by simp
qed

lemma reduced_host_scope_parent:
  assumes red: "reduce_required_host_scope ph ps rh rs = Some sc"
    and m: "matches_http_host (reduced_hosts sc) (reduced_suffixes sc) h (is_ip_literal_host h)"
    and bounded: "ps = None \<Longrightarrow> ph \<noteq> None \<Longrightarrow> rs = None \<or> rs = Some []"
  shows "matches_http_host ph ps h (is_ip_literal_host h)"
proof -
  obtain hs ss where hs: "reduce_required_http_hosts ph ps rh = Inr hs"
    and ss: "reduce_required_http_host_suffixes ps rs = Inr ss"
    and sc: "sc = \<lparr>reduced_hosts = hs, reduced_suffixes = ss\<rparr>"
    using red by (auto simp: reduce_required_host_scope_def split: option.splits)
  consider (free) "hs = None" "ss = None"
    | (host) l where "hs = Some l" "canonicalize_http_host h \<in> canonicalize_http_host ` set l"
    | (suffix) l s where "ss = Some l" "s \<in> set l" "\<not> is_ip_literal_host h"
        "domain_suffix_matches (canonicalize_http_host h) (canonicalize_http_host_suffix s)"
    using m by (auto simp: sc matches_http_host_iff)
  then show ?thesis
  proof cases
    case free
    then have "ph = None" "ps = None"
      using hs ss by (cases rh; cases ps; cases rs; auto simp: Let_def split: if_splits)+
    then show ?thesis
      by (simp add: matches_http_host_def)
  next
    case host
    then show ?thesis
      using reduced_hosts_match hs by blast
  next
    case suffix
    show ?thesis
    proof (cases ps)
      case None
      with suffix ss bounded show ?thesis
        by (cases ph; cases rs) (auto simp: matches_http_host_def canonicalize_host_suffix_scope_def)
    next
      case (Some p)
      then obtain q where "q \<in> set p"
        "domain_suffix_matches (canonicalize_http_host_suffix s) (canonicalize_http_host_suffix q)"
        using reduced_suffixes_sound ss suffix by blast
      then have "\<exists>t \<in> set p. domain_suffix_matches (canonicalize_http_host h) (canonicalize_http_host_suffix t)"
        using suffix(4) domain_suffix_matches_trans by blast
      with suffix(3) Some show ?thesis
        unfolding matches_http_host_iff by simp
    qed
  qed
qed

lemma http_host_scope_covers_suffixes:
  assumes "http_host_scope_covers gh None rh rs"
  shows "rs = None \<or> rs = Some []"
proof (cases rs)
  case (Some l)
  then have "set (canonicalize_host_suffix_scope l) = {}"
    using assms by (auto simp: http_host_scope_covers_def list_all_iff)
  with Some show ?thesis
    by simp
qed simp

lemma http_host_scope_covers_hosts:
  assumes "http_host_scope_covers gh gs (Some hs) rs" "h \<in> set hs"
  shows "matches_http_host gh gs h (is_ip_literal_host h)"
proof -
  have "host_in_scope (case gh of None \<Rightarrow> [] | Some hs \<Rightarrow> canonicalize_host_scope hs)
     (case gs of None \<Rightarrow> [] | Some ss \<Rightarrow> canonicalize_host_suffix_scope ss) (canonicalize_http_host h)"
    using assms by (auto simp: http_host_scope_covers_def list_all_iff Let_def)
  then show ?thesis
    by (simp add: host_in_scope_iff)
qed

end
