(* ===== verification/Guild_Serde.thy ===== *)
theory Guild_Serde
  imports Guild_Types
begin

text \<open>
  The \<open>Serialize\<close> implementations that serde derives for the types of \<open>guild-types\<close>, as far
  as the host writes these values into denial, reason and error details. Enumerations are
  kebab-case strings, \<open>CapabilityConstraints\<close> is untagged, and optional constraint fields
  are left out when absent.
\<close>

definition CapabilityId_json :: "CapabilityId \<Rightarrow> json" where
  "CapabilityId_json i = JString (CapabilityId_as_str i)"

definition CapabilityAccess_json :: "CapabilityAccess \<Rightarrow> json" where
  "CapabilityAccess_json a = JString (capability_access_label a)"

definition ResourceKind_json :: "ResourceKind \<Rightarrow> json" where
  "ResourceKind_json k = JString (resource_kind_label k)"

definition Severity_json :: "Severity \<Rightarrow> json" where
  "Severity_json l = JString (severity_label l)"

fun HttpMethod_json :: "HttpMethod \<Rightarrow> json" where
  "HttpMethod_json Get = JString ''get''"
| "HttpMethod_json Head = JString ''head''"

fun HttpScheme_json :: "HttpScheme \<Rightarrow> json" where
  "HttpScheme_json Http = JString ''http''"
| "HttpScheme_json Https = JString ''https''"

fun EvidenceAudience_json :: "EvidenceAudience \<Rightarrow> json" where
  "EvidenceAudience_json User = JString ''user''"
| "EvidenceAudience_json Assistant = JString ''assistant''"
| "EvidenceAudience_json Internal = JString ''internal''"

fun RedactionClass_json :: "RedactionClass \<Rightarrow> json" where
  "RedactionClass_json RC_None = JString ''none''"
| "RedactionClass_json SecretsRemoved = JString ''secrets-removed''"
| "RedactionClass_json PiiRemoved = JString ''pii-removed''"
| "RedactionClass_json TenantSensitive = JString ''tenant-sensitive''"

definition FilesystemOperation_json :: "FilesystemOperation \<Rightarrow> json" where
  "FilesystemOperation_json p = JString (filesystem_operation_label p)"

fun PolicyRuleTarget_json :: "PolicyRuleTarget \<Rightarrow> json" where
  "PolicyRuleTarget_json Any = JString ''any''"
| "PolicyRuleTarget_json Requested = JString ''requested''"
| "PolicyRuleTarget_json Required = JString ''required''"

definition LocalTrustTier_json :: "LocalTrustTier \<Rightarrow> json" where
  "LocalTrustTier_json t = JString (LocalTrustTier_display t)"

definition InstalledVerificationState_json :: "InstalledVerificationState \<Rightarrow> json" where
  "InstalledVerificationState_json v = JString (InstalledVerificationState_display v)"

definition list_json :: "('a \<Rightarrow> json) \<Rightarrow> 'a list \<Rightarrow> json" where
  "list_json f xs = JArray (map f xs)"

definition FilesystemRoot_json :: "FilesystemRoot \<Rightarrow> json" where
  "FilesystemRoot_json r = json_obj
     [(''name'', JString (root_name r)),
      (''guest_path_prefix'', JString (guest_path_prefix r)),
      (''host_path'', JString (host_path r)),
      (''operations'', list_json FilesystemOperation_json (operations r))]"

definition FilesystemConstraints_json :: "FilesystemConstraints \<Rightarrow> json" where
  "FilesystemConstraints_json c = json_obj
     [(''preopened_roots'', list_json FilesystemRoot_json (preopened_roots c))]"

definition ReadResourceConstraints_json :: "ReadResourceConstraints \<Rightarrow> json" where
  "ReadResourceConstraints_json c = json_obj
     (opt_field ''uri_prefixes'' (list_json JString) (uri_prefixes c)
      @ opt_field ''resource_kinds'' (list_json ResourceKind_json) (resource_kinds c))"

definition InvokeDependencyConstraints_json :: "InvokeDependencyConstraints \<Rightarrow> json" where
  "InvokeDependencyConstraints_json c = json_obj
     (opt_field ''aliases'' (list_json JString) (aliases c))"

definition EmitEvidenceConstraints_json :: "EmitEvidenceConstraints \<Rightarrow> json" where
  "EmitEvidenceConstraints_json c = json_obj
     (opt_field ''max_bytes'' json_word (max_bytes c)
      @ opt_field ''audiences'' (list_json EvidenceAudience_json) (audiences c)
      @ opt_field ''redactions'' (list_json RedactionClass_json) (redactions c))"

definition LogConstraints_json :: "LogConstraints \<Rightarrow> json" where
  "LogConstraints_json c = json_obj (opt_field ''levels'' (list_json Severity_json) (levels c))"

definition HttpRequestConstraints_json :: "HttpRequestConstraints \<Rightarrow> json" where
  "HttpRequestConstraints_json c = json_obj
     (opt_field ''allowed_schemes'' (list_json HttpScheme_json) (allowed_schemes c)
      @ opt_field ''allowed_hosts'' (list_json JString) (allowed_hosts c)
      @ opt_field ''allowed_host_suffixes'' (list_json JString) (allowed_host_suffixes c)
      @ opt_field ''allowed_ports'' (list_json json_word) (allowed_ports c)
      @ opt_field ''allowed_methods'' (list_json HttpMethod_json) (allowed_methods c)
      @ opt_field ''allowed_path_prefixes'' (list_json JString) (allowed_path_prefixes c)
      @ opt_field ''max_timeout_ms'' json_word (max_timeout_ms c)
      @ opt_field ''max_response_bytes'' json_word (max_response_bytes c)
      @ opt_field ''follow_redirects'' JBool (follow_redirects c)
      @ opt_field ''max_redirects'' json_word (max_redirects c)
      @ opt_field ''allow_loopback'' JBool (allow_loopback c)
      @ opt_field ''allow_link_local'' JBool (allow_link_local c)
      @ opt_field ''allow_private_networks'' JBool (allow_private_networks c)
      @ opt_field ''allow_ip_literals'' JBool (allow_ip_literals c))"

fun CapabilityConstraints_json :: "CapabilityConstraints \<Rightarrow> json" where
  "CapabilityConstraints_json CC_None = json_obj []"
| "CapabilityConstraints_json (CC_Filesystem c) = FilesystemConstraints_json c"
| "CapabilityConstraints_json (CC_HttpRequest c) = HttpRequestConstraints_json c"
| "CapabilityConstraints_json (CC_ReadResource c) = ReadResourceConstraints_json c"
| "CapabilityConstraints_json (CC_InvokeDependency c) = InvokeDependencyConstraints_json c"
| "CapabilityConstraints_json (CC_EmitEvidence c) = EmitEvidenceConstraints_json c"
| "CapabilityConstraints_json (CC_Log c) = LogConstraints_json c"

definition GrantedCapability_json :: "GrantedCapability \<Rightarrow> json" where
  "GrantedCapability_json g = json_obj
     [(''id'', CapabilityId_json (g_id g)),
      (''access'', CapabilityAccess_json (g_access g)),
      (''constraints'', CapabilityConstraints_json (g_constraints g))]"

definition SkillKey_json :: "SkillKey \<Rightarrow> json" where
  "SkillKey_json k = json_obj
     [(''namespace'', JString (sk_namespace k)), (''name'', JString (sk_name k))]"

definition ResolvedSkillRef_json :: "ResolvedSkillRef \<Rightarrow> json" where
  "ResolvedSkillRef_json r = json_obj
     [(''key'', SkillKey_json (rs_key r)), (''version'', JString (rs_version r)),
      (''digest'', JString (rs_digest r))]"

definition PolicyReason_json :: "PolicyReason \<Rightarrow> json" where
  "PolicyReason_json r = json_obj
     [(''code'', JString (reason_code r)), (''message'', JString (reason_message r)),
      (''detail'', json_opt id (reason_detail r))]"

fun HttpAddressFamily_json :: "HttpAddressFamily \<Rightarrow> json" where
  "HttpAddressFamily_json Ipv4 = JString ''ipv4''"
| "HttpAddressFamily_json Ipv6 = JString ''ipv6''"

definition HttpResolutionBinding_json :: "HttpResolutionBinding \<Rightarrow> json" where
  "HttpResolutionBinding_json b = json_obj
     [(''requested_host'', JString (rb_requested_host b)),
      (''port'', json_word (rb_port b)),
      (''addresses'', list_json (\<lambda>a. json_obj
          [(''address'', JString (ra_address a)), (''family'', HttpAddressFamily_json (ra_family a))])
        (rb_addresses b)),
      (''loopback_only'', JBool (rb_loopback_only b))]"

end
