(* ===== verification/Guild_Constraints.thy ===== *)
theory Guild_Constraints
  imports Guild_Scopes Guild_Serde
begin

text \<open>
  Constraint families of the runner: how a required constraint is reduced to a parent grant
  (\<open>reduce_child_*\<close>), how a policy cap reduces a grant (\<open>reduce_cap_*\<close>), and when one
  constraint covers another, as in \<open>crates/guild-runner/src/lib.rs\<close>. Each family has a
  predicate of the requests it allows; the reductions are related to it through the locales
  of the scope theory.
\<close>

section \<open>Denials\<close>

record CapabilityDenial =
  cd_code :: string
  cd_message :: string
  cd_detail :: json

definition child_mismatch :: "string \<Rightarrow> (string \<times> json) list \<Rightarrow> CapabilityDenial" where
  "child_mismatch msg ctx =
     \<lparr>cd_code = ''child-capability-mismatch'', cd_message = msg, cd_detail = json_obj ctx\<rparr>"

section \<open>Filesystem\<close>

definition filesystem_root_identity_matches :: "FilesystemRoot \<Rightarrow> FilesystemRoot \<Rightarrow> bool" where
  "filesystem_root_identity_matches l r \<longleftrightarrow>
     root_name l = root_name r \<and> guest_path_prefix l = guest_path_prefix r \<and> host_path l = host_path r"

definition filesystem_root_covers :: "FilesystemRoot \<Rightarrow> FilesystemRoot \<Rightarrow> bool" where
  "filesystem_root_covers g r \<longleftrightarrow>
     filesystem_root_identity_matches g r \<and> list_all (\<lambda>p. p \<in> set (operations g)) (operations r)"

definition filesystem_covers :: "FilesystemConstraints \<Rightarrow> FilesystemConstraints \<Rightarrow> bool" where
  "filesystem_covers g r \<longleftrightarrow>
     list_all (\<lambda>rr. list_ex (\<lambda>gr. filesystem_root_covers gr rr) (preopened_roots g)) (preopened_roots r)"

definition intersect_filesystem_operations ::
  "FilesystemOperation list \<Rightarrow> FilesystemOperation list \<Rightarrow> FilesystemOperation list" where
  "intersect_filesystem_operations l r =
     foldl (\<lambda>acc p. if p \<in> set r \<and> p \<notin> set acc then acc @ [p] else acc) [] l"

fun reduce_child_roots ::
  "FilesystemConstraints \<Rightarrow> FilesystemRoot list \<Rightarrow> CapabilityDenial + FilesystemRoot list" where
  "reduce_child_roots parent [] = Inr []"
| "reduce_child_roots parent (rr # rrs) =
     (case find (\<lambda>c. filesystem_root_covers c rr) (preopened_roots parent) of
        None \<Rightarrow> Inl (child_mismatch ''child filesystem capability exceeded the parent grant''
                  [(''required_root'', FilesystemRoot_json rr),
                   (''parent_constraints'', FilesystemConstraints_json parent)])
      | Some pr \<Rightarrow>
          (let ops = intersect_filesystem_operations (operations pr) (operations rr)
           in if ops = [] then
                Inl (child_mismatch ''child filesystem capability exceeded the parent grant''
                  [(''required_root'', FilesystemRoot_json rr),
                   (''parent_root'', FilesystemRoot_json pr)])
              else res_bind (reduce_child_roots parent rrs) (\<lambda>rest. Inr (rr\<lparr>operations := ops\<rparr> # rest))))"

definition reduce_child_filesystem_constraints ::
  "FilesystemConstraints \<Rightarrow> FilesystemConstraints \<Rightarrow> CapabilityDenial + FilesystemConstraints" where
  "reduce_child_filesystem_constraints parent wanted =
     res_bind (reduce_child_roots parent (preopened_roots wanted)) (\<lambda>roots. Inr \<lparr>preopened_roots = roots\<rparr>)"

definition reduce_cap_root :: "FilesystemConstraints \<Rightarrow> FilesystemRoot \<Rightarrow> FilesystemRoot option" where
  "reduce_cap_root cap gr =
     (case find (\<lambda>cr. filesystem_root_identity_matches cr gr) (preopened_roots cap) of
        None \<Rightarrow> None
      | Some cr \<Rightarrow>
          (let ops = intersect_filesystem_operations (operations cr) (operations gr)
           in if ops = [] then None else Some (gr\<lparr>operations := ops\<rparr>)))"

definition reduce_cap_filesystem_constraints ::
  "FilesystemConstraints \<Rightarrow> FilesystemConstraints \<Rightarrow> FilesystemConstraints option" where
  "reduce_cap_filesystem_constraints cap g =
     (let roots = List.map_filter (reduce_cap_root cap) (preopened_roots g)
      in if roots = [] then None else Some \<lparr>preopened_roots = roots\<rparr>)"

section \<open>HTTP\<close>

record ReducedChildHttpCore =
  core_allowed_schemes :: "HttpScheme list option"
  core_host_scope :: ReducedHostScope
  core_allowed_ports :: "u16 list option"
  core_allowed_methods :: "HttpMethod list option"
  core_allowed_path_prefixes :: "string list option"
  core_max_timeout_ms :: "u64 option"
  core_max_response_bytes :: "u64 option"

record ReducedChildHttpRedirects =
  red_follow_redirects :: "bool option"
  red_max_redirects :: "u8 option"

record ReducedChildHttpDestinationFlags =
  dest_loopback :: "bool option"
  dest_link_local :: "bool option"
  dest_private_networks :: "bool option"
  dest_ip_literals :: "bool option"

definition child_http_constraint_mismatch ::
  "HttpRequestConstraints \<Rightarrow> HttpRequestConstraints \<Rightarrow> string \<Rightarrow> string \<Rightarrow> CapabilityDenial" where
  "child_http_constraint_mismatch parent wanted field label =
     child_mismatch (''child http-request '' @ label @ '' could not be reduced from the parent grant'')
       [(''field'', JString field),
        (''parent_constraints'', HttpRequestConstraints_json parent),
        (''required_constraints'', HttpRequestConstraints_json wanted)]"

definition reduce_child_http_constraint ::
  "HttpRequestConstraints \<Rightarrow> HttpRequestConstraints \<Rightarrow> string \<Rightarrow> string
     \<Rightarrow> 'a ReducedConstraint option \<Rightarrow> CapabilityDenial + 'a option" where
  "reduce_child_http_constraint parent wanted field label reduced =
     (case ok_or (child_http_constraint_mismatch parent wanted field label) reduced of
        Inl e \<Rightarrow> Inl e | Inr r \<Rightarrow> Inr (into_option r))"

definition reduce_child_http_allow_flag ::
  "HttpRequestConstraints \<Rightarrow> HttpRequestConstraints \<Rightarrow> bool option \<Rightarrow> bool option
     \<Rightarrow> string \<Rightarrow> string \<Rightarrow> CapabilityDenial + bool option" where
  "reduce_child_http_allow_flag pc wc parent wanted field label =
     (case ok_or (child_http_constraint_mismatch pc wc field label)
             (reduce_optional_allow_flag parent wanted) of
        Inl e \<Rightarrow> Inl e | Inr r \<Rightarrow> Inr (into_option r))"

definition reduce_child_http_core_constraints ::
  "HttpRequestConstraints \<Rightarrow> HttpRequestConstraints \<Rightarrow> CapabilityDenial + ReducedChildHttpCore" where
  "reduce_child_http_core_constraints p r =
     res_bind (reduce_child_http_constraint p r ''allowed_schemes'' ''schemes''
                (reduce_required_enum_scope (allowed_schemes p) (allowed_schemes r))) (\<lambda>schemes.
     res_bind (ok_or (child_http_constraint_mismatch p r ''allowed_hosts'' ''host scope'')
                (reduce_required_host_scope (allowed_hosts p) (allowed_host_suffixes p)
                   (allowed_hosts r) (allowed_host_suffixes r))) (\<lambda>host_scope.
     res_bind (reduce_child_http_constraint p r ''allowed_ports'' ''ports''
                (reduce_required_enum_scope (allowed_ports p) (allowed_ports r))) (\<lambda>ports.
     res_bind (reduce_child_http_constraint p r ''allowed_methods'' ''methods''
                (reduce_required_enum_scope (allowed_methods p) (allowed_methods r))) (\<lambda>methods.
     res_bind (reduce_child_http_constraint p r ''allowed_path_prefixes'' ''paths''
                (reduce_required_path_prefix_scope (allowed_path_prefixes p) (allowed_path_prefixes r))) (\<lambda>paths.
     res_bind (reduce_child_http_constraint p r ''max_timeout_ms'' ''max_timeout_ms''
                (reduce_required_max_bytes (max_timeout_ms p) (max_timeout_ms r))) (\<lambda>timeout.
     res_bind (reduce_child_http_constraint p r ''max_response_bytes'' ''max_response_bytes''
                (reduce_required_max_bytes (max_response_bytes p) (max_response_bytes r))) (\<lambda>response.
     Inr \<lparr>core_allowed_schemes = schemes, core_host_scope = host_scope, core_allowed_ports = ports,
          core_allowed_methods = methods, core_allowed_path_prefixes = paths,
          core_max_timeout_ms = timeout, core_max_response_bytes = response\<rparr>)))))))"

definition reduce_child_http_redirect_constraints ::
  "HttpRequestConstraints \<Rightarrow> HttpRequestConstraints \<Rightarrow> CapabilityDenial + ReducedChildHttpRedirects" where
  "reduce_child_http_redirect_constraints p r =
     res_bind (reduce_child_http_allow_flag p r (follow_redirects p) (follow_redirects r)
                ''follow_redirects'' ''redirect-following'') (\<lambda>follow.
     res_bind (if allow_flag_enabled follow
               then reduce_child_http_constraint p r ''max_redirects'' ''max_redirects''
                      (reduce_required_max_redirects (max_redirects p) (max_redirects r))
               else Inr None) (\<lambda>maxr.
     Inr \<lparr>red_follow_redirects = follow, red_max_redirects = maxr\<rparr>))"

definition reduce_child_http_destination_constraints ::
  "HttpRequestConstraints \<Rightarrow> HttpRequestConstraints \<Rightarrow> CapabilityDenial + ReducedChildHttpDestinationFlags" where
  "reduce_child_http_destination_constraints p r =
     res_bind (reduce_child_http_allow_flag p r (allow_loopback p) (allow_loopback r)
                ''allow_loopback'' ''loopback destinations'') (\<lambda>loopback.
     res_bind (reduce_child_http_allow_flag p r (allow_link_local p) (allow_link_local r)
                ''allow_link_local'' ''link-local destinations'') (\<lambda>link_local.
     res_bind (reduce_child_http_allow_flag p r (allow_private_networks p) (allow_private_networks r)
                ''allow_private_networks'' ''private-network destinations'') (\<lambda>private_networks.
     res_bind (reduce_child_http_allow_flag p r (allow_ip_literals p) (allow_ip_literals r)
                ''allow_ip_literals'' ''IP-literal destinations'') (\<lambda>ip_literals.
     Inr \<lparr>dest_loopback = loopback, dest_link_local = link_local,
          dest_private_networks = private_networks, dest_ip_literals = ip_literals\<rparr>))))"

definition reduce_child_http_request_constraints ::
  "HttpRequestConstraints \<Rightarrow> HttpRequestConstraints \<Rightarrow> CapabilityDenial + HttpRequestConstraints" where
  "reduce_child_http_request_constraints p r =
     res_bind (reduce_child_http_core_constraints p r) (\<lambda>core.
     res_bind (reduce_child_http_redirect_constraints p r) (\<lambda>redirects.
     res_bind (reduce_child_http_destination_constraints p r) (\<lambda>destinations.
     Inr \<lparr>allowed_schemes = core_allowed_schemes core,
          allowed_hosts = reduced_hosts (core_host_scope core),
          allowed_host_suffixes = reduced_suffixes (core_host_scope core),
          allowed_ports = core_allowed_ports core,
          allowed_methods = core_allowed_methods core,
          allowed_path_prefixes = core_allowed_path_prefixes core,
          max_timeout_ms = core_max_timeout_ms core,
          max_response_bytes = core_max_response_bytes core,
          follow_redirects = red_follow_redirects redirects,
          max_redirects = red_max_redirects redirects,
          allow_loopback = dest_loopback destinations,
          allow_link_local = dest_link_local destinations,
          allow_private_networks = dest_private_networks destinations,
          allow_ip_literals = dest_ip_literals destinations\<rparr>)))"

definition reduce_cap_http_request_constraints ::
  "HttpRequestConstraints \<Rightarrow> HttpRequestConstraints \<Rightarrow> HttpRequestConstraints option" where
  "reduce_cap_http_request_constraints cap g =
     Option.bind (reduce_required_host_scope (allowed_hosts cap) (allowed_host_suffixes cap)
                    (allowed_hosts g) (allowed_host_suffixes g)) (\<lambda>host_scope.
     let follow = reduce_cap_allow_flag (follow_redirects cap) (follow_redirects g) in
     Option.bind (if allow_flag_enabled follow
                  then map_option into_option (reduce_required_max_redirects (max_redirects cap) (max_redirects g))
                  else Some None) (\<lambda>maxr.
     Option.bind (reduce_required_enum_scope (allowed_schemes cap) (allowed_schemes g)) (\<lambda>schemes.
     Option.bind (reduce_required_enum_scope (allowed_ports cap) (allowed_ports g)) (\<lambda>ports.
     Option.bind (reduce_required_enum_scope (allowed_methods cap) (allowed_methods g)) (\<lambda>methods.
     Option.bind (reduce_required_path_prefix_scope (allowed_path_prefixes cap) (allowed_path_prefixes g)) (\<lambda>paths.
     Option.bind (reduce_required_max_bytes (max_timeout_ms cap) (max_timeout_ms g)) (\<lambda>timeout.
     Option.bind (reduce_required_max_bytes (max_response_bytes cap) (max_response_bytes g)) (\<lambda>response.
     Some \<lparr>allowed_schemes = into_option schemes,
           allowed_hosts = reduced_hosts host_scope,
           allowed_host_suffixes = reduced_suffixes host_scope,
           allowed_ports = into_option ports,
           allowed_methods = into_option methods,
           allowed_path_prefixes = into_option paths,
           max_timeout_ms = into_option timeout,
           max_response_bytes = into_option response,
           follow_redirects = follow,
           max_redirects = maxr,
           allow_loopback = reduce_cap_allow_flag (allow_loopback cap) (allow_loopback g),
           allow_link_local = reduce_cap_allow_flag (allow_link_local cap) (allow_link_local g),
           allow_private_networks =
             reduce_cap_allow_flag (allow_private_networks cap) (allow_private_networks g),
           allow_ip_literals = reduce_cap_allow_flag (allow_ip_literals cap) (allow_ip_literals g)\<rparr>))))))))"

definition http_request_covers :: "HttpRequestConstraints \<Rightarrow> HttpRequestConstraints \<Rightarrow> bool" where
  "http_request_covers g r \<longleftrightarrow>
     enum_scope_covers (allowed_schemes g) (allowed_schemes r)
     \<and> http_host_scope_covers (allowed_hosts g) (allowed_host_suffixes g)
         (allowed_hosts r) (allowed_host_suffixes r)
     \<and> enum_scope_covers (allowed_ports g) (allowed_ports r)
     \<and> enum_scope_covers (allowed_methods g) (allowed_methods r)
     \<and> path_prefix_scope_covers (allowed_path_prefixes g) (allowed_path_prefixes r)
     \<and> max_bytes_covers (max_timeout_ms g) (max_timeout_ms r)
     \<and> max_bytes_covers (max_response_bytes g) (max_response_bytes r)
     \<and> allow_flag_covers (follow_redirects g) (follow_redirects r)
     \<and> max_redirects_covers
         (if allow_flag_enabled (follow_redirects g) then max_redirects g else None)
         (if allow_flag_enabled (follow_redirects r) then max_redirects r else None)
     \<and> allow_flag_covers (allow_loopback g) (allow_loopback r)
     \<and> allow_flag_covers (allow_link_local g) (allow_link_local r)
     \<and> allow_flag_covers (allow_private_networks g) (allow_private_networks r)
     \<and> allow_flag_covers (allow_ip_literals g) (allow_ip_literals r)"

section \<open>Resource reads, invocations, evidence and logs\<close>

definition reduce_child_read_resource_constraints ::
  "ReadResourceConstraints \<Rightarrow> ReadResourceConstraints \<Rightarrow> CapabilityDenial + ReadResourceConstraints" where
  "reduce_child_read_resource_constraints p r =
     (let ctx = [(''parent_constraints'', ReadResourceConstraints_json p),
                    (''required_constraints'', ReadResourceConstraints_json r)] in
     res_bind (ok_or (child_mismatch
                 ''child resource-read URI scope could not be reduced from the parent grant'' ctx)
               (map_option into_option (reduce_required_resource_scope (uri_prefixes p) (uri_prefixes r)))) (\<lambda>prefs.
     res_bind (ok_or (child_mismatch
                 ''child resource-read kinds could not be reduced from the parent grant'' ctx)
               (map_option into_option
                  (reduce_required_intersecting_enum_scope (resource_kinds p) (resource_kinds r)))) (\<lambda>kinds.
     Inr \<lparr>uri_prefixes = prefs, resource_kinds = kinds\<rparr>)))"

definition reduce_child_invoke_dependency_constraints ::
  "InvokeDependencyConstraints \<Rightarrow> InvokeDependencyConstraints \<Rightarrow> CapabilityDenial + InvokeDependencyConstraints" where
  "reduce_child_invoke_dependency_constraints p r =
     res_bind (ok_or (child_mismatch
                 ''child invocation aliases could not be reduced from the parent grant''
                 [(''parent_constraints'', InvokeDependencyConstraints_json p),
                  (''required_constraints'', InvokeDependencyConstraints_json r)])
               (map_option into_option (reduce_required_exact_string_scope (aliases p) (aliases r)))) (\<lambda>as.
     Inr \<lparr>aliases = as\<rparr>)"

definition reduce_child_emit_evidence_constraints ::
  "EmitEvidenceConstraints \<Rightarrow> EmitEvidenceConstraints \<Rightarrow> CapabilityDenial + EmitEvidenceConstraints" where
  "reduce_child_emit_evidence_constraints p r =
     (let ctx = [(''parent_constraints'', EmitEvidenceConstraints_json p),
                    (''required_constraints'', EmitEvidenceConstraints_json r)] in
     res_bind (ok_or (child_mismatch
                 ''child evidence audiences could not be reduced from the parent grant'' ctx)
               (map_option into_option (reduce_required_enum_scope (audiences p) (audiences r)))) (\<lambda>auds.
     res_bind (ok_or (child_mismatch
                 ''child evidence redactions could not be reduced from the parent grant'' ctx)
               (map_option into_option (reduce_required_enum_scope (redactions p) (redactions r)))) (\<lambda>reds.
     res_bind (ok_or (child_mismatch
                 ''child evidence max_bytes could not be reduced from the parent grant'' ctx)
               (map_option into_option (reduce_required_max_bytes (max_bytes p) (max_bytes r)))) (\<lambda>maxb.
     Inr \<lparr>max_bytes = maxb, audiences = auds, redactions = reds\<rparr>))))"

definition reduce_child_log_constraints ::
  "LogConstraints \<Rightarrow> LogConstraints \<Rightarrow> CapabilityDenial + LogConstraints" where
  "reduce_child_log_constraints p r =
     res_bind (ok_or (child_mismatch
                 ''child log levels could not be reduced from the parent grant''
                 [(''parent_constraints'', LogConstraints_json p),
                  (''required_constraints'', LogConstraints_json r)])
               (map_option into_option (reduce_required_intersecting_enum_scope (levels p) (levels r)))) (\<lambda>ls.
     Inr \<lparr>levels = ls\<rparr>)"

definition read_resource_covers :: "ReadResourceConstraints \<Rightarrow> ReadResourceConstraints \<Rightarrow> bool" where
  "read_resource_covers g r \<longleftrightarrow>
     resource_scope_covers (uri_prefixes g) (uri_prefixes r)
     \<and> enum_scope_covers (resource_kinds g) (resource_kinds r)"

definition invoke_dependency_covers ::
  "InvokeDependencyConstraints \<Rightarrow> InvokeDependencyConstraints \<Rightarrow> bool" where
  "invoke_dependency_covers g r = string_scope_covers_exact (aliases g) (aliases r)"

definition emit_evidence_covers :: "EmitEvidenceConstraints \<Rightarrow> EmitEvidenceConstraints \<Rightarrow> bool" where
  "emit_evidence_covers g r \<longleftrightarrow>
     max_bytes_covers (max_bytes g) (max_bytes r)
     \<and> enum_scope_covers (audiences g) (audiences r)
     \<and> enum_scope_covers (redactions g) (redactions r)"

definition log_covers :: "LogConstraints \<Rightarrow> LogConstraints \<Rightarrow> bool" where
  "log_covers g r = enum_scope_covers (levels g) (levels r)"

section \<open>Grants\<close>

definition reduce_child_constraints ::
  "GrantedCapability \<Rightarrow> CapabilityRequirement \<Rightarrow> CapabilityDenial + CapabilityConstraints" where
  "reduce_child_constraints pg r =
     (case (g_constraints pg, req_constraints r) of
        (CC_None, wanted) \<Rightarrow> Inr wanted
      | (parent, CC_None) \<Rightarrow> Inr parent
      | (CC_Filesystem p, CC_Filesystem w) \<Rightarrow>
          res_bind (reduce_child_filesystem_constraints p w) (\<lambda>c. Inr (CC_Filesystem c))
      | (CC_HttpRequest p, CC_HttpRequest w) \<Rightarrow>
          res_bind (reduce_child_http_request_constraints p w) (\<lambda>c. Inr (CC_HttpRequest c))
      | (CC_ReadResource p, CC_ReadResource w) \<Rightarrow>
          res_bind (reduce_child_read_resource_constraints p w) (\<lambda>c. Inr (CC_ReadResource c))
      | (CC_InvokeDependency p, CC_InvokeDependency w) \<Rightarrow>
          res_bind (reduce_child_invoke_dependency_constraints p w) (\<lambda>c. Inr (CC_InvokeDependency c))
      | (CC_EmitEvidence p, CC_EmitEvidence w) \<Rightarrow>
          res_bind (reduce_child_emit_evidence_constraints p w) (\<lambda>c. Inr (CC_EmitEvidence c))
      | (CC_Log p, CC_Log w) \<Rightarrow>
          res_bind (reduce_child_log_constraints p w) (\<lambda>c. Inr (CC_Log c))
      | (p, w) \<Rightarrow>
          Inl (child_mismatch ''child capability constraints could not be reduced from the parent grant''
            [(''id'', CapabilityId_json (req_id r)),
             (''access'', CapabilityAccess_json (req_access r)),
             (''parent_constraints'', CapabilityConstraints_json p),
             (''required_constraints'', CapabilityConstraints_json w)]))"

definition reduce_grant_to_requirement ::
  "GrantedCapability \<Rightarrow> CapabilityRequirement \<Rightarrow> GrantedCapability option" where
  "reduce_grant_to_requirement g r =
     (if g_id g \<noteq> req_id r \<or> g_access g \<noteq> req_access r then None
      else map_option (\<lambda>c. g\<lparr>g_constraints := c\<rparr>) (res_ok (reduce_child_constraints g r)))"

definition reduce_constraints_to_cap ::
  "CapabilityConstraints \<Rightarrow> CapabilityConstraints \<Rightarrow> CapabilityConstraints option" where
  "reduce_constraints_to_cap cap g =
     (case (cap, g) of
        (CC_None, _) \<Rightarrow> Some g
      | (_, CC_None) \<Rightarrow> Some g
      | (CC_Filesystem c, CC_Filesystem v) \<Rightarrow>
          map_option CC_Filesystem (reduce_cap_filesystem_constraints c v)
      | (CC_HttpRequest c, CC_HttpRequest v) \<Rightarrow>
          map_option CC_HttpRequest (reduce_cap_http_request_constraints c v)
      | (CC_ReadResource c, CC_ReadResource v) \<Rightarrow>
          map_option CC_ReadResource (res_ok (reduce_child_read_resource_constraints c v))
      | (CC_InvokeDependency c, CC_InvokeDependency v) \<Rightarrow>
          map_option CC_InvokeDependency (res_ok (reduce_child_invoke_dependency_constraints c v))
      | (CC_EmitEvidence c, CC_EmitEvidence v) \<Rightarrow>
          map_option CC_EmitEvidence (res_ok (reduce_child_emit_evidence_constraints c v))
      | (CC_Log c, CC_Log v) \<Rightarrow>
          map_option CC_Log (res_ok (reduce_child_log_constraints c v))
      | _ \<Rightarrow> None)"

definition reduce_grant_to_cap :: "GrantedCapability \<Rightarrow> GrantedCapability \<Rightarrow> GrantedCapability option" where
  "reduce_grant_to_cap cap g =
     (if g_id cap \<noteq> g_id g \<or> g_access cap \<noteq> g_access g then None
      else map_option (\<lambda>c. g\<lparr>g_constraints := c\<rparr>)
             (reduce_constraints_to_cap (g_constraints cap) (g_constraints g)))"

definition push_unique_grant :: "GrantedCapability list \<Rightarrow> GrantedCapability \<Rightarrow> GrantedCapability list" where
  "push_unique_grant gs g = (if g \<in> set gs then gs else gs @ [g])"

definition reduce_grant_to_cap_set ::
  "GrantedCapability list \<Rightarrow> GrantedCapability \<Rightarrow> GrantedCapability list" where
  "reduce_grant_to_cap_set caps g =
     foldl (\<lambda>reduced cap. case reduce_grant_to_cap cap g of
              None \<Rightarrow> reduced | Some rg \<Rightarrow> push_unique_grant reduced rg) [] caps"

definition policy_grant_overlaps :: "GrantedCapability \<Rightarrow> GrantedCapability \<Rightarrow> bool" where
  "policy_grant_overlaps rule_grant g \<longleftrightarrow> reduce_grant_to_cap rule_grant g \<noteq> None"

section \<open>Collective coverage\<close>

fun covered_aliases :: "GrantedCapability list \<Rightarrow> string list \<Rightarrow> string list option" where
  "covered_aliases [] acc = Some acc"
| "covered_aliases (g # gs) acc =
     (case g_constraints g of
        CC_InvokeDependency c \<Rightarrow>
          (case aliases c of
             None \<Rightarrow> None
           | Some as \<Rightarrow> covered_aliases gs (foldl push_unique acc as))
      | _ \<Rightarrow> covered_aliases gs acc)"

text \<open>\<open>None\<close> is the early \<open>return true\<close> on an unrestricted grant.\<close>

definition invoke_dependency_grants_collectively_cover ::
  "GrantedCapability list \<Rightarrow> InvokeDependencyConstraints \<Rightarrow> bool" where
  "invoke_dependency_grants_collectively_cover gs wanted =
     (if gs = [] then False
      else
        case aliases wanted of
          None \<Rightarrow> list_ex (\<lambda>g. case g_constraints g of
                     CC_InvokeDependency c \<Rightarrow> aliases c = None | _ \<Rightarrow> False) gs
        | Some ras \<Rightarrow>
            (case covered_aliases gs [] of
               None \<Rightarrow> True
             | Some cas \<Rightarrow> list_all (\<lambda>a. list_ex ((=) a) cas) ras))"

definition read_resource_grant_allows_scope :: "GrantedCapability \<Rightarrow> GuildResourceScope \<Rightarrow> bool" where
  "read_resource_grant_allows_scope g sc =
     (case g_constraints g of
        CC_None \<Rightarrow> True
      | CC_ReadResource c \<Rightarrow>
          is_none_or (uri_prefixes c) (\<lambda>ps. is_some_and (parse_resource_scopes ps) (\<lambda>scs. sc \<in> set scs))
          \<and> is_none_or (resource_kinds c) (\<lambda>ks. GuildResourceScope_kind sc \<in> set ks)
      | _ \<Rightarrow> False)"

definition read_resource_grant_allows_uri :: "GrantedCapability \<Rightarrow> GuildResourceUri \<Rightarrow> bool" where
  "read_resource_grant_allows_uri g u = read_resource_grant_allows_scope g (GuildResourceUri_scope u)"

definition read_resource_grant_allows_kind :: "GrantedCapability \<Rightarrow> ResourceKind \<Rightarrow> bool" where
  "read_resource_grant_allows_kind g k =
     (case g_constraints g of
        CC_None \<Rightarrow> True
      | CC_ReadResource c \<Rightarrow> is_none_or (resource_kinds c) (\<lambda>ks. k \<in> set ks)
      | _ \<Rightarrow> False)"

definition read_resource_grants_collectively_cover ::
  "GrantedCapability list \<Rightarrow> ReadResourceConstraints \<Rightarrow> bool" where
  "read_resource_grants_collectively_cover gs wanted =
     (if gs = [] then False
      else
        let prefixes_ok = is_none_or (uri_prefixes wanted) (\<lambda>ps.
              case parse_resource_scopes ps of
                None \<Rightarrow> False
              | Some scs \<Rightarrow> list_all (\<lambda>sc. list_ex (\<lambda>g. read_resource_grant_allows_scope g sc) gs) scs);
            kinds_ok = is_none_or (resource_kinds wanted) (\<lambda>ks.
              list_all (\<lambda>k. list_ex (\<lambda>g. read_resource_grant_allows_kind g k) gs) ks)
        in prefixes_ok \<and> kinds_ok)"

definition log_grant_allows_level :: "GrantedCapability \<Rightarrow> Severity \<Rightarrow> bool" where
  "log_grant_allows_level g l =
     (case g_constraints g of
        CC_None \<Rightarrow> True
      | CC_Log c \<Rightarrow> is_none_or (levels c) (\<lambda>ls. l \<in> set ls)
      | _ \<Rightarrow> False)"

definition log_grants_collectively_cover :: "GrantedCapability list \<Rightarrow> LogConstraints \<Rightarrow> bool" where
  "log_grants_collectively_cover gs wanted =
     (if gs = [] then False
      else is_none_or (levels wanted)
             (list_all (\<lambda>l. list_ex (\<lambda>g. log_grant_allows_level g l) gs)))"

end
