(* ===== verification/Guild_Authority.thy ===== *)
theory Guild_Authority
  imports Guild_Constraints
begin

text \<open>
  The abstract specification of authority: an \<open>access\<close> is one thing a guest can ask of its
  host, and a constraint, a grant and a grant set each allow a set of accesses. The family
  reductions of the runner are shown to refine the intersection of these sets; the evaluator
  and the policy theories state their guarantees against it.
\<close>

section \<open>Accesses\<close>

text \<open>
  An HTTP access is a request as the evaluator sees it after parsing and name resolution,
  together with the time it may run and the response size it may deliver.
\<close>

record HttpAccess =
  ha_method :: HttpMethod
  ha_scheme :: HttpScheme
  ha_host :: string
  ha_port :: u16
  ha_path :: string
  ha_addresses :: "IpAddr list"
  ha_millis :: u64
  ha_bytes :: u64

datatype Access =
    Acc_Read GuildResourceScope
  | Acc_Invoke string
  | Acc_Emit u64 EvidenceAudience RedactionClass
  | Acc_Log Severity
  | Acc_Filesystem string string string FilesystemOperation
  | Acc_Http HttpAccess

fun access_capability :: "Access \<Rightarrow> CapabilityId \<times> CapabilityAccess" where
  "access_capability (Acc_Read _) = (ReadResource, Read)"
| "access_capability (Acc_Invoke _) = (InvokeSkill, Invoke)"
| "access_capability (Acc_Emit _ _ _) = (EmitEvidence, Write)"
| "access_capability (Acc_Log _) = (LogWrite, Write)"
| "access_capability (Acc_Filesystem _ _ _ p) = (Filesystem, if p = FsRead then Read else Write)"
| "access_capability (Acc_Http _) = (HttpRequest, Read)"

definition loopback_name :: "string \<Rightarrow> bool" where
  "loopback_name host \<longleftrightarrow> host = ''localhost'' \<or> suffix ''.localhost'' host"

definition read_allows :: "ReadResourceConstraints \<Rightarrow> GuildResourceScope \<Rightarrow> bool" where
  "read_allows c sc \<longleftrightarrow>
     in_resource_scope (uri_prefixes c) sc \<and> in_enum_scope (resource_kinds c) (GuildResourceScope_kind sc)"

definition invoke_allows :: "InvokeDependencyConstraints \<Rightarrow> string \<Rightarrow> bool" where
  "invoke_allows c a = in_enum_scope (aliases c) a"

fun emit_allows :: "EmitEvidenceConstraints \<Rightarrow> u64 \<times> EvidenceAudience \<times> RedactionClass \<Rightarrow> bool" where
  "emit_allows c (n, a, r) \<longleftrightarrow>
     in_limit (max_bytes c) n \<and> in_enum_scope (audiences c) a \<and> in_enum_scope (redactions c) r"

definition log_allows :: "LogConstraints \<Rightarrow> Severity \<Rightarrow> bool" where
  "log_allows c l = in_enum_scope (levels c) l"

fun filesystem_allows ::
  "FilesystemConstraints \<Rightarrow> string \<times> string \<times> string \<times> FilesystemOperation \<Rightarrow> bool" where
  "filesystem_allows c (n, gp, hp, p) \<longleftrightarrow>
     (\<exists>r \<in> set (preopened_roots c).
        root_name r = n \<and> guest_path_prefix r = gp \<and> host_path r = hp \<and> p \<in> set (operations r))"

definition destination_allowed :: "HttpRequestConstraints \<Rightarrow> IpAddr list \<Rightarrow> bool" where
  "destination_allowed c addrs \<longleftrightarrow>
     (\<forall>a \<in> set addrs. case classify_destination_ip a of
        Loopback \<Rightarrow> allow_flag_enabled (allow_loopback c)
      | LinkLocal \<Rightarrow> allow_flag_enabled (allow_link_local c)
      | PrivateNetwork \<Rightarrow> allow_flag_enabled (allow_private_networks c)
      | OtherDestination \<Rightarrow> True)"

definition http_allows :: "HttpRequestConstraints \<Rightarrow> HttpAccess \<Rightarrow> bool" where
  "http_allows c a \<longleftrightarrow>
     matches_http_method (allowed_methods c) (ha_method a)
     \<and> matches_http_scheme (allowed_schemes c) (ha_scheme a)
     \<and> matches_http_host (allowed_hosts c) (allowed_host_suffixes c) (ha_host a) (is_ip_literal_host (ha_host a))
     \<and> matches_http_port (allowed_ports c) (ha_port a)
     \<and> matches_http_path (allowed_path_prefixes c) (ha_path a)
     \<and> in_limit (max_timeout_ms c) (ha_millis a)
     \<and> in_limit (max_response_bytes c) (ha_bytes a)
     \<and> (is_ip_literal_host (ha_host a) \<longrightarrow> allow_flag_enabled (allow_ip_literals c))
     \<and> (\<not> is_ip_literal_host (ha_host a) \<and> loopback_name (ha_host a) \<longrightarrow> allow_flag_enabled (allow_loopback c))
     \<and> destination_allowed c (ha_addresses a)"

fun constraints_allow :: "CapabilityConstraints \<Rightarrow> Access \<Rightarrow> bool" where
  "constraints_allow CC_None a = True"
| "constraints_allow (CC_ReadResource c) (Acc_Read sc) = read_allows c sc"
| "constraints_allow (CC_InvokeDependency c) (Acc_Invoke al) = invoke_allows c al"
| "constraints_allow (CC_EmitEvidence c) (Acc_Emit n a r) = emit_allows c (n, a, r)"
| "constraints_allow (CC_Log c) (Acc_Log l) = log_allows c l"
| "constraints_allow (CC_Filesystem c) (Acc_Filesystem n gp hp p) = filesystem_allows c (n, gp, hp, p)"
| "constraints_allow (CC_HttpRequest c) (Acc_Http a) = http_allows c a"
| "constraints_allow _ _ = False"

definition grant_allows :: "GrantedCapability \<Rightarrow> Access \<Rightarrow> bool" where
  "grant_allows g a \<longleftrightarrow> (g_id g, g_access g) = access_capability a \<and> constraints_allow (g_constraints g) a"

definition grants_allow :: "CapabilityGrantSet \<Rightarrow> Access \<Rightarrow> bool" where
  "grants_allow gs a \<longleftrightarrow> (\<exists>g \<in> set (grants gs). grant_allows g a)"

section \<open>Family reductions refine intersection\<close>

abbreviation reduce_read :: "ReadResourceConstraints \<Rightarrow> ReadResourceConstraints \<Rightarrow> ReadResourceConstraints option" where
  "reduce_read p r \<equiv> res_ok (reduce_child_read_resource_constraints p r)"

abbreviation reduce_invoke ::
  "InvokeDependencyConstraints \<Rightarrow> InvokeDependencyConstraints \<Rightarrow> InvokeDependencyConstraints option" where
  "reduce_invoke p r \<equiv> res_ok (reduce_child_invoke_dependency_constraints p r)"

abbreviation reduce_emit ::
  "EmitEvidenceConstraints \<Rightarrow> EmitEvidenceConstraints \<Rightarrow> EmitEvidenceConstraints option" where
  "reduce_emit p r \<equiv> res_ok (reduce_child_emit_evidence_constraints p r)"

abbreviation reduce_log :: "LogConstraints \<Rightarrow> LogConstraints \<Rightarrow> LogConstraints option" where
  "reduce_log p r \<equiv> res_ok (reduce_child_log_constraints p r)"

abbreviation reduce_filesystem ::
  "FilesystemConstraints \<Rightarrow> FilesystemConstraints \<Rightarrow> FilesystemConstraints option" where
  "reduce_filesystem p r \<equiv> res_ok (reduce_child_filesystem_constraints p r)"

lemma reduce_read_Some:
  "reduce_read p r = Some s \<longleftrightarrow>
     intersect_resource (uri_prefixes p) (uri_prefixes r) = Some (uri_prefixes s)
     \<and> intersect_enum (resource_kinds p) (resource_kinds r) = Some (resource_kinds s)"
  by (cases s) (auto simp: reduce_child_read_resource_constraints_def Let_def res_bind_Inr_iff)

lemma reduce_invoke_Some:
  "reduce_invoke p r = Some s \<longleftrightarrow> intersect_enum (aliases p) (aliases r) = Some (aliases s)"
  by (cases s) (auto simp: reduce_child_invoke_dependency_constraints_def res_bind_Inr_iff
      reduce_required_exact_string_scope_def)

lemma reduce_emit_Some:
  "reduce_emit p r = Some s \<longleftrightarrow>
     subset_enum (audiences p) (audiences r) = Some (audiences s)
     \<and> subset_enum (redactions p) (redactions r) = Some (redactions s)
     \<and> restrict_bytes (max_bytes p) (max_bytes r) = Some (max_bytes s)"
  by (cases s) (auto simp: reduce_child_emit_evidence_constraints_def Let_def res_bind_Inr_iff)

lemma reduce_log_Some:
  "reduce_log p r = Some s \<longleftrightarrow> intersect_enum (levels p) (levels r) = Some (levels s)"
  by (cases s) (auto simp: reduce_child_log_constraints_def res_bind_Inr_iff)

lemma reduce_read_meet:
  assumes "reduce_read p r = Some s"
  shows "read_allows s x \<longleftrightarrow> read_allows p x \<and> read_allows r x"
proof -
  have a: "intersect_resource (uri_prefixes p) (uri_prefixes r) = Some (uri_prefixes s)"
    "intersect_enum (resource_kinds p) (resource_kinds r) = Some (resource_kinds s)"
    using assms unfolding reduce_read_Some by blast+
  show ?thesis
    unfolding read_allows_def resource_meet.reduce_meet[OF a(1)] enum_meet.reduce_meet[OF a(2)]
    by blast
qed

lemma reduce_read_disjoint:
  assumes "reduce_read p r = None" "read_allows p x" "read_allows r x"
  shows False
proof -
  obtain us where us: "intersect_resource (uri_prefixes p) (uri_prefixes r) = Some us"
    using resource_meet.overlap_reduces[of "uri_prefixes p" x "uri_prefixes r"] assms(2,3)
    by (simp only: read_allows_def) blast
  obtain ks where "intersect_enum (resource_kinds p) (resource_kinds r) = Some ks"
    using enum_meet.overlap_reduces[of "resource_kinds p" _ "resource_kinds r"] assms(2,3)
    by (simp only: read_allows_def) blast
  with us have "reduce_read p r = Some \<lparr>uri_prefixes = us, resource_kinds = ks\<rparr>"
    by (simp only: reduce_read_Some) simp
  with assms(1) show False
    by simp
qed

interpretation read: scope_intersection read_allows reduce_read
proof
  fix p r x
  show "reduce_read p r = None \<Longrightarrow> read_allows p x \<Longrightarrow> read_allows r x \<Longrightarrow> False"
    by (rule reduce_read_disjoint)
qed (use reduce_read_meet in \<open>blast+\<close>)

lemma reduce_invoke_meet:
  assumes "reduce_invoke p r = Some s"
  shows "invoke_allows s x \<longleftrightarrow> invoke_allows p x \<and> invoke_allows r x"
  using enum_meet.reduce_meet[OF assms[unfolded reduce_invoke_Some]]
  by (simp only: invoke_allows_def)

lemma reduce_invoke_disjoint:
  assumes "reduce_invoke p r = None" "invoke_allows p x" "invoke_allows r x"
  shows False
proof -
  obtain ls where "intersect_enum (aliases p) (aliases r) = Some ls"
    using enum_meet.overlap_reduces[of "aliases p" x "aliases r"] assms(2,3)
    by (simp only: invoke_allows_def) blast
  then have "reduce_invoke p r = Some \<lparr>aliases = ls\<rparr>"
    by (simp only: reduce_invoke_Some) simp
  with assms(1) show False
    by simp
qed

interpretation invoke: scope_intersection invoke_allows reduce_invoke
proof
  fix p r x
  show "reduce_invoke p r = None \<Longrightarrow> invoke_allows p x \<Longrightarrow> invoke_allows r x \<Longrightarrow> False"
    by (rule reduce_invoke_disjoint)
qed (use reduce_invoke_meet in \<open>blast+\<close>)

lemma reduce_log_meet:
  assumes "reduce_log p r = Some s"
  shows "log_allows s x \<longleftrightarrow> log_allows p x \<and> log_allows r x"
  using enum_meet.reduce_meet[OF assms[unfolded reduce_log_Some]]
  by (simp only: log_allows_def)

lemma reduce_log_disjoint:
  assumes "reduce_log p r = None" "log_allows p x" "log_allows r x"
  shows False
proof -
  obtain ls where "intersect_enum (levels p) (levels r) = Some ls"
    using enum_meet.overlap_reduces[of "levels p" x "levels r"] assms(2,3)
    by (simp only: log_allows_def) blast
  then have "reduce_log p r = Some \<lparr>levels = ls\<rparr>"
    by (simp only: reduce_log_Some) simp
  with assms(1) show False
    by simp
qed

interpretation log: scope_intersection log_allows reduce_log
proof
  fix p r x
  show "reduce_log p r = None \<Longrightarrow> log_allows p x \<Longrightarrow> log_allows r x \<Longrightarrow> False"
    by (rule reduce_log_disjoint)
qed (use reduce_log_meet in \<open>blast+\<close>)

lemma reduce_emit_meet:
  assumes "reduce_emit p r = Some s"
  shows "emit_allows s x \<longleftrightarrow> emit_allows p x \<and> emit_allows r x"
proof (cases x)
  case (fields n a c)
  have e: "subset_enum (audiences p) (audiences r) = Some (audiences s)"
    "subset_enum (redactions p) (redactions r) = Some (redactions s)"
    "restrict_bytes (max_bytes p) (max_bytes r) = Some (max_bytes s)"
    using assms unfolding reduce_emit_Some by blast+
  show ?thesis
    unfolding fields emit_allows.simps enum_subset.reduce_meet[OF e(1)]
      enum_subset.reduce_meet[OF e(2)] bytes_meet.reduce_meet[OF e(3)]
    by blast
qed

interpretation emit: scope_meet emit_allows reduce_emit
  by unfold_locales (use reduce_emit_meet in \<open>blast+\<close>)

subsection \<open>Filesystem\<close>

lemma set_intersect_filesystem_operations [simp]:
  "set (intersect_filesystem_operations l r) = set l \<inter> set r"
proof -
  have "set (foldl (\<lambda>acc p. if p \<in> set r \<and> p \<notin> set acc then acc @ [p] else acc) acc l)
      = set acc \<union> (set l \<inter> set r)" for acc
    by (induction l arbitrary: acc) auto
  then show ?thesis
    by (simp add: intersect_filesystem_operations_def)
qed

lemma reduce_child_roots_sound:
  assumes "reduce_child_roots parent ws = Inr rs" "root \<in> set rs"
  shows "\<exists>w \<in> set ws. \<exists>pr \<in> set (preopened_roots parent).
    filesystem_root_identity_matches pr w \<and> filesystem_root_identity_matches w root
    \<and> set (operations root) = set (operations pr) \<inter> set (operations w)"
  using assms
proof (induction ws arbitrary: rs)
  case (Cons w ws)
  then obtain pr rest where pr: "find (\<lambda>c. filesystem_root_covers c w) (preopened_roots parent) = Some pr"
    and rs: "rs = w\<lparr>operations := intersect_filesystem_operations (operations pr) (operations w)\<rparr> # rest"
      "reduce_child_roots parent ws = Inr rest"
    by (auto simp: Let_def res_bind_Inr_iff split: option.splits if_splits)
  have "pr \<in> set (preopened_roots parent)" "filesystem_root_covers pr w"
    using find_SomeD[OF pr] by auto
  then show ?case
    using Cons.IH[OF rs(2)] Cons.prems(2) rs(1)
    by (auto simp: filesystem_root_covers_def filesystem_root_identity_matches_def)
qed simp

lemma reduce_filesystem_bound:
  assumes "reduce_filesystem p r = Some s" "filesystem_allows s x"
  shows "filesystem_allows p x \<and> filesystem_allows r x"
proof (cases x)
  case (fields n gp hp op)
  obtain rs where rs: "reduce_child_roots p (preopened_roots r) = Inr rs" "s = \<lparr>preopened_roots = rs\<rparr>"
    using assms(1) by (auto simp: reduce_child_filesystem_constraints_def res_bind_Inr_iff)
  obtain root where root: "root \<in> set rs" "root_name root = n" "guest_path_prefix root = gp"
    "host_path root = hp" "op \<in> set (operations root)"
    using assms(2) rs fields by auto
  show ?thesis
    using reduce_child_roots_sound[OF rs(1) root(1)] root fields
    by (auto simp: filesystem_root_identity_matches_def)
qed

interpretation filesystem: scope_bound filesystem_allows reduce_filesystem
  by unfold_locales (use reduce_filesystem_bound in \<open>blast+\<close>)

lemma reduce_cap_root_Some:
  assumes "reduce_cap_root cap gr = Some r"
  shows "filesystem_root_identity_matches gr r \<and> (\<exists>cr \<in> set (preopened_roots cap).
    filesystem_root_identity_matches cr r \<and> set (operations r) = set (operations cr) \<inter> set (operations gr))"
  using assms
  by (auto simp: reduce_cap_root_def Let_def filesystem_root_identity_matches_def
      split: option.splits if_splits dest!: find_SomeD)

lemma reduce_cap_filesystem_bound:
  assumes "reduce_cap_filesystem_constraints p r = Some s" "filesystem_allows s x"
  shows "filesystem_allows p x \<and> filesystem_allows r x"
proof (cases x)
  case (fields n gp hp op)
  obtain root gr where root: "reduce_cap_root p gr = Some root" "gr \<in> set (preopened_roots r)"
    "root_name root = n" "guest_path_prefix root = gp" "host_path root = hp" "op \<in> set (operations root)"
    using assms fields
    by (auto simp: reduce_cap_filesystem_constraints_def Let_def List.map_filter_def split: if_splits)
  show ?thesis
    using reduce_cap_root_Some[OF root(1)] root(2-) fields
    by (auto simp: filesystem_root_identity_matches_def)
qed

interpretation filesystem_cap: scope_bound filesystem_allows reduce_cap_filesystem_constraints
  by unfold_locales (use reduce_cap_filesystem_bound in \<open>blast+\<close>)

subsection \<open>HTTP\<close>

lemma reduce_child_http_constraint_Inr:
  "reduce_child_http_constraint p r f l red = Inr v \<longleftrightarrow> map_option into_option red = Some v"
  by (cases red) (auto simp: reduce_child_http_constraint_def)

lemma reduce_child_http_allow_flag_Inr:
  "reduce_child_http_allow_flag pc wc p r f l = Inr v \<longleftrightarrow> restrict_flag p r = Some v"
  by (cases "reduce_optional_allow_flag p r") (auto simp: reduce_child_http_allow_flag_def)

text \<open>What a successful child reduction fixes, field by field.\<close>

definition http_reduced :: "HttpRequestConstraints \<Rightarrow> HttpRequestConstraints \<Rightarrow> HttpRequestConstraints \<Rightarrow> bool" where
  "http_reduced p r s \<longleftrightarrow>
     subset_enum (allowed_schemes p) (allowed_schemes r) = Some (allowed_schemes s)
     \<and> reduce_required_host_scope (allowed_hosts p) (allowed_host_suffixes p)
         (allowed_hosts r) (allowed_host_suffixes r)
       = Some \<lparr>reduced_hosts = allowed_hosts s, reduced_suffixes = allowed_host_suffixes s\<rparr>
     \<and> subset_enum (allowed_ports p) (allowed_ports r) = Some (allowed_ports s)
     \<and> subset_enum (allowed_methods p) (allowed_methods r) = Some (allowed_methods s)
     \<and> restrict_paths (allowed_path_prefixes p) (allowed_path_prefixes r) = Some (allowed_path_prefixes s)
     \<and> restrict_bytes (max_timeout_ms p) (max_timeout_ms r) = Some (max_timeout_ms s)
     \<and> restrict_bytes (max_response_bytes p) (max_response_bytes r) = Some (max_response_bytes s)"

definition http_flags_reduced ::
  "HttpRequestConstraints \<Rightarrow> HttpRequestConstraints \<Rightarrow> HttpRequestConstraints \<Rightarrow> bool" where
  "http_flags_reduced p r s \<longleftrightarrow>
     restrict_flag (allow_loopback p) (allow_loopback r) = Some (allow_loopback s)
     \<and> restrict_flag (allow_link_local p) (allow_link_local r) = Some (allow_link_local s)
     \<and> restrict_flag (allow_private_networks p) (allow_private_networks r) = Some (allow_private_networks s)
     \<and> restrict_flag (allow_ip_literals p) (allow_ip_literals r) = Some (allow_ip_literals s)"

lemma reduce_child_http_core_Inr:
  "reduce_child_http_core_constraints p r = Inr core \<Longrightarrow>
     http_reduced p r \<lparr>allowed_schemes = core_allowed_schemes core,
       allowed_hosts = reduced_hosts (core_host_scope core),
       allowed_host_suffixes = reduced_suffixes (core_host_scope core),
       allowed_ports = core_allowed_ports core, allowed_methods = core_allowed_methods core,
       allowed_path_prefixes = core_allowed_path_prefixes core,
       max_timeout_ms = core_max_timeout_ms core, max_response_bytes = core_max_response_bytes core,
       follow_redirects = x1, max_redirects = x2, allow_loopback = x3, allow_link_local = x4,
       allow_private_networks = x5, allow_ip_literals = x6\<rparr>"
  by (cases core)
    (auto simp: reduce_child_http_core_constraints_def http_reduced_def res_bind_Inr_iff
      reduce_child_http_constraint_Inr)

lemma reduce_child_http_destination_Inr:
  "reduce_child_http_destination_constraints p r = Inr d \<longleftrightarrow>
     restrict_flag (allow_loopback p) (allow_loopback r) = Some (dest_loopback d)
     \<and> restrict_flag (allow_link_local p) (allow_link_local r) = Some (dest_link_local d)
     \<and> restrict_flag (allow_private_networks p) (allow_private_networks r) = Some (dest_private_networks d)
     \<and> restrict_flag (allow_ip_literals p) (allow_ip_literals r) = Some (dest_ip_literals d)"
  by (cases d)
    (auto simp: reduce_child_http_destination_constraints_def res_bind_Inr_iff
      reduce_child_http_allow_flag_Inr)

lemma reduce_child_http_Inr:
  assumes "reduce_child_http_request_constraints p r = Inr s"
  shows "http_reduced p r s" "http_flags_reduced p r s"
  using assms
  by (auto simp: reduce_child_http_request_constraints_def res_bind_Inr_iff
      reduce_child_http_destination_Inr http_flags_reduced_def intro: reduce_child_http_core_Inr)

lemma matches_http_enum [simp]:
  "matches_http_method ms m = in_enum_scope ms m"
  "matches_http_scheme ss sc = in_enum_scope ss sc"
  "matches_http_port ps po = in_enum_scope ps po"
  by (auto simp: matches_http_method_def matches_http_scheme_def matches_http_port_def
      in_enum_scope_def is_none_or_iff)

text \<open>The part of \<^const>\<open>http_allows\<close> that needs no flag, except for the host.\<close>

definition http_core_allows :: "HttpRequestConstraints \<Rightarrow> HttpAccess \<Rightarrow> bool" where
  "http_core_allows c a \<longleftrightarrow>
     in_enum_scope (allowed_methods c) (ha_method a)
     \<and> in_enum_scope (allowed_schemes c) (ha_scheme a)
     \<and> in_enum_scope (allowed_ports c) (ha_port a)
     \<and> matches_http_path (allowed_path_prefixes c) (ha_path a)
     \<and> in_limit (max_timeout_ms c) (ha_millis a)
     \<and> in_limit (max_response_bytes c) (ha_bytes a)"

definition http_host_allows :: "HttpRequestConstraints \<Rightarrow> string \<Rightarrow> bool" where
  "http_host_allows c h = matches_http_host (allowed_hosts c) (allowed_host_suffixes c) h (is_ip_literal_host h)"

definition http_flags_allow :: "HttpRequestConstraints \<Rightarrow> HttpAccess \<Rightarrow> bool" where
  "http_flags_allow c a \<longleftrightarrow>
     (is_ip_literal_host (ha_host a) \<longrightarrow> allow_flag_enabled (allow_ip_literals c))
     \<and> (\<not> is_ip_literal_host (ha_host a) \<and> loopback_name (ha_host a) \<longrightarrow> allow_flag_enabled (allow_loopback c))
     \<and> destination_allowed c (ha_addresses a)"

lemma http_allows_split:
  "http_allows c a \<longleftrightarrow> http_core_allows c a \<and> http_host_allows c (ha_host a) \<and> http_flags_allow c a"
  by (auto simp: http_allows_def http_core_allows_def http_host_allows_def http_flags_allow_def)

lemma http_reduced_core:
  assumes "http_reduced p r s" "http_core_allows s a"
  shows "http_core_allows p a \<and> http_core_allows r a"
proof -
  have e: "subset_enum (allowed_schemes p) (allowed_schemes r) = Some (allowed_schemes s)"
    "subset_enum (allowed_ports p) (allowed_ports r) = Some (allowed_ports s)"
    "subset_enum (allowed_methods p) (allowed_methods r) = Some (allowed_methods s)"
    "restrict_paths (allowed_path_prefixes p) (allowed_path_prefixes r) = Some (allowed_path_prefixes s)"
    "restrict_bytes (max_timeout_ms p) (max_timeout_ms r) = Some (max_timeout_ms s)"
    "restrict_bytes (max_response_bytes p) (max_response_bytes r) = Some (max_response_bytes s)"
    using assms(1) unfolding http_reduced_def by blast+
  show ?thesis
    using assms(2) enum_subset.reduce_within[OF e(1)] enum_subset.reduce_within[OF e(2)]
      enum_subset.reduce_within[OF e(3)] paths_bound.reduce_within[OF e(4)]
      bytes_meet.reduce_within[OF e(5)] bytes_meet.reduce_within[OF e(6)]
    unfolding http_core_allows_def by blast
qed

text \<open>
  The condition under which a reduced host scope stays within the parent's: a parent that
  names hosts and no suffixes faces no required suffix.
\<close>

definition suffixes_bounded :: "HttpRequestConstraints \<Rightarrow> HttpRequestConstraints \<Rightarrow> bool" where
  "suffixes_bounded p r \<longleftrightarrow>
     (allowed_host_suffixes p = None \<and> allowed_hosts p \<noteq> None \<longrightarrow>
        allowed_host_suffixes r = None \<or> allowed_host_suffixes r = Some [])"

lemma http_covers_suffixes_bounded: "http_request_covers p r \<Longrightarrow> suffixes_bounded p r"
  unfolding suffixes_bounded_def http_request_covers_def
  using http_host_scope_covers_suffixes[of "allowed_hosts p" "allowed_hosts r"] by metis

lemma http_reduced_host:
  assumes "http_reduced p r s" "suffixes_bounded p r" "http_host_allows s h"
  shows "http_host_allows p h"
  using assms reduced_host_scope_parent[of "allowed_hosts p" "allowed_host_suffixes p"
      "allowed_hosts r" "allowed_host_suffixes r"
      "\<lparr>reduced_hosts = allowed_hosts s, reduced_suffixes = allowed_host_suffixes s\<rparr>" h]
  by (auto simp: http_reduced_def suffixes_bounded_def http_host_allows_def)

lemma http_flags_mono:
  assumes "http_flags_allow s a"
    and "allow_flag_enabled (allow_loopback s) \<Longrightarrow> allow_flag_enabled (allow_loopback p)"
    and "allow_flag_enabled (allow_link_local s) \<Longrightarrow> allow_flag_enabled (allow_link_local p)"
    and "allow_flag_enabled (allow_private_networks s) \<Longrightarrow> allow_flag_enabled (allow_private_networks p)"
    and "allow_flag_enabled (allow_ip_literals s) \<Longrightarrow> allow_flag_enabled (allow_ip_literals p)"
  shows "http_flags_allow p a"
proof -
  have "destination_allowed p (ha_addresses a)"
    using assms unfolding http_flags_allow_def destination_allowed_def
    by (auto split: HttpDestinationClass.splits)
  then show ?thesis
    using assms unfolding http_flags_allow_def by blast
qed

lemma http_flags_reduced_parent:
  assumes "http_flags_reduced p r s" "http_flags_allow s a"
  shows "http_flags_allow p a"
  using assms(2)
  by (rule http_flags_mono) (use assms(1) reduce_flag_parent in \<open>auto simp: http_flags_reduced_def\<close>)

lemma http_child_parent:
  assumes "reduce_child_http_request_constraints p r = Inr s" "suffixes_bounded p r" "http_allows s a"
  shows "http_allows p a"
  using reduce_child_http_Inr[OF assms(1)] assms(2,3) http_reduced_core http_reduced_host
    http_flags_reduced_parent
  unfolding http_allows_split by blast

lemma http_child_required_core:
  assumes "reduce_child_http_request_constraints p r = Inr s" "http_allows s a"
  shows "http_core_allows r a"
  using reduce_child_http_Inr[OF assms(1)] assms(2) http_reduced_core unfolding http_allows_split by blast

text \<open>Redirect hops that a constraint authorises.\<close>

definition redirect_allowance :: "HttpRequestConstraints \<Rightarrow> u8" where
  "redirect_allowance c =
     (if allow_flag_enabled (follow_redirects c) then unwrap_or 0 (max_redirects c) else 0)"

lemma http_child_redirects:
  assumes "reduce_child_http_request_constraints p r = Inr s"
    and "max_redirects p = None \<longrightarrow> \<not> allow_flag_enabled (follow_redirects p)"
  shows "redirect_allowance s \<le> redirect_allowance p"
proof (cases "allow_flag_enabled (follow_redirects s)")
  case True
  have red: "restrict_flag (follow_redirects p) (follow_redirects r) = Some (follow_redirects s)"
    "restrict_redirects (max_redirects p) (max_redirects r) = Some (max_redirects s)"
    using assms(1) True
    by (auto simp: reduce_child_http_request_constraints_def reduce_child_http_redirect_constraints_def
        res_bind_Inr_iff reduce_child_http_constraint_Inr reduce_child_http_allow_flag_Inr)
  then have p: "allow_flag_enabled (follow_redirects p)"
    using reduce_flag_parent True by blast
  with assms(2) obtain m where m: "max_redirects p = Some m"
    by auto
  with red(2) obtain n where "max_redirects s = Some n" "n \<le> m"
    by (cases "max_redirects r") (auto split: if_splits dest: sym)
  with p m True show ?thesis
    by (simp add: redirect_allowance_def)
qed (simp add: redirect_allowance_def)

section \<open>Reduction of grants\<close>

text \<open>The side condition concerns HTTP pairs only.\<close>

fun http_bounded :: "CapabilityConstraints \<Rightarrow> CapabilityConstraints \<Rightarrow> bool" where
  "http_bounded (CC_HttpRequest p) (CC_HttpRequest r) = suffixes_bounded p r"
| "http_bounded _ _ = True"

lemmas reduce_families =
  read.reduce_within invoke.reduce_within log.reduce_within emit.reduce_within filesystem.reduce_within

lemma reduce_child_constraints_cases:
  assumes "reduce_child_constraints g r = Inr c"
  obtains "g_constraints g = CC_None" "c = req_constraints r"
  | "req_constraints r = CC_None" "c = g_constraints g"
  | p w s where "g_constraints g = CC_Filesystem p" "req_constraints r = CC_Filesystem w"
      "c = CC_Filesystem s" "reduce_filesystem p w = Some s"
  | p w s where "g_constraints g = CC_HttpRequest p" "req_constraints r = CC_HttpRequest w"
      "c = CC_HttpRequest s" "reduce_child_http_request_constraints p w = Inr s"
  | p w s where "g_constraints g = CC_ReadResource p" "req_constraints r = CC_ReadResource w"
      "c = CC_ReadResource s" "reduce_read p w = Some s"
  | p w s where "g_constraints g = CC_InvokeDependency p" "req_constraints r = CC_InvokeDependency w"
      "c = CC_InvokeDependency s" "reduce_invoke p w = Some s"
  | p w s where "g_constraints g = CC_EmitEvidence p" "req_constraints r = CC_EmitEvidence w"
      "c = CC_EmitEvidence s" "reduce_emit p w = Some s"
  | p w s where "g_constraints g = CC_Log p" "req_constraints r = CC_Log w"
      "c = CC_Log s" "reduce_log p w = Some s"
  using assms
  by (cases "g_constraints g"; cases "req_constraints r")
    (auto simp: reduce_child_constraints_def res_bind_Inr_iff)

lemma constraints_allow_family:
  "constraints_allow (CC_Filesystem s) a \<longleftrightarrow> (\<exists>n gp hp op. a = Acc_Filesystem n gp hp op \<and> filesystem_allows s (n, gp, hp, op))"
  "constraints_allow (CC_HttpRequest h) a \<longleftrightarrow> (\<exists>x. a = Acc_Http x \<and> http_allows h x)"
  "constraints_allow (CC_ReadResource rr) a \<longleftrightarrow> (\<exists>x. a = Acc_Read x \<and> read_allows rr x)"
  "constraints_allow (CC_InvokeDependency iv) a \<longleftrightarrow> (\<exists>x. a = Acc_Invoke x \<and> invoke_allows iv x)"
  "constraints_allow (CC_EmitEvidence em) a \<longleftrightarrow> (\<exists>n u d. a = Acc_Emit n u d \<and> emit_allows em (n, u, d))"
  "constraints_allow (CC_Log lg) a \<longleftrightarrow> (\<exists>x. a = Acc_Log x \<and> log_allows lg x)"
  by (cases a; simp)+

lemma reduce_child_constraints_parent:
  assumes red: "reduce_child_constraints g r = Inr c"
    and bounded: "http_bounded (g_constraints g) (req_constraints r)"
    and allow: "constraints_allow c a"
  shows "constraints_allow (g_constraints g) a"
  using red
proof (cases rule: reduce_child_constraints_cases)
  case (4 p w s)
  with bounded allow show ?thesis
    by (auto simp: constraints_allow_family dest: http_child_parent)
qed (use allow reduce_families in \<open>auto simp: constraints_allow_family 
      simp del: res_ok_Some_iff filesystem_allows.simps emit_allows.simps\<close>)

lemma reduce_child_constraints_required:
  assumes red: "reduce_child_constraints g r = Inr c"
    and allow: "constraints_allow c a"
    and no_http: "as_http_request (req_constraints r) = None"
  shows "constraints_allow (req_constraints r) a"
  using red
proof (cases rule: reduce_child_constraints_cases)
  case (4 p w s)
  with no_http show ?thesis
    by simp
qed (use allow reduce_families in \<open>auto simp: constraints_allow_family 
      simp del: res_ok_Some_iff filesystem_allows.simps emit_allows.simps\<close>)

lemma reduce_grant_to_requirement_Some:
  "reduce_grant_to_requirement g r = Some g' \<longleftrightarrow>
     g_id g = req_id r \<and> g_access g = req_access r
     \<and> (\<exists>c. reduce_child_constraints g r = Inr c \<and> g' = g\<lparr>g_constraints := c\<rparr>)"
  by (auto simp: reduce_grant_to_requirement_def)

lemma reduce_grant_to_requirement_parent:
  assumes "reduce_grant_to_requirement g r = Some g'" "grant_allows g' a"
    and "http_bounded (g_constraints g) (req_constraints r)"
  shows "grant_allows g a"
  using assms reduce_child_constraints_parent
  by (auto simp: reduce_grant_to_requirement_Some grant_allows_def)

section \<open>Policy caps on grants\<close>

lemma reduce_constraints_to_cap_cases:
  assumes "reduce_constraints_to_cap cap g = Some c"
  obtains "cap = CC_None" "c = g"
  | "g = CC_None" "c = CC_None"
  | p w s where "cap = CC_Filesystem p" "g = CC_Filesystem w" "c = CC_Filesystem s"
      "reduce_cap_filesystem_constraints p w = Some s"
  | p w s where "cap = CC_HttpRequest p" "g = CC_HttpRequest w" "c = CC_HttpRequest s"
      "reduce_cap_http_request_constraints p w = Some s"
  | p w s where "cap = CC_ReadResource p" "g = CC_ReadResource w" "c = CC_ReadResource s"
      "reduce_read p w = Some s"
  | p w s where "cap = CC_InvokeDependency p" "g = CC_InvokeDependency w"
      "c = CC_InvokeDependency s" "reduce_invoke p w = Some s"
  | p w s where "cap = CC_EmitEvidence p" "g = CC_EmitEvidence w" "c = CC_EmitEvidence s"
      "reduce_emit p w = Some s"
  | p w s where "cap = CC_Log p" "g = CC_Log w" "c = CC_Log s" "reduce_log p w = Some s"
  using assms by (cases cap; cases g) (auto simp: reduce_constraints_to_cap_def)

lemma reduce_cap_http_Some:
  assumes "reduce_cap_http_request_constraints cap g = Some s"
  shows "http_reduced cap g s"
    and "allow_loopback s = reduce_cap_allow_flag (allow_loopback cap) (allow_loopback g)"
    and "allow_link_local s = reduce_cap_allow_flag (allow_link_local cap) (allow_link_local g)"
    and "allow_private_networks s = reduce_cap_allow_flag (allow_private_networks cap) (allow_private_networks g)"
    and "allow_ip_literals s = reduce_cap_allow_flag (allow_ip_literals cap) (allow_ip_literals g)"
  using assms
  by (auto simp: reduce_cap_http_request_constraints_def http_reduced_def bind_eq_Some_conv Let_def)

lemma http_cap_core:
  assumes "reduce_cap_http_request_constraints cap g = Some s" "http_allows s a"
  shows "http_core_allows cap a \<and> http_core_allows g a \<and> http_flags_allow g a"
proof -
  have "http_flags_allow s a"
    using assms(2) by (simp add: http_allows_split)
  then have "http_flags_allow g a"
    by (rule http_flags_mono) (simp_all add: reduce_cap_http_Some[OF assms(1)] reduce_cap_allow_flag_grant)
  then show ?thesis
    using http_reduced_core[OF reduce_cap_http_Some(1)[OF assms(1)]] assms(2)
    by (simp add: http_allows_split)
qed

lemma http_cap_host:
  assumes "reduce_cap_http_request_constraints cap g = Some s" "suffixes_bounded cap g" "http_allows s a"
  shows "http_host_allows cap (ha_host a)"
  using http_reduced_host[OF reduce_cap_http_Some(1)[OF assms(1)]] assms(2,3)
  by (simp add: http_allows_split)

text \<open>
  For every family but HTTP, and for a grant that is itself constrained, a cap yields exactly
  accesses that both the cap and the grant allow.
\<close>

lemma reduce_constraints_to_cap_bound:
  assumes red: "reduce_constraints_to_cap cap g = Some c"
    and allow: "constraints_allow c a"
    and no_http: "as_http_request g = None"
  shows "constraints_allow g a" and "g = CC_None \<longrightarrow> cap = CC_None \<Longrightarrow> constraints_allow cap a"
proof -
  have "constraints_allow g a \<and> ((g = CC_None \<longrightarrow> cap = CC_None) \<longrightarrow> constraints_allow cap a)"
    using red
  proof (cases rule: reduce_constraints_to_cap_cases)
    case (4 p w s)
    with no_http show ?thesis
      by simp
  qed (use allow reduce_families filesystem_cap.reduce_within in
      \<open>auto simp: constraints_allow_family 
      simp del: res_ok_Some_iff filesystem_allows.simps emit_allows.simps\<close>)
  then show "constraints_allow g a" and "g = CC_None \<longrightarrow> cap = CC_None \<Longrightarrow> constraints_allow cap a"
    by blast+
qed

lemma reduce_grant_to_cap_Some:
  "reduce_grant_to_cap cap g = Some g' \<longleftrightarrow>
     g_id cap = g_id g \<and> g_access cap = g_access g
     \<and> (\<exists>c. reduce_constraints_to_cap (g_constraints cap) (g_constraints g) = Some c
          \<and> g' = g\<lparr>g_constraints := c\<rparr>)"
  by (auto simp: reduce_grant_to_cap_def)

lemma set_push_unique_grant [simp]: "set (push_unique_grant gs g) = insert g (set gs)"
  by (auto simp: push_unique_grant_def)

lemma set_reduce_grant_to_cap_set:
  "set (reduce_grant_to_cap_set caps g) = {g'. \<exists>cap \<in> set caps. reduce_grant_to_cap cap g = Some g'}"
proof -
  have "set (foldl (\<lambda>reduced cap. case reduce_grant_to_cap cap g of
              None \<Rightarrow> reduced | Some rg \<Rightarrow> push_unique_grant reduced rg) acc caps)
      = set acc \<union> {g'. \<exists>cap \<in> set caps. reduce_grant_to_cap cap g = Some g'}" for acc
    by (induction caps arbitrary: acc) (auto split: option.splits)
  then show ?thesis
    by (simp add: reduce_grant_to_cap_set_def)
qed

lemma reduce_child_constraints_refused:
  assumes red: "reduce_child_constraints g r = Inl e"
    and fam: "as_http_request (req_constraints r) = None" "as_filesystem (req_constraints r) = None"
      "as_emit_evidence (req_constraints r) = None"
    and allow: "constraints_allow (g_constraints g) a" "constraints_allow (req_constraints r) a"
  shows False
proof -
  consider w where "req_constraints r = CC_ReadResource w" | w where "req_constraints r = CC_InvokeDependency w"
    | w where "req_constraints r = CC_Log w"
    using red fam
    by (cases "req_constraints r") (auto simp: reduce_child_constraints_def split: CapabilityConstraints.splits)
  then show ?thesis
    using red allow
    by cases (cases "g_constraints g"; force simp: reduce_child_constraints_def constraints_allow_family
        res_bind_def split: sum.splits dest: read.overlap_reduces invoke.overlap_reduces log.overlap_reduces)+
qed

lemma reduce_child_constraints_meet:
  assumes red: "reduce_child_constraints g r = Inr c"
    and fam: "as_http_request (req_constraints r) = None" "as_filesystem (req_constraints r) = None"
  shows "constraints_allow c a \<longleftrightarrow> constraints_allow (g_constraints g) a \<and> constraints_allow (req_constraints r) a"
  using red
proof (cases rule: reduce_child_constraints_cases)
  case (5 p w s) then show ?thesis by (auto simp: constraints_allow_family reduce_read_meet simp del: res_ok_Some_iff)
next
  case (6 p w s) then show ?thesis by (auto simp: constraints_allow_family reduce_invoke_meet simp del: res_ok_Some_iff)
next
  case (7 p w s) then show ?thesis by (auto simp: constraints_allow_family reduce_emit_meet simp del: res_ok_Some_iff emit_allows.simps)
next
  case (8 p w s) then show ?thesis by (auto simp: constraints_allow_family reduce_log_meet simp del: res_ok_Some_iff)
qed (use fam in auto)




section \<open>Claims\<close>

text \<open>C35: For resources, dependencies, evidence and log lines, reducing a parent grant to a child requirement
  computes the exact intersection: the reduced constraint allows an access exactly when both the grant
  and the requirement allow it.\<close>

theorem child_reduction_is_intersection:
  assumes "reduce_child_constraints g r = Inr c"
    and "as_http_request (req_constraints r) = None" "as_filesystem (req_constraints r) = None"
  shows "constraints_allow c a \<longleftrightarrow>
    constraints_allow (g_constraints g) a \<and> constraints_allow (req_constraints r) a"
  using assms by (rule reduce_child_constraints_meet)

definition sample_emit_grant :: GrantedCapability where
  "sample_emit_grant = \<lparr>g_id = EmitEvidence, g_access = Write, g_constraints = CC_EmitEvidence
     \<lparr>max_bytes = Some 64, audiences = Some [User, Internal], redactions = None\<rparr>\<rparr>"

definition sample_emit_requirement :: CapabilityRequirement where
  "sample_emit_requirement = \<lparr>req_id = EmitEvidence, req_access = Write, req_constraints = CC_EmitEvidence
     \<lparr>max_bytes = Some 32, audiences = Some [Internal], redactions = Some [RC_None]\<rparr>, required = True\<rparr>"

theorem child_reduction_is_intersection_witness:
  "reduce_child_constraints sample_emit_grant sample_emit_requirement
     = Inr (CC_EmitEvidence \<lparr>max_bytes = Some 32, audiences = Some [Internal], redactions = Some [RC_None]\<rparr>)
   \<and> constraints_allow (CC_EmitEvidence \<lparr>max_bytes = Some 32, audiences = Some [Internal],
        redactions = Some [RC_None]\<rparr>) (Acc_Emit 16 Internal RC_None)"
proof -
  have red: "reduce_child_constraints sample_emit_grant sample_emit_requirement
     = Inr (CC_EmitEvidence \<lparr>max_bytes = Some 32, audiences = Some [Internal], redactions = Some [RC_None]\<rparr>)"
    by code_simp
  have both: "constraints_allow (g_constraints sample_emit_grant) (Acc_Emit 16 Internal RC_None)
    \<and> constraints_allow (req_constraints sample_emit_requirement) (Acc_Emit 16 Internal RC_None)"
    by code_simp
  have fam: "as_http_request (req_constraints sample_emit_requirement) = None"
    "as_filesystem (req_constraints sample_emit_requirement) = None"
    by (simp_all add: sample_emit_requirement_def)
  show ?thesis
    using red both child_reduction_is_intersection [OF red fam, of "Acc_Emit 16 Internal RC_None"] by blast
qed

text \<open>A refusal is justified: when the reduction of a resource, dependency or log grant fails, no access is
  allowed by both the grant and the requirement.\<close>

theorem child_reduction_refusal:
  assumes "reduce_child_constraints g r = Inl e"
    and "as_http_request (req_constraints r) = None" "as_filesystem (req_constraints r) = None"
      "as_emit_evidence (req_constraints r) = None"
  shows "\<not> (constraints_allow (g_constraints g) a \<and> constraints_allow (req_constraints r) a)"
  using assms reduce_child_constraints_refused by blast

theorem child_reduction_refusal_witness:
  "\<not> (constraints_allow (CC_InvokeDependency \<lparr>aliases = Some [''audit'']\<rparr>) (Acc_Invoke ''audit'')
      \<and> constraints_allow (CC_InvokeDependency \<lparr>aliases = Some [''deploy'']\<rparr>) (Acc_Invoke ''audit''))"
proof -
  let ?g = "\<lparr>g_id = InvokeSkill, g_access = Invoke,
    g_constraints = CC_InvokeDependency \<lparr>aliases = Some [''audit'']\<rparr>\<rparr>"
  let ?r = "\<lparr>req_id = InvokeSkill, req_access = Invoke,
    req_constraints = CC_InvokeDependency \<lparr>aliases = Some [''deploy'']\<rparr>, required = True\<rparr>"
  have "\<not> is_ok (reduce_child_constraints ?g ?r)"
    by code_simp
  then obtain e where "reduce_child_constraints ?g ?r = Inl e"
    by (cases "reduce_child_constraints ?g ?r") (auto simp: is_ok_def)
  then show ?thesis
    using child_reduction_refusal [of ?g ?r e "Acc_Invoke ''audit''"] by simp
qed

text \<open>Redirects do not grow on delegation: a child's redirect allowance is at most the parent's, as long as
  the parent states a bound whenever it follows redirects (which validation of a grant demands).\<close>

theorem child_redirect_allowance:
  assumes "reduce_child_http_request_constraints p r = Inr s"
    and "max_redirects p = None \<longrightarrow> \<not> allow_flag_enabled (follow_redirects p)"
  shows "redirect_allowance s \<le> redirect_allowance p"
  using assms by (rule http_child_redirects)

definition sample_redirects :: "u8 \<Rightarrow> HttpRequestConstraints" where
  "sample_redirects n = HttpRequestConstraints_default\<lparr>follow_redirects := Some True, max_redirects := Some n\<rparr>"

theorem child_redirect_allowance_witness:
  "reduce_child_http_request_constraints (sample_redirects 5) (sample_redirects 3) = Inr (sample_redirects 3)
   \<and> redirect_allowance (sample_redirects 3) \<le> redirect_allowance (sample_redirects 5)"
proof -
  have red: "reduce_child_http_request_constraints (sample_redirects 5) (sample_redirects 3)
    = Inr (sample_redirects 3)"
    by code_simp
  show ?thesis
    by (intro conjI red child_redirect_allowance [OF red]) (simp add: sample_redirects_def)
qed

text \<open>A policy cap never adds authority, and what remains is within the cap, for every family but HTTP and
  every grant that carries constraints of its own.\<close>

theorem cap_bounds_grant:
  assumes "reduce_grant_to_cap cap g = Some g'" "grant_allows g' a"
    and "as_http_request (g_constraints g) = None" "g_constraints g \<noteq> CC_None"
  shows "grant_allows g a \<and> grant_allows cap a"
  using assms reduce_constraints_to_cap_bound
  by (auto simp: reduce_grant_to_cap_Some grant_allows_def)

theorem cap_bounds_grant_witness:
  "reduce_grant_to_cap \<lparr>g_id = LogWrite, g_access = Write, g_constraints = CC_Log \<lparr>levels = Some [Info]\<rparr>\<rparr>
     \<lparr>g_id = LogWrite, g_access = Write, g_constraints = CC_Log \<lparr>levels = Some [Warn, Info]\<rparr>\<rparr>
     = Some \<lparr>g_id = LogWrite, g_access = Write, g_constraints = CC_Log \<lparr>levels = Some [Info]\<rparr>\<rparr>
   \<and> grant_allows \<lparr>g_id = LogWrite, g_access = Write, g_constraints = CC_Log \<lparr>levels = Some [Info]\<rparr>\<rparr> (Acc_Log Info)"
    (is "reduce_grant_to_cap ?cap ?g = Some ?g' \<and> _")
proof -
  have red: "reduce_grant_to_cap ?cap ?g = Some ?g'" and al: "grant_allows ?g' (Acc_Log Info)"
    by code_simp+
  show ?thesis
    using red cap_bounds_grant [OF red al] by simp
qed

text \<open>A requirement that lists host suffixes adds them to a requested grant that only listed hosts: the
  clamped grant reaches every host under those suffixes, although the request did not ask for them.\<close>

theorem clamp_adds_host_suffixes:
  "reduce_grant_to_requirement
     \<lparr>g_id = HttpRequest, g_access = Read,
      g_constraints = CC_HttpRequest (HttpRequestConstraints_default\<lparr>allowed_hosts := Some hs\<rparr>)\<rparr>
     \<lparr>req_id = HttpRequest, req_access = Read,
      req_constraints = CC_HttpRequest (HttpRequestConstraints_default\<lparr>allowed_host_suffixes := Some ss\<rparr>),
      required = q\<rparr>
   = Some \<lparr>g_id = HttpRequest, g_access = Read,
       g_constraints = CC_HttpRequest (HttpRequestConstraints_default\<lparr>
         allowed_hosts := Some (canonicalize_host_scope hs),
         allowed_host_suffixes := Some (canonicalize_host_suffix_scope ss)\<rparr>)\<rparr>"
  by (simp add: reduce_grant_to_requirement_Some reduce_child_constraints_def HttpRequestConstraints_default_def
      reduce_child_http_request_constraints_def reduce_child_http_core_constraints_def res_bind_Inr_iff
      reduce_child_http_constraint_def reduce_required_host_scope_def reduce_child_http_destination_constraints_def
      reduce_child_http_redirect_constraints_def reduce_child_http_allow_flag_Inr)

text \<open>An unconstrained grant passes a cap unchanged: the cap's constraints are not applied to it, so the
  result allows every access of the capability.\<close>

theorem cap_skips_unconstrained_grant:
  "reduce_grant_to_cap \<lparr>g_id = i, g_access = m, g_constraints = cap\<rparr> \<lparr>g_id = i, g_access = m, g_constraints = CC_None\<rparr>
     = Some \<lparr>g_id = i, g_access = m, g_constraints = CC_None\<rparr>"
  by (cases cap) (simp_all add: reduce_grant_to_cap_def reduce_constraints_to_cap_def)

end
