(* ===== verification/Guild_Evaluator.thy ===== *)
theory Guild_Evaluator
  imports Guild_Authority
begin

text \<open>
  \<open>CapabilityEvaluator\<close> of \<open>crates/guild-runner/src/lib.rs\<close> without its HTTP part:
  authorising guest operations against the granted set, deciding whether grants cover a
  requirement, and deriving the grants of a child execution from those of its parent. The
  theorems relate each decision to the accesses of the authority specification.
\<close>

section \<open>Definitions\<close>

datatype CapabilityOperation =
    Op_ReadResource string GuildResourceUri
  | Op_InvokeDependency string
  | Op_EmitEvidence EvidenceEmissionRequest
  | Op_Log Severity

definition matching_grants ::
  "CapabilityGrantSet \<Rightarrow> CapabilityId \<Rightarrow> CapabilityAccess \<Rightarrow> GrantedCapability list" where
  "matching_grants gs i ac = filter (\<lambda>g. g_id g = i \<and> g_access g = ac) (grants gs)"

definition grant_covers_requirement :: "GrantedCapability \<Rightarrow> CapabilityRequirement \<Rightarrow> bool" where
  "grant_covers_requirement g r =
     (if g_id g \<noteq> req_id r \<or> g_access g \<noteq> req_access r then False
      else
        case (g_constraints g, req_constraints r) of
          (CC_None, _) \<Rightarrow> True
        | (_, CC_None) \<Rightarrow> True
        | (CC_Filesystem gc, CC_Filesystem w) \<Rightarrow> filesystem_covers gc w
        | (CC_HttpRequest gc, CC_HttpRequest w) \<Rightarrow> http_request_covers gc w
        | (CC_ReadResource gc, CC_ReadResource w) \<Rightarrow> read_resource_covers gc w
        | (CC_InvokeDependency gc, CC_InvokeDependency w) \<Rightarrow> invoke_dependency_covers gc w
        | (CC_EmitEvidence gc, CC_EmitEvidence w) \<Rightarrow> emit_evidence_covers gc w
        | (CC_Log gc, CC_Log w) \<Rightarrow> log_covers gc w
        | _ \<Rightarrow> False)"

definition derived_grants ::
  "CapabilityGrantSet \<Rightarrow> CapabilityRequirement \<Rightarrow> GrantedCapability list" where
  "derived_grants gs r =
     List.map_filter (\<lambda>g. reduce_grant_to_requirement g r) (matching_grants gs (req_id r) (req_access r))"

definition grants_cover_requirement :: "CapabilityGrantSet \<Rightarrow> CapabilityRequirement \<Rightarrow> bool" where
  "grants_cover_requirement gs r =
     (case (req_id r, req_access r, req_constraints r) of
        (ReadResource, Read, CC_ReadResource w) \<Rightarrow>
          read_resource_grants_collectively_cover (derived_grants gs r) w
      | (InvokeSkill, Invoke, CC_InvokeDependency w) \<Rightarrow>
          (if list_ex (\<lambda>g. g_constraints g = CC_None) (matching_grants gs (req_id r) (req_access r)) then True
           else invoke_dependency_grants_collectively_cover (derived_grants gs r) w)
      | (LogWrite, Write, CC_Log w) \<Rightarrow> log_grants_collectively_cover (derived_grants gs r) w
      | _ \<Rightarrow> list_ex (\<lambda>g. grant_covers_requirement g r) (grants gs))"

subsection \<open>Authorising operations\<close>

definition read_resource_denial :: "string \<Rightarrow> string \<Rightarrow> string \<Rightarrow> ResourceKind \<Rightarrow> CapabilityDenial" where
  "read_resource_denial code msg uri kind =
     \<lparr>cd_code = code, cd_message = msg,
      cd_detail = json_obj [(''uri'', JString uri), (''resource_kind'', ResourceKind_json kind)]\<rparr>"

definition authorize_read_resource ::
  "CapabilityGrantSet \<Rightarrow> string \<Rightarrow> GuildResourceUri \<Rightarrow> CapabilityDenial + unit" where
  "authorize_read_resource gs uri parsed =
     (let kind = GuildResourceUri_kind parsed;
          matching = matching_grants gs ReadResource Read;
          not_granted = read_resource_denial ''read-resource-not-granted''
            (''resource URI `'' @ uri @ ''` was not granted for read access'') uri kind
      in if matching = [] then Inl not_granted
         else if \<not> list_ex (\<lambda>g. case g_constraints g of
                     CC_None \<Rightarrow> True
                   | CC_ReadResource _ \<Rightarrow> read_resource_grant_allows_kind g kind
                   | _ \<Rightarrow> False) matching
         then Inl (read_resource_denial ''read-resource-kind-denied''
                (''resource kind `'' @ resource_kind_label kind @ ''` was not granted for read access'') uri kind)
         else if list_ex (\<lambda>g. read_resource_grant_allows_uri g parsed) matching then Inr ()
         else Inl not_granted)"

definition authorize_invoke_dependency :: "CapabilityGrantSet \<Rightarrow> string \<Rightarrow> CapabilityDenial + unit" where
  "authorize_invoke_dependency gs al =
     (let matching = matching_grants gs InvokeSkill Invoke;
          not_granted = \<lparr>cd_code = ''dependency-invoke-not-granted'',
            cd_message = ''dependency alias `'' @ al @ ''` was not granted for invocation'',
            cd_detail = json_obj [(''alias'', JString al)]\<rparr>
      in if matching = [] then Inl not_granted
         else if list_ex (\<lambda>g. case g_constraints g of
                    CC_None \<Rightarrow> True
                  | CC_InvokeDependency c \<Rightarrow> is_none_or (aliases c) (list_ex ((=) al))
                  | _ \<Rightarrow> False) matching
         then Inr ()
         else Inl not_granted)"

definition emit_evidence_not_granted :: "EvidenceEmissionRequest \<Rightarrow> u64 \<Rightarrow> CapabilityDenial" where
  "emit_evidence_not_granted req payload_bytes =
     \<lparr>cd_code = ''emit-evidence-not-granted'',
      cd_message = ''evidence emission was not granted for this execution'',
      cd_detail = json_obj
        [(''mime_type'', JString (ee_mime_type req)),
         (''payload_bytes'', json_word payload_bytes),
         (''audience'', EvidenceAudience_json (ee_audience req)),
         (''redaction'', RedactionClass_json (ee_redaction req))]\<rparr>"

text \<open>The loop over matching grants, with the three flags it sets; \<open>None\<close> is the early \<open>Ok\<close>.\<close>

fun emit_evidence_loop ::
  "EvidenceEmissionRequest \<Rightarrow> u64 \<Rightarrow> GrantedCapability list \<Rightarrow> bool \<times> bool \<times> bool
     \<Rightarrow> (bool \<times> bool \<times> bool) option" where
  "emit_evidence_loop req n [] flags = Some flags"
| "emit_evidence_loop req n (g # gs) (big, aud, red) =
     (case g_constraints g of
        CC_EmitEvidence c \<Rightarrow>
          (if is_some_and (max_bytes c) (\<lambda>m. n > m) then emit_evidence_loop req n gs (True, aud, red)
           else if is_some_and (audiences c) (\<lambda>as. ee_audience req \<notin> set as)
             then emit_evidence_loop req n gs (big, True, red)
           else if is_some_and (redactions c) (\<lambda>rs. ee_redaction req \<notin> set rs)
             then emit_evidence_loop req n gs (big, aud, True)
           else None)
      | CC_None \<Rightarrow> None
      | _ \<Rightarrow> emit_evidence_loop req n gs (big, aud, red))"

definition authorize_emit_evidence ::
  "CapabilityGrantSet \<Rightarrow> EvidenceEmissionRequest \<Rightarrow> CapabilityDenial + unit" where
  "authorize_emit_evidence gs req =
     (let matching = matching_grants gs EmitEvidence Write;
          payload_bytes = u64_of_usize (length (ee_payload req))
      in if matching = [] then Inl (emit_evidence_not_granted req payload_bytes)
         else
           case emit_evidence_loop req payload_bytes matching (False, False, False) of
             None \<Rightarrow> Inr ()
           | Some (big, aud, red) \<Rightarrow>
               if big then Inl \<lparr>cd_code = ''emit-evidence-too-large'',
                   cd_message = ''evidence payload exceeded the granted max_bytes limit'',
                   cd_detail = json_obj [(''payload_bytes'', json_word payload_bytes)]\<rparr>
               else if aud then Inl \<lparr>cd_code = ''emit-evidence-audience-not-granted'',
                   cd_message = ''evidence audience was not granted for this execution'',
                   cd_detail = json_obj [(''audience'', EvidenceAudience_json (ee_audience req))]\<rparr>
               else if red then Inl \<lparr>cd_code = ''emit-evidence-redaction-not-granted'',
                   cd_message = ''evidence redaction class was not granted for this execution'',
                   cd_detail = json_obj [(''redaction'', RedactionClass_json (ee_redaction req))]\<rparr>
               else Inl (emit_evidence_not_granted req payload_bytes))"

definition authorize_log :: "CapabilityGrantSet \<Rightarrow> Severity \<Rightarrow> CapabilityDenial + unit" where
  "authorize_log gs level =
     (let matching = matching_grants gs LogWrite Write
      in if matching = []
         then Inl \<lparr>cd_code = ''log-write-not-granted'',
                   cd_message = ''log-write was not granted for this execution'',
                   cd_detail = json_obj [(''level'', Severity_json level)]\<rparr>
         else if list_ex (\<lambda>g. case g_constraints g of
                    CC_None \<Rightarrow> True
                  | CC_Log c \<Rightarrow> is_none_or (levels c) (\<lambda>ls. level \<in> set ls)
                  | _ \<Rightarrow> False) matching
         then Inr ()
         else Inl \<lparr>cd_code = ''log-level-not-granted'',
                   cd_message = ''log level `'' @ severity_label level @ ''` was not granted for this execution'',
                   cd_detail = json_obj [(''level'', Severity_json level)]\<rparr>)"

fun authorize :: "CapabilityGrantSet \<Rightarrow> CapabilityOperation \<Rightarrow> CapabilityDenial + unit" where
  "authorize gs (Op_ReadResource uri parsed) = authorize_read_resource gs uri parsed"
| "authorize gs (Op_InvokeDependency al) = authorize_invoke_dependency gs al"
| "authorize gs (Op_EmitEvidence req) = authorize_emit_evidence gs req"
| "authorize gs (Op_Log level) = authorize_log gs level"

subsection \<open>Deriving child grants\<close>

definition child_capability_mismatch_denial :: "CapabilityRequirement \<Rightarrow> CapabilityDenial" where
  "child_capability_mismatch_denial r =
     \<lparr>cd_code = ''child-capability-mismatch'',
      cd_message = ''child invocation required capabilities that were not granted to the parent'',
      cd_detail = json_obj
        [(''id'', CapabilityId_json (req_id r)),
         (''access'', CapabilityAccess_json (req_access r)),
         (''constraints'', CapabilityConstraints_json (req_constraints r))]\<rparr>"

definition collective_child_grants ::
  "CapabilityRequirement \<Rightarrow> CapabilityGrantSet \<Rightarrow> GrantedCapability list" where
  "collective_child_grants r parent =
     foldl (\<lambda>acc pg. case reduce_child_constraints pg r of
              Inl _ \<Rightarrow> acc
            | Inr c \<Rightarrow> push_unique_grant acc \<lparr>g_id = req_id r, g_access = req_access r, g_constraints = c\<rparr>)
       [] (matching_grants parent (req_id r) (req_access r))"

definition derive_collective_child_grants ::
  "CapabilityRequirement \<Rightarrow> CapabilityGrantSet \<Rightarrow> (GrantedCapability list \<Rightarrow> CapabilityRequirement \<Rightarrow> bool)
     \<Rightarrow> CapabilityDenial + GrantedCapability list" where
  "derive_collective_child_grants r parent collective_cover =
     (let gs = collective_child_grants r parent
      in if collective_cover gs r \<or> \<not> required r then Inr gs
         else Inl (child_capability_mismatch_denial r))"

definition derive_child_invoke_dependency_grants ::
  "CapabilityRequirement \<Rightarrow> CapabilityGrantSet \<Rightarrow> CapabilityDenial + GrantedCapability list" where
  "derive_child_invoke_dependency_grants r parent =
     derive_collective_child_grants r parent (\<lambda>gs r. case req_constraints r of
       CC_InvokeDependency w \<Rightarrow> invoke_dependency_grants_collectively_cover gs w | _ \<Rightarrow> False)"

definition derive_child_read_resource_grants ::
  "CapabilityRequirement \<Rightarrow> CapabilityGrantSet \<Rightarrow> CapabilityDenial + GrantedCapability list" where
  "derive_child_read_resource_grants r parent =
     derive_collective_child_grants r parent (\<lambda>gs r. case req_constraints r of
       CC_ReadResource w \<Rightarrow> read_resource_grants_collectively_cover gs w | _ \<Rightarrow> False)"

definition derive_child_log_grants ::
  "CapabilityRequirement \<Rightarrow> CapabilityGrantSet \<Rightarrow> CapabilityDenial + GrantedCapability list" where
  "derive_child_log_grants r parent =
     derive_collective_child_grants r parent (\<lambda>gs r. case req_constraints r of
       CC_Log w \<Rightarrow> log_grants_collectively_cover gs w | _ \<Rightarrow> False)"

text \<open>One round of the loop over the child's requirements.\<close>

definition derive_child_step ::
  "CapabilityGrantSet \<Rightarrow> CapabilityRequirement \<Rightarrow> CapabilityDenial + GrantedCapability list" where
  "derive_child_step parent r =
     (case (req_id r, req_access r, req_constraints r) of
        (ReadResource, Read, CC_ReadResource _) \<Rightarrow> derive_child_read_resource_grants r parent
      | (InvokeSkill, Invoke, CC_InvokeDependency _) \<Rightarrow> derive_child_invoke_dependency_grants r parent
      | (LogWrite, Write, CC_Log _) \<Rightarrow> derive_child_log_grants r parent
      | _ \<Rightarrow>
          (case find (\<lambda>g. grant_covers_requirement g r) (grants parent) of
             Some pg \<Rightarrow> res_bind (reduce_child_constraints pg r)
               (\<lambda>c. Inr [\<lparr>g_id = req_id r, g_access = req_access r, g_constraints = c\<rparr>])
           | None \<Rightarrow> if required r then Inl (child_capability_mismatch_denial r) else Inr []))"

fun derive_child_loop ::
  "CapabilityGrantSet \<Rightarrow> CapabilityRequirement list \<Rightarrow> GrantedCapability list
     \<Rightarrow> CapabilityDenial + GrantedCapability list" where
  "derive_child_loop parent [] acc = Inr acc"
| "derive_child_loop parent (r # rs) acc =
     res_bind (derive_child_step parent r) (\<lambda>gs. derive_child_loop parent rs (acc @ gs))"

definition derive_child_grants ::
  "CapabilityRequirement list \<Rightarrow> CapabilityGrantSet \<Rightarrow> CapabilityDenial + CapabilityGrantSet" where
  "derive_child_grants child_capabilities parent =
     res_bind (derive_child_loop parent child_capabilities []) (\<lambda>gs. Inr \<lparr>grants = gs\<rparr>)"

section \<open>Authorisation decides exactly the granted accesses\<close>

fun operation_access :: "CapabilityOperation \<Rightarrow> Access" where
  "operation_access (Op_ReadResource uri parsed) = Acc_Read (GuildResourceUri_scope parsed)"
| "operation_access (Op_InvokeDependency al) = Acc_Invoke al"
| "operation_access (Op_EmitEvidence req) =
     Acc_Emit (u64_of_usize (length (ee_payload req))) (ee_audience req) (ee_redaction req)"
| "operation_access (Op_Log level) = Acc_Log level"

lemma grants_allow_matching:
  "grants_allow gs a \<longleftrightarrow>
     list_ex (\<lambda>g. constraints_allow (g_constraints g) a)
       (matching_grants gs (fst (access_capability a)) (snd (access_capability a)))"
  by (auto simp: grants_allow_def grant_allows_def matching_grants_def list_ex_iff prod_eq_iff)

lemma read_grant_allows_scope_iff:
  "read_resource_grant_allows_scope g sc \<longleftrightarrow> constraints_allow (g_constraints g) (Acc_Read sc)"
  by (cases "g_constraints g")
    (auto simp: read_resource_grant_allows_scope_def read_allows_def in_resource_scope_def in_enum_scope_def)

lemma authorize_read_resource_iff:
  "authorize_read_resource gs uri u = Inr () \<longleftrightarrow> grants_allow gs (Acc_Read (GuildResourceUri_scope u))"
proof -
  have kind: "case g_constraints g of CC_None \<Rightarrow> True
      | CC_ReadResource c \<Rightarrow> read_resource_grant_allows_kind g (GuildResourceUri_kind u) | _ \<Rightarrow> False"
    if "read_resource_grant_allows_uri g u" for g
    using that
    by (auto simp: read_resource_grant_allows_uri_def read_resource_grant_allows_scope_def
        read_resource_grant_allows_kind_def split: CapabilityConstraints.splits)
  have "authorize_read_resource gs uri u = Inr () \<longleftrightarrow>
      list_ex (\<lambda>g. read_resource_grant_allows_uri g u) (matching_grants gs ReadResource Read)"
    using kind unfolding authorize_read_resource_def Let_def by (auto simp: list_ex_iff)
  then show ?thesis
    by (simp add: grants_allow_matching read_resource_grant_allows_uri_def read_grant_allows_scope_iff)
qed

lemma authorize_invoke_iff: "authorize_invoke_dependency gs al = Inr () \<longleftrightarrow> grants_allow gs (Acc_Invoke al)"
proof -
  have "(case c of CC_None \<Rightarrow> True | CC_InvokeDependency c \<Rightarrow> is_none_or (aliases c) (list_ex ((=) al))
      | _ \<Rightarrow> False) \<longleftrightarrow> constraints_allow c (Acc_Invoke al)" for c
    by (cases c) (auto simp: invoke_allows_def in_enum_scope_def is_none_or_iff)
  then show ?thesis
    by (auto simp: authorize_invoke_dependency_def Let_def grants_allow_matching)
qed

lemma authorize_log_iff: "authorize_log gs l = Inr () \<longleftrightarrow> grants_allow gs (Acc_Log l)"
proof -
  have "(case c of CC_None \<Rightarrow> True | CC_Log c \<Rightarrow> is_none_or (levels c) (\<lambda>ls. l \<in> set ls)
      | _ \<Rightarrow> False) \<longleftrightarrow> constraints_allow c (Acc_Log l)" for c
    by (cases c) (auto simp: log_allows_def in_enum_scope_def)
  then show ?thesis
    by (auto simp: authorize_log_def Let_def grants_allow_matching)
qed

lemma emit_evidence_loop_None:
  "emit_evidence_loop req n gs fl = None \<longleftrightarrow>
     list_ex (\<lambda>g. constraints_allow (g_constraints g) (Acc_Emit n (ee_audience req) (ee_redaction req))) gs"
  by (induction req n gs fl rule: emit_evidence_loop.induct)
    (auto simp: in_limit_def in_enum_scope_def is_some_and_iff is_none_or_iff not_less
      split: CapabilityConstraints.splits)

lemma authorize_emit_iff:
  "authorize_emit_evidence gs req = Inr () \<longleftrightarrow>
     grants_allow gs (Acc_Emit (u64_of_usize (length (ee_payload req))) (ee_audience req) (ee_redaction req))"
  unfolding grants_allow_matching access_capability.simps fst_conv snd_conv
    emit_evidence_loop_None[of req _ _ "(False, False, False)", symmetric]
  by (auto simp: authorize_emit_evidence_def Let_def split: option.splits)

lemma authorize_iff: "authorize gs op = Inr () \<longleftrightarrow> grants_allow gs (operation_access op)"
  by (cases op)
    (simp_all add: authorize_read_resource_iff authorize_invoke_iff authorize_log_iff authorize_emit_iff)

lemma authorize_mono:
  assumes "\<And>a. grants_allow gs a \<Longrightarrow> grants_allow hs a" "authorize gs op = Inr ()"
  shows "authorize hs op = Inr ()"
  using assms by (simp add: authorize_iff)

section \<open>A child never exceeds its parent\<close>

lemma set_collective_child_grants:
  "set (collective_child_grants r parent) =
     {\<lparr>g_id = req_id r, g_access = req_access r, g_constraints = c\<rparr> | pg c.
        pg \<in> set (matching_grants parent (req_id r) (req_access r)) \<and> reduce_child_constraints pg r = Inr c}"
proof -
  have "set (foldl (\<lambda>acc pg. case reduce_child_constraints pg r of Inl _ \<Rightarrow> acc
        | Inr c \<Rightarrow> push_unique_grant acc \<lparr>g_id = req_id r, g_access = req_access r, g_constraints = c\<rparr>) acc pgs)
      = set acc \<union> {\<lparr>g_id = req_id r, g_access = req_access r, g_constraints = c\<rparr> | pg c.
          pg \<in> set pgs \<and> reduce_child_constraints pg r = Inr c}" for acc pgs
    by (induction pgs arbitrary: acc) (auto split: sum.splits)
  then show ?thesis
    by (simp add: collective_child_grants_def)
qed

text \<open>Every grant of a derivation step is a reduction of one parent grant to the requirement.\<close>

lemma derive_child_step_grant:
  assumes "derive_child_step parent r = Inr gs" "g \<in> set gs"
  shows "\<exists>pg \<in> set (grants parent). g_id pg = req_id r \<and> g_access pg = req_access r
    \<and> http_bounded (g_constraints pg) (req_constraints r)
    \<and> g_id g = req_id r \<and> g_access g = req_access r
    \<and> reduce_child_constraints pg r = Inr (g_constraints g)"
proof -
  consider (collective) "g \<in> set (collective_child_grants r parent)" "as_http_request (req_constraints r) = None"
    | (single) pg where "find (\<lambda>g. grant_covers_requirement g r) (grants parent) = Some pg"
        "\<exists>c. reduce_child_constraints pg r = Inr c
          \<and> g = \<lparr>g_id = req_id r, g_access = req_access r, g_constraints = c\<rparr>"
    using assms
    by (auto simp: derive_child_step_def derive_child_read_resource_grants_def
        derive_child_invoke_dependency_grants_def derive_child_log_grants_def
        derive_collective_child_grants_def Let_def res_bind_Inr_iff
        split: CapabilityId.splits CapabilityAccess.splits CapabilityConstraints.splits
          if_splits option.splits)
  then show ?thesis
  proof cases
    case collective
    have "http_bounded c (req_constraints r)" for c
      using collective(2) by (cases c; cases "req_constraints r") auto
    then show ?thesis
      using collective(1) by (auto simp: set_collective_child_grants matching_grants_def)
  next
    case single
    then have pg: "pg \<in> set (grants parent)" "grant_covers_requirement pg r"
      using find_SomeD by fast+
    then have "http_bounded (g_constraints pg) (req_constraints r)"
      by (cases "g_constraints pg"; cases "req_constraints r")
        (auto simp: grant_covers_requirement_def http_covers_suffixes_bounded split: if_splits)
    with pg single(2) show ?thesis
      by (auto simp: grant_covers_requirement_def split: if_splits)
  qed
qed

lemma derive_child_loop_grant:
  assumes "derive_child_loop parent rs acc = Inr gs" "g \<in> set gs"
  shows "g \<in> set acc \<or> (\<exists>r \<in> set rs. \<exists>hs. derive_child_step parent r = Inr hs \<and> g \<in> set hs)"
  using assms by (induction rs arbitrary: acc) (fastforce simp: res_bind_Inr_iff)+

lemma derive_child_grant:
  assumes "derive_child_grants caps parent = Inr child" "g \<in> set (grants child)"
  shows "\<exists>r \<in> set caps. \<exists>pg \<in> set (grants parent).
    g_id pg = req_id r \<and> g_access pg = req_access r
    \<and> http_bounded (g_constraints pg) (req_constraints r)
    \<and> g_id g = req_id r \<and> g_access g = req_access r
    \<and> reduce_child_constraints pg r = Inr (g_constraints g)"
  using assms derive_child_loop_grant[of parent caps "[]" "grants child" g] derive_child_step_grant
  by (fastforce simp: derive_child_grants_def res_bind_Inr_iff)

lemma derive_child_within_parent:
  assumes "derive_child_grants caps parent = Inr child" "grants_allow child a"
  shows "grants_allow parent a"
proof -
  obtain g where g: "g \<in> set (grants child)" "grant_allows g a"
    using assms(2) by (auto simp: grants_allow_def)
  obtain r pg where pg: "pg \<in> set (grants parent)" "g_id pg = g_id g" "g_access pg = g_access g"
    "http_bounded (g_constraints pg) (req_constraints r)"
    "reduce_child_constraints pg r = Inr (g_constraints g)"
    using derive_child_grant[OF assms(1) g(1)] by auto
  have "grant_allows pg a"
    using reduce_child_constraints_parent[OF pg(5,4)] pg(2,3) g(2) by (simp add: grant_allows_def)
  with pg(1) show ?thesis
    unfolding grants_allow_def by blast
qed

lemma derive_child_within_requirements:
  assumes "derive_child_grants caps parent = Inr child" "grants_allow child a"
    and "\<And>x. a \<noteq> Acc_Http x"
  shows "\<exists>r \<in> set caps. (req_id r, req_access r) = access_capability a
    \<and> constraints_allow (req_constraints r) a"
proof -
  obtain g where g: "g \<in> set (grants child)" "grant_allows g a"
    using assms(2) by (auto simp: grants_allow_def)
  obtain r pg where r: "r \<in> set caps" "g_id g = req_id r" "g_access g = req_access r"
    "reduce_child_constraints pg r = Inr (g_constraints g)"
    using derive_child_grant[OF assms(1) g(1)] by auto
  have allow: "constraints_allow (g_constraints g) a"
    using g(2) by (simp add: grant_allows_def)
  have "constraints_allow (req_constraints r) a"
  proof (cases "as_http_request (req_constraints r)")
    case None
    then show ?thesis
      using reduce_child_constraints_required[OF r(4) allow] by blast
  next
    case (Some w)
    then have w: "req_constraints r = CC_HttpRequest w"
      by (cases "req_constraints r") auto
    have "\<exists>s. g_constraints g = CC_HttpRequest s"
      using r(4) by (cases rule: reduce_child_constraints_cases) (use w in auto)
    then show ?thesis
      using allow assms(3) by (auto simp: constraints_allow_family)
  qed
  then show ?thesis
    using r g(2) by (auto simp: grant_allows_def)
qed

section \<open>A required capability is served\<close>

text \<open>The accesses that a requirement names explicitly.\<close>

definition demands :: "CapabilityRequirement \<Rightarrow> Access \<Rightarrow> bool" where
  "demands r a \<longleftrightarrow>
     (req_id r, req_access r) = access_capability a
     \<and> (case (req_constraints r, a) of
          (CC_ReadResource w, Acc_Read sc) \<Rightarrow>
            is_some_and (uri_prefixes w) (\<lambda>ps. is_some_and (parse_resource_scopes ps) (\<lambda>scs. sc \<in> set scs))
        | (CC_InvokeDependency w, Acc_Invoke al) \<Rightarrow> in_enum_scope (aliases w) al
        | (CC_Log w, Acc_Log l) \<Rightarrow> is_some_and (levels w) (\<lambda>ls. l \<in> set ls)
        | (CC_EmitEvidence w, Acc_Emit n u d) \<Rightarrow>
            is_some_and (max_bytes w) (\<lambda>m. n \<le> m)
            \<and> is_some_and (audiences w) (\<lambda>as. u \<in> set as)
            \<and> is_some_and (redactions w) (\<lambda>ds. d \<in> set ds)
        | _ \<Rightarrow> False)"

lemma covered_aliases_None:
  "covered_aliases gs acc = None \<longleftrightarrow> (\<exists>g \<in> set gs. \<exists>c. g_constraints g = CC_InvokeDependency c \<and> aliases c = None)"
  by (induction gs acc rule: covered_aliases.induct)
    (auto split: CapabilityConstraints.splits option.splits)

lemma covered_aliases_Some:
  "covered_aliases gs acc = Some cs \<Longrightarrow>
     set cs = set acc \<union> {x. \<exists>g \<in> set gs. \<exists>c as. g_constraints g = CC_InvokeDependency c \<and> aliases c = Some as \<and> x \<in> set as}"
  by (induction gs acc rule: covered_aliases.induct)
    (auto split: CapabilityConstraints.splits option.splits)

lemma invoke_collective_allows:
  assumes "invoke_dependency_grants_collectively_cover gs w" "in_enum_scope (aliases w) al"
  shows "\<exists>g \<in> set gs. constraints_allow (g_constraints g) (Acc_Invoke al)"
proof (cases "\<exists>g \<in> set gs. \<exists>c. g_constraints g = CC_InvokeDependency c \<and> aliases c = None")
  case True
  then obtain g c where "g \<in> set gs" "g_constraints g = CC_InvokeDependency c" "aliases c = None"
    by auto
  then show ?thesis
    by (intro bexI[of _ g]) (simp_all add: invoke_allows_def in_enum_scope_def)
next
  case False
  then have "covered_aliases gs [] \<noteq> None"
    by (simp add: covered_aliases_None)
  then obtain cs where cs: "covered_aliases gs [] = Some cs"
    by auto
  have unrestricted: "(case cc of CC_InvokeDependency c \<Rightarrow> aliases c = None | _ \<Rightarrow> False) \<longleftrightarrow>
      (\<exists>c. cc = CC_InvokeDependency c \<and> aliases c = None)" for cc
    by (cases cc) auto
  have "al \<in> set cs"
    using assms False cs
    by (auto simp: invoke_dependency_grants_collectively_cover_def in_enum_scope_def list_all_iff
        list_ex_iff unrestricted split: option.splits if_splits)
  then obtain g c as where "g \<in> set gs" "g_constraints g = CC_InvokeDependency c"
    "aliases c = Some as" "al \<in> set as"
    using covered_aliases_Some[OF cs] by auto
  then show ?thesis
    by (intro bexI[of _ g]) (simp_all add: invoke_allows_def in_enum_scope_def)
qed

lemma read_collective_allows:
  assumes "read_resource_grants_collectively_cover gs w"
    and "is_some_and (uri_prefixes w) (\<lambda>ps. is_some_and (parse_resource_scopes ps) (\<lambda>scs. sc \<in> set scs))"
  shows "\<exists>g \<in> set gs. constraints_allow (g_constraints g) (Acc_Read sc)"
  using assms
  by (auto simp: read_resource_grants_collectively_cover_def is_some_and_iff Let_def list_all_iff
      list_ex_iff read_grant_allows_scope_iff split: if_splits)

lemma log_collective_allows:
  assumes "log_grants_collectively_cover gs w" "is_some_and (levels w) (\<lambda>ls. l \<in> set ls)"
  shows "\<exists>g \<in> set gs. constraints_allow (g_constraints g) (Acc_Log l)"
proof -
  have level: "log_grant_allows_level g l = constraints_allow (g_constraints g) (Acc_Log l)" for g
    by (cases "g_constraints g") (auto simp: log_grant_allows_level_def log_allows_def in_enum_scope_def)
  have "\<exists>g \<in> set gs. log_grant_allows_level g l"
    using assms
    by (auto simp: log_grants_collectively_cover_def is_some_and_iff list_all_iff list_ex_iff
        split: if_splits)
  then show ?thesis
    by (simp only: level)
qed

lemma emit_covers_allows:
  assumes "emit_evidence_covers g w" "max_bytes w \<noteq> None" "audiences w \<noteq> None" "redactions w \<noteq> None"
    and "emit_allows w x"
  shows "emit_allows g x"
  using assms
  by (cases x; cases "max_bytes g"; cases "audiences g"; cases "redactions g")
    (auto simp: emit_evidence_covers_def in_limit_def in_enum_scope_def list_all_iff)

lemma collective_grant_allows:
  assumes "g \<in> set (collective_child_grants r parent)" "constraints_allow (g_constraints g) a"
    and "(req_id r, req_access r) = access_capability a"
  shows "grant_allows g a"
  using assms by (auto simp: set_collective_child_grants grant_allows_def)

lemma derive_emit_step_serves:
  assumes step: "derive_child_step parent r = Inr gs" and req: "required r"
    and w: "req_constraints r = CC_EmitEvidence w" and d: "demands r (Acc_Emit n u v)"
  shows "\<exists>g \<in> set gs. grant_allows g (Acc_Emit n u v)"
proof -
  have id: "req_id r = EmitEvidence" "req_access r = Write"
    using d by (auto simp: demands_def)
  obtain pg where pg: "find (\<lambda>g. grant_covers_requirement g r) (grants parent) = Some pg"
    using step req id w
    by (cases "find (\<lambda>g. grant_covers_requirement g r) (grants parent)") (auto simp: derive_child_step_def)
  then obtain c where c: "reduce_child_constraints pg r = Inr c"
    "gs = [\<lparr>g_id = req_id r, g_access = req_access r, g_constraints = c\<rparr>]"
    using step id w by (auto simp: derive_child_step_def res_bind_Inr_iff)
  have full: "max_bytes w \<noteq> None" "audiences w \<noteq> None" "redactions w \<noteq> None" "emit_allows w (n, u, v)"
    using d w by (auto simp: demands_def is_some_and_iff in_limit_def in_enum_scope_def)
  have cov: "grant_covers_requirement pg r"
    using find_SomeD[OF pg] by simp
  have "constraints_allow c (Acc_Emit n u v)"
    using c(1)
  proof (cases rule: reduce_child_constraints_cases)
    case (7 p w' s)
    then have "emit_allows p (n, u, v)"
      using cov w full emit_covers_allows by (auto simp: grant_covers_requirement_def split: if_splits)
    with 7 w full(4) show ?thesis
      using reduce_emit_meet[OF 7(4)] by (simp del: emit_allows.simps)
  qed (use w full(4) in simp_all)
  then show ?thesis
    using c(2) id by (simp add: grant_allows_def)
qed

lemma derive_child_step_serves:
  assumes step: "derive_child_step parent r = Inr gs" and req: "required r" and d: "demands r a"
  shows "\<exists>g \<in> set gs. grant_allows g a"
proof -
  have cap: "(req_id r, req_access r) = access_capability a"
    using d by (simp add: demands_def)
  have serve: "\<exists>g \<in> set gs. grant_allows g a"
    if "gs = collective_child_grants r parent" "\<exists>g \<in> set gs. constraints_allow (g_constraints g) a"
    using that collective_grant_allows[OF _ _ cap] by auto
  show ?thesis
  proof (cases a)
    case (Acc_Read sc)
    with d obtain w where w: "req_constraints r = CC_ReadResource w"
      by (auto simp: demands_def split: CapabilityConstraints.splits)
    then show ?thesis
      using step req d Acc_Read serve
      by (auto simp: demands_def derive_child_step_def derive_child_read_resource_grants_def
          derive_collective_child_grants_def Let_def read_collective_allows split: if_splits)
  next
    case (Acc_Invoke al)
    with d obtain w where w: "req_constraints r = CC_InvokeDependency w"
      by (auto simp: demands_def split: CapabilityConstraints.splits)
    then show ?thesis
      using step req d Acc_Invoke serve
      by (auto simp: demands_def derive_child_step_def derive_child_invoke_dependency_grants_def
          derive_collective_child_grants_def Let_def invoke_collective_allows split: if_splits)
  next
    case (Acc_Log l)
    with d obtain w where w: "req_constraints r = CC_Log w"
      by (auto simp: demands_def split: CapabilityConstraints.splits)
    then show ?thesis
      using step req d Acc_Log serve
      by (auto simp: demands_def derive_child_step_def derive_child_log_grants_def
          derive_collective_child_grants_def Let_def log_collective_allows split: if_splits)
  next
    case (Acc_Emit n u v)
    with d obtain w where w: "req_constraints r = CC_EmitEvidence w"
      by (auto simp: demands_def split: CapabilityConstraints.splits)
    show ?thesis
      using derive_emit_step_serves[OF step req w] d Acc_Emit by simp
  qed (use d in \<open>auto simp: demands_def split: CapabilityConstraints.splits\<close>)
qed

lemma derive_child_loop_keeps:
  assumes "derive_child_loop parent rs acc = Inr gs"
  shows "set acc \<subseteq> set gs" and "r \<in> set rs \<Longrightarrow> \<exists>hs. derive_child_step parent r = Inr hs \<and> set hs \<subseteq> set gs"
  using assms by (induction rs arbitrary: acc) (fastforce simp: res_bind_Inr_iff)+

lemma derive_child_serves:
  assumes "derive_child_grants caps parent = Inr child" "r \<in> set caps" "required r" "demands r a"
  shows "grants_allow child a"
proof -
  obtain hs where hs: "derive_child_step parent r = Inr hs" "set hs \<subseteq> set (grants child)"
    using assms(1,2) derive_child_loop_keeps(2)
    by (fastforce simp: derive_child_grants_def res_bind_Inr_iff)
  then show ?thesis
    using derive_child_step_serves[OF hs(1) assms(3,4)] by (auto simp: grants_allow_def)
qed

section \<open>Coverage and derivation agree\<close>

lemma derived_grants_set: "set (derived_grants gs r) = set (collective_child_grants r gs)"
proof -
  have "g\<lparr>g_constraints := c\<rparr> = \<lparr>g_id = req_id r, g_access = req_access r, g_constraints = c\<rparr>"
    if "g_id g = req_id r" "g_access g = req_access r" for g :: GrantedCapability and c
    using that by (cases g) simp
  then show ?thesis
    unfolding set_eq_iff derived_grants_def mem_map_filter set_collective_child_grants
      reduce_grant_to_requirement_Some matching_grants_def
    by fastforce
qed

lemma read_cover_cong:
  "set gs = set hs \<Longrightarrow> read_resource_grants_collectively_cover gs w = read_resource_grants_collectively_cover hs w"
  by (simp only: read_resource_grants_collectively_cover_def list_ex_set_cong[of gs hs]
      Nil_set_cong[of gs hs])

lemma log_cover_cong:
  "set gs = set hs \<Longrightarrow> log_grants_collectively_cover gs w = log_grants_collectively_cover hs w"
  by (simp only: log_grants_collectively_cover_def list_ex_set_cong[of gs hs] Nil_set_cong[of gs hs])

lemma covered_aliases_cong:
  assumes "set gs = set hs"
  shows "map_option set (covered_aliases gs []) = map_option set (covered_aliases hs [])"
proof (cases "covered_aliases gs []")
  case None
  then have "covered_aliases hs [] = None"
    using assms by (simp add: covered_aliases_None)
  with None show ?thesis
    by simp
next
  case (Some cs)
  then have "covered_aliases hs [] \<noteq> None"
    using assms covered_aliases_None[of gs "[]"] covered_aliases_None[of hs "[]"] by simp
  then obtain ds where ds: "covered_aliases hs [] = Some ds"
    by auto
  have "set cs = set ds"
    using covered_aliases_Some[OF Some] covered_aliases_Some[OF ds] assms by simp
  with Some ds show ?thesis
    by simp
qed

lemma invoke_cover_cong:
  assumes "set gs = set hs"
  shows "invoke_dependency_grants_collectively_cover gs w = invoke_dependency_grants_collectively_cover hs w"
  using covered_aliases_cong[OF assms] Nil_set_cong[OF assms] assms
  by (auto simp: invoke_dependency_grants_collectively_cover_def list_ex_iff list_all_iff
      split: option.splits)

lemma invoke_unconstrained_covers:
  assumes "pg \<in> set (matching_grants parent (req_id r) (req_access r))" "g_constraints pg = CC_None"
    and "req_constraints r = CC_InvokeDependency w"
  shows "invoke_dependency_grants_collectively_cover (collective_child_grants r parent) w"
proof -
  let ?gs = "collective_child_grants r parent"
  have g: "\<lparr>g_id = req_id r, g_access = req_access r, g_constraints = CC_InvokeDependency w\<rparr> \<in> set ?gs"
    (is "?g \<in> _")
    using assms by (auto simp: set_collective_child_grants reduce_child_constraints_def intro!: exI[of _ pg])
  show ?thesis
  proof (cases "aliases w")
    case None
    with g have "list_ex (\<lambda>g. case g_constraints g of
        CC_InvokeDependency c \<Rightarrow> aliases c = None | _ \<Rightarrow> False) ?gs"
      unfolding list_ex_iff by (intro bexI[OF _ g]) simp
    moreover have "?gs \<noteq> []"
      using g by auto
    ultimately show ?thesis
      using None by (simp add: invoke_dependency_grants_collectively_cover_def)
  next
    case (Some as)
    have "list_all (\<lambda>a. list_ex ((=) a) cs) as" if "covered_aliases ?gs [] = Some cs" for cs
    proof -
      have "g_constraints ?g = CC_InvokeDependency w \<and> aliases w = Some as"
        using Some by simp
      with g have "set as \<subseteq> set cs"
        unfolding covered_aliases_Some[OF that] by blast
      then show ?thesis
        by (auto simp: list_all_iff)
    qed
    moreover have "?gs \<noteq> []"
      using g by auto
    ultimately show ?thesis
      using Some by (auto simp: invoke_dependency_grants_collectively_cover_def split: option.splits)
  qed
qed

definition collective_requirement :: "CapabilityRequirement \<Rightarrow> bool" where
  "collective_requirement r =
     (case (req_id r, req_access r, req_constraints r) of
        (ReadResource, Read, CC_ReadResource _) \<Rightarrow> True
      | (InvokeSkill, Invoke, CC_InvokeDependency _) \<Rightarrow> True
      | (LogWrite, Write, CC_Log _) \<Rightarrow> True
      | _ \<Rightarrow> False)"

lemma collective_requirement_cases:
  assumes "collective_requirement r"
  obtains w where "req_id r = ReadResource" "req_access r = Read" "req_constraints r = CC_ReadResource w"
  | w where "req_id r = InvokeSkill" "req_access r = Invoke" "req_constraints r = CC_InvokeDependency w"
  | w where "req_id r = LogWrite" "req_access r = Write" "req_constraints r = CC_Log w"
  using assms
  by (auto simp: collective_requirement_def
      split: CapabilityId.splits CapabilityAccess.splits CapabilityConstraints.splits)

lemma collective_step_iff_covered:
  assumes "collective_requirement r" "required r"
  shows "is_ok (derive_child_step parent r) \<longleftrightarrow> grants_cover_requirement parent r"
  using assms(1)
proof (cases rule: collective_requirement_cases)
  case (1 w)
  then show ?thesis
    using assms(2) read_cover_cong[OF derived_grants_set, of parent r w]
    by (simp add: derive_child_step_def derive_child_read_resource_grants_def
        derive_collective_child_grants_def Let_def grants_cover_requirement_def)
next
  case (2 w)
  then have "list_ex (\<lambda>g. g_constraints g = CC_None) (matching_grants parent (req_id r) (req_access r))
      \<Longrightarrow> invoke_dependency_grants_collectively_cover (collective_child_grants r parent) w"
    using invoke_unconstrained_covers[of _ parent r w] by (auto simp: list_ex_iff)
  then show ?thesis
    using 2 assms(2) invoke_cover_cong[OF derived_grants_set, of parent r w]
    by (auto simp: derive_child_step_def derive_child_invoke_dependency_grants_def
        derive_collective_child_grants_def Let_def grants_cover_requirement_def)
next
  case (3 w)
  then show ?thesis
    using assms(2) log_cover_cong[OF derived_grants_set, of parent r w]
    by (simp add: derive_child_step_def derive_child_log_grants_def
        derive_collective_child_grants_def Let_def grants_cover_requirement_def)
qed

lemma single_requirement_step:
  assumes "\<not> collective_requirement r"
  shows "derive_child_step parent r =
    (case find (\<lambda>g. grant_covers_requirement g r) (grants parent) of
       Some pg \<Rightarrow> res_bind (reduce_child_constraints pg r)
         (\<lambda>c. Inr [\<lparr>g_id = req_id r, g_access = req_access r, g_constraints = c\<rparr>])
     | None \<Rightarrow> if required r then Inl (child_capability_mismatch_denial r) else Inr [])"
    and "grants_cover_requirement parent r = list_ex (\<lambda>g. grant_covers_requirement g r) (grants parent)"
  using assms
  by (auto simp: derive_child_step_def grants_cover_requirement_def collective_requirement_def
      split: CapabilityId.splits CapabilityAccess.splits CapabilityConstraints.splits)

lemma derive_child_requires_coverage:
  assumes "derive_child_grants caps parent = Inr child" "r \<in> set caps" "required r"
  shows "grants_cover_requirement parent r"
proof -
  obtain hs where hs: "derive_child_step parent r = Inr hs"
    using assms(1,2) derive_child_loop_keeps(2)
    by (fastforce simp: derive_child_grants_def res_bind_Inr_iff)
  show ?thesis
  proof (cases "collective_requirement r")
    case True
    with hs assms(3) show ?thesis
      using collective_step_iff_covered[of r parent] by simp
  next
    case False
    then obtain pg where "find (\<lambda>g. grant_covers_requirement g r) (grants parent) = Some pg"
      using hs assms(3) by (auto simp: single_requirement_step(1) split: option.splits)
    then show ?thesis
      using find_SomeD by (fastforce simp: single_requirement_step(2)[OF False] list_ex_iff)
  qed
qed

section \<open>Claims\<close>

text \<open>A parent that splits its log levels over two grants, and a child that needs one of each.\<close>

definition sample_parent :: CapabilityGrantSet where
  "sample_parent = \<lparr>grants =
     [\<lparr>g_id = LogWrite, g_access = Write, g_constraints = CC_Log \<lparr>levels = Some [Info]\<rparr>\<rparr>,
      \<lparr>g_id = LogWrite, g_access = Write, g_constraints = CC_Log \<lparr>levels = Some [Warn, Error]\<rparr>\<rparr>]\<rparr>"

definition sample_requirement :: CapabilityRequirement where
  "sample_requirement = \<lparr>req_id = LogWrite, req_access = Write,
     req_constraints = CC_Log \<lparr>levels = Some [Warn, Info]\<rparr>, required = True\<rparr>"

definition sample_child :: CapabilityGrantSet where
  "sample_child = \<lparr>grants =
     [\<lparr>g_id = LogWrite, g_access = Write, g_constraints = CC_Log \<lparr>levels = Some [Info]\<rparr>\<rparr>,
      \<lparr>g_id = LogWrite, g_access = Write, g_constraints = CC_Log \<lparr>levels = Some [Warn]\<rparr>\<rparr>]\<rparr>"

lemma sample_derivation: "derive_child_grants [sample_requirement] sample_parent = Inr sample_child"
  by code_simp

lemma sample_child_allows: "grants_allow sample_child (Acc_Log Warn)"
  by code_simp

lemma sample_requirement_required: "sample_requirement \<in> set [sample_requirement]" "required sample_requirement"
  by (simp, code_simp)

text \<open>C2: \<open>CapabilityEvaluator::authorize\<close> accepts an operation exactly when some grant of the set allows
  the access the operation performs: the evaluator decides the access semantics of the grants, for
  resources, dependencies, evidence and log lines, and every refusal is a real absence of authority.\<close>

theorem authorize_exact: "authorize gs op = Inr () \<longleftrightarrow> grants_allow gs (operation_access op)"
  by (rule authorize_iff)

text \<open>C1: No privilege escalation: whatever a child skill's derived grants allow, for every capability
  family and every argument of the access, the parent's grants allow too.\<close>

theorem child_within_parent:
  assumes "derive_child_grants caps parent = Inr child" "grants_allow child a"
  shows "grants_allow parent a"
  using assms by (rule derive_child_within_parent)

theorem child_within_parent_witness:
  "derive_child_grants [sample_requirement] sample_parent = Inr sample_child
   \<and> grants_allow sample_child (Acc_Log Warn) \<and> grants_allow sample_parent (Acc_Log Warn)"
  by (intro conjI sample_derivation sample_child_allows
      child_within_parent [OF sample_derivation sample_child_allows])

text \<open>Least privilege: outside HTTP, whatever the derived grants allow was asked for by one of the
  child manifest's requirements of the same capability and access.\<close>

theorem child_within_requirements:
  assumes "derive_child_grants caps parent = Inr child" "grants_allow child a"
    and "\<And>x. a \<noteq> Acc_Http x"
  shows "\<exists>r \<in> set caps. (req_id r, req_access r) = access_capability a
    \<and> constraints_allow (req_constraints r) a"
  using assms by (rule derive_child_within_requirements)

theorem child_within_requirements_witness:
  "derive_child_grants [sample_requirement] sample_parent = Inr sample_child
   \<and> (\<exists>r \<in> set [sample_requirement]. (req_id r, req_access r) = access_capability (Acc_Log Warn)
       \<and> constraints_allow (req_constraints r) (Acc_Log Warn))"
  by (intro conjI sample_derivation
      child_within_requirements [OF sample_derivation sample_child_allows]) simp

text \<open>Sufficiency: when the derivation succeeds, every access that a required requirement names
  explicitly (a listed resource scope, alias, log level, or evidence size, audience and redaction) is
  allowed by the child's grants, also when only several parent grants together provide it.\<close>

theorem child_serves_requirements:
  assumes "derive_child_grants caps parent = Inr child" "r \<in> set caps" "required r" "demands r a"
  shows "grants_allow child a"
  using assms by (rule derive_child_serves)

theorem child_serves_requirements_witness:
  "demands sample_requirement (Acc_Log Info) \<and> grants_allow sample_child (Acc_Log Info)"
proof -
  have d: "demands sample_requirement (Acc_Log Info)" by code_simp
  show ?thesis
    by (intro conjI d child_serves_requirements [OF sample_derivation sample_requirement_required d])
qed

text \<open>The two routines that judge a requirement agree: whenever \<open>derive_child_grants\<close> succeeds, the
  preflight check \<open>grants_cover_requirement\<close> holds of the parent for every required requirement.\<close>

theorem child_needs_coverage:
  assumes "derive_child_grants caps parent = Inr child" "r \<in> set caps" "required r"
  shows "grants_cover_requirement parent r"
  using assms by (rule derive_child_requires_coverage)

theorem child_needs_coverage_witness:
  "derive_child_grants [sample_requirement] sample_parent = Inr sample_child
   \<and> grants_cover_requirement sample_parent sample_requirement"
  by (intro conjI sample_derivation child_needs_coverage [OF sample_derivation sample_requirement_required])

end
