(* ===== verification/Guild_Http.thy ===== *)
theory Guild_Http
  imports Guild_Evaluator
begin

text \<open>
  HTTP authority of \<open>crates/guild-runner/src/lib.rs\<close>: URL parsing into a checked request,
  destination resolution with replay bindings, evaluation of a request against every matching
  grant, and the effective limits of an authorised request.

  The \<open>url\<close> crate and the system resolver are not part of the repository. They are
  parameters: \<open>url_parse\<close> and \<open>url_join\<close> stand for \<open>Url::parse\<close> and \<open>Url::join\<close>, and \<open>dns\<close>
  for \<open>ToSocketAddrs\<close> (\<open>None\<close> is its error).
\<close>

unbundle bit_operations_syntax

section \<open>Parsed requests\<close>

datatype UrlHost = Host_Domain string | Host_Ipv4 IpAddr | Host_Ipv6 IpAddr

record Url =
  url_username :: string
  url_password :: "string option"
  url_scheme :: string
  url_host :: "UrlHost option"
  url_port_or_known_default :: "u16 option"
  url_port :: "u16 option"
  url_path :: string
  url_query :: "string option"
  url_fragment :: "string option"
  url_text :: string

datatype ParsedHttpHost = Domain bool | IpLiteral IpAddr

record ParsedHttpRequest =
  ph_scheme :: HttpScheme
  ph_host :: string
  ph_port :: u16
  ph_path :: string
  ph_host_kind :: ParsedHttpHost

definition ip_literal :: "ParsedHttpRequest \<Rightarrow> IpAddr option" where
  "ip_literal p = (case ph_host_kind p of Domain _ \<Rightarrow> None | IpLiteral ip \<Rightarrow> Some ip)"

definition is_loopback_name :: "ParsedHttpRequest \<Rightarrow> bool" where
  "is_loopback_name p \<longleftrightarrow> ph_host_kind p = Domain True"

definition url_invalid :: "string \<Rightarrow> (string \<times> json) list \<Rightarrow> CapabilityDenial" where
  "url_invalid msg ctx = \<lparr>cd_code = ''http-request-url-invalid'', cd_message = msg, cd_detail = json_obj ctx\<rparr>"

definition parse_http_request ::
  "(string \<Rightarrow> string + Url) \<Rightarrow> HttpRequestMsg \<Rightarrow> CapabilityDenial + ParsedHttpRequest" where
  "parse_http_request url_parse req =
     res_bind (map_err (\<lambda>e. url_invalid ''http-request requires an absolute HTTP or HTTPS URL''
                 [(''url'', JString (hr_url req)), (''error'', JString e)]) (url_parse (hr_url req))) (\<lambda>url.
     if url_username url \<noteq> [] \<or> url_password url \<noteq> None
     then Inl (url_invalid ''http-request URLs must not embed credentials'' [(''url'', JString (hr_url req))])
     else
     res_bind (if url_scheme url = ''http'' then Inr Http
               else if url_scheme url = ''https'' then Inr Https
               else Inl (url_invalid ''http-request only supports HTTP and HTTPS URLs''
                      [(''url'', JString (hr_url req)), (''scheme'', JString (url_scheme url))])) (\<lambda>scheme.
     res_bind (case url_host url of
                 Some (Host_Domain domain) \<Rightarrow>
                   (let host = to_ascii_lowercase domain
                    in Inr (host, Domain (host = ''localhost'' \<or> suffix ''.localhost'' host)))
               | Some (Host_Ipv4 a) \<Rightarrow> Inr (ip_display a, IpLiteral a)
               | Some (Host_Ipv6 a) \<Rightarrow> Inr (ip_display a, IpLiteral a)
               | None \<Rightarrow> Inl (url_invalid ''http-request URL must include a host''
                      [(''url'', JString (hr_url req))])) (\<lambda>(host, kind).
     res_bind (ok_or (url_invalid ''http-request URL must resolve to an explicit or default port''
                 [(''url'', JString (hr_url req))]) (url_port_or_known_default url)) (\<lambda>port.
     Inr \<lparr>ph_scheme = scheme, ph_host = host, ph_port = port,
          ph_path = (if url_path url = [] then ''/'' else url_path url), ph_host_kind = kind\<rparr>))))"

section \<open>Destinations\<close>

datatype HttpGrantDenialKind =
    D_Method | D_Scheme | D_Host | D_Port | D_Path | D_Timeout | D_IpLiteral | D_Loopback
  | D_LinkLocal | D_PrivateNetwork | D_DestinationUnresolved

record ResolvedHttpDestination =
  rd_addresses :: "IpAddr list"
  rd_resolution_binding :: "HttpResolutionBinding option"

definition canonicalize_resolved_addresses :: "IpAddr list \<Rightarrow> IpAddr list" where
  "canonicalize_resolved_addresses addrs = remdups_adj (sort_key ip_display addrs)"

fun http_address_family :: "IpAddr \<Rightarrow> HttpAddressFamily" where
  "http_address_family (V4 _ _ _ _) = Ipv4"
| "http_address_family (V6 _ _ _ _ _ _ _ _) = Ipv6"

definition http_resolution_binding :: "ParsedHttpRequest \<Rightarrow> IpAddr list \<Rightarrow> HttpResolutionBinding" where
  "http_resolution_binding p addrs =
     \<lparr>rb_requested_host = ph_host p, rb_port = ph_port p,
      rb_addresses = map (\<lambda>a. \<lparr>ra_address = ip_display a, ra_family = http_address_family a\<rparr>) addrs,
      rb_loopback_only = list_all ip_is_loopback addrs\<rparr>"

text \<open>
  The text of a parse failure comes from the standard library's error type; \<open>ip_error\<close>
  stands for it.
\<close>

fun parse_binding_addresses ::
  "(string \<Rightarrow> string) \<Rightarrow> HttpResolvedAddress list \<Rightarrow> string + IpAddr list" where
  "parse_binding_addresses ip_error [] = Inr []"
| "parse_binding_addresses ip_error (a # as) =
     (case ip_parse (ra_address a) of
        None \<Rightarrow> Inl (''http-request resolution binding address `'' @ ra_address a
                  @ ''` was not a valid IP literal: '' @ ip_error (ra_address a))
      | Some ip \<Rightarrow>
          if http_address_family ip \<noteq> ra_family a
          then Inl (''http-request resolution binding address family for `'' @ ra_address a
                  @ ''` did not match the parsed IP literal'')
          else res_bind (parse_binding_addresses ip_error as) (\<lambda>ips. Inr (ip # ips)))"

definition resolution_binding_addresses ::
  "(string \<Rightarrow> string) \<Rightarrow> HttpResolutionBinding \<Rightarrow> string + IpAddr list" where
  "resolution_binding_addresses ip_error b =
     (if rb_addresses b = []
      then Inl ''http-request resolution binding must include at least one resolved address''
      else res_bind (parse_binding_addresses ip_error (rb_addresses b))
             (\<lambda>ips. Inr (canonicalize_resolved_addresses ips)))"

definition validate_http_resolution_binding ::
  "(string \<Rightarrow> string) \<Rightarrow> HttpResolutionBinding \<Rightarrow> ParsedHttpRequest \<Rightarrow> string + unit" where
  "validate_http_resolution_binding ip_error b p =
     (if canonicalize_http_host (rb_requested_host b) \<noteq> ph_host p
      then Inl ''http-request resolution binding host did not match the exercised request host''
      else if rb_port b \<noteq> ph_port p
      then Inl ''http-request resolution binding port did not match the exercised request port''
      else res_bind (resolution_binding_addresses ip_error b) (\<lambda>ips.
        if rb_loopback_only b \<noteq> list_all ip_is_loopback ips
        then Inl ''http-request resolution binding loopback_only did not match the resolved address set''
        else Inr ()))"

definition resolve_http_destination_with_binding ::
  "(string \<Rightarrow> string) \<Rightarrow> (string \<Rightarrow> u16 \<Rightarrow> IpAddr list option) \<Rightarrow> ParsedHttpRequest
     \<Rightarrow> HttpResolutionBinding option \<Rightarrow> HttpGrantDenialKind + ResolvedHttpDestination" where
  "resolve_http_destination_with_binding ip_error dns p binding =
     (case ip_literal p of
        Some ip \<Rightarrow> Inr \<lparr>rd_addresses = [ip], rd_resolution_binding = None\<rparr>
      | None \<Rightarrow>
          (case binding of
             Some b \<Rightarrow>
               res_bind (map_err (\<lambda>_. D_DestinationUnresolved) (resolution_binding_addresses ip_error b)) (\<lambda>addrs.
               Inr \<lparr>rd_addresses = addrs, rd_resolution_binding = Some b\<rparr>)
           | None \<Rightarrow>
               res_bind (ok_or D_DestinationUnresolved (dns (ph_host p) (ph_port p))) (\<lambda>raw.
               let resolved = canonicalize_resolved_addresses raw
               in if resolved = [] then Inl D_DestinationUnresolved
                  else Inr \<lparr>rd_addresses = resolved,
                            rd_resolution_binding =
                              (if ph_host p = ''localhost'' then Some (http_resolution_binding p resolved)
                               else None)\<rparr>)))"

definition authorize_http_destination ::
  "ParsedHttpRequest \<Rightarrow> HttpRequestConstraints \<Rightarrow> ResolvedHttpDestination \<Rightarrow> HttpGrantDenialKind + unit" where
  "authorize_http_destination p c d =
     (if ip_literal p = None
         \<and> allow_flag_enabled (allow_loopback c)
         \<and> allow_flag_enabled (allow_link_local c)
         \<and> allow_flag_enabled (allow_private_networks c)
      then Inr ()
      else if list_ex (\<lambda>a. classify_destination_ip a = Loopback) (rd_addresses d)
              \<and> \<not> allow_flag_enabled (allow_loopback c)
      then Inl D_Loopback
      else if list_ex (\<lambda>a. classify_destination_ip a = LinkLocal) (rd_addresses d)
              \<and> \<not> allow_flag_enabled (allow_link_local c)
      then Inl D_LinkLocal
      else if list_ex (\<lambda>a. classify_destination_ip a = PrivateNetwork) (rd_addresses d)
              \<and> \<not> allow_flag_enabled (allow_private_networks c)
      then Inl D_PrivateNetwork
      else Inr ())"

section \<open>Grant evaluation state\<close>

definition HTTP_UNCONSTRAINED_MAX_REDIRECTS :: u8 where
  "HTTP_UNCONSTRAINED_MAX_REDIRECTS = 10"

fun denial_bit :: "HttpGrantDenialKind \<Rightarrow> u16" where
  "denial_bit D_Method = push_bit 0 1"
| "denial_bit D_Scheme = push_bit 1 1"
| "denial_bit D_Host = push_bit 2 1"
| "denial_bit D_Port = push_bit 3 1"
| "denial_bit D_Path = push_bit 4 1"
| "denial_bit D_Timeout = push_bit 5 1"
| "denial_bit D_IpLiteral = push_bit 6 1"
| "denial_bit D_Loopback = push_bit 7 1"
| "denial_bit D_LinkLocal = push_bit 8 1"
| "denial_bit D_PrivateNetwork = push_bit 9 1"
| "denial_bit D_DestinationUnresolved = push_bit 10 1"

record HttpGrantState =
  authorized_timeout_ms :: "u64 option"
  authorized_response_bytes :: "u64 option"
  authorized_follow_redirects :: bool
  authorized_max_redirects :: "u8 option"
  denial_mask :: u16

definition HttpGrantState_default :: HttpGrantState where
  "HttpGrantState_default =
     \<lparr>authorized_timeout_ms = None, authorized_response_bytes = None,
      authorized_follow_redirects = False, authorized_max_redirects = None, denial_mask = 0\<rparr>"

definition state_authorize ::
  "u64 \<Rightarrow> u64 \<Rightarrow> bool \<Rightarrow> u8 option \<Rightarrow> HttpGrantState \<Rightarrow> HttpGrantState" where
  "state_authorize timeout response follow maxr st =
     (let st = st\<lparr>authorized_timeout_ms :=
                 Some (case authorized_timeout_ms st of None \<Rightarrow> timeout | Some cur \<Rightarrow> max cur timeout)\<rparr>;
          st = st\<lparr>authorized_response_bytes :=
                 Some (case authorized_response_bytes st of None \<Rightarrow> response | Some cur \<Rightarrow> max cur response)\<rparr>
      in if follow then
           let st = st\<lparr>authorized_follow_redirects := True\<rparr>
           in (case maxr of
                 None \<Rightarrow> st
               | Some m \<Rightarrow> st\<lparr>authorized_max_redirects :=
                     Some (case authorized_max_redirects st of None \<Rightarrow> m | Some cur \<Rightarrow> max cur m)\<rparr>)
         else st)"

definition note_denial :: "HttpGrantDenialKind \<Rightarrow> HttpGrantState \<Rightarrow> HttpGrantState" where
  "note_denial k st = st\<lparr>denial_mask := denial_mask st OR denial_bit k\<rparr>"

definition saw_denial :: "HttpGrantState \<Rightarrow> HttpGrantDenialKind \<Rightarrow> bool" where
  "saw_denial st k \<longleftrightarrow> denial_mask st AND denial_bit k \<noteq> 0"

definition effective_timeout_ms :: "u64 option \<Rightarrow> u64 option \<Rightarrow> u64 \<Rightarrow> u64" where
  "effective_timeout_ms request grant budget =
     min (min (unwrap_or u64_max request) (unwrap_or u64_max grant)) budget"

definition effective_response_bytes :: "u64 option \<Rightarrow> u64 \<Rightarrow> u64" where
  "effective_response_bytes grant budget = min (unwrap_or u64_max grant) budget"

definition authorize_unconstrained_http_grant ::
  "HttpRequestMsg \<Rightarrow> Budget \<Rightarrow> HttpGrantState \<Rightarrow> HttpGrantState" where
  "authorize_unconstrained_http_grant req b st =
     state_authorize (effective_timeout_ms (hr_timeout_ms req) None (max_millis b))
       (effective_response_bytes None (max_output_bytes b)) True
       (Some HTTP_UNCONSTRAINED_MAX_REDIRECTS) st"

definition evaluate_http_request_constraints ::
  "HttpRequestConstraints \<Rightarrow> HttpRequestMsg \<Rightarrow> ParsedHttpRequest \<Rightarrow> ResolvedHttpDestination \<Rightarrow> Budget
     \<Rightarrow> HttpGrantState \<Rightarrow> HttpGrantState" where
  "evaluate_http_request_constraints c req p d b st =
     (if \<not> matches_http_method (allowed_methods c) (hr_method req) then note_denial D_Method st
      else if \<not> matches_http_scheme (allowed_schemes c) (ph_scheme p) then note_denial D_Scheme st
      else if \<not> matches_http_host (allowed_hosts c) (allowed_host_suffixes c) (ph_host p) (ip_literal p \<noteq> None)
      then note_denial D_Host st
      else if \<not> matches_http_port (allowed_ports c) (ph_port p) then note_denial D_Port st
      else if \<not> matches_http_path (allowed_path_prefixes c) (ph_path p) then note_denial D_Path st
      else if is_some_and (hr_timeout_ms req) (\<lambda>t. is_some_and (max_timeout_ms c) (\<lambda>m. t > m))
      then note_denial D_Timeout st
      else if ip_literal p \<noteq> None \<and> \<not> allow_flag_enabled (allow_ip_literals c) then note_denial D_IpLiteral st
      else if is_loopback_name p \<and> \<not> allow_flag_enabled (allow_loopback c) then note_denial D_Loopback st
      else
        case authorize_http_destination p c d of
          Inl kind \<Rightarrow> note_denial kind st
        | Inr _ \<Rightarrow>
            state_authorize
              (effective_timeout_ms (hr_timeout_ms req) (max_timeout_ms c) (max_millis b))
              (effective_response_bytes (max_response_bytes c) (max_output_bytes b))
              (allow_flag_enabled (follow_redirects c))
              (if allow_flag_enabled (follow_redirects c) then max_redirects c else None) st)"

section \<open>Decisions\<close>

record HttpExecutionPolicy =
  pol_timeout_ms :: u64
  pol_max_response_bytes :: u64
  pol_follow_redirects :: bool
  pol_max_redirects :: u8
  pol_resolution_binding :: "HttpResolutionBinding option"

definition http_request_not_granted_denial :: "HttpRequestMsg \<Rightarrow> CapabilityDenial" where
  "http_request_not_granted_denial req =
     \<lparr>cd_code = ''http-request-not-granted'',
      cd_message = ''http-request was not granted for this execution'',
      cd_detail = json_obj [(''url'', JString (hr_url req)), (''method'', HttpMethod_json (hr_method req))]\<rparr>"

definition http_request_budget_denial :: "HttpRequestMsg \<Rightarrow> u32 \<Rightarrow> u32 \<Rightarrow> CapabilityDenial" where
  "http_request_budget_denial req used_requests limit =
     \<lparr>cd_code = ''http-request-budget-exhausted'',
      cd_message = ''execution budget does not allow additional outbound HTTP requests'',
      cd_detail = json_obj
        [(''url'', JString (hr_url req)), (''used_network_requests'', json_word used_requests),
         (''max_network_requests'', json_word limit)]\<rparr>"

text \<open>The denial reported for a kind that some grant noted.\<close>

fun kind_denial :: "HttpRequestMsg \<Rightarrow> ParsedHttpRequest \<Rightarrow> HttpGrantDenialKind \<Rightarrow> CapabilityDenial" where
  "kind_denial req p D_Timeout = \<lparr>cd_code = ''http-request-timeout-not-granted'',
     cd_message = ''http-request timeout exceeded the granted max_timeout_ms limit'',
     cd_detail = json_obj [(''url'', JString (hr_url req)),
       (''requested_timeout_ms'', json_opt json_word (hr_timeout_ms req))]\<rparr>"
| "kind_denial req p D_PrivateNetwork = \<lparr>cd_code = ''http-request-private-network-not-granted'',
     cd_message = ''http-request destination resolved to a private-network target that was not granted'',
     cd_detail = json_obj [(''url'', JString (hr_url req)), (''host'', JString (ph_host p))]\<rparr>"
| "kind_denial req p D_LinkLocal = \<lparr>cd_code = ''http-request-link-local-not-granted'',
     cd_message = ''http-request destination resolved to a link-local target that was not granted'',
     cd_detail = json_obj [(''url'', JString (hr_url req)), (''host'', JString (ph_host p))]\<rparr>"
| "kind_denial req p D_Loopback = \<lparr>cd_code = ''http-request-loopback-not-granted'',
     cd_message = ''http-request destination resolved to a loopback target that was not granted'',
     cd_detail = json_obj [(''url'', JString (hr_url req)), (''host'', JString (ph_host p))]\<rparr>"
| "kind_denial req p D_IpLiteral = \<lparr>cd_code = ''http-request-ip-literal-not-granted'',
     cd_message = ''http-request IP-literal destinations were not granted for this execution'',
     cd_detail = json_obj [(''url'', JString (hr_url req)), (''host'', JString (ph_host p))]\<rparr>"
| "kind_denial req p D_DestinationUnresolved = \<lparr>cd_code = ''http-request-destination-unresolved'',
     cd_message = ''http-request destination could not be resolved safely under the current host policy'',
     cd_detail = json_obj [(''url'', JString (hr_url req)), (''host'', JString (ph_host p)),
       (''port'', json_word (ph_port p))]\<rparr>"
| "kind_denial req p D_Path = \<lparr>cd_code = ''http-request-path-not-granted'',
     cd_message = ''http-request path was not granted for this execution'',
     cd_detail = json_obj [(''url'', JString (hr_url req)), (''path'', JString (ph_path p))]\<rparr>"
| "kind_denial req p D_Port = \<lparr>cd_code = ''http-request-port-not-granted'',
     cd_message = ''http-request port was not granted for this execution'',
     cd_detail = json_obj [(''url'', JString (hr_url req)), (''port'', json_word (ph_port p))]\<rparr>"
| "kind_denial req p D_Host = \<lparr>cd_code = ''http-request-host-not-granted'',
     cd_message = ''http-request host was not granted for this execution'',
     cd_detail = json_obj [(''url'', JString (hr_url req)), (''host'', JString (ph_host p))]\<rparr>"
| "kind_denial req p D_Scheme = \<lparr>cd_code = ''http-request-scheme-not-granted'',
     cd_message = ''http-request scheme was not granted for this execution'',
     cd_detail = json_obj [(''url'', JString (hr_url req)), (''scheme'', HttpScheme_json (ph_scheme p))]\<rparr>"
| "kind_denial req p D_Method = \<lparr>cd_code = ''http-request-method-not-granted'',
     cd_message = ''http-request method was not granted for this execution'',
     cd_detail = json_obj [(''url'', JString (hr_url req)), (''method'', HttpMethod_json (hr_method req))]\<rparr>"

text \<open>The order in which the \<open>match\<close> arms inspect the denial mask.\<close>

definition denial_precedence :: "HttpGrantDenialKind list" where
  "denial_precedence =
     [D_Timeout, D_PrivateNetwork, D_LinkLocal, D_Loopback, D_IpLiteral, D_DestinationUnresolved,
      D_Path, D_Port, D_Host, D_Scheme, D_Method]"

definition finalize_http_request_authorization ::
  "HttpGrantState \<Rightarrow> HttpRequestMsg \<Rightarrow> ParsedHttpRequest \<Rightarrow> HttpResolutionBinding option
     \<Rightarrow> CapabilityDenial + HttpExecutionPolicy" where
  "finalize_http_request_authorization st req p binding =
     (case (authorized_timeout_ms st, authorized_response_bytes st) of
        (Some timeout, Some response) \<Rightarrow>
          Inr \<lparr>pol_timeout_ms = timeout, pol_max_response_bytes = response,
               pol_follow_redirects = authorized_follow_redirects st,
               pol_max_redirects = unwrap_or 0 (authorized_max_redirects st),
               pol_resolution_binding = binding\<rparr>
      | _ \<Rightarrow>
          (case find (saw_denial st) denial_precedence of
             Some k \<Rightarrow> Inl (kind_denial req p k)
           | None \<Rightarrow> Inl (http_request_not_granted_denial req)))"

text \<open>\<open>None\<close> is the \<open>unreachable!\<close> panic for a kind that is not about the destination.\<close>

definition destination_denial ::
  "HttpRequestMsg \<Rightarrow> ParsedHttpRequest \<Rightarrow> HttpGrantDenialKind \<Rightarrow> CapabilityDenial option" where
  "destination_denial req p k =
     (if k \<in> {D_PrivateNetwork, D_LinkLocal, D_Loopback, D_DestinationUnresolved}
      then Some (kind_denial req p k) else None)"

definition evaluate_http_grant ::
  "HttpRequestMsg \<Rightarrow> ParsedHttpRequest \<Rightarrow> ResolvedHttpDestination \<Rightarrow> Budget
     \<Rightarrow> HttpGrantState \<Rightarrow> GrantedCapability \<Rightarrow> HttpGrantState" where
  "evaluate_http_grant req p d b st g =
     (case g_constraints g of
        CC_HttpRequest c \<Rightarrow> evaluate_http_request_constraints c req p d b st
      | CC_None \<Rightarrow> authorize_unconstrained_http_grant req b st
      | _ \<Rightarrow> st)"

definition authorize_http_request ::
  "(string \<Rightarrow> string) \<Rightarrow> (string \<Rightarrow> u16 \<Rightarrow> IpAddr list option) \<Rightarrow> CapabilityGrantSet \<Rightarrow> Budget \<Rightarrow> u32
     \<Rightarrow> HttpRequestMsg \<Rightarrow> ParsedHttpRequest \<Rightarrow> HttpResolutionBinding option
     \<Rightarrow> (CapabilityDenial + HttpExecutionPolicy) option" where
  "authorize_http_request ip_error dns gs b used_requests req p binding =
     (let matching = matching_grants gs HttpRequest Read
      in if matching = [] then Some (Inl (http_request_not_granted_denial req))
         else if used_requests \<ge> max_network_requests b
         then Some (Inl (http_request_budget_denial req used_requests (max_network_requests b)))
         else
           case resolve_http_destination_with_binding ip_error dns p binding of
             Inl kind \<Rightarrow> map_option Inl (destination_denial req p kind)
           | Inr d \<Rightarrow>
               Some (finalize_http_request_authorization
                 (foldl (evaluate_http_grant req p d b) HttpGrantState_default matching)
                 req p (rd_resolution_binding d)))"

section \<open>Verdicts of single grants\<close>

text \<open>
  The effect of one grant on the evaluation state is one of three verdicts; the loop applies
  them in turn.
\<close>

datatype HttpVerdict = Accept u64 u64 bool "u8 option" | Refuse HttpGrantDenialKind | Skip

definition http_denial ::
  "HttpRequestConstraints \<Rightarrow> HttpRequestMsg \<Rightarrow> ParsedHttpRequest \<Rightarrow> ResolvedHttpDestination
     \<Rightarrow> HttpGrantDenialKind option" where
  "http_denial c req p d =
     (if \<not> matches_http_method (allowed_methods c) (hr_method req) then Some D_Method
      else if \<not> matches_http_scheme (allowed_schemes c) (ph_scheme p) then Some D_Scheme
      else if \<not> matches_http_host (allowed_hosts c) (allowed_host_suffixes c) (ph_host p) (ip_literal p \<noteq> None)
      then Some D_Host
      else if \<not> matches_http_port (allowed_ports c) (ph_port p) then Some D_Port
      else if \<not> matches_http_path (allowed_path_prefixes c) (ph_path p) then Some D_Path
      else if is_some_and (hr_timeout_ms req) (\<lambda>t. is_some_and (max_timeout_ms c) (\<lambda>m. t > m))
      then Some D_Timeout
      else if ip_literal p \<noteq> None \<and> \<not> allow_flag_enabled (allow_ip_literals c) then Some D_IpLiteral
      else if is_loopback_name p \<and> \<not> allow_flag_enabled (allow_loopback c) then Some D_Loopback
      else case authorize_http_destination p c d of Inl k \<Rightarrow> Some k | Inr _ \<Rightarrow> None)"

definition grant_verdict ::
  "HttpRequestMsg \<Rightarrow> ParsedHttpRequest \<Rightarrow> ResolvedHttpDestination \<Rightarrow> Budget \<Rightarrow> GrantedCapability \<Rightarrow> HttpVerdict" where
  "grant_verdict req p d b g =
     (case g_constraints g of
        CC_HttpRequest c \<Rightarrow>
          (case http_denial c req p d of
             Some k \<Rightarrow> Refuse k
           | None \<Rightarrow> Accept
               (effective_timeout_ms (hr_timeout_ms req) (max_timeout_ms c) (max_millis b))
               (effective_response_bytes (max_response_bytes c) (max_output_bytes b))
               (allow_flag_enabled (follow_redirects c))
               (if allow_flag_enabled (follow_redirects c) then max_redirects c else None))
      | CC_None \<Rightarrow> Accept (effective_timeout_ms (hr_timeout_ms req) None (max_millis b))
          (effective_response_bytes None (max_output_bytes b)) True (Some HTTP_UNCONSTRAINED_MAX_REDIRECTS)
      | _ \<Rightarrow> Skip)"

fun apply_verdict :: "HttpVerdict \<Rightarrow> HttpGrantState \<Rightarrow> HttpGrantState" where
  "apply_verdict (Accept t n f m) st = state_authorize t n f m st"
| "apply_verdict (Refuse k) st = note_denial k st"
| "apply_verdict Skip st = st"

lemma evaluate_http_grant_verdict:
  "evaluate_http_grant req p d b st g = apply_verdict (grant_verdict req p d b g) st"
  by (cases "g_constraints g")
    (simp_all add: evaluate_http_grant_def grant_verdict_def authorize_unconstrained_http_grant_def
      evaluate_http_request_constraints_def http_denial_def split: sum.split)

fun denial_index :: "HttpGrantDenialKind \<Rightarrow> nat" where
  "denial_index D_Method = 0" | "denial_index D_Scheme = 1" | "denial_index D_Host = 2"
| "denial_index D_Port = 3" | "denial_index D_Path = 4" | "denial_index D_Timeout = 5"
| "denial_index D_IpLiteral = 6" | "denial_index D_Loopback = 7" | "denial_index D_LinkLocal = 8"
| "denial_index D_PrivateNetwork = 9" | "denial_index D_DestinationUnresolved = 10"

lemma denial_bit_index: "denial_bit k = push_bit (denial_index k) 1"
  by (cases k) (simp_all only: denial_bit.simps denial_index.simps)

lemma denial_index_inject: "denial_index k = denial_index k' \<longleftrightarrow> k = k'"
  by (cases k; cases k') simp_all

lemma saw_denial_bit: "saw_denial st k \<longleftrightarrow> bit (denial_mask st) (denial_index k)"
proof -
  have "denial_index k < 16"
    by (cases k) simp_all
  then show ?thesis
    unfolding saw_denial_def denial_bit_index bit_eq_iff[of _ "0 :: u16"] by (auto simp: bit_simps)
qed

lemma saw_denial_note: "saw_denial (note_denial k st) k' \<longleftrightarrow> k = k' \<or> saw_denial st k'"
proof -
  have "denial_index k < 16"
    by (cases k) simp_all
  then show ?thesis
    unfolding saw_denial_bit note_denial_def denial_bit_index
    by (auto simp: bit_simps denial_index_inject)
qed

section \<open>Requests as accesses\<close>

definition http_access ::
  "HttpRequestMsg \<Rightarrow> ParsedHttpRequest \<Rightarrow> ResolvedHttpDestination \<Rightarrow> u64 \<Rightarrow> u64 \<Rightarrow> HttpAccess" where
  "http_access req p d t n =
     \<lparr>ha_method = hr_method req, ha_scheme = ph_scheme p, ha_host = ph_host p, ha_port = ph_port p,
      ha_path = ph_path p, ha_addresses = rd_addresses d, ha_millis = t, ha_bytes = n\<rparr>"

definition parsed_wf :: "ParsedHttpRequest \<Rightarrow> bool" where
  "parsed_wf p =
     (case ph_host_kind p of
        Domain lb \<Rightarrow> \<not> is_ip_literal_host (ph_host p) \<and> lb = loopback_name (ph_host p)
      | IpLiteral ip \<Rightarrow> ph_host p = ip_display ip)"

text \<open>
  For the special schemes, \<open>http\<close> and \<open>https\<close> among them, the URL standard's host parser never yields
  a domain that reads as an IP address: such a host is an address. That documented behaviour of the
  \<open>url\<close> crate is the hypothesis below.
\<close>

definition url_domains_not_ip :: "(string \<Rightarrow> string + Url) \<Rightarrow> bool" where
  "url_domains_not_ip url_parse \<longleftrightarrow>
     (\<forall>u url dom. url_parse u = Inr url \<longrightarrow> url_scheme url \<in> {''http'', ''https''}
        \<longrightarrow> url_host url = Some (Host_Domain dom) \<longrightarrow> ip_parse dom = None)"

lemma parse_http_request_wf:
  assumes "url_domains_not_ip url_parse" "parse_http_request url_parse req = Inr p"
  shows "parsed_wf p"
proof -
  obtain url where url: "url_parse (hr_url req) = Inr url"
    using assms(2) by (auto simp: parse_http_request_def res_bind_Inr_iff)
  obtain h where h: "url_host url = Some h"
    using assms(2) url by (cases "url_host url") (auto simp: parse_http_request_def res_bind_Inr_iff split: if_splits)
  have scheme: "url_scheme url \<in> {''http'', ''https''}"
    using assms(2) url by (auto simp: parse_http_request_def res_bind_Inr_iff split: if_splits)
  show ?thesis
  proof (cases h)
    case (Host_Domain dom)
    then have "ip_parse dom = None"
      using assms(1) url h scheme unfolding url_domains_not_ip_def by blast
    then show ?thesis
      using assms(2) url h Host_Domain
      by (auto simp: parse_http_request_def res_bind_Inr_iff parsed_wf_def is_ip_literal_host_def
          loopback_name_def Let_def split: if_splits)
  qed (use assms(2) url h in
      \<open>auto simp: parse_http_request_def res_bind_Inr_iff parsed_wf_def split: if_splits\<close>)
qed

lemma parsed_wf_ip_literal: "parsed_wf p \<Longrightarrow> (ip_literal p \<noteq> None) = is_ip_literal_host (ph_host p)"
  by (auto simp: parsed_wf_def ip_literal_def is_ip_literal_host_def ip_parse_display
      split: ParsedHttpHost.splits)

lemma parsed_wf_loopback:
  "parsed_wf p \<Longrightarrow> is_loopback_name p \<longleftrightarrow> \<not> is_ip_literal_host (ph_host p) \<and> loopback_name (ph_host p)"
  by (auto simp: parsed_wf_def is_loopback_name_def is_ip_literal_host_def ip_parse_display
      split: ParsedHttpHost.splits)

text \<open>The early return of the destination check agrees with the full check.\<close>

lemma authorize_http_destination_iff:
  "authorize_http_destination p c d = Inr () \<longleftrightarrow> destination_allowed c (rd_addresses d)"
proof -
  have "(case x of Loopback \<Rightarrow> l | LinkLocal \<Rightarrow> k | PrivateNetwork \<Rightarrow> v | OtherDestination \<Rightarrow> True)
      \<longleftrightarrow> (x = Loopback \<longrightarrow> l) \<and> (x = LinkLocal \<longrightarrow> k) \<and> (x = PrivateNetwork \<longrightarrow> v)" for x l k v
    by (cases x) simp_all
  then have "destination_allowed c (rd_addresses d) \<longleftrightarrow>
      (list_ex (\<lambda>a. classify_destination_ip a = Loopback) (rd_addresses d) \<longrightarrow> allow_flag_enabled (allow_loopback c))
      \<and> (list_ex (\<lambda>a. classify_destination_ip a = LinkLocal) (rd_addresses d) \<longrightarrow> allow_flag_enabled (allow_link_local c))
      \<and> (list_ex (\<lambda>a. classify_destination_ip a = PrivateNetwork) (rd_addresses d)
          \<longrightarrow> allow_flag_enabled (allow_private_networks c))"
    unfolding destination_allowed_def list_ex_iff by (simp only:) blast
  then show ?thesis
    by (simp add: authorize_http_destination_def)
qed

lemma http_denial_None:
  assumes "parsed_wf p"
  shows "http_denial c req p d = None \<longleftrightarrow>
    http_allows c (http_access req p d (unwrap_or 0 (hr_timeout_ms req)) 0)"
proof -
  have timeout: "is_some_and (hr_timeout_ms req) (\<lambda>t. is_some_and (max_timeout_ms c) (\<lambda>m. t > m)) \<longleftrightarrow>
      \<not> in_limit (max_timeout_ms c) (unwrap_or 0 (hr_timeout_ms req))"
    by (cases "hr_timeout_ms req"; cases "max_timeout_ms c") (auto simp: in_limit_def)
  have dest: "(case authorize_http_destination p c d of Inl k \<Rightarrow> Some k | Inr _ \<Rightarrow> None) = None \<longleftrightarrow>
      destination_allowed c (rd_addresses d)"
    using authorize_http_destination_iff[of p c d] by (auto split: sum.splits)
  have bytes: "in_limit (max_response_bytes c) 0"
    by (cases "max_response_bytes c") (auto simp: in_limit_def)
  show ?thesis
    unfolding http_denial_def http_allows_def http_access_def timeout parsed_wf_loopback[OF assms]
      parsed_wf_ip_literal[OF assms]
    using dest bytes by auto
qed

section \<open>The evaluation loop\<close>

lemma state_authorize_fields:
  "authorized_timeout_ms (state_authorize t n f m st)
     = Some (case authorized_timeout_ms st of None \<Rightarrow> t | Some c \<Rightarrow> max c t)"
  "authorized_response_bytes (state_authorize t n f m st)
     = Some (case authorized_response_bytes st of None \<Rightarrow> n | Some c \<Rightarrow> max c n)"
  "authorized_follow_redirects (state_authorize t n f m st) \<longleftrightarrow> f \<or> authorized_follow_redirects st"
  "authorized_max_redirects (state_authorize t n f m st) =
     (if f \<and> m \<noteq> None
      then Some (case authorized_max_redirects st of None \<Rightarrow> the m | Some c \<Rightarrow> max c (the m))
      else authorized_max_redirects st)"
  "denial_mask (state_authorize t n f m st) = denial_mask st"
  by (simp_all add: state_authorize_def Let_def split: option.split)

lemma note_denial_fields [simp]:
  "authorized_timeout_ms (note_denial k st) = authorized_timeout_ms st"
  "authorized_response_bytes (note_denial k st) = authorized_response_bytes st"
  "authorized_follow_redirects (note_denial k st) = authorized_follow_redirects st"
  "authorized_max_redirects (note_denial k st) = authorized_max_redirects st"
  by (simp_all add: note_denial_def)

text \<open>Everything in the state stems from the verdict of a grant that was seen.\<close>

definition state_justified :: "HttpVerdict set \<Rightarrow> HttpGrantState \<Rightarrow> bool" where
  "state_justified V st \<longleftrightarrow>
     (\<forall>t. authorized_timeout_ms st = Some t \<longrightarrow> (\<exists>n f m. Accept t n f m \<in> V))
     \<and> (\<forall>n. authorized_response_bytes st = Some n \<longrightarrow> (\<exists>t f m. Accept t n f m \<in> V))
     \<and> (authorized_follow_redirects st \<longrightarrow> (\<exists>t n m. Accept t n True m \<in> V))
     \<and> (\<forall>m. authorized_max_redirects st = Some m \<longrightarrow> (\<exists>t n. Accept t n True (Some m) \<in> V))
     \<and> (\<forall>k. saw_denial st k \<longrightarrow> Refuse k \<in> V)
     \<and> (authorized_timeout_ms st = None \<longleftrightarrow> authorized_response_bytes st = None)"

lemma state_justified_default: "state_justified V HttpGrantState_default"
  by (simp add: state_justified_def HttpGrantState_default_def saw_denial_def)

lemma state_justified_step:
  assumes "state_justified V st" "v \<in> V"
  shows "state_justified V (apply_verdict v st)"
proof (cases v)
  case (Accept t n f m)
  have saw: "saw_denial (state_authorize t n f m st) k = saw_denial st k" for k
    by (simp add: saw_denial_def state_authorize_fields)
  have V: "Accept t n f m \<in> V"
    using assms(2) Accept by simp
  have "f \<and> m = Some x \<or> authorized_max_redirects st = Some x"
    if "authorized_max_redirects (state_authorize t n f m st) = Some x" for x
    using that unfolding state_authorize_fields
    by (cases "authorized_max_redirects st"; cases m) (auto simp: max_def split: if_splits)
  then have "\<exists>t n. Accept t n True (Some x) \<in> V"
    if "authorized_max_redirects (state_authorize t n f m st) = Some x" for x
    using that V assms(1) unfolding state_justified_def by (metis (full_types))
  moreover have "t = x \<or> authorized_timeout_ms st = Some x"
    if "authorized_timeout_ms (state_authorize t n f m st) = Some x" for x
    using that unfolding state_authorize_fields
    by (cases "authorized_timeout_ms st") (auto simp: max_def split: if_splits)
  then have "\<exists>n f m. Accept x n f m \<in> V"
    if "authorized_timeout_ms (state_authorize t n f m st) = Some x" for x
    using that V assms(1) unfolding state_justified_def by blast
  moreover have "n = x \<or> authorized_response_bytes st = Some x"
    if "authorized_response_bytes (state_authorize t n f m st) = Some x" for x
    using that unfolding state_authorize_fields
    by (cases "authorized_response_bytes st") (auto simp: max_def split: if_splits)
  then have "\<exists>t f m. Accept t x f m \<in> V"
    if "authorized_response_bytes (state_authorize t n f m st) = Some x" for x
    using that V assms(1) unfolding state_justified_def by blast
  moreover have "\<exists>t n m. Accept t n True m \<in> V"
    if "authorized_follow_redirects (state_authorize t n f m st)"
    using that V assms(1) unfolding state_justified_def state_authorize_fields by (metis (full_types))
  ultimately show ?thesis
    using assms(1) Accept unfolding state_justified_def by (simp add: saw state_authorize_fields(1,2))
qed (use assms in \<open>auto simp: state_justified_def saw_denial_note\<close>)

lemma evaluation_justified:
  "state_justified (grant_verdict req p d b ` set gs)
     (foldl (evaluate_http_grant req p d b) HttpGrantState_default gs)"
  by (rule foldl_invariant)
    (auto simp: state_justified_default evaluate_http_grant_verdict intro: state_justified_step)

lemma apply_verdict_keeps:
  "authorized_timeout_ms st \<noteq> None \<Longrightarrow> authorized_timeout_ms (apply_verdict v st) \<noteq> None"
  "saw_denial st k \<Longrightarrow> saw_denial (apply_verdict v st) k"
  by (cases v; simp add: state_authorize_fields)
    (cases v; simp add: saw_denial_bit state_authorize_fields saw_denial_note[unfolded saw_denial_bit])

lemma evaluation_accepts:
  assumes "g \<in> set gs" "grant_verdict req p d b g = Accept t n f m"
  shows "authorized_timeout_ms (foldl (evaluate_http_grant req p d b) st gs) \<noteq> None"
  by (rule foldl_established[of g, OF assms(1)])
    (use assms(2) apply_verdict_keeps(1) in \<open>auto simp: evaluate_http_grant_verdict state_authorize_fields\<close>)

lemma evaluation_refuses:
  assumes "g \<in> set gs" "grant_verdict req p d b g = Refuse k"
  shows "saw_denial (foldl (evaluate_http_grant req p d b) st gs) k"
  by (rule foldl_established[of g, OF assms(1)])
    (use assms(2) apply_verdict_keeps(2) in \<open>auto simp: evaluate_http_grant_verdict saw_denial_note\<close>)

section \<open>What an authorised request may do\<close>

lemma effective_timeout_bounds:
  "effective_timeout_ms r g b \<le> b" "r = Some t \<Longrightarrow> effective_timeout_ms r g b \<le> t"
  "in_limit g (effective_timeout_ms r g b)"
  by (auto simp: effective_timeout_ms_def in_limit_def is_none_or_iff min_le_iff_disj)

lemma effective_response_bounds:
  "effective_response_bytes g b \<le> b" "in_limit g (effective_response_bytes g b)"
  by (auto simp: effective_response_bytes_def in_limit_def is_none_or_iff min_le_iff_disj)

lemma http_allows_limits:
  assumes "http_allows c (http_access req p d t0 n0)" "in_limit (max_timeout_ms c) t" "in_limit (max_response_bytes c) n"
  shows "http_allows c (http_access req p d t n)"
  using assms by (simp add: http_allows_def http_access_def)

lemma in_limit_mono: "in_limit l n \<Longrightarrow> m \<le> n \<Longrightarrow> in_limit l m"
  by (auto simp: in_limit_def is_none_or_iff)

lemma constraints_allow_less:
  assumes "constraints_allow c (Acc_Http (http_access req p d t n))" "t' \<le> t" "n' \<le> n"
  shows "constraints_allow c (Acc_Http (http_access req p d t' n'))"
  using assms by (cases c) (auto simp: http_allows_def http_access_def elim: in_limit_mono)

lemma grants_allow_less:
  assumes "grants_allow gs (Acc_Http (http_access req p d t n))" "t' \<le> t" "n' \<le> n"
  shows "grants_allow gs (Acc_Http (http_access req p d t' n'))"
  using assms constraints_allow_less by (auto simp: grants_allow_def grant_allows_def)

lemma grant_verdict_Accept:
  assumes "parsed_wf p" "grant_verdict req p d b g = Accept t n f m"
  shows "constraints_allow (g_constraints g) (Acc_Http (http_access req p d t n))"
    and "t \<le> max_millis b" and "n \<le> max_output_bytes b"
    and "hr_timeout_ms req = Some r \<Longrightarrow> t \<le> r"
proof -
  have "constraints_allow (g_constraints g) (Acc_Http (http_access req p d t n))
      \<and> t \<le> max_millis b \<and> n \<le> max_output_bytes b \<and> (\<forall>r. hr_timeout_ms req = Some r \<longrightarrow> t \<le> r)"
  proof (cases "g_constraints g")
    case (CC_HttpRequest c)
    then show ?thesis
      using assms http_denial_None[OF assms(1), of c req d] effective_timeout_bounds effective_response_bounds
      by (auto simp: grant_verdict_def intro: http_allows_limits split: option.splits)
  qed (use assms(2) effective_timeout_bounds effective_response_bounds in
      \<open>auto simp: grant_verdict_def\<close>)
  then show "constraints_allow (g_constraints g) (Acc_Http (http_access req p d t n))"
    and "t \<le> max_millis b" and "n \<le> max_output_bytes b"
    and "hr_timeout_ms req = Some r \<Longrightarrow> t \<le> r"
    by auto
qed

lemma grant_verdict_accepts_iff:
  assumes "parsed_wf p"
  shows "(\<exists>t n f m. grant_verdict req p d b g = Accept t n f m) \<longleftrightarrow>
    constraints_allow (g_constraints g) (Acc_Http (http_access req p d (unwrap_or 0 (hr_timeout_ms req)) 0))"
  by (cases "g_constraints g")
    (auto simp: grant_verdict_def http_denial_None[OF assms, symmetric] split: option.splits)

text \<open>The shape of a decision that reached grant evaluation.\<close>

lemma authorize_http_request_evaluates:
  assumes "matching_grants gs HttpRequest Read \<noteq> []" "used_requests < max_network_requests b"
    and "resolve_http_destination_with_binding ip_error dns p binding = Inr d"
  shows "authorize_http_request ip_error dns gs b used_requests req p binding =
    Some (finalize_http_request_authorization
      (foldl (evaluate_http_grant req p d b) HttpGrantState_default (matching_grants gs HttpRequest Read))
      req p (rd_resolution_binding d))"
  using assms by (simp add: authorize_http_request_def not_le[symmetric])

lemma authorize_http_request_Inr:
  assumes "authorize_http_request ip_error dns gs b used_requests req p binding = Some (Inr pol)"
  obtains d where "matching_grants gs HttpRequest Read \<noteq> []" "used_requests < max_network_requests b"
    "resolve_http_destination_with_binding ip_error dns p binding = Inr d"
    "finalize_http_request_authorization
      (foldl (evaluate_http_grant req p d b) HttpGrantState_default (matching_grants gs HttpRequest Read))
      req p (rd_resolution_binding d) = Inr pol"
  using assms
  by (auto simp: authorize_http_request_def Let_def not_le split: if_splits sum.splits)

lemma finalize_Inr:
  "finalize_http_request_authorization st req p bnd = Inr pol \<longleftrightarrow>
     authorized_timeout_ms st = Some (pol_timeout_ms pol)
     \<and> authorized_response_bytes st = Some (pol_max_response_bytes pol)
     \<and> pol_follow_redirects pol = authorized_follow_redirects st
     \<and> pol_max_redirects pol = unwrap_or 0 (authorized_max_redirects st)
     \<and> pol_resolution_binding pol = bnd"
  by (cases pol) (auto simp: finalize_http_request_authorization_def split: option.splits)

lemma matching_grant_allows:
  "g \<in> set (matching_grants gs HttpRequest Read) \<Longrightarrow> constraints_allow (g_constraints g) (Acc_Http a)
     \<Longrightarrow> grants_allow gs (Acc_Http a)"
  unfolding grants_allow_matching by (auto simp: list_ex_iff)

lemma authorize_http_sound:
  assumes wf: "parsed_wf p"
    and auth: "authorize_http_request ip_error dns gs b used_requests req p binding = Some (Inr pol)"
  obtains d where "resolve_http_destination_with_binding ip_error dns p binding = Inr d"
    "used_requests < max_network_requests b"
    "pol_timeout_ms pol \<le> max_millis b" "pol_max_response_bytes pol \<le> max_output_bytes b"
    "\<And>r. hr_timeout_ms req = Some r \<Longrightarrow> pol_timeout_ms pol \<le> r"
    "grants_allow gs (Acc_Http (http_access req p d (pol_timeout_ms pol) 0))"
    "grants_allow gs (Acc_Http (http_access req p d 0 (pol_max_response_bytes pol)))"
    "pol_resolution_binding pol = rd_resolution_binding d"
  using auth
proof (rule authorize_http_request_Inr)
  fix d
  let ?ms = "matching_grants gs HttpRequest Read"
  let ?st = "foldl (evaluate_http_grant req p d b) HttpGrantState_default ?ms"
  assume d: "resolve_http_destination_with_binding ip_error dns p binding = Inr d"
    and b: "used_requests < max_network_requests b"
    and "finalize_http_request_authorization ?st req p (rd_resolution_binding d) = Inr pol"
  then have fin: "authorized_timeout_ms ?st = Some (pol_timeout_ms pol)"
    "authorized_response_bytes ?st = Some (pol_max_response_bytes pol)"
    "pol_resolution_binding pol = rd_resolution_binding d"
    by (simp_all only: finalize_Inr)
  have just: "state_justified (grant_verdict req p d b ` set ?ms) ?st"
    by (rule evaluation_justified)
  obtain g n f m where g: "g \<in> set ?ms" "grant_verdict req p d b g = Accept (pol_timeout_ms pol) n f m"
    using just fin(1) unfolding state_justified_def by (metis (no_types, lifting) imageE)
  obtain h t f' m' where h: "h \<in> set ?ms"
    "grant_verdict req p d b h = Accept t (pol_max_response_bytes pol) f' m'"
    using just fin(2) unfolding state_justified_def by (metis (no_types, lifting) imageE)
  note ga = grant_verdict_Accept[OF wf g(2)] and ha = grant_verdict_Accept[OF wf h(2)]
  show thesis
  proof (rule that[OF d b ga(2) ha(3)])
    show "grants_allow gs (Acc_Http (http_access req p d (pol_timeout_ms pol) 0))"
      using matching_grant_allows[OF g(1) ga(1)] by (rule grants_allow_less) simp_all
    show "grants_allow gs (Acc_Http (http_access req p d 0 (pol_max_response_bytes pol)))"
      using matching_grant_allows[OF h(1) ha(1)] by (rule grants_allow_less) simp_all
  qed (use ga(4) fin(3) in simp_all)
qed

lemma authorize_http_iff:
  assumes wf: "parsed_wf p"
  shows "(\<exists>pol. authorize_http_request ip_error dns gs b used_requests req p binding = Some (Inr pol)) \<longleftrightarrow>
    used_requests < max_network_requests b \<and>
    (\<exists>d. resolve_http_destination_with_binding ip_error dns p binding = Inr d
       \<and> grants_allow gs (Acc_Http (http_access req p d (unwrap_or 0 (hr_timeout_ms req)) 0)))"
    (is "?L \<longleftrightarrow> ?R")
proof
  assume ?L
  then obtain pol where "authorize_http_request ip_error dns gs b used_requests req p binding = Some (Inr pol)"
    by auto
  then show ?R
  proof (rule authorize_http_request_Inr)
    fix d
    let ?ms = "matching_grants gs HttpRequest Read"
    let ?st = "foldl (evaluate_http_grant req p d b) HttpGrantState_default ?ms"
    assume d: "resolve_http_destination_with_binding ip_error dns p binding = Inr d"
      and b: "used_requests < max_network_requests b"
      and "finalize_http_request_authorization ?st req p (rd_resolution_binding d) = Inr pol"
    then have "authorized_timeout_ms ?st = Some (pol_timeout_ms pol)"
      by (simp only: finalize_Inr)
    then obtain g t n f m where "g \<in> set ?ms" "grant_verdict req p d b g = Accept t n f m"
      using evaluation_justified[of req p d b ?ms] unfolding state_justified_def
      by (metis (no_types, lifting) imageE)
    then have "grants_allow gs (Acc_Http (http_access req p d (unwrap_or 0 (hr_timeout_ms req)) 0))"
      using grant_verdict_accepts_iff[OF wf, of req d b g] by (blast intro: matching_grant_allows)
    with d b show ?R
      by blast
  qed
next
  assume ?R
  then obtain d where b: "used_requests < max_network_requests b"
    and d: "resolve_http_destination_with_binding ip_error dns p binding = Inr d"
    and "grants_allow gs (Acc_Http (http_access req p d (unwrap_or 0 (hr_timeout_ms req)) 0))"
    by auto
  then obtain g where g: "g \<in> set (matching_grants gs HttpRequest Read)"
    and "constraints_allow (g_constraints g) (Acc_Http (http_access req p d (unwrap_or 0 (hr_timeout_ms req)) 0))"
    unfolding grants_allow_matching by (auto simp: list_ex_iff)
  then obtain t n f m where "grant_verdict req p d b g = Accept t n f m"
    using grant_verdict_accepts_iff[OF wf, of req d b g] by blast
  from evaluation_accepts[OF g this, of HttpGrantState_default] obtain t' n' where
    "authorized_timeout_ms (foldl (evaluate_http_grant req p d b) HttpGrantState_default
       (matching_grants gs HttpRequest Read)) = Some t'"
    "authorized_response_bytes (foldl (evaluate_http_grant req p d b) HttpGrantState_default
       (matching_grants gs HttpRequest Read)) = Some n'"
    using evaluation_justified[of req p d b "matching_grants gs HttpRequest Read"]
    unfolding state_justified_def by (metis not_None_eq)
  moreover have "matching_grants gs HttpRequest Read \<noteq> []"
    using g by auto
  ultimately show ?L
    using authorize_http_request_evaluates[OF _ b d, of gs req]
    by (simp add: finalize_http_request_authorization_def)
qed

text \<open>The \<open>unreachable!\<close> arm is unreachable: resolution fails with one kind only.\<close>

lemma resolve_http_destination_error:
  "resolve_http_destination_with_binding ip_error dns p binding = Inl k \<Longrightarrow> k = D_DestinationUnresolved"
  by (auto simp: resolve_http_destination_with_binding_def Let_def res_bind_def map_err_def ok_or_def
      split: option.splits sum.splits if_splits)

lemma authorize_http_request_total:
  "\<exists>r. authorize_http_request ip_error dns gs b used_requests req p binding = Some r"
  using resolve_http_destination_error[of ip_error dns p binding]
  by (auto simp: authorize_http_request_def Let_def destination_denial_def split: sum.splits)

text \<open>Redirects: the hops a grant authorises, ten for an unconstrained one.\<close>

definition grant_redirect_allowance :: "GrantedCapability \<Rightarrow> u8" where
  "grant_redirect_allowance g =
     (case g_constraints g of
        CC_None \<Rightarrow> HTTP_UNCONSTRAINED_MAX_REDIRECTS
      | CC_HttpRequest c \<Rightarrow> redirect_allowance c
      | _ \<Rightarrow> 0)"

lemma evaluation_follows:
  "authorized_max_redirects (foldl (evaluate_http_grant req p d b) HttpGrantState_default gs) \<noteq> None
     \<longrightarrow> authorized_follow_redirects (foldl (evaluate_http_grant req p d b) HttpGrantState_default gs)"
proof (rule foldl_invariant)
  fix st :: HttpGrantState and g
  assume "authorized_max_redirects st \<noteq> None \<longrightarrow> authorized_follow_redirects st"
  then show "authorized_max_redirects (evaluate_http_grant req p d b st g) \<noteq> None
      \<longrightarrow> authorized_follow_redirects (evaluate_http_grant req p d b st g)"
    by (cases "grant_verdict req p d b g")
      (simp_all add: evaluate_http_grant_verdict state_authorize_fields)
qed (simp add: HttpGrantState_default_def)

lemma authorize_http_redirects:
  assumes wf: "parsed_wf p"
    and auth: "authorize_http_request ip_error dns gs b used_requests req p binding = Some (Inr pol)"
    and hops: "0 < pol_max_redirects pol"
  shows "pol_follow_redirects pol \<and> (\<exists>d. \<exists>g \<in> set (matching_grants gs HttpRequest Read).
    resolve_http_destination_with_binding ip_error dns p binding = Inr d
    \<and> constraints_allow (g_constraints g) (Acc_Http (http_access req p d (unwrap_or 0 (hr_timeout_ms req)) 0))
    \<and> pol_max_redirects pol = grant_redirect_allowance g)"
  using auth
proof (rule authorize_http_request_Inr)
  fix d
  let ?ms = "matching_grants gs HttpRequest Read"
  let ?st = "foldl (evaluate_http_grant req p d b) HttpGrantState_default ?ms"
  assume d: "resolve_http_destination_with_binding ip_error dns p binding = Inr d"
    and fin: "finalize_http_request_authorization ?st req p (rd_resolution_binding d) = Inr pol"
  have max: "authorized_max_redirects ?st = Some (pol_max_redirects pol)"
    using fin hops by (cases "authorized_max_redirects ?st") (simp_all add: finalize_Inr)
  then obtain t n where "Accept t n True (Some (pol_max_redirects pol)) \<in> grant_verdict req p d b ` set ?ms"
    using evaluation_justified[of req p d b ?ms] unfolding state_justified_def by blast
  then obtain g where g: "g \<in> set ?ms"
    "grant_verdict req p d b g = Accept t n True (Some (pol_max_redirects pol))"
    by (metis (no_types, lifting) imageE)
  have hops_g: "pol_max_redirects pol = grant_redirect_allowance g"
    using g(2) by (cases "g_constraints g")
      (auto simp: grant_verdict_def grant_redirect_allowance_def redirect_allowance_def
        split: option.splits if_splits)
  have "authorized_follow_redirects ?st"
    using evaluation_follows[of req p d b ?ms] max by simp
  then have follow: "pol_follow_redirects pol"
    using fin by (simp only: finalize_Inr)
  have "constraints_allow (g_constraints g)
      (Acc_Http (http_access req p d (unwrap_or 0 (hr_timeout_ms req)) 0))"
    using grant_verdict_accepts_iff[OF wf, of req d b g] g(2) by blast
  with follow hops_g d show ?thesis
    by (intro conjI exI[of _ d] bexI[OF _ g(1)])
qed

text \<open>A denial after evaluation names the first kind, in precedence order, that a grant refused with.\<close>

lemma authorize_http_denial:
  assumes wf: "parsed_wf p"
    and m: "matching_grants gs HttpRequest Read \<noteq> []" and b: "used_requests < max_network_requests b"
    and d: "resolve_http_destination_with_binding ip_error dns p binding = Inr d"
    and deny: "authorize_http_request ip_error dns gs b used_requests req p binding = Some (Inl e)"
  shows "e = (case find (\<lambda>k. \<exists>g \<in> set (matching_grants gs HttpRequest Read).
      grant_verdict req p d b g = Refuse k) denial_precedence of
    Some k \<Rightarrow> kind_denial req p k | None \<Rightarrow> http_request_not_granted_denial req)"
proof -
  let ?ms = "matching_grants gs HttpRequest Read"
  let ?st = "foldl (evaluate_http_grant req p d b) HttpGrantState_default ?ms"
  have fin: "finalize_http_request_authorization ?st req p (rd_resolution_binding d) = Inl e"
    using authorize_http_request_evaluates[OF m b d, of req] deny by simp
  have saw: "saw_denial ?st = (\<lambda>k. \<exists>g \<in> set ?ms. grant_verdict req p d b g = Refuse k)"
  proof
    fix k
    show "saw_denial ?st k \<longleftrightarrow> (\<exists>g \<in> set ?ms. grant_verdict req p d b g = Refuse k)"
      using evaluation_justified[of req p d b ?ms] evaluation_refuses[of _ ?ms req p d b k]
      unfolding state_justified_def by (metis (no_types, lifting) imageE)
  qed
  then show ?thesis
    using fin unfolding saw[symmetric]
    by (auto simp: finalize_http_request_authorization_def split: option.splits)
qed

section \<open>Recorded resolutions replay\<close>

lemma set_canonicalize_addresses [simp]: "set (canonicalize_resolved_addresses xs) = set xs"
  by (simp add: canonicalize_resolved_addresses_def)

lemma sorted_map_remdups_adj: "sorted (map f xs) \<Longrightarrow> sorted (map f (remdups_adj xs))"
  by (induction xs rule: remdups_adj.induct) auto

lemma canonicalize_addresses_idem [simp]:
  "canonicalize_resolved_addresses (canonicalize_resolved_addresses xs) = canonicalize_resolved_addresses xs"
proof -
  have "sorted (map ip_display (remdups_adj (sort_key ip_display xs)))"
    by (rule sorted_map_remdups_adj) simp
  then show ?thesis
    by (simp add: canonicalize_resolved_addresses_def sort_key_id_if_sorted distinct_adj_altdef[symmetric])
qed

lemma parse_binding_addresses_printed:
  "parse_binding_addresses ip_error
     (map (\<lambda>a. \<lparr>ra_address = ip_display a, ra_family = http_address_family a\<rparr>) xs) = Inr xs"
  by (induction xs) (simp_all add: ip_parse_display)

lemma binding_addresses_roundtrip:
  "xs \<noteq> [] \<Longrightarrow> resolution_binding_addresses ip_error (http_resolution_binding p xs)
     = Inr (canonicalize_resolved_addresses xs)"
  by (simp add: resolution_binding_addresses_def http_resolution_binding_def parse_binding_addresses_printed)

lemma recorded_binding_replays:
  assumes "resolve_http_destination_with_binding ip_error dns p None = Inr d"
    and "rd_resolution_binding d = Some bnd"
  shows "validate_http_resolution_binding ip_error bnd p = Inr ()"
    and "resolve_http_destination_with_binding ip_error dns' p (Some bnd) = Inr d"
proof -
  obtain raw where lit: "ip_literal p = None" and host: "ph_host p = ''localhost''"
    and ne: "canonicalize_resolved_addresses raw \<noteq> []"
    and d: "rd_addresses d = canonicalize_resolved_addresses raw"
    and bnd: "bnd = http_resolution_binding p (canonicalize_resolved_addresses raw)"
    using assms
    by (auto simp: resolve_http_destination_with_binding_def Let_def res_bind_Inr_iff
        split: option.splits if_splits)
  have addrs: "resolution_binding_addresses ip_error bnd = Inr (canonicalize_resolved_addresses raw)"
    using binding_addresses_roundtrip[OF ne] by (simp add: bnd)
  have "canonicalize_http_host ''localhost'' = ''localhost''"
    by (simp add: canonicalize_http_host_def to_ascii_lowercase_def ascii_lower_char_def)
  then show "validate_http_resolution_binding ip_error bnd p = Inr ()"
    using addrs host by (simp add: validate_http_resolution_binding_def bnd http_resolution_binding_def)
  show "resolve_http_destination_with_binding ip_error dns' p (Some bnd) = Inr d"
    using addrs lit d assms(2) by (cases d) (simp add: resolve_http_destination_with_binding_def)
qed

section \<open>Claims\<close>

text \<open>A request to a local service, with a resolver that knows only \<open>localhost\<close>.\<close>

definition sample_url_parse :: "string \<Rightarrow> string + Url" where
  "sample_url_parse s = (if s = ''http://localhost:8080/v1'' then
     Inr \<lparr>url_username = [], url_password = None, url_scheme = ''http'', url_host = Some (Host_Domain ''localhost''),
      url_port_or_known_default = Some 8080, url_port = Some 8080, url_path = ''/v1'',
      url_query = None, url_fragment = None, url_text = s\<rparr>
     else Inl ''relative URL without a base'')"

definition sample_dns :: "string \<Rightarrow> u16 \<Rightarrow> IpAddr list option" where
  "sample_dns host port = (if host = ''localhost'' then Some [V4 127 0 0 1] else None)"

definition sample_request :: HttpRequestMsg where
  "sample_request = \<lparr>hr_method = Get, hr_url = ''http://localhost:8080/v1'', hr_timeout_ms = Some 500\<rparr>"

definition sample_parsed :: ParsedHttpRequest where
  "sample_parsed = \<lparr>ph_scheme = Http, ph_host = ''localhost'', ph_port = 8080, ph_path = ''/v1'',
     ph_host_kind = Domain True\<rparr>"

definition sample_http_constraints :: HttpRequestConstraints where
  "sample_http_constraints = HttpRequestConstraints_default\<lparr>allowed_methods := Some [Get],
     allowed_path_prefixes := Some [''/v1''], max_timeout_ms := Some 2000, max_response_bytes := Some 1024,
     follow_redirects := Some True, max_redirects := Some 2, allow_loopback := Some True\<rparr>"

definition sample_http_grants :: CapabilityGrantSet where
  "sample_http_grants = \<lparr>grants =
     [\<lparr>g_id = HttpRequest, g_access = Read, g_constraints = CC_HttpRequest sample_http_constraints\<rparr>]\<rparr>"

definition sample_binding :: HttpResolutionBinding where
  "sample_binding = \<lparr>rb_requested_host = ''localhost'', rb_port = 8080,
     rb_addresses = [\<lparr>ra_address = ''127.0.0.1'', ra_family = Ipv4\<rparr>], rb_loopback_only = True\<rparr>"

definition sample_destination :: ResolvedHttpDestination where
  "sample_destination = \<lparr>rd_addresses = [V4 127 0 0 1], rd_resolution_binding = Some sample_binding\<rparr>"

definition sample_policy :: HttpExecutionPolicy where
  "sample_policy = \<lparr>pol_timeout_ms = 500, pol_max_response_bytes = 1024, pol_follow_redirects = True,
     pol_max_redirects = 2, pol_resolution_binding = Some sample_binding\<rparr>"

lemma sample_url_domains: "url_domains_not_ip sample_url_parse"
  by (auto simp: url_domains_not_ip_def sample_url_parse_def)

lemma sample_parse: "parse_http_request sample_url_parse sample_request = Inr sample_parsed"
  by code_simp

lemma sample_resolution:
  "resolve_http_destination_with_binding (\<lambda>s. s) sample_dns sample_parsed None = Inr sample_destination"
  by code_simp

lemma sample_authorization:
  "authorize_http_request (\<lambda>s. s) sample_dns sample_http_grants Budget_default 0 sample_request sample_parsed None
     = Some (Inr sample_policy)"
  by code_simp
text \<open>C3: HTTP authorisation is exact: a parsed request is authorised if and only if a network request is left in
  the budget, the destination resolves, and some grant allows the access, that is its method, scheme,
  canonical host, port, path, requested timeout and every resolved address.\<close>

theorem http_authorized_iff:
  assumes "url_domains_not_ip url_parse" "parse_http_request url_parse req = Inr p"
  shows "(\<exists>pol. authorize_http_request ip_error dns gs b used_requests req p binding = Some (Inr pol)) \<longleftrightarrow>
    used_requests < max_network_requests b \<and>
    (\<exists>d. resolve_http_destination_with_binding ip_error dns p binding = Inr d
       \<and> grants_allow gs (Acc_Http (http_access req p d (unwrap_or 0 (hr_timeout_ms req)) 0)))"
  by (rule authorize_http_iff [OF parse_http_request_wf [OF assms]])

theorem http_authorized_iff_witness:
  "(\<exists>d. resolve_http_destination_with_binding (\<lambda>s. s) sample_dns sample_parsed None = Inr d
       \<and> grants_allow sample_http_grants (Acc_Http (http_access sample_request sample_parsed d 500 0)))"
proof -
  have "unwrap_or 0 (hr_timeout_ms sample_request) = 500"
    by (simp add: sample_request_def)
  then show ?thesis
    using http_authorized_iff [OF sample_url_domains sample_parse, of "\<lambda>s. s" sample_dns sample_http_grants
        Budget_default 0 None] sample_authorization by auto
qed

text \<open>C33: The limits of an authorised request are sound: its timeout is within the execution budget and the
  requested timeout, its response size within the budget, and both are limits some grant allows for exactly
  this method, host, port, path and resolved destination.\<close>

theorem http_authorized_limits:
  assumes "url_domains_not_ip url_parse" "parse_http_request url_parse req = Inr p"
    and "authorize_http_request ip_error dns gs b used_requests req p binding = Some (Inr pol)"
  shows "pol_timeout_ms pol \<le> max_millis b \<and> pol_max_response_bytes pol \<le> max_output_bytes b
    \<and> is_none_or (hr_timeout_ms req) (\<lambda>t. pol_timeout_ms pol \<le> t)
    \<and> (\<exists>d. resolve_http_destination_with_binding ip_error dns p binding = Inr d
        \<and> grants_allow gs (Acc_Http (http_access req p d (pol_timeout_ms pol) 0))
        \<and> grants_allow gs (Acc_Http (http_access req p d 0 (pol_max_response_bytes pol))))"
  by (rule authorize_http_sound [OF parse_http_request_wf [OF assms(1,2)] assms(3)])
    (cases "hr_timeout_ms req"; simp)

theorem http_authorized_limits_witness:
  "authorize_http_request (\<lambda>s. s) sample_dns sample_http_grants Budget_default 0 sample_request sample_parsed None
     = Some (Inr sample_policy)
   \<and> pol_timeout_ms sample_policy \<le> max_millis Budget_default"
  using sample_authorization
    http_authorized_limits [OF sample_url_domains sample_parse sample_authorization] by simp

text \<open>Redirect hops are granted, never invented: an authorised request with a positive hop limit follows
  redirects, and the limit is the allowance of one matching grant that allows the request.\<close>

theorem http_authorized_redirects:
  assumes "url_domains_not_ip url_parse" "parse_http_request url_parse req = Inr p"
    and "authorize_http_request ip_error dns gs b used_requests req p binding = Some (Inr pol)"
    and "0 < pol_max_redirects pol"
  shows "pol_follow_redirects pol \<and> (\<exists>d. \<exists>g \<in> set (matching_grants gs HttpRequest Read).
    resolve_http_destination_with_binding ip_error dns p binding = Inr d
    \<and> constraints_allow (g_constraints g) (Acc_Http (http_access req p d (unwrap_or 0 (hr_timeout_ms req)) 0))
    \<and> pol_max_redirects pol = grant_redirect_allowance g)"
  by (rule authorize_http_redirects [OF parse_http_request_wf [OF assms(1,2)] assms(3,4)])

theorem http_authorized_redirects_witness:
  "0 < pol_max_redirects sample_policy \<and>
   (\<exists>g \<in> set (matching_grants sample_http_grants HttpRequest Read).
      pol_max_redirects sample_policy = grant_redirect_allowance g)"
proof -
  have pos: "0 < pol_max_redirects sample_policy"
    by (simp add: sample_policy_def)
  show ?thesis
    using pos http_authorized_redirects [OF sample_url_domains sample_parse sample_authorization pos] by blast
qed

text \<open>A denial reports the first kind, in the order of the \<open>match\<close> of
  \<open>finalize_http_request_authorization\<close>, for which some matching grant refused the request; when no grant
  refused it for a reason of its own, the plain not-granted denial.\<close>

theorem http_denial_reported:
  assumes "url_domains_not_ip url_parse" "parse_http_request url_parse req = Inr p"
    and "matching_grants gs HttpRequest Read \<noteq> []" "used_requests < max_network_requests b"
    and "resolve_http_destination_with_binding ip_error dns p binding = Inr d"
    and "authorize_http_request ip_error dns gs b used_requests req p binding = Some (Inl e)"
  shows "e = (case find (\<lambda>k. \<exists>g \<in> set (matching_grants gs HttpRequest Read).
      grant_verdict req p d b g = Refuse k) denial_precedence of
    Some k \<Rightarrow> kind_denial req p k | None \<Rightarrow> http_request_not_granted_denial req)"
  by (rule authorize_http_denial [OF parse_http_request_wf [OF assms(1,2)] assms(3-6)])

definition sample_head_request :: HttpRequestMsg where
  "sample_head_request = sample_request\<lparr>hr_method := Head\<rparr>"

theorem http_denial_reported_witness:
  "authorize_http_request (\<lambda>s. s) sample_dns sample_http_grants Budget_default 0 sample_head_request sample_parsed None
     = Some (Inl (kind_denial sample_head_request sample_parsed D_Method))
   \<and> (case find (\<lambda>k. \<exists>g \<in> set (matching_grants sample_http_grants HttpRequest Read).
          grant_verdict sample_head_request sample_parsed sample_destination Budget_default g = Refuse k)
          denial_precedence of
        Some k \<Rightarrow> kind_denial sample_head_request sample_parsed k
      | None \<Rightarrow> http_request_not_granted_denial sample_head_request)
      = kind_denial sample_head_request sample_parsed D_Method"
proof -
  have parse: "parse_http_request sample_url_parse sample_head_request = Inr sample_parsed"
    and m: "matching_grants sample_http_grants HttpRequest Read \<noteq> []"
    and b: "0 < max_network_requests Budget_default"
    by code_simp+
  have deny: "authorize_http_request (\<lambda>s. s) sample_dns sample_http_grants Budget_default 0
      sample_head_request sample_parsed None
    = Some (Inl (kind_denial sample_head_request sample_parsed D_Method))"
    by code_simp
  show ?thesis
    using deny http_denial_reported [OF sample_url_domains parse m b sample_resolution deny] by simp
qed

text \<open>Authorisation never panics: the \<open>unreachable!\<close> arm of the destination denial cannot be reached, so a
  decision is always produced.\<close>

theorem http_authorization_total:
  "\<exists>r. authorize_http_request ip_error dns gs b used_requests req p binding = Some r"
  by (rule authorize_http_request_total)

text \<open>C34: A recorded resolution replays: the binding recorded when \<open>localhost\<close> was resolved live validates against
  the same request, and resolving with it gives the recorded destination again, whatever the resolver
  answers by then.\<close>

theorem recorded_resolution_replays:
  assumes "resolve_http_destination_with_binding ip_error dns p None = Inr d"
    and "rd_resolution_binding d = Some bnd"
  shows "validate_http_resolution_binding ip_error bnd p = Inr ()
    \<and> resolve_http_destination_with_binding ip_error dns' p (Some bnd) = Inr d"
  using recorded_binding_replays [OF assms] by blast

theorem recorded_resolution_replays_witness:
  "resolve_http_destination_with_binding (\<lambda>s. s) sample_dns sample_parsed None = Inr sample_destination
   \<and> resolve_http_destination_with_binding (\<lambda>s. s) (\<lambda>h p. None) sample_parsed (Some sample_binding)
       = Inr sample_destination"
proof -
  have bnd: "rd_resolution_binding sample_destination = Some sample_binding"
    by (simp add: sample_destination_def)
  show ?thesis
    using sample_resolution recorded_resolution_replays [OF sample_resolution bnd, of "\<lambda>h p. None"] by blast
qed

end
