(* ===== verification/Guild_Validate.thy ===== *)
theory Guild_Validate
  imports Guild_Resource_Uri Guild_Net
begin

text \<open>
  The validators of \<open>crates/guild-types/src/lib.rs\<close>: every capability family's constraints,
  requirements and grants, policy rules, profiles, bindings and the whole local policy. A
  validator returns the list of its error messages, in source order; an empty list means valid.
\<close>

section \<open>Error accumulation\<close>

abbreviation err_if :: "bool \<Rightarrow> string \<Rightarrow> string list" where
  "err_if c m \<equiv> (if c then [m] else [])"

text \<open>\<open>if let Some(xs) = field \<and> xs.is_empty()\<close>.\<close>

definition some_empty :: "'a list option \<Rightarrow> bool" where
  "some_empty x \<longleftrightarrow> x = Some []"

lemma some_empty_simps [simp]: "\<not> some_empty None" "some_empty (Some xs) \<longleftrightarrow> xs = []"
  by (simp_all add: some_empty_def)

text \<open>\<open>for (index, x) in xs.iter().enumerate()\<close> extending the error list.\<close>

definition enum_errors :: "(nat \<Rightarrow> 'a \<Rightarrow> 'e list) \<Rightarrow> 'a list \<Rightarrow> 'e list" where
  "enum_errors f xs = concat (map (\<lambda>(i, x). f i x) (List.enumerate 0 xs))"

lemma concat_enumerate_Nil:
  "concat (map (\<lambda>(i, x). f i x) (List.enumerate n xs)) = [] \<longleftrightarrow>
     (\<forall>i < length xs. f (n + i) (xs ! i) = [])"
proof (induction xs arbitrary: n)
  case (Cons x xs)
  then show ?case
    by (auto simp: nth_Cons' less_Suc_eq_0_disj split: if_splits)
qed simp

lemma enum_errors_Nil: "enum_errors f xs = [] \<longleftrightarrow> (\<forall>i < length xs. f i (xs ! i) = [])"
  unfolding enum_errors_def concat_enumerate_Nil by simp

lemma enum_errors_Nil_set:
  "(\<And>i x. f i x = [] \<longleftrightarrow> P x) \<Longrightarrow> enum_errors f xs = [] \<longleftrightarrow> list_all P xs"
  by (simp add: enum_errors_Nil list_all_length)

section \<open>Host names and guest paths\<close>

definition is_ascii_alphanumeric :: "char \<Rightarrow> bool" where
  "is_ascii_alphanumeric c \<longleftrightarrow>
     (48 \<le> byte c \<and> byte c \<le> 57) \<or> (65 \<le> byte c \<and> byte c \<le> 90) \<or> (97 \<le> byte c \<and> byte c \<le> 122)"

definition bad_dns_label :: "string \<Rightarrow> bool" where
  "bad_dns_label label \<longleftrightarrow>
     \<not> list_all (\<lambda>b. is_ascii_alphanumeric b \<or> b = CHR ''-'') label
     \<or> prefix ''-'' label \<or> suffix ''-'' label"

definition validate_http_host_value :: "string \<Rightarrow> string \<Rightarrow> bool \<Rightarrow> string option" where
  "validate_http_host_value value field allow_ips =
     (if is_blank value then Some (field @ '' must not contain empty values'')
      else if value \<noteq> trim_str value then
        Some (field @ '' entries must not contain leading or trailing whitespace'')
      else if contains_str ''://'' value \<or> CHR ''/'' \<in> set value \<or> CHR ''?'' \<in> set value
           \<or> CHR ''#'' \<in> set value \<or> CHR ''@'' \<in> set value then
        Some (field @ '' entries must contain only canonical hostnames or IP literals without schemes, paths, fragments, queries, or credentials'')
      else if prefix ''.'' value \<or> suffix ''.'' value then
        Some (field @ '' entries must not begin or end with `.`'')
      else if ip_parse value \<noteq> None then
        (if allow_ips then None
         else Some (field @ '' entries must not use raw IP literals; use canonical domain suffixes only''))
      else if CHR '':'' \<in> set value then
        Some (field @ '' entries must not include ports; configure ports through allowed_ports'')
      else if list_ex (\<lambda>label. label = []) (split_on CHR ''.'' value) then
        Some (field @ '' entries must not contain empty DNS labels'')
      else if list_ex bad_dns_label (split_on CHR ''.'' value) then
        Some (field @ '' entries must use ASCII alphanumeric or `-` DNS labels'')
      else None)"

definition validate_filesystem_guest_path_prefix :: "string \<Rightarrow> string option" where
  "validate_filesystem_guest_path_prefix value =
     (if \<not> prefix ''/'' value then Some ''must start with `/`''
      else if value \<noteq> ''/'' \<and> suffix ''/'' value then
        Some ''must not end with `/` unless it is the root `/`''
      else if CHR 0x5C \<in> set value then Some ''must use `/` separators only''
      else if list_ex (\<lambda>seg. seg = []) (drop 1 (split_on CHR ''/'' value)) then
        Some ''must not contain empty path segments''
      else if list_ex (\<lambda>seg. seg = ''.'' \<or> seg = ''..'') (drop 1 (split_on CHR ''/'' value)) then
        Some ''must not contain `.` or `..` path segments''
      else None)"

section \<open>Family constraints\<close>

fun filesystem_access_error :: "string \<Rightarrow> CapabilityAccess \<Rightarrow> FilesystemOperation \<Rightarrow> string list" where
  "filesystem_access_error pfx Read FsRead = []"
| "filesystem_access_error pfx Write FsWrite = []"
| "filesystem_access_error pfx Write FsCreate = []"
| "filesystem_access_error pfx Write FsAppend = []"
| "filesystem_access_error pfx Read _ =
     [pfx @ ''.operations may only contain `read` when access is `read`'']"
| "filesystem_access_error pfx Write FsRead =
     [pfx @ ''.operations must not contain `read` when access is `write`'']"
| "filesystem_access_error pfx Invoke _ = [''filesystem capabilities must use read or write access'']"

text \<open>The operation loop with its \<open>seen_operations\<close> set.\<close>

fun filesystem_operation_errors ::
  "string \<Rightarrow> CapabilityAccess \<Rightarrow> FilesystemOperation list \<Rightarrow> FilesystemOperation list \<Rightarrow> string list" where
  "filesystem_operation_errors pfx access seen [] = []"
| "filesystem_operation_errors pfx access seen (p # ps) =
     err_if (p \<in> set seen)
       (pfx @ ''.operations must not contain duplicate `'' @ filesystem_operation_label p @ ''` entries'')
     @ filesystem_access_error pfx access p
     @ filesystem_operation_errors pfx access (p # seen) ps"

text \<open>One root: the errors and the updated sets of seen names and guest paths.\<close>

definition filesystem_root_errors ::
  "CapabilityAccess \<Rightarrow> nat \<Rightarrow> FilesystemRoot \<Rightarrow> string list \<Rightarrow> string list
    \<Rightarrow> string list \<times> string list \<times> string list" where
  "filesystem_root_errors access index root seen_names seen_guest_paths =
     (let pfx = ''preopened_roots['' @ dec_of_nat index @ '']'';
          name_errors =
            (if is_blank (root_name root) then [pfx @ ''.name must not be empty'']
             else err_if (root_name root \<in> set seen_names) (pfx @ ''.name must be unique''));
          names' = (if is_blank (root_name root) then seen_names else root_name root # seen_names);
          path_errors =
            (if is_blank (guest_path_prefix root) then [pfx @ ''.guest_path_prefix must not be empty'']
             else (case validate_filesystem_guest_path_prefix (guest_path_prefix root) of
                     Some message \<Rightarrow> [pfx @ ''.guest_path_prefix '' @ message] | None \<Rightarrow> [])
                  @ err_if (guest_path_prefix root \<in> set seen_guest_paths)
                      (pfx @ ''.guest_path_prefix must be unique''));
          paths' = (if is_blank (guest_path_prefix root) then seen_guest_paths
                    else guest_path_prefix root # seen_guest_paths);
          host_errors = err_if (is_blank (host_path root)) (pfx @ ''.host_path must not be empty'');
          operation_errors =
            (if operations root = [] then [pfx @ ''.operations must not be empty'']
             else filesystem_operation_errors pfx access [] (operations root))
      in (name_errors @ path_errors @ host_errors @ operation_errors, names', paths'))"

fun filesystem_roots_errors ::
  "CapabilityAccess \<Rightarrow> nat \<Rightarrow> FilesystemRoot list \<Rightarrow> string list \<Rightarrow> string list \<Rightarrow> string list" where
  "filesystem_roots_errors access index [] names paths = []"
| "filesystem_roots_errors access index (root # roots) names paths =
     (case filesystem_root_errors access index root names paths of (errors, names', paths') \<Rightarrow>
        errors @ filesystem_roots_errors access (Suc index) roots names' paths')"

definition FilesystemConstraints_validate :: "FilesystemConstraints \<Rightarrow> CapabilityAccess \<Rightarrow> string list" where
  "FilesystemConstraints_validate c access =
     (if preopened_roots c = [] then [''preopened_roots must not be empty'']
      else filesystem_roots_errors access 0 (preopened_roots c) [] [])"

definition ReadResourceConstraints_validate :: "ReadResourceConstraints \<Rightarrow> string list" where
  "ReadResourceConstraints_validate c =
     (case uri_prefixes c of
        None \<Rightarrow> []
      | Some ps \<Rightarrow>
          err_if (ps = []) ''uri_prefixes must not be empty when provided''
          @ concat (map (\<lambda>p.
              if is_blank p then [''uri_prefixes must not contain empty values'']
              else (case GuildResourceScope_parse p of
                      Inl _ \<Rightarrow> [''unsupported Guild resource URI scope `'' @ p
                                 @ ''` for read-resource; expected canonical roots'']
                    | Inr scope \<Rightarrow>
                        (case resource_kinds c of
                           Some kinds \<Rightarrow>
                             err_if (GuildResourceScope_kind scope \<notin> set kinds)
                               (''uri_prefix `'' @ p @ ''` is incompatible with resource_kinds'')
                         | None \<Rightarrow> []))) ps))
     @ err_if (some_empty (resource_kinds c)) ''resource_kinds must not be empty when provided''"

definition InvokeDependencyConstraints_validate :: "InvokeDependencyConstraints \<Rightarrow> string list" where
  "InvokeDependencyConstraints_validate c =
     (case aliases c of
        None \<Rightarrow> []
      | Some as \<Rightarrow>
          err_if (as = []) ''aliases must not be empty when provided''
          @ concat (map (\<lambda>a. err_if (is_blank a) ''aliases must not contain empty values'') as))"

definition EmitEvidenceConstraints_validate :: "EmitEvidenceConstraints \<Rightarrow> string list" where
  "EmitEvidenceConstraints_validate c =
     err_if (max_bytes c = Some 0) ''max_bytes must be greater than zero when provided''
     @ err_if (some_empty (audiences c)) ''audiences must not be empty when provided''
     @ err_if (some_empty (redactions c)) ''redactions must not be empty when provided''"

definition LogConstraints_validate :: "LogConstraints \<Rightarrow> string list" where
  "LogConstraints_validate c =
     err_if (some_empty (levels c)) ''levels must not be empty when provided''"

definition host_list_errors :: "string \<Rightarrow> bool \<Rightarrow> string list option \<Rightarrow> string list" where
  "host_list_errors field allow_ips hosts =
     (case hosts of
        None \<Rightarrow> []
      | Some hs \<Rightarrow>
          err_if (hs = []) (field @ '' must not be empty when provided'')
          @ concat (map (\<lambda>h. case validate_http_host_value h field allow_ips of
                               Some message \<Rightarrow> [message] | None \<Rightarrow> []) hs))"

definition HttpRequestConstraints_validate :: "HttpRequestConstraints \<Rightarrow> string list" where
  "HttpRequestConstraints_validate c =
     err_if (some_empty (allowed_schemes c)) ''allowed_schemes must not be empty when provided''
     @ host_list_errors ''allowed_hosts'' True (allowed_hosts c)
     @ host_list_errors ''allowed_host_suffixes'' False (allowed_host_suffixes c)
     @ (case allowed_ports c of
          None \<Rightarrow> []
        | Some ports \<Rightarrow>
            err_if (ports = []) ''allowed_ports must not be empty when provided''
            @ err_if (0 \<in> set ports) ''allowed_ports must not contain zero'')
     @ err_if (some_empty (allowed_methods c)) ''allowed_methods must not be empty when provided''
     @ (case allowed_path_prefixes c of
          None \<Rightarrow> []
        | Some ps \<Rightarrow>
            err_if (ps = []) ''allowed_path_prefixes must not be empty when provided''
            @ concat (map (\<lambda>p.
                if is_blank p then [''allowed_path_prefixes must not contain empty values'']
                else err_if (\<not> prefix ''/'' p) ''allowed_path_prefixes must start with `/`'') ps))
     @ err_if (max_timeout_ms c = Some 0) ''max_timeout_ms must be greater than zero when provided''
     @ err_if (max_response_bytes c = Some 0)
         ''max_response_bytes must be greater than zero when provided''
     @ (if follow_redirects c = Some True then
          err_if (max_redirects c = None \<or> max_redirects c = Some 0)
            ''max_redirects must be greater than zero when follow_redirects is true''
        else err_if (max_redirects c \<noteq> None) ''max_redirects requires follow_redirects to be true'')"

fun matches_capability :: "CapabilityConstraints \<Rightarrow> CapabilityId \<Rightarrow> CapabilityAccess \<Rightarrow> bool" where
  "matches_capability CC_None i a = True"
| "matches_capability (CC_Filesystem c) i a = (i = Filesystem \<and> (a = Read \<or> a = Write))"
| "matches_capability (CC_HttpRequest c) i a = (i = HttpRequest \<and> a = Read)"
| "matches_capability (CC_ReadResource c) i a = (i = ReadResource \<and> a = Read)"
| "matches_capability (CC_InvokeDependency c) i a = (i = InvokeSkill \<and> a = Invoke)"
| "matches_capability (CC_EmitEvidence c) i a = (i = EmitEvidence \<and> a = Write)"
| "matches_capability (CC_Log c) i a = (i = LogWrite \<and> a = Write)"

definition validate_for :: "CapabilityConstraints \<Rightarrow> CapabilityId \<Rightarrow> CapabilityAccess \<Rightarrow> string list" where
  "validate_for cc i a =
     (if i = Filesystem \<and> cc = CC_None then
        [''filesystem capabilities must declare explicit filesystem constraints'']
      else if \<not> matches_capability cc i a then
        [''constraints for '' @ capability_id_label i @ '':'' @ capability_access_label a
         @ '' must match the capability family'']
      else (case cc of
              CC_None \<Rightarrow> []
            | CC_Filesystem c \<Rightarrow> FilesystemConstraints_validate c a
            | CC_HttpRequest c \<Rightarrow> HttpRequestConstraints_validate c
            | CC_ReadResource c \<Rightarrow> ReadResourceConstraints_validate c
            | CC_InvokeDependency c \<Rightarrow> InvokeDependencyConstraints_validate c
            | CC_EmitEvidence c \<Rightarrow> EmitEvidenceConstraints_validate c
            | CC_Log c \<Rightarrow> LogConstraints_validate c))"

definition CapabilityRequirement_validate :: "CapabilityRequirement \<Rightarrow> string list" where
  "CapabilityRequirement_validate r = validate_for (req_constraints r) (req_id r) (req_access r)"

definition GrantedCapability_validate :: "GrantedCapability \<Rightarrow> string list" where
  "GrantedCapability_validate g = validate_for (g_constraints g) (g_id g) (g_access g)"

section \<open>Policy configuration\<close>

definition PolicyRule_validate :: "PolicyRule \<Rightarrow> string list" where
  "PolicyRule_validate r =
     (case rule_name r of
        None \<Rightarrow> []
      | Some n \<Rightarrow> err_if (is_blank n) ''policy rule names must not be empty when provided'')
     @ (case rule_skills r of
          None \<Rightarrow> []
        | Some skills \<Rightarrow>
            err_if (skills = []) ''policy rule skills must not be empty when provided''
            @ err_if (list_ex (\<lambda>k. is_blank (sk_namespace k) \<or> is_blank (sk_name k)) skills)
                ''policy rule skills must not contain empty namespace or name values'')
     @ (case rule_publisher_ids r of
          None \<Rightarrow> []
        | Some ids \<Rightarrow>
            err_if (ids = []) ''policy rule publisher_ids must not be empty when provided''
            @ err_if (list_ex is_blank ids) ''policy rule publisher_ids must not contain empty values'')
     @ err_if (some_empty (rule_trust_tiers r))
         ''policy rule trust_tiers must not be empty when provided''
     @ err_if (some_empty (rule_verification_states r))
         ''policy rule verification_states must not be empty when provided''
     @ err_if (grants (rule_capabilities r) = [])
         ''policy rules must declare at least one capability ceiling''
     @ enum_errors (\<lambda>index g.
         map (\<lambda>message. ''policy rule capability grant '' @ dec_of_nat index @ '': '' @ message)
           (GrantedCapability_validate g)) (grants (rule_capabilities r))"

definition PolicyProfile_validate :: "PolicyProfile \<Rightarrow> string list" where
  "PolicyProfile_validate p =
     err_if (is_blank (profile_name p)) ''policy profile names must not be empty''
     @ enum_errors (\<lambda>index r.
         map (\<lambda>message. ''policy profile rules['' @ dec_of_nat index @ '']: '' @ message)
           (PolicyRule_validate r)) (rules p)"

definition selector_errors :: "string list option \<Rightarrow> string \<Rightarrow> string \<Rightarrow> string list" where
  "selector_errors ids m_empty m_blank =
     (case ids of None \<Rightarrow> [] | Some xs \<Rightarrow> err_if (xs = []) m_empty @ err_if (list_ex is_blank xs) m_blank)"

definition PolicyProfileBinding_validate :: "PolicyProfileBinding \<Rightarrow> string list" where
  "PolicyProfileBinding_validate b =
     (case binding_name b of
        None \<Rightarrow> []
      | Some n \<Rightarrow> err_if (is_blank n) ''policy profile binding names must not be empty when provided'')
     @ err_if (is_blank (binding_profile b))
         ''policy profile bindings must reference a non-empty profile''
     @ err_if (binding_actor_ids b = None \<and> binding_tenant_ids b = None)
         ''policy profile bindings must declare at least one actor_ids or tenant_ids selector''
     @ selector_errors (binding_actor_ids b)
         ''policy profile binding actor_ids must not be empty''
         ''policy profile binding actor_ids must not contain empty values''
     @ selector_errors (binding_tenant_ids b)
         ''policy profile binding tenant_ids must not be empty''
         ''policy profile binding tenant_ids must not contain empty values''"

text \<open>The profile loop with its \<open>profile_names\<close> set.\<close>

fun profiles_errors :: "nat \<Rightarrow> PolicyProfile list \<Rightarrow> string list \<Rightarrow> string list" where
  "profiles_errors index [] names = []"
| "profiles_errors index (p # ps) names =
     map (\<lambda>message. ''policy profiles['' @ dec_of_nat index @ '']: '' @ message) (PolicyProfile_validate p)
     @ err_if (\<not> is_blank (profile_name p) \<and> profile_name p \<in> set names)
         (''policy profiles['' @ dec_of_nat index @ ''] reused duplicate profile name '' @ profile_name p)
     @ profiles_errors (Suc index) ps
         (if is_blank (profile_name p) then names else profile_name p # names)"

definition LocalPolicyConfig_validate :: "LocalPolicyConfig \<Rightarrow> string list" where
  "LocalPolicyConfig_validate c =
     err_if (is_blank (default_profile c)) ''local policy default_profile must not be empty''
     @ err_if (profiles c = []) ''local policy must declare at least one profile''
     @ profiles_errors 0 (profiles c) []
     @ err_if (\<not> list_ex (\<lambda>p. profile_name p = default_profile c) (profiles c))
         ''local policy default_profile must reference a declared profile''
     @ enum_errors (\<lambda>index b.
         map (\<lambda>message. ''policy bindings['' @ dec_of_nat index @ '']: '' @ message)
           (PolicyProfileBinding_validate b)
         @ err_if (\<not> is_blank (binding_profile b)
                   \<and> \<not> list_ex (\<lambda>p. profile_name p = binding_profile b) (profiles c))
             (''policy bindings['' @ dec_of_nat index @ ''] referenced unknown profile ''
              @ binding_profile b)) (bindings c)"

section \<open>What an empty error list guarantees\<close>

lemma err_if_Nil [simp]: "err_if c m = [] \<longleftrightarrow> \<not> c"
  by simp

lemma profiles_errors_Nil:
  "profiles_errors i ps names = [] \<Longrightarrow>
     (\<forall>p \<in> set ps. PolicyProfile_validate p = [] \<and> \<not> is_blank (profile_name p) \<and> profile_name p \<notin> set names)
     \<and> distinct (map profile_name ps)"
proof (induction i ps names rule: profiles_errors.induct)
  case (2 i p ps names)
  from "2.prems" have p: "PolicyProfile_validate p = []" by simp
  then have nb: "\<not> is_blank (profile_name p)"
    by (simp add: PolicyProfile_validate_def)
  have rest: "profiles_errors (Suc i) ps (profile_name p # names) = []"
    and new: "profile_name p \<notin> set names"
    using "2.prems" nb by auto
  then show ?case
    using "2.IH" nb p by (auto simp: image_iff)
qed simp

lemma policy_valid_unique_profile:
  assumes "LocalPolicyConfig_validate c = []" "p \<in> set (profiles c)" "q \<in> set (profiles c)"
    and "profile_name p = profile_name q"
  shows "p = q"
proof -
  have "distinct (map profile_name (profiles c))"
    using assms(1) profiles_errors_Nil[of 0 "profiles c" "[]"]
    by (simp add: LocalPolicyConfig_validate_def split: if_splits)
  with assms(2-4) show ?thesis by (auto simp: distinct_map inj_on_def)
qed

lemma policy_valid_default_declared:
  "LocalPolicyConfig_validate c = [] \<Longrightarrow> \<exists>p \<in> set (profiles c). profile_name p = default_profile c"
  by (auto simp: LocalPolicyConfig_validate_def list_ex_iff split: if_splits)

lemma PolicyProfileBinding_validate_profile:
  "PolicyProfileBinding_validate b = [] \<Longrightarrow> \<not> is_blank (binding_profile b)"
  by (auto simp: PolicyProfileBinding_validate_def split: if_splits)

lemma policy_valid_binding_declared:
  assumes "LocalPolicyConfig_validate c = []" "b \<in> set (bindings c)"
  shows "\<exists>p \<in> set (profiles c). profile_name p = binding_profile b"
proof -
  obtain i where i: "i < length (bindings c)" "bindings c ! i = b"
    using assms(2) by (auto simp: in_set_conv_nth)
  have "PolicyProfileBinding_validate b = []
        \<and> (is_blank (binding_profile b) \<or> list_ex (\<lambda>p. profile_name p = binding_profile b) (profiles c))"
    using assms(1) i by (auto simp: LocalPolicyConfig_validate_def enum_errors_Nil split: if_splits)
  then show ?thesis
    using PolicyProfileBinding_validate_profile by (auto simp: list_ex_iff)
qed

text \<open>A grant that validates has constraints of its own family.\<close>

lemma validate_for_family: "validate_for cc i a = [] \<Longrightarrow> matches_capability cc i a"
  by (auto simp: validate_for_def split: if_splits)

lemma grant_valid_http_redirects:
  assumes "GrantedCapability_validate g = []" "g_constraints g = CC_HttpRequest c"
    and "follow_redirects c = Some True"
  shows "\<exists>n. max_redirects c = Some n \<and> 0 < n"
proof -
  have "max_redirects c \<noteq> None \<and> max_redirects c \<noteq> Some 0"
    using assms by (auto simp: GrantedCapability_validate_def validate_for_def
        HttpRequestConstraints_validate_def split: if_splits)
  then show ?thesis by (auto simp: word_gt_0)
qed

lemma root_path_rejected: "validate_filesystem_guest_path_prefix ''/'' \<noteq> None"
  by (simp add: validate_filesystem_guest_path_prefix_def)

section \<open>Claims\<close>

text \<open>A policy configuration that validates can be looked up: profile names are unique, and the default profile
  and the profile of every binding are declared.\<close>

theorem valid_policy_profiles:
  assumes "LocalPolicyConfig_validate c = []"
  shows "distinct (map profile_name (profiles c))
    \<and> default_profile c \<in> profile_name ` set (profiles c)
    \<and> binding_profile ` set (bindings c) \<subseteq> profile_name ` set (profiles c)"
proof -
  have "distinct (map profile_name (profiles c))"
    using assms profiles_errors_Nil[of 0 "profiles c" "[]"]
    by (simp add: LocalPolicyConfig_validate_def split: if_splits)
  then show ?thesis
    using policy_valid_default_declared [OF assms] policy_valid_binding_declared [OF assms] by force
qed

theorem valid_policy_profiles_witness:
  "LocalPolicyConfig_validate LocalPolicyConfig_default = []
   \<and> default_profile LocalPolicyConfig_default \<in> profile_name ` set (profiles LocalPolicyConfig_default)"
proof -
  have ok: "LocalPolicyConfig_validate LocalPolicyConfig_default = []"
    by code_simp
  show ?thesis
    using ok valid_policy_profiles [OF ok] by blast
qed

text \<open>A grant that validates carries constraints of its own capability, and an HTTP grant that follows redirects
  states a positive redirect limit.\<close>

theorem valid_grant_constraints:
  assumes "GrantedCapability_validate g = []"
  shows "matches_capability (g_constraints g) (g_id g) (g_access g)
    \<and> (case g_constraints g of
        CC_HttpRequest c \<Rightarrow> follow_redirects c = Some True \<longrightarrow> is_some_and (max_redirects c) (\<lambda>n. 0 < n)
      | _ \<Rightarrow> True)"
  using assms grant_valid_http_redirects [OF assms] validate_for_family
  by (fastforce simp: GrantedCapability_validate_def split: CapabilityConstraints.split)

theorem valid_grant_constraints_witness:
  "GrantedCapability_validate \<lparr>g_id = HttpRequest, g_access = Read, g_constraints = CC_HttpRequest
      (HttpRequestConstraints_default\<lparr>follow_redirects := Some True, max_redirects := Some 3\<rparr>)\<rparr> = []
   \<and> matches_capability (CC_HttpRequest
      (HttpRequestConstraints_default\<lparr>follow_redirects := Some True, max_redirects := Some 3\<rparr>)) HttpRequest Read"
    (is "GrantedCapability_validate ?g = [] \<and> _")
proof -
  have ok: "GrantedCapability_validate ?g = []"
    by code_simp
  show ?thesis
    using ok valid_grant_constraints [OF ok] by simp
qed

text \<open>The guest path prefix \<open>/\<close> never validates: its single segment is empty and is refused, although the
  message asks for a prefix that starts at the root.\<close>

theorem root_guest_path_refused: "validate_filesystem_guest_path_prefix ''/'' \<noteq> None"
  by (rule root_path_rejected)

end
