(* ===== verification/Guild_Manifest.thy ===== *)
theory Guild_Manifest
  imports Guild_Validate
begin

text \<open>
  Skill manifests (\<open>crates/guild-manifest/src/lib.rs\<close>): the source and the installed manifest,
  their validators and the projection of a source manifest into installed state.
\<close>

section \<open>Data\<close>

record RuntimeSpec =
  runtime_kind :: RuntimeKind
  entrypoint :: string
  guest_abi_version :: AbiVersion

record InterfaceSpec =
  input_schema_uri :: string
  output_schema_uri :: string
  examples_uri :: "string option"

record ModePolicy =
  supported :: "ExecutionMode list"
  apply_requires_approval :: bool
  apply_requires_idempotency_key :: bool

record BehaviorSpec =
  category :: SkillCategory
  mutability :: Mutability
  idempotent :: bool
  open_world :: bool
  freshness :: FreshnessClass
  modes :: ModePolicy

record SourceDependencySpec =
  sdep_alias :: string
  sdep_skill :: RequestedSkillRef

record InstalledDependencySpec =
  dep_alias :: string
  dep_skill :: ResolvedSkillRef

record PublisherRef =
  publisher_id :: string
  publisher_display_name :: string
  homepage :: "string option"

datatype Visibility = Private | Org | Public
datatype TrustTier = Tier_Local | Tier_Community | Tier_Verified

record SourcePackageSpec =
  spkg_visibility :: Visibility
  spkg_trust_tier :: TrustTier
  spkg_sbom_uri :: "string option"
  spkg_signature_uri :: "string option"

record PackageSpec =
  pkg_visibility :: Visibility
  pkg_trust_tier :: TrustTier
  artifact_uri :: string
  artifact_digest :: string
  pkg_sbom_uri :: "string option"
  pkg_signature_uri :: "string option"

record TestSpec =
  test_name :: string
  fixtures_uri :: string
  expected_output_uri :: string

datatype SourceBuildKind = CargoWasmComponent
datatype BuildProfile = Release

record SourceBuildSpec =
  build_kind :: SourceBuildKind
  cargo_manifest_path :: string
  build_target :: string
  build_profile :: BuildProfile

record SkillManifest =
  manifest_schema_version :: ManifestSchemaVersion
  skill_api_version :: SkillApiVersion
  m_key :: SkillKey
  m_version :: semver_version
  display_name :: string
  description :: string
  runtime :: RuntimeSpec
  interface :: InterfaceSpec
  behavior :: BehaviorSpec
  capabilities :: "CapabilityRequirement list"
  dependencies :: "InstalledDependencySpec list"
  publisher :: PublisherRef
  package :: PackageSpec
  m_tests :: "TestSpec list"

record SourceSkillManifest =
  s_manifest_schema_version :: ManifestSchemaVersion
  s_skill_api_version :: SkillApiVersion
  s_key :: SkillKey
  s_version :: semver_version
  s_display_name :: string
  s_description :: string
  s_runtime :: RuntimeSpec
  s_interface :: InterfaceSpec
  s_behavior :: BehaviorSpec
  s_capabilities :: "CapabilityRequirement list"
  s_dependencies :: "SourceDependencySpec list"
  s_publisher :: PublisherRef
  s_package :: SourcePackageSpec
  s_build :: SourceBuildSpec
  s_tests :: "TestSpec list"

record ManifestValidationError =
  err_path :: string
  err_message :: string

abbreviation mverr :: "string \<Rightarrow> string \<Rightarrow> ManifestValidationError" where
  "mverr p m \<equiv> \<lparr>err_path = p, err_message = m\<rparr>"

section \<open>Validation\<close>

definition INSPECT_WORLD_ENTRYPOINT :: string where
  "INSPECT_WORLD_ENTRYPOINT = ''guild-skill-inspect-v1''"

definition ModePolicy_supports :: "ModePolicy \<Rightarrow> ExecutionMode \<Rightarrow> bool" where
  "ModePolicy_supports p m = list_ex (\<lambda>candidate. candidate = m) (supported p)"

definition ModePolicy_validate :: "ModePolicy \<Rightarrow> ManifestValidationError list" where
  "ModePolicy_validate p =
     (if supported p = [] then
        [mverr ''behavior.modes.supported'' ''supported execution modes must not be empty''] else [])
     @ (if \<not> ModePolicy_supports p Apply \<and> apply_requires_approval p then
          [mverr ''behavior.modes.apply_requires_approval''
             ''apply approval cannot be required when apply mode is unsupported''] else [])
     @ (if \<not> ModePolicy_supports p Apply \<and> apply_requires_idempotency_key p then
          [mverr ''behavior.modes.apply_requires_idempotency_key''
             ''apply idempotency cannot be required when apply mode is unsupported''] else [])"

definition validate_runtime_contract :: "RuntimeSpec \<Rightarrow> ModePolicy \<Rightarrow> ManifestValidationError list" where
  "validate_runtime_contract r p =
     (let uses_inspect_world =
        (entrypoint r = INSPECT_WORLD_ENTRYPOINT \<or> guest_abi_version r = Abi_GuildSkillInspectV1)
      in (if entrypoint r = INSPECT_WORLD_ENTRYPOINT \<and> guest_abi_version r \<noteq> Abi_GuildSkillInspectV1 then
            [mverr ''runtime.guest_abi_version''
               ''guild-skill-inspect-v1 entrypoint requires guest_abi_version = guild-skill-inspect-v1'']
          else [])
         @ (if guest_abi_version r = Abi_GuildSkillInspectV1 \<and> entrypoint r \<noteq> INSPECT_WORLD_ENTRYPOINT then
              [mverr ''runtime.entrypoint''
                 ''guild-skill-inspect-v1 guest ABI requires runtime.entrypoint = guild-skill-inspect-v1'']
            else [])
         @ (if uses_inspect_world \<and> list_ex (\<lambda>m. m \<noteq> Inspect) (supported p) then
              [mverr ''behavior.modes.supported''
                 ''guild-skill-inspect-v1 skills must remain inspect-only and must not declare plan/apply modes'']
            else []))"

definition dependency_path :: "nat \<Rightarrow> string \<Rightarrow> string" where
  "dependency_path index field = ''dependencies['' @ dec_of_nat index @ '']'' @ field"

text \<open>The alias checks shared by both dependency loops.\<close>

definition alias_errors :: "nat \<Rightarrow> string \<Rightarrow> string list \<Rightarrow> ManifestValidationError list" where
  "alias_errors index alias seen =
     (if is_blank alias then
        [mverr (dependency_path index ''.alias'') ''dependency aliases must not be empty''] else [])
     @ (if alias \<in> set seen then
          [mverr (dependency_path index ''.alias'') ''dependency aliases must be unique''] else [])"

fun validate_source_dependencies_from ::
  "nat \<Rightarrow> string list \<Rightarrow> SourceDependencySpec list \<Rightarrow> ManifestValidationError list" where
  "validate_source_dependencies_from index seen [] = []"
| "validate_source_dependencies_from index seen (d # ds) =
     alias_errors index (sdep_alias d) seen
     @ validate_source_dependencies_from (Suc index) (sdep_alias d # seen) ds"

definition validate_source_dependencies :: "SourceDependencySpec list \<Rightarrow> ManifestValidationError list" where
  "validate_source_dependencies ds = validate_source_dependencies_from 0 [] ds"

fun validate_installed_dependencies_from ::
  "nat \<Rightarrow> string list \<Rightarrow> InstalledDependencySpec list \<Rightarrow> ManifestValidationError list" where
  "validate_installed_dependencies_from index seen [] = []"
| "validate_installed_dependencies_from index seen (d # ds) =
     alias_errors index (dep_alias d) seen
     @ (if is_blank (rs_digest (dep_skill d)) then
          [mverr (dependency_path index ''.skill.digest'')
             ''installed dependency digests are required for execution''] else [])
     @ validate_installed_dependencies_from (Suc index) (dep_alias d # seen) ds"

definition validate_installed_dependencies ::
  "InstalledDependencySpec list \<Rightarrow> ManifestValidationError list" where
  "validate_installed_dependencies ds = validate_installed_dependencies_from 0 [] ds"

definition validate_capabilities :: "CapabilityRequirement list \<Rightarrow> ManifestValidationError list" where
  "validate_capabilities cs =
     enum_errors (\<lambda>index c.
       map (\<lambda>message. mverr (''capabilities['' @ dec_of_nat index @ ''].constraints'') message)
         (CapabilityRequirement_validate c)) cs"

definition SkillManifest_validate :: "SkillManifest \<Rightarrow> ManifestValidationError list + unit" where
  "SkillManifest_validate m =
     (let errors = ModePolicy_validate (modes (behavior m))
                   @ validate_runtime_contract (runtime m) (modes (behavior m))
                   @ validate_installed_dependencies (dependencies m)
                   @ validate_capabilities (capabilities m)
      in if errors = [] then Inr () else Inl errors)"

definition supports_mode :: "SkillManifest \<Rightarrow> ExecutionMode \<Rightarrow> bool" where
  "supports_mode m mode = ModePolicy_supports (modes (behavior m)) mode"

definition SourceSkillManifest_validate :: "SourceSkillManifest \<Rightarrow> ManifestValidationError list + unit" where
  "SourceSkillManifest_validate m =
     (let errors = ModePolicy_validate (modes (s_behavior m))
                   @ validate_runtime_contract (s_runtime m) (modes (s_behavior m))
                   @ validate_source_dependencies (s_dependencies m)
                   @ validate_capabilities (s_capabilities m)
                   @ (if is_blank (cargo_manifest_path (s_build m)) then
                        [mverr ''build.cargo_manifest_path''
                           ''build.cargo_manifest_path must not be empty''] else [])
                   @ (if is_blank (build_target (s_build m)) then
                        [mverr ''build.target'' ''build.target must not be empty''] else [])
                   @ (if build_kind (s_build m) = CargoWasmComponent
                         \<and> runtime_kind (s_runtime m) \<noteq> WasmComponent then
                        [mverr ''runtime.kind''
                           ''cargo-wasm-component builds require runtime.kind = wasm-component'']
                      else [])
      in if errors = [] then Inr () else Inl errors)"

definition into_installed ::
  "SourceSkillManifest \<Rightarrow> string \<Rightarrow> string \<Rightarrow> InstalledDependencySpec list \<Rightarrow> SkillManifest" where
  "into_installed s uri digest deps =
     \<lparr>manifest_schema_version = s_manifest_schema_version s,
      skill_api_version = s_skill_api_version s,
      m_key = s_key s, m_version = s_version s,
      display_name = s_display_name s, description = s_description s,
      runtime = s_runtime s, interface = s_interface s, behavior = s_behavior s,
      capabilities = s_capabilities s, dependencies = deps, publisher = s_publisher s,
      package = \<lparr>pkg_visibility = spkg_visibility (s_package s),
                 pkg_trust_tier = spkg_trust_tier (s_package s),
                 artifact_uri = uri, artifact_digest = digest,
                 pkg_sbom_uri = spkg_sbom_uri (s_package s),
                 pkg_signature_uri = spkg_signature_uri (s_package s)\<rparr>,
      m_tests = s_tests s\<rparr>"

section \<open>What validation guarantees\<close>

lemma alias_errors_Nil [simp]: "alias_errors i a seen = [] \<longleftrightarrow> \<not> is_blank a \<and> a \<notin> set seen"
  by (auto simp: alias_errors_def)

lemma installed_dependencies_Nil:
  "validate_installed_dependencies_from i seen ds = [] \<longleftrightarrow>
     (\<forall>d \<in> set ds. \<not> is_blank (dep_alias d) \<and> dep_alias d \<notin> set seen \<and> \<not> is_blank (rs_digest (dep_skill d)))
     \<and> distinct (map dep_alias ds)"
  by (induction i seen ds rule: validate_installed_dependencies_from.induct) (auto simp: image_iff)

lemma source_dependencies_Nil:
  "validate_source_dependencies_from i seen ds = [] \<longleftrightarrow>
     (\<forall>d \<in> set ds. \<not> is_blank (sdep_alias d) \<and> sdep_alias d \<notin> set seen)
     \<and> distinct (map sdep_alias ds)"
  by (induction i seen ds rule: validate_source_dependencies_from.induct) (auto simp: image_iff)

lemma validate_capabilities_Nil:
  "validate_capabilities cs = [] \<longleftrightarrow> list_all (\<lambda>c. CapabilityRequirement_validate c = []) cs"
  unfolding validate_capabilities_def by (rule enum_errors_Nil_set) simp

lemma SkillManifest_validate_Inr:
  "SkillManifest_validate m = Inr () \<longleftrightarrow>
     ModePolicy_validate (modes (behavior m)) = []
     \<and> validate_runtime_contract (runtime m) (modes (behavior m)) = []
     \<and> validate_installed_dependencies (dependencies m) = []
     \<and> validate_capabilities (capabilities m) = []"
  by (simp add: SkillManifest_validate_def Let_def)

lemma SourceSkillManifest_validate_Inr:
  "SourceSkillManifest_validate m = Inr () \<Longrightarrow>
     ModePolicy_validate (modes (s_behavior m)) = []
     \<and> validate_runtime_contract (s_runtime m) (modes (s_behavior m)) = []
     \<and> validate_source_dependencies (s_dependencies m) = []
     \<and> validate_capabilities (s_capabilities m) = []
     \<and> runtime_kind (s_runtime m) = WasmComponent"
  by (cases "build_kind (s_build m)")
    (auto simp: SourceSkillManifest_validate_def Let_def split: if_splits)

lemma runtime_contract_inspect_only:
  assumes "validate_runtime_contract r p = []" "guest_abi_version r = Abi_GuildSkillInspectV1"
  shows "entrypoint r = INSPECT_WORLD_ENTRYPOINT" "m \<in> set (supported p) \<Longrightarrow> m = Inspect"
  using assms by (auto simp: validate_runtime_contract_def Let_def list_ex_iff split: if_splits)

lemma installed_valid_iff_deps:
  assumes "SourceSkillManifest_validate s = Inr ()"
  shows "SkillManifest_validate (into_installed s uri digest deps) = Inr ()
    \<longleftrightarrow> (\<forall>d \<in> set deps. \<not> is_blank (dep_alias d) \<and> \<not> is_blank (rs_digest (dep_skill d)))
        \<and> distinct (map dep_alias deps)"
  using SourceSkillManifest_validate_Inr[OF assms]
  by (simp add: SkillManifest_validate_Inr into_installed_def validate_installed_dependencies_def
      installed_dependencies_Nil)

lemma inspect_abi_modes:
  assumes "SkillManifest_validate m = Inr ()" "guest_abi_version (runtime m) = Abi_GuildSkillInspectV1"
  shows "entrypoint (runtime m) = INSPECT_WORLD_ENTRYPOINT
    \<and> (supports_mode m mode \<longrightarrow> mode = Inspect)"
  using assms runtime_contract_inspect_only [of "runtime m" "modes (behavior m)"]
  by (auto simp: SkillManifest_validate_Inr supports_mode_def ModePolicy_supports_def list_ex_iff)

section \<open>Claims\<close>

text \<open>Installation preserves validity: a source manifest that validates becomes a valid installed manifest exactly
  when the resolved dependencies have nonblank, pairwise distinct aliases and nonblank digests.\<close>

theorem installed_manifest_valid:
  assumes "SourceSkillManifest_validate s = Inr ()"
  shows "SkillManifest_validate (into_installed s uri digest deps) = Inr ()
    \<longleftrightarrow> (\<forall>d \<in> set deps. \<not> is_blank (dep_alias d) \<and> \<not> is_blank (rs_digest (dep_skill d)))
        \<and> distinct (map dep_alias deps)"
  using assms by (rule installed_valid_iff_deps)

definition sample_key :: SkillKey where
  "sample_key = \<lparr>sk_namespace = ''acme'', sk_name = ''disk''\<rparr>"

definition sample_source :: SourceSkillManifest where
  "sample_source =
     \<lparr>s_manifest_schema_version = GuildManifestV1, s_skill_api_version = Api_GuildSkillV1,
      s_key = sample_key, s_version = ''1.0.0'',
      s_display_name = ''Disk'', s_description = ''Disk usage'',
      s_runtime = \<lparr>runtime_kind = WasmComponent, entrypoint = INSPECT_WORLD_ENTRYPOINT,
        guest_abi_version = Abi_GuildSkillInspectV1\<rparr>,
      s_interface = \<lparr>input_schema_uri = ''schemas/in.json'', output_schema_uri = ''schemas/out.json'',
        examples_uri = None\<rparr>,
      s_behavior = \<lparr>category = Inventory, mutability = ReadOnly, idempotent = True, open_world = False,
        freshness = EnvironmentBound, modes = \<lparr>supported = [Inspect], apply_requires_approval = False,
          apply_requires_idempotency_key = False\<rparr>\<rparr>,
      s_capabilities = [\<lparr>req_id = LogWrite, req_access = Write,
        req_constraints = CC_Log \<lparr>levels = Some [Info]\<rparr>, required = True\<rparr>],
      s_dependencies = [], s_publisher = \<lparr>publisher_id = ''acme'', publisher_display_name = ''Acme'', homepage = None\<rparr>,
      s_package = \<lparr>spkg_visibility = Private, spkg_trust_tier = Tier_Local, spkg_sbom_uri = None,
        spkg_signature_uri = None\<rparr>,
      s_build = \<lparr>build_kind = CargoWasmComponent, cargo_manifest_path = ''Cargo.toml'',
        build_target = ''wasm32-wasip2'', build_profile = Release\<rparr>,
      s_tests = []\<rparr>"

theorem installed_manifest_valid_witness:
  "SourceSkillManifest_validate sample_source = Inr ()
   \<and> SkillManifest_validate (into_installed sample_source ''artifact.wasm'' ''d1'' []) = Inr ()"
proof -
  have ok: "SourceSkillManifest_validate sample_source = Inr ()"
    by code_simp
  show ?thesis
    using ok installed_manifest_valid [OF ok, of "''artifact.wasm''" "''d1''" "[]"] by simp
qed

text \<open>A validated manifest of the inspect ABI exports the inspect world and supports inspection only: it can
  never be run in a planning or applying mode.\<close>

theorem inspect_abi_inspects:
  assumes "SkillManifest_validate m = Inr ()" "guest_abi_version (runtime m) = Abi_GuildSkillInspectV1"
  shows "entrypoint (runtime m) = INSPECT_WORLD_ENTRYPOINT
    \<and> (supports_mode m mode \<longrightarrow> mode = Inspect)"
  using assms by (rule inspect_abi_modes)

theorem inspect_abi_inspects_witness:
  "SkillManifest_validate (into_installed sample_source ''artifact.wasm'' ''d1'' []) = Inr ()
   \<and> \<not> supports_mode (into_installed sample_source ''artifact.wasm'' ''d1'' []) Apply"
proof -
  let ?m = "into_installed sample_source ''artifact.wasm'' ''d1'' []"
  have ok: "SkillManifest_validate ?m = Inr ()"
    and abi: "guest_abi_version (runtime ?m) = Abi_GuildSkillInspectV1"
    by code_simp+
  show ?thesis
    using ok inspect_abi_inspects [OF ok abi, of Apply] by auto
qed

end
