(* ===== verification/Guild_Registry.thy ===== *)
theory Guild_Registry
  imports Guild_Manifest Guild_Serde
begin

text \<open>
  The installed-skill view of \<open>crates/guild-registry/src/lib.rs\<close>: installed skills with their
  trust metadata, version resolution over the loaded view, and exact digest-pinned lookup.

  Version requirements and the order of versions belong to the \<open>semver\<close> crate: \<open>req_matches\<close>
  stands for \<open>VersionReq::matches\<close> and \<open>ver_le\<close> for the order of \<open>Version\<close>. \<open>Vec::sort_by\<close> is
  a stable sort; insertion sort computes it.
\<close>

section \<open>Installed skills\<close>

record RegistryError =
  re_code :: string
  re_message :: string
  re_detail :: "json option"

datatype SignatureScheme = Ed25519
datatype VerificationStatus = Verified

record BundleSignatureEnvelope =
  bse_format_version :: string
  bse_scheme :: SignatureScheme
  bse_publisher_id :: string
  bse_bundle_sha256 :: string
  bse_signature_base64 :: string

record InstalledVerificationRecord =
  iv_status :: VerificationStatus
  iv_publisher :: PublisherRef
  iv_scheme :: SignatureScheme
  iv_bundle_sha256 :: string
  iv_signature :: BundleSignatureEnvelope

record InstalledTrustMetadata =
  verification_state :: InstalledVerificationState
  trust_tier :: LocalTrustTier

text \<open>A path is the list of its components.\<close>

type_synonym path = "string list"

record InstalledSkill =
  manifest :: SkillManifest
  resolved_ref :: ResolvedSkillRef
  manifest_path :: path
  artifact_path :: path
  root_dir :: path
  verification :: "InstalledVerificationRecord option"
  trust :: InstalledTrustMetadata

text \<open>
  Trust of an installed skill; the lookup of the publisher's record reads the trust store and
  is an argument.
\<close>

record TrustedPublisherRecord =
  tp_publisher :: PublisherRef
  tp_scheme :: SignatureScheme
  tp_public_key_base64 :: string
  tp_trust_tier :: LocalTrustTier

definition derive_installed_trust_metadata ::
  "(string \<Rightarrow> RegistryError + TrustedPublisherRecord) \<Rightarrow> InstalledVerificationRecord option
     \<Rightarrow> RegistryError + InstalledTrustMetadata" where
  "derive_installed_trust_metadata load_trusted_publisher v =
     (case v of
        None \<Rightarrow> Inr \<lparr>verification_state = LocalSource, trust_tier = LocalDev\<rparr>
      | Some rec \<Rightarrow>
          (case load_trusted_publisher (publisher_id (iv_publisher rec)) of
             Inr p \<Rightarrow> Inr \<lparr>verification_state = VerifiedImport, trust_tier = tp_trust_tier p\<rparr>
           | Inl e \<Rightarrow>
               if re_code e = ''bundle-publisher-untrusted''
               then Inr \<lparr>verification_state = VerifiedImport, trust_tier = Restricted\<rparr>
               else Inl e))"

section \<open>Resolution\<close>

record ResolutionSelection =
  sel_installed :: InstalledSkill
  sel_matching_versions :: "string list"

record SkillResolutionExplanation =
  ex_matching_versions :: "string list"
  ex_selected_version :: string
  ex_selected_digest :: string

fun insert_by :: "('a \<Rightarrow> 'a \<Rightarrow> bool) \<Rightarrow> 'a \<Rightarrow> 'a list \<Rightarrow> 'a list" where
  "insert_by le x [] = [x]"
| "insert_by le x (y # ys) = (if le x y then x # y # ys else y # insert_by le x ys)"

definition sort_by :: "('a \<Rightarrow> 'a \<Rightarrow> bool) \<Rightarrow> 'a list \<Rightarrow> 'a list" where
  "sort_by le xs = foldr (insert_by le) xs []"

definition version_of :: "InstalledSkill \<Rightarrow> semver_version" where
  "version_of i = rs_version (resolved_ref i)"

definition resolve_installed_selection ::
  "(semver_req \<Rightarrow> semver_version \<Rightarrow> bool) \<Rightarrow> (semver_version \<Rightarrow> semver_version \<Rightarrow> bool)
     \<Rightarrow> InstalledSkill list \<Rightarrow> RequestedSkillRef \<Rightarrow> RegistryError + ResolutionSelection" where
  "resolve_installed_selection req_matches ver_le installed skill =
     (let matching = filter (\<lambda>i. req_matches (rq_version_req skill) (version_of i))
                       (filter (\<lambda>i. m_key (manifest i) = rq_key skill) installed)
      in if matching = []
         then
           let detail = json_obj [(''namespace'', JString (sk_namespace (rq_key skill))),
                  (''name'', JString (sk_name (rq_key skill))),
                  (''version_req'', JString (rq_version_req skill))]
           in Inl (if list_ex (\<lambda>i. m_key (manifest i) = rq_key skill) installed
                   then \<lparr>re_code = ''skill-version-not-found'',
                         re_message = ''no installed skill version satisfied the requested version requirement'',
                         re_detail = Some detail\<rparr>
                   else \<lparr>re_code = ''skill-not-found'',
                         re_message = ''requested skill was not found in registry'',
                         re_detail = Some detail\<rparr>)
         else
           let sorted = sort_by (\<lambda>l r. ver_le (version_of l) (version_of r)) matching;
               matching_versions = remdups_adj (map version_of sorted);
               selected_version = version_of (last sorted);
               selected = filter (\<lambda>i. version_of i = selected_version) sorted
           in if length selected > 1
              then Inl \<lparr>re_code = ''skill-version-ambiguous'',
                     re_message = ''multiple installed digests matched the requested skill version'',
                     re_detail = Some (json_obj
                       [(''namespace'', JString (sk_namespace (rq_key skill))),
                        (''name'', JString (sk_name (rq_key skill))),
                        (''version'', JString selected_version),
                        (''version_req'', JString (rq_version_req skill)),
                        (''digests'', list_json (\<lambda>i. JString (rs_digest (resolved_ref i))) selected)])\<rparr>
              else Inr \<lparr>sel_installed = hd selected, sel_matching_versions = matching_versions\<rparr>)"

definition resolve ::
  "(semver_req \<Rightarrow> semver_version \<Rightarrow> bool) \<Rightarrow> (semver_version \<Rightarrow> semver_version \<Rightarrow> bool)
     \<Rightarrow> InstalledSkill list \<Rightarrow> RequestedSkillRef \<Rightarrow> RegistryError + InstalledSkill" where
  "resolve req_matches ver_le installed skill =
     res_bind (resolve_installed_selection req_matches ver_le installed skill) (\<lambda>s. Inr (sel_installed s))"

definition explain_resolution ::
  "(semver_req \<Rightarrow> semver_version \<Rightarrow> bool) \<Rightarrow> (semver_version \<Rightarrow> semver_version \<Rightarrow> bool)
     \<Rightarrow> InstalledSkill list \<Rightarrow> RequestedSkillRef \<Rightarrow> RegistryError + SkillResolutionExplanation" where
  "explain_resolution req_matches ver_le installed skill =
     res_bind (resolve_installed_selection req_matches ver_le installed skill) (\<lambda>s.
     Inr \<lparr>ex_matching_versions = sel_matching_versions s,
          ex_selected_version = version_of (sel_installed s),
          ex_selected_digest = rs_digest (resolved_ref (sel_installed s))\<rparr>)"

definition resolve_exact :: "InstalledSkill list \<Rightarrow> ResolvedSkillRef \<Rightarrow> RegistryError + InstalledSkill" where
  "resolve_exact installed skill =
     (case find (\<lambda>i. resolved_ref i = skill) installed of
        Some i \<Rightarrow> Inr i
      | None \<Rightarrow>
          (let detail = json_obj
                 [(''namespace'', JString (sk_namespace (rs_key skill))),
                  (''name'', JString (sk_name (rs_key skill))),
                  (''version'', JString (rs_version skill)),
                  (''digest'', JString (rs_digest skill))]
           in Inl (if list_ex (\<lambda>i. rs_key (resolved_ref i) = rs_key skill
                              \<and> rs_version (resolved_ref i) = rs_version skill) installed
                   then \<lparr>re_code = ''skill-digest-not-found'',
                         re_message = ''no installed skill matched the requested digest-pinned reference'',
                         re_detail = Some detail\<rparr>
                   else \<lparr>re_code = ''skill-not-found'',
                         re_message = ''requested resolved skill was not found in registry'',
                         re_detail = Some detail\<rparr>)))"

section \<open>Sorting\<close>

lemma set_insert_by [simp]: "set (insert_by le x xs) = insert x (set xs)"
  by (induction xs) auto

lemma mset_insert_by: "size (filter P (insert_by le x xs)) = (if P x then 1 else 0) + size (filter P xs)"
  by (induction xs) auto

lemma set_sort_by [simp]: "set (sort_by le xs) = set xs"
  by (induction xs) (simp_all add: sort_by_def)

lemma count_sort_by: "length (filter P (sort_by le xs)) = length (filter P xs)"
  by (induction xs) (simp_all add: sort_by_def mset_insert_by)

lemma sort_by_Nil_iff [simp]: "sort_by le xs = [] \<longleftrightarrow> xs = []"
  using set_sort_by[of le xs] set_empty by metis

definition total_preorder :: "('a \<Rightarrow> 'a \<Rightarrow> bool) \<Rightarrow> bool" where
  "total_preorder le \<longleftrightarrow> (\<forall>x y. le x y \<or> le y x) \<and> (\<forall>x y z. le x y \<longrightarrow> le y z \<longrightarrow> le x z)"

lemma sorted_insert_by:
  assumes "total_preorder le" "sorted_wrt le xs"
  shows "sorted_wrt le (insert_by le x xs)"
  using assms(2)
proof (induction xs)
  case (Cons y ys)
  have tot: "le a b \<or> le b a" and tr: "le a b \<Longrightarrow> le b c \<Longrightarrow> le a c" for a b c
    using assms(1) unfolding total_preorder_def by blast+
  show ?case
    using Cons tot[of x y] tr by auto
qed simp

lemma sorted_sort_by: "total_preorder le \<Longrightarrow> sorted_wrt le (sort_by le xs)"
  by (induction xs) (simp_all add: sort_by_def sorted_insert_by)

lemma sorted_last_max:
  "sorted_wrt le xs \<Longrightarrow> total_preorder le \<Longrightarrow> x \<in> set xs \<Longrightarrow> le x (last xs)"
proof (induction xs)
  case (Cons y ys)
  have "le y y"
    using Cons.prems(2) unfolding total_preorder_def by blast
  then show ?case
    using Cons by (cases ys) auto
qed simp

section \<open>What resolution selects\<close>

definition resolution_matches ::
  "(semver_req \<Rightarrow> semver_version \<Rightarrow> bool) \<Rightarrow> InstalledSkill list \<Rightarrow> RequestedSkillRef \<Rightarrow> InstalledSkill \<Rightarrow> bool" where
  "resolution_matches req_matches installed skill i \<longleftrightarrow>
     i \<in> set installed \<and> m_key (manifest i) = rq_key skill
     \<and> req_matches (rq_version_req skill) (version_of i)"

lemma last_singleton_filter:
  assumes "xs \<noteq> []" "length (filter P xs) \<le> 1" "P (last xs)"
  shows "filter P xs = [last xs]"
proof -
  have "last xs \<in> set (filter P xs)"
    using assms by simp
  with assms(2) show ?thesis
    by (cases "filter P xs") auto
qed

lemma resolve_selection_Inr:
  assumes ord: "total_preorder ver_le"
    and sel: "resolve_installed_selection req_matches ver_le installed skill = Inr r"
  shows "resolution_matches req_matches installed skill (sel_installed r)"
    and "resolution_matches req_matches installed skill i \<Longrightarrow>
      ver_le (version_of i) (version_of (sel_installed r))
      \<and> (version_of i = version_of (sel_installed r) \<longrightarrow> i = sel_installed r)"
proof -
  define ms where "ms = filter (\<lambda>i. req_matches (rq_version_req skill) (version_of i))
    (filter (\<lambda>i. m_key (manifest i) = rq_key skill) installed)"
  define le where "le = (\<lambda>l r. ver_le (version_of l) (version_of r))"
  define xs where "xs = sort_by le ms"
  let ?P = "\<lambda>i. version_of i = version_of (last xs)"
  have ne: "xs \<noteq> []" and one: "length (filter ?P xs) \<le> 1" and r: "sel_installed r = hd (filter ?P xs)"
    using sel unfolding resolve_installed_selection_def Let_def ms_def[symmetric] le_def[symmetric]
      xs_def[symmetric]
    by (auto split: if_splits simp: xs_def)
  have single: "filter ?P xs = [last xs]"
    by (rule last_singleton_filter[OF ne one]) simp
  then have last: "sel_installed r = last xs"
    using r by simp
  have mem: "i \<in> set xs \<longleftrightarrow> resolution_matches req_matches installed skill i" for i
    by (auto simp: xs_def ms_def resolution_matches_def)
  show "resolution_matches req_matches installed skill (sel_installed r)"
    using last ne mem last_in_set by metis
  have "total_preorder le"
    using ord unfolding total_preorder_def le_def by blast
  then have max: "i \<in> set xs \<Longrightarrow> le i (last xs)" for i
    using sorted_last_max[OF sorted_sort_by] unfolding xs_def by metis
  assume i: "resolution_matches req_matches installed skill i"
  then have "i \<in> set xs"
    by (simp add: mem)
  moreover have "i = last xs" if "version_of i = version_of (last xs)"
  proof -
    have "i \<in> set (filter ?P xs)"
      using \<open>i \<in> set xs\<close> that by simp
    then show ?thesis
      unfolding single by simp
  qed
  ultimately show "ver_le (version_of i) (version_of (sel_installed r))
      \<and> (version_of i = version_of (sel_installed r) \<longrightarrow> i = sel_installed r)"
    using max last unfolding le_def by auto
qed

lemma resolve_selection_not_found:
  "(\<exists>e. resolve_installed_selection req_matches ver_le installed skill = Inl e
      \<and> re_code e \<in> {''skill-not-found'', ''skill-version-not-found''})
   \<longleftrightarrow> (\<forall>i. \<not> resolution_matches req_matches installed skill i)"
  by (auto simp: resolve_installed_selection_def Let_def resolution_matches_def filter_empty_conv)

section \<open>Exact lookup as an interface\<close>

text \<open>
  Clients of exact lookup rely on the reference they asked for and on the finiteness of the
  installed set; the first law makes digest bookkeeping sound, the second bounds traversals.
\<close>

locale exact_registry =
  fixes lookup :: "ResolvedSkillRef \<Rightarrow> RegistryError + InstalledSkill"
  assumes lookup_ref: "lookup r = Inr s \<Longrightarrow> resolved_ref s = r"
    and lookup_finite: "finite {r. \<exists>s. lookup r = Inr s}"
begin

lemma lookup_inj: "lookup r = Inr s \<Longrightarrow> lookup q = Inr s \<Longrightarrow> r = q"
  using lookup_ref by metis

lemma digests_finite: "finite {rs_digest r | r s. lookup r = Inr s}"
proof -
  have "{rs_digest r | r s. lookup r = Inr s} = rs_digest ` {r. \<exists>s. lookup r = Inr s}"
    by auto
  then show ?thesis
    using lookup_finite by simp
qed

end

lemma resolve_exact_Inr: "resolve_exact installed r = Inr s \<Longrightarrow> s \<in> set installed \<and> resolved_ref s = r"
  by (auto simp: resolve_exact_def Let_def split: option.splits dest: find_SomeD)

interpretation local_registry: exact_registry "resolve_exact installed" for installed
proof
  show "resolve_exact installed r = Inr s \<Longrightarrow> resolved_ref s = r" for r s
    by (simp add: resolve_exact_Inr)
  have "{r. \<exists>s. resolve_exact installed r = Inr s} \<subseteq> resolved_ref ` set installed"
    using resolve_exact_Inr by blast
  then show "finite {r. \<exists>s. resolve_exact installed r = Inr s}"
    by (rule finite_subset) simp
qed

lemma resolve_exact_iff:
  "(\<exists>s. resolve_exact installed r = Inr s) \<longleftrightarrow> r \<in> resolved_ref ` set installed"
proof
  show "\<exists>s. resolve_exact installed r = Inr s \<Longrightarrow> r \<in> resolved_ref ` set installed"
    using resolve_exact_Inr by blast
  assume "r \<in> resolved_ref ` set installed"
  then have "find (\<lambda>i. resolved_ref i = r) installed \<noteq> None"
    by (auto simp: find_None_iff)
  then show "\<exists>s. resolve_exact installed r = Inr s"
    by (auto simp: resolve_exact_def)
qed

section \<open>Claims\<close>

text \<open>C38: Resolution selects the newest matching skill: a successful \<open>resolve\<close> returns an installed skill with the
  requested key whose version meets the requirement, no other match is newer, and it is the only match of
  its version.\<close>

theorem resolve_selects_newest:
  assumes "total_preorder ver_le" "resolve req_matches ver_le installed skill = Inr s"
  shows "resolution_matches req_matches installed skill s
    \<and> (\<forall>i. resolution_matches req_matches installed skill i \<longrightarrow>
         ver_le (version_of i) (version_of s) \<and> (version_of i = version_of s \<longrightarrow> i = s))"
proof -
  obtain r where "resolve_installed_selection req_matches ver_le installed skill = Inr r" "s = sel_installed r"
    using assms(2) by (auto simp: resolve_def res_bind_Inr_iff)
  then show ?thesis
    using resolve_selection_Inr [OF assms(1)] by blast
qed

definition sample_installed :: "semver_version \<Rightarrow> string \<Rightarrow> InstalledSkill" where
  "sample_installed v d =
     \<lparr>manifest = (into_installed sample_source ''artifact.wasm'' d [])\<lparr>m_version := v\<rparr>,
      resolved_ref = \<lparr>rs_key = sample_key, rs_version = v, rs_digest = d\<rparr>,
      manifest_path = [''skills'', ''manifest.json''], artifact_path = [''skills'', ''artifact.wasm''], root_dir = [''skills''],
      verification = None, trust = \<lparr>verification_state = LocalSource, trust_tier = LocalDev\<rparr>\<rparr>"

definition sample_ver_le :: "semver_version \<Rightarrow> semver_version \<Rightarrow> bool" where
  "sample_ver_le v w \<longleftrightarrow> length v \<le> length w"

theorem resolve_selects_newest_witness:
  "resolve (\<lambda>r v. True) sample_ver_le [sample_installed ''1.10.0'' ''d2'', sample_installed ''1.9.0'' ''d1'']
       \<lparr>rq_key = sample_key, rq_version_req = ''^1''\<rparr> = Inr (sample_installed ''1.10.0'' ''d2'')
   \<and> sample_ver_le ''1.9.0'' ''1.10.0''"
    (is "resolve ?m _ ?inst ?req = Inr ?s \<and> _")
proof -
  have ord: "total_preorder sample_ver_le"
    by (auto simp: total_preorder_def sample_ver_le_def)
  have res: "resolve ?m sample_ver_le ?inst ?req = Inr ?s"
    by code_simp
  have "resolution_matches ?m ?inst ?req (sample_installed ''1.9.0'' ''d1'')"
    by code_simp
  then have "sample_ver_le (version_of (sample_installed ''1.9.0'' ''d1'')) (version_of ?s)"
    using resolve_selects_newest [OF ord res] by blast
  then show ?thesis
    using res by (simp add: sample_installed_def version_of_def)
qed

text \<open>Resolution fails as not found exactly when no installed skill matches the key and the version
  requirement; every other failure is a real ambiguity.\<close>

theorem resolve_not_found:
  "(\<exists>e. resolve req_matches ver_le installed skill = Inl e
      \<and> re_code e \<in> {''skill-not-found'', ''skill-version-not-found''})
   \<longleftrightarrow> (\<forall>i. \<not> resolution_matches req_matches installed skill i)"
  using resolve_selection_not_found [of req_matches ver_le installed skill]
  by (auto simp: resolve_def res_bind_def split: sum.splits)

text \<open>Exact lookup is exact: \<open>resolve_exact\<close> succeeds if and only if a skill with that key, version and digest
  is installed, and returns a skill with that very reference.\<close>

theorem exact_lookup:
  "(\<forall>s. resolve_exact installed r = Inr s \<longrightarrow> s \<in> set installed \<and> resolved_ref s = r)
   \<and> ((\<exists>s. resolve_exact installed r = Inr s) \<longleftrightarrow> r \<in> resolved_ref ` set installed)"
  using resolve_exact_Inr resolve_exact_iff by blast

theorem exact_lookup_witness:
  "resolve_exact [sample_installed ''1.9.0'' ''d1''] \<lparr>rs_key = sample_key, rs_version = ''1.9.0'', rs_digest = ''d1''\<rparr>
     = Inr (sample_installed ''1.9.0'' ''d1'')
   \<and> resolved_ref (sample_installed ''1.9.0'' ''d1'')
       = \<lparr>rs_key = sample_key, rs_version = ''1.9.0'', rs_digest = ''d1''\<rparr>"
    (is "resolve_exact ?inst ?r = Inr ?s \<and> _")
proof -
  have res: "resolve_exact ?inst ?r = Inr ?s"
    by code_simp
  show ?thesis
    using res exact_lookup [of ?inst ?r] by blast
qed

text \<open>Trust follows the trust store: a skill without a verification record is a local source, and an imported
  skill has the tier its publisher holds now, or is restricted when the publisher is no longer trusted.\<close>

theorem trust_follows_store:
  "derive_installed_trust_metadata load v = Inr t \<longleftrightarrow>
     (case v of
        None \<Rightarrow> t = \<lparr>verification_state = LocalSource, trust_tier = LocalDev\<rparr>
      | Some rec \<Rightarrow> verification_state t = VerifiedImport
          \<and> ((\<exists>p. load (publisher_id (iv_publisher rec)) = Inr p \<and> trust_tier t = tp_trust_tier p)
             \<or> (\<exists>e. load (publisher_id (iv_publisher rec)) = Inl e
                  \<and> re_code e = ''bundle-publisher-untrusted'' \<and> trust_tier t = Restricted)))"
  by (cases t) (auto simp: derive_installed_trust_metadata_def split: option.splits sum.splits)

end
