(* ===== verification/Guild_Errors.thy ===== *)
theory Guild_Errors
  imports Guild_Registry
begin

text \<open>
  Execution errors and receipts of \<open>crates/guild-runner/src/lib.rs\<close>, with the builder methods and
  the conversions from registry and skill errors.
\<close>

section \<open>Errors and receipts\<close>

record ExecutionReceipt =
  rcpt_execution_id :: string
  rcpt_uri :: string
  rcpt_trace_id :: string
  rcpt_status :: ExecutionStatus

record ExecutionError =
  xe_code :: string
  xe_message :: string
  xe_retryable :: bool
  xe_phase :: "ExecutionPhase option"
  xe_detail :: "json option"
  xe_receipt :: "ExecutionReceipt option"

definition ExecutionError_new :: "string \<Rightarrow> string \<Rightarrow> ExecutionError" where
  "ExecutionError_new code msg =
     \<lparr>xe_code = code, xe_message = msg, xe_retryable = False, xe_phase = None, xe_detail = None,
      xe_receipt = None\<rparr>"

definition with_detail :: "json \<Rightarrow> ExecutionError \<Rightarrow> ExecutionError" where
  "with_detail d e = e\<lparr>xe_detail := Some d\<rparr>"

definition with_phase :: "ExecutionPhase \<Rightarrow> ExecutionError \<Rightarrow> ExecutionError" where
  "with_phase p e = e\<lparr>xe_phase := Some p\<rparr>"

definition with_receipt :: "ExecutionReceipt \<Rightarrow> ExecutionError \<Rightarrow> ExecutionError" where
  "with_receipt r e = e\<lparr>xe_receipt := Some r\<rparr>"

definition from_registry_error :: "RegistryError \<Rightarrow> ExecutionError" where
  "from_registry_error e =
     \<lparr>xe_code = re_code e, xe_message = re_message e, xe_retryable = False, xe_phase = None,
      xe_detail = re_detail e, xe_receipt = None\<rparr>"

definition from_skill_error :: "SkillError \<Rightarrow> ExecutionError" where
  "from_skill_error e =
     \<lparr>xe_code = se_code e, xe_message = se_message e, xe_retryable = se_retryable e,
      xe_phase = Some Ph_SkillDomain, xe_detail = se_detail e, xe_receipt = None\<rparr>"

end
