(* ===== verification/Guild_Surface.thy ===== *)
theory Guild_Surface
  imports Guild_Errors
begin

text \<open>
  The capability surface that a skill and its dependencies declare
  (\<open>crates/guild-runner/src/lib.rs\<close>), as a client of exact registry lookup: the traversal ends on every
  registry that keeps the laws of \<open>exact_registry\<close> and collects the requirements of all reachable skills.
\<close>

section \<open>The declared capability surface\<close>

text \<open>
  The traversal recurses into every dependency whose digest is not yet visited, with the
  visited list and the surface threaded through. Nothing in the function itself bounds it, so
  not returning is the value \<^const>\<open>None\<close>.
\<close>

partial_function (option) collect_declared_capability_surface ::
  "(ResolvedSkillRef \<Rightarrow> RegistryError + InstalledSkill) \<Rightarrow> InstalledDependencySpec list
     \<Rightarrow> string list \<Rightarrow> CapabilityRequirement list
     \<Rightarrow> (ExecutionError + string list \<times> CapabilityRequirement list) option" where
  "collect_declared_capability_surface lookup deps visited surface =
     (case deps of
        [] \<Rightarrow> Some (Inr (visited, surface))
      | d # ds \<Rightarrow>
          if rs_digest (dep_skill d) \<in> set visited
          then collect_declared_capability_surface lookup ds visited surface
          else
            (case lookup (dep_skill d) of
               Inl e \<Rightarrow> Some (Inl (with_detail
                 (json_obj [(''alias'', JString (dep_alias d)),
                            (''dependency'', ResolvedSkillRef_json (dep_skill d))])
                 (with_phase Ph_Validation (from_registry_error e))))
             | Inr child \<Rightarrow>
                 Option.bind
                   (collect_declared_capability_surface lookup (dependencies (manifest child))
                      (visited @ [rs_digest (resolved_ref child)])
                      (surface @ capabilities (manifest child)))
                   (\<lambda>r. case r of
                      Inl e \<Rightarrow> Some (Inl e)
                    | Inr (visited', surface') \<Rightarrow>
                        collect_declared_capability_surface lookup ds visited' surface')))"

definition declared_capability_surface ::
  "(ResolvedSkillRef \<Rightarrow> RegistryError + InstalledSkill) \<Rightarrow> InstalledSkill
     \<Rightarrow> (ExecutionError + CapabilityRequirement list) option" where
  "declared_capability_surface lookup installed =
     Option.bind
       (collect_declared_capability_surface lookup (dependencies (manifest installed))
          [rs_digest (resolved_ref installed)] (capabilities (manifest installed)))
       (\<lambda>r. Some (res_bind r (\<lambda>(_, surface). Inr surface)))"

section \<open>The surface traversal\<close>

lemma collect_surface_simps [simp]:
  "collect_declared_capability_surface lookup [] visited surface = Some (Inr (visited, surface))"
  by (simp add: collect_declared_capability_surface.simps)

lemma collect_surface_Cons:
  "collect_declared_capability_surface lookup (d # ds) visited surface =
     (if rs_digest (dep_skill d) \<in> set visited
      then collect_declared_capability_surface lookup ds visited surface
      else
        (case lookup (dep_skill d) of
           Inl e \<Rightarrow> Some (Inl (with_detail
             (json_obj [(''alias'', JString (dep_alias d)),
                        (''dependency'', ResolvedSkillRef_json (dep_skill d))])
             (with_phase Ph_Validation (from_registry_error e))))
         | Inr child \<Rightarrow>
             Option.bind
               (collect_declared_capability_surface lookup (dependencies (manifest child))
                  (visited @ [rs_digest (resolved_ref child)])
                  (surface @ capabilities (manifest child)))
               (\<lambda>r. case r of
                  Inl e \<Rightarrow> Some (Inl e)
                | Inr (visited', surface') \<Rightarrow>
                    collect_declared_capability_surface lookup ds visited' surface')))"
  by (subst collect_declared_capability_surface.simps) simp

text \<open>
  What a finished traversal has done: it only adds to the visited digests and the surface, every
  dependency it was given is visited, and every skill it visited was resolved, contributed its
  capabilities, and has all its own dependencies visited.
\<close>

definition surface_closed ::
  "(ResolvedSkillRef \<Rightarrow> RegistryError + InstalledSkill) \<Rightarrow> string list \<Rightarrow> CapabilityRequirement list
     \<Rightarrow> string set \<Rightarrow> bool" where
  "surface_closed lookup visited surface ds \<longleftrightarrow>
     (\<forall>x \<in> ds. \<exists>r s. lookup r = Inr s \<and> rs_digest r = x
        \<and> set (capabilities (manifest s)) \<subseteq> set surface
        \<and> rs_digest ` dep_skill ` set (dependencies (manifest s)) \<subseteq> set visited)"

lemma surface_closed_mono:
  "surface_closed lookup v s ds \<Longrightarrow> set v \<subseteq> set v' \<Longrightarrow> set s \<subseteq> set s' \<Longrightarrow> surface_closed lookup v' s' ds"
  unfolding surface_closed_def by (meson subset_trans)

lemma surface_closed_Un:
  "surface_closed lookup v s A \<Longrightarrow> surface_closed lookup v s B \<Longrightarrow> surface_closed lookup v s (A \<union> B)"
  unfolding surface_closed_def by blast

inductive dep_reachable ::
  "(ResolvedSkillRef \<Rightarrow> RegistryError + InstalledSkill) \<Rightarrow> InstalledSkill \<Rightarrow> InstalledSkill \<Rightarrow> bool"
  for lookup and i where
  self: "dep_reachable lookup i i"
| dependency: "dep_reachable lookup i j \<Longrightarrow> d \<in> set (dependencies (manifest j))
    \<Longrightarrow> lookup (dep_skill d) = Inr k \<Longrightarrow> dep_reachable lookup i k"


lemma dep_reachable_trans:
  assumes "dep_reachable lookup j k" "dep_reachable lookup i j"
  shows "dep_reachable lookup i k"
  using assms by (induction rule: dep_reachable.induct) (auto intro: dep_reachable.intros)

lemma dep_reachable_step:
  assumes "d \<in> set (dependencies (manifest i))" "lookup (dep_skill d) = Inr c" "dep_reachable lookup c k"
  shows "dep_reachable lookup i k"
  using assms(3) by (rule dep_reachable_trans) (use assms(1,2) in \<open>blast intro: dep_reachable.intros\<close>)

definition surface_from_deps ::
  "(ResolvedSkillRef \<Rightarrow> RegistryError + InstalledSkill) \<Rightarrow> InstalledDependencySpec list \<Rightarrow> CapabilityRequirement set" where
  "surface_from_deps lookup ds = {q. \<exists>d \<in> set ds. \<exists>c k. lookup (dep_skill d) = Inr c
     \<and> dep_reachable lookup c k \<and> q \<in> set (capabilities (manifest k))}"

lemma surface_from_deps_child:
  assumes "lookup (dep_skill d) = Inr c"
  shows "set (capabilities (manifest c)) \<union> surface_from_deps lookup (dependencies (manifest c))
    \<subseteq> surface_from_deps lookup (d # ds)"
proof -
  have "dep_reachable lookup c k" if "e \<in> set (dependencies (manifest c))" "lookup (dep_skill e) = Inr b"
      "dep_reachable lookup b k" for e b k
    using that by (rule dep_reachable_step)
  with assms show ?thesis
    unfolding surface_from_deps_def using dep_reachable.self[of lookup c] by fastforce
qed

lemma surface_from_deps_tail: "surface_from_deps lookup ds \<subseteq> surface_from_deps lookup (d # ds)"
  unfolding surface_from_deps_def by auto

definition surface_post ::
  "(ResolvedSkillRef \<Rightarrow> RegistryError + InstalledSkill) \<Rightarrow> InstalledDependencySpec list
     \<Rightarrow> string list \<Rightarrow> CapabilityRequirement list \<Rightarrow> string list \<Rightarrow> CapabilityRequirement list \<Rightarrow> bool" where
  "surface_post lookup deps visited surface v s \<longleftrightarrow>
     set visited \<subseteq> set v \<and> set surface \<subseteq> set s
     \<and> rs_digest ` dep_skill ` set deps \<subseteq> set v
     \<and> surface_closed lookup v s (set v - set visited)
     \<and> set s \<subseteq> set surface \<union> surface_from_deps lookup deps"

lemma surface_post_Nil: "surface_post lookup [] visited surface visited surface"
  by (simp add: surface_post_def surface_closed_def)

lemma surface_post_skip:
  assumes "surface_post lookup ds visited surface v s" "rs_digest (dep_skill d) \<in> set visited"
  shows "surface_post lookup (d # ds) visited surface v s"
proof -
  have "set s \<subseteq> set surface \<union> surface_from_deps lookup (d # ds)"
    using assms(1) surface_from_deps_tail[of lookup ds d] unfolding surface_post_def by blast
  with assms show ?thesis
    unfolding surface_post_def by (simp add: subset_iff)
qed

lemma surface_post_child:
  assumes look: "lookup (dep_skill d) = Inr c" and dig: "rs_digest (resolved_ref c) = rs_digest (dep_skill d)"
    and child: "surface_post lookup (dependencies (manifest c)) (visited @ [rs_digest (resolved_ref c)])
      (surface @ capabilities (manifest c)) v1 s1"
    and rest: "surface_post lookup ds v1 s1 v s"
  shows "surface_post lookup (d # ds) visited surface v s"
proof -
  let ?x = "rs_digest (dep_skill d)"
  have sub: "set (capabilities (manifest c)) \<subseteq> set s1"
    "rs_digest ` dep_skill ` set (dependencies (manifest c)) \<subseteq> set v1"
    and closed: "surface_closed lookup v1 s1 (set v1 - set (visited @ [?x]))"
    using child dig unfolding surface_post_def by simp_all
  have "surface_closed lookup v1 s1 {?x}"
    unfolding surface_closed_def using look sub by blast
  with closed have "surface_closed lookup v1 s1 (insert ?x (set v1 - set (visited @ [?x])))"
    using surface_closed_Un[of lookup v1 s1 "{?x}"] by simp
  then have "surface_closed lookup v s (insert ?x (set v1 - set (visited @ [?x])))"
    using rest unfolding surface_post_def by (blast intro: surface_closed_mono)
  moreover have "surface_closed lookup v s (set v - set v1)"
    using rest unfolding surface_post_def by blast
  ultimately have "surface_closed lookup v s (set v - set visited)"
    unfolding surface_closed_def by auto
  moreover have "set s \<subseteq> set surface \<union> surface_from_deps lookup (d # ds)"
  proof -
    have "set s \<subseteq> set s1 \<union> surface_from_deps lookup ds"
      "set s1 \<subseteq> set surface \<union> (set (capabilities (manifest c)) \<union> surface_from_deps lookup (dependencies (manifest c)))"
      using child rest unfolding surface_post_def by auto
    then show ?thesis
      using surface_from_deps_child[of lookup d c ds, OF look] surface_from_deps_tail[of lookup ds d] by blast
  qed
  ultimately show ?thesis
    using child rest dig unfolding surface_post_def by auto
qed

context exact_registry
begin

lemma collect_surface:
  "\<exists>r. collect_declared_capability_surface lookup deps visited surface = Some r
     \<and> (\<forall>v s. r = Inr (v, s) \<longrightarrow> surface_post lookup deps visited surface v s)"
proof (induction "card ({rs_digest r | r s. lookup r = Inr s} - set visited)"
    arbitrary: deps visited surface rule: less_induct)
  case less
  let ?D = "{rs_digest r | r s. lookup r = Inr s}"
  show ?case
  proof (induction deps)
    case Nil
    show ?case by (simp add: surface_post_Nil)
  next
    case (Cons d ds)
    show ?case
    proof (cases "rs_digest (dep_skill d) \<in> set visited")
      case True
      then show ?thesis
        using Cons.IH surface_post_skip by (force simp: collect_surface_Cons)
    next
      case False
      show ?thesis
      proof (cases "lookup (dep_skill d)")
        case (Inl e)
        then show ?thesis
          using False by (simp add: collect_surface_Cons)
      next
        case (Inr c)
        then have dig: "rs_digest (resolved_ref c) = rs_digest (dep_skill d)"
          using lookup_ref by simp
        have x: "rs_digest (dep_skill d) \<in> ?D - set visited"
          using Inr False by blast
        have smaller: "card (?D - set v) < card (?D - set visited)"
          if "set (visited @ [rs_digest (dep_skill d)]) \<subseteq> set v" for v
          using that x digests_finite by (intro psubset_card_mono) auto
        obtain r where r: "collect_declared_capability_surface lookup (dependencies (manifest c))
            (visited @ [rs_digest (resolved_ref c)]) (surface @ capabilities (manifest c)) = Some r"
          and post: "\<And>v s. r = Inr (v, s) \<Longrightarrow> surface_post lookup (dependencies (manifest c))
            (visited @ [rs_digest (resolved_ref c)]) (surface @ capabilities (manifest c)) v s"
          using less[OF smaller, of "visited @ [rs_digest (resolved_ref c)]"] dig by fastforce
        show ?thesis
        proof (cases r)
          case (Inl e)
          then show ?thesis
            using False \<open>lookup (dep_skill d) = Inr c\<close> r by (simp add: collect_surface_Cons)
        next
          case (Inr vs)
          obtain v1 s1 where vs: "vs = (v1, s1)"
            by (cases vs)
          have post1: "surface_post lookup (dependencies (manifest c)) (visited @ [rs_digest (resolved_ref c)])
              (surface @ capabilities (manifest c)) v1 s1"
            using post Inr vs by simp
          then have "set (visited @ [rs_digest (dep_skill d)]) \<subseteq> set v1"
            using dig unfolding surface_post_def by simp
          from less[OF smaller[OF this], of ds s1] show ?thesis
            using False \<open>lookup (dep_skill d) = Inr c\<close> r Inr vs dig
              surface_post_child[OF \<open>lookup (dep_skill d) = Inr c\<close> dig post1]
            by (force simp: collect_surface_Cons)
        qed
      qed
    qed
  qed
qed

lemma declared_surface_returns: "\<exists>r. declared_capability_surface lookup i = Some r"
  using collect_surface[of "dependencies (manifest i)" "[rs_digest (resolved_ref i)]"
      "capabilities (manifest i)"]
  by (auto simp: declared_capability_surface_def)

lemma declared_surface_post:
  assumes "declared_capability_surface lookup i = Some (Inr surface)"
  shows "\<exists>v. surface_post lookup (dependencies (manifest i)) [rs_digest (resolved_ref i)]
    (capabilities (manifest i)) v surface"
proof -
  obtain v where "collect_declared_capability_surface lookup (dependencies (manifest i))
      [rs_digest (resolved_ref i)] (capabilities (manifest i)) = Some (Inr (v, surface))"
    using assms by (auto simp: declared_capability_surface_def res_bind_Inr_iff bind_eq_Some_conv)
  then show ?thesis
    using collect_surface[of "dependencies (manifest i)" "[rs_digest (resolved_ref i)]"
        "capabilities (manifest i)"] by auto
qed

text \<open>With digests that identify skills, the surface is what the reachable skills declare.\<close>

lemma declared_surface_exact:
  assumes surf: "declared_capability_surface lookup i = Some (Inr surface)"
    and digests: "\<And>r s. lookup r = Inr s \<Longrightarrow> rs_digest r = rs_digest (resolved_ref i) \<Longrightarrow> s = i"
      "\<And>r s q t. lookup r = Inr s \<Longrightarrow> lookup q = Inr t \<Longrightarrow> rs_digest r = rs_digest q \<Longrightarrow> s = t"
  shows "set surface = (\<Union>j \<in> {j. dep_reachable lookup i j}. set (capabilities (manifest j)))"
proof
  obtain v where post: "surface_post lookup (dependencies (manifest i)) [rs_digest (resolved_ref i)]
    (capabilities (manifest i)) v surface"
    using declared_surface_post[OF surf] by blast
  have "dep_reachable lookup i k" if "d \<in> set (dependencies (manifest i))" "lookup (dep_skill d) = Inr c"
      "dep_reachable lookup c k" for d c k
    using that by (rule dep_reachable_step)
  then show "set surface \<subseteq> (\<Union>j \<in> {j. dep_reachable lookup i j}. set (capabilities (manifest j)))"
    using post dep_reachable.self[of lookup i] unfolding surface_post_def surface_from_deps_def by blast
  have "set (capabilities (manifest j)) \<subseteq> set surface
      \<and> rs_digest ` dep_skill ` set (dependencies (manifest j)) \<subseteq> set v" if "dep_reachable lookup i j" for j
    using that
  proof induction
    case self
    show ?case using post unfolding surface_post_def by blast
  next
    case (dependency j d k)
    then have "rs_digest (dep_skill d) \<in> set v"
      by blast
    show ?case
    proof (cases "rs_digest (dep_skill d) = rs_digest (resolved_ref i)")
      case True
      then have "k = i"
        using digests(1) dependency.hyps by blast
      then show ?thesis
        using post unfolding surface_post_def by blast
    next
      case False
      with \<open>rs_digest (dep_skill d) \<in> set v\<close>
      have x: "rs_digest (dep_skill d) \<in> set v - set [rs_digest (resolved_ref i)]"
        by simp
      have "surface_closed lookup v surface (set v - set [rs_digest (resolved_ref i)])"
        using post unfolding surface_post_def by blast
      then obtain r s where "lookup r = Inr s" "rs_digest r = rs_digest (dep_skill d)"
        "set (capabilities (manifest s)) \<subseteq> set surface"
        "rs_digest ` dep_skill ` set (dependencies (manifest s)) \<subseteq> set v"
        using x unfolding surface_closed_def by (elim ballE[of _ _ "rs_digest (dep_skill d)"]) auto
      then show ?thesis
        using digests(2) dependency.hyps by blast
    qed
  qed
  then show "(\<Union>j \<in> {j. dep_reachable lookup i j}. set (capabilities (manifest j))) \<subseteq> set surface"
    by blast
qed

end

section \<open>Claims\<close>

text \<open>C30: Collecting the declared capability surface terminates on every local registry, cyclic dependency graphs
  included: a result, a surface or the error of a missing dependency, is always produced.\<close>

theorem declared_surface_terminates:
  "\<exists>r. declared_capability_surface (resolve_exact installed) i = Some r"
  by (rule local_registry.declared_surface_returns)

text \<open>C31: The declared surface is the transitive closure: when digests identify the installed skills, the collected
  requirements are exactly those of the skill and of every skill reachable through its dependencies, although
  the traversal visits each digest once.\<close>

theorem declared_surface_closure:
  assumes "declared_capability_surface (resolve_exact installed) i = Some (Inr surface)"
    and "\<And>s t. s \<in> set installed \<Longrightarrow> t \<in> insert i (set installed)
      \<Longrightarrow> rs_digest (resolved_ref s) = rs_digest (resolved_ref t) \<Longrightarrow> s = t"
  shows "set surface = (\<Union>j \<in> {j. dep_reachable (resolve_exact installed) i j}. set (capabilities (manifest j)))"
proof (rule local_registry.declared_surface_exact[OF assms(1)])
  show "s = i" if "resolve_exact installed r = Inr s" "rs_digest r = rs_digest (resolved_ref i)" for r s
    using assms(2)[of s i] resolve_exact_Inr[OF that(1)] that(2) by simp
  show "s = t" if "resolve_exact installed r = Inr s" "resolve_exact installed q = Inr t"
      "rs_digest r = rs_digest q" for r s q t
    using assms(2)[of s t] resolve_exact_Inr[OF that(1)] resolve_exact_Inr[OF that(2)] that(3) by simp
qed

definition sample_linked :: "string \<Rightarrow> string \<Rightarrow> CapabilityRequirement list \<Rightarrow> InstalledSkill" where
  "sample_linked d e caps = (sample_installed ''1.0.0'' d)\<lparr>manifest :=
     (into_installed sample_source ''artifact.wasm'' d
        [\<lparr>dep_alias = ''peer'', dep_skill = \<lparr>rs_key = sample_key, rs_version = ''1.0.0'', rs_digest = e\<rparr>\<rparr>])
     \<lparr>capabilities := caps\<rparr>\<rparr>"

text \<open>Two skills that depend on each other.\<close>

definition sample_cycle :: "InstalledSkill list" where
  "sample_cycle = [sample_linked ''d1'' ''d2'' (s_capabilities sample_source), sample_linked ''d2'' ''d1'' []]"

lemma sample_linked_fields:
  "resolved_ref (sample_linked d e caps) = \<lparr>rs_key = sample_key, rs_version = ''1.0.0'', rs_digest = d\<rparr>"
  "capabilities (manifest (sample_linked d e caps)) = caps"
  "dependencies (manifest (sample_linked d e caps)) =
     [\<lparr>dep_alias = ''peer'', dep_skill = \<lparr>rs_key = sample_key, rs_version = ''1.0.0'', rs_digest = e\<rparr>\<rparr>]"
  by (simp_all add: sample_linked_def sample_installed_def into_installed_def)

lemma sample_cycle_lookup:
  "resolve_exact sample_cycle \<lparr>rs_key = sample_key, rs_version = ''1.0.0'', rs_digest = ''d2''\<rparr>
     = Inr (sample_linked ''d2'' ''d1'' [])"
  by (simp add: resolve_exact_def sample_cycle_def sample_linked_fields)

theorem declared_surface_closure_witness:
  "declared_capability_surface (resolve_exact sample_cycle) (hd sample_cycle)
     = Some (Inr (s_capabilities sample_source))
   \<and> set (s_capabilities sample_source) = (\<Union>j \<in> {j. dep_reachable (resolve_exact sample_cycle)
       (hd sample_cycle) j}. set (capabilities (manifest j)))"
    (is "?surf = Some (Inr ?c) \<and> _")
proof -
  have hd: "hd sample_cycle = sample_linked ''d1'' ''d2'' (s_capabilities sample_source)"
    by (simp add: sample_cycle_def)
  have surf: "?surf = Some (Inr ?c)"
    by (simp add: hd declared_capability_surface_def sample_linked_fields collect_surface_Cons
        sample_cycle_lookup)
  have digests: "s = t" if "s \<in> set sample_cycle" "t \<in> insert (hd sample_cycle) (set sample_cycle)"
      "rs_digest (resolved_ref s) = rs_digest (resolved_ref t)" for s t
    using that by (auto simp: sample_cycle_def sample_linked_fields)
  show ?thesis
    by (intro conjI surf declared_surface_closure[OF surf digests])
qed

end
