(* ===== verification/Guild_Policy.thy ===== *)
theory Guild_Policy
  imports Guild_Http Guild_Surface
begin

text \<open>
  Local policy evaluation of \<open>crates/guild-runner/src/lib.rs\<close>: clamping of caller
  requests to the declared capability surface, selection of a policy
  profile, deny and cap rules, and the decision that goes into the execution envelope.
  A \<open>&mut Vec<PolicyReason>\<close> argument is returned next to the result.
\<close>

section \<open>Clamping to the manifest\<close>

definition grant_error_json :: "nat \<Rightarrow> GrantedCapability \<Rightarrow> string \<Rightarrow> json" where
  "grant_error_json i g msg = json_obj
     [(''index'', json_nat i), (''id'', CapabilityId_json (g_id g)),
      (''access'', CapabilityAccess_json (g_access g)),
      (''constraints'', CapabilityConstraints_json (g_constraints g)),
      (''message'', JString msg)]"

definition invalid_capability_grants :: "CapabilityGrantSet \<Rightarrow> json list" where
  "invalid_capability_grants gs =
     enum_errors (\<lambda>i g. map (grant_error_json i g) (GrantedCapability_validate g)) (grants gs)"

definition clamp_grant ::
  "CapabilityRequirement list \<Rightarrow> GrantedCapability \<Rightarrow> GrantedCapability list" where
  "clamp_grant declared g =
     foldl (\<lambda>reduced r. case reduce_grant_to_requirement g r of
              None \<Rightarrow> reduced | Some rg \<Rightarrow> push_unique_grant reduced rg) []
       (filter (\<lambda>r. req_id r = g_id g \<and> req_access r = g_access g) declared)"

definition clamp_reason :: "CapabilityRequirement list \<Rightarrow> GrantedCapability \<Rightarrow> PolicyReason list" where
  "clamp_reason declared g =
     (let reduced = clamp_grant declared g;
          matched = list_ex (\<lambda>r. req_id r = g_id g \<and> req_access r = g_access g) declared
      in if reduced = [] then
           [if matched
            then \<lparr>reason_code = ''policy-requested-capability-outside-manifest'',
                  reason_message = ''caller requested capability constraints outside the skill manifest declaration'',
                  reason_detail = Some (json_obj [(''requested'', GrantedCapability_json g)])\<rparr>
            else \<lparr>reason_code = ''policy-requested-capability-undeclared'',
                  reason_message = ''caller requested a capability family the skill did not declare'',
                  reason_detail = Some (json_obj [(''requested'', GrantedCapability_json g)])\<rparr>]
         else if length reduced \<noteq> 1 \<or> reduced ! 0 \<noteq> g then
           [\<lparr>reason_code = ''policy-requested-capability-reduced'',
             reason_message = ''caller requested capability was reduced to the skill-declared manifest surface'',
             reason_detail = Some (json_obj [(''requested'', GrantedCapability_json g),
               (''granted'', list_json GrantedCapability_json reduced)])\<rparr>]
         else [])"

definition clamp_requested_capabilities_to_manifest ::
  "CapabilityGrantSet \<Rightarrow> CapabilityRequirement list \<Rightarrow> PolicyReason list
     \<Rightarrow> CapabilityGrantSet \<times> PolicyReason list" where
  "clamp_requested_capabilities_to_manifest requested declared rs =
     (let (gs, rs) = foldl (\<lambda>(gs, rs) g.
            (foldl push_unique_grant gs (clamp_grant declared g), rs @ clamp_reason declared g))
            ([], rs) (grants requested)
      in (\<lparr>grants = gs\<rparr>, rs))"

section \<open>Profiles\<close>

definition policy_profile_binding_matches :: "PolicyProfileBinding \<Rightarrow> CallerRequest \<Rightarrow> bool" where
  "policy_profile_binding_matches b req =
     (if is_some_and (binding_actor_ids b) (\<lambda>as. \<not> list_ex ((=) (cr_actor_id req)) as) then False
      else if is_some_and (binding_tenant_ids b) (\<lambda>ts. \<not> list_ex ((=) (cr_tenant_id req)) ts) then False
      else True)"

record SelectedPolicyProfile =
  spp_name :: string
  spp_profile :: PolicyProfile

definition select_policy_profile :: "LocalPolicyConfig \<Rightarrow> CallerRequest \<Rightarrow> PolicyReason + SelectedPolicyProfile" where
  "select_policy_profile policy req =
     (let matching = filter (\<lambda>b. policy_profile_binding_matches b req) (bindings policy)
      in if length matching > 1
         then Inl \<lparr>reason_code = ''policy-profile-ambiguous'',
                   reason_message = ''local policy matched multiple profile bindings for the same execution'',
                   reason_detail = Some (json_obj
                     [(''actor_id'', JString (cr_actor_id req)),
                      (''tenant_id'', JString (cr_tenant_id req)),
                      (''matches'', list_json (\<lambda>b. json_obj
                         [(''binding'', json_opt JString (binding_name b)),
                          (''profile'', JString (binding_profile b))]) matching)])\<rparr>
         else
           let profile_name' = (case matching of [] \<Rightarrow> default_profile policy | b # _ \<Rightarrow> binding_profile b)
           in (case find (\<lambda>p. profile_name p = profile_name') (profiles policy) of
                 None \<Rightarrow> Inl \<lparr>reason_code = ''policy-profile-missing'',
                   reason_message = ''local policy referenced a profile that was not declared'',
                   reason_detail = Some (json_obj [(''profile'', JString profile_name')])\<rparr>
               | Some p \<Rightarrow> Inr \<lparr>spp_name = profile_name p, spp_profile = p\<rparr>))"

section \<open>Rules\<close>

record CandidateGrant =
  cand_grant :: GrantedCapability
  contributes_to_required :: bool

definition required_capability_requirements :: "InstalledSkill \<Rightarrow> CapabilityRequirement list" where
  "required_capability_requirements i = filter required (capabilities (manifest i))"

definition grant_contributes_to_required_requirement :: "GrantedCapability \<Rightarrow> CapabilityRequirement \<Rightarrow> bool" where
  "grant_contributes_to_required_requirement g r \<longleftrightarrow> reduce_grant_to_requirement g r \<noteq> None"

definition mark_required_grants_for_requirements ::
  "CapabilityGrantSet \<Rightarrow> CapabilityRequirement list \<Rightarrow> CandidateGrant list" where
  "mark_required_grants_for_requirements gs reqs =
     map (\<lambda>g. \<lparr>cand_grant = g,
               contributes_to_required = list_ex (grant_contributes_to_required_requirement g) reqs\<rparr>) (grants gs)"

definition candidate_grants_to_set :: "CandidateGrant list \<Rightarrow> CapabilityGrantSet" where
  "candidate_grants_to_set cs = \<lparr>grants = foldl (\<lambda>acc c. push_unique_grant acc (cand_grant c)) [] cs\<rparr>"

definition reclassify_required_candidates ::
  "CandidateGrant list \<Rightarrow> CapabilityRequirement list \<Rightarrow> CandidateGrant list" where
  "reclassify_required_candidates cs reqs =
     mark_required_grants_for_requirements (candidate_grants_to_set cs) reqs"

definition policy_rule_matches :: "PolicyRule \<Rightarrow> InstalledSkill \<Rightarrow> bool" where
  "policy_rule_matches rule i =
     (if is_some_and (rule_skills rule) (\<lambda>ss. \<not> list_ex ((=) (m_key (manifest i))) ss) then False
      else if is_some_and (rule_publisher_ids rule)
                (\<lambda>ps. \<not> list_ex ((=) (publisher_id (publisher (manifest i)))) ps) then False
      else if is_some_and (rule_trust_tiers rule) (\<lambda>ts. \<not> list_ex ((=) (trust_tier (trust i))) ts) then False
      else if is_some_and (rule_verification_states rule)
                (\<lambda>vs. \<not> list_ex ((=) (verification_state (trust i))) vs) then False
      else True)"

fun policy_rule_target_matches :: "PolicyRuleTarget \<Rightarrow> CandidateGrant \<Rightarrow> bool" where
  "policy_rule_target_matches Any c = True"
| "policy_rule_target_matches Requested c = (\<not> contributes_to_required c)"
| "policy_rule_target_matches Required c = contributes_to_required c"

definition rule_context :: "string \<Rightarrow> PolicyRule \<Rightarrow> InstalledSkill \<Rightarrow> (string \<times> json) list \<Rightarrow> json" where
  "rule_context profile rule i ctx = json_obj
     ([(''profile_name'', JString profile), (''rule'', json_opt JString (rule_name rule))] @ ctx
      @ [(''trust_tier'', LocalTrustTier_json (trust_tier (trust i))),
         (''verification_state'', InstalledVerificationState_json (verification_state (trust i))),
         (''applies_to'', PolicyRuleTarget_json (applies_to rule))])"

definition deny_candidate ::
  "string \<Rightarrow> PolicyRule \<Rightarrow> InstalledSkill \<Rightarrow> CandidateGrant \<Rightarrow> CandidateGrant list \<times> PolicyReason list" where
  "deny_candidate profile rule i c =
     (if \<not> policy_rule_target_matches (applies_to rule) c then ([c], [])
      else
        case find (\<lambda>rg. policy_grant_overlaps rg (cand_grant c)) (grants (rule_capabilities rule)) of
          Some rg \<Rightarrow>
            ([], [\<lparr>reason_code = ''policy-profile-rule-deny'',
                   reason_message = ''local policy profile denied a capability grant before execution'',
                   reason_detail = Some (rule_context profile rule i
                     [(''grant'', GrantedCapability_json (cand_grant c)),
                      (''rule_grant'', GrantedCapability_json rg)])\<rparr>])
        | None \<Rightarrow> ([c], []))"

definition cap_candidate ::
  "string \<Rightarrow> PolicyRule \<Rightarrow> InstalledSkill \<Rightarrow> CandidateGrant \<Rightarrow> CandidateGrant list \<times> PolicyReason list" where
  "cap_candidate profile rule i c =
     (if \<not> policy_rule_target_matches (applies_to rule) c then ([c], [])
      else
        let matching = filter (\<lambda>rg. g_id rg = g_id (cand_grant c) \<and> g_access rg = g_access (cand_grant c))
                         (grants (rule_capabilities rule))
        in if matching = [] then ([c], [])
           else
             let reduced = reduce_grant_to_cap_set matching (cand_grant c);
                 reduced_reason = \<lparr>reason_code = ''policy-profile-rule-cap'',
                   reason_message = ''local policy profile reduced a capability grant before execution'',
                   reason_detail = Some (rule_context profile rule i
                     [(''requested'', GrantedCapability_json (cand_grant c)),
                      (''granted'', list_json GrantedCapability_json reduced)])\<rparr>
             in (case reduced of
                   [] \<Rightarrow>
                     ([], [\<lparr>reason_code = ''policy-profile-rule-cap'',
                            reason_message = ''local policy profile removed a capability grant before execution'',
                            reason_detail = Some (rule_context profile rule i
                              [(''requested'', GrantedCapability_json (cand_grant c))])\<rparr>])
                 | [rg] \<Rightarrow>
                     ([\<lparr>cand_grant = rg, contributes_to_required = False\<rparr>],
                      if rg \<noteq> cand_grant c then [reduced_reason] else [])
                 | _ \<Rightarrow>
                     (map (\<lambda>g. \<lparr>cand_grant = g, contributes_to_required = False\<rparr>) reduced,
                      [reduced_reason])))"

definition apply_candidates ::
  "(CandidateGrant \<Rightarrow> CandidateGrant list \<times> PolicyReason list) \<Rightarrow> CandidateGrant list
     \<Rightarrow> PolicyReason list \<Rightarrow> CandidateGrant list \<times> PolicyReason list" where
  "apply_candidates f cs rs = foldl (\<lambda>(out, rs) c. let (o', r') = f c in (out @ o', rs @ r')) ([], rs) cs"

definition apply_policy_deny_rule ::
  "string \<Rightarrow> PolicyRule \<Rightarrow> CandidateGrant list \<Rightarrow> InstalledSkill \<Rightarrow> PolicyReason list
     \<Rightarrow> CandidateGrant list \<times> PolicyReason list" where
  "apply_policy_deny_rule profile rule cs i rs = apply_candidates (deny_candidate profile rule i) cs rs"

definition apply_policy_cap_rule ::
  "string \<Rightarrow> PolicyRule \<Rightarrow> CandidateGrant list \<Rightarrow> InstalledSkill \<Rightarrow> PolicyReason list
     \<Rightarrow> CandidateGrant list \<times> PolicyReason list" where
  "apply_policy_cap_rule profile rule cs i rs = apply_candidates (cap_candidate profile rule i) cs rs"

definition apply_policy_rule ::
  "string \<Rightarrow> PolicyRule \<Rightarrow> CandidateGrant list \<Rightarrow> InstalledSkill \<Rightarrow> PolicyReason list
     \<Rightarrow> CandidateGrant list \<times> PolicyReason list" where
  "apply_policy_rule profile rule cs i rs =
     (case effect rule of
        Deny \<Rightarrow> apply_policy_deny_rule profile rule cs i rs
      | Cap \<Rightarrow> apply_policy_cap_rule profile rule cs i rs)"

section \<open>The decision\<close>

record PolicyEvaluationResult =
  per_granted_capabilities :: CapabilityGrantSet
  per_decision :: PolicyDecision

definition missing_required_capabilities :: "InstalledSkill \<Rightarrow> CapabilityGrantSet \<Rightarrow> json list" where
  "missing_required_capabilities i gs =
     map (\<lambda>r. json_obj [(''id'', CapabilityId_json (req_id r)),
                        (''access'', CapabilityAccess_json (req_access r)),
                        (''constraints'', CapabilityConstraints_json (req_constraints r))])
       (filter (\<lambda>r. \<not> grants_cover_requirement gs r) (filter required (capabilities (manifest i))))"

definition rejected_policy_evaluation ::
  "InstalledSkill \<Rightarrow> string \<Rightarrow> string \<Rightarrow> PolicyReason list \<Rightarrow> json option \<Rightarrow> CapabilityGrantSet \<Rightarrow> PolicyEvaluationResult" where
  "rejected_policy_evaluation i profile summary rs detail gs =
     \<lparr>per_granted_capabilities = gs,
      per_decision = \<lparr>outcome = PD_Rejected, pd_summary = summary, pd_profile_name = profile,
        pd_trust_tier = trust_tier (trust i), pd_verification_state = verification_state (trust i),
        reasons = rs, pd_detail = detail\<rparr>\<rparr>"

definition completed_policy_evaluation ::
  "InstalledSkill \<Rightarrow> string \<Rightarrow> CapabilityGrantSet \<Rightarrow> PolicyReason list \<Rightarrow> PolicyEvaluationResult" where
  "completed_policy_evaluation i profile gs rs =
     (let oc = (if rs = [] then Allowed else Reduced);
          summary = (case oc of
            Allowed \<Rightarrow> ''local policy granted requested capabilities''
          | Reduced \<Rightarrow> ''local policy reduced requested capabilities before execution''
          | PD_Rejected \<Rightarrow> ''local policy denied execution before guest start'')
      in \<lparr>per_granted_capabilities = gs,
          per_decision = \<lparr>outcome = oc, pd_summary = summary, pd_profile_name = profile,
            pd_trust_tier = trust_tier (trust i), pd_verification_state = verification_state (trust i),
            reasons = rs, pd_detail = None\<rparr>\<rparr>)"

definition policy_rule_step ::
  "string \<Rightarrow> InstalledSkill \<Rightarrow> CandidateGrant list \<times> PolicyReason list \<Rightarrow> PolicyRule
     \<Rightarrow> CandidateGrant list \<times> PolicyReason list" where
  "policy_rule_step profile i st rule =
     (let (cs, rs) = st
      in if policy_rule_matches rule i
         then let (cs', rs') = apply_policy_rule profile rule cs i rs
              in (reclassify_required_candidates cs' (required_capability_requirements i), rs')
         else st)"

definition evaluate_policy ::
  "InstalledSkill \<Rightarrow> CallerRequest \<Rightarrow> CapabilityRequirement list \<Rightarrow> LocalPolicyConfig \<Rightarrow> PolicyEvaluationResult" where
  "evaluate_policy i req declared policy =
     (case select_policy_profile policy req of
        Inl reason \<Rightarrow>
          rejected_policy_evaluation i ''ambiguous'' ''local policy profile selection was ambiguous'' [reason]
            (Some (json_obj [(''actor_id'', JString (cr_actor_id req)), (''tenant_id'', JString (cr_tenant_id req))]))
            CapabilityGrantSet_default
      | Inr sel \<Rightarrow>
          let invalid = invalid_capability_grants (cr_requested_capabilities req)
          in if invalid \<noteq> [] then
               rejected_policy_evaluation i (spp_name sel) ''local policy rejected invalid requested capabilities''
                 [\<lparr>reason_code = ''policy-requested-capability-invalid'',
                   reason_message = ''caller requested invalid capability constraints'',
                   reason_detail = Some (json_obj [(''invalid'', JArray invalid)])\<rparr>]
                 (Some (json_obj [(''invalid'', JArray invalid)])) CapabilityGrantSet_default
             else
               let reqs = required_capability_requirements i;
                   (clamped, rs) = (case default_action (spp_profile sel) of
                      AllowRequestedDeclared \<Rightarrow>
                        clamp_requested_capabilities_to_manifest (cr_requested_capabilities req) declared []);
                   marked = mark_required_grants_for_requirements clamped reqs;
                   (cs, rs) = foldl (policy_rule_step (spp_name sel) i) (marked, rs) (rules (spp_profile sel));
                   granted_set = candidate_grants_to_set cs;
                   missing = missing_required_capabilities i granted_set
               in if missing \<noteq> [] then
                    rejected_policy_evaluation i (spp_name sel)
                      ''local policy denied one or more required capabilities''
                      (rs @ [\<lparr>reason_code = ''policy-required-capability-missing'',
                              reason_message = ''local policy did not grant all required capabilities'',
                              reason_detail = Some (json_obj
                                [(''missing'', JArray missing), (''profile_name'', JString (spp_name sel)),
                                 (''trust_tier'', LocalTrustTier_json (trust_tier (trust i))),
                                 (''verification_state'', InstalledVerificationState_json (verification_state (trust i)))])\<rparr>])
                      (Some (json_obj [(''missing'', JArray missing)])) granted_set
                  else completed_policy_evaluation i (spp_name sel) granted_set rs)"

definition authorize_execution ::
  "RegistryError + LocalPolicyConfig \<Rightarrow> (ResolvedSkillRef \<Rightarrow> RegistryError + InstalledSkill) \<Rightarrow> InstalledSkill
     \<Rightarrow> CallerRequest \<Rightarrow> string option \<Rightarrow> (ExecutionError + ResolvedExecutionEnvelope) option" where
  "authorize_execution loaded lookup i req parent =
     (case loaded of
        Inl e \<Rightarrow> Some (Inl (with_detail (json_obj [(''resolved_skill'', ResolvedSkillRef_json (resolved_ref i))])
                   (with_phase Ph_Grant (from_registry_error e))))
      | Inr policy \<Rightarrow>
          Option.bind (declared_capability_surface lookup i) (\<lambda>r. Some (res_bind r (\<lambda>declared.
            let ev = evaluate_policy i req declared policy
            in Inr \<lparr>env_request = req, env_resolved_skill = resolved_ref i,
                    env_granted_capabilities = per_granted_capabilities ev,
                    env_policy_decision = per_decision ev, env_parent_execution_id = parent\<rparr>))))"

section \<open>Reductions inside the policy\<close>

abbreviation non_http :: "Access \<Rightarrow> bool" where
  "non_http a \<equiv> fst (access_capability a) \<noteq> HttpRequest"

lemma non_httpD: "non_http a \<Longrightarrow> a \<noteq> Acc_Http x"
  by auto

lemma reduce_to_requirement_within:
  assumes "reduce_grant_to_requirement g r = Some g'" "grant_allows g' a" "non_http a"
  shows "grant_allows g a \<and> (req_id r, req_access r) = access_capability a
    \<and> constraints_allow (req_constraints r) a"
proof -
  obtain c where c: "reduce_child_constraints g r = Inr c" "g' = g\<lparr>g_constraints := c\<rparr>"
    "g_id g = req_id r" "g_access g = req_access r"
    using assms(1) by (auto simp: reduce_grant_to_requirement_Some)
  have a: "(g_id g, g_access g) = access_capability a" "constraints_allow c a"
    using assms(2) c(2) by (simp_all add: grant_allows_def)
  have "constraints_allow (g_constraints g) a \<and> constraints_allow (req_constraints r) a"
    using c(1)
  proof (cases rule: reduce_child_constraints_cases)
    case (4 p w s)
    with a(2) have "\<exists>x. a = Acc_Http x"
      by (auto simp: constraints_allow_family)
    with assms(3) show ?thesis
      by auto
  qed (use a(2) reduce_families in \<open>auto simp: constraints_allow_family
      simp del: res_ok_Some_iff filesystem_allows.simps emit_allows.simps\<close>)
  then show ?thesis
    using a(1) c(3,4) by (simp add: grant_allows_def)
qed

lemma reduce_to_cap_within:
  assumes "reduce_grant_to_cap cap g = Some g'" "grant_allows g' a" "non_http a"
  shows "grant_allows g a" and "g_constraints g \<noteq> CC_None \<Longrightarrow> grant_allows cap a"
proof -
  obtain c where c: "reduce_constraints_to_cap (g_constraints cap) (g_constraints g) = Some c"
    "g' = g\<lparr>g_constraints := c\<rparr>" "g_id cap = g_id g" "g_access cap = g_access g"
    using assms(1) by (auto simp: reduce_grant_to_cap_Some)
  have a: "(g_id g, g_access g) = access_capability a" "constraints_allow c a"
    using assms(2) c(2) by (simp_all add: grant_allows_def)
  have "constraints_allow (g_constraints g) a \<and> (g_constraints g \<noteq> CC_None \<longrightarrow> constraints_allow (g_constraints cap) a)"
    using c(1)
  proof (cases rule: reduce_constraints_to_cap_cases)
    case (4 p w s)
    with a(2) have "\<exists>x. a = Acc_Http x"
      by (auto simp: constraints_allow_family)
    with assms(3) show ?thesis
      by auto
  qed (use a(2) reduce_families filesystem_cap.reduce_within in \<open>auto simp: constraints_allow_family
      simp del: res_ok_Some_iff filesystem_allows.simps emit_allows.simps\<close>)
  then show "grant_allows g a" and "g_constraints g \<noteq> CC_None \<Longrightarrow> grant_allows cap a"
    using a(1) c(3,4) by (simp_all add: grant_allows_def)
qed

lemma reduce_to_cap_constrained:
  "reduce_grant_to_cap cap g = Some g' \<Longrightarrow> g_constraints g \<noteq> CC_None \<Longrightarrow> g_constraints g' \<noteq> CC_None"
  by (auto simp: reduce_grant_to_cap_Some elim: reduce_constraints_to_cap_cases)

lemma reduce_to_requirement_constrained:
  "reduce_grant_to_requirement g r = Some g' \<Longrightarrow> g_constraints g \<noteq> CC_None \<Longrightarrow> g_constraints g' \<noteq> CC_None"
  by (auto simp: reduce_grant_to_requirement_Some elim: reduce_child_constraints_cases)

text \<open>An access in both a rule grant and a grant is an overlap, for the families reduced by intersection.\<close>

fun intersected :: "Access \<Rightarrow> bool" where
  "intersected (Acc_Read _) = True"
| "intersected (Acc_Invoke _) = True"
| "intersected (Acc_Log _) = True"
| "intersected _ = False"

lemma overlap_complete:
  assumes "grant_allows rg a" "grant_allows g a" "intersected a"
  shows "policy_grant_overlaps rg g"
proof -
  have "reduce_constraints_to_cap (g_constraints rg) (g_constraints g) \<noteq> None"
    using assms
    by (cases "g_constraints rg"; cases "g_constraints g")
      (auto simp: grant_allows_def reduce_constraints_to_cap_def constraints_allow_family
        dest: read.overlap_reduces invoke.overlap_reduces log.overlap_reduces simp del: res_ok_Some_iff)
  moreover have "g_id rg = g_id g \<and> g_access rg = g_access g"
    using assms(1,2) unfolding grant_allows_def by (metis prod.inject)
  ultimately show ?thesis
    by (auto simp: policy_grant_overlaps_def reduce_grant_to_cap_def)
qed

section \<open>Candidates under rules\<close>

definition cands_allow :: "CandidateGrant list \<Rightarrow> Access \<Rightarrow> bool" where
  "cands_allow cs a \<longleftrightarrow> (\<exists>c \<in> set cs. grant_allows (cand_grant c) a)"

lemma foldl_push_unique_set: "set (foldl push_unique_grant acc gs) = set acc \<union> set gs"
  by (induction gs arbitrary: acc) auto

lemma set_candidate_grants [simp]: "set (grants (candidate_grants_to_set cs)) = cand_grant ` set cs"
proof -
  have "foldl (\<lambda>acc c. push_unique_grant acc (cand_grant c)) acc cs
      = foldl push_unique_grant acc (map cand_grant cs)" for acc
    by (induction cs arbitrary: acc) auto
  then show ?thesis
    by (simp add: candidate_grants_to_set_def foldl_push_unique_set)
qed

lemma grants_allow_candidates: "grants_allow (candidate_grants_to_set cs) a \<longleftrightarrow> cands_allow cs a"
  by (auto simp: grants_allow_def cands_allow_def)

lemma cand_grant_marked [simp]: "cand_grant ` set (mark_required_grants_for_requirements gs reqs) = set (grants gs)"
  by (force simp: mark_required_grants_for_requirements_def)

lemma cand_grant_reclassified [simp]:
  "cand_grant ` set (reclassify_required_candidates cs reqs) = cand_grant ` set cs"
  by (simp add: reclassify_required_candidates_def)

lemma cands_allow_image: "cand_grant ` set cs = cand_grant ` set ds \<Longrightarrow> cands_allow cs a = cands_allow ds a"
  unfolding cands_allow_def by (metis (no_types, lifting) image_iff)

lemma apply_candidates_eq:
  "apply_candidates f cs rs = (concat (map (fst \<circ> f) cs), rs @ concat (map (snd \<circ> f) cs))"
proof -
  have "foldl (\<lambda>(out, rs) c. let (o', r') = f c in (out @ o', rs @ r')) (out, rs) cs
      = (out @ concat (map (fst \<circ> f) cs), rs @ concat (map (snd \<circ> f) cs))" for out rs
    by (induction cs arbitrary: out rs) (auto simp: case_prod_beta)
  then show ?thesis
    by (simp add: apply_candidates_def)
qed

definition rule_outcome ::
  "string \<Rightarrow> PolicyRule \<Rightarrow> InstalledSkill \<Rightarrow> CandidateGrant \<Rightarrow> CandidateGrant list \<times> PolicyReason list" where
  "rule_outcome profile rule i = (case effect rule of Deny \<Rightarrow> deny_candidate profile rule i | Cap \<Rightarrow> cap_candidate profile rule i)"

lemma apply_policy_rule_eq:
  "apply_policy_rule profile rule cs i rs = apply_candidates (rule_outcome profile rule i) cs rs"
  by (simp add: apply_policy_rule_def apply_policy_deny_rule_def apply_policy_cap_rule_def rule_outcome_def
      split: PolicyRuleEffect.split)

lemma cap_candidate_grants:
  assumes "c' \<in> set (fst (cap_candidate profile rule i c))"
  shows "cand_grant c' = cand_grant c
      \<and> (policy_rule_target_matches (applies_to rule) c \<longrightarrow>
          (\<forall>cap \<in> set (grants (rule_capabilities rule)).
             (g_id cap, g_access cap) \<noteq> (g_id (cand_grant c), g_access (cand_grant c))))
    \<or> (\<exists>cap \<in> set (grants (rule_capabilities rule)). reduce_grant_to_cap cap (cand_grant c) = Some (cand_grant c'))"
proof -
  define ms where "ms = filter (\<lambda>rg. g_id rg = g_id (cand_grant c) \<and> g_access rg = g_access (cand_grant c))
    (grants (rule_capabilities rule))"
  have "c' = c \<and> (policy_rule_target_matches (applies_to rule) c \<longrightarrow> ms = [])
      \<or> cand_grant c' \<in> set (reduce_grant_to_cap_set ms (cand_grant c))"
    using assms unfolding cap_candidate_def ms_def[symmetric] Let_def
    by (auto split: if_splits list.splits)
  then show ?thesis
    unfolding set_reduce_grant_to_cap_set ms_def by (auto simp: filter_empty_conv)
qed

lemma rule_outcome_shrinks:
  assumes "c' \<in> set (fst (rule_outcome profile rule i c))" "grant_allows (cand_grant c') a" "non_http a"
  shows "grant_allows (cand_grant c) a"
proof (cases "effect rule")
  case Deny
  with assms show ?thesis
    by (auto simp: rule_outcome_def deny_candidate_def split: if_splits option.splits)
next
  case Cap
  with assms(1) have "c' \<in> set (fst (cap_candidate profile rule i c))"
    by (simp add: rule_outcome_def)
  from cap_candidate_grants[OF this] show ?thesis
    using assms(2,3) reduce_to_cap_within(1) by metis
qed

lemma policy_rule_step_eq:
  "policy_rule_step profile i (cs, rs) rule =
     (if policy_rule_matches rule i
      then (reclassify_required_candidates (concat (map (fst \<circ> rule_outcome profile rule i) cs))
              (required_capability_requirements i),
            rs @ concat (map (snd \<circ> rule_outcome profile rule i) cs))
      else (cs, rs))"
  by (simp add: policy_rule_step_def apply_policy_rule_eq apply_candidates_eq)

lemma policy_rule_step_candidates:
  "cand_grant ` set (fst (policy_rule_step profile i st rule)) =
     (if policy_rule_matches rule i
      then (\<Union>c \<in> set (fst st). cand_grant ` set (fst (rule_outcome profile rule i c)))
      else cand_grant ` set (fst st))"
  by (cases st) (auto simp: policy_rule_step_eq)

lemma policy_rule_step_shrinks:
  assumes "cands_allow (fst (policy_rule_step profile i st rule)) a" "non_http a"
  shows "cands_allow (fst st) a"
proof -
  obtain g where g: "g \<in> cand_grant ` set (fst (policy_rule_step profile i st rule))" "grant_allows g a"
    using assms(1) by (auto simp: cands_allow_def)
  show ?thesis
  proof (cases "policy_rule_matches rule i")
    case True
    then obtain c c' where "c \<in> set (fst st)" "c' \<in> set (fst (rule_outcome profile rule i c))" "g = cand_grant c'"
      using g(1) by (auto simp: policy_rule_step_candidates)
    then show ?thesis
      using rule_outcome_shrinks[of c' profile rule i c a] g(2) assms(2) by (auto simp: cands_allow_def)
  next
    case False
    then show ?thesis
      using g by (auto simp: policy_rule_step_candidates cands_allow_def)
  qed
qed

lemma policy_rules_shrink:
  "cands_allow (fst (foldl (policy_rule_step profile i) st rls)) a \<Longrightarrow> non_http a \<Longrightarrow> cands_allow (fst st) a"
proof (induction rls arbitrary: st)
  case (Cons rule rls)
  then have "cands_allow (fst (policy_rule_step profile i st rule)) a"
    by simp
  then show ?case
    using Cons.prems(2) by (rule policy_rule_step_shrinks)
qed simp

text \<open>A deny rule for every candidate removes each grant that allows a denied access.\<close>

lemma deny_step_removes:
  assumes "policy_rule_matches rule i" "effect rule = Deny" "applies_to rule = Any"
    and "grants_allow (rule_capabilities rule) a" "intersected a"
  shows "\<not> cands_allow (fst (policy_rule_step profile i st rule)) a"
proof
  assume "cands_allow (fst (policy_rule_step profile i st rule)) a"
  then obtain g where g: "g \<in> cand_grant ` set (fst (policy_rule_step profile i st rule))" "grant_allows g a"
    by (auto simp: cands_allow_def)
  then obtain c c' where c: "c' \<in> set (fst (deny_candidate profile rule i c))" "g = cand_grant c'"
    using assms(1,2) by (auto simp: policy_rule_step_candidates rule_outcome_def)
  obtain rg where rg: "rg \<in> set (grants (rule_capabilities rule))" "grant_allows rg a"
    using assms(4) by (auto simp: grants_allow_def)
  have keep: "c' = c" and none: "find (\<lambda>rg. policy_grant_overlaps rg (cand_grant c)) (grants (rule_capabilities rule)) = None"
    using c(1) assms(3) by (auto simp: deny_candidate_def split: option.splits)
  have "policy_grant_overlaps rg (cand_grant c)"
    using overlap_complete[OF rg(2) g(2) assms(5)] c(2) keep by simp
  with none rg(1) show False
    by (auto simp: find_None_iff)
qed

lemma deny_rule_enforced:
  assumes "rule \<in> set rls" "policy_rule_matches rule i" "effect rule = Deny" "applies_to rule = Any"
    and "grants_allow (rule_capabilities rule) a" "intersected a"
  shows "\<not> cands_allow (fst (foldl (policy_rule_step profile i) st rls)) a"
proof -
  obtain pre post where rls: "rls = pre @ rule # post"
    using split_list[OF assms(1)] by blast
  have "non_http a"
    using assms(6) by (cases a) auto
  then show ?thesis
    using deny_step_removes[OF assms(2-6)] policy_rules_shrink unfolding rls foldl_append foldl_Cons by blast
qed

text \<open>A cap rule for every candidate leaves only accesses within its caps, on constrained grants.\<close>

lemma cap_step_bounds:
  assumes "policy_rule_matches rule i" "effect rule = Cap" "applies_to rule = Any"
    and "\<And>c. c \<in> set (fst st) \<Longrightarrow> g_constraints (cand_grant c) \<noteq> CC_None"
    and "cap \<in> set (grants (rule_capabilities rule))" "(g_id cap, g_access cap) = access_capability a" "non_http a"
    and "cands_allow (fst (policy_rule_step profile i st rule)) a"
  shows "grants_allow (rule_capabilities rule) a"
proof -
  obtain g where g: "g \<in> cand_grant ` set (fst (policy_rule_step profile i st rule))" "grant_allows g a"
    using assms(8) by (auto simp: cands_allow_def)
  then obtain c c' where c: "c \<in> set (fst st)" "c' \<in> set (fst (cap_candidate profile rule i c))" "g = cand_grant c'"
    using assms(1,2) by (auto simp: policy_rule_step_candidates rule_outcome_def)
  from cap_candidate_grants[OF c(2)]
  obtain cap' where "cap' \<in> set (grants (rule_capabilities rule))"
    "reduce_grant_to_cap cap' (cand_grant c) = Some (cand_grant c')"
  proof
    assume "cand_grant c' = cand_grant c \<and> (policy_rule_target_matches (applies_to rule) c \<longrightarrow>
      (\<forall>cap \<in> set (grants (rule_capabilities rule)).
         (g_id cap, g_access cap) \<noteq> (g_id (cand_grant c), g_access (cand_grant c))))"
    moreover have "(g_id (cand_grant c'), g_access (cand_grant c')) = access_capability a"
      using g(2) c(3) by (simp add: grant_allows_def)
    ultimately have False
      using assms(3,5,6) by (metis policy_rule_target_matches.simps(1))
    then show ?thesis ..
  qed (use that in blast)
  then show ?thesis
    using reduce_to_cap_within(2) assms(4,7) c g(2) unfolding grants_allow_def by metis
qed

lemma policy_rule_step_constrained:
  assumes "\<And>c. c \<in> set (fst st) \<Longrightarrow> g_constraints (cand_grant c) \<noteq> CC_None"
    and "c \<in> set (fst (policy_rule_step profile i st rule))"
  shows "g_constraints (cand_grant c) \<noteq> CC_None"
proof -
  have "cand_grant c \<in> cand_grant ` set (fst (policy_rule_step profile i st rule))"
    using assms(2) by blast
  then consider d where "d \<in> set (fst st)" "cand_grant c = cand_grant d"
    | d c' where "d \<in> set (fst st)" "c' \<in> set (fst (rule_outcome profile rule i d))" "cand_grant c = cand_grant c'"
    by (auto simp: policy_rule_step_candidates split: if_splits)
  then show ?thesis
  proof cases
    case 1
    then show ?thesis using assms(1) by simp
  next
    case 2
    then show ?thesis
    proof (cases "effect rule")
      case Deny
      then show ?thesis
        using 2 assms(1)[of d] by (auto simp: rule_outcome_def deny_candidate_def split: if_splits option.splits)
    next
      case Cap
      then have "c' \<in> set (fst (cap_candidate profile rule i d))"
        using 2 by (simp add: rule_outcome_def)
      from cap_candidate_grants[OF this] show ?thesis
        using 2 assms(1)[of d] reduce_to_cap_constrained by auto
    qed
  qed
qed

lemma policy_rules_constrained:
  assumes "\<And>c. c \<in> set (fst st) \<Longrightarrow> g_constraints (cand_grant c) \<noteq> CC_None"
    and "c \<in> set (fst (foldl (policy_rule_step profile i) st rls))"
  shows "g_constraints (cand_grant c) \<noteq> CC_None"
  using assms
proof (induction rls arbitrary: st)
  case (Cons rule rls)
  show ?case
    by (rule Cons.IH[OF _ Cons.prems(2)[simplified foldl_Cons]]) (rule policy_rule_step_constrained[OF Cons.prems(1)])
qed simp

lemma cap_rule_enforced:
  assumes "rule \<in> set rls" "policy_rule_matches rule i" "effect rule = Cap" "applies_to rule = Any"
    and constrained: "\<And>c. c \<in> set (fst st) \<Longrightarrow> g_constraints (cand_grant c) \<noteq> CC_None"
    and "cap \<in> set (grants (rule_capabilities rule))" "(g_id cap, g_access cap) = access_capability a" "non_http a"
    and allow: "cands_allow (fst (foldl (policy_rule_step profile i) st rls)) a"
  shows "grants_allow (rule_capabilities rule) a"
proof -
  obtain pre post where rls: "rls = pre @ rule # post"
    using split_list[OF assms(1)] by blast
  let ?st = "foldl (policy_rule_step profile i) st pre"
  have "cands_allow (fst (policy_rule_step profile i ?st rule)) a"
    using allow policy_rules_shrink[OF _ assms(8)] unfolding rls by auto
  moreover have "g_constraints (cand_grant c) \<noteq> CC_None" if "c \<in> set (fst ?st)" for c
    using constrained that by (rule policy_rules_constrained)
  ultimately show ?thesis
    using cap_step_bounds[OF assms(2-4) _ assms(6-8)] by blast
qed

section \<open>Clamping\<close>

lemma set_clamp_grant:
  "set (clamp_grant declared g) = {g'. \<exists>r \<in> set declared. reduce_grant_to_requirement g r = Some g'}"
proof -
  have "set (foldl (\<lambda>reduced r. case reduce_grant_to_requirement g r of
              None \<Rightarrow> reduced | Some rg \<Rightarrow> push_unique_grant reduced rg) acc rs)
      = set acc \<union> {g'. \<exists>r \<in> set rs. reduce_grant_to_requirement g r = Some g'}" for acc rs
    by (induction rs arbitrary: acc) (auto split: option.splits)
  moreover have "req_id r = g_id g \<and> req_access r = g_access g" if "reduce_grant_to_requirement g r = Some g'" for r g'
    using that by (simp add: reduce_grant_to_requirement_Some)
  ultimately show ?thesis
    by (auto simp: clamp_grant_def)
qed

lemma clamp_eq:
  "clamp_requested_capabilities_to_manifest requested declared rs =
     (\<lparr>grants = foldl push_unique_grant [] (concat (map (clamp_grant declared) (grants requested)))\<rparr>,
      rs @ concat (map (clamp_reason declared) (grants requested)))"
proof -
  have "foldl (\<lambda>(gs, rs) g. (foldl push_unique_grant gs (clamp_grant declared g), rs @ clamp_reason declared g))
          (acc, rs) gl
      = (foldl push_unique_grant acc (concat (map (clamp_grant declared) gl)),
         rs @ concat (map (clamp_reason declared) gl))" for acc rs gl
    by (induction gl arbitrary: acc rs) simp_all
  then show ?thesis
    by (simp add: clamp_requested_capabilities_to_manifest_def)
qed

lemma set_clamp:
  "set (grants (fst (clamp_requested_capabilities_to_manifest requested declared rs))) =
     {g'. \<exists>g \<in> set (grants requested). \<exists>r \<in> set declared. reduce_grant_to_requirement g r = Some g'}"
  by (auto simp: clamp_eq foldl_push_unique_set set_clamp_grant)

lemma clamp_silent:
  assumes "clamp_reason declared g = []"
  shows "set (clamp_grant declared g) = {g}"
proof -
  have ne: "clamp_grant declared g \<noteq> []"
    and one: "\<not> (length (clamp_grant declared g) \<noteq> 1 \<or> clamp_grant declared g ! 0 \<noteq> g)"
    using assms unfolding clamp_reason_def Let_def by (simp_all split: if_splits)
  from one obtain x where "clamp_grant declared g = [x]"
    by (metis One_nat_def length_0_conv length_Suc_conv)
  with one show ?thesis
    by simp
qed

section \<open>The evaluation\<close>

text \<open>The candidates and reasons after every rule of the selected profile.\<close>

definition policy_candidates ::
  "InstalledSkill \<Rightarrow> CallerRequest \<Rightarrow> CapabilityRequirement list \<Rightarrow> SelectedPolicyProfile
     \<Rightarrow> CandidateGrant list \<times> PolicyReason list" where
  "policy_candidates i req declared sel =
     (let (clamped, rs) = clamp_requested_capabilities_to_manifest (cr_requested_capabilities req) declared []
      in foldl (policy_rule_step (spp_name sel) i)
           (mark_required_grants_for_requirements clamped (required_capability_requirements i), rs)
           (rules (spp_profile sel)))"

lemma evaluate_policy_cases:
  obtains (refused) "grants (per_granted_capabilities (evaluate_policy i req declared policy)) = []"
      "outcome (per_decision (evaluate_policy i req declared policy)) = PD_Rejected"
  | (evaluated) sel where "select_policy_profile policy req = Inr sel"
      "per_granted_capabilities (evaluate_policy i req declared policy)
         = candidate_grants_to_set (fst (policy_candidates i req declared sel))"
      "outcome (per_decision (evaluate_policy i req declared policy)) =
         (if missing_required_capabilities i (candidate_grants_to_set (fst (policy_candidates i req declared sel))) \<noteq> []
          then PD_Rejected
          else if snd (policy_candidates i req declared sel) = [] then Allowed else Reduced)"
proof (cases "select_policy_profile policy req")
  case (Inl reason)
  then show ?thesis
    by (intro refused) (simp_all add: evaluate_policy_def rejected_policy_evaluation_def CapabilityGrantSet_default_def)
next
  case (Inr sel)
  show ?thesis
  proof (cases "invalid_capability_grants (cr_requested_capabilities req) = []")
    case False
    with Inr show ?thesis
      by (intro refused) (simp_all add: evaluate_policy_def Let_def rejected_policy_evaluation_def
          CapabilityGrantSet_default_def)
  next
    case True
    obtain cs rs where cs: "policy_candidates i req declared sel = (cs, rs)"
      by fastforce
    have "evaluate_policy i req declared policy =
      (let missing = missing_required_capabilities i (candidate_grants_to_set cs)
       in if missing \<noteq> [] then
            rejected_policy_evaluation i (spp_name sel)
              ''local policy denied one or more required capabilities''
              (rs @ [\<lparr>reason_code = ''policy-required-capability-missing'',
                      reason_message = ''local policy did not grant all required capabilities'',
                      reason_detail = Some (json_obj
                        [(''missing'', JArray missing), (''profile_name'', JString (spp_name sel)),
                         (''trust_tier'', LocalTrustTier_json (trust_tier (trust i))),
                         (''verification_state'', InstalledVerificationState_json (verification_state (trust i)))])\<rparr>])
              (Some (json_obj [(''missing'', JArray missing)])) (candidate_grants_to_set cs)
          else completed_policy_evaluation i (spp_name sel) (candidate_grants_to_set cs) rs)"
      using Inr True cs
      by (cases "default_action (spp_profile sel)")
        (simp add: evaluate_policy_def policy_candidates_def Let_def case_prod_beta)
    with Inr cs show ?thesis
      by (intro evaluated[of sel])
        (auto simp: Let_def rejected_policy_evaluation_def completed_policy_evaluation_def)
  qed
qed

lemma policy_candidates_shrink:
  assumes "cands_allow (fst (policy_candidates i req declared sel)) a" "non_http a"
  shows "\<exists>g \<in> set (grants (cr_requested_capabilities req)). \<exists>r \<in> set declared. grant_allows g a
    \<and> (req_id r, req_access r) = access_capability a \<and> constraints_allow (req_constraints r) a"
proof -
  obtain clamped rs where clamped: "clamp_requested_capabilities_to_manifest (cr_requested_capabilities req) declared []
      = (clamped, rs)"
    by fastforce
  have "cands_allow (mark_required_grants_for_requirements clamped (required_capability_requirements i)) a"
    using policy_rules_shrink[OF _ assms(2)] assms(1) clamped
    by (fastforce simp: policy_candidates_def)
  then have "grants_allow clamped a"
    using cand_grant_marked unfolding cands_allow_def grants_allow_def by (metis image_eqI)
  then obtain g' where "g' \<in> set (grants clamped)" "grant_allows g' a"
    by (auto simp: grants_allow_def)
  moreover have "set (grants clamped) =
      {g'. \<exists>g \<in> set (grants (cr_requested_capabilities req)). \<exists>r \<in> set declared. reduce_grant_to_requirement g r = Some g'}"
    using set_clamp[of "cr_requested_capabilities req" declared "[]"] clamped by simp
  ultimately show ?thesis
    using reduce_to_requirement_within[OF _ _ assms(2)] by blast
qed

lemma policy_within_request:
  assumes "grants_allow (per_granted_capabilities (evaluate_policy i req declared policy)) a" "non_http a"
  shows "grants_allow (cr_requested_capabilities req) a
    \<and> (\<exists>r \<in> set declared. (req_id r, req_access r) = access_capability a \<and> constraints_allow (req_constraints r) a)"
proof (cases rule: evaluate_policy_cases[of i req declared policy])
  case refused
  with assms(1) show ?thesis
    by (simp add: grants_allow_def)
next
  case (evaluated sel)
  then have "cands_allow (fst (policy_candidates i req declared sel)) a"
    using assms(1) by (simp add: grants_allow_candidates)
  from policy_candidates_shrink[OF this assms(2)] show ?thesis
    by (auto simp: grants_allow_def)
qed

lemma policy_covers_required:
  assumes "outcome (per_decision (evaluate_policy i req declared policy)) \<noteq> PD_Rejected"
    and "r \<in> set (capabilities (manifest i))" "required r"
  shows "grants_cover_requirement (per_granted_capabilities (evaluate_policy i req declared policy)) r"
proof (cases rule: evaluate_policy_cases[of i req declared policy])
  case refused
  with assms(1) show ?thesis
    by simp
next
  case (evaluated sel)
  then show ?thesis
    using assms by (auto simp: missing_required_capabilities_def filter_empty_conv split: if_splits)
qed

lemma rule_outcome_silent:
  assumes "snd (rule_outcome profile rule i c) = []"
  shows "cand_grant ` set (fst (rule_outcome profile rule i c)) = {cand_grant c}"
  using assms
  by (auto simp: rule_outcome_def deny_candidate_def cap_candidate_def Let_def
      split: PolicyRuleEffect.splits if_splits option.splits list.splits)

lemma policy_rules_silent:
  assumes "snd (foldl (policy_rule_step profile i) (cs, rs) rls) = []"
  shows "rs = [] \<and> cand_grant ` set (fst (foldl (policy_rule_step profile i) (cs, rs) rls)) = cand_grant ` set cs"
  using assms
proof (induction rls arbitrary: cs rs)
  case (Cons rule rls)
  obtain cs' rs' where step: "policy_rule_step profile i (cs, rs) rule = (cs', rs')"
    by fastforce
  have IH: "rs' = [] \<and> cand_grant ` set (fst (foldl (policy_rule_step profile i) (cs', rs') rls)) = cand_grant ` set cs'"
    by (rule Cons.IH) (use Cons.prems step in simp)
  then have silent: "rs = []" "policy_rule_matches rule i \<Longrightarrow> \<forall>c \<in> set cs. snd (rule_outcome profile rule i c) = []"
    using step by (auto simp: policy_rule_step_eq split: if_splits)
  have "cand_grant ` set cs' = cand_grant ` set cs"
    using policy_rule_step_candidates[of profile i "(cs, rs)" rule] step silent(2) rule_outcome_silent
    by (auto split: if_splits)
  with IH silent(1) step show ?case
    by auto
qed simp

lemma policy_allowed_unchanged:
  assumes "outcome (per_decision (evaluate_policy i req declared policy)) = Allowed"
  shows "set (grants (per_granted_capabilities (evaluate_policy i req declared policy)))
    = set (grants (cr_requested_capabilities req))"
proof (cases rule: evaluate_policy_cases[of i req declared policy])
  case refused
  with assms show ?thesis
    by simp
next
  case (evaluated sel)
  obtain clamped rs where clamped: "clamp_requested_capabilities_to_manifest (cr_requested_capabilities req) declared []
      = (clamped, rs)"
    by fastforce
  have "snd (policy_candidates i req declared sel) = []"
    using evaluated assms by (auto split: if_splits)
  then have silent: "rs = []" "cand_grant ` set (fst (policy_candidates i req declared sel)) = set (grants clamped)"
    using policy_rules_silent[of "spp_name sel" i _ rs] clamped by (auto simp: policy_candidates_def)
  then have "\<forall>g \<in> set (grants (cr_requested_capabilities req)). set (clamp_grant declared g) = {g}"
    using clamped clamp_silent by (auto simp: clamp_eq)
  then have "set (grants clamped) = set (grants (cr_requested_capabilities req))"
    using clamped by (auto simp: clamp_eq foldl_push_unique_set)
  then show ?thesis
    using evaluated silent by simp
qed

lemma policy_deny_enforced:
  assumes "select_policy_profile policy req = Inr sel" "rule \<in> set (rules (spp_profile sel))"
    and "policy_rule_matches rule i" "effect rule = Deny" "applies_to rule = Any"
    and "grants_allow (rule_capabilities rule) a" "intersected a"
  shows "\<not> grants_allow (per_granted_capabilities (evaluate_policy i req declared policy)) a"
proof (cases rule: evaluate_policy_cases[of i req declared policy])
  case refused
  then show ?thesis
    by (simp add: grants_allow_def)
next
  case (evaluated sel')
  then show ?thesis
    using assms(1) deny_rule_enforced[OF assms(2-7)]
    by (simp add: grants_allow_candidates policy_candidates_def case_prod_beta Let_def)
qed

lemma policy_cap_enforced:
  assumes "select_policy_profile policy req = Inr sel" "rule \<in> set (rules (spp_profile sel))"
    and "policy_rule_matches rule i" "effect rule = Cap" "applies_to rule = Any"
    and "cap \<in> set (grants (rule_capabilities rule))" "(g_id cap, g_access cap) = access_capability a" "non_http a"
    and constrained: "\<And>g. g \<in> set (grants (cr_requested_capabilities req)) \<Longrightarrow> g_constraints g \<noteq> CC_None"
    and allow: "grants_allow (per_granted_capabilities (evaluate_policy i req declared policy)) a"
  shows "grants_allow (rule_capabilities rule) a"
proof (cases rule: evaluate_policy_cases[of i req declared policy])
  case refused
  with allow show ?thesis
    by (simp add: grants_allow_def)
next
  case (evaluated sel')
  let ?clamp = "clamp_requested_capabilities_to_manifest (cr_requested_capabilities req) declared []"
  let ?st = "(mark_required_grants_for_requirements (fst ?clamp) (required_capability_requirements i), snd ?clamp)"
  have "cands_allow (fst (foldl (policy_rule_step (spp_name sel) i) ?st (rules (spp_profile sel)))) a"
    using evaluated assms(1) allow
    by (simp add: grants_allow_candidates policy_candidates_def case_prod_beta Let_def)
  moreover have "g_constraints (cand_grant c) \<noteq> CC_None" if "c \<in> set (fst ?st)" for c
  proof -
    have "cand_grant c \<in> set (grants (fst ?clamp))"
      using that cand_grant_marked by (metis fst_conv image_eqI)
    then show ?thesis
      using set_clamp[of "cr_requested_capabilities req" declared "[]"] constrained
        reduce_to_requirement_constrained by blast
  qed
  ultimately show ?thesis
    using cap_rule_enforced[OF assms(2-5) _ assms(6-8)] by blast
qed

text \<open>A validated configuration selects a profile unless two bindings match.\<close>

lemma select_profile_valid:
  assumes "LocalPolicyConfig_validate policy = []"
  shows "(\<exists>sel. select_policy_profile policy req = Inr sel \<and> spp_profile sel \<in> set (profiles policy)
      \<and> profile_name (spp_profile sel) =
          (case filter (\<lambda>b. policy_profile_binding_matches b req) (bindings policy) of
             [] \<Rightarrow> default_profile policy | b # _ \<Rightarrow> binding_profile b))
    \<longleftrightarrow> length (filter (\<lambda>b. policy_profile_binding_matches b req) (bindings policy)) \<le> 1"
proof (cases "length (filter (\<lambda>b. policy_profile_binding_matches b req) (bindings policy)) \<le> 1")
  case True
  define ms where "ms = filter (\<lambda>b. policy_profile_binding_matches b req) (bindings policy)"
  define nm where "nm = (case ms of [] \<Rightarrow> default_profile policy | b # _ \<Rightarrow> binding_profile b)"
  have "\<exists>p \<in> set (profiles policy). profile_name p = nm"
  proof (cases ms)
    case (Cons b bs)
    then have "b \<in> set (bindings policy)"
      unfolding ms_def by (metis filter_is_subset list.set_intros(1) subsetD)
    then show ?thesis
      using policy_valid_binding_declared[OF assms] Cons nm_def by simp
  qed (use policy_valid_default_declared[OF assms] nm_def in simp)
  then obtain p where "find (\<lambda>p. profile_name p = nm) (profiles policy) = Some p"
    by (metis (mono_tags, lifting) find_None_iff option.exhaust)
  moreover from this have "p \<in> set (profiles policy)" "profile_name p = nm"
    using find_SomeD by fastforce+
  ultimately show ?thesis
    using True unfolding select_policy_profile_def ms_def[symmetric] nm_def[symmetric] Let_def by simp
qed (simp add: select_policy_profile_def Let_def)

section \<open>Claims\<close>

text \<open>C4: Policy never amplifies: outside HTTP, an access that the evaluated grants allow was requested by the caller
  and is allowed by a declared requirement of the same capability and access, whatever the profile and rules.\<close>

theorem policy_never_amplifies:
  assumes "grants_allow (per_granted_capabilities (evaluate_policy i req declared policy)) a"
    and "fst (access_capability a) \<noteq> HttpRequest"
  shows "grants_allow (cr_requested_capabilities req) a
    \<and> (\<exists>r \<in> set declared. (req_id r, req_access r) = access_capability a \<and> constraints_allow (req_constraints r) a)"
  using assms by (rule policy_within_request)

text \<open>A caller that asks for two log levels; the skill declares one of them; a profile with one rule.\<close>

definition sample_caller :: CallerRequest where
  "sample_caller = \<lparr>cr_request_id = ''r1'', cr_skill = \<lparr>rq_key = sample_key, rq_version_req = ''^1''\<rparr>,
     cr_tenant_id = ''t1'', cr_actor_id = ''alice'', cr_mode = Inspect, cr_input = JNull, cr_budget = Budget_default,
     cr_requested_capabilities = \<lparr>grants = [\<lparr>g_id = LogWrite, g_access = Write,
       g_constraints = CC_Log \<lparr>levels = Some [Info, Warn]\<rparr>\<rparr>]\<rparr>,
     cr_idempotency_key = None, cr_trace_id = ''tr1''\<rparr>"

definition sample_skill :: InstalledSkill where
  "sample_skill = sample_installed ''1.0.0'' ''d1''"

definition sample_rule :: "PolicyRuleEffect \<Rightarrow> Severity list \<Rightarrow> PolicyRule" where
  "sample_rule e ls = \<lparr>rule_name = Some ''logs'', rule_skills = None, rule_publisher_ids = None,
     rule_trust_tiers = None, rule_verification_states = None, applies_to = Any, effect = e,
     rule_capabilities = \<lparr>grants = [\<lparr>g_id = LogWrite, g_access = Write,
       g_constraints = CC_Log \<lparr>levels = Some ls\<rparr>\<rparr>]\<rparr>\<rparr>"

definition sample_config :: "PolicyRule list \<Rightarrow> LocalPolicyConfig" where
  "sample_config rls = \<lparr>format_version = GuildLocalPolicyV2, default_profile = ''default'',
     profiles = [default_policy_profile\<lparr>rules := rls\<rparr>], bindings = []\<rparr>"

abbreviation sample_evaluation :: "PolicyRule list \<Rightarrow> PolicyEvaluationResult" where
  "sample_evaluation rls \<equiv> evaluate_policy sample_skill sample_caller (s_capabilities sample_source) (sample_config rls)"

lemma sample_selection:
  "select_policy_profile (sample_config rls) sample_caller
     = Inr \<lparr>spp_name = ''default'', spp_profile = default_policy_profile\<lparr>rules := rls\<rparr>\<rparr>"
  by (simp add: select_policy_profile_def sample_config_def default_policy_profile_def Let_def)

lemma sample_rule_fields [simp]:
  "policy_rule_matches (sample_rule e ls) i" "effect (sample_rule e ls) = e" "applies_to (sample_rule e ls) = Any"
  by (simp_all add: policy_rule_matches_def sample_rule_def)

theorem policy_never_amplifies_witness:
  "grants_allow (per_granted_capabilities (sample_evaluation [])) (Acc_Log Info)
   \<and> grants_allow (cr_requested_capabilities sample_caller) (Acc_Log Info)"
proof -
  have allow: "grants_allow (per_granted_capabilities (sample_evaluation [])) (Acc_Log Info)"
    by code_simp
  have "fst (access_capability (Acc_Log Info)) \<noteq> HttpRequest"
    by simp
  from allow policy_never_amplifies[OF allow this] show ?thesis
    by blast
qed

text \<open>An execution that policy admits has what it needs: unless the decision is a rejection, the granted set
  covers every required requirement of the skill's manifest.\<close>

theorem policy_admission_covers_required:
  assumes "outcome (per_decision (evaluate_policy i req declared policy)) \<noteq> PD_Rejected"
    and "r \<in> set (capabilities (manifest i))" "required r"
  shows "grants_cover_requirement (per_granted_capabilities (evaluate_policy i req declared policy)) r"
  using assms by (rule policy_covers_required)

theorem policy_admission_covers_required_witness:
  "outcome (per_decision (sample_evaluation [])) = Reduced
   \<and> grants_cover_requirement (per_granted_capabilities (sample_evaluation [])) (hd (s_capabilities sample_source))"
proof -
  have out: "outcome (per_decision (sample_evaluation [])) = Reduced"
    by code_simp
  have "hd (s_capabilities sample_source) \<in> set (capabilities (manifest sample_skill))"
    and "required (hd (s_capabilities sample_source))"
    by code_simp+
  with out policy_admission_covers_required show ?thesis
    by fastforce
qed

text \<open>C5: A deny rule is final: when a rule of the selected profile that applies to every candidate denies an access
  to a resource, dependency or log level, the evaluated grants never allow that access, whatever rules stand
  before or after it.\<close>

theorem policy_deny_is_final:
  assumes "select_policy_profile policy req = Inr sel" "rule \<in> set (rules (spp_profile sel))"
    and "policy_rule_matches rule i" "effect rule = Deny" "applies_to rule = Any"
    and "grants_allow (rule_capabilities rule) a" "intersected a"
  shows "\<not> grants_allow (per_granted_capabilities (evaluate_policy i req declared policy)) a"
  using assms by (rule policy_deny_enforced)

theorem policy_deny_is_final_witness:
  "grants_allow (cr_requested_capabilities sample_caller) (Acc_Log Info)
   \<and> \<not> grants_allow (per_granted_capabilities (sample_evaluation [sample_rule Cap [Info], sample_rule Deny [Info]]))
       (Acc_Log Info)"
proof -
  let ?rls = "[sample_rule Cap [Info], sample_rule Deny [Info]]"
  have mem: "sample_rule Deny [Info] \<in> set (rules (spp_profile \<lparr>spp_name = ''default'',
      spp_profile = default_policy_profile\<lparr>rules := ?rls\<rparr>\<rparr>))"
    by simp
  have deny: "grants_allow (rule_capabilities (sample_rule Deny [Info])) (Acc_Log Info)"
    and asked: "grants_allow (cr_requested_capabilities sample_caller) (Acc_Log Info)"
    by code_simp+
  show ?thesis
    by (intro conjI asked policy_deny_is_final[OF sample_selection mem _ _ _ deny]) simp_all
qed

text \<open>C32: A cap rule is a ceiling: when no requested grant is unconstrained, a matching cap rule for every candidate
  that names an access's capability bounds what the evaluated grants allow of it, outside HTTP.\<close>

theorem policy_cap_is_ceiling:
  assumes "select_policy_profile policy req = Inr sel" "rule \<in> set (rules (spp_profile sel))"
    and "policy_rule_matches rule i" "effect rule = Cap" "applies_to rule = Any"
    and "cap \<in> set (grants (rule_capabilities rule))" "(g_id cap, g_access cap) = access_capability a"
    and "fst (access_capability a) \<noteq> HttpRequest"
    and "\<And>g. g \<in> set (grants (cr_requested_capabilities req)) \<Longrightarrow> g_constraints g \<noteq> CC_None"
    and "grants_allow (per_granted_capabilities (evaluate_policy i req declared policy)) a"
  shows "grants_allow (rule_capabilities rule) a"
  using assms by (rule policy_cap_enforced)

theorem policy_cap_is_ceiling_witness:
  "grants_allow (per_granted_capabilities (sample_evaluation [sample_rule Cap [Error, Info]])) (Acc_Log Info)
   \<and> grants_allow (rule_capabilities (sample_rule Cap [Error, Info])) (Acc_Log Info)"
proof -
  let ?rule = "sample_rule Cap [Error, Info]"
  let ?cap = "\<lparr>g_id = LogWrite, g_access = Write, g_constraints = CC_Log \<lparr>levels = Some [Error, Info]\<rparr>\<rparr>"
  have allow: "grants_allow (per_granted_capabilities (sample_evaluation [?rule])) (Acc_Log Info)"
    by code_simp
  have mem: "?rule \<in> set (rules (spp_profile \<lparr>spp_name = ''default'',
      spp_profile = default_policy_profile\<lparr>rules := [?rule]\<rparr>\<rparr>))"
    and cap: "?cap \<in> set (grants (rule_capabilities ?rule))"
    by (simp_all add: sample_rule_def)
  have con: "g_constraints g \<noteq> CC_None" if "g \<in> set (grants (cr_requested_capabilities sample_caller))" for g
    using that by (simp add: sample_caller_def)
  have "grants_allow (rule_capabilities ?rule) (Acc_Log Info)"
    by (rule policy_cap_is_ceiling[OF sample_selection mem _ _ _ cap _ _ con allow]) simp_all
  with allow show ?thesis ..
qed

text \<open>Every reduction is reported: a decision of \<open>Allowed\<close> means that the granted capabilities are exactly the
  requested ones; any clamp, denial or cap that changed them makes the outcome \<open>Reduced\<close> or a rejection.\<close>

theorem policy_allowed_means_unchanged:
  assumes "outcome (per_decision (evaluate_policy i req declared policy)) = Allowed"
  shows "set (grants (per_granted_capabilities (evaluate_policy i req declared policy)))
    = set (grants (cr_requested_capabilities req))"
  using assms by (rule policy_allowed_unchanged)

definition sample_modest_caller :: CallerRequest where
  "sample_modest_caller = sample_caller\<lparr>cr_requested_capabilities := \<lparr>grants = [\<lparr>g_id = LogWrite, g_access = Write,
     g_constraints = CC_Log \<lparr>levels = Some [Info]\<rparr>\<rparr>]\<rparr>\<rparr>"

theorem policy_allowed_means_unchanged_witness:
  "outcome (per_decision (evaluate_policy sample_skill sample_modest_caller (s_capabilities sample_source)
      (sample_config [sample_rule Cap [Info]]))) = Allowed
   \<and> set (grants (per_granted_capabilities (evaluate_policy sample_skill sample_modest_caller
        (s_capabilities sample_source) (sample_config [sample_rule Cap [Info]]))))
       = set (grants (cr_requested_capabilities sample_modest_caller))"
    (is "?out = Allowed \<and> _")
proof -
  have out: "?out = Allowed"
    by code_simp
  show ?thesis
    by (intro conjI out policy_allowed_means_unchanged[OF out])
qed

text \<open>Profile selection on a validated configuration fails only for a real ambiguity: a declared profile, the one
  of the single matching binding or else the default, is selected if and only if at most one binding matches.\<close>

theorem profile_selection_total:
  assumes "LocalPolicyConfig_validate policy = []"
  shows "(\<exists>sel. select_policy_profile policy req = Inr sel \<and> spp_profile sel \<in> set (profiles policy)
      \<and> profile_name (spp_profile sel) =
          (case filter (\<lambda>b. policy_profile_binding_matches b req) (bindings policy) of
             [] \<Rightarrow> default_profile policy | b # _ \<Rightarrow> binding_profile b))
    \<longleftrightarrow> length (filter (\<lambda>b. policy_profile_binding_matches b req) (bindings policy)) \<le> 1"
  using assms by (rule select_profile_valid)

theorem profile_selection_total_witness:
  "LocalPolicyConfig_validate (sample_config []) = []
   \<and> (\<exists>sel. select_policy_profile (sample_config []) sample_caller = Inr sel
        \<and> spp_profile sel \<in> set (profiles (sample_config [])))"
proof -
  have ok: "LocalPolicyConfig_validate (sample_config []) = []"
    and one: "length (filter (\<lambda>b. policy_profile_binding_matches b sample_caller) (bindings (sample_config []))) \<le> 1"
    by code_simp+
  show ?thesis
    using ok one profile_selection_total[OF ok, of sample_caller] by blast
qed

end
