(* ===== verification/Guild_Records.thy ===== *)
theory Guild_Records
  imports Guild_Errors
begin

text \<open>
  What an execution leaves behind (\<open>crates/guild-types/src/lib.rs\<close>): skill output, evidence,
  authority observations, execution and child records, and the query results built from them.
\<close>

section \<open>Output and evidence\<close>

record Diagnostic =
  diag_severity :: Severity
  diag_code :: string
  diag_message :: string
  diag_retryable :: bool
  diag_detail :: "json option"

record Effect =
  eff_kind :: Mutability
  eff_target :: string
  eff_summary :: string

record EvidenceRef =
  er_uri :: string
  er_title :: "string option"
  er_mime_type :: "string option"
  er_sha256 :: "string option"
  er_audience :: EvidenceAudience
  er_redaction :: RedactionClass
  er_freshness :: "string option"

record ResourceReadResult =
  rr_uri :: string
  rr_mime_type :: string
  rr_bytes :: string
  rr_sha256 :: "string option"

record SkillOutput =
  so_summary :: string
  so_structured :: json
  so_diagnostics :: "Diagnostic list"
  so_effects :: "Effect list"
  so_evidence :: "EvidenceRef list"

datatype EvidenceSinkKind = LocalObjectStore
datatype EvidenceRoutingMode = Direct
datatype EvidenceStorageClass = LocalPersistentContentAddressed

record EvidenceSinkDescriptor =
  sink_kind :: EvidenceSinkKind
  record_uri_prefix :: string
  blob_uri_prefix :: string
  routing_mode :: EvidenceRoutingMode
  storage_class :: EvidenceStorageClass

definition local_object_store_evidence_sink_descriptor :: EvidenceSinkDescriptor where
  "local_object_store_evidence_sink_descriptor =
     \<lparr>sink_kind = LocalObjectStore, record_uri_prefix = GUILD_OBJECT_RECORD_URI_PREFIX,
      blob_uri_prefix = GUILD_OBJECT_BLOB_URI_PREFIX, routing_mode = Direct,
      storage_class = LocalPersistentContentAddressed\<rparr>"

record EvidenceBlobRecord =
  eb_uri :: string
  eb_sha256 :: string
  eb_size_bytes :: u64

record EvidenceRecord =
  ev_uri :: string
  ev_blob_uri :: string
  ev_mime_type :: string
  ev_sha256 :: string
  ev_size_bytes :: u64
  ev_sink :: "EvidenceSinkDescriptor option"
  ev_title :: "string option"
  ev_audience :: EvidenceAudience
  ev_redaction :: RedactionClass
  ev_freshness :: "string option"
  ev_produced_by_execution :: "string option"

definition evidence_ref :: "EvidenceRecord \<Rightarrow> EvidenceRef" where
  "evidence_ref r =
     \<lparr>er_uri = ev_uri r, er_title = ev_title r, er_mime_type = Some (ev_mime_type r),
      er_sha256 = Some (ev_sha256 r), er_audience = ev_audience r, er_redaction = ev_redaction r,
      er_freshness = ev_freshness r\<rparr>"

section \<open>Authority observations\<close>

datatype AuthorityObservationStatus = Exercised | Blocked

record AuthorityObservationFailure =
  of_code :: string
  of_message :: string
  of_detail :: "json option"

record HttpAuthorityObservation =
  ho_request :: HttpRequestMsg
  ho_response_status :: "u16 option"
  ho_response_content_type :: "string option"
  ho_response_bytes :: "u64 option"
  ho_redirects_followed :: "u8 option"
  ho_resolution :: "HttpResolutionBinding option"
  ho_denial :: "AuthorityObservationFailure option"
  ho_result_error :: "AuthorityObservationFailure option"

record ReadResourceAuthorityObservation =
  ro_uri :: string
  ro_resource_kind :: "ResourceKind option"
  ro_mime_type :: "string option"
  ro_bytes :: "u64 option"
  ro_sha256 :: "string option"
  ro_denial :: "AuthorityObservationFailure option"
  ro_result_error :: "AuthorityObservationFailure option"

record EmitEvidenceAuthorityObservation =
  eo_mime_type :: string
  eo_audience :: EvidenceAudience
  eo_redaction :: RedactionClass
  eo_size_bytes :: u64
  eo_sink :: "EvidenceSinkDescriptor option"
  eo_title :: "string option"
  eo_evidence_uri :: "string option"
  eo_sha256 :: "string option"
  eo_denial :: "AuthorityObservationFailure option"
  eo_result_error :: "AuthorityObservationFailure option"

record InvokeSkillAuthorityObservation =
  io_alias :: string
  io_child_execution_id :: "string option"
  io_child_status :: "ExecutionStatus option"
  io_denial :: "AuthorityObservationFailure option"
  io_result_error :: "AuthorityObservationFailure option"

record LogWriteAuthorityObservation =
  lo_level :: Severity
  lo_denial :: "AuthorityObservationFailure option"

datatype AuthorityObservation =
    Obs_Http AuthorityObservationStatus HttpAuthorityObservation
  | Obs_Read AuthorityObservationStatus ReadResourceAuthorityObservation
  | Obs_Invoke AuthorityObservationStatus InvokeSkillAuthorityObservation
  | Obs_Emit AuthorityObservationStatus EmitEvidenceAuthorityObservation
  | Obs_Log AuthorityObservationStatus LogWriteAuthorityObservation

section \<open>Execution records\<close>

record TerminationDetail =
  td_phase :: ExecutionPhase
  td_code :: string
  td_message :: string
  td_retryable :: bool
  td_detail :: "json option"

record ExecutionMetrics =
  em_duration_ms :: u64
  em_network_requests :: u32
  em_child_executions :: u16
  em_cache_hits :: u32
  em_cache_misses :: u32

definition ExecutionMetrics_default :: ExecutionMetrics where
  "ExecutionMetrics_default =
     \<lparr>em_duration_ms = 0, em_network_requests = 0, em_child_executions = 0, em_cache_hits = 0,
      em_cache_misses = 0\<rparr>"

record Provenance =
  prov_resolved_skill :: ResolvedSkillRef
  prov_abi :: AbiVersion
  prov_dependency_digests :: "string list"
  prov_started_at_utc :: "string option"
  prov_finished_at_utc :: "string option"

record ChildExecutionRecord =
  ch_alias :: string
  ch_execution_id :: string
  ch_uri :: string
  ch_parent_execution_id :: string
  ch_trace_id :: string
  ch_status :: ExecutionStatus
  ch_policy_decision :: PolicyDecision
  ch_termination :: "TerminationDetail option"
  ch_granted_capabilities :: CapabilityGrantSet
  ch_metrics :: ExecutionMetrics
  ch_provenance :: Provenance

record ExecutionRecord =
  x_receipt :: ExecutionReceipt
  x_request :: CallerRequest
  x_policy_decision :: PolicyDecision
  x_resolved_skill :: ResolvedSkillRef
  x_parent_execution_id :: "string option"
  x_status :: ExecutionStatus
  x_output :: "SkillOutput option"
  x_termination :: "TerminationDetail option"
  x_granted_capabilities :: CapabilityGrantSet
  x_emitted_evidence :: "EvidenceRecord list"
  x_authority_observations :: "AuthorityObservation list"
  x_authority_observations_recorded :: bool
  x_metrics :: ExecutionMetrics
  x_provenance :: Provenance
  x_child_executions :: "ChildExecutionRecord list"

section \<open>Runtime results\<close>

text \<open>What a runtime adapter hands back to the runner (\<open>crates/guild-runner/src/lib.rs\<close>).\<close>

record RuntimeOutcome =
  ro_output :: SkillOutput
  ro_emitted_evidence :: "EvidenceRef list"
  ro_child_executions :: "ChildExecutionRecord list"
  ro_authority_observations :: "AuthorityObservation list"
  ro_network_requests :: u32

record RuntimeFailure =
  rf_error :: ExecutionError
  rf_emitted_evidence :: "EvidenceRef list"
  rf_child_executions :: "ChildExecutionRecord list"
  rf_authority_observations :: "AuthorityObservation list"
  rf_network_requests :: u32

record ChildInvocationOutcome =
  co_output :: SkillOutput
  co_record :: ChildExecutionRecord

record HostHttpResponse =
  hh_response :: HttpResponse
  hh_redirect_location :: "string option"

end
