(* ===== verification/Guild_Host.thy ===== *)
theory Guild_Host
  imports Guild_Http Guild_Records
begin

text \<open>
  The host side of one Wasm execution (\<open>crates/guild-runner/src/lib.rs\<close>): the store state with its
  observation log, the five host calls a guest can make, capability denials as traps, and the
  redirect loop of an HTTP call. A call returns its \<open>wasmtime::Result\<close> and the new state.

  What lies outside the repository is a parameter: \<open>HostEnv\<close> holds the \<open>url\<close> crate, the system
  resolver, the standard library's address error text, \<open>serde_json\<close>'s text codec and SHA-256, and
  \<open>RuntimeHost\<close> is the trait of the same name, over an abstract host state \<open>'w\<close>.
\<close>

section \<open>Environment\<close>

record 'w HostEnv =
  he_url_parse :: "string \<Rightarrow> string + Url"
  he_url_join :: "Url \<Rightarrow> string \<Rightarrow> string + Url"
  he_ip_error :: "string \<Rightarrow> string"
  he_dns :: "'w \<Rightarrow> string \<Rightarrow> u16 \<Rightarrow> IpAddr list option"
  he_json_text :: "json \<Rightarrow> string"
  he_json_parse :: "string \<Rightarrow> string + json"
  he_json_stream :: "string \<Rightarrow> json option"
  he_sha256_hex :: "string \<Rightarrow> string"

record ChildInvocationError =
  ce_skill_error :: SkillError
  ce_record :: "ChildExecutionRecord option"
  ce_denial :: "CapabilityDenial option"

record 'w RuntimeHost =
  rh_invoke_dependency :: "InstalledSkill \<Rightarrow> ExecutionContext \<Rightarrow> u16 \<Rightarrow> string \<Rightarrow> json \<Rightarrow> 'w
     \<Rightarrow> (ChildInvocationError + ChildInvocationOutcome) \<times> 'w"
  rh_emit_evidence :: "string \<Rightarrow> EvidenceEmissionRequest \<Rightarrow> 'w \<Rightarrow> (SkillError + EvidenceRef) \<times> 'w"
  rh_read_resource :: "string \<Rightarrow> 'w \<Rightarrow> SkillError + ResourceReadResult"
  rh_http_request :: "HttpRequestMsg \<Rightarrow> u64 \<Rightarrow> u64 \<Rightarrow> 'w \<Rightarrow> (SkillError + HostHttpResponse) \<times> 'w"
  rh_replay_resolution_binding_for_request ::
    "HttpRequestMsg \<Rightarrow> SkillError + HttpResolutionBinding option"

definition into_skill_error :: "CapabilityDenial \<Rightarrow> SkillError" where
  "into_skill_error d =
     \<lparr>se_code = cd_code d, se_message = cd_message d, se_retryable = False, se_detail = Some (cd_detail d)\<rparr>"

definition into_execution_error :: "ExecutionPhase \<Rightarrow> CapabilityDenial \<Rightarrow> ExecutionError" where
  "into_execution_error phase d =
     with_phase phase (with_detail (cd_detail d) (ExecutionError_new (cd_code d) (cd_message d)))"

definition without_record :: "SkillError \<Rightarrow> ChildInvocationError" where
  "without_record e = \<lparr>ce_skill_error = e, ce_record = None, ce_denial = None\<rparr>"

definition denied :: "CapabilityDenial \<Rightarrow> ChildInvocationError" where
  "denied d = \<lparr>ce_skill_error = into_skill_error d, ce_record = None, ce_denial = Some d\<rparr>"

section \<open>Denials as traps\<close>

text \<open>
  A \<open>wasmtime::Error\<close> is the chain of its messages, outermost first. Wasmtime prefixes a host error
  with context of its own before it reaches the caller.
\<close>

type_synonym wasm_error = "string list"

definition CAPABILITY_DENIAL_TRAP_PREFIX :: string where
  "CAPABILITY_DENIAL_TRAP_PREFIX = ''guild-capability-denial:''"

definition CapabilityDenial_json :: "CapabilityDenial \<Rightarrow> json" where
  "CapabilityDenial_json d = json_obj
     [(''code'', JString (cd_code d)), (''message'', JString (cd_message d)), (''detail'', cd_detail d)]"

definition CapabilityDenial_from_json :: "json \<Rightarrow> CapabilityDenial option" where
  "CapabilityDenial_from_json j =
     (case (Option.bind (json_get j ''code'') json_as_str, Option.bind (json_get j ''message'') json_as_str,
            json_get j ''detail'') of
        (Some c, Some m, Some d) \<Rightarrow> Some \<lparr>cd_code = c, cd_message = m, cd_detail = d\<rparr>
      | _ \<Rightarrow> None)"

definition capability_denial_trap :: "'w HostEnv \<Rightarrow> CapabilityDenial \<Rightarrow> wasm_error" where
  "capability_denial_trap env d =
     [CAPABILITY_DENIAL_TRAP_PREFIX @ he_json_text env (CapabilityDenial_json d)]"

text \<open>\<open>str::find\<close> and the text behind the first occurrence.\<close>

fun text_after :: "string \<Rightarrow> string \<Rightarrow> string option" where
  "text_after p [] = strip_prefix p []"
| "text_after p (c # s) = (case strip_prefix p (c # s) of Some r \<Rightarrow> Some r | None \<Rightarrow> text_after p s)"

definition parse_capability_denial_payload :: "'w HostEnv \<Rightarrow> string \<Rightarrow> CapabilityDenial option" where
  "parse_capability_denial_payload env msg =
     Option.bind (text_after CAPABILITY_DENIAL_TRAP_PREFIX msg) (\<lambda>payload.
       Option.bind (he_json_stream env payload) CapabilityDenial_from_json)"

fun join_chain :: "wasm_error \<Rightarrow> string" where
  "join_chain [] = []"
| "join_chain [m] = m"
| "join_chain (m # ms) = m @ '': '' @ join_chain ms"

fun find_map :: "('a \<Rightarrow> 'b option) \<Rightarrow> 'a list \<Rightarrow> 'b option" where
  "find_map f [] = None"
| "find_map f (x # xs) = (case f x of None \<Rightarrow> find_map f xs | Some y \<Rightarrow> Some y)"

definition parse_capability_denial_trap :: "'w HostEnv \<Rightarrow> wasm_error \<Rightarrow> CapabilityDenial option" where
  "parse_capability_denial_trap env e =
     (case parse_capability_denial_payload env (case e of [] \<Rightarrow> [] | m # _ \<Rightarrow> m) of
        Some d \<Rightarrow> Some d
      | None \<Rightarrow>
          (case parse_capability_denial_payload env (join_chain e) of
             Some d \<Rightarrow> Some d
           | None \<Rightarrow> find_map (parse_capability_denial_payload env) e))"

section \<open>Redirects\<close>

record PendingRedirect =
  pr_from_url :: string
  pr_status :: u16
  pr_location :: string

definition is_redirect_status :: "u16 \<Rightarrow> bool" where
  "is_redirect_status s \<longleftrightarrow> s \<in> {301, 302, 303, 307, 308}"

definition denial_cause :: "CapabilityDenial \<Rightarrow> json" where
  "denial_cause c = json_obj
     [(''code'', JString (cd_code c)), (''message'', JString (cd_message c)), (''detail'', cd_detail c)]"

definition redirect_not_allowed_denial :: "string \<Rightarrow> u16 \<Rightarrow> string \<Rightarrow> CapabilityDenial" where
  "redirect_not_allowed_denial from_url status location =
     \<lparr>cd_code = ''http-request-redirect-not-allowed'',
      cd_message = ''http-request received a redirect but follow_redirects was not granted'',
      cd_detail = json_obj [(''url'', JString from_url), (''status'', json_word status),
        (''location'', JString location)]\<rparr>"

definition redirect_hop_limit_denial :: "string \<Rightarrow> u16 \<Rightarrow> string \<Rightarrow> u8 \<Rightarrow> CapabilityDenial" where
  "redirect_hop_limit_denial from_url status location maxr =
     \<lparr>cd_code = ''http-request-redirect-hop-limit-exceeded'',
      cd_message = ''http-request redirect chain exceeded the granted max_redirects limit'',
      cd_detail = json_obj [(''url'', JString from_url), (''status'', json_word status),
        (''location'', JString location), (''max_redirects'', json_word maxr)]\<rparr>"

definition redirect_location_missing_denial :: "string \<Rightarrow> u16 \<Rightarrow> CapabilityDenial" where
  "redirect_location_missing_denial from_url status =
     \<lparr>cd_code = ''http-request-redirect-location-invalid'',
      cd_message = ''http-request redirect response did not include a valid Location header'',
      cd_detail = json_obj [(''url'', JString from_url), (''status'', json_word status)]\<rparr>"

definition redirect_location_invalid_denial :: "PendingRedirect \<Rightarrow> CapabilityDenial \<Rightarrow> CapabilityDenial" where
  "redirect_location_invalid_denial p c =
     \<lparr>cd_code = ''http-request-redirect-location-invalid'',
      cd_message = ''http-request redirect location was invalid'',
      cd_detail = json_obj [(''url'', JString (pr_from_url p)), (''status'', json_word (pr_status p)),
        (''location'', JString (pr_location p)), (''cause'', denial_cause c)]\<rparr>"

definition redirect_target_not_granted_denial ::
  "PendingRedirect \<Rightarrow> string \<Rightarrow> CapabilityDenial \<Rightarrow> CapabilityDenial" where
  "redirect_target_not_granted_denial p redirected_url c =
     \<lparr>cd_code = ''http-request-redirect-target-not-granted'',
      cd_message = ''http-request redirect target was outside the granted HTTP authority'',
      cd_detail = json_obj [(''url'', JString (pr_from_url p)), (''status'', json_word (pr_status p)),
        (''location'', JString (pr_location p)), (''redirected_url'', JString redirected_url),
        (''cause'', denial_cause c)]\<rparr>"

definition build_redirect_request ::
  "'w HostEnv \<Rightarrow> HttpRequestMsg \<Rightarrow> string \<Rightarrow> CapabilityDenial + HttpRequestMsg" where
  "build_redirect_request env req location =
     (let invalid = (\<lambda>msg err. \<lparr>cd_code = ''http-request-redirect-location-invalid'', cd_message = msg,
            cd_detail = json_obj [(''url'', JString (hr_url req)), (''location'', JString location),
              (''error'', JString err)]\<rparr>)
      in res_bind (map_err (invalid ''http-request redirect source URL could not be reparsed safely'')
                     (he_url_parse env (hr_url req))) (\<lambda>current.
         res_bind (map_err (invalid ''http-request redirect location was invalid'')
                     (he_url_join env current location)) (\<lambda>redirected.
         Inr \<lparr>hr_method = hr_method req, hr_url = url_text redirected, hr_timeout_ms = hr_timeout_ms req\<rparr>)))"

section \<open>Store state and observations\<close>

record WasmStoreState =
  ws_execution :: ExecutionContext
  ws_installed :: InstalledSkill
  ws_child_executions :: "ChildExecutionRecord list"
  ws_emitted_evidence :: "EvidenceRef list"
  ws_authority_observations :: "AuthorityObservation list"
  ws_network_requests :: u32

definition WasmStoreState_new :: "ExecutionContext \<Rightarrow> InstalledSkill \<Rightarrow> WasmStoreState" where
  "WasmStoreState_new ctx inst =
     \<lparr>ws_execution = ctx, ws_installed = inst, ws_child_executions = [], ws_emitted_evidence = [],
      ws_authority_observations = [], ws_network_requests = 0\<rparr>"

definition ws_grants :: "WasmStoreState \<Rightarrow> CapabilityGrantSet" where
  "ws_grants st = cx_granted_capabilities (ws_execution st)"

definition push_observation :: "AuthorityObservation \<Rightarrow> WasmStoreState \<Rightarrow> WasmStoreState" where
  "push_observation ob st = st\<lparr>ws_authority_observations := ws_authority_observations st @ [ob]\<rparr>"

definition authority_failure_from_denial :: "CapabilityDenial \<Rightarrow> AuthorityObservationFailure" where
  "authority_failure_from_denial d =
     \<lparr>of_code = cd_code d, of_message = cd_message d, of_detail = Some (cd_detail d)\<rparr>"

definition authority_failure_from_skill_error :: "SkillError \<Rightarrow> AuthorityObservationFailure" where
  "authority_failure_from_skill_error e =
     \<lparr>of_code = se_code e, of_message = se_message e, of_detail = se_detail e\<rparr>"

definition push_blocked_emit_evidence ::
  "EvidenceEmissionRequest \<Rightarrow> CapabilityDenial \<Rightarrow> WasmStoreState \<Rightarrow> WasmStoreState" where
  "push_blocked_emit_evidence req d = push_observation (Obs_Emit Blocked
     \<lparr>eo_mime_type = ee_mime_type req, eo_audience = ee_audience req, eo_redaction = ee_redaction req,
      eo_size_bytes = u64_of_usize (length (ee_payload req)),
      eo_sink = Some local_object_store_evidence_sink_descriptor, eo_title = ee_title req,
      eo_evidence_uri = None, eo_sha256 = None, eo_denial = Some (authority_failure_from_denial d),
      eo_result_error = None\<rparr>)"

definition push_exercised_emit_evidence ::
  "EvidenceEmissionRequest \<Rightarrow> EvidenceRef option \<Rightarrow> SkillError option \<Rightarrow> WasmStoreState \<Rightarrow> WasmStoreState" where
  "push_exercised_emit_evidence req evidence err = push_observation (Obs_Emit Exercised
     \<lparr>eo_mime_type = ee_mime_type req, eo_audience = ee_audience req, eo_redaction = ee_redaction req,
      eo_size_bytes = u64_of_usize (length (ee_payload req)),
      eo_sink = Some local_object_store_evidence_sink_descriptor, eo_title = ee_title req,
      eo_evidence_uri = map_option er_uri evidence, eo_sha256 = Option.bind evidence er_sha256,
      eo_denial = None, eo_result_error = map_option authority_failure_from_skill_error err\<rparr>)"

definition push_blocked_log :: "Severity \<Rightarrow> CapabilityDenial \<Rightarrow> WasmStoreState \<Rightarrow> WasmStoreState" where
  "push_blocked_log level d = push_observation (Obs_Log Blocked
     \<lparr>lo_level = level, lo_denial = Some (authority_failure_from_denial d)\<rparr>)"

definition push_exercised_log :: "Severity \<Rightarrow> WasmStoreState \<Rightarrow> WasmStoreState" where
  "push_exercised_log level = push_observation (Obs_Log Exercised \<lparr>lo_level = level, lo_denial = None\<rparr>)"

definition push_blocked_read_resource :: "string \<Rightarrow> CapabilityDenial \<Rightarrow> WasmStoreState \<Rightarrow> WasmStoreState" where
  "push_blocked_read_resource uri d = push_observation (Obs_Read Blocked
     \<lparr>ro_uri = uri, ro_resource_kind = map_option GuildResourceUri_kind (res_ok (GuildResourceUri_parse uri)),
      ro_mime_type = None, ro_bytes = None, ro_sha256 = None,
      ro_denial = Some (authority_failure_from_denial d), ro_result_error = None\<rparr>)"

definition push_exercised_read_resource ::
  "string \<Rightarrow> ResourceReadResult option \<Rightarrow> SkillError option \<Rightarrow> WasmStoreState \<Rightarrow> WasmStoreState" where
  "push_exercised_read_resource uri result err = push_observation (Obs_Read Exercised
     \<lparr>ro_uri = uri, ro_resource_kind = map_option GuildResourceUri_kind (res_ok (GuildResourceUri_parse uri)),
      ro_mime_type = map_option rr_mime_type result,
      ro_bytes = map_option (\<lambda>v. u64_of_usize (length (rr_bytes v))) result,
      ro_sha256 = Option.bind result rr_sha256, ro_denial = None,
      ro_result_error = map_option authority_failure_from_skill_error err\<rparr>)"

definition push_blocked_invoke_skill :: "string \<Rightarrow> CapabilityDenial \<Rightarrow> WasmStoreState \<Rightarrow> WasmStoreState" where
  "push_blocked_invoke_skill al d = push_observation (Obs_Invoke Blocked
     \<lparr>io_alias = al, io_child_execution_id = None, io_child_status = None,
      io_denial = Some (authority_failure_from_denial d), io_result_error = None\<rparr>)"

definition push_exercised_invoke_skill ::
  "string \<Rightarrow> string option \<Rightarrow> ExecutionStatus option \<Rightarrow> SkillError option \<Rightarrow> WasmStoreState \<Rightarrow> WasmStoreState" where
  "push_exercised_invoke_skill al child status err = push_observation (Obs_Invoke Exercised
     \<lparr>io_alias = al, io_child_execution_id = child, io_child_status = status, io_denial = None,
      io_result_error = map_option authority_failure_from_skill_error err\<rparr>)"

definition push_blocked_http_request ::
  "HttpRequestMsg \<Rightarrow> u8 \<Rightarrow> CapabilityDenial \<Rightarrow> WasmStoreState \<Rightarrow> WasmStoreState" where
  "push_blocked_http_request req hops d = push_observation (Obs_Http Blocked
     \<lparr>ho_request = req, ho_response_status = None, ho_response_content_type = None,
      ho_response_bytes = None, ho_redirects_followed = Some hops, ho_resolution = None,
      ho_denial = Some (authority_failure_from_denial d), ho_result_error = None\<rparr>)"

definition push_exercised_http_request ::
  "HttpRequestMsg \<Rightarrow> u8 \<Rightarrow> HttpResolutionBinding option \<Rightarrow> HttpResponse option \<Rightarrow> SkillError option
     \<Rightarrow> WasmStoreState \<Rightarrow> WasmStoreState" where
  "push_exercised_http_request req hops binding response err = push_observation (Obs_Http Exercised
     \<lparr>ho_request = req, ho_response_status = map_option resp_status response,
      ho_response_content_type = Option.bind response resp_content_type,
      ho_response_bytes = map_option (\<lambda>v. u64_of_usize (length (resp_body v))) response,
      ho_redirects_followed = Some hops, ho_resolution = binding, ho_denial = None,
      ho_result_error = map_option authority_failure_from_skill_error err\<rparr>)"

section \<open>HTTP calls\<close>

definition error_text :: "SkillError \<Rightarrow> string" where
  "error_text e = se_code e @ '': '' @ se_message e"

definition parse_live_http_request ::
  "'w HostEnv \<Rightarrow> HttpRequestMsg \<Rightarrow> u8 \<Rightarrow> PendingRedirect option \<Rightarrow> WasmStoreState
     \<Rightarrow> (wasm_error + ParsedHttpRequest) \<times> WasmStoreState" where
  "parse_live_http_request env req hops pending st =
     (case parse_http_request (he_url_parse env) req of
        Inr p \<Rightarrow> (Inr p, st)
      | Inl d \<Rightarrow>
          (let d' = (case pending of None \<Rightarrow> d | Some p \<Rightarrow> redirect_location_invalid_denial p d)
           in (Inl (capability_denial_trap env d'), push_blocked_http_request req hops d' st)))"

text \<open>
  The \<open>None\<close> of \<^const>\<open>authorize_http_request\<close> is a panic; it is given here as an error of its own
  and never happens.
\<close>

definition authorize_live_http_request ::
  "'w HostEnv \<Rightarrow> 'w RuntimeHost \<Rightarrow> HttpRequestMsg \<Rightarrow> ParsedHttpRequest \<Rightarrow> u8 \<Rightarrow> PendingRedirect option
     \<Rightarrow> WasmStoreState \<Rightarrow> 'w \<Rightarrow> (wasm_error + HttpExecutionPolicy) \<times> WasmStoreState" where
  "authorize_live_http_request env host req p hops pending st w =
     (case rh_replay_resolution_binding_for_request host req of
        Inl e \<Rightarrow>
          (let d = \<lparr>cd_code = se_code e, cd_message = se_message e, cd_detail = unwrap_or JNull (se_detail e)\<rparr>
           in (Inl (capability_denial_trap env d), push_blocked_http_request req hops d st))
      | Inr binding \<Rightarrow>
          (case authorize_http_request (he_ip_error env) (he_dns env w) (ws_grants st)
                  (cx_budget (ws_execution st)) (ws_network_requests st) req p binding of
             None \<Rightarrow> (Inl [''internal error: entered unreachable code''], st)
           | Some (Inr pol) \<Rightarrow> (Inr pol, st)
           | Some (Inl d) \<Rightarrow>
               (let d' = (case pending of
                            None \<Rightarrow> d | Some pr \<Rightarrow> redirect_target_not_granted_denial pr (hr_url req) d)
                in (Inl (capability_denial_trap env d'), push_blocked_http_request req hops d' st))))"

text \<open>One round of the redirect loop: it ends the call or continues with the redirected request.\<close>

type_synonym http_result = "wasm_error + (string + HttpResponse)"

datatype 'w HttpRound =
    Round_Finish http_result WasmStoreState 'w
  | Round_Redirect HttpRequestMsg PendingRedirect WasmStoreState 'w

definition http_blocked ::
  "'w HostEnv \<Rightarrow> HttpRequestMsg \<Rightarrow> u8 \<Rightarrow> CapabilityDenial \<Rightarrow> WasmStoreState \<Rightarrow> 'w \<Rightarrow> 'w HttpRound" where
  "http_blocked env req hops d st w =
     Round_Finish (Inl (capability_denial_trap env d)) (push_blocked_http_request req hops d st) w"

definition http_redirect ::
  "'w HostEnv \<Rightarrow> HttpRequestMsg \<Rightarrow> u8 \<Rightarrow> HttpExecutionPolicy \<Rightarrow> HostHttpResponse \<Rightarrow> WasmStoreState \<Rightarrow> 'w
     \<Rightarrow> 'w HttpRound" where
  "http_redirect env req hops pol r st w =
     (let status = resp_status (hh_response r)
      in case hh_redirect_location r of
           None \<Rightarrow> http_blocked env req hops (redirect_location_missing_denial (hr_url req) status) st w
         | Some location \<Rightarrow>
             if \<not> pol_follow_redirects pol
             then http_blocked env req hops (redirect_not_allowed_denial (hr_url req) status location) st w
             else if hops \<ge> pol_max_redirects pol
             then http_blocked env req hops
                    (redirect_hop_limit_denial (hr_url req) status location (pol_max_redirects pol)) st w
             else
               case build_redirect_request env req location of
                 Inl d \<Rightarrow> http_blocked env req hops d st w
               | Inr req' \<Rightarrow> Round_Redirect req'
                   \<lparr>pr_from_url = resp_url (hh_response r), pr_status = status, pr_location = location\<rparr> st w)"

definition http_round ::
  "'w HostEnv \<Rightarrow> 'w RuntimeHost \<Rightarrow> HttpRequestMsg \<Rightarrow> u8 \<Rightarrow> PendingRedirect option \<Rightarrow> WasmStoreState \<Rightarrow> 'w
     \<Rightarrow> 'w HttpRound" where
  "http_round env host req hops pending st w =
     (case parse_live_http_request env req hops pending st of
        (Inl e, st) \<Rightarrow> Round_Finish (Inl e) st w
      | (Inr p, st) \<Rightarrow>
          (case authorize_live_http_request env host req p hops pending st w of
             (Inl e, st) \<Rightarrow> Round_Finish (Inl e) st w
           | (Inr pol, st) \<Rightarrow>
               (let st = st\<lparr>ws_network_requests := saturating_add (ws_network_requests st) 1\<rparr>
                in case rh_http_request host req (pol_timeout_ms pol) (pol_max_response_bytes pol) w of
                     (Inl e, w) \<Rightarrow>
                       Round_Finish (Inr (Inl (error_text e)))
                         (push_exercised_http_request req hops (pol_resolution_binding pol) None (Some e) st) w
                   | (Inr r, w) \<Rightarrow>
                       (let st = push_exercised_http_request req hops (pol_resolution_binding pol)
                                   (Some (hh_response r)) None st
                        in if \<not> is_redirect_status (resp_status (hh_response r))
                           then Round_Finish (Inr (Inr (hh_response r))) st w
                           else http_redirect env req hops pol r st w))))"

lemma http_redirect_hops:
  "http_redirect env req hops pol r st w = Round_Redirect req' pr st' w' \<Longrightarrow> hops < pol_max_redirects pol"
  by (auto simp: http_redirect_def http_blocked_def Let_def split: option.splits if_splits sum.splits)

lemma http_round_hops:
  assumes "http_round env host req hops pending st w = Round_Redirect req' pr st' w'"
  shows "\<exists>m. hops < m"
  using assms
  by (auto simp: http_round_def Let_def split: prod.splits sum.splits if_splits dest: http_redirect_hops)

function http_request_loop ::
  "'w HostEnv \<Rightarrow> 'w RuntimeHost \<Rightarrow> HttpRequestMsg \<Rightarrow> u8 \<Rightarrow> PendingRedirect option \<Rightarrow> WasmStoreState \<Rightarrow> 'w
     \<Rightarrow> http_result \<times> WasmStoreState \<times> 'w" where
  "http_request_loop env host req hops pending st w =
     (case http_round env host req hops pending st w of
        Round_Finish r st w \<Rightarrow> (r, st, w)
      | Round_Redirect req pr st w \<Rightarrow> http_request_loop env host req (saturating_add hops 1) (Some pr) st w)"
  by pat_completeness auto

lemma saturating_add_1: "a < m \<Longrightarrow> saturating_add a 1 = a + 1 \<and> unat (a + 1) = Suc (unat a)"
  for a m :: "'a::len word"
proof -
  assume "a < m"
  then have "Suc (unat a) \<le> unat m"
    by (simp add: word_less_nat_alt Suc_le_eq)
  also have "unat m < 2 ^ LENGTH('a)"
    by (rule unat_bound)
  finally show ?thesis
    by (simp add: saturating_add_def unat_word_ariths)
qed

lemma http_hops_decrease:
  assumes "http_round env host req hops pending st w = Round_Redirect req' pr st' w'"
  shows "255 - unat (saturating_add hops 1) < 255 - unat hops"
proof -
  from http_round_hops[OF assms] obtain m where "hops < m"
    by blast
  then show ?thesis
    using saturating_add_1[of hops m] unat_bound[of m] by (simp add: word_less_nat_alt)
qed

termination http_request_loop
proof (relation "measure (\<lambda>(env, host, req, hops, pending, st, w). 255 - unat hops)")
  fix env :: "'w HostEnv" and host :: "'w RuntimeHost" and req and hops :: u8 and pending st and w :: 'w
    and req' pr st' w'
  assume "http_round env host req hops pending st w = Round_Redirect req' pr st' w'"
  from http_hops_decrease[OF this] show "((env, host, req', saturating_add hops 1, Some pr, st', w'), (env, host, req, hops, pending, st, w))
      \<in> measure (\<lambda>(env, host, req, hops, pending, st, w). 255 - unat hops)"
    by simp
qed simp

declare http_request_loop.simps [simp del]

definition host_http_request ::
  "'w HostEnv \<Rightarrow> 'w RuntimeHost \<Rightarrow> HttpRequestMsg \<Rightarrow> WasmStoreState \<Rightarrow> 'w
     \<Rightarrow> http_result \<times> WasmStoreState \<times> 'w" where
  "host_http_request env host req st w = http_request_loop env host req 0 None st w"

section \<open>The other host calls\<close>

text \<open>
  The guest-side types that \<open>wit-bindgen\<close> generates have the fields of the host types, except that
  JSON travels as text; only those are given types of their own.
\<close>

record WitDiagnostic =
  wd_severity :: Severity
  wd_code :: string
  wd_message :: string
  wd_retryable :: bool
  wd_detail :: "string option"

record WitSkillOutput =
  wo_summary :: string
  wo_structured :: string
  wo_diagnostics :: "WitDiagnostic list"
  wo_effects :: "Effect list"
  wo_evidence :: "EvidenceRef list"

record WitSkillError =
  we_code :: string
  we_message :: string
  we_retryable :: bool
  we_detail :: "string option"

definition to_wit_diagnostic :: "'w HostEnv \<Rightarrow> Diagnostic \<Rightarrow> WitDiagnostic" where
  "to_wit_diagnostic env d =
     \<lparr>wd_severity = diag_severity d, wd_code = diag_code d, wd_message = diag_message d,
      wd_retryable = diag_retryable d, wd_detail = map_option (he_json_text env) (diag_detail d)\<rparr>"

definition to_wit_skill_output :: "'w HostEnv \<Rightarrow> SkillOutput \<Rightarrow> WitSkillOutput" where
  "to_wit_skill_output env out =
     \<lparr>wo_summary = so_summary out, wo_structured = he_json_text env (so_structured out),
      wo_diagnostics = map (to_wit_diagnostic env) (so_diagnostics out), wo_effects = so_effects out,
      wo_evidence = so_evidence out\<rparr>"

definition to_wit_skill_error :: "'w HostEnv \<Rightarrow> SkillError \<Rightarrow> WitSkillError" where
  "to_wit_skill_error env e =
     \<lparr>we_code = se_code e, we_message = se_message e, we_retryable = se_retryable e,
      we_detail = map_option (he_json_text env) (se_detail e)\<rparr>"

definition parse_json_payload :: "'w HostEnv \<Rightarrow> string \<Rightarrow> string \<Rightarrow> ExecutionError + json" where
  "parse_json_payload env field payload =
     map_err (\<lambda>err. with_phase Ph_RuntimeExec (with_detail (JString err)
       (ExecutionError_new ''invalid-json-payload''
         (''component returned invalid JSON for `'' @ field @ ''`''))))
       (he_json_parse env payload)"

definition from_wit_diagnostic :: "'w HostEnv \<Rightarrow> WitDiagnostic \<Rightarrow> ExecutionError + Diagnostic" where
  "from_wit_diagnostic env d =
     res_bind (case wd_detail d of
                 None \<Rightarrow> Inr None
               | Some payload \<Rightarrow> res_bind (parse_json_payload env ''diagnostic.detail'' payload) (\<lambda>v. Inr (Some v))) (\<lambda>detail.
     Inr \<lparr>diag_severity = wd_severity d, diag_code = wd_code d, diag_message = wd_message d,
          diag_retryable = wd_retryable d, diag_detail = detail\<rparr>)"

fun collect_results :: "('e + 'a) list \<Rightarrow> 'e + 'a list" where
  "collect_results [] = Inr []"
| "collect_results (r # rs) = res_bind r (\<lambda>x. res_bind (collect_results rs) (\<lambda>xs. Inr (x # xs)))"

definition from_wit_skill_output :: "'w HostEnv \<Rightarrow> WitSkillOutput \<Rightarrow> ExecutionError + SkillOutput" where
  "from_wit_skill_output env out =
     res_bind (parse_json_payload env ''structured'' (wo_structured out)) (\<lambda>structured.
     res_bind (collect_results (map (from_wit_diagnostic env) (wo_diagnostics out))) (\<lambda>diagnostics.
     Inr \<lparr>so_summary = wo_summary out, so_structured = structured, so_diagnostics = diagnostics,
          so_effects = wo_effects out, so_evidence = wo_evidence out\<rparr>))"

definition phase_for_skill_error_code :: "string \<Rightarrow> ExecutionPhase" where
  "phase_for_skill_error_code code =
     (if prefix ''dependency-'' code \<or> prefix ''child-'' code then Ph_ChildInvocation else Ph_SkillDomain)"

definition from_wit_skill_error :: "'w HostEnv \<Rightarrow> WitSkillError \<Rightarrow> ExecutionError" where
  "from_wit_skill_error env e =
     \<lparr>xe_code = we_code e, xe_message = we_message e, xe_retryable = we_retryable e,
      xe_phase = Some (phase_for_skill_error_code (we_code e)),
      xe_detail = map_option (\<lambda>payload. case he_json_parse env payload of
          Inr v \<Rightarrow> v | Inl _ \<Rightarrow> JString payload) (we_detail e),
      xe_receipt = None\<rparr>"

definition host_emit_evidence ::
  "'w HostEnv \<Rightarrow> 'w RuntimeHost \<Rightarrow> EvidenceEmissionRequest \<Rightarrow> WasmStoreState \<Rightarrow> 'w
     \<Rightarrow> (wasm_error + (string + EvidenceRef)) \<times> WasmStoreState \<times> 'w" where
  "host_emit_evidence env host req st w =
     (case authorize (ws_grants st) (Op_EmitEvidence req) of
        Inl d \<Rightarrow> (Inl (capability_denial_trap env d), push_blocked_emit_evidence req d st, w)
      | Inr _ \<Rightarrow>
          (case rh_emit_evidence host (cx_execution_id (ws_execution st)) req w of
             (Inr ev, w) \<Rightarrow>
               (Inr (Inr ev),
                push_exercised_emit_evidence req (Some ev) None
                  (st\<lparr>ws_emitted_evidence := ws_emitted_evidence st @ [ev]\<rparr>), w)
           | (Inl e, w) \<Rightarrow>
               (Inr (Inl (error_text e)), push_exercised_emit_evidence req None (Some e) st, w)))"

definition host_log ::
  "'w HostEnv \<Rightarrow> Severity \<Rightarrow> string \<Rightarrow> WasmStoreState \<Rightarrow> (wasm_error + unit) \<times> WasmStoreState" where
  "host_log env level msg st =
     (case authorize (ws_grants st) (Op_Log level) of
        Inl d \<Rightarrow> (Inl (capability_denial_trap env d), push_blocked_log level d st)
      | Inr _ \<Rightarrow> (Inr (), push_exercised_log level st))"

fun parse_error_text :: "GuildResourceParseError \<Rightarrow> string" where
  "parse_error_text (GuildResourceParseError m) = m"

definition host_read_resource ::
  "'w HostEnv \<Rightarrow> 'w RuntimeHost \<Rightarrow> string \<Rightarrow> WasmStoreState \<Rightarrow> 'w
     \<Rightarrow> (wasm_error + (string + ResourceReadResult)) \<times> WasmStoreState" where
  "host_read_resource env host uri st w =
     (case GuildResourceUri_parse uri of
        Inl e \<Rightarrow>
          (let d = \<lparr>cd_code = ''resource-uri-invalid'', cd_message = parse_error_text e,
                    cd_detail = json_obj [(''uri'', JString uri)]\<rparr>
           in (Inl (capability_denial_trap env d), push_blocked_read_resource uri d st))
      | Inr parsed \<Rightarrow>
          (case authorize (ws_grants st) (Op_ReadResource uri parsed) of
             Inl d \<Rightarrow> (Inl (capability_denial_trap env d), push_blocked_read_resource uri d st)
           | Inr _ \<Rightarrow>
               (case rh_read_resource host uri w of
                  Inr r \<Rightarrow> (Inr (Inr r), push_exercised_read_resource uri (Some r) None st)
                | Inl e \<Rightarrow> (Inr (Inl (error_text e)), push_exercised_read_resource uri None (Some e) st))))"

definition next_child_sequence :: "usize \<Rightarrow> wasm_error + u16" where
  "next_child_sequence n =
     ok_or [''child execution sequence exceeded u16 range'']
       (if n < 2 ^ 16 then checked_add (of_nat n) 1 else None)"

definition host_invoke_dependency ::
  "'w HostEnv \<Rightarrow> 'w RuntimeHost \<Rightarrow> string \<Rightarrow> string \<Rightarrow> WasmStoreState \<Rightarrow> 'w
     \<Rightarrow> (wasm_error + (WitSkillError + WitSkillOutput)) \<times> WasmStoreState \<times> 'w" where
  "host_invoke_dependency env host al input_text st w =
     (case he_json_parse env input_text of
        Inl err \<Rightarrow>
          (Inr (Inl \<lparr>we_code = ''invalid-dependency-input'',
                     we_message = ''dependency invocation input was not valid JSON'', we_retryable = False,
                     we_detail = Some (he_json_text env (json_obj [(''error'', JString err)]))\<rparr>), st, w)
      | Inr input \<Rightarrow>
          (case next_child_sequence (length (ws_child_executions st)) of
             Inl e \<Rightarrow> (Inl e, st, w)
           | Inr sequence \<Rightarrow>
               (case rh_invoke_dependency host (ws_installed st) (ws_execution st) sequence al input w of
                  (Inr out, w) \<Rightarrow>
                    (let st = push_exercised_invoke_skill al (Some (ch_execution_id (co_record out)))
                                (Some (ch_status (co_record out))) None st
                     in (Inr (Inr (to_wit_skill_output env (co_output out))),
                         st\<lparr>ws_child_executions := ws_child_executions st @ [co_record out]\<rparr>, w))
                | (Inl e, w) \<Rightarrow>
                    (case ce_denial e of
                       Some d \<Rightarrow> (Inl (capability_denial_trap env d), push_blocked_invoke_skill al d st, w)
                     | None \<Rightarrow>
                         (let st = (case ce_record e of
                              Some r \<Rightarrow>
                                (let st = push_exercised_invoke_skill al (Some (ch_execution_id r))
                                            (Some (ch_status r)) (Some (ce_skill_error e)) st
                                 in st\<lparr>ws_child_executions := ws_child_executions st @ [r]\<rparr>)
                            | None \<Rightarrow> push_exercised_invoke_skill al None None (Some (ce_skill_error e)) st)
                          in (Inr (Inl (to_wit_skill_error env (ce_skill_error e))), st, w))))))"

section \<open>A guest's run\<close>

text \<open>
  A guest is the tree of its host calls: each call carries what the guest does with every possible
  answer, and a leaf is its result or a trap of its own. Trees are well-founded, so a guest runs to
  an end; the component itself is arbitrary.
\<close>

datatype Guest =
    Guest_Return "WitSkillError + WitSkillOutput"
  | Guest_Trap wasm_error
  | Guest_Emit EvidenceEmissionRequest "string + EvidenceRef \<Rightarrow> Guest"
  | Guest_Log Severity string Guest
  | Guest_Read string "string + ResourceReadResult \<Rightarrow> Guest"
  | Guest_Invoke string string "WitSkillError + WitSkillOutput \<Rightarrow> Guest"
  | Guest_Http HttpRequestMsg "string + HttpResponse \<Rightarrow> Guest"

type_synonym guest_result = "wasm_error + (WitSkillError + WitSkillOutput)"

primrec run_guest ::
  "'w HostEnv \<Rightarrow> 'w RuntimeHost \<Rightarrow> Guest \<Rightarrow> WasmStoreState \<Rightarrow> 'w \<Rightarrow> guest_result \<times> WasmStoreState \<times> 'w" where
  "run_guest env host (Guest_Return r) = (\<lambda>st w. (Inr r, st, w))"
| "run_guest env host (Guest_Trap e) = (\<lambda>st w. (Inl e, st, w))"
| "run_guest env host (Guest_Emit req k) = (\<lambda>st w.
     case host_emit_evidence env host req st w of
       (Inl e, st, w) \<Rightarrow> (Inl e, st, w)
     | (Inr r, st, w) \<Rightarrow> run_guest env host (k r) st w)"
| "run_guest env host (Guest_Log level msg g) = (\<lambda>st w.
     case host_log env level msg st of
       (Inl e, st) \<Rightarrow> (Inl e, st, w)
     | (Inr _, st) \<Rightarrow> run_guest env host g st w)"
| "run_guest env host (Guest_Read uri k) = (\<lambda>st w.
     case host_read_resource env host uri st w of
       (Inl e, st) \<Rightarrow> (Inl e, st, w)
     | (Inr r, st) \<Rightarrow> run_guest env host (k r) st w)"
| "run_guest env host (Guest_Invoke al input k) = (\<lambda>st w.
     case host_invoke_dependency env host al input st w of
       (Inl e, st, w) \<Rightarrow> (Inl e, st, w)
     | (Inr r, st, w) \<Rightarrow> run_guest env host (k r) st w)"
| "run_guest env host (Guest_Http req k) = (\<lambda>st w.
     case host_http_request env host req st w of
       (Inl e, st, w) \<Rightarrow> (Inl e, st, w)
     | (Inr r, st, w) \<Rightarrow> run_guest env host (k r) st w)"

section \<open>Observations and the state they describe\<close>

fun obs_authorized :: "'w HostEnv \<Rightarrow> CapabilityGrantSet \<Rightarrow> AuthorityObservation \<Rightarrow> bool" where
  "obs_authorized env gs (Obs_Http Exercised o1) \<longleftrightarrow>
     (\<exists>p d binding w. parse_http_request (he_url_parse env) (ho_request o1) = Inr p
        \<and> resolve_http_destination_with_binding (he_ip_error env) (he_dns env w) p binding = Inr d
        \<and> grants_allow gs (Acc_Http (http_access (ho_request o1) p d (unwrap_or 0 (hr_timeout_ms (ho_request o1))) 0)))"
| "obs_authorized env gs (Obs_Read Exercised o1) \<longleftrightarrow>
     (\<exists>u. GuildResourceUri_parse (ro_uri o1) = Inr u \<and> grants_allow gs (Acc_Read (GuildResourceUri_scope u)))"
| "obs_authorized env gs (Obs_Invoke Exercised o1) \<longleftrightarrow>
     (io_child_execution_id o1 \<noteq> None \<longrightarrow> grants_allow gs (Acc_Invoke (io_alias o1)))"
| "obs_authorized env gs (Obs_Emit Exercised o1) \<longleftrightarrow>
     grants_allow gs (Acc_Emit (eo_size_bytes o1) (eo_audience o1) (eo_redaction o1))"
| "obs_authorized env gs (Obs_Log Exercised o1) \<longleftrightarrow> grants_allow gs (Acc_Log (lo_level o1))"
| "obs_authorized env gs _ \<longleftrightarrow> True"

fun http_exercised :: "AuthorityObservation \<Rightarrow> bool" where
  "http_exercised (Obs_Http Exercised _) = True"
| "http_exercised _ = False"

fun obs_evidence :: "AuthorityObservation \<Rightarrow> string list" where
  "obs_evidence (Obs_Emit Exercised o1) = (case eo_evidence_uri o1 of None \<Rightarrow> [] | Some u \<Rightarrow> [u])"
| "obs_evidence _ = []"

fun obs_child :: "AuthorityObservation \<Rightarrow> string list" where
  "obs_child (Obs_Invoke Exercised o1) = (case io_child_execution_id o1 of None \<Rightarrow> [] | Some i \<Rightarrow> [i])"
| "obs_child _ = []"

definition host_inv :: "'w HostEnv \<Rightarrow> WasmStoreState \<Rightarrow> bool" where
  "host_inv env st \<longleftrightarrow>
     list_all (obs_authorized env (ws_grants st)) (ws_authority_observations st)
     \<and> ws_network_requests st \<le> max_network_requests (cx_budget (ws_execution st))
     \<and> unat (ws_network_requests st) = length (filter http_exercised (ws_authority_observations st))
     \<and> map er_uri (ws_emitted_evidence st) = concat (map obs_evidence (ws_authority_observations st))
     \<and> map ch_execution_id (ws_child_executions st) = concat (map obs_child (ws_authority_observations st))"

lemma host_inv_new: "host_inv env (WasmStoreState_new ctx inst)"
  by (simp add: host_inv_def WasmStoreState_new_def)

lemma push_observation_fields [simp]:
  "ws_execution (push_observation ob st) = ws_execution st"
  "ws_installed (push_observation ob st) = ws_installed st"
  "ws_child_executions (push_observation ob st) = ws_child_executions st"
  "ws_emitted_evidence (push_observation ob st) = ws_emitted_evidence st"
  "ws_authority_observations (push_observation ob st) = ws_authority_observations st @ [ob]"
  "ws_network_requests (push_observation ob st) = ws_network_requests st"
  "ws_grants (push_observation ob st) = ws_grants st"
  by (simp_all add: push_observation_def ws_grants_def)

text \<open>The step lemma shared by every call: a pushed observation that is authorised and carries what the call added.\<close>

lemma host_inv_push:
  assumes "host_inv env st" "obs_authorized env (ws_grants st) ob"
    and "\<not> http_exercised ob" "obs_evidence ob = []" "obs_child ob = []"
  shows "host_inv env (push_observation ob st)"
  using assms by (simp add: host_inv_def)

lemmas blocked_defs =
  push_blocked_emit_evidence_def push_blocked_log_def push_blocked_read_resource_def
  push_blocked_invoke_skill_def push_blocked_http_request_def

lemma host_inv_blocked:
  assumes "host_inv env st"
  shows "host_inv env (push_blocked_emit_evidence req d st)" "host_inv env (push_blocked_log level d st)"
    "host_inv env (push_blocked_read_resource uri d st)" "host_inv env (push_blocked_invoke_skill al d st)"
    "host_inv env (push_blocked_http_request hreq hops d st)"
  using assms by (simp_all add: blocked_defs host_inv_push)

abbreviation same_execution :: "WasmStoreState \<Rightarrow> WasmStoreState \<Rightarrow> bool" where
  "same_execution st st' \<equiv> ws_execution st' = ws_execution st \<and> ws_installed st' = ws_installed st"

lemma blocked_same [simp]:
  "ws_execution (push_blocked_emit_evidence req d st) = ws_execution st"
  "ws_installed (push_blocked_emit_evidence req d st) = ws_installed st"
  "ws_execution (push_blocked_log level d st) = ws_execution st"
  "ws_installed (push_blocked_log level d st) = ws_installed st"
  "ws_execution (push_blocked_read_resource uri d st) = ws_execution st"
  "ws_installed (push_blocked_read_resource uri d st) = ws_installed st"
  "ws_execution (push_blocked_invoke_skill al d st) = ws_execution st"
  "ws_installed (push_blocked_invoke_skill al d st) = ws_installed st"
  "ws_execution (push_blocked_http_request hreq hops d st) = ws_execution st"
  "ws_installed (push_blocked_http_request hreq hops d st) = ws_installed st"
  by (simp_all add: blocked_defs)

lemma host_log_inv:
  assumes "host_log env level msg st = (r, st')" "host_inv env st"
  shows "host_inv env st' \<and> same_execution st st'"
proof (cases "authorize (ws_grants st) (Op_Log level)")
  case (Inl d)
  with assms show ?thesis
    by (auto simp: host_log_def host_inv_blocked)
next
  case (Inr u)
  then have "grants_allow (ws_grants st) (Acc_Log level)"
    using authorize_iff[of "ws_grants st" "Op_Log level"] by simp
  with Inr assms show ?thesis
    by (auto simp: host_log_def push_exercised_log_def host_inv_push)
qed

lemma host_read_resource_inv:
  assumes "host_read_resource env host uri st w = (r, st')" "host_inv env st"
  shows "host_inv env st' \<and> same_execution st st'"
proof (cases "GuildResourceUri_parse uri")
  case (Inl e)
  with assms show ?thesis
    by (auto simp: host_read_resource_def Let_def host_inv_blocked)
next
  case parsed: (Inr u)
  show ?thesis
  proof (cases "authorize (ws_grants st) (Op_ReadResource uri u)")
    case (Inl d)
    with assms parsed show ?thesis
      by (auto simp: host_read_resource_def host_inv_blocked)
  next
    case (Inr x)
    then have "grants_allow (ws_grants st) (Acc_Read (GuildResourceUri_scope u))"
      using authorize_iff[of "ws_grants st" "Op_ReadResource uri u"] by simp
    then have "host_inv env (push_exercised_read_resource uri a b st)
        \<and> same_execution st (push_exercised_read_resource uri a b st)" for a b
      using assms(2) parsed by (auto simp: push_exercised_read_resource_def intro!: host_inv_push)
    with Inr parsed assms(1) show ?thesis
      by (auto simp: host_read_resource_def split: sum.splits)
  qed
qed

lemma host_emit_evidence_inv:
  assumes "host_emit_evidence env host req st w = (r, st', w')" "host_inv env st"
  shows "host_inv env st' \<and> same_execution st st'"
proof (cases "authorize (ws_grants st) (Op_EmitEvidence req)")
  case (Inl d)
  with assms show ?thesis
    by (auto simp: host_emit_evidence_def host_inv_blocked)
next
  case (Inr u)
  then have "grants_allow (ws_grants st)
      (Acc_Emit (u64_of_usize (length (ee_payload req))) (ee_audience req) (ee_redaction req))"
    using authorize_iff[of "ws_grants st" "Op_EmitEvidence req"] by simp
  with Inr assms show ?thesis
    by (auto simp: host_emit_evidence_def push_exercised_emit_evidence_def host_inv_def ws_grants_def
        split: prod.splits sum.splits)
qed

section \<open>Rounds keep the invariant\<close>

definition http_sent :: "WasmStoreState \<Rightarrow> WasmStoreState" where
  "http_sent st = st\<lparr>ws_network_requests := saturating_add (ws_network_requests st) 1\<rparr>"

lemma host_inv_sent:
  assumes inv: "host_inv env st"
    and room: "ws_network_requests st < max_network_requests (cx_budget (ws_execution st))"
    and ok: "obs_authorized env (ws_grants st) (Obs_Http Exercised ob)"
  shows "host_inv env (push_observation (Obs_Http Exercised ob) (http_sent st))"
proof -
  have "ws_network_requests st + 1 \<le> max_network_requests (cx_budget (ws_execution st))"
    using room saturating_add_1[OF room] by (simp add: word_less_nat_alt word_le_nat_alt)
  then show ?thesis
    using inv ok saturating_add_1[OF room] by (simp add: host_inv_def http_sent_def ws_grants_def)
qed

lemma authorize_live_Inr:
  assumes "authorize_live_http_request env host req p hops pending st w = (Inr pol, st')"
  shows "st' = st \<and> (\<exists>binding. authorize_http_request (he_ip_error env) (he_dns env w) (ws_grants st)
    (cx_budget (ws_execution st)) (ws_network_requests st) req p binding = Some (Inr pol))"
  using assms by (auto simp: authorize_live_http_request_def Let_def split: sum.splits option.splits)

lemma authorize_live_Inl:
  assumes "authorize_live_http_request env host req p hops pending st w = (Inl e, st')" "host_inv env st"
  shows "host_inv env st' \<and> same_execution st st'"
  using assms
  by (auto simp: authorize_live_http_request_def Let_def host_inv_blocked
      split: sum.splits option.splits)

lemma http_redirect_inv:
  assumes "host_inv env st"
  shows "http_redirect env req hops pol r st w = Round_Finish res st' w' \<Longrightarrow> host_inv env st' \<and> same_execution st st'"
    and "http_redirect env req hops pol r st w = Round_Redirect req' pr st' w' \<Longrightarrow> st' = st"
  using assms
  by (auto simp: http_redirect_def http_blocked_def Let_def host_inv_blocked
      split: option.splits if_splits sum.splits)

lemma http_round_inv:
  assumes url: "url_domains_not_ip (he_url_parse env)" and inv: "host_inv env st"
  shows "http_round env host req hops pending st w = Round_Finish res st' w' \<Longrightarrow> host_inv env st' \<and> same_execution st st'"
    and "http_round env host req hops pending st w = Round_Redirect req' pr st' w' \<Longrightarrow> host_inv env st' \<and> same_execution st st'"
proof -
  have "(\<forall>res st' w'. http_round env host req hops pending st w = Round_Finish res st' w' \<longrightarrow> host_inv env st' \<and> same_execution st st')
    \<and> (\<forall>req' pr st' w'. http_round env host req hops pending st w = Round_Redirect req' pr st' w' \<longrightarrow> host_inv env st' \<and> same_execution st st')"
  proof (cases "parse_http_request (he_url_parse env) req")
    case (Inl d)
    with inv show ?thesis
      by (auto simp: http_round_def parse_live_http_request_def Let_def host_inv_blocked)
  next
    case p: (Inr p)
    obtain a st1 where live: "authorize_live_http_request env host req p hops pending st w = (a, st1)"
      by fastforce
    show ?thesis
    proof (cases a)
      case (Inl e)
      with p live authorize_live_Inl[of env host req p hops pending st w e st1] inv show ?thesis
        by (auto simp: http_round_def parse_live_http_request_def)
    next
      case (Inr pol)
      with live have "authorize_live_http_request env host req p hops pending st w = (Inr pol, st1)"
        by simp
      from authorize_live_Inr[OF this] obtain binding where st1: "st1 = st"
        and auth: "authorize_http_request (he_ip_error env) (he_dns env w) (ws_grants st)
          (cx_budget (ws_execution st)) (ws_network_requests st) req p binding = Some (Inr pol)"
        by blast
      have wf: "parsed_wf p"
        using url p by (rule parse_http_request_wf)
      obtain d where room: "ws_network_requests st < max_network_requests (cx_budget (ws_execution st))"
        and d: "resolve_http_destination_with_binding (he_ip_error env) (he_dns env w) p binding = Inr d"
        "grants_allow (ws_grants st) (Acc_Http (http_access req p d (unwrap_or 0 (hr_timeout_ms req)) 0))"
        using authorize_http_iff[OF wf, of "he_ip_error env" "he_dns env w" "ws_grants st"] auth by blast
      have ok: "obs_authorized env (ws_grants st) (Obs_Http Exercised ob)" if "ho_request ob = req" for ob
        using that p d by auto
      have inv': "host_inv env (push_exercised_http_request req hops b r e (http_sent st))"
        "same_execution st (push_exercised_http_request req hops b r e (http_sent st))" for b r e
        using host_inv_sent[OF inv room ok] by (simp_all add: push_exercised_http_request_def http_sent_def)
      obtain b w1 where resp: "rh_http_request host req (pol_timeout_ms pol) (pol_max_response_bytes pol) w = (b, w1)"
        by fastforce
      show ?thesis
      proof (cases b)
        case (Inl e)
        with p live Inr st1 resp inv' show ?thesis
          by (auto simp: http_round_def parse_live_http_request_def Let_def http_sent_def[symmetric])
      next
        case b: (Inr r)
        let ?st2 = "push_exercised_http_request req hops (pol_resolution_binding pol) (Some (hh_response r)) None (http_sent st)"
        have eq: "http_round env host req hops pending st w =
            (if \<not> is_redirect_status (resp_status (hh_response r))
             then Round_Finish (Inr (Inr (hh_response r))) ?st2 w1
             else http_redirect env req hops pol r ?st2 w1)"
          using p live Inr st1 resp b
          by (simp add: http_round_def parse_live_http_request_def Let_def http_sent_def)
        have fin: "host_inv env st' \<and> same_execution st st'"
          if "http_redirect env req hops pol r ?st2 w1 = Round_Finish res st' w'" for res st' w'
          using http_redirect_inv(1)[OF inv'(1) that] inv'(2) by simp
        have red: "host_inv env st' \<and> same_execution st st'"
          if "http_redirect env req hops pol r ?st2 w1 = Round_Redirect req' pr st' w'" for req' pr st' w'
          using http_redirect_inv(2)[OF inv'(1) that] inv' by simp
        show ?thesis
        proof (cases "is_redirect_status (resp_status (hh_response r))")
          case True
          with eq have "http_round env host req hops pending st w = http_redirect env req hops pol r ?st2 w1"
            by simp
          then show ?thesis
            using fin red by metis
        next
          case False
          with eq inv' show ?thesis
            by simp
        qed
      qed
    qed
  qed
  then show "http_round env host req hops pending st w = Round_Finish res st' w' \<Longrightarrow> host_inv env st' \<and> same_execution st st'"
    and "http_round env host req hops pending st w = Round_Redirect req' pr st' w' \<Longrightarrow> host_inv env st' \<and> same_execution st st'"
    by blast+
qed

lemma http_request_loop_inv:
  fixes env :: "'w HostEnv" and host :: "'w RuntimeHost"
  assumes url: "url_domains_not_ip (he_url_parse env)"
  shows "http_request_loop env host req hops pending st w = (r, st', w') \<Longrightarrow> host_inv env st
    \<Longrightarrow> host_inv env st' \<and> same_execution st st'"
proof (induction "255 - unat hops" arbitrary: req hops pending st w rule: less_induct)
  case less
  show ?case
  proof (cases "http_round env host req hops pending st w")
    case (Round_Finish res st1 w1)
    with less.prems http_round_inv(1)[OF url less.prems(2) Round_Finish] show ?thesis
      by (simp add: http_request_loop.simps)
  next
    case (Round_Redirect req1 pr st1 w1)
    note http_hops_decrease[OF this]
    moreover have "http_request_loop env host req1 (saturating_add hops 1) (Some pr) st1 w1 = (r, st', w')"
      using less.prems(1) Round_Redirect by (simp add: http_request_loop.simps)
    moreover have "host_inv env st1 \<and> same_execution st st1"
      by (rule http_round_inv(2)[OF url less.prems(2) Round_Redirect])
    ultimately show ?thesis
      using less.hyps by metis
  qed
qed

section \<open>Child calls as an interface\<close>

text \<open>
  The store relies on its host for one authority check: a child runs only under a grant for its
  alias. Everything else the store checks itself.
\<close>

locale runtime_host =
  fixes host :: "'w RuntimeHost"
  assumes invoke_ok: "rh_invoke_dependency host inst ctx seq al inp w = (Inr out, w')
      \<Longrightarrow> grants_allow (cx_granted_capabilities ctx) (Acc_Invoke al)"
    and invoke_failed: "rh_invoke_dependency host inst ctx seq al inp w = (Inl e, w') \<Longrightarrow> ce_record e \<noteq> None
      \<Longrightarrow> grants_allow (cx_granted_capabilities ctx) (Acc_Invoke al)"
begin

lemma host_invoke_inv:
  assumes "host_invoke_dependency env host al inp st w = (r, st', w')" "host_inv env st"
  shows "host_inv env st' \<and> same_execution st st'"
proof (cases "he_json_parse env inp")
  case (Inl err)
  with assms show ?thesis
    by (auto simp: host_invoke_dependency_def)
next
  case json: (Inr v)
  show ?thesis
  proof (cases "next_child_sequence (length (ws_child_executions st))")
    case (Inl e)
    with assms json show ?thesis
      by (auto simp: host_invoke_dependency_def)
  next
    case seq: (Inr n)
    obtain b w1 where call: "rh_invoke_dependency host (ws_installed st) (ws_execution st) n al v w = (b, w1)"
      by fastforce
    let ?child = "\<lambda>rc sts err. (push_exercised_invoke_skill al (Some (ch_execution_id rc)) sts err st)
          \<lparr>ws_child_executions := ws_child_executions (push_exercised_invoke_skill al (Some (ch_execution_id rc)) sts err st) @ [rc]\<rparr>"
    have child: "host_inv env (?child rc sts err) \<and> same_execution st (?child rc sts err)"
      if "grants_allow (ws_grants st) (Acc_Invoke al)" for rc sts err
      using that assms(2)
      by (simp add: host_inv_def push_exercised_invoke_skill_def ws_grants_def)
    show ?thesis
    proof (cases b)
      case (Inr out)
      with call have "grants_allow (ws_grants st) (Acc_Invoke al)"
        using invoke_ok unfolding ws_grants_def by blast
      moreover have "st' = ?child (co_record out) (Some (ch_status (co_record out))) None"
        using assms(1) json seq call Inr by (simp add: host_invoke_dependency_def Let_def)
      ultimately show ?thesis
        using child by simp
    next
      case (Inl e)
      show ?thesis
      proof (cases "ce_denial e")
        case (Some d)
        with assms json seq call Inl show ?thesis
          by (auto simp: host_invoke_dependency_def host_inv_blocked)
      next
        case None
        show ?thesis
        proof (cases "ce_record e")
          case rec: None
          have "st' = push_exercised_invoke_skill al None None (Some (ce_skill_error e)) st"
            using assms(1) json seq call Inl None rec by (simp add: host_invoke_dependency_def Let_def)
          then show ?thesis
            using assms(2) by (simp add: push_exercised_invoke_skill_def host_inv_push)
        next
          case (Some rc)
          with call Inl have "grants_allow (ws_grants st) (Acc_Invoke al)"
            using invoke_failed[of "ws_installed st" "ws_execution st" n al v w e w1] by (simp add: ws_grants_def)
          moreover have "st' = ?child rc (Some (ch_status rc)) (Some (ce_skill_error e))"
            using assms(1) json seq call Inl None Some by (simp add: host_invoke_dependency_def Let_def)
          ultimately show ?thesis
            using child by simp
        qed
      qed
    qed
  qed
qed

end

section \<open>Reachable states\<close>

inductive host_step ::
  "'w HostEnv \<Rightarrow> 'w RuntimeHost \<Rightarrow> WasmStoreState \<times> 'w \<Rightarrow> WasmStoreState \<times> 'w \<Rightarrow> bool" for env host where
  emit: "host_emit_evidence env host req st w = (r, st', w') \<Longrightarrow> host_step env host (st, w) (st', w')"
| log: "host_log env level msg st = (r, st') \<Longrightarrow> host_step env host (st, w) (st', w)"
| read: "host_read_resource env host uri st w = (r, st') \<Longrightarrow> host_step env host (st, w) (st', w)"
| invoke: "host_invoke_dependency env host al inp st w = (r, st', w') \<Longrightarrow> host_step env host (st, w) (st', w')"
| http: "host_http_request env host req st w = (r, st', w') \<Longrightarrow> host_step env host (st, w) (st', w')"

lemma run_guest_steps:
  "run_guest env host g st w = (r, st', w') \<Longrightarrow> (host_step env host)\<^sup>*\<^sup>* (st, w) (st', w')"
proof (induction g arbitrary: st w)
  case (Guest_Emit req k)
  obtain a st1 w1 where call: "host_emit_evidence env host req st w = (a, st1, w1)"
    by (cases "host_emit_evidence env host req st w")
  then have "host_step env host (st, w) (st1, w1)"
    by (rule host_step.emit)
  moreover have "(host_step env host)\<^sup>*\<^sup>* (st1, w1) (st', w')"
    using Guest_Emit.prems Guest_Emit.IH[OF rangeI] call by (cases a) auto
  ultimately show ?case
    by (rule converse_rtranclp_into_rtranclp)
next
  case (Guest_Log level msg g)
  obtain a st1 where call: "host_log env level msg st = (a, st1)"
    by (cases "host_log env level msg st")
  then have "host_step env host (st, w) (st1, w)"
    by (rule host_step.log)
  moreover have "(host_step env host)\<^sup>*\<^sup>* (st1, w) (st', w')"
    using Guest_Log call by (cases a) auto
  ultimately show ?case
    by (rule converse_rtranclp_into_rtranclp)
next
  case (Guest_Read uri k)
  obtain a st1 where call: "host_read_resource env host uri st w = (a, st1)"
    by (cases "host_read_resource env host uri st w")
  then have "host_step env host (st, w) (st1, w)"
    by (rule host_step.read)
  moreover have "(host_step env host)\<^sup>*\<^sup>* (st1, w) (st', w')"
    using Guest_Read.prems Guest_Read.IH[OF rangeI] call by (cases a) auto
  ultimately show ?case
    by (rule converse_rtranclp_into_rtranclp)
next
  case (Guest_Invoke al inp k)
  obtain a st1 w1 where call: "host_invoke_dependency env host al inp st w = (a, st1, w1)"
    by (cases "host_invoke_dependency env host al inp st w")
  then have "host_step env host (st, w) (st1, w1)"
    by (rule host_step.invoke)
  moreover have "(host_step env host)\<^sup>*\<^sup>* (st1, w1) (st', w')"
    using Guest_Invoke.prems Guest_Invoke.IH[OF rangeI] call by (cases a) auto
  ultimately show ?case
    by (rule converse_rtranclp_into_rtranclp)
next
  case (Guest_Http req k)
  obtain a st1 w1 where call: "host_http_request env host req st w = (a, st1, w1)"
    by (cases "host_http_request env host req st w")
  then have "host_step env host (st, w) (st1, w1)"
    by (rule host_step.http)
  moreover have "(host_step env host)\<^sup>*\<^sup>* (st1, w1) (st', w')"
    using Guest_Http.prems Guest_Http.IH[OF rangeI] call by (cases a) auto
  ultimately show ?case
    by (rule converse_rtranclp_into_rtranclp)
qed simp_all

context runtime_host
begin

lemma host_step_inv:
  assumes "url_domains_not_ip (he_url_parse env)" "host_step env host s s'" "host_inv env (fst s)"
  shows "host_inv env (fst s') \<and> same_execution (fst s) (fst s')"
  using assms(2)
proof cases
  case (emit req st w r st' w')
  show ?thesis using host_emit_evidence_inv[OF emit(3)] assms(3) emit by simp
next
  case (log level msg st r st' w)
  show ?thesis using host_log_inv[OF log(3)] assms(3) log by simp
next
  case (read uri st w r st')
  show ?thesis using host_read_resource_inv[OF read(3)] assms(3) read by simp
next
  case (invoke al inp st w r st' w')
  show ?thesis using host_invoke_inv[OF invoke(3)] assms(3) invoke by simp
next
  case (http req st w r st' w')
  show ?thesis
    using http_request_loop_inv[OF assms(1) http(3)[unfolded host_http_request_def]] assms(3) http by simp
qed

lemma host_steps_inv:
  assumes "url_domains_not_ip (he_url_parse env)" "(host_step env host)\<^sup>*\<^sup>* s s'" "host_inv env (fst s)"
  shows "host_inv env (fst s') \<and> same_execution (fst s) (fst s')"
  using assms(2,3)
proof (induction rule: rtranclp_induct)
  case (step y z)
  then show ?case
    using host_step_inv[OF assms(1)] by metis
qed simp

lemma run_guest_inv:
  assumes "url_domains_not_ip (he_url_parse env)"
    and "run_guest env host g (WasmStoreState_new ctx inst) w = (r, st, w')"
  shows "host_inv env st \<and> ws_execution st = ctx \<and> ws_installed st = inst"
  using host_steps_inv[OF assms(1) run_guest_steps[OF assms(2)]] host_inv_new
  by (auto simp: WasmStoreState_new_def)

end

section \<open>Hosts that agree\<close>

definition hosts_agree :: "ExecutionContext \<Rightarrow> 'w RuntimeHost \<Rightarrow> 'w RuntimeHost \<Rightarrow> bool" where
  "hosts_agree cx h1 h2 \<longleftrightarrow>
     (\<forall>inst sequence al input w. rh_invoke_dependency h1 inst cx sequence al input w
        = rh_invoke_dependency h2 inst cx sequence al input w)
     \<and> rh_emit_evidence h1 = rh_emit_evidence h2 \<and> rh_read_resource h1 = rh_read_resource h2
     \<and> rh_http_request h1 = rh_http_request h2
     \<and> rh_replay_resolution_binding_for_request h1 = rh_replay_resolution_binding_for_request h2"

lemmas exercised_defs =
  push_exercised_emit_evidence_def push_exercised_log_def push_exercised_read_resource_def
  push_exercised_invoke_skill_def push_exercised_http_request_def

lemma host_emit_execution: "host_emit_evidence env host req st w = (r, st', w') \<Longrightarrow> ws_execution st' = ws_execution st"
  by (auto simp: host_emit_evidence_def exercised_defs split: sum.splits prod.splits)

lemma host_log_execution: "host_log env level msg st = (r, st') \<Longrightarrow> ws_execution st' = ws_execution st"
  by (auto simp: host_log_def exercised_defs split: sum.splits)

lemma host_read_execution: "host_read_resource env host uri st w = (r, st') \<Longrightarrow> ws_execution st' = ws_execution st"
  by (auto simp: host_read_resource_def exercised_defs Let_def split: sum.splits)

lemma host_invoke_execution:
  "host_invoke_dependency env host al inp st w = (r, st', w') \<Longrightarrow> ws_execution st' = ws_execution st"
  by (auto simp: host_invoke_dependency_def exercised_defs Let_def split: sum.splits prod.splits option.splits)

lemma http_redirect_execution:
  "http_redirect env req hops pol r st w = Round_Finish res st' w' \<Longrightarrow> ws_execution st' = ws_execution st"
  "http_redirect env req hops pol r st w = Round_Redirect req' pr st' w' \<Longrightarrow> ws_execution st' = ws_execution st"
  by (auto simp: http_redirect_def http_blocked_def Let_def split: option.splits if_splits sum.splits)

lemma http_round_execution:
  "http_round env host req hops pending st w = Round_Finish res st' w' \<Longrightarrow> ws_execution st' = ws_execution st"
  "http_round env host req hops pending st w = Round_Redirect req' pr st' w' \<Longrightarrow> ws_execution st' = ws_execution st"
  by (auto simp: http_round_def parse_live_http_request_def authorize_live_http_request_def exercised_defs Let_def
      split: sum.splits prod.splits option.splits if_splits dest!: http_redirect_execution)

lemma http_request_loop_execution:
  "http_request_loop env host req hops pending st w = (r, st', w') \<Longrightarrow> ws_execution st' = ws_execution st"
proof (induction env host req hops pending st w rule: http_request_loop.induct)
  case (1 env host req hops pending st w)
  show ?case
  proof (cases "http_round env host req hops pending st w")
    case (Round_Finish x st1 w1)
    with 1 http_round_execution(1) show ?thesis
      by (simp add: http_request_loop.simps)
  next
    case (Round_Redirect req1 pr st1 w1)
    with 1 have "ws_execution st' = ws_execution st1"
      by (simp add: http_request_loop.simps)
    with Round_Redirect http_round_execution(2) show ?thesis
      by simp
  qed
qed

lemma http_round_agree:
  assumes "hosts_agree cx h1 h2"
  shows "http_round env h1 = http_round env h2"
proof (intro ext)
  note eqs = assms[unfolded hosts_agree_def, THEN conjunct2, THEN conjunct2, THEN conjunct2]
  show "http_round env h1 req hops pending st w = http_round env h2 req hops pending st w" for req hops pending st w
    unfolding http_round_def authorize_live_http_request_def eqs[THEN conjunct1] eqs[THEN conjunct2] ..
qed

lemma http_request_loop_agree:
  fixes h1 h2 :: "'w RuntimeHost"
  assumes "hosts_agree cx h1 h2"
  shows "http_request_loop env h1 req hops pending st w = http_request_loop env h2 req hops pending st w"
proof (induction "255 - unat hops" arbitrary: req hops pending st w rule: less_induct)
  case less
  note eq = fun_cong[OF fun_cong[OF fun_cong[OF fun_cong[OF fun_cong[OF http_round_agree[OF assms]]]]]]
  show ?case
  proof (cases "http_round env h2 req hops pending st w")
    case (Round_Finish res st1 w1)
    with eq[of env req hops pending st w] show ?thesis
      by (simp add: http_request_loop.simps)
  next
    case (Round_Redirect req1 pr st1 w1)
    note http_hops_decrease[OF this]
    from less.hyps[OF this] eq[of env req hops pending st w] Round_Redirect show ?thesis
      by (simp add: http_request_loop.simps)
  qed
qed

lemma host_calls_agree:
  assumes "hosts_agree (ws_execution st) h1 h2"
  shows "host_emit_evidence env h1 req st w = host_emit_evidence env h2 req st w"
    "host_read_resource env h1 uri st w = host_read_resource env h2 uri st w"
    "host_invoke_dependency env h1 al inp st w = host_invoke_dependency env h2 al inp st w"
    "host_http_request env h1 hreq st w = host_http_request env h2 hreq st w"
proof -
  note a = assms[unfolded hosts_agree_def]
  have e: "rh_emit_evidence h1 = rh_emit_evidence h2" and r: "rh_read_resource h1 = rh_read_resource h2"
    using a by blast+
  show "host_emit_evidence env h1 req st w = host_emit_evidence env h2 req st w"
    unfolding host_emit_evidence_def e ..
  show "host_read_resource env h1 uri st w = host_read_resource env h2 uri st w"
    unfolding host_read_resource_def r ..
  have "rh_invoke_dependency h1 inst (ws_execution st) n al v w
      = rh_invoke_dependency h2 inst (ws_execution st) n al v w" for inst n v
    using a by blast
  then show "host_invoke_dependency env h1 al inp st w = host_invoke_dependency env h2 al inp st w"
    unfolding host_invoke_dependency_def by presburger
  show "host_http_request env h1 hreq st w = host_http_request env h2 hreq st w"
    unfolding host_http_request_def by (rule http_request_loop_agree[OF assms])
qed

lemma run_guest_agree:
  "hosts_agree (ws_execution st) h1 h2 \<Longrightarrow> run_guest env h1 g st w = run_guest env h2 g st w"
proof (induction g arbitrary: st w)
  case (Guest_Emit req k)
  obtain a st1 w1 where call: "host_emit_evidence env h2 req st w = (a, st1, w1)"
    by (cases "host_emit_evidence env h2 req st w")
  then have "hosts_agree (ws_execution st1) h1 h2"
    using Guest_Emit.prems host_emit_execution by metis
  then show ?case
    using host_calls_agree(1)[OF Guest_Emit.prems] Guest_Emit.IH[OF rangeI] call by (simp split: sum.splits)
next
  case (Guest_Log level msg g)
  obtain a st1 where call: "host_log env level msg st = (a, st1)"
    by (cases "host_log env level msg st")
  then have "hosts_agree (ws_execution st1) h1 h2"
    using Guest_Log.prems host_log_execution by metis
  then show ?case
    using Guest_Log.IH call by (simp split: sum.splits)
next
  case (Guest_Read uri k)
  obtain a st1 where call: "host_read_resource env h2 uri st w = (a, st1)"
    by (cases "host_read_resource env h2 uri st w")
  then have "hosts_agree (ws_execution st1) h1 h2"
    using Guest_Read.prems host_read_execution by metis
  then show ?case
    using host_calls_agree(2)[OF Guest_Read.prems] Guest_Read.IH[OF rangeI] call by (simp split: sum.splits)
next
  case (Guest_Invoke al inp k)
  obtain a st1 w1 where call: "host_invoke_dependency env h2 al inp st w = (a, st1, w1)"
    by (cases "host_invoke_dependency env h2 al inp st w")
  then have "hosts_agree (ws_execution st1) h1 h2"
    using Guest_Invoke.prems host_invoke_execution by metis
  then show ?case
    using host_calls_agree(3)[OF Guest_Invoke.prems] Guest_Invoke.IH[OF rangeI] call by (simp split: sum.splits)
next
  case (Guest_Http req k)
  obtain a st1 w1 where call: "host_http_request env h2 req st w = (a, st1, w1)"
    by (cases "host_http_request env h2 req st w")
  then have "hosts_agree (ws_execution st1) h1 h2"
    using Guest_Http.prems http_request_loop_execution unfolding host_http_request_def by metis
  then show ?case
    using host_calls_agree(4)[OF Guest_Http.prems] Guest_Http.IH[OF rangeI] call by (simp split: sum.splits)
qed simp_all

section \<open>Children of a run\<close>

lemma http_redirect_children:
  "http_redirect env req hops pol r st w = Round_Finish res st' w' \<Longrightarrow> ws_child_executions st' = ws_child_executions st"
  "http_redirect env req hops pol r st w = Round_Redirect req' pr st' w' \<Longrightarrow> ws_child_executions st' = ws_child_executions st"
  by (auto simp: http_redirect_def http_blocked_def blocked_defs Let_def split: option.splits if_splits sum.splits)

lemma http_round_children:
  "http_round env host req hops pending st w = Round_Finish res st' w' \<Longrightarrow> ws_child_executions st' = ws_child_executions st"
  "http_round env host req hops pending st w = Round_Redirect req' pr st' w' \<Longrightarrow> ws_child_executions st' = ws_child_executions st"
  by (auto simp: http_round_def parse_live_http_request_def authorize_live_http_request_def exercised_defs
      blocked_defs Let_def split: sum.splits prod.splits option.splits if_splits dest!: http_redirect_children)

lemma http_request_loop_children:
  "http_request_loop env host req hops pending st w = (r, st', w') \<Longrightarrow> ws_child_executions st' = ws_child_executions st"
proof (induction env host req hops pending st w rule: http_request_loop.induct)
  case (1 env host req hops pending st w)
  show ?case
  proof (cases "http_round env host req hops pending st w")
    case (Round_Finish x st1 w1)
    with 1 http_round_children(1) show ?thesis
      by (simp add: http_request_loop.simps)
  next
    case (Round_Redirect req1 pr st1 w1)
    with 1 have "ws_child_executions st' = ws_child_executions st1"
      by (simp add: http_request_loop.simps)
    with Round_Redirect http_round_children(2) show ?thesis
      by simp
  qed
qed

lemma host_step_execution: "host_step env host s s' \<Longrightarrow> ws_execution (fst s') = ws_execution (fst s)"
  by (induction rule: host_step.induct)
    (auto simp: host_http_request_def dest: host_emit_execution host_log_execution host_read_execution
      host_invoke_execution http_request_loop_execution)

text \<open>
  A host that promises more about its children: whatever it promises of each child record under
  the caller's context holds of every child in the store.
\<close>

definition children_ok :: "(ExecutionContext \<Rightarrow> ChildExecutionRecord \<Rightarrow> bool) \<Rightarrow> WasmStoreState \<Rightarrow> bool" where
  "children_ok child_ok st \<longleftrightarrow> list_all (child_ok (ws_execution st)) (ws_child_executions st)"

locale runtime_host_children = runtime_host host for host :: "'w RuntimeHost" +
  fixes child_ok :: "ExecutionContext \<Rightarrow> ChildExecutionRecord \<Rightarrow> bool"
  assumes child_of_success: "rh_invoke_dependency host inst ctx seq al inp w = (Inr out, w')
      \<Longrightarrow> child_ok ctx (co_record out)"
    and child_of_failure: "rh_invoke_dependency host inst ctx seq al inp w = (Inl e, w') \<Longrightarrow> ce_record e = Some rc
      \<Longrightarrow> child_ok ctx rc"
begin

lemma host_invoke_children:
  assumes "host_invoke_dependency env host al inp st w = (r, st', w')" "children_ok child_ok st"
  shows "children_ok child_ok st'"
  using assms child_of_success child_of_failure
  by (fastforce simp: host_invoke_dependency_def children_ok_def exercised_defs blocked_defs Let_def
      split: sum.splits prod.splits option.splits)

lemma host_step_children:
  assumes "host_step env host s s'" "children_ok child_ok (fst s)"
  shows "children_ok child_ok (fst s')"
  using assms(1)
proof cases
  case (emit req st w r st' w')
  then show ?thesis using assms(2)
    by (auto simp: host_emit_evidence_def children_ok_def exercised_defs blocked_defs split: sum.splits prod.splits)
next
  case (log level msg st r st' w)
  then show ?thesis using assms(2)
    by (auto simp: host_log_def children_ok_def exercised_defs blocked_defs split: sum.splits)
next
  case (read uri st w r st')
  then show ?thesis using assms(2)
    by (auto simp: host_read_resource_def children_ok_def exercised_defs blocked_defs Let_def split: sum.splits)
next
  case (invoke al inp st w r st' w')
  then show ?thesis using assms(2) host_invoke_children by auto
next
  case (http req st w r st' w')
  then show ?thesis
    using assms(2) http_request_loop_children[OF http(3)[unfolded host_http_request_def]]
      http_request_loop_execution[OF http(3)[unfolded host_http_request_def]]
    by (simp add: children_ok_def)
qed

lemma run_guest_children:
  assumes "run_guest env host g (WasmStoreState_new cx inst) w = (r, st, w')"
  shows "list_all (child_ok (ws_execution st)) (ws_child_executions st) \<and> ws_execution st = cx"
proof -
  have "(host_step env host)\<^sup>*\<^sup>* (WasmStoreState_new cx inst, w) (st, w')"
    using assms by (rule run_guest_steps)
  moreover have "children_ok child_ok (WasmStoreState_new cx inst)"
    by (simp add: children_ok_def WasmStoreState_new_def)
  ultimately have "children_ok child_ok st \<and> ws_execution st = cx"
    by (induction "(st, w')" arbitrary: st w' rule: rtranclp_induct)
      (auto simp: WasmStoreState_new_def dest: host_step_children host_step_execution)
  then show ?thesis
    unfolding children_ok_def .
qed

end

end
