(* ===== verification/Guild_Adapter.thy ===== *)
theory Guild_Adapter
  imports Guild_Host
begin

text \<open>
  The Wasm runtime adapter: the capability surface it supports and the errors for what lies outside
  it (\<open>crates/guild-runner/src/lib.rs\<close>), the projection of a context into the inspect ABI
  (\<open>crates/guild-runner/src/inspect_projection.rs\<close>), and one component run from loading to the
  checked outcome. Wasmtime itself is a parameter: \<open>Wasmtime\<close> says what a file loads as and which
  linking steps fail; a loaded component is its import list and the guest it runs.
\<close>

section \<open>Serialisation of the values in adapter errors\<close>

fun RuntimeKind_json :: "RuntimeKind \<Rightarrow> json" where
  "RuntimeKind_json WasmComponent = JString ''wasm-component''"
| "RuntimeKind_json InProcess = JString ''in-process''"
| "RuntimeKind_json Process = JString ''process''"
| "RuntimeKind_json Container = JString ''container''"

fun AbiVersion_json :: "AbiVersion \<Rightarrow> json" where
  "AbiVersion_json Abi_GuildSkillV1 = JString ''guild-skill-v1''"
| "AbiVersion_json Abi_GuildSkillInspectV1 = JString ''guild-skill-inspect-v1''"

fun ExecutionMode_json :: "ExecutionMode \<Rightarrow> json" where
  "ExecutionMode_json Inspect = JString ''inspect''"
| "ExecutionMode_json Plan = JString ''plan''"
| "ExecutionMode_json Apply = JString ''apply''"

definition EvidenceRef_json :: "EvidenceRef \<Rightarrow> json" where
  "EvidenceRef_json r = json_obj
     [(''uri'', JString (er_uri r)), (''title'', json_opt JString (er_title r)),
      (''mime_type'', json_opt JString (er_mime_type r)), (''sha256'', json_opt JString (er_sha256 r)),
      (''audience'', EvidenceAudience_json (er_audience r)),
      (''redaction'', RedactionClass_json (er_redaction r)),
      (''freshness'', json_opt JString (er_freshness r))]"

section \<open>The supported surface\<close>

definition active_wasm_inspect_capability_surface :: "(CapabilityId \<times> CapabilityAccess) list" where
  "active_wasm_inspect_capability_surface =
     [(HttpRequest, Read), (ReadResource, Read), (InvokeSkill, Invoke), (EmitEvidence, Write),
      (LogWrite, Write)]"

definition ACTIVE_INSPECT_GUILD_IMPORTS :: "string list" where
  "ACTIVE_INSPECT_GUILD_IMPORTS =
     [''guild:skill/inspect-types@1.0.0'', ''guild:skill/inspect-host@1.0.0'']"

definition GUILD_COMPONENT_IMPORT_PREFIX :: string where
  "GUILD_COMPONENT_IMPORT_PREFIX = ''guild:skill/''"

definition UNSUPPORTED_RUNTIME_SURFACE_CLASSIFICATION :: string where
  "UNSUPPORTED_RUNTIME_SURFACE_CLASSIFICATION = ''unsupported-runtime-surface''"

definition capability_surface_entry ::
  "string \<Rightarrow> CapabilityId \<Rightarrow> CapabilityAccess \<Rightarrow> CapabilityConstraints \<Rightarrow> bool option \<Rightarrow> json" where
  "capability_surface_entry origin i a c req = json_obj
     [(''origin'', JString origin), (''id'', CapabilityId_json i), (''access'', CapabilityAccess_json a),
      (''constraints'', CapabilityConstraints_json c), (''required'', json_opt JBool req)]"

definition is_supported_wasm_inspect_capability :: "CapabilityId \<Rightarrow> CapabilityAccess \<Rightarrow> bool" where
  "is_supported_wasm_inspect_capability i a \<longleftrightarrow>
     list_ex (\<lambda>(i', a'). i' = i \<and> a' = a) active_wasm_inspect_capability_surface"

definition supported_wasm_inspect_capabilities :: "json list" where
  "supported_wasm_inspect_capabilities =
     map (\<lambda>(i, a). json_obj [(''id'', CapabilityId_json i), (''access'', CapabilityAccess_json a)])
       active_wasm_inspect_capability_surface"

definition unsupported_surface_includes_filesystem :: "json list \<Rightarrow> bool" where
  "unsupported_surface_includes_filesystem entries \<longleftrightarrow>
     list_ex (\<lambda>entry. is_some_and (json_get entry ''id'') (\<lambda>i. i = CapabilityId_json Filesystem)) entries"

definition unsupported_runtime_surface_detail :: "string \<Rightarrow> string \<Rightarrow> json \<Rightarrow> json" where
  "unsupported_runtime_surface_detail surface_kind surface_id detail = json_obj
     [(''classification'', JString UNSUPPORTED_RUNTIME_SURFACE_CLASSIFICATION),
      (''surface_kind'', JString surface_kind), (''surface_id'', JString surface_id),
      (''active_runtime'', json_obj
         [(''kind'', RuntimeKind_json WasmComponent), (''entrypoint'', JString INSPECT_WORLD_ENTRYPOINT),
          (''guest_abi_version'', AbiVersion_json Abi_GuildSkillInspectV1)]),
      (''detail'', detail)]"

definition unsupported_runtime_surface_error ::
  "string \<Rightarrow> string \<Rightarrow> ExecutionPhase \<Rightarrow> string \<Rightarrow> string \<Rightarrow> json \<Rightarrow> ExecutionError" where
  "unsupported_runtime_surface_error code msg phase surface_kind surface_id detail =
     with_phase phase (with_detail (unsupported_runtime_surface_detail surface_kind surface_id detail)
       (ExecutionError_new code msg))"

definition unsupported_capability_runtime_surface_error ::
  "ExecutionPhase \<Rightarrow> string \<Rightarrow> json list \<Rightarrow> ExecutionError" where
  "unsupported_capability_runtime_surface_error phase source unsupported =
     (let fs = unsupported_surface_includes_filesystem unsupported;
          (code, msg) =
            (if fs
             then (''filesystem-runtime-not-supported'',
                   ''filesystem capability contracts are not implemented in the active Wasm inspect slice'')
             else (''unsupported-runtime-surface'',
                   ''Wasm inspect execution only supports the active capability allowlist''));
          surface_id = unwrap_or ''multiple-capability-families''
            (find_map (\<lambda>entry. Option.bind (json_get entry ''id'') json_as_str) unsupported)
      in unsupported_runtime_surface_error code msg phase ''capability-family'' surface_id
           (json_obj [(''source'', JString source),
              (''supported_capabilities'', JArray supported_wasm_inspect_capabilities),
              (''unsupported_capabilities'', JArray unsupported),
              (''deferred_filesystem_contract'', JBool fs)]))"

definition is_unsupported_runtime_surface_error :: "ExecutionError \<Rightarrow> bool" where
  "is_unsupported_runtime_surface_error e \<longleftrightarrow>
     is_some_and (xe_detail e) (\<lambda>d. Option.bind (json_get d ''classification'') json_as_str
        = Some UNSUPPORTED_RUNTIME_SURFACE_CLASSIFICATION)
     \<or> xe_code e \<in> {''unsupported-runtime-surface'', ''filesystem-runtime-not-supported''}"

section \<open>Projection into the inspect ABI\<close>

text \<open>
  The guest-side types are those of the inspect world: capability families outside the supported
  surface and file-system constraints have no counterpart; the other fields are the host's own.
\<close>

datatype InspectCapabilityId =
    IC_HttpRequest | IC_ReadResource | IC_InvokeSkill | IC_EmitEvidence | IC_LogWrite

datatype InspectConstraints =
    IN_None
  | IN_HttpRequest HttpRequestConstraints
  | IN_ReadResource ReadResourceConstraints
  | IN_InvokeDependency InvokeDependencyConstraints
  | IN_EmitEvidence EmitEvidenceConstraints
  | IN_Log LogConstraints

record InspectGrant =
  ig_id :: InspectCapabilityId
  ig_access :: CapabilityAccess
  ig_constraints :: InspectConstraints

record InspectContext =
  ix_execution_id :: string
  ix_trace_id :: string
  ix_tenant_id :: string
  ix_skill :: ResolvedSkillRef
  ix_input_sha256 :: string
  ix_now_utc :: "string option"
  ix_budget :: Budget
  ix_granted_capabilities :: "InspectGrant list"

definition execution_context_projection_contract :: json where
  "execution_context_projection_contract = json_obj
     [(''completeness'', JString ''BoundedSubset''),
      (''omitted_host_fields'', JArray [JString ''ExecutionContext.mode'']),
      (''rationale'', JString ''guild-skill-inspect-v1 is inspect-only, so the guest does not receive a redundant mode field'')]"

text \<open>The \<^const>\<open>None\<close> is the source's \<open>unreachable!\<close>.\<close>

fun project_capability_id_to_inspect_abi :: "CapabilityId \<Rightarrow> InspectCapabilityId option" where
  "project_capability_id_to_inspect_abi HttpRequest = Some IC_HttpRequest"
| "project_capability_id_to_inspect_abi ReadResource = Some IC_ReadResource"
| "project_capability_id_to_inspect_abi InvokeSkill = Some IC_InvokeSkill"
| "project_capability_id_to_inspect_abi EmitEvidence = Some IC_EmitEvidence"
| "project_capability_id_to_inspect_abi LogWrite = Some IC_LogWrite"
| "project_capability_id_to_inspect_abi _ = None"

definition project_http_request_constraints_to_inspect_abi ::
  "HttpRequestConstraints \<Rightarrow> InspectConstraints" where
  "project_http_request_constraints_to_inspect_abi v = IN_HttpRequest
     (v\<lparr>allowed_hosts := map_option canonicalize_host_scope (allowed_hosts v),
        allowed_host_suffixes := map_option canonicalize_host_suffix_scope (allowed_host_suffixes v)\<rparr>)"

fun project_capability_constraints_to_inspect_abi ::
  "CapabilityId \<Rightarrow> CapabilityConstraints \<Rightarrow> ExecutionError + InspectConstraints" where
  "project_capability_constraints_to_inspect_abi i CC_None = Inr IN_None"
| "project_capability_constraints_to_inspect_abi i (CC_Filesystem v) =
     Inl (with_phase Ph_Validation (with_detail
       (json_obj [(''id'', CapabilityId_json i), (''constraints'', FilesystemConstraints_json v)])
       (ExecutionError_new ''capability-constraints-invalid''
          ''supported inspect capability projected with unsupported filesystem constraints'')))"
| "project_capability_constraints_to_inspect_abi i (CC_HttpRequest v) =
     Inr (project_http_request_constraints_to_inspect_abi v)"
| "project_capability_constraints_to_inspect_abi i (CC_ReadResource v) = Inr (IN_ReadResource v)"
| "project_capability_constraints_to_inspect_abi i (CC_InvokeDependency v) = Inr (IN_InvokeDependency v)"
| "project_capability_constraints_to_inspect_abi i (CC_EmitEvidence v) = Inr (IN_EmitEvidence v)"
| "project_capability_constraints_to_inspect_abi i (CC_Log v) = Inr (IN_Log v)"

definition unsupported_projection :: "GrantedCapability \<Rightarrow> ExecutionError" where
  "unsupported_projection g =
     unsupported_capability_runtime_surface_error Ph_Validation ''inspect-projection''
       [capability_surface_entry ''projection'' (g_id g) (g_access g) (g_constraints g) None]"

definition project_granted_capability_to_inspect_abi :: "GrantedCapability \<Rightarrow> ExecutionError + InspectGrant" where
  "project_granted_capability_to_inspect_abi g =
     (if \<not> is_supported_wasm_inspect_capability (g_id g) (g_access g) then Inl (unsupported_projection g)
      else
        case project_capability_id_to_inspect_abi (g_id g) of
          None \<Rightarrow> Inl (unsupported_projection g)
        | Some i \<Rightarrow>
            res_bind (project_capability_constraints_to_inspect_abi (g_id g) (g_constraints g)) (\<lambda>c.
            Inr \<lparr>ig_id = i, ig_access = g_access g, ig_constraints = c\<rparr>))"

definition project_execution_context_to_inspect_abi :: "ExecutionContext \<Rightarrow> ExecutionError + InspectContext" where
  "project_execution_context_to_inspect_abi cx =
     (if cx_mode cx \<noteq> Inspect
      then Inl (with_phase Ph_Validation (with_detail
             (json_obj [(''mode'', ExecutionMode_json (cx_mode cx)),
                        (''projection_contract'', execution_context_projection_contract)])
             (ExecutionError_new ''inspect-abi-mode-mismatch''
                ''guild-skill-inspect-v1 can only project inspect executions into the guest ABI'')))
      else
        res_bind (collect_results (map project_granted_capability_to_inspect_abi
                    (grants (cx_granted_capabilities cx)))) (\<lambda>gs.
        Inr \<lparr>ix_execution_id = cx_execution_id cx, ix_trace_id = cx_trace_id cx,
             ix_tenant_id = cx_tenant_id cx, ix_skill = cx_skill cx, ix_input_sha256 = cx_input_sha256 cx,
             ix_now_utc = cx_now_utc cx, ix_budget = cx_budget cx, ix_granted_capabilities = gs\<rparr>))"

section \<open>Components\<close>

datatype ComponentItem =
    CI_ComponentFunc | CI_CoreFunc | CI_Module | CI_Component | CI_ComponentInstance | CI_Type | CI_Resource

fun component_item_kind :: "ComponentItem \<Rightarrow> string" where
  "component_item_kind CI_ComponentFunc = ''component-func''"
| "component_item_kind CI_CoreFunc = ''core-func''"
| "component_item_kind CI_Module = ''module''"
| "component_item_kind CI_Component = ''component''"
| "component_item_kind CI_ComponentInstance = ''component-instance''"
| "component_item_kind CI_Type = ''type''"
| "component_item_kind CI_Resource = ''resource''"

text \<open>
  \<open>wt_context\<close> is the context Wasmtime puts in front of an error that leaves a call.
\<close>

record Component =
  comp_imports :: "(string \<times> ComponentItem) list"
  comp_instantiate_error :: "string option"
  comp_run :: "InspectContext \<Rightarrow> string \<Rightarrow> Guest"

record 'w Wasmtime =
  wt_load :: "'w \<Rightarrow> path \<Rightarrow> string + Component"
  wt_wasi_link_error :: "string option"
  wt_host_link_error :: "string option"
  wt_context :: "wasm_error \<Rightarrow> string list"

definition unsupported_component_import_runtime_surface_error ::
  "string \<Rightarrow> json list \<Rightarrow> json list \<Rightarrow> ExecutionError" where
  "unsupported_component_import_runtime_surface_error rejected observed unexpected =
     unsupported_runtime_surface_error ''unsupported-runtime-surface''
       ''Wasm inspect execution only supports the active inspect Guild host import surface''
       Ph_RuntimeLoad ''component-import'' rejected
       (json_obj [(''source'', JString ''component-import-preflight''),
          (''allowed_guild_imports'', list_json JString ACTIVE_INSPECT_GUILD_IMPORTS),
          (''observed_guild_imports'', JArray observed), (''unexpected_guild_imports'', JArray unexpected)])"

definition validate_component_import_surface :: "Component \<Rightarrow> ExecutionError + unit" where
  "validate_component_import_surface c =
     (let observed = map (\<lambda>(name, item). json_obj
              [(''name'', JString name), (''kind'', JString (component_item_kind item))])
            (filter (\<lambda>(name, _). prefix GUILD_COMPONENT_IMPORT_PREFIX name) (comp_imports c));
          entry_name = (\<lambda>entry. Option.bind (json_get entry ''name'') json_as_str);
          unexpected = filter (\<lambda>entry. unwrap_or [] (entry_name entry) \<notin> set ACTIVE_INSPECT_GUILD_IMPORTS) observed
      in if unexpected = [] then Inr ()
         else
           (let rejected =
              (case find_map (\<lambda>entry. Option.bind (entry_name entry)
                       (\<lambda>n. if contains_str ''/host@'' n then Some n else None)) unexpected of
                 Some n \<Rightarrow> n
               | None \<Rightarrow> unwrap_or ''unknown-component-import'' (find_map entry_name unexpected))
            in Inl (unsupported_component_import_runtime_surface_error rejected observed unexpected)))"

definition load_error :: "string \<Rightarrow> string \<Rightarrow> string \<Rightarrow> ExecutionError" where
  "load_error code msg err =
     with_phase Ph_RuntimeLoad (with_detail (JString err) (ExecutionError_new code msg))"

definition instantiate :: "'w Wasmtime \<Rightarrow> InstalledSkill \<Rightarrow> 'w \<Rightarrow> ExecutionError + Component" where
  "instantiate wt inst w =
     (if entrypoint (runtime (manifest inst)) \<noteq> INSPECT_WORLD_ENTRYPOINT
      then Inl (with_phase Ph_RuntimeLoad (with_detail
             (json_obj [(''manifest_entrypoint'', JString (entrypoint (runtime (manifest inst)))),
                        (''expected_entrypoint'', JString INSPECT_WORLD_ENTRYPOINT)])
             (ExecutionError_new ''component-entrypoint-mismatch''
                ''Wasm inspect runtime requires the `guild-skill-inspect-v1` world entrypoint'')))
      else
        res_bind (map_err (load_error ''component-load-failed'' ''failed to load Wasm component artifact'')
                    (wt_load wt w (artifact_path inst))) (\<lambda>c.
        res_bind (validate_component_import_surface c) (\<lambda>_.
        case wt_wasi_link_error wt of
          Some e \<Rightarrow> Inl (load_error ''wasi-link-failed'' ''failed to attach WASI imports'' e)
        | None \<Rightarrow>
            (case wt_host_link_error wt of
               Some e \<Rightarrow> Inl (load_error ''host-link-failed'' ''failed to attach Guild host imports to linker'' e)
             | None \<Rightarrow>
                 (case comp_instantiate_error c of
                    Some e \<Rightarrow> Inl (load_error ''component-instantiate-failed'' ''failed to instantiate Wasm component'' e)
                  | None \<Rightarrow> Inr c)))))"

section \<open>A component run\<close>

definition validate_emitted_evidence :: "SkillOutput \<Rightarrow> EvidenceRef list \<Rightarrow> ExecutionError + unit" where
  "validate_emitted_evidence out emitted =
     (if so_evidence out = emitted then Inr ()
      else Inl (with_phase Ph_RuntimeExec (with_detail
             (json_obj [(''expected'', list_json EvidenceRef_json emitted),
                        (''actual'', list_json EvidenceRef_json (so_evidence out))])
             (ExecutionError_new ''invalid-evidence-output''
                ''skill output evidence did not match the host-issued evidence refs emitted during execution''))))"

definition early_failure :: "ExecutionError \<Rightarrow> RuntimeFailure" where
  "early_failure e =
     \<lparr>rf_error = e, rf_emitted_evidence = [], rf_child_executions = [], rf_authority_observations = [],
      rf_network_requests = 0\<rparr>"

definition store_failure :: "WasmStoreState \<Rightarrow> ExecutionError \<Rightarrow> RuntimeFailure" where
  "store_failure st e =
     \<lparr>rf_error = e, rf_emitted_evidence = ws_emitted_evidence st,
      rf_child_executions = ws_child_executions st,
      rf_authority_observations = ws_authority_observations st,
      rf_network_requests = ws_network_requests st\<rparr>"

definition call_error :: "'w HostEnv \<Rightarrow> wasm_error \<Rightarrow> ExecutionError" where
  "call_error env e =
     (case parse_capability_denial_trap env e of
        Some d \<Rightarrow> into_execution_error Ph_Grant d
      | None \<Rightarrow> with_phase Ph_RuntimeExec (with_detail (JString (case e of [] \<Rightarrow> [] | m # _ \<Rightarrow> m))
          (ExecutionError_new ''component-call-failed'' ''Wasm component execution trapped or failed'')))"

definition finish_run ::
  "'w HostEnv \<Rightarrow> 'w Wasmtime \<Rightarrow> guest_result \<Rightarrow> WasmStoreState \<Rightarrow> RuntimeFailure + RuntimeOutcome" where
  "finish_run env wt r st =
     (case r of
        Inl e \<Rightarrow> Inl (store_failure st (call_error env (wt_context wt e @ e)))
      | Inr (Inl e) \<Rightarrow> Inl (store_failure st (from_wit_skill_error env e))
      | Inr (Inr out) \<Rightarrow>
          map_err (store_failure st)
            (res_bind (from_wit_skill_output env out) (\<lambda>output.
             res_bind (validate_emitted_evidence output (ws_emitted_evidence st)) (\<lambda>_.
             Inr \<lparr>ro_output = output, ro_emitted_evidence = ws_emitted_evidence st,
                  ro_child_executions = ws_child_executions st,
                  ro_authority_observations = ws_authority_observations st,
                  ro_network_requests = ws_network_requests st\<rparr>))))"

definition wasm_execute ::
  "'w HostEnv \<Rightarrow> 'w Wasmtime \<Rightarrow> 'w RuntimeHost \<Rightarrow> InstalledSkill \<Rightarrow> ExecutionContext \<Rightarrow> json \<Rightarrow> 'w
     \<Rightarrow> (RuntimeFailure + RuntimeOutcome) \<times> 'w" where
  "wasm_execute env wt host inst cx input w =
     (case project_execution_context_to_inspect_abi cx of
        Inl e \<Rightarrow> (Inl (early_failure e), w)
      | Inr guest_cx \<Rightarrow>
          (case instantiate wt inst w of
             Inl e \<Rightarrow> (Inl (early_failure e), w)
           | Inr c \<Rightarrow>
               (case run_guest env host (comp_run c guest_cx (he_json_text env input))
                       (WasmStoreState_new cx inst) w of
                  (r, st, w) \<Rightarrow> (finish_run env wt r st, w))))"

section \<open>Adapters\<close>

record 'w RuntimeAdapter =
  ra_kind :: RuntimeKind
  ra_execute :: "'w RuntimeHost \<Rightarrow> InstalledSkill \<Rightarrow> ExecutionContext \<Rightarrow> json \<Rightarrow> 'w
     \<Rightarrow> (RuntimeFailure + RuntimeOutcome) \<times> 'w"

definition WasmtimeRuntimeAdapter :: "'w HostEnv \<Rightarrow> 'w Wasmtime \<Rightarrow> 'w RuntimeAdapter" where
  "WasmtimeRuntimeAdapter env wt = \<lparr>ra_kind = WasmComponent, ra_execute = wasm_execute env wt\<rparr>"

text \<open>
  The in-process adapter runs skills compiled into the host. Reading the artifact file and its
  metadata codec are parameters; a registered skill is an arbitrary function.
\<close>

type_synonym dyn_skill = "ExecutionContext \<Rightarrow> json \<Rightarrow> SkillError + SkillOutput"

record 'w InProcessRuntime =
  ip_read :: "'w \<Rightarrow> path \<Rightarrow> string + string"
  ip_parse_artifact :: "string \<Rightarrow> string + string"
  ip_implementations :: "string \<rightharpoonup> dyn_skill"

definition register_arc :: "string \<Rightarrow> dyn_skill \<Rightarrow> 'w InProcessRuntime \<Rightarrow> 'w InProcessRuntime" where
  "register_arc impl skill ip = ip\<lparr>ip_implementations := (ip_implementations ip)(impl \<mapsto> skill)\<rparr>"

definition in_process_artifact :: "'w InProcessRuntime \<Rightarrow> InstalledSkill \<Rightarrow> 'w \<Rightarrow> ExecutionError + dyn_skill" where
  "in_process_artifact ip inst w =
     res_bind (map_err (load_error ''artifact-read-failed'' ''failed to read artifact file'')
                 (ip_read ip w (artifact_path inst))) (\<lambda>bytes.
     res_bind (map_err (load_error ''artifact-parse-failed'' ''failed to parse in-process artifact metadata'')
                 (ip_parse_artifact ip bytes)) (\<lambda>impl.
     if impl \<noteq> entrypoint (runtime (manifest inst))
     then Inl (with_phase Ph_RuntimeLoad (with_detail
            (json_obj [(''artifact_implementation'', JString impl),
                       (''manifest_entrypoint'', JString (entrypoint (runtime (manifest inst))))])
            (ExecutionError_new ''artifact-entrypoint-mismatch''
               ''artifact implementation id does not match manifest entrypoint'')))
     else ok_or (load_error ''implementation-not-registered''
                   ''no in-process skill implementation is registered for this artifact'' impl)
            (ip_implementations ip impl)))"

definition in_process_execute ::
  "'w InProcessRuntime \<Rightarrow> 'w RuntimeHost \<Rightarrow> InstalledSkill \<Rightarrow> ExecutionContext \<Rightarrow> json \<Rightarrow> 'w
     \<Rightarrow> (RuntimeFailure + RuntimeOutcome) \<times> 'w" where
  "in_process_execute ip host inst cx input w =
     (case in_process_artifact ip inst w of
        Inl e \<Rightarrow> (Inl (early_failure e), w)
      | Inr skill \<Rightarrow>
          (case skill cx input of
             Inl e \<Rightarrow> (Inl (early_failure (from_skill_error e)), w)
           | Inr out \<Rightarrow>
               (Inr \<lparr>ro_output = out, ro_emitted_evidence = [], ro_child_executions = [],
                     ro_authority_observations = [], ro_network_requests = 0\<rparr>, w)))"

definition InProcessRuntimeAdapter :: "'w InProcessRuntime \<Rightarrow> 'w RuntimeAdapter" where
  "InProcessRuntimeAdapter ip = \<lparr>ra_kind = InProcess, ra_execute = in_process_execute ip\<rparr>"

section \<open>What every adapter accounts for\<close>

text \<open>
  The account an adapter hands to the runner, on success and on failure: everything exercised was
  authorised by the context's grants, network requests are counted and stay within the budget, and
  evidence and child executions are those of the log.
\<close>

definition account_ok ::
  "'w HostEnv \<Rightarrow> ExecutionContext \<Rightarrow> AuthorityObservation list \<Rightarrow> u32 \<Rightarrow> EvidenceRef list
     \<Rightarrow> ChildExecutionRecord list \<Rightarrow> bool" where
  "account_ok env cx obs net evidence children \<longleftrightarrow>
     list_all (obs_authorized env (cx_granted_capabilities cx)) obs
     \<and> net \<le> max_network_requests (cx_budget cx)
     \<and> unat net = length (filter http_exercised obs)
     \<and> map er_uri evidence = concat (map obs_evidence obs)
     \<and> map ch_execution_id children = concat (map obs_child obs)"

definition runtime_result_ok :: "'w HostEnv \<Rightarrow> ExecutionContext \<Rightarrow> RuntimeFailure + RuntimeOutcome \<Rightarrow> bool" where
  "runtime_result_ok env cx r \<longleftrightarrow>
     (case r of
        Inl f \<Rightarrow> account_ok env cx (rf_authority_observations f) (rf_network_requests f)
                   (rf_emitted_evidence f) (rf_child_executions f)
      | Inr o1 \<Rightarrow> account_ok env cx (ro_authority_observations o1) (ro_network_requests o1)
                   (ro_emitted_evidence o1) (ro_child_executions o1))"

lemma account_ok_empty: "account_ok env cx [] 0 [] []"
  by (simp add: account_ok_def)

lemma early_failure_ok: "runtime_result_ok env cx (Inl (early_failure e))"
  by (simp add: runtime_result_ok_def early_failure_def account_ok_empty)

lemma host_inv_account:
  "host_inv env st \<longleftrightarrow> account_ok env (ws_execution st) (ws_authority_observations st)
     (ws_network_requests st) (ws_emitted_evidence st) (ws_child_executions st)"
  by (simp add: host_inv_def account_ok_def ws_grants_def)

lemma finish_run_Inr:
  assumes "finish_run env wt r st = Inr out"
  shows "ro_emitted_evidence out = ws_emitted_evidence st \<and> ro_child_executions out = ws_child_executions st
    \<and> ro_authority_observations out = ws_authority_observations st
    \<and> ro_network_requests out = ws_network_requests st \<and> so_evidence (ro_output out) = ws_emitted_evidence st"
  using assms
  by (auto simp: finish_run_def validate_emitted_evidence_def res_bind_Inr_iff map_err_def
      split: sum.splits if_splits)

lemma finish_run_Inl:
  assumes "finish_run env wt r st = Inl f"
  shows "\<exists>e. f = store_failure st e"
  using assms by (auto simp: finish_run_def map_err_def split: sum.splits)

lemma finish_run_ok:
  assumes "host_inv env st"
  shows "runtime_result_ok env (ws_execution st) (finish_run env wt r st)"
proof (cases "finish_run env wt r st")
  case (Inl f)
  then obtain e where "f = store_failure st e"
    using finish_run_Inl by blast
  with Inl assms show ?thesis
    by (simp add: runtime_result_ok_def store_failure_def host_inv_account)
next
  case (Inr out)
  with finish_run_Inr[OF Inr] assms show ?thesis
    by (simp add: runtime_result_ok_def host_inv_account)
qed

locale accountable_adapter =
  fixes env :: "'w HostEnv" and adapter :: "'w RuntimeAdapter"
  assumes accounts: "runtime_host host \<Longrightarrow> url_domains_not_ip (he_url_parse env)
    \<Longrightarrow> ra_execute adapter host inst cx input w = (r, w') \<Longrightarrow> runtime_result_ok env cx r"

lemma wasm_execute_cases:
  assumes "wasm_execute env wt host inst cx input w = (r, w')"
  obtains (early) e where "r = Inl (early_failure e)" "w' = w"
  | (ran) guest_cx c g st where "project_execution_context_to_inspect_abi cx = Inr guest_cx"
      "instantiate wt inst w = Inr c"
      "run_guest env host (comp_run c guest_cx (he_json_text env input)) (WasmStoreState_new cx inst) w = (g, st, w')"
      "r = finish_run env wt g st"
  using assms by (auto simp: wasm_execute_def split: sum.splits prod.splits)

interpretation wasm: accountable_adapter env "WasmtimeRuntimeAdapter env wt" for env :: "'w HostEnv" and wt
proof
  fix host :: "'w RuntimeHost" and inst cx input and w w' :: 'w and r
  assume host: "runtime_host host" and url: "url_domains_not_ip (he_url_parse env)"
    and run: "ra_execute (WasmtimeRuntimeAdapter env wt) host inst cx input w = (r, w')"
  then have "wasm_execute env wt host inst cx input w = (r, w')"
    by (simp add: WasmtimeRuntimeAdapter_def)
  then show "runtime_result_ok env cx r"
  proof (cases rule: wasm_execute_cases)
    case (ran guest_cx c g st)
    then show ?thesis
      using runtime_host.run_guest_inv[OF host url ran(3)] finish_run_ok[of env st wt g] by auto
  qed (simp add: early_failure_ok)
qed

interpretation in_process: accountable_adapter env "InProcessRuntimeAdapter ip" for env :: "'w HostEnv" and ip
  by unfold_locales
    (auto simp: InProcessRuntimeAdapter_def in_process_execute_def early_failure_ok runtime_result_ok_def
      account_ok_empty early_failure_def split: sum.splits prod.splits)

section \<open>Adapters that pass their context on\<close>

locale context_bound_adapter =
  fixes adapter :: "'w RuntimeAdapter"
  assumes agree: "hosts_agree cx h1 h2
    \<Longrightarrow> ra_execute adapter h1 inst cx input w = ra_execute adapter h2 inst cx input w"

interpretation wasm_context: context_bound_adapter "WasmtimeRuntimeAdapter env wt" for env :: "'w HostEnv" and wt
proof
  fix cx inst input and h1 h2 :: "'w RuntimeHost" and w :: 'w
  assume "hosts_agree cx h1 h2"
  then have "hosts_agree (ws_execution (WasmStoreState_new cx inst)) h1 h2"
    by (simp add: WasmStoreState_new_def)
  from run_guest_agree[OF this] show "ra_execute (WasmtimeRuntimeAdapter env wt) h1 inst cx input w
      = ra_execute (WasmtimeRuntimeAdapter env wt) h2 inst cx input w"
    by (simp add: WasmtimeRuntimeAdapter_def wasm_execute_def split: sum.splits)
qed

interpretation in_process_context: context_bound_adapter "InProcessRuntimeAdapter ip" for ip :: "'w InProcessRuntime"
  by unfold_locales (simp add: InProcessRuntimeAdapter_def in_process_execute_def)

section \<open>Adapters that keep their children\<close>

fun result_children :: "RuntimeFailure + RuntimeOutcome \<Rightarrow> ChildExecutionRecord list" where
  "result_children (Inl f) = rf_child_executions f"
| "result_children (Inr o1) = ro_child_executions o1"

locale child_keeping_adapter =
  fixes adapter :: "'w RuntimeAdapter"
  assumes children: "runtime_host_children host child_ok
    \<Longrightarrow> ra_execute adapter host inst cx input w = (r, w') \<Longrightarrow> list_all (child_ok cx) (result_children r)"

interpretation wasm_children: child_keeping_adapter "WasmtimeRuntimeAdapter env wt" for env :: "'w HostEnv" and wt
proof
  fix host :: "'w RuntimeHost" and child_ok inst cx input and w w' :: 'w and r
  assume host: "runtime_host_children host child_ok"
    and run: "ra_execute (WasmtimeRuntimeAdapter env wt) host inst cx input w = (r, w')"
  then have "wasm_execute env wt host inst cx input w = (r, w')"
    by (simp add: WasmtimeRuntimeAdapter_def)
  then show "list_all (child_ok cx) (result_children r)"
  proof (cases rule: wasm_execute_cases)
    case (ran guest_cx c g st)
    have "list_all (child_ok cx) (ws_child_executions st)"
      using runtime_host_children.run_guest_children[OF host ran(3)] by blast
    moreover have "result_children (finish_run env wt g st) = ws_child_executions st"
      using finish_run_Inl[of env wt g st] finish_run_Inr[of env wt g st]
      by (cases "finish_run env wt g st") (auto simp: store_failure_def)
    ultimately show ?thesis
      by (simp add: ran(4))
  qed (simp add: early_failure_def)
qed

interpretation in_process_children: child_keeping_adapter "InProcessRuntimeAdapter ip" for ip :: "'w InProcessRuntime"
  by unfold_locales
    (auto simp: InProcessRuntimeAdapter_def in_process_execute_def early_failure_def split: sum.splits)

section \<open>Nothing outside the surface reaches a guest\<close>

lemma supported_iff:
  "is_supported_wasm_inspect_capability i a \<longleftrightarrow> (i, a) \<in> set active_wasm_inspect_capability_surface"
  by (auto simp: is_supported_wasm_inspect_capability_def list_ex_iff)

lemma supported_projects:
  "is_supported_wasm_inspect_capability i a \<Longrightarrow> \<exists>j. project_capability_id_to_inspect_abi i = Some j"
  by (auto simp: supported_iff active_wasm_inspect_capability_surface_def)

lemma collect_results_Inr_iff:
  "collect_results rs = Inr xs \<longleftrightarrow> list_all2 (\<lambda>r x. r = Inr x) rs xs"
proof (induction rs arbitrary: xs)
  case (Cons r rs)
  then show ?case
    by (cases xs) (auto simp: res_bind_Inr_iff list_all2_Cons1)
qed auto

text \<open>A projected grant read back as a host grant.\<close>

fun inspect_id_view :: "InspectCapabilityId \<Rightarrow> CapabilityId" where
  "inspect_id_view IC_HttpRequest = HttpRequest"
| "inspect_id_view IC_ReadResource = ReadResource"
| "inspect_id_view IC_InvokeSkill = InvokeSkill"
| "inspect_id_view IC_EmitEvidence = EmitEvidence"
| "inspect_id_view IC_LogWrite = LogWrite"

fun inspect_constraints_view :: "InspectConstraints \<Rightarrow> CapabilityConstraints" where
  "inspect_constraints_view IN_None = CC_None"
| "inspect_constraints_view (IN_HttpRequest v) = CC_HttpRequest v"
| "inspect_constraints_view (IN_ReadResource v) = CC_ReadResource v"
| "inspect_constraints_view (IN_InvokeDependency v) = CC_InvokeDependency v"
| "inspect_constraints_view (IN_EmitEvidence v) = CC_EmitEvidence v"
| "inspect_constraints_view (IN_Log v) = CC_Log v"

definition inspect_grant_view :: "InspectGrant \<Rightarrow> GrantedCapability" where
  "inspect_grant_view g =
     \<lparr>g_id = inspect_id_view (ig_id g), g_access = ig_access g,
      g_constraints = inspect_constraints_view (ig_constraints g)\<rparr>"

lemma project_id_view: "project_capability_id_to_inspect_abi i = Some j \<Longrightarrow> inspect_id_view j = i"
  by (cases i) auto

lemma canonical_scope_allows:
  "matches_http_host (map_option canonicalize_host_scope hs) (map_option canonicalize_host_suffix_scope ss) h lit
   \<longleftrightarrow> matches_http_host hs ss h lit"
  by (cases hs; cases ss) (simp_all add: matches_http_host_def list_ex_iff image_image)

lemma destination_allowed_hosts:
  "destination_allowed (c\<lparr>allowed_hosts := hs, allowed_host_suffixes := ss\<rparr>) addrs = destination_allowed c addrs"
  unfolding destination_allowed_def by (intro ball_cong refl) (simp split: HttpDestinationClass.splits)

lemma project_constraints_allow:
  assumes "project_capability_constraints_to_inspect_abi i c = Inr v"
  shows "constraints_allow (inspect_constraints_view v) a \<longleftrightarrow> constraints_allow c a"
proof (cases c)
  case (CC_HttpRequest x)
  with assms show ?thesis
    by (cases a) (auto simp: project_http_request_constraints_to_inspect_abi_def http_allows_def
        canonical_scope_allows destination_allowed_hosts)
qed (use assms in auto)

lemma project_grant_Inr:
  assumes "project_granted_capability_to_inspect_abi g = Inr v"
  shows "is_supported_wasm_inspect_capability (g_id g) (g_access g)"
    "grant_allows (inspect_grant_view v) a \<longleftrightarrow> grant_allows g a"
  using assms
  by (auto simp: project_granted_capability_to_inspect_abi_def res_bind_Inr_iff inspect_grant_view_def
      grant_allows_def project_id_view project_constraints_allow split: if_splits option.splits)

lemma list_all2_Inr_ex:
  "list_all2 (\<lambda>r x. r = Inr x) (map f gs) vs \<Longrightarrow> (\<And>g v. g \<in> set gs \<Longrightarrow> f g = Inr v \<Longrightarrow> Q v \<longleftrightarrow> P g)
    \<Longrightarrow> (\<exists>v \<in> set vs. Q v) \<longleftrightarrow> (\<exists>g \<in> set gs. P g)"
proof (induction gs arbitrary: vs)
  case (Cons g gs)
  then obtain v us where vs: "vs = v # us" "f g = Inr v" "list_all2 (\<lambda>r x. r = Inr x) (map f gs) us"
    by (auto simp: list_all2_Cons1)
  have "Q v \<longleftrightarrow> P g"
    using Cons.prems(2) vs(2) by simp
  moreover have "(\<exists>v \<in> set us. Q v) \<longleftrightarrow> (\<exists>g \<in> set gs. P g)"
    using Cons.IH[OF vs(3)] Cons.prems(2) by simp
  ultimately show ?case
    using vs(1) by simp
qed simp

lemma project_context_Inr:
  assumes "project_execution_context_to_inspect_abi cx = Inr ix"
  shows "cx_mode cx = Inspect"
    "list_all2 (\<lambda>r v. r = Inr v) (map project_granted_capability_to_inspect_abi (grants (cx_granted_capabilities cx)))
       (ix_granted_capabilities ix)"
    "ix_budget ix = cx_budget cx"
  using assms
  by (auto simp: project_execution_context_to_inspect_abi_def res_bind_Inr_iff collect_results_Inr_iff
      split: if_splits)

section \<open>Claims\<close>

text \<open>The context a guest sees is faithful: projection into the inspect ABI succeeds only for inspect-mode
  contexts whose grants all lie in the supported surface, and the projected grants (with canonical host
  scopes) allow exactly the accesses that the host's grants allow.\<close>

theorem inspect_projection_faithful:
  assumes "project_execution_context_to_inspect_abi cx = Inr ix"
  shows "cx_mode cx = Inspect
    \<and> (\<forall>g \<in> set (grants (cx_granted_capabilities cx)). is_supported_wasm_inspect_capability (g_id g) (g_access g))
    \<and> (grants_allow \<lparr>grants = map inspect_grant_view (ix_granted_capabilities ix)\<rparr> a
         \<longleftrightarrow> grants_allow (cx_granted_capabilities cx) a)"
proof (intro conjI ballI)
  note ok = project_context_Inr[OF assms]
  show "cx_mode cx = Inspect"
    by (rule ok(1))
  show "is_supported_wasm_inspect_capability (g_id g) (g_access g)"
    if "g \<in> set (grants (cx_granted_capabilities cx))" for g
    using that ok(2) project_grant_Inr(1) by (fastforce simp: list_all2_conv_all_nth in_set_conv_nth)
  show "grants_allow \<lparr>grants = map inspect_grant_view (ix_granted_capabilities ix)\<rparr> a
      \<longleftrightarrow> grants_allow (cx_granted_capabilities cx) a"
    using list_all2_Inr_ex[OF ok(2), of "\<lambda>v. grant_allows (inspect_grant_view v) a" "\<lambda>g. grant_allows g a"]
      project_grant_Inr(2) by (simp add: grants_allow_def)
qed

definition sample_context :: "ExecutionMode \<Rightarrow> GrantedCapability list \<Rightarrow> ExecutionContext" where
  "sample_context mode gs =
     \<lparr>cx_execution_id = ''e1'', cx_trace_id = ''t1'', cx_tenant_id = ''acme'',
      cx_skill = \<lparr>rs_key = sample_key, rs_version = ''1.0.0'', rs_digest = ''sha256:aa''\<rparr>, cx_mode = mode,
      cx_input_sha256 = ''sha256:00'', cx_now_utc = None, cx_budget = Budget_default,
      cx_granted_capabilities = \<lparr>grants = gs\<rparr>\<rparr>"

abbreviation sample_log_grant :: GrantedCapability where
  "sample_log_grant \<equiv> \<lparr>g_id = LogWrite, g_access = Write, g_constraints = CC_Log \<lparr>levels = Some [Info]\<rparr>\<rparr>"

theorem inspect_projection_faithful_witness:
  "\<exists>ix. project_execution_context_to_inspect_abi (sample_context Inspect [sample_log_grant]) = Inr ix
     \<and> grants_allow \<lparr>grants = map inspect_grant_view (ix_granted_capabilities ix)\<rparr> (Acc_Log Info)"
proof -
  obtain ix where ix: "project_execution_context_to_inspect_abi (sample_context Inspect [sample_log_grant]) = Inr ix"
    by (simp add: project_execution_context_to_inspect_abi_def sample_context_def
        project_granted_capability_to_inspect_abi_def is_supported_wasm_inspect_capability_def
        active_wasm_inspect_capability_surface_def)
  have "grants_allow (cx_granted_capabilities (sample_context Inspect [sample_log_grant])) (Acc_Log Info)"
    by code_simp
  with inspect_projection_faithful[OF ix] ix show ?thesis
    by blast
qed

end
