(* ===== verification/Guild_Admission.thy ===== *)
theory Guild_Admission
  imports Guild_Policy Guild_Adapter
begin

text \<open>
  What the runner checks before it starts a runtime, and what it derives from the envelope
  (\<open>crates/guild-runner/src/lib.rs\<close>): validation of manifest, mode, runtime, surface, reference, policy
  decision and grants in the source's order, the canonical input digest, contexts, receipts and
  provenance.
\<close>

section \<open>Validation\<close>

fun ExecutionMode_debug :: "ExecutionMode \<Rightarrow> string" where
  "ExecutionMode_debug Inspect = ''Inspect''"
| "ExecutionMode_debug Plan = ''Plan''"
| "ExecutionMode_debug Apply = ''Apply''"

fun RuntimeKind_debug :: "RuntimeKind \<Rightarrow> string" where
  "RuntimeKind_debug WasmComponent = ''WasmComponent''"
| "RuntimeKind_debug InProcess = ''InProcess''"
| "RuntimeKind_debug Process = ''Process''"
| "RuntimeKind_debug Container = ''Container''"

definition ManifestValidationError_json :: "ManifestValidationError \<Rightarrow> json" where
  "ManifestValidationError_json e = json_obj
     [(''path'', JString (err_path e)), (''message'', JString (err_message e))]"

definition validate_manifest :: "SkillManifest \<Rightarrow> ExecutionError + unit" where
  "validate_manifest m =
     map_err (\<lambda>errors. with_phase Ph_Validation (with_detail (list_json ManifestValidationError_json errors)
         (ExecutionError_new ''invalid-manifest'' ''manifest validation failed'')))
       (SkillManifest_validate m)"

definition validate_request :: "SkillManifest \<Rightarrow> ResolvedExecutionEnvelope \<Rightarrow> ExecutionError + unit" where
  "validate_request m envl =
     res_bind (validate_manifest m) (\<lambda>_.
     if \<not> supports_mode m (cr_mode (env_request envl))
     then Inl (with_phase Ph_Mode (ExecutionError_new ''unsupported-mode''
            (''skill '' @ sk_namespace (m_key m) @ ''.'' @ sk_name (m_key m) @ '' does not support ''
             @ ExecutionMode_debug (cr_mode (env_request envl)) @ '' mode'')))
     else if cr_mode (env_request envl) = Apply
     then Inl (with_phase Ph_Mode (ExecutionError_new ''apply-disabled''
            ''apply mode remains globally gated until audit and approval paths exist''))
     else Inr ())"

definition validate_runtime :: "RuntimeKind \<Rightarrow> InstalledSkill \<Rightarrow> ExecutionError + unit" where
  "validate_runtime kind i =
     (if runtime_kind (runtime (manifest i)) \<noteq> kind
      then Inl (with_phase Ph_Validation (with_detail
             (json_obj [(''expected'', JString (RuntimeKind_debug kind)),
                (''actual'', JString (RuntimeKind_debug (runtime_kind (runtime (manifest i)))))])
             (ExecutionError_new ''unsupported-runtime''
                ''runner runtime adapter does not support the skill runtime kind'')))
      else if kind = WasmComponent \<and> guest_abi_version (runtime (manifest i)) \<noteq> Abi_GuildSkillInspectV1
      then Inl (with_phase Ph_Validation (with_detail
             (json_obj [(''manifest_entrypoint'', JString (entrypoint (runtime (manifest i)))),
                (''manifest_guest_abi_version'', AbiVersion_json (guest_abi_version (runtime (manifest i)))),
                (''expected_guest_abi_version'', AbiVersion_json Abi_GuildSkillInspectV1)])
             (ExecutionError_new ''component-abi-mismatch''
                ''Wasm inspect runtime requires guest_abi_version = guild-skill-inspect-v1'')))
      else Inr ())"

definition unsupported_capabilities :: "InstalledSkill \<Rightarrow> CapabilityGrantSet \<Rightarrow> json list" where
  "unsupported_capabilities i gs =
     map (\<lambda>r. capability_surface_entry ''manifest'' (req_id r) (req_access r) (req_constraints r) (Some (required r)))
       (filter (\<lambda>r. \<not> is_supported_wasm_inspect_capability (req_id r) (req_access r)) (capabilities (manifest i)))
     @ map (\<lambda>g. capability_surface_entry ''grant'' (g_id g) (g_access g) (g_constraints g) None)
       (filter (\<lambda>g. \<not> is_supported_wasm_inspect_capability (g_id g) (g_access g)) (grants gs))"

definition validate_runtime_surface ::
  "RuntimeKind \<Rightarrow> InstalledSkill \<Rightarrow> CapabilityGrantSet \<Rightarrow> ExecutionError + unit" where
  "validate_runtime_surface kind i gs =
     (if kind \<noteq> WasmComponent \<or> unsupported_capabilities i gs = [] then Inr ()
      else Inl (unsupported_capability_runtime_surface_error Ph_Validation ''runtime-surface-validation''
                  (unsupported_capabilities i gs)))"

definition validate_resolved_ref :: "InstalledSkill \<Rightarrow> ResolvedExecutionEnvelope \<Rightarrow> ExecutionError + unit" where
  "validate_resolved_ref i envl =
     (if resolved_ref i \<noteq> env_resolved_skill envl
      then Inl (with_phase Ph_Validation (with_detail
             (json_obj [(''request'', ResolvedSkillRef_json (env_resolved_skill envl)),
                        (''installed'', ResolvedSkillRef_json (resolved_ref i))])
             (ExecutionError_new ''resolved-skill-mismatch''
                ''execution request did not match the resolved installed skill'')))
      else Inr ())"

definition validate_policy_decision :: "ResolvedExecutionEnvelope \<Rightarrow> ExecutionError + unit" where
  "validate_policy_decision envl =
     (let d = env_policy_decision envl
      in if outcome d = PD_Rejected
         then Inl (with_phase Ph_Grant (with_detail
                (json_obj [(''profile_name'', JString (pd_profile_name d)),
                   (''trust_tier'', LocalTrustTier_json (pd_trust_tier d)),
                   (''verification_state'', InstalledVerificationState_json (pd_verification_state d)),
                   (''reasons'', list_json PolicyReason_json (reasons d)), (''detail'', json_opt id (pd_detail d))])
                (ExecutionError_new ''policy-denied'' (pd_summary d))))
         else Inr ())"

definition validate_grants :: "InstalledSkill \<Rightarrow> CapabilityGrantSet \<Rightarrow> ExecutionError + unit" where
  "validate_grants i gs =
     (let invalid = invalid_capability_grants gs; missing = missing_required_capabilities i gs
      in if invalid \<noteq> []
         then Inl (with_phase Ph_Grant (with_detail (json_obj [(''invalid'', JArray invalid)])
                (ExecutionError_new ''capability-grant-invalid''
                   ''execution grants contained invalid capability constraints'')))
         else if missing \<noteq> []
         then Inl (with_phase Ph_Grant (with_detail (json_obj [(''missing'', JArray missing)])
                (ExecutionError_new ''capability-mismatch''
                   ''execution grants did not satisfy the skill's required capabilities'')))
         else Inr ())"

definition validate_execution ::
  "RuntimeKind \<Rightarrow> InstalledSkill \<Rightarrow> ResolvedExecutionEnvelope \<Rightarrow> ExecutionError + unit" where
  "validate_execution kind i envl =
     res_bind (validate_manifest (manifest i)) (\<lambda>_.
     res_bind (validate_request (manifest i) envl) (\<lambda>_.
     res_bind (validate_runtime kind i) (\<lambda>_.
     res_bind (validate_runtime_surface kind i (env_granted_capabilities envl)) (\<lambda>_.
     res_bind (validate_resolved_ref i envl) (\<lambda>_.
     res_bind (validate_policy_decision envl) (\<lambda>_.
     validate_grants i (env_granted_capabilities envl)))))))"

section \<open>The input digest\<close>

text \<open>
  \<open>write_canonical_json\<close> appends to a buffer; here it returns the text. Objects are written with
  their entries sorted by key.
\<close>

fun comma_join :: "string list \<Rightarrow> string" where
  "comma_join [] = []"
| "comma_join [s] = s"
| "comma_join (s # ss) = s @ '','' @ comma_join ss"

fun write_canonical_json :: "'w HostEnv \<Rightarrow> json \<Rightarrow> string" where
  "write_canonical_json env (JArray items) = ''['' @ comma_join (map (write_canonical_json env) items) @ '']''"
| "write_canonical_json env (JObject kvs) =
     ''{'' @ comma_join (map (\<lambda>(k, text). he_json_text env (JString k) @ '':'' @ text)
       (sort_key fst (map (\<lambda>kv. (fst kv, write_canonical_json env (snd kv))) kvs))) @ ''}''"
| "write_canonical_json env v = he_json_text env v"

definition hash_json :: "'w HostEnv \<Rightarrow> json \<Rightarrow> string" where
  "hash_json env v = ''sha256:'' @ he_sha256_hex env (write_canonical_json env v)"

section \<open>Contexts, receipts and errors\<close>

definition build_context :: "'w HostEnv \<Rightarrow> ResolvedExecutionEnvelope \<Rightarrow> string \<Rightarrow> string \<Rightarrow> ExecutionContext" where
  "build_context env envl execution_id now_utc =
     \<lparr>cx_execution_id = execution_id, cx_trace_id = cr_trace_id (env_request envl),
      cx_tenant_id = cr_tenant_id (env_request envl), cx_skill = env_resolved_skill envl,
      cx_mode = cr_mode (env_request envl), cx_input_sha256 = hash_json env (cr_input (env_request envl)),
      cx_now_utc = Some now_utc, cx_budget = cr_budget (env_request envl),
      cx_granted_capabilities = env_granted_capabilities envl\<rparr>"

definition build_provenance :: "InstalledSkill \<Rightarrow> ResolvedExecutionEnvelope \<Rightarrow> string \<Rightarrow> string \<Rightarrow> Provenance" where
  "build_provenance i envl started finished =
     \<lparr>prov_resolved_skill = env_resolved_skill envl, prov_abi = guest_abi_version (runtime (manifest i)),
      prov_dependency_digests = map (\<lambda>d. rs_digest (dep_skill d)) (dependencies (manifest i)),
      prov_started_at_utc = Some started, prov_finished_at_utc = Some finished\<rparr>"

definition build_receipt :: "string \<Rightarrow> string \<Rightarrow> ExecutionStatus \<Rightarrow> ExecutionReceipt" where
  "build_receipt execution_id trace_id status =
     \<lparr>rcpt_execution_id = execution_id, rcpt_uri = execution_resource_uri execution_id,
      rcpt_trace_id = trace_id, rcpt_status = status\<rparr>"

definition saturating_u16_len :: "usize \<Rightarrow> u16" where
  "saturating_u16_len n = (if n < 2 ^ 16 then of_nat n else u16_max)"

definition status_from_error :: "ExecutionError \<Rightarrow> ExecutionStatus" where
  "status_from_error e =
     (if is_unsupported_runtime_surface_error e then Rejected
      else if unwrap_or Ph_RuntimeExec (xe_phase e) \<in> {Ph_Validation, Ph_Grant, Ph_Mode} then Rejected
      else Failed)"

definition termination_from_error :: "ExecutionError \<Rightarrow> TerminationDetail" where
  "termination_from_error e =
     \<lparr>td_phase = unwrap_or Ph_RuntimeExec (xe_phase e), td_code = xe_code e, td_message = xe_message e,
      td_retryable = xe_retryable e, td_detail = xe_detail e\<rparr>"

definition derive_child_budget :: "Budget \<Rightarrow> Budget" where
  "derive_child_budget b = b\<lparr>max_child_executions := saturating_sub (max_child_executions b) 1\<rparr>"

section \<open>What admission establishes\<close>

lemma invalid_grants_Nil: "invalid_capability_grants gs = [] \<longleftrightarrow> list_all (\<lambda>g. GrantedCapability_validate g = []) (grants gs)"
  unfolding invalid_capability_grants_def by (rule enum_errors_Nil_set) simp

lemma missing_Nil:
  "missing_required_capabilities i gs = [] \<longleftrightarrow>
     (\<forall>r \<in> set (capabilities (manifest i)). required r \<longrightarrow> grants_cover_requirement gs r)"
  by (auto simp: missing_required_capabilities_def filter_empty_conv)

lemma unsupported_Nil:
  "unsupported_capabilities i gs = [] \<longleftrightarrow>
     (\<forall>r \<in> set (capabilities (manifest i)). is_supported_wasm_inspect_capability (req_id r) (req_access r))
     \<and> (\<forall>g \<in> set (grants gs). is_supported_wasm_inspect_capability (g_id g) (g_access g))"
  by (auto simp: unsupported_capabilities_def filter_empty_conv)

lemma res_bind_unit_iff: "res_bind r (\<lambda>_. s) = Inr y \<longleftrightarrow> r = Inr () \<and> s = Inr y"
  by (cases r) auto

lemma validate_execution_iff:
  "validate_execution kind i envl = Inr () \<longleftrightarrow>
     SkillManifest_validate (manifest i) = Inr ()
     \<and> supports_mode (manifest i) (cr_mode (env_request envl)) \<and> cr_mode (env_request envl) \<noteq> Apply
     \<and> runtime_kind (runtime (manifest i)) = kind
     \<and> (kind = WasmComponent \<longrightarrow> guest_abi_version (runtime (manifest i)) = Abi_GuildSkillInspectV1
          \<and> unsupported_capabilities i (env_granted_capabilities envl) = [])
     \<and> resolved_ref i = env_resolved_skill envl
     \<and> outcome (env_policy_decision envl) \<noteq> PD_Rejected
     \<and> invalid_capability_grants (env_granted_capabilities envl) = []
     \<and> missing_required_capabilities i (env_granted_capabilities envl) = []"
proof -
  have m: "validate_manifest (manifest i) = Inr () \<longleftrightarrow> SkillManifest_validate (manifest i) = Inr ()"
    by (simp add: validate_manifest_def map_err_def split: sum.splits)
  have r: "validate_request (manifest i) envl = Inr () \<longleftrightarrow> SkillManifest_validate (manifest i) = Inr ()
      \<and> supports_mode (manifest i) (cr_mode (env_request envl)) \<and> cr_mode (env_request envl) \<noteq> Apply"
    by (auto simp: validate_request_def res_bind_unit_iff m split: if_splits)
  have v: "validate_runtime kind i = Inr () \<longleftrightarrow> runtime_kind (runtime (manifest i)) = kind
      \<and> (kind = WasmComponent \<longrightarrow> guest_abi_version (runtime (manifest i)) = Abi_GuildSkillInspectV1)"
    by (simp add: validate_runtime_def)
  show ?thesis
    unfolding validate_execution_def res_bind_unit_iff m r v
    by (auto simp: validate_runtime_surface_def validate_resolved_ref_def validate_policy_decision_def
        validate_grants_def Let_def split: if_splits)
qed

lemma validate_execution_phase:
  "validate_execution kind i envl = Inl e \<Longrightarrow> status_from_error e = Rejected \<and> xe_receipt e = None"
  unfolding validate_execution_def
  by (auto simp: res_bind_def validate_manifest_def validate_request_def validate_runtime_def
      validate_runtime_surface_def validate_resolved_ref_def validate_policy_decision_def validate_grants_def
      map_err_def Let_def status_from_error_def with_phase_def with_detail_def ExecutionError_new_def
      unsupported_capability_runtime_surface_error_def unsupported_runtime_surface_error_def
      split: sum.splits if_splits)

section \<open>Claims\<close>

text \<open>C10: Validation admits an envelope exactly when the manifest is valid and supports the requested mode, which
  is not \<open>apply\<close>, the runtime is of the manifest's kind, a component runs under the inspect ABI and
  neither declares nor receives a capability outside the supported surface, the envelope is for the
  installed skill, the policy did not reject it, every grant is valid and the grants cover every
  required capability.\<close>

theorem admission_exact:
  "validate_execution kind i envl = Inr () \<longleftrightarrow>
     SkillManifest_validate (manifest i) = Inr ()
     \<and> supports_mode (manifest i) (cr_mode (env_request envl)) \<and> cr_mode (env_request envl) \<noteq> Apply
     \<and> runtime_kind (runtime (manifest i)) = kind
     \<and> (kind = WasmComponent \<longrightarrow> guest_abi_version (runtime (manifest i)) = Abi_GuildSkillInspectV1
          \<and> list_all (\<lambda>r. is_supported_wasm_inspect_capability (req_id r) (req_access r)) (capabilities (manifest i))
          \<and> list_all (\<lambda>g. is_supported_wasm_inspect_capability (g_id g) (g_access g))
              (grants (env_granted_capabilities envl)))
     \<and> resolved_ref i = env_resolved_skill envl
     \<and> outcome (env_policy_decision envl) \<noteq> PD_Rejected
     \<and> list_all (\<lambda>g. GrantedCapability_validate g = []) (grants (env_granted_capabilities envl))
     \<and> list_all (\<lambda>r. required r \<longrightarrow> grants_cover_requirement (env_granted_capabilities envl) r)
         (capabilities (manifest i))"
  unfolding validate_execution_iff unsupported_Nil invalid_grants_Nil missing_Nil by (simp add: list_all_iff)

definition sample_envelope :: ResolvedExecutionEnvelope where
  "sample_envelope = \<lparr>env_request = sample_caller, env_resolved_skill = resolved_ref (hd sample_cycle),
     env_granted_capabilities = \<lparr>grants = [sample_log_grant,
        \<lparr>g_id = InvokeSkill, g_access = Invoke, g_constraints = CC_None\<rparr>]\<rparr>,
     env_policy_decision = \<lparr>outcome = Allowed, pd_summary = [], pd_profile_name = ''default'', pd_trust_tier = LocalDev,
       pd_verification_state = LocalSource, reasons = [], pd_detail = None\<rparr>, env_parent_execution_id = None\<rparr>"

theorem admission_exact_witness:
  "validate_execution WasmComponent (hd sample_cycle) sample_envelope = Inr ()
   \<and> SkillManifest_validate (manifest (hd sample_cycle)) = Inr ()
   \<and> list_all (\<lambda>g. is_supported_wasm_inspect_capability (g_id g) (g_access g))
       (grants (env_granted_capabilities sample_envelope))"
proof -
  have "validate_execution WasmComponent (hd sample_cycle) sample_envelope = Inr ()"
    by code_simp
  then show ?thesis
    using admission_exact[of WasmComponent "hd sample_cycle" sample_envelope] by blast
qed

end
