(* ===== verification/Guild_Replay.thy ===== *)
theory Guild_Replay
  imports Guild_Host "HOL-Library.Multiset"
begin

text \<open>
  How an authorised HTTP request is carried out (\<open>crates/guild-runner/src/lib.rs\<close>): over the live
  transport, or against a catalog of replay fixtures that never touches the network. The Wasmtime
  HTTP client is a parameter: it refuses a request, or answers with a status line and body frames.
\<close>

section \<open>Fixtures and catalogs\<close>

record HttpReplayFixture =
  fx_method :: HttpMethod
  fx_url :: string
  fx_response_status :: u16
  fx_response_content_type :: "string option"
  fx_response_body :: string
  fx_redirect_location :: "string option"
  fx_resolution_binding :: "HttpResolutionBinding option"

record HttpReplayCatalog =
  cat_fixtures :: "string \<rightharpoonup> HttpReplayFixture"
  cat_digest :: string

fun http_method_fixture_label :: "HttpMethod \<Rightarrow> string" where
  "http_method_fixture_label Get = ''get''"
| "http_method_fixture_label Head = ''head''"

definition http_replay_fixture_key :: "HttpMethod \<Rightarrow> string \<Rightarrow> string" where
  "http_replay_fixture_key m url = http_method_fixture_label m @ '' '' @ url"

definition sha256_bytes :: "'w HostEnv \<Rightarrow> string \<Rightarrow> string" where
  "sha256_bytes env bytes = ''sha256:'' @ he_sha256_hex env bytes"

definition http_replay_catalog_digest :: "'w HostEnv \<Rightarrow> (string \<times> HttpReplayFixture) list \<Rightarrow> string" where
  "http_replay_catalog_digest env entries =
     sha256_bytes env (he_json_text env (JArray (map (\<lambda>(key, f). json_obj
       [(''request_key'', JString key), (''method'', HttpMethod_json (fx_method f)), (''url'', JString (fx_url f)),
        (''response_status'', json_word (fx_response_status f)),
        (''response_content_type'', json_opt JString (fx_response_content_type f)),
        (''response_body_digest'', JString (sha256_bytes env (fx_response_body f))),
        (''redirect_location'', json_opt JString (fx_redirect_location f)),
        (''resolution_binding'', json_opt HttpResolutionBinding_json (fx_resolution_binding f))]) entries)))"

text \<open>The extra detail of the source is always an object; its entries overwrite.\<close>

definition http_replay_fixture_error :: "string \<Rightarrow> HttpReplayFixture \<Rightarrow> (string \<times> json) list \<Rightarrow> ExecutionError" where
  "http_replay_fixture_error msg f extra =
     with_phase Ph_Validation (with_detail
       (json_obj ([(''method'', HttpMethod_json (fx_method f)), (''url'', JString (fx_url f))] @ extra))
       (ExecutionError_new ''http-replay-fixture-invalid'' msg))"

definition validate_http_replay_fixture :: "'w HostEnv \<Rightarrow> HttpReplayFixture \<Rightarrow> ExecutionError + unit" where
  "validate_http_replay_fixture env f =
     res_bind (map_err (into_execution_error Ph_Validation)
       (parse_http_request (he_url_parse env)
          \<lparr>hr_method = fx_method f, hr_url = fx_url f, hr_timeout_ms = None\<rparr>)) (\<lambda>p.
     res_bind (map_err (\<lambda>e. with_phase Ph_Validation (with_detail
         (json_obj [(''url'', JString (fx_url f)), (''error'', JString e)])
         (ExecutionError_new ''http-replay-fixture-invalid''
            ''proof-only HTTP replay fixtures must use valid absolute URLs'')))
       (he_url_parse env (fx_url f))) (\<lambda>url.
     if ip_literal p \<noteq> None
     then (if fx_resolution_binding f \<noteq> None
           then Inl (http_replay_fixture_error
                  ''IP-literal proof-only HTTP replay fixtures must not carry hostname resolution bindings'' f [])
           else Inr ())
     else if ph_host p \<noteq> ''localhost''
     then Inl (http_replay_fixture_error
            ''proof-only HTTP hostname replay fixtures currently support only exact localhost'' f
            [(''host'', JString (ph_host p))])
     else if fx_method f \<notin> {Get, Head}
     then Inl (http_replay_fixture_error
            ''proof-only HTTP hostname replay fixtures currently support only GET and HEAD requests'' f [])
     else if url_port url = None \<and> ph_port p \<noteq> 80
     then Inl (http_replay_fixture_error
            ''proof-only HTTP hostname replay fixtures currently support only an explicit port or the implicit default HTTP port''
            f [])
     else if is_redirect_status (fx_response_status f) \<or> fx_redirect_location f \<noteq> None
     then Inl (http_replay_fixture_error
            ''proof-only HTTP hostname replay fixtures currently do not support redirects'' f
            [(''status'', json_word (fx_response_status f))])
     else
       case fx_resolution_binding f of
         None \<Rightarrow> Inl (http_replay_fixture_error
           ''proof-only HTTP hostname replay fixtures require a deterministic resolution binding'' f [])
       | Some b \<Rightarrow>
           res_bind (map_err (\<lambda>msg. http_replay_fixture_error msg f
               [(''resolution_binding'', HttpResolutionBinding_json b)])
             (validate_http_resolution_binding (he_ip_error env) b p)) (\<lambda>_.
           if \<not> rb_loopback_only b
           then Inl (http_replay_fixture_error
                  ''proof-only HTTP hostname replay fixtures require loopback-only resolution bindings'' f
                  [(''resolution_binding'', HttpResolutionBinding_json b)])
           else Inr ())))"

fun add_fixtures ::
  "'w HostEnv \<Rightarrow> HttpReplayFixture list \<Rightarrow> (string \<rightharpoonup> HttpReplayFixture) \<Rightarrow> (string \<times> HttpReplayFixture) list
     \<Rightarrow> ExecutionError + (string \<rightharpoonup> HttpReplayFixture) \<times> (string \<times> HttpReplayFixture) list" where
  "add_fixtures env [] m ordered = Inr (m, ordered)"
| "add_fixtures env (f # fs) m ordered =
     res_bind (validate_http_replay_fixture env f) (\<lambda>_.
     if fx_method f = Head \<and> fx_response_body f \<noteq> []
     then Inl (with_phase Ph_Validation (with_detail
            (json_obj [(''method'', HttpMethod_json (fx_method f)), (''url'', JString (fx_url f)),
               (''response_body_bytes'', json_nat (length (fx_response_body f)))])
            (ExecutionError_new ''http-replay-fixture-invalid''
               ''HEAD proof-only HTTP replay fixtures must use an empty response body'')))
     else
       let key = http_replay_fixture_key (fx_method f) (fx_url f)
       in if m key \<noteq> None
          then Inl (with_phase Ph_Validation (with_detail
                 (json_obj [(''method'', HttpMethod_json (fx_method f)), (''url'', JString (fx_url f))])
                 (ExecutionError_new ''http-replay-fixture-duplicate'' ''duplicate proof-only HTTP replay fixture'')))
          else add_fixtures env fs (m(key \<mapsto> f)) (ordered @ [(key, f)]))"

definition from_fixtures :: "'w HostEnv \<Rightarrow> HttpReplayFixture list \<Rightarrow> ExecutionError + HttpReplayCatalog" where
  "from_fixtures env fs =
     res_bind (add_fixtures env fs (\<lambda>_. None) []) (\<lambda>(m, ordered).
     Inr \<lparr>cat_fixtures = m, cat_digest = http_replay_catalog_digest env (sort_key fst ordered)\<rparr>)"

definition cat_lookup :: "HttpReplayCatalog \<Rightarrow> HttpRequestMsg \<Rightarrow> HttpReplayFixture option" where
  "cat_lookup cat req = cat_fixtures cat (http_replay_fixture_key (hr_method req) (hr_url req))"

definition lookup_resolution_binding :: "HttpReplayCatalog \<Rightarrow> HttpRequestMsg \<Rightarrow> HttpResolutionBinding option" where
  "lookup_resolution_binding cat req = Option.bind (cat_lookup cat req) fx_resolution_binding"

section \<open>Replay\<close>

definition replay_error :: "string \<Rightarrow> string \<Rightarrow> (string \<times> json) list \<Rightarrow> SkillError" where
  "replay_error code msg detail =
     \<lparr>se_code = code, se_message = msg, se_retryable = False, se_detail = Some (json_obj detail)\<rparr>"

definition replay_destination :: "ParsedHttpRequest \<Rightarrow> Url \<Rightarrow> HttpRequestMsg \<Rightarrow> SkillError + bool" where
  "replay_destination p url req =
     res_bind (case ip_literal p of
         Some ip \<Rightarrow>
           if classify_destination_ip ip \<noteq> Loopback
           then Inl (replay_error ''http-replay-request-unsupported''
                  ''proof-only HTTP replay requires a loopback IP-literal destination''
                  [(''url'', JString (hr_url req)), (''host'', JString (ph_host p))])
           else Inr True
       | None \<Rightarrow> Inr False) (\<lambda>literal.
     if \<not> literal
        \<and> (ph_host p \<noteq> ''localhost'' \<or> hr_method req \<notin> {Get, Head} \<or> (url_port url = None \<and> ph_port p \<noteq> 80))
     then Inl (replay_error ''http-replay-request-unsupported''
            ''proof-only HTTP replay hostname support is limited to localhost GET and HEAD requests with either an explicit port or the implicit default HTTP port, always with deterministic resolution bindings''
            [(''url'', JString (hr_url req)), (''host'', JString (ph_host p)),
             (''method'', HttpMethod_json (hr_method req))])
     else Inr literal)"

definition replay_fixture_binding ::
  "'w HostEnv \<Rightarrow> ParsedHttpRequest \<Rightarrow> HttpRequestMsg \<Rightarrow> HttpReplayFixture \<Rightarrow> SkillError + unit" where
  "replay_fixture_binding env p req f =
     (case fx_resolution_binding f of
        None \<Rightarrow> Inl (replay_error ''http-replay-request-unsupported''
          ''proof-only HTTP replay hostname requests require a deterministic resolution binding''
          [(''url'', JString (hr_url req)), (''method'', HttpMethod_json (hr_method req))])
      | Some b \<Rightarrow>
          map_err (\<lambda>msg. replay_error ''http-replay-request-unsupported'' msg
              [(''url'', JString (hr_url req)), (''method'', HttpMethod_json (hr_method req)),
               (''resolution_binding'', HttpResolutionBinding_json b)])
            (validate_http_resolution_binding (he_ip_error env) b p))"

definition replay_response ::
  "HttpRequestMsg \<Rightarrow> u64 \<Rightarrow> HttpReplayFixture \<Rightarrow> SkillError + HostHttpResponse" where
  "replay_response req limit f =
     (let is_redirect = is_redirect_status (fx_response_status f)
      in if is_redirect \<and> fx_redirect_location f = None
         then Inl (replay_error ''http-replay-fixture-invalid''
                ''redirect replay fixtures must include a redirect_location''
                [(''method'', HttpMethod_json (fx_method f)), (''url'', JString (fx_url f)),
                 (''status'', json_word (fx_response_status f))])
         else if \<not> is_redirect \<and> u64_of_usize (length (fx_response_body f)) > limit
         then Inl (replay_error ''http-request-response-too-large''
                ''outbound HTTP response exceeded the configured max_response_bytes limit''
                [(''url'', JString (hr_url req)), (''method'', HttpMethod_json (hr_method req)),
                 (''max_response_bytes'', json_word limit), (''transport'', JString ''proof-only-replay''),
                 (''fixture_response_bytes'', json_nat (length (fx_response_body f)))])
         else Inr \<lparr>hh_response =
                  \<lparr>resp_url = hr_url req, resp_status = fx_response_status f,
                   resp_content_type = fx_response_content_type f,
                   resp_body = (if is_redirect then [] else fx_response_body f)\<rparr>,
                hh_redirect_location = fx_redirect_location f\<rparr>)"

definition execute_http_request_via_replay ::
  "'w HostEnv \<Rightarrow> HttpReplayCatalog \<Rightarrow> HttpRequestMsg \<Rightarrow> u64 \<Rightarrow> SkillError + HostHttpResponse" where
  "execute_http_request_via_replay env cat req limit =
     res_bind (map_err into_skill_error (parse_http_request (he_url_parse env) req)) (\<lambda>p.
     res_bind (map_err (\<lambda>e. replay_error ''http-replay-request-invalid''
         ''proof-only HTTP replay requires a valid absolute URL''
         [(''url'', JString (hr_url req)), (''error'', JString e)]) (he_url_parse env (hr_url req))) (\<lambda>url.
     if hr_method req \<notin> {Get, Head}
     then Inl (replay_error ''http-replay-request-unsupported''
            ''proof-only HTTP replay currently supports GET and HEAD requests only''
            [(''method'', HttpMethod_json (hr_method req)), (''url'', JString (hr_url req))])
     else if ph_scheme p \<noteq> Http
     then Inl (replay_error ''http-replay-request-unsupported''
            ''proof-only HTTP replay currently supports only http URLs''
            [(''url'', JString (hr_url req)), (''scheme'', HttpScheme_json (ph_scheme p))])
     else if url_query url \<noteq> None \<or> url_fragment url \<noteq> None
     then Inl (replay_error ''http-replay-request-unsupported''
            ''proof-only HTTP replay does not support query or fragment components''
            [(''url'', JString (hr_url req))])
     else
       res_bind (replay_destination p url req) (\<lambda>literal.
       res_bind (ok_or (replay_error ''http-replay-fixture-missing''
           ''proof-only HTTP replay did not find a matching fixture''
           [(''method'', HttpMethod_json (hr_method req)), (''url'', JString (hr_url req))])
         (cat_lookup cat req)) (\<lambda>f.
       res_bind (if literal then Inr () else replay_fixture_binding env p req f) (\<lambda>_.
       replay_response req limit f)))))"

section \<open>The live transport\<close>

datatype WasiHttpErrorCode =
    ConnectionTimeout | ConnectionReadTimeout | HttpResponseTimeout
  | HttpResponseBodySize "u64 option" | HttpRequestUriInvalid | HttpProtocolError
  | OtherHttpError string

text \<open>
  A body frame is data, something else (trailers), an error of the body, or late: nothing arrived
  within the timeout between bytes.
\<close>

datatype BodyFrame = Frame_Data string | Frame_Other | Frame_Error WasiHttpErrorCode | Frame_Late

record IncomingResponse =
  in_status :: u16
  in_content_type :: "string option"
  in_location :: "string option"
  in_frames :: "BodyFrame list"

record 'w Transport =
  tr_build_error :: "HttpRequestMsg \<Rightarrow> string option"
  tr_send :: "HttpRequestMsg \<Rightarrow> bool \<Rightarrow> u64 \<Rightarrow> 'w \<Rightarrow> (WasiHttpErrorCode + IncomingResponse) \<times> 'w"
  tr_error_debug :: "WasiHttpErrorCode \<Rightarrow> string"

definition skill_error_from_wasi_http_error ::
  "'w Transport \<Rightarrow> WasiHttpErrorCode \<Rightarrow> HttpRequestMsg \<Rightarrow> u64 \<Rightarrow> SkillError" where
  "skill_error_from_wasi_http_error tr e req limit =
     (let (code, msg, retry) =
        (case e of
           ConnectionTimeout \<Rightarrow> (''http-request-timeout'', ''outbound HTTP request exceeded the host timeout'', True)
         | ConnectionReadTimeout \<Rightarrow> (''http-request-timeout'', ''outbound HTTP request exceeded the host timeout'', True)
         | HttpResponseTimeout \<Rightarrow> (''http-request-timeout'', ''outbound HTTP request exceeded the host timeout'', True)
         | HttpResponseBodySize _ \<Rightarrow> (''http-request-response-too-large'',
             ''outbound HTTP response exceeded the configured max_response_bytes limit'', False)
         | HttpRequestUriInvalid \<Rightarrow> (''http-request-build-failed'',
             ''host could not construct a valid outbound HTTP request'', False)
         | HttpProtocolError \<Rightarrow> (''http-request-build-failed'',
             ''host could not construct a valid outbound HTTP request'', False)
         | OtherHttpError _ \<Rightarrow> (''http-request-failed'', ''host failed to complete the outbound HTTP request'', False))
      in \<lparr>se_code = code, se_message = msg, se_retryable = retry, se_detail = Some (json_obj
            [(''url'', JString (hr_url req)), (''method'', HttpMethod_json (hr_method req)),
             (''max_response_bytes'', json_word limit), (''error'', JString (tr_error_debug tr e))])\<rparr>)"

fun read_body :: "u64 \<Rightarrow> BodyFrame list \<Rightarrow> string \<Rightarrow> WasiHttpErrorCode + string" where
  "read_body limit [] bytes = Inr bytes"
| "read_body limit (Frame_Late # _) bytes = Inl HttpResponseTimeout"
| "read_body limit (Frame_Error e # _) bytes = Inl e"
| "read_body limit (Frame_Other # frames) bytes = read_body limit frames bytes"
| "read_body limit (Frame_Data d # frames) bytes =
     (if saturating_add (u64_of_usize (length bytes)) (u64_of_usize (length d)) > limit
      then Inl (HttpResponseBodySize (Some limit))
      else read_body limit frames (bytes @ d))"

definition execute_http_request ::
  "'w HostEnv \<Rightarrow> 'w Transport \<Rightarrow> HttpRequestMsg \<Rightarrow> u64 \<Rightarrow> u64 \<Rightarrow> 'w \<Rightarrow> (SkillError + HostHttpResponse) \<times> 'w" where
  "execute_http_request env tr req timeout limit w =
     (case parse_http_request (he_url_parse env) req of
        Inl d \<Rightarrow> (Inl (into_skill_error d), w)
      | Inr p \<Rightarrow>
          (case tr_build_error tr req of
             Some e \<Rightarrow>
               (Inl \<lparr>se_code = ''http-request-build-failed'',
                     se_message = ''host could not build the outbound HTTP request'', se_retryable = False,
                     se_detail = Some (json_obj [(''url'', JString (hr_url req)), (''error'', JString e)])\<rparr>, w)
           | None \<Rightarrow>
               (case tr_send tr req (ph_scheme p = Https) timeout w of
                  (Inl e, w) \<Rightarrow> (Inl (skill_error_from_wasi_http_error tr e req limit), w)
                | (Inr r, w) \<Rightarrow>
                    (if is_redirect_status (in_status r)
                     then (Inr \<lparr>hh_response = \<lparr>resp_url = hr_url req, resp_status = in_status r,
                                  resp_content_type = in_content_type r, resp_body = []\<rparr>,
                                hh_redirect_location = in_location r\<rparr>, w)
                     else
                       (case read_body limit (in_frames r) [] of
                          Inl e \<Rightarrow> (Inl (skill_error_from_wasi_http_error tr e req limit), w)
                        | Inr body \<Rightarrow>
                            (Inr \<lparr>hh_response = \<lparr>resp_url = hr_url req, resp_status = in_status r,
                                    resp_content_type = in_content_type r, resp_body = body\<rparr>,
                                  hh_redirect_location = in_location r\<rparr>, w))))))"

definition dispatch_http_request ::
  "'w HostEnv \<Rightarrow> 'w Transport \<Rightarrow> HttpReplayCatalog option \<Rightarrow> HttpRequestMsg \<Rightarrow> u64 \<Rightarrow> u64 \<Rightarrow> 'w
     \<Rightarrow> (SkillError + HostHttpResponse) \<times> 'w" where
  "dispatch_http_request env tr catalog req timeout limit w =
     (case catalog of
        Some cat \<Rightarrow> (execute_http_request_via_replay env cat req limit, w)
      | None \<Rightarrow> execute_http_request env tr req timeout limit w)"

text \<open>
  The binding a replaying host supplies for a request. The inherent method works on the parsed
  request; the trait method parses it first.
\<close>

definition replay_binding_for_parsed ::
  "'w HostEnv \<Rightarrow> HttpReplayCatalog option \<Rightarrow> HttpRequestMsg \<Rightarrow> ParsedHttpRequest
     \<Rightarrow> CapabilityDenial + HttpResolutionBinding option" where
  "replay_binding_for_parsed env catalog req p =
     (case Option.bind catalog (\<lambda>cat. lookup_resolution_binding cat req) of
        None \<Rightarrow>
          if catalog \<noteq> None \<and> ip_literal p = None
          then Inl \<lparr>cd_code = ''http-request-destination-unresolved'',
                    cd_message = ''http-request hostname replay requires a deterministic resolution binding'',
                    cd_detail = json_obj [(''url'', JString (hr_url req)), (''host'', JString (ph_host p))]\<rparr>
          else Inr None
      | Some b \<Rightarrow>
          res_bind (map_err (\<lambda>msg. \<lparr>cd_code = ''http-request-destination-unresolved'', cd_message = msg,
              cd_detail = json_obj [(''url'', JString (hr_url req)), (''host'', JString (ph_host p)),
                (''port'', json_word (ph_port p)), (''resolution_binding'', HttpResolutionBinding_json b)]\<rparr>)
            (validate_http_resolution_binding (he_ip_error env) b p)) (\<lambda>_. Inr (Some b)))"

definition replay_resolution_binding_for_request ::
  "'w HostEnv \<Rightarrow> HttpReplayCatalog option \<Rightarrow> HttpRequestMsg \<Rightarrow> SkillError + HttpResolutionBinding option" where
  "replay_resolution_binding_for_request env catalog req =
     map_err into_skill_error
       (res_bind (parse_http_request (he_url_parse env) req) (replay_binding_for_parsed env catalog req))"

section \<open>Accepted catalogs\<close>

abbreviation fixture_key :: "HttpReplayFixture \<Rightarrow> string" where
  "fixture_key f \<equiv> http_replay_fixture_key (fx_method f) (fx_url f)"

lemma fixture_key_inj:
  "http_replay_fixture_key m u = http_replay_fixture_key m' u' \<longleftrightarrow> m = m' \<and> u = u'"
  by (cases m; cases m') (simp_all add: http_replay_fixture_key_def)

definition fixture_ok :: "'w HostEnv \<Rightarrow> HttpReplayFixture \<Rightarrow> bool" where
  "fixture_ok env f \<longleftrightarrow>
     validate_http_replay_fixture env f = Inr () \<and> (fx_method f = Head \<longrightarrow> fx_response_body f = [])"

lemma res_bind_unit: "res_bind r (\<lambda>_. s) = Inr y \<longleftrightarrow> r = Inr () \<and> s = Inr y"
  by (cases r) auto

lemma add_fixtures_Cons:
  "fixture_ok env f \<Longrightarrow> m (fixture_key f) = None \<Longrightarrow>
     add_fixtures env (f # fs) m ordered
       = add_fixtures env fs (m(fixture_key f \<mapsto> f)) (ordered @ [(fixture_key f, f)])"
  by (auto simp: fixture_ok_def Let_def)

lemma add_fixtures_refused:
  "\<not> (fixture_ok env f \<and> m (fixture_key f) = None) \<Longrightarrow> add_fixtures env (f # fs) m ordered \<noteq> Inr r"
  by (auto simp: fixture_ok_def res_bind_unit Let_def split: if_splits)

declare add_fixtures.simps(2) [simp del]

lemma add_fixtures_iff:
  "add_fixtures env fs m ordered = Inr (m', ordered') \<longleftrightarrow>
     list_all (fixture_ok env) fs \<and> distinct (map fixture_key fs)
     \<and> (\<forall>f \<in> set fs. m (fixture_key f) = None)
     \<and> m' = m ++ map_of (map (\<lambda>f. (fixture_key f, f)) fs)
     \<and> ordered' = ordered @ map (\<lambda>f. (fixture_key f, f)) fs"
proof (induction fs arbitrary: m ordered)
  case (Cons f fs)
  show ?case
  proof (cases "fixture_ok env f \<and> m (fixture_key f) = None")
    case ok: True
    have eq: "add_fixtures env (f # fs) m ordered
        = add_fixtures env fs (m(fixture_key f \<mapsto> f)) (ordered @ [(fixture_key f, f)])"
      by (rule add_fixtures_Cons) (use ok in simp_all)
    show ?thesis
    proof (cases "fixture_key f \<in> fixture_key ` set fs")
      case True
      then obtain g where g: "g \<in> set fs" "fixture_key g = fixture_key f"
        by force
      then have "(m(fixture_key f \<mapsto> f)) (fixture_key g) \<noteq> None"
        by simp
      with g(1) have "add_fixtures env fs (m(fixture_key f \<mapsto> f)) (ordered @ [(fixture_key f, f)]) \<noteq> Inr (m', ordered')"
        unfolding Cons.IH by (auto simp del: fun_upd_apply)
      moreover have "\<not> distinct (map fixture_key (f # fs))"
        using True by simp
      ultimately show ?thesis
        unfolding eq by metis
    next
      case False
      then have m: "m(fixture_key f \<mapsto> f) ++ map_of (map (\<lambda>f. (fixture_key f, f)) fs)
          = m ++ map_of (map (\<lambda>f. (fixture_key f, f)) (f # fs))"
        by (simp add: map_add_upd_left dom_map_of_conv_image_fst image_image)
      have none: "(m(fixture_key f \<mapsto> f)) (fixture_key g) = m (fixture_key g)" if "g \<in> set fs" for g
      proof -
        have "fixture_key g \<noteq> fixture_key f"
        proof
          assume "fixture_key g = fixture_key f"
          with imageI[OF that, of fixture_key] False show False
            by simp
        qed
        then show ?thesis
          by simp
      qed
      have all: "(\<forall>g \<in> set fs. (m(fixture_key f \<mapsto> f)) (fixture_key g) = None)
          \<longleftrightarrow> (\<forall>g \<in> set (f # fs). m (fixture_key g) = None)"
        using none ok by (simp del: fun_upd_apply)
      have o: "(ordered @ [(fixture_key f, f)]) @ map (\<lambda>f. (fixture_key f, f)) fs
          = ordered @ map (\<lambda>f. (fixture_key f, f)) (f # fs)"
        and l: "list_all (fixture_ok env) fs \<longleftrightarrow> list_all (fixture_ok env) (f # fs)"
        and d: "distinct (map fixture_key fs) \<longleftrightarrow> distinct (map fixture_key (f # fs))"
        using ok False by simp_all
      show ?thesis
        unfolding eq Cons.IH m all o l d ..
    qed
  next
    case False
    then show ?thesis
      using add_fixtures_refused[of env f m fs ordered] by auto
  qed
qed auto

lemma from_fixtures_Inr:
  assumes "from_fixtures env fs = Inr cat"
  shows "list_all (fixture_ok env) fs" "distinct (map fixture_key fs)"
    "cat_fixtures cat = map_of (map (\<lambda>f. (fixture_key f, f)) fs)"
    "cat_digest cat = http_replay_catalog_digest env (sort_key fst (map (\<lambda>f. (fixture_key f, f)) fs))"
  using assms by (auto simp: from_fixtures_def res_bind_Inr_iff add_fixtures_iff)

lemma cat_lookup_iff:
  assumes "from_fixtures env fs = Inr cat"
  shows "cat_lookup cat req = Some f \<longleftrightarrow> f \<in> set fs \<and> fx_method f = hr_method req \<and> fx_url f = hr_url req"
proof -
  note c = from_fixtures_Inr[OF assms]
  have "distinct (map fst (map (\<lambda>f. (fixture_key f, f)) fs))"
    using c(2) by (simp add: comp_def)
  then have "cat_lookup cat req = Some f \<longleftrightarrow>
      (http_replay_fixture_key (hr_method req) (hr_url req), f) \<in> set (map (\<lambda>f. (fixture_key f, f)) fs)"
    unfolding cat_lookup_def c(3) by (rule map_of_eq_Some_iff)
  then show ?thesis
    by (simp add: image_iff fixture_key_inj) metis
qed

lemma sort_key_mset_eq:
  assumes "mset xs = mset ys" "inj_on k (set xs)"
  shows "sort_key k xs = sort_key k ys"
  using assms by (intro sort_key_inj_key_eq) simp_all

lemma from_fixtures_perm:
  assumes "from_fixtures env fs = Inr cat" "mset fs = mset gs"
  shows "from_fixtures env gs = Inr cat"
proof -
  note c = from_fixtures_Inr[OF assms(1)]
  let ?e = "\<lambda>f. (fixture_key f, f)"
  have sets: "set fs = set gs"
    using assms(2) by (rule mset_eq_setD)
  have keys: "mset (map fixture_key fs) = mset (map fixture_key gs)"
    using assms(2) by simp
  have dist: "distinct (map fixture_key gs)"
    using c(2) mset_eq_imp_distinct_iff[OF keys] by simp
  have entry: "map_of (map ?e hs) (fixture_key f) = Some f" if "distinct (map fixture_key hs)" "f \<in> set hs" for f hs
    using that by (intro map_of_is_SomeI) (auto simp: comp_def)
  have "map_of (map ?e fs) = map_of (map ?e gs)"
    by (rule map_of_eqI) (use entry[OF c(2)] entry[OF dist] sets in \<open>force+\<close>)
  moreover have "sort_key fst (map ?e fs) = sort_key fst (map ?e gs)"
    using assms(2) c(2) by (intro sort_key_mset_eq) (auto simp: inj_on_def distinct_map)
  moreover have "add_fixtures env gs (\<lambda>_. None) [] = Inr (map_of (map ?e gs), map ?e gs)"
    using c(1) dist sets by (simp add: add_fixtures_iff list_all_iff)
  ultimately show ?thesis
    using c(3,4) by (simp add: from_fixtures_def)
qed

section \<open>Replay never leaves the loopback interface\<close>

lemma hostname_fixture:
  assumes "fixture_ok env f" "ip_literal p = None"
    and "parse_http_request (he_url_parse env) \<lparr>hr_method = fx_method f, hr_url = fx_url f, hr_timeout_ms = None\<rparr> = Inr p"
  shows "\<exists>b. fx_resolution_binding f = Some b \<and> rb_loopback_only b
    \<and> validate_http_resolution_binding (he_ip_error env) b p = Inr ()"
  using assms
  by (auto simp: fixture_ok_def validate_http_replay_fixture_def res_bind_unit res_bind_Inr_iff
      split: if_splits option.splits)

lemma parse_http_request_url:
  assumes "hr_url req = hr_url req'"
  shows "parse_http_request up req = parse_http_request up req'"
  unfolding parse_http_request_def assms ..

lemma validated_binding_resolves:
  assumes "validate_http_resolution_binding ip_error b p = Inr ()" "ip_literal p = None" "rb_loopback_only b"
  shows "\<exists>d. resolve_http_destination_with_binding ip_error dns p (Some b) = Inr d
    \<and> list_all ip_is_loopback (rd_addresses d)"
  using assms
  by (auto simp: validate_http_resolution_binding_def resolve_http_destination_with_binding_def res_bind_unit
      res_bind_Inr_iff split: if_splits)

lemma replay_Inr:
  assumes "execute_http_request_via_replay env cat req limit = Inr r"
  obtains p f literal url where "parse_http_request (he_url_parse env) req = Inr p" "ph_scheme p = Http"
    "replay_destination p url req = Inr literal" "cat_lookup cat req = Some f"
    "replay_response req limit f = Inr r"
  using assms
  by (auto simp: execute_http_request_via_replay_def res_bind_Inr_iff ok_or_def map_err_def
      split: if_splits option.splits sum.splits)

lemma replay_destination_Inr:
  "replay_destination p url req = Inr literal \<Longrightarrow>
     (case ip_literal p of Some ip \<Rightarrow> ip_is_loopback ip | None \<Rightarrow> ph_host p = ''localhost'')"
  by (auto simp: replay_destination_def res_bind_Inr_iff classify_loopback split: option.splits if_splits)

lemma replay_response_bound:
  "replay_response req limit f = Inr r \<Longrightarrow> u64_of_usize (length (resp_body (hh_response r))) \<le> limit"
  by (auto simp: replay_response_def Let_def u64_of_usize_def split: if_splits)

lemma replay_on_loopback:
  assumes cat: "from_fixtures env fs = Inr cat"
    and run: "execute_http_request_via_replay env cat req limit = Inr r"
  shows "\<exists>f p d. f \<in> set fs \<and> fx_method f = hr_method req \<and> fx_url f = hr_url req
    \<and> parse_http_request (he_url_parse env) req = Inr p
    \<and> resolve_http_destination_with_binding (he_ip_error env) dns p (lookup_resolution_binding cat req) = Inr d
    \<and> list_all ip_is_loopback (rd_addresses d)"
  using run
proof (rule replay_Inr)
  fix p f literal url
  assume p: "parse_http_request (he_url_parse env) req = Inr p"
    and dest: "replay_destination p url req = Inr literal"
    and f: "cat_lookup cat req = Some f"
  have in_fs: "f \<in> set fs" "fx_method f = hr_method req" "fx_url f = hr_url req"
    using f cat_lookup_iff[OF cat] by auto
  have "\<exists>d. resolve_http_destination_with_binding (he_ip_error env) dns p (lookup_resolution_binding cat req) = Inr d
      \<and> list_all ip_is_loopback (rd_addresses d)"
  proof (cases "ip_literal p")
    case (Some ip)
    then show ?thesis
      using replay_destination_Inr[OF dest] by (simp add: resolve_http_destination_with_binding_def)
  next
    case None
    have ok: "fixture_ok env f"
      using from_fixtures_Inr(1)[OF cat] in_fs(1) by (simp add: list_all_iff)
    have parsed: "parse_http_request (he_url_parse env)
        \<lparr>hr_method = fx_method f, hr_url = fx_url f, hr_timeout_ms = None\<rparr> = Inr p"
      using p parse_http_request_url[of req "\<lparr>hr_method = fx_method f, hr_url = fx_url f, hr_timeout_ms = None\<rparr>"] in_fs(3)
      by (metis HttpRequestMsg.select_convs(2))
    obtain b where b: "fx_resolution_binding f = Some b" "rb_loopback_only b"
      "validate_http_resolution_binding (he_ip_error env) b p = Inr ()"
      using hostname_fixture[OF ok None parsed] by blast
    then show ?thesis
      using validated_binding_resolves[OF b(3) None b(2)] f
      by (simp add: lookup_resolution_binding_def)
  qed
  with p in_fs show ?thesis
    by blast
qed

section \<open>Response bodies stay within the limit\<close>

lemma u64_of_usize_append:
  "saturating_add (u64_of_usize (length xs)) (u64_of_usize (length ys)) = u64_of_usize (length (xs @ ys))"
proof -
  have n: "unat (of_nat k :: u64) = k" if "k < 2 ^ 64" for k
    using that by (simp add: unat_of_nat take_bit_nat_eq_self)
  have top: "unat (u64_max) = 2 ^ 64 - 1"
    by (simp add: u64_max_def unsigned_minus_1_eq_mask mask_eq_exp_minus_1)
  show ?thesis
    using top by (auto simp: u64_of_usize_def saturating_add_def n u64_max_def)
qed

lemma read_body_bound:
  "read_body limit frames bytes = Inr body \<Longrightarrow> u64_of_usize (length bytes) \<le> limit
    \<Longrightarrow> u64_of_usize (length body) \<le> limit"
  by (induction limit frames bytes rule: read_body.induct)
    (auto simp: u64_of_usize_append split: if_splits)

lemma dispatch_bound:
  assumes "dispatch_http_request env tr catalog req timeout limit w = (Inr r, w')"
  shows "resp_url (hh_response r) = hr_url req \<and> u64_of_usize (length (resp_body (hh_response r))) \<le> limit"
proof (cases catalog)
  case (Some cat)
  with assms have "execute_http_request_via_replay env cat req limit = Inr r"
    by (simp add: dispatch_http_request_def)
  then show ?thesis
  proof (rule replay_Inr)
    fix p f literal url
    assume "replay_response req limit f = Inr r"
    then show ?thesis
      using replay_response_bound by (auto simp: replay_response_def Let_def split: if_splits)
  qed
next
  case None
  have "u64_of_usize 0 \<le> limit"
    by (simp add: u64_of_usize_def)
  with None assms read_body_bound[of limit _ "[]"] show ?thesis
    by (auto simp: dispatch_http_request_def execute_http_request_def
        split: sum.splits option.splits prod.splits if_splits)
qed

section \<open>Claims\<close>


definition sample_env :: "unit HostEnv" where
  "sample_env = \<lparr>he_url_parse = sample_url_parse, he_url_join = (\<lambda>u l. sample_url_parse l), he_ip_error = (\<lambda>s. s),
     he_dns = (\<lambda>_. sample_dns), he_json_text = (\<lambda>_. ''{}''), he_json_parse = (\<lambda>_. Inr JNull),
     he_json_stream = (\<lambda>_. None), he_sha256_hex = (\<lambda>_. ''00'')\<rparr>"

definition sample_fixture :: "HttpMethod \<Rightarrow> HttpReplayFixture" where
  "sample_fixture m = \<lparr>fx_method = m, fx_url = ''http://localhost:8080/v1'', fx_response_status = 204,
     fx_response_content_type = None, fx_response_body = [], fx_redirect_location = None,
     fx_resolution_binding = Some sample_binding\<rparr>"

lemma sample_env_simps [simp]:
  "he_url_parse sample_env = sample_url_parse" "he_ip_error sample_env = (\<lambda>s. s)"
  "he_dns sample_env = (\<lambda>_. sample_dns)"
  by (simp_all add: sample_env_def)

lemma sample_binding_valid: "validate_http_resolution_binding (\<lambda>s. s) sample_binding sample_parsed = Inr ()"
  by (rule recorded_binding_replays(1)[OF sample_resolution]) (simp add: sample_destination_def)

lemma sample_parse_any: "hr_url req = ''http://localhost:8080/v1'' \<Longrightarrow> parse_http_request sample_url_parse req = Inr sample_parsed"
  using sample_parse parse_http_request_url[of req sample_request] by (simp add: sample_request_def)

lemma sample_fixture_ok: "fixture_ok sample_env (sample_fixture m)"
proof -
  have "parse_http_request sample_url_parse \<lparr>hr_method = m, hr_url = ''http://localhost:8080/v1'', hr_timeout_ms = None\<rparr>
      = Inr sample_parsed"
    by (rule sample_parse_any) simp
  moreover have "rb_loopback_only sample_binding"
    by (simp add: sample_binding_def)
  ultimately show ?thesis
    using sample_binding_valid
    by (cases m) (simp_all add: fixture_ok_def validate_http_replay_fixture_def sample_fixture_def
        sample_url_parse_def sample_parsed_def ip_literal_def is_redirect_status_def)
qed

lemma sample_catalog: "\<exists>cat. from_fixtures sample_env [sample_fixture Get, sample_fixture Head] = Inr cat"
proof -
  have "add_fixtures sample_env [sample_fixture Get, sample_fixture Head] (\<lambda>_. None) []
      = Inr ((\<lambda>_. None) ++ map_of (map (\<lambda>f. (fixture_key f, f)) [sample_fixture Get, sample_fixture Head]),
          [] @ map (\<lambda>f. (fixture_key f, f)) [sample_fixture Get, sample_fixture Head])"
    unfolding add_fixtures_iff using sample_fixture_ok by (simp add: fixture_key_inj sample_fixture_def)
  then show ?thesis
    by (simp add: from_fixtures_def)
qed


text \<open>The order of replay fixtures is irrelevant: a permutation of an accepted fixture list yields the same
  catalog with the same digest.\<close>

theorem replay_catalog_order:
  assumes "from_fixtures env fs = Inr cat" "mset fs = mset gs"
  shows "from_fixtures env gs = Inr cat"
  using assms by (rule from_fixtures_perm)

theorem replay_catalog_order_witness:
  "\<exists>cat. from_fixtures sample_env [sample_fixture Get, sample_fixture Head] = Inr cat
     \<and> from_fixtures sample_env [sample_fixture Head, sample_fixture Get] = Inr cat"
proof -
  obtain cat where cat: "from_fixtures sample_env [sample_fixture Get, sample_fixture Head] = Inr cat"
    using sample_catalog by blast
  have "mset [sample_fixture Get, sample_fixture Head] = mset [sample_fixture Head, sample_fixture Get]"
    by simp
  from cat replay_catalog_order[OF cat this] show ?thesis
    by blast
qed

text \<open>C37: The host returns no more than the response limit: on the live transport and in replay, a response answers
  the requested URL and its body is at most \<open>max_response_bytes\<close> long.\<close>

theorem response_within_limit:
  assumes "dispatch_http_request env tr catalog req timeout limit w = (Inr r, w')"
  shows "resp_url (hh_response r) = hr_url req \<and> u64_of_usize (length (resp_body (hh_response r))) \<le> limit"
  using assms by (rule dispatch_bound)

definition sample_transport :: "unit Transport" where
  "sample_transport = \<lparr>tr_build_error = (\<lambda>_. None), tr_send = (\<lambda>req tls timeout w.
     (Inr \<lparr>in_status = 200, in_content_type = None, in_location = None,
           in_frames = [Frame_Data ''o'', Frame_Other, Frame_Data ''k'']\<rparr>, w)), tr_error_debug = (\<lambda>_. ''e'')\<rparr>"

theorem response_within_limit_witness:
  "\<exists>r. dispatch_http_request sample_env sample_transport None sample_request 500 2 () = (Inr r, ())
     \<and> resp_body (hh_response r) = ''ok'' \<and> u64_of_usize (length (resp_body (hh_response r))) \<le> 2"
proof -
  let ?r = "\<lparr>hh_response = \<lparr>resp_url = hr_url sample_request, resp_status = 200, resp_content_type = None,
      resp_body = ''ok''\<rparr>, hh_redirect_location = None\<rparr>"
  have run: "dispatch_http_request sample_env sample_transport None sample_request 500 2 () = (Inr ?r, ())"
    using sample_parse
    by (simp add: dispatch_http_request_def execute_http_request_def sample_transport_def is_redirect_status_def
        u64_of_usize_def saturating_add_def)
  show ?thesis
    using run response_within_limit[OF run] by auto
qed

end
