(* ===== verification/Guild_Runner.thy ===== *)
theory Guild_Runner
  imports Guild_Admission Guild_Replay
begin

text \<open>
  The runner (\<open>crates/guild-runner/src/lib.rs\<close>): executing an admitted envelope, persisting a record of
  every attempt, and the runtime host that guests call, through which a child skill runs as an
  execution of its own.

  The registry is the trait \<open>SkillRegistry\<close> as a record of operations over the host's state \<open>'w\<close>;
  its installed set is a fixed view. \<open>HostClock\<close> stands for the \<open>uuid\<close> and \<open>time\<close> crates and the
  monotonic clock.
\<close>

section \<open>Registry, clock and runner\<close>

record 'w SkillRegistry =
  reg_resolve_exact :: "ResolvedSkillRef \<Rightarrow> RegistryError + InstalledSkill"
  reg_persist_execution_record :: "ExecutionRecord \<Rightarrow> 'w \<Rightarrow> (RegistryError + unit) \<times> 'w"
  reg_load_execution_record :: "string \<Rightarrow> 'w \<Rightarrow> RegistryError + ExecutionRecord"
  reg_store_evidence :: "string \<Rightarrow> EvidenceEmissionRequest \<Rightarrow> 'w \<Rightarrow> (RegistryError + EvidenceRef) \<times> 'w"
  reg_load_evidence_record :: "string \<Rightarrow> 'w \<Rightarrow> RegistryError + EvidenceRecord"
  reg_read_resource :: "string \<Rightarrow> 'w \<Rightarrow> RegistryError + ResourceReadResult"
  reg_load_policy_config :: "'w \<Rightarrow> RegistryError + LocalPolicyConfig"

record 'w HostClock =
  hc_mint_execution_id :: "'w \<Rightarrow> string \<times> 'w"
  hc_now_utc :: "'w \<Rightarrow> string"
  hc_elapsed_ms :: "'w \<Rightarrow> 'w \<Rightarrow> u64"

record 'w Runner =
  run_env :: "'w HostEnv"
  run_runtime :: "'w RuntimeAdapter"
  run_transport :: "'w Transport"
  run_http_replay_catalog :: "HttpReplayCatalog option"
  run_clock :: "'w HostClock"

definition with_http_replay_fixtures :: "HttpReplayFixture list \<Rightarrow> 'w Runner \<Rightarrow> ExecutionError + 'w Runner" where
  "with_http_replay_fixtures fs r =
     (if fs = [] then Inr (r\<lparr>run_http_replay_catalog := None\<rparr>)
      else res_bind (from_fixtures (run_env r) fs) (\<lambda>cat. Inr (r\<lparr>run_http_replay_catalog := Some cat\<rparr>)))"

section \<open>Records of attempts\<close>

definition registry_error_at :: "ExecutionPhase \<Rightarrow> json \<Rightarrow> RegistryError \<Rightarrow> ExecutionError" where
  "registry_error_at phase detail e = with_detail detail (with_phase phase (from_registry_error e))"

definition persist_record ::
  "'w SkillRegistry \<Rightarrow> ExecutionRecord \<Rightarrow> 'w \<Rightarrow> (ExecutionError + unit) \<times> 'w" where
  "persist_record reg rc w =
     (case reg_persist_execution_record reg rc w of
        (r, w) \<Rightarrow> (map_err (registry_error_at Ph_Persistence (json_obj
            [(''execution_id'', JString (rcpt_execution_id (x_receipt rc))),
             (''uri'', JString (rcpt_uri (x_receipt rc)))])) r, w))"

definition load_evidence_records ::
  "'w SkillRegistry \<Rightarrow> EvidenceRef list \<Rightarrow> 'w \<Rightarrow> ExecutionError + EvidenceRecord list" where
  "load_evidence_records reg refs w =
     collect_results (map (\<lambda>ev. map_err (registry_error_at Ph_Persistence (json_obj [(''uri'', JString (er_uri ev))]))
       (reg_load_evidence_record reg (er_uri ev) w)) refs)"

record UnsuccessfulAttemptContext =
  ua_installed :: InstalledSkill
  ua_envelope :: ResolvedExecutionEnvelope
  ua_execution_id :: string
  ua_started_at_utc :: string
  ua_duration_ms :: u64

definition unsuccessful_record ::
  "'w SkillRegistry \<Rightarrow> UnsuccessfulAttemptContext \<Rightarrow> RuntimeFailure \<Rightarrow> string \<Rightarrow> 'w \<Rightarrow> ExecutionRecord" where
  "unsuccessful_record reg cx f finished w =
     (let status = status_from_error (rf_error f); envl = ua_envelope cx
      in \<lparr>x_receipt = build_receipt (ua_execution_id cx) (cr_trace_id (env_request envl)) status,
          x_request = env_request envl, x_policy_decision = env_policy_decision envl,
          x_resolved_skill = env_resolved_skill envl, x_parent_execution_id = env_parent_execution_id envl,
          x_status = status, x_output = None, x_termination = Some (termination_from_error (rf_error f)),
          x_granted_capabilities = env_granted_capabilities envl,
          x_emitted_evidence = unwrap_or [] (res_ok (load_evidence_records reg (rf_emitted_evidence f) w)),
          x_authority_observations = rf_authority_observations f, x_authority_observations_recorded = True,
          x_metrics = ExecutionMetrics_default\<lparr>em_duration_ms := ua_duration_ms cx,
             em_network_requests := rf_network_requests f,
             em_child_executions := saturating_u16_len (length (rf_child_executions f))\<rparr>,
          x_provenance = build_provenance (ua_installed cx) envl (ua_started_at_utc cx) finished,
          x_child_executions = rf_child_executions f\<rparr>)"

fun ExecutionPhase_json :: "ExecutionPhase \<Rightarrow> json" where
  "ExecutionPhase_json Ph_Validation = JString ''validation''"
| "ExecutionPhase_json Ph_Grant = JString ''grant''"
| "ExecutionPhase_json Ph_Mode = JString ''mode''"
| "ExecutionPhase_json Ph_RuntimeLoad = JString ''runtime-load''"
| "ExecutionPhase_json Ph_RuntimeExec = JString ''runtime-exec''"
| "ExecutionPhase_json Ph_ChildInvocation = JString ''child-invocation''"
| "ExecutionPhase_json Ph_Persistence = JString ''persistence''"
| "ExecutionPhase_json Ph_SkillDomain = JString ''skill-domain''"

definition persist_unsuccessful_attempt ::
  "'w Runner \<Rightarrow> 'w SkillRegistry \<Rightarrow> UnsuccessfulAttemptContext \<Rightarrow> RuntimeFailure \<Rightarrow> 'w \<Rightarrow> ExecutionError \<times> 'w" where
  "persist_unsuccessful_attempt r reg cx f w =
     (let rc = unsuccessful_record reg cx f (hc_now_utc (run_clock r) w) w; e = rf_error f
      in case persist_record reg rc w of
           (Inr _, w) \<Rightarrow> (with_receipt (x_receipt rc) e, w)
         | (Inl pe, w) \<Rightarrow> (with_detail (json_obj
             [(''execution_id'', JString (rcpt_execution_id (x_receipt rc))),
              (''uri'', JString (rcpt_uri (x_receipt rc))),
              (''original_error'', json_obj
                 [(''code'', JString (xe_code e)), (''message'', JString (xe_message e)),
                  (''retryable'', JBool (xe_retryable e)), (''phase'', json_opt ExecutionPhase_json (xe_phase e)),
                  (''detail'', json_opt id (xe_detail e))])]) pe, w))"

section \<open>Child executions\<close>

definition find_declared_dependency ::
  "InstalledSkill \<Rightarrow> string \<Rightarrow> ChildInvocationError + InstalledDependencySpec" where
  "find_declared_dependency parent al =
     ok_or (without_record \<lparr>se_code = ''dependency-not-declared'',
              se_message = ''dependency alias `'' @ al @ ''` is not declared by the skill'', se_retryable = False,
              se_detail = Some (json_obj [(''alias'', JString al)])\<rparr>)
       (find (\<lambda>d. dep_alias d = al) (dependencies (manifest parent)))"

definition registry_cause :: "RegistryError \<Rightarrow> json" where
  "registry_cause e = json_obj
     [(''code'', JString (re_code e)), (''message'', JString (re_message e)), (''detail'', json_opt id (re_detail e))]"

definition load_child_installed ::
  "'w SkillRegistry \<Rightarrow> InstalledDependencySpec \<Rightarrow> string \<Rightarrow> ChildInvocationError + InstalledSkill" where
  "load_child_installed reg d al =
     map_err (\<lambda>e. without_record \<lparr>se_code = ''dependency-resolution-failed'',
         se_message = ''declared dependency could not be loaded as an installed executable skill'',
         se_retryable = False, se_detail = Some (json_obj
           [(''alias'', JString al), (''dependency'', ResolvedSkillRef_json (dep_skill d)),
            (''cause'', registry_cause e)])\<rparr>)
       (reg_resolve_exact reg (dep_skill d))"

definition exact_requested_skill_ref :: "ResolvedSkillRef \<Rightarrow> RequestedSkillRef" where
  "exact_requested_skill_ref s = \<lparr>rq_key = rs_key s, rq_version_req = ''='' @ rs_version s\<rparr>"

definition build_child_caller_request ::
  "ExecutionContext \<Rightarrow> u16 \<Rightarrow> json \<Rightarrow> InstalledSkill \<Rightarrow> CapabilityGrantSet \<Rightarrow> CallerRequest" where
  "build_child_caller_request cx sequence input child child_grants =
     \<lparr>cr_request_id = cx_execution_id cx @ '':child:'' @ dec_of_nat (unat sequence),
      cr_skill = exact_requested_skill_ref (resolved_ref child), cr_tenant_id = cx_tenant_id cx,
      cr_actor_id = ''skill'', cr_mode = cx_mode cx, cr_input = input,
      cr_budget = derive_child_budget (cx_budget cx), cr_requested_capabilities = child_grants,
      cr_idempotency_key = None, cr_trace_id = cx_trace_id cx\<rparr>"

definition child_execution_record_from_execution_record ::
  "string \<Rightarrow> string \<Rightarrow> ExecutionRecord \<Rightarrow> ChildExecutionRecord" where
  "child_execution_record_from_execution_record al parent_id rc =
     \<lparr>ch_alias = al, ch_execution_id = rcpt_execution_id (x_receipt rc), ch_uri = rcpt_uri (x_receipt rc),
      ch_parent_execution_id = parent_id, ch_trace_id = rcpt_trace_id (x_receipt rc), ch_status = x_status rc,
      ch_policy_decision = x_policy_decision rc, ch_termination = x_termination rc,
      ch_granted_capabilities = x_granted_capabilities rc, ch_metrics = x_metrics rc,
      ch_provenance = x_provenance rc\<rparr>"

definition load_child_failure_record ::
  "'w SkillRegistry \<Rightarrow> string \<Rightarrow> string \<Rightarrow> ExecutionError \<Rightarrow> 'w \<Rightarrow> ChildExecutionRecord option" where
  "load_child_failure_record reg al parent_id e w =
     map_option (child_execution_record_from_execution_record al parent_id)
       (Option.bind (xe_receipt e) (\<lambda>rcpt. res_ok (reg_load_execution_record reg (rcpt_execution_id rcpt) w)))"

definition ExecutionReceipt_json :: "ExecutionReceipt \<Rightarrow> json" where
  "ExecutionReceipt_json r = json_obj
     [(''execution_id'', JString (rcpt_execution_id r)), (''uri'', JString (rcpt_uri r)),
      (''trace_id'', JString (rcpt_trace_id r)), (''status'', JString (execution_status_label (rcpt_status r)))]"

definition child_execution_error_to_skill_error :: "string \<Rightarrow> ExecutionError \<Rightarrow> SkillError" where
  "child_execution_error_to_skill_error al e =
     \<lparr>se_code = ''child-invocation-failed'',
      se_message = ''dependency alias `'' @ al @ ''` failed during child execution'', se_retryable = xe_retryable e,
      se_detail = Some (json_obj [(''alias'', JString al), (''cause'', json_obj
        [(''code'', JString (xe_code e)), (''message'', JString (xe_message e)),
         (''retryable'', JBool (xe_retryable e)), (''detail'', json_opt id (xe_detail e)),
         (''receipt'', json_opt ExecutionReceipt_json (xe_receipt e))])])\<rparr>"

text \<open>
  The source calls \<open>Runner::execute\<close> from the runtime host it hands to the runtime: the calls are
  mutually recursive through the guest. Here each of the two bodies takes the execution of
  children as an argument, and \<open>execute\<close> below ties the knot. The \<open>None\<close> of
  \<^const>\<open>authorize_execution\<close> is a traversal that does not return; it never happens on an exact registry.
\<close>

type_synonym 'w executor =
  "InstalledSkill \<Rightarrow> ResolvedExecutionEnvelope \<Rightarrow> 'w \<Rightarrow> (ExecutionError + ExecutionRecord) \<times> 'w"

definition child_envelope ::
  "'w SkillRegistry \<Rightarrow> InstalledSkill \<Rightarrow> ExecutionContext \<Rightarrow> u16 \<Rightarrow> string \<Rightarrow> json \<Rightarrow> 'w
     \<Rightarrow> ChildInvocationError + InstalledSkill \<times> ResolvedExecutionEnvelope" where
  "child_envelope reg parent cx sequence al input w =
     res_bind (find_declared_dependency parent al) (\<lambda>dependency.
     res_bind (map_err denied (authorize (cx_granted_capabilities cx) (Op_InvokeDependency al))) (\<lambda>_.
     if max_child_executions (cx_budget cx) = 0
     then Inl (without_record \<lparr>se_code = ''child-budget-exhausted'',
            se_message = ''execution budget does not allow additional child invocations'', se_retryable = False,
            se_detail = Some (json_obj [(''alias'', JString al)])\<rparr>)
     else
       res_bind (load_child_installed reg dependency al) (\<lambda>child.
       res_bind (map_err denied (derive_child_grants (capabilities (manifest child)) (cx_granted_capabilities cx)))
         (\<lambda>child_grants.
       case authorize_execution (reg_load_policy_config reg w) (reg_resolve_exact reg) child
              (build_child_caller_request cx sequence input child child_grants) (Some (cx_execution_id cx)) of
         None \<Rightarrow> Inl (without_record \<lparr>se_code = ''declared-surface-diverged'', se_message = [], se_retryable = False,
                   se_detail = None\<rparr>)
       | Some (Inl e) \<Rightarrow> Inl (without_record \<lparr>se_code = xe_code e, se_message = xe_message e,
                          se_retryable = xe_retryable e, se_detail = xe_detail e\<rparr>)
       | Some (Inr envl) \<Rightarrow> Inr (child, envl)))))"

text \<open>A successful record always has an output; the source's \<open>expect\<close> relies on it.\<close>

definition invoke_dependency_with ::
  "'w executor \<Rightarrow> 'w SkillRegistry \<Rightarrow> InstalledSkill \<Rightarrow> ExecutionContext \<Rightarrow> u16 \<Rightarrow> string \<Rightarrow> json \<Rightarrow> 'w
     \<Rightarrow> (ChildInvocationError + ChildInvocationOutcome) \<times> 'w" where
  "invoke_dependency_with exec reg parent cx sequence al input w =
     (case child_envelope reg parent cx sequence al input w of
        Inl e \<Rightarrow> (Inl e, w)
      | Inr (child, envl) \<Rightarrow>
          (case exec child envl w of
             (Inl e, w) \<Rightarrow>
               (Inl \<lparr>ce_skill_error = child_execution_error_to_skill_error al e,
                     ce_record = load_child_failure_record reg al (cx_execution_id cx) e w, ce_denial = None\<rparr>, w)
           | (Inr rc, w) \<Rightarrow>
               (Inr \<lparr>co_output = the (x_output rc),
                     co_record = child_execution_record_from_execution_record al (cx_execution_id cx) rc\<rparr>, w)))"

definition runner_emit_evidence ::
  "'w SkillRegistry \<Rightarrow> string \<Rightarrow> EvidenceEmissionRequest \<Rightarrow> 'w \<Rightarrow> (SkillError + EvidenceRef) \<times> 'w" where
  "runner_emit_evidence reg execution_id req w =
     (case reg_store_evidence reg execution_id req w of
        (r, w) \<Rightarrow> (map_err (\<lambda>e. \<lparr>se_code = ''evidence-store-failed'',
            se_message = ''failed to persist evidence in the local object store'', se_retryable = False,
            se_detail = Some (json_obj [(''cause'', registry_cause e)])\<rparr>) r, w))"

definition runner_read_resource :: "'w SkillRegistry \<Rightarrow> string \<Rightarrow> 'w \<Rightarrow> SkillError + ResourceReadResult" where
  "runner_read_resource reg uri w =
     map_err (\<lambda>e. \<lparr>se_code = re_code e, se_message = re_message e, se_retryable = False,
         se_detail = Some (json_obj [(''uri'', JString uri), (''detail'', json_opt id (re_detail e))])\<rparr>)
       (reg_read_resource reg uri w)"

definition runner_host_with :: "'w executor \<Rightarrow> 'w Runner \<Rightarrow> 'w SkillRegistry \<Rightarrow> 'w RuntimeHost" where
  "runner_host_with exec r reg =
     \<lparr>rh_invoke_dependency = invoke_dependency_with exec reg,
      rh_emit_evidence = runner_emit_evidence reg,
      rh_read_resource = runner_read_resource reg,
      rh_http_request = dispatch_http_request (run_env r) (run_transport r) (run_http_replay_catalog r),
      rh_replay_resolution_binding_for_request =
        replay_resolution_binding_for_request (run_env r) (run_http_replay_catalog r)\<rparr>"

section \<open>Execution\<close>

definition succeeded_record ::
  "InstalledSkill \<Rightarrow> ResolvedExecutionEnvelope \<Rightarrow> string \<Rightarrow> string \<Rightarrow> string \<Rightarrow> u64 \<Rightarrow> RuntimeOutcome
     \<Rightarrow> EvidenceRecord list \<Rightarrow> ExecutionRecord" where
  "succeeded_record i envl execution_id started finished millis out evidence =
     \<lparr>x_receipt = build_receipt execution_id (cr_trace_id (env_request envl)) Succeeded,
      x_request = env_request envl, x_policy_decision = env_policy_decision envl,
      x_resolved_skill = env_resolved_skill envl, x_parent_execution_id = env_parent_execution_id envl,
      x_status = Succeeded, x_output = Some (ro_output out), x_termination = None,
      x_granted_capabilities = env_granted_capabilities envl, x_emitted_evidence = evidence,
      x_authority_observations = ro_authority_observations out, x_authority_observations_recorded = True,
      x_metrics = ExecutionMetrics_default\<lparr>em_duration_ms := millis,
         em_network_requests := ro_network_requests out,
         em_child_executions := saturating_u16_len (length (ro_child_executions out))\<rparr>,
      x_provenance = build_provenance i envl started finished,
      x_child_executions = ro_child_executions out\<rparr>"

definition execute_with :: "'w executor \<Rightarrow> 'w Runner \<Rightarrow> 'w SkillRegistry \<Rightarrow> 'w executor" where
  "execute_with exec r reg i envl started =
     (let clock = run_clock r;
          (execution_id, w) = hc_mint_execution_id clock started;
          started_at = hc_now_utc clock w;
          unsuccessful = (\<lambda>w. \<lparr>ua_installed = i, ua_envelope = envl, ua_execution_id = execution_id,
            ua_started_at_utc = started_at, ua_duration_ms = hc_elapsed_ms clock started w\<rparr>);
          fail = (\<lambda>f w. case persist_unsuccessful_attempt r reg (unsuccessful w) f w of (e, w) \<Rightarrow> (Inl e, w))
      in case validate_execution (ra_kind (run_runtime r)) i envl of
           Inl e \<Rightarrow> fail (early_failure e) w
         | Inr _ \<Rightarrow>
             (case ra_execute (run_runtime r) (runner_host_with exec r reg) i
                     (build_context (run_env r) envl execution_id started_at) (cr_input (env_request envl)) w of
                (Inl f, w) \<Rightarrow> fail f w
              | (Inr out, w) \<Rightarrow>
                  (case load_evidence_records reg (ro_emitted_evidence out) w of
                     Inl e \<Rightarrow> (Inl e, w)
                   | Inr evidence \<Rightarrow>
                       (let rc = succeeded_record i envl execution_id started_at (hc_now_utc clock w)
                                   (hc_elapsed_ms clock started w) out evidence
                        in case persist_record reg rc w of
                             (Inl e, w) \<Rightarrow> (Inl e, w)
                           | (Inr _, w) \<Rightarrow> (Inr rc, w)))))"

text \<open>
  The nesting depth of executions is bounded by the budget: a child runs only while
  \<open>max_child_executions\<close> is positive, and with one less. \<open>execute\<close> therefore unrolls the recursion
  once more than the budget allows; that this is the recursive function of the source is
  proved below.
\<close>

primrec execute_depth :: "nat \<Rightarrow> 'w Runner \<Rightarrow> 'w SkillRegistry \<Rightarrow> 'w executor" where
  "execute_depth 0 r reg = (\<lambda>i envl w. (Inl (ExecutionError_new ''depth-exceeded'' []), w))"
| "execute_depth (Suc n) r reg = execute_with (execute_depth n r reg) r reg"

definition execute :: "'w Runner \<Rightarrow> 'w SkillRegistry \<Rightarrow> 'w executor" where
  "execute r reg i envl =
     execute_depth (Suc (unat (max_child_executions (cr_budget (env_request envl))))) r reg i envl"

section \<open>Child envelopes\<close>

lemma child_envelope_Inr:
  assumes "child_envelope reg parent cx sequence al input w = Inr (child, envl)"
  obtains dependency child_grants where
    "find (\<lambda>d. dep_alias d = al) (dependencies (manifest parent)) = Some dependency"
    "grants_allow (cx_granted_capabilities cx) (Acc_Invoke al)"
    "max_child_executions (cx_budget cx) \<noteq> 0"
    "reg_resolve_exact reg (dep_skill dependency) = Inr child"
    "derive_child_grants (capabilities (manifest child)) (cx_granted_capabilities cx) = Inr child_grants"
    "authorize_execution (reg_load_policy_config reg w) (reg_resolve_exact reg) child
       (build_child_caller_request cx sequence input child child_grants) (Some (cx_execution_id cx)) = Some (Inr envl)"
proof -
  have "authorize (cx_granted_capabilities cx) (Op_InvokeDependency al) = Inr ()"
    using assms by (auto simp: child_envelope_def res_bind_Inr_iff map_err_def split: sum.splits)
  then have "grants_allow (cx_granted_capabilities cx) (Acc_Invoke al)"
    using authorize_iff[of _ "Op_InvokeDependency al"] by simp
  with assms that show ?thesis
    by (auto simp: child_envelope_def res_bind_Inr_iff map_err_def find_declared_dependency_def ok_or_def
        load_child_installed_def split: sum.splits option.splits if_splits)
qed

lemma authorize_execution_Inr:
  assumes "authorize_execution loaded lookup i req parent = Some (Inr envl)"
  obtains policy declared where "loaded = Inr policy" "declared_capability_surface lookup i = Some (Inr declared)"
    "env_request envl = req" "env_resolved_skill envl = resolved_ref i" "env_parent_execution_id envl = parent"
    "env_granted_capabilities envl = per_granted_capabilities (evaluate_policy i req declared policy)"
    "env_policy_decision envl = per_decision (evaluate_policy i req declared policy)"
  using assms by (auto simp: authorize_execution_def res_bind_Inr_iff Let_def bind_eq_Some_conv split: sum.splits)

lemma child_envelope_budget:
  assumes "child_envelope reg parent cx sequence al input w = Inr (child, envl)"
  shows "cr_budget (env_request envl) = derive_child_budget (cx_budget cx)"
    "unat (max_child_executions (cx_budget cx)) = Suc (unat (max_child_executions (cr_budget (env_request envl))))"
proof -
  obtain child_grants where nz: "max_child_executions (cx_budget cx) \<noteq> 0"
    and auth: "authorize_execution (reg_load_policy_config reg w) (reg_resolve_exact reg) child
       (build_child_caller_request cx sequence input child child_grants) (Some (cx_execution_id cx)) = Some (Inr envl)"
    using assms by (rule child_envelope_Inr)
  from auth show b: "cr_budget (env_request envl) = derive_child_budget (cx_budget cx)"
    by (rule authorize_execution_Inr) (simp add: build_child_caller_request_def)
  have "unat (max_child_executions (cx_budget cx) - 1) = unat (max_child_executions (cx_budget cx)) - 1"
    using nz by (simp add: unat_minus_one)
  then show "unat (max_child_executions (cx_budget cx)) = Suc (unat (max_child_executions (cr_budget (env_request envl))))"
    using nz b by (simp add: derive_child_budget_def saturating_sub_def unat_gt_0)
qed

lemma child_envelope_no_record:
  "child_envelope reg inst cx seq al inp w = Inl e \<Longrightarrow> ce_record e = None"
  by (auto simp: child_envelope_def res_bind_def map_err_def find_declared_dependency_def ok_or_def denied_def
      load_child_installed_def without_record_def split: sum.splits option.splits if_splits)

interpretation runner_host: runtime_host "runner_host_with exec r reg" for exec and r :: "'w Runner" and reg
proof
  fix inst cx seq al inp and w w' :: 'w and out
  assume "rh_invoke_dependency (runner_host_with exec r reg) inst cx seq al inp w = (Inr out, w')"
  then obtain child envl where "child_envelope reg inst cx seq al inp w = Inr (child, envl)"
    by (auto simp: runner_host_with_def invoke_dependency_with_def split: sum.splits prod.splits)
  then show "grants_allow (cx_granted_capabilities cx) (Acc_Invoke al)"
    by (rule child_envelope_Inr)
next
  fix inst cx seq al inp and w w' :: 'w and e
  assume call: "rh_invoke_dependency (runner_host_with exec r reg) inst cx seq al inp w = (Inl e, w')"
    and rec: "ce_record e \<noteq> None"
  obtain child envl where "child_envelope reg inst cx seq al inp w = Inr (child, envl)"
    using call rec
    by (auto simp: runner_host_with_def invoke_dependency_with_def split: sum.splits prod.splits
        dest: child_envelope_no_record)
  then show "grants_allow (cx_granted_capabilities cx) (Acc_Invoke al)"
    by (rule child_envelope_Inr)
qed

section \<open>Bounded recursion\<close>

lemma runner_hosts_agree:
  assumes "\<And>child envl w. Suc (unat (max_child_executions (cr_budget (env_request envl))))
      = unat (max_child_executions (cx_budget cx)) \<Longrightarrow> e1 child envl w = e2 child envl w"
  shows "hosts_agree cx (runner_host_with e1 r reg) (runner_host_with e2 r reg)"
  using child_envelope_budget(2) assms
  by (fastforce simp: hosts_agree_def runner_host_with_def invoke_dependency_with_def split: sum.splits)

lemma execute_with_agree:
  assumes "context_bound_adapter (run_runtime r)"
    and "\<And>child envl' w. Suc (unat (max_child_executions (cr_budget (env_request envl'))))
      = unat (max_child_executions (cr_budget (env_request envl))) \<Longrightarrow> e1 child envl' w = e2 child envl' w"
  shows "execute_with e1 r reg i envl w = execute_with e2 r reg i envl w"
proof -
  have "hosts_agree (build_context (run_env r) envl execution_id started)
      (runner_host_with e1 r reg) (runner_host_with e2 r reg)" for execution_id started
    by (rule runner_hosts_agree) (simp add: build_context_def assms(2))
  note same = context_bound_adapter.agree[OF assms(1) this]
  show ?thesis
    unfolding execute_with_def same ..
qed

lemma execute_depth_enough:
  assumes "context_bound_adapter (run_runtime r)"
  shows "unat (max_child_executions (cr_budget (env_request envl))) < n
    \<Longrightarrow> execute_depth n r reg i envl w = execute r reg i envl w"
proof (induction "unat (max_child_executions (cr_budget (env_request envl)))" arbitrary: n i envl w rule: less_induct)
  case less
  then obtain k where n: "n = Suc k"
    by (cases n) auto
  let ?b = "\<lambda>envl. unat (max_child_executions (cr_budget (env_request envl)))"
  have "execute_depth k r reg child envl' w = execute_depth (?b envl) r reg child envl' w"
    if "Suc (?b envl') = ?b envl" for child envl' w
    using less.hyps[of envl' k] less.hyps[of envl' "?b envl"] that less.prems n by simp
  from execute_with_agree[OF assms this] show ?case
    by (simp add: n execute_def)
qed

lemma execute_unfold:
  assumes "context_bound_adapter (run_runtime r)"
  shows "execute r reg i envl w = execute_with (execute r reg) r reg i envl w"
proof -
  let ?b = "\<lambda>envl. unat (max_child_executions (cr_budget (env_request envl)))"
  have "execute r reg i envl w = execute_with (execute_depth (?b envl) r reg) r reg i envl w"
    by (simp add: execute_def)
  also have "\<dots> = execute_with (execute r reg) r reg i envl w"
    by (rule execute_with_agree[OF assms], rule execute_depth_enough[OF assms]) simp
  finally show ?thesis .
qed

section \<open>Every attempt leaves a record\<close>

text \<open>
  The registry's contract for execution records: what was persisted reads back, through whatever
  the serialisation makes of it.
\<close>

locale record_store =
  fixes reg :: "'w SkillRegistry" and readback :: "ExecutionRecord \<Rightarrow> RegistryError + ExecutionRecord"
  assumes persist_load: "reg_persist_execution_record reg rc w = (Inr (), w')
    \<Longrightarrow> reg_load_execution_record reg (rcpt_execution_id (x_receipt rc)) w' = readback rc"
begin

lemma persist_record_load:
  "persist_record reg rc w = (Inr u, w') \<Longrightarrow>
     reg_load_execution_record reg (rcpt_execution_id (x_receipt rc)) w' = readback rc"
  using persist_load by (auto simp: persist_record_def map_err_def split: prod.splits sum.splits)

end

text \<open>The shape of every run: how a result and the record behind it come about.\<close>

abbreviation persistence_failure :: "ExecutionError \<Rightarrow> bool" where
  "persistence_failure e \<equiv> xe_phase e = Some Ph_Persistence \<and> xe_receipt e = None"

lemma persist_record_Inl:
  "persist_record reg rc w = (Inl e, w') \<Longrightarrow> persistence_failure e"
  by (auto simp: persist_record_def map_err_def registry_error_at_def with_phase_def with_detail_def
      from_registry_error_def split: prod.splits sum.splits)

lemma load_evidence_records_Inl:
  "load_evidence_records reg refs w = Inl e \<Longrightarrow> persistence_failure e"
  unfolding load_evidence_records_def
  by (induction refs) (auto simp: res_bind_def map_err_def registry_error_at_def with_phase_def with_detail_def
      from_registry_error_def split: sum.splits)

lemma persist_unsuccessful_cases:
  assumes "persist_unsuccessful_attempt r reg cx f w = (e, w')"
  obtains (stored) rc where "rc = unsuccessful_record reg cx f (hc_now_utc (run_clock r) w) w"
      "persist_record reg rc w = (Inr (), w')" "e = with_receipt (x_receipt rc) (rf_error f)"
  | (lost) "persistence_failure e"
  using assms
  by (auto simp: persist_unsuccessful_attempt_def Let_def with_detail_def split: prod.splits sum.splits
      dest: persist_record_Inl)

lemma execute_with_cases:
  assumes "execute_with exec r reg i envl w0 = (res, w')"
  obtains (rejected) execution_id w e cx e' where
      "hc_mint_execution_id (run_clock r) w0 = (execution_id, w)"
      "validate_execution (ra_kind (run_runtime r)) i envl = Inl e"
      "ua_installed cx = i" "ua_envelope cx = envl" "ua_execution_id cx = execution_id"
      "persist_unsuccessful_attempt r reg cx (early_failure e) w = (e', w')" "res = Inl e'"
  | (failed) execution_id w started f w1 cx e' where
      "hc_mint_execution_id (run_clock r) w0 = (execution_id, w)"
      "validate_execution (ra_kind (run_runtime r)) i envl = Inr ()"
      "ra_execute (run_runtime r) (runner_host_with exec r reg) i (build_context (run_env r) envl execution_id started)
         (cr_input (env_request envl)) w = (Inl f, w1)"
      "ua_installed cx = i" "ua_envelope cx = envl" "ua_execution_id cx = execution_id"
      "persist_unsuccessful_attempt r reg cx f w1 = (e', w')" "res = Inl e'"
  | (unreadable) execution_id w started out w1 e where
      "hc_mint_execution_id (run_clock r) w0 = (execution_id, w)"
      "validate_execution (ra_kind (run_runtime r)) i envl = Inr ()"
      "ra_execute (run_runtime r) (runner_host_with exec r reg) i (build_context (run_env r) envl execution_id started)
         (cr_input (env_request envl)) w = (Inr out, w1)"
      "res = Inl e" "persistence_failure e"
  | (succeeded) execution_id w started finished millis out w1 evidence rc where
      "hc_mint_execution_id (run_clock r) w0 = (execution_id, w)"
      "validate_execution (ra_kind (run_runtime r)) i envl = Inr ()"
      "ra_execute (run_runtime r) (runner_host_with exec r reg) i (build_context (run_env r) envl execution_id started)
         (cr_input (env_request envl)) w = (Inr out, w1)"
      "load_evidence_records reg (ro_emitted_evidence out) w1 = Inr evidence"
      "rc = succeeded_record i envl execution_id started finished millis out evidence"
      "persist_record reg rc w1 = (Inr (), w')" "res = Inr rc"
proof -
  obtain execution_id w where mint: "hc_mint_execution_id (run_clock r) w0 = (execution_id, w)"
    by fastforce
  define started where "started = hc_now_utc (run_clock r) w"
  define cx where "cx w = \<lparr>ua_installed = i, ua_envelope = envl, ua_execution_id = execution_id,
    ua_started_at_utc = started, ua_duration_ms = hc_elapsed_ms (run_clock r) w0 w\<rparr>" for w
  have ua: "ua_installed (cx w) = i" "ua_envelope (cx w) = envl" "ua_execution_id (cx w) = execution_id" for w
    by (simp_all add: cx_def)
  let ?run = "ra_execute (run_runtime r) (runner_host_with exec r reg) i
    (build_context (run_env r) envl execution_id started) (cr_input (env_request envl)) w"
  have eq: "(res, w') = (case validate_execution (ra_kind (run_runtime r)) i envl of
       Inl e \<Rightarrow> (case persist_unsuccessful_attempt r reg (cx w) (early_failure e) w of (e, w) \<Rightarrow> (Inl e, w))
     | Inr _ \<Rightarrow> (case ?run of
         (Inl f, w) \<Rightarrow> (case persist_unsuccessful_attempt r reg (cx w) f w of (e, w) \<Rightarrow> (Inl e, w))
       | (Inr out, w) \<Rightarrow> (case load_evidence_records reg (ro_emitted_evidence out) w of
           Inl e \<Rightarrow> (Inl e, w)
         | Inr evidence \<Rightarrow>
             (let rc = succeeded_record i envl execution_id started (hc_now_utc (run_clock r) w)
                         (hc_elapsed_ms (run_clock r) w0 w) out evidence
              in case persist_record reg rc w of (Inl e, w) \<Rightarrow> (Inl e, w) | (Inr _, w) \<Rightarrow> (Inr rc, w)))))"
    unfolding assms[symmetric] execute_with_def Let_def mint cx_def started_def prod.case ..
  show ?thesis
  proof (cases "validate_execution (ra_kind (run_runtime r)) i envl")
    case (Inl e)
    with eq rejected[OF mint Inl ua] show ?thesis
      by (auto split: prod.splits)
  next
    case ok: (Inr u)
    obtain b w1 where run: "?run = (b, w1)"
      by fastforce
    show ?thesis
    proof (cases b)
      case (Inl f)
      with eq ok run failed[OF mint _ _ ua] show ?thesis
        by (auto split: prod.splits)
    next
      case out: (Inr out)
      show ?thesis
      proof (cases "load_evidence_records reg (ro_emitted_evidence out) w1")
        case (Inl e)
        with eq ok run out unreadable[OF mint] load_evidence_records_Inl[OF Inl] show ?thesis
          by auto
      next
        case ev: (Inr evidence)
        define rc where "rc = succeeded_record i envl execution_id started (hc_now_utc (run_clock r) w1)
          (hc_elapsed_ms (run_clock r) w0 w1) out evidence"
        obtain p w2 where p: "persist_record reg rc w1 = (p, w2)"
          by fastforce
        show ?thesis
        proof (cases p)
          case (Inl e)
          with eq ok run out ev p persist_record_Inl[of reg rc w1 e w2] unreadable[OF mint] show ?thesis
            by (auto simp: rc_def Let_def)
        next
          case (Inr u)
          with eq ok run out ev p succeeded[OF mint _ _ ev rc_def] show ?thesis
            by (auto simp: rc_def Let_def)
        qed
      qed
    qed
  qed
qed

section \<open>What a record says\<close>

text \<open>The account an execution record gives of its run, as far as the envelope and the adapter fix it.\<close>

definition record_ok :: "'w HostEnv \<Rightarrow> ResolvedExecutionEnvelope \<Rightarrow> ExecutionRecord \<Rightarrow> bool" where
  "record_ok env envl rc \<longleftrightarrow>
     x_request rc = env_request envl \<and> x_granted_capabilities rc = env_granted_capabilities envl
     \<and> x_policy_decision rc = env_policy_decision envl \<and> x_parent_execution_id rc = env_parent_execution_id envl
     \<and> rcpt_uri (x_receipt rc) = execution_resource_uri (rcpt_execution_id (x_receipt rc))
     \<and> rcpt_trace_id (x_receipt rc) = cr_trace_id (env_request envl)
     \<and> rcpt_status (x_receipt rc) = x_status rc
     \<and> (x_status rc = Succeeded \<longleftrightarrow> x_output rc \<noteq> None) \<and> (x_status rc = Succeeded \<longleftrightarrow> x_termination rc = None)
     \<and> list_all (obs_authorized env (env_granted_capabilities envl)) (x_authority_observations rc)
     \<and> em_network_requests (x_metrics rc) \<le> max_network_requests (cr_budget (env_request envl))
     \<and> unat (em_network_requests (x_metrics rc)) = length (filter http_exercised (x_authority_observations rc))
     \<and> map ch_execution_id (x_child_executions rc) = concat (map obs_child (x_authority_observations rc))
     \<and> em_child_executions (x_metrics rc) = saturating_u16_len (length (x_child_executions rc))"

lemma status_from_error_not_succeeded [simp]: "status_from_error e \<noteq> Succeeded"
  by (simp add: status_from_error_def)

lemma unsuccessful_record_ok:
  assumes "account_ok env (build_context env envl xid started) (rf_authority_observations f)
      (rf_network_requests f) (rf_emitted_evidence f) (rf_child_executions f)" "ua_envelope cx = envl"
  shows "record_ok env envl (unsuccessful_record reg cx f finished w)"
  using assms by (simp add: record_ok_def unsuccessful_record_def Let_def build_receipt_def account_ok_def
      build_context_def)

lemma succeeded_record_ok:
  assumes "account_ok env (build_context env envl xid started) (ro_authority_observations out)
      (ro_network_requests out) (ro_emitted_evidence out) (ro_child_executions out)"
  shows "record_ok env envl (succeeded_record i envl xid started finished millis out evidence)"
  using assms by (simp add: record_ok_def succeeded_record_def build_receipt_def account_ok_def build_context_def)

lemma unsuccessful_attempt_recorded:
  assumes store: "record_store reg readback"
    and account: "account_ok (run_env r) (build_context (run_env r) envl xid started) (rf_authority_observations f)
      (rf_network_requests f) (rf_emitted_evidence f) (rf_child_executions f)"
    and cx: "ua_envelope cx = envl"
    and run: "persist_unsuccessful_attempt r reg cx f w = (e, w')"
  shows "persistence_failure e
    \<or> (\<exists>rc. xe_receipt e = Some (x_receipt rc) \<and> x_status rc \<in> {Failed, Rejected}
         \<and> reg_load_execution_record reg (rcpt_execution_id (x_receipt rc)) w' = readback rc
         \<and> record_ok (run_env r) envl rc)"
  using run
proof (cases rule: persist_unsuccessful_cases)
  case (stored rc)
  have "record_ok (run_env r) envl rc"
    unfolding stored(1) by (rule unsuccessful_record_ok[OF account cx])
  moreover have "x_status rc \<in> {Failed, Rejected}"
    by (simp add: stored(1) unsuccessful_record_def Let_def status_from_error_def)
  moreover have "xe_receipt e = Some (x_receipt rc)"
    by (simp add: stored(3) with_receipt_def)
  ultimately show ?thesis
    using record_store.persist_record_load[OF store stored(2)] by blast
qed simp

lemma execute_with_records:
  assumes store: "record_store reg readback"
    and adapter: "accountable_adapter (run_env r) (run_runtime r)"
    and url: "url_domains_not_ip (he_url_parse (run_env r))"
    and run: "execute_with exec r reg i envl w = (res, w')"
  shows "case res of
      Inr rc \<Rightarrow> reg_load_execution_record reg (rcpt_execution_id (x_receipt rc)) w' = readback rc
                \<and> record_ok (run_env r) envl rc \<and> x_status rc = Succeeded
    | Inl e \<Rightarrow> persistence_failure e
        \<or> (\<exists>rc. xe_receipt e = Some (x_receipt rc) \<and> x_status rc \<in> {Failed, Rejected}
             \<and> reg_load_execution_record reg (rcpt_execution_id (x_receipt rc)) w' = readback rc
             \<and> record_ok (run_env r) envl rc)"
proof -
  note ok = accountable_adapter.accounts[OF adapter runner_host.runtime_host_axioms url]
  show ?thesis
    using run
  proof (cases rule: execute_with_cases)
    case (rejected execution_id w1 e cx e')
    have "account_ok (run_env r) (build_context (run_env r) envl execution_id [])
      (rf_authority_observations (early_failure e)) (rf_network_requests (early_failure e))
      (rf_emitted_evidence (early_failure e)) (rf_child_executions (early_failure e))"
      by (simp add: early_failure_def account_ok_empty)
    from unsuccessful_attempt_recorded[OF store this rejected(4,6)] rejected(7) show ?thesis
      by simp
  next
    case (failed execution_id w1 started f w2 cx e')
    from ok[OF failed(3)] have "account_ok (run_env r) (build_context (run_env r) envl execution_id started)
      (rf_authority_observations f) (rf_network_requests f) (rf_emitted_evidence f) (rf_child_executions f)"
      by (simp add: runtime_result_ok_def)
    from unsuccessful_attempt_recorded[OF store this failed(5,7)] failed(8) show ?thesis
      by simp
  next
    case (unreadable execution_id w1 started out w2 e)
    then show ?thesis
      by simp
  next
    case (succeeded execution_id w1 started finished millis out w2 evidence rc)
    from ok[OF succeeded(3)] have "account_ok (run_env r) (build_context (run_env r) envl execution_id started)
      (ro_authority_observations out) (ro_network_requests out) (ro_emitted_evidence out) (ro_child_executions out)"
      by (simp add: runtime_result_ok_def)
    then have "record_ok (run_env r) envl rc"
      unfolding succeeded(5) by (rule succeeded_record_ok)
    moreover have "x_status rc = Succeeded"
      by (simp add: succeeded(5) succeeded_record_def)
    ultimately show ?thesis
      using record_store.persist_record_load[OF store succeeded(6)] succeeded(7) by simp
  qed
qed

section \<open>Children are attenuated\<close>

definition child_attenuated :: "ExecutionContext \<Rightarrow> ChildExecutionRecord \<Rightarrow> bool" where
  "child_attenuated cx c \<longleftrightarrow>
     ch_parent_execution_id c = cx_execution_id cx \<and> ch_trace_id c = cx_trace_id cx
     \<and> (\<forall>a. fst (access_capability a) \<noteq> HttpRequest \<longrightarrow> grants_allow (ch_granted_capabilities c) a
          \<longrightarrow> grants_allow (cx_granted_capabilities cx) a)"

text \<open>An executor whose records, returned or persisted, carry the grants and the trace of their envelope.\<close>

definition records_envelope :: "'w SkillRegistry \<Rightarrow> 'w executor \<Rightarrow> bool" where
  "records_envelope reg exec \<longleftrightarrow>
     (\<forall>i envl w res w'. exec i envl w = (res, w') \<longrightarrow>
        (case res of
           Inr rc \<Rightarrow> x_granted_capabilities rc = env_granted_capabilities envl
                     \<and> rcpt_trace_id (x_receipt rc) = cr_trace_id (env_request envl)
         | Inl e \<Rightarrow> (\<forall>rcpt rc. xe_receipt e = Some rcpt
                     \<longrightarrow> reg_load_execution_record reg (rcpt_execution_id rcpt) w' = Inr rc
                     \<longrightarrow> x_granted_capabilities rc = env_granted_capabilities envl
                       \<and> rcpt_trace_id (x_receipt rc) = cr_trace_id (env_request envl))))"

lemma unsuccessful_attempt_envelope:
  assumes "record_store reg Inr" "ua_envelope cx = envl"
    and run: "persist_unsuccessful_attempt r reg cx f w = (e, w')" "xe_receipt e = Some rcpt"
      "reg_load_execution_record reg (rcpt_execution_id rcpt) w' = Inr rc"
  shows "x_granted_capabilities rc = env_granted_capabilities envl
    \<and> rcpt_trace_id (x_receipt rc) = cr_trace_id (env_request envl)"
  using run(1)
proof (cases rule: persist_unsuccessful_cases)
  case (stored rc')
  have "rcpt = x_receipt rc'"
    using run(2) by (simp add: stored(3) with_receipt_def)
  then have "rc = rc'"
    using run(3) record_store.persist_record_load[OF assms(1) stored(2)] by simp
  then show ?thesis
    using assms(2) by (simp add: stored(1) unsuccessful_record_def Let_def build_receipt_def)
qed (use run(2) in simp)

lemma execute_with_envelope:
  assumes "record_store reg Inr"
  shows "records_envelope reg (execute_with exec r reg)"
  unfolding records_envelope_def
proof (intro allI impI)
  fix i envl w res w'
  assume "execute_with exec r reg i envl w = (res, w')"
  then show "case res of
      Inr rc \<Rightarrow> x_granted_capabilities rc = env_granted_capabilities envl
                \<and> rcpt_trace_id (x_receipt rc) = cr_trace_id (env_request envl)
    | Inl e \<Rightarrow> (\<forall>rcpt rc. xe_receipt e = Some rcpt
                \<longrightarrow> reg_load_execution_record reg (rcpt_execution_id rcpt) w' = Inr rc
                \<longrightarrow> x_granted_capabilities rc = env_granted_capabilities envl
                  \<and> rcpt_trace_id (x_receipt rc) = cr_trace_id (env_request envl))"
  proof (cases rule: execute_with_cases)
    case (rejected execution_id w1 e cx e')
    then show ?thesis
      using unsuccessful_attempt_envelope[OF assms rejected(4,6)] by simp
  next
    case (failed execution_id w1 started f w2 cx e')
    then show ?thesis
      using unsuccessful_attempt_envelope[OF assms failed(5,7)] by simp
  qed (simp_all add: succeeded_record_def build_receipt_def)
qed

lemma execute_depth_envelope:
  assumes "record_store reg Inr"
  shows "records_envelope reg (execute_depth n r reg)"
proof (cases n)
  case 0
  then show ?thesis
    by (auto simp: records_envelope_def ExecutionError_new_def)
next
  case (Suc m)
  then show ?thesis
    using execute_with_envelope[OF assms] by simp
qed

lemma child_envelope_attenuated:
  assumes "child_envelope reg parent cx sequence al input w = Inr (child, envl)"
  shows "cr_trace_id (env_request envl) = cx_trace_id cx"
    and "grants_allow (env_granted_capabilities envl) a \<Longrightarrow> fst (access_capability a) \<noteq> HttpRequest
      \<Longrightarrow> grants_allow (cx_granted_capabilities cx) a"
proof -
  obtain child_grants where derive: "derive_child_grants (capabilities (manifest child)) (cx_granted_capabilities cx) = Inr child_grants"
    and auth: "authorize_execution (reg_load_policy_config reg w) (reg_resolve_exact reg) child
       (build_child_caller_request cx sequence input child child_grants) (Some (cx_execution_id cx)) = Some (Inr envl)"
    using assms by (rule child_envelope_Inr)
  let ?req = "build_child_caller_request cx sequence input child child_grants"
  obtain policy declared where req: "env_request envl = ?req"
    and granted: "env_granted_capabilities envl = per_granted_capabilities (evaluate_policy child ?req declared policy)"
    using auth by (rule authorize_execution_Inr)
  show "cr_trace_id (env_request envl) = cx_trace_id cx"
    by (simp add: req build_child_caller_request_def)
  assume "grants_allow (env_granted_capabilities envl) a" "fst (access_capability a) \<noteq> HttpRequest"
  then have "grants_allow (cr_requested_capabilities ?req) a"
    unfolding granted using policy_within_request by blast
  then have "grants_allow child_grants a"
    by (simp add: build_child_caller_request_def)
  then show "grants_allow (cx_granted_capabilities cx) a"
    by (rule derive_child_within_parent[OF derive])
qed

lemma runner_host_children:
  assumes "records_envelope reg exec"
  shows "runtime_host_children (runner_host_with exec r reg) child_attenuated"
proof (intro runtime_host_children.intro runner_host.runtime_host_axioms runtime_host_children_axioms.intro)
  note rec = assms[unfolded records_envelope_def, rule_format]
  fix inst cx seq al inp w w' out
  assume "rh_invoke_dependency (runner_host_with exec r reg) inst cx seq al inp w = (Inr out, w')"
  then obtain child envl rc where env: "child_envelope reg inst cx seq al inp w = Inr (child, envl)"
    and run: "exec child envl w = (Inr rc, w')"
    and out: "co_record out = child_execution_record_from_execution_record al (cx_execution_id cx) rc"
    by (auto simp: runner_host_with_def invoke_dependency_with_def split: sum.splits prod.splits)
  show "child_attenuated cx (co_record out)"
    using rec[OF run] child_envelope_attenuated[OF env]
    by (auto simp: child_attenuated_def out child_execution_record_from_execution_record_def)
next
  note rec = assms[unfolded records_envelope_def, rule_format]
  fix inst cx seq al inp w w' e c
  assume call: "rh_invoke_dependency (runner_host_with exec r reg) inst cx seq al inp w = (Inl e, w')"
    and c: "ce_record e = Some c"
  show "child_attenuated cx c"
  proof (cases "child_envelope reg inst cx seq al inp w")
    case (Inl e')
    with call have "e' = e"
      by (simp add: runner_host_with_def invoke_dependency_with_def)
    with child_envelope_no_record[OF Inl] c show ?thesis
      by simp
  next
    case (Inr p)
    then obtain child envl where env: "child_envelope reg inst cx seq al inp w = Inr (child, envl)"
      by (cases p) auto
    then obtain e1 rcpt rc where run: "exec child envl w = (Inl e1, w')" "xe_receipt e1 = Some rcpt"
      and load: "reg_load_execution_record reg (rcpt_execution_id rcpt) w' = Inr rc"
      and cr: "c = child_execution_record_from_execution_record al (cx_execution_id cx) rc"
      using call c
      by (auto simp: runner_host_with_def invoke_dependency_with_def load_child_failure_record_def
          bind_eq_Some_conv split: sum.splits prod.splits)
    show ?thesis
      using rec[OF run(1)] run(2) load child_envelope_attenuated[OF env]
      by (auto simp: child_attenuated_def cr child_execution_record_from_execution_record_def)
  qed
qed

lemma execute_children_attenuated:
  assumes store: "record_store reg Inr"
    and adapter: "child_keeping_adapter (run_runtime r)"
    and run: "execute r reg i envl w = (Inr rc, w')" and c: "c \<in> set (x_child_executions rc)"
  shows "ch_parent_execution_id c = rcpt_execution_id (x_receipt rc)
    \<and> ch_trace_id c = rcpt_trace_id (x_receipt rc)
    \<and> (fst (access_capability a) \<noteq> HttpRequest \<longrightarrow> grants_allow (ch_granted_capabilities c) a
         \<longrightarrow> grants_allow (x_granted_capabilities rc) a)"
proof -
  let ?exec = "execute_depth (unat (max_child_executions (cr_budget (env_request envl)))) r reg"
  have host: "runtime_host_children (runner_host_with ?exec r reg) child_attenuated"
    by (rule runner_host_children[OF execute_depth_envelope[OF store]])
  have "execute_with ?exec r reg i envl w = (Inr rc, w')"
    using run by (simp add: execute_def)
  then show ?thesis
  proof (cases rule: execute_with_cases)
    case (succeeded xid w1 started finished millis out w2 evidence rc')
    have "list_all (child_attenuated (build_context (run_env r) envl xid started)) (ro_child_executions out)"
      using child_keeping_adapter.children[OF adapter host succeeded(3)] by simp
    moreover have "rc = rc'" "c \<in> set (ro_child_executions out)"
      using succeeded(5,7) c by (simp_all add: succeeded_record_def)
    ultimately show ?thesis
      by (auto simp: list_all_iff child_attenuated_def succeeded(5) succeeded_record_def build_receipt_def
          build_context_def)
  qed auto
qed

lemma execute_records:
  assumes "record_store reg readback" "accountable_adapter (run_env r) (run_runtime r)"
    and "url_domains_not_ip (he_url_parse (run_env r))" "execute r reg i envl w = (res, w')"
  shows "case res of
      Inr rc \<Rightarrow> reg_load_execution_record reg (rcpt_execution_id (x_receipt rc)) w' = readback rc
                \<and> record_ok (run_env r) envl rc \<and> x_status rc = Succeeded
    | Inl e \<Rightarrow> persistence_failure e
        \<or> (\<exists>rc. xe_receipt e = Some (x_receipt rc) \<and> x_status rc \<in> {Failed, Rejected}
             \<and> reg_load_execution_record reg (rcpt_execution_id (x_receipt rc)) w' = readback rc
             \<and> record_ok (run_env r) envl rc)"
  using execute_with_records[OF assms(1-3)] assms(4) by (simp add: execute_def)

section \<open>Refused envelopes never reach a runtime\<close>

lemma execute_refused:
  assumes "validate_execution (ra_kind (run_runtime r)) i envl = Inl e" "ra_kind rt = ra_kind (run_runtime r)"
  shows "execute r reg i envl w = execute (r\<lparr>run_runtime := rt\<rparr>) reg i envl w"
    "execute r reg i envl w = (res, w') \<Longrightarrow> \<exists>e'. res = Inl e'"
proof -
  have p: "persist_unsuccessful_attempt (r\<lparr>run_runtime := rt\<rparr>) = persist_unsuccessful_attempt r"
    by (simp add: fun_eq_iff persist_unsuccessful_attempt_def)
  show "execute r reg i envl w = execute (r\<lparr>run_runtime := rt\<rparr>) reg i envl w"
    using assms by (simp add: execute_def execute_with_def p Let_def)
  show "execute r reg i envl w = (res, w') \<Longrightarrow> \<exists>e'. res = Inl e'"
    using assms by (auto simp: execute_def execute_with_def Let_def split: prod.splits)
qed

end
