(* ===== verification/Guild_Execution.thy ===== *)
theory Guild_Execution
  imports Guild_Runner
begin

text \<open>
  What an execution guarantees (\<open>Runner::execute\<close> of \<open>crates/guild-runner/src/lib.rs\<close>): the claims about the
  runner and the whole run of a component that logs and invokes a child, on which they are applied.
\<close>

section \<open>Claims\<close>

text \<open>C9: The recursion of executions through the guests is well-founded: an execution is the body of
  \<open>Runner::execute\<close> with the execution itself running the children, and unrolling it once more than
  \<open>max_child_executions\<close> allows, or further, gives the same result whatever the components do.\<close>

theorem execution_recursion:
  assumes "run_runtime r = WasmtimeRuntimeAdapter env wt"
  shows "execute r reg i envl w = execute_with (execute r reg) r reg i envl w
    \<and> (\<forall>n. unat (max_child_executions (cr_budget (env_request envl))) < n
         \<longrightarrow> execute_depth n r reg i envl w = execute r reg i envl w)"
  using execute_unfold[of r] execute_depth_enough[of r] wasm_context.context_bound_adapter_axioms
  by (metis assms)



text \<open>C11: An envelope that validation refuses fails without touching the runtime: the result is the same for
  every runtime of the adapter's kind.\<close>

theorem refused_never_runs:
  assumes "validate_execution (ra_kind (run_runtime r)) i envl = Inl e"
  shows "\<exists>e' w'. execute r reg i envl w = (Inl e', w')
    \<and> (\<forall>f. execute (r\<lparr>run_runtime := \<lparr>ra_kind = ra_kind (run_runtime r), ra_execute = f\<rparr>\<rparr>) reg i envl w = (Inl e', w'))"
proof -
  obtain res w' where run: "execute r reg i envl w = (res, w')"
    by fastforce
  with execute_refused(2)[OF assms refl] obtain e' where "res = Inl e'"
    by blast
  with run execute_refused(1)[OF assms, of "\<lparr>ra_kind = ra_kind (run_runtime r), ra_execute = f\<rparr>" for f] show ?thesis
    by (metis RuntimeAdapter.select_convs(1))
qed


section \<open>A run with a child\<close>

text \<open>A host whose state is a counter for execution identifiers and the records persisted so far.\<close>

definition sample_registry :: "InstalledSkill list \<Rightarrow> (nat \<times> ExecutionRecord list) SkillRegistry" where
  "sample_registry installed =
     (let absent = \<lparr>re_code = ''not-found'', re_message = [], re_detail = None\<rparr>
      in \<lparr>reg_resolve_exact = resolve_exact installed,
          reg_persist_execution_record = (\<lambda>rc (n, rcs). (Inr (), n, rc # rcs)),
          reg_load_execution_record = (\<lambda>xid (n, rcs). ok_or absent
            (find (\<lambda>rc. rcpt_execution_id (x_receipt rc) = xid) rcs)),
          reg_store_evidence = (\<lambda>_ _ w. (Inl absent, w)), reg_load_evidence_record = (\<lambda>_ _. Inl absent),
          reg_read_resource = (\<lambda>_ _. Inl absent), reg_load_policy_config = (\<lambda>_. Inr LocalPolicyConfig_default)\<rparr>)"

text \<open>The component of the skill \<open>d1\<close> logs and calls its peer; any other returns at once.\<close>

definition sample_output :: WitSkillOutput where
  "sample_output = \<lparr>wo_summary = ''ok'', wo_structured = ''null'', wo_diagnostics = [], wo_effects = [],
     wo_evidence = []\<rparr>"

definition sample_component :: Component where
  "sample_component = \<lparr>comp_imports = [(''guild:skill/inspect-host@1.0.0'', CI_ComponentInstance)],
     comp_instantiate_error = None, comp_run = (\<lambda>cx input.
       if rs_digest (ix_skill cx) = ''d1''
       then Guest_Log Info ''hi'' (Guest_Invoke ''peer'' ''null'' (\<lambda>_. Guest_Return (Inr sample_output)))
       else Guest_Return (Inr sample_output))\<rparr>"

definition sample_host_env :: "(nat \<times> ExecutionRecord list) HostEnv" where
  "sample_host_env = \<lparr>he_url_parse = sample_url_parse, he_url_join = (\<lambda>u l. sample_url_parse l), he_ip_error = (\<lambda>s. s),
     he_dns = (\<lambda>_. sample_dns), he_json_text = (\<lambda>_. ''null''), he_json_parse = (\<lambda>_. Inr JNull),
     he_json_stream = (\<lambda>_. None), he_sha256_hex = (\<lambda>_. ''00'')\<rparr>"

definition sample_wasmtime :: "(nat \<times> ExecutionRecord list) Wasmtime" where
  "sample_wasmtime = \<lparr>wt_load = (\<lambda>_ _. Inr sample_component), wt_wasi_link_error = None, wt_host_link_error = None,
     wt_context = (\<lambda>_. [])\<rparr>"

definition sample_runner :: "(nat \<times> ExecutionRecord list) Runner" where
  "sample_runner = \<lparr>run_env = sample_host_env, run_runtime = WasmtimeRuntimeAdapter sample_host_env sample_wasmtime,
     run_transport = \<lparr>tr_build_error = (\<lambda>_. None), tr_send = (\<lambda>_ _ _ w. (Inl ConnectionTimeout, w)),
       tr_error_debug = (\<lambda>_. [])\<rparr>, run_http_replay_catalog = None,
     run_clock = \<lparr>hc_mint_execution_id = (\<lambda>(n, rcs). (CHR ''x'' # replicate n CHR ''i'', Suc n, rcs)),
       hc_now_utc = (\<lambda>_. ''2026-01-01T00:00:00Z''), hc_elapsed_ms = (\<lambda>_ _. 1)\<rparr>\<rparr>"

lemma execute_with_succeeds:
  assumes "validate_execution (ra_kind (run_runtime r)) i envl = Inr u" "hc_mint_execution_id (run_clock r) w = (xid, wa)"
    "ra_execute (run_runtime r) (runner_host_with exec r reg) i
       (build_context (run_env r) envl xid (hc_now_utc (run_clock r) wa)) (cr_input (env_request envl)) wa = (Inr out, wb)"
    "load_evidence_records reg (ro_emitted_evidence out) wb = Inr evidence"
    "rc = succeeded_record i envl xid (hc_now_utc (run_clock r) wa) (hc_now_utc (run_clock r) wb)
       (hc_elapsed_ms (run_clock r) w wb) out evidence"
    "persist_record reg rc wb = (Inr v, w3)"
  shows "execute_with exec r reg i envl w = (Inr rc, w3)"
  using assms by (simp add: execute_with_def Let_def)

abbreviation "sample_peer \<equiv> sample_linked ''d2'' ''d1'' []"

definition sample_context_of :: ExecutionContext where
  "sample_context_of = build_context sample_host_env sample_envelope ''x'' ''2026-01-01T00:00:00Z''"

definition sample_child_envelope :: ResolvedExecutionEnvelope where
  "sample_child_envelope =
     (let req = build_child_caller_request sample_context_of 1 JNull sample_peer \<lparr>grants = []\<rparr>;
          ev = evaluate_policy sample_peer req (s_capabilities sample_source) LocalPolicyConfig_default
      in \<lparr>env_request = req, env_resolved_skill = resolved_ref sample_peer,
          env_granted_capabilities = per_granted_capabilities ev, env_policy_decision = per_decision ev,
          env_parent_execution_id = Some ''x''\<rparr>)"

lemma sample_peer_lookup:
  "reg_resolve_exact (sample_registry sample_cycle) = resolve_exact sample_cycle"
  "reg_load_policy_config (sample_registry sample_cycle) w = Inr LocalPolicyConfig_default"
  by (simp_all add: sample_registry_def Let_def)

lemma sample_peer_surface:
  "declared_capability_surface (resolve_exact sample_cycle) sample_peer = Some (Inr (s_capabilities sample_source))"
proof -
  have "resolve_exact sample_cycle \<lparr>rs_key = sample_key, rs_version = ''1.0.0'', rs_digest = ''d1''\<rparr>
     = Inr (hd sample_cycle)"
    by (simp add: resolve_exact_def sample_cycle_def sample_linked_fields)
  then show ?thesis
    by (simp add: declared_capability_surface_def sample_linked_fields collect_surface_Cons sample_cycle_lookup
      sample_cycle_def)
qed

lemma sample_invocation_allowed:
  "find (\<lambda>d. dep_alias d = ''peer'') (dependencies (manifest (hd sample_cycle)))
     = Some \<lparr>dep_alias = ''peer'', dep_skill = resolved_ref sample_peer\<rparr>"
  "authorize_invoke_dependency (cx_granted_capabilities sample_context_of) ''peer'' = Inr ()"
  "max_child_executions (cx_budget sample_context_of) \<noteq> 0"
  "resolve_exact sample_cycle (resolved_ref sample_peer) = Inr sample_peer"
  "derive_child_grants (capabilities (manifest sample_peer)) (cx_granted_capabilities sample_context_of) = Inr \<lparr>grants = []\<rparr>"
  "cx_execution_id sample_context_of = ''x''"
  by code_simp+

lemma sample_child_admitted: "child_envelope (sample_registry sample_cycle) (hd sample_cycle) sample_context_of 1 ''peer'' JNull w
   = Inr (sample_peer, sample_child_envelope)"
  by (simp add: child_envelope_def find_declared_dependency_def sample_invocation_allowed load_child_installed_def ok_or_def
      res_bind_def map_err_def sample_peer_lookup authorize_execution_def sample_peer_surface sample_child_envelope_def Let_def)

definition sample_skill_output :: SkillOutput where
  "sample_skill_output = the (res_ok (from_wit_skill_output sample_host_env sample_output))"

lemma sample_leaf_run:
  "validate_execution WasmComponent sample_peer sample_child_envelope = Inr ()"
  "wasm_execute sample_host_env sample_wasmtime host sample_peer
     (build_context sample_host_env sample_child_envelope xid t) JNull w
   = (Inr \<lparr>ro_output = sample_skill_output, ro_emitted_evidence = [], ro_child_executions = [],
           ro_authority_observations = [], ro_network_requests = 0\<rparr>, w)"
  "cr_input (env_request sample_child_envelope) = JNull"
  by code_simp+

definition sample_child_record :: ExecutionRecord where
  "sample_child_record = succeeded_record sample_peer sample_child_envelope ''xi'' ''2026-01-01T00:00:00Z''
     ''2026-01-01T00:00:00Z'' 1 \<lparr>ro_output = sample_skill_output, ro_emitted_evidence = [], ro_child_executions = [],
        ro_authority_observations = [], ro_network_requests = 0\<rparr> []"

lemma sample_runner_fields:
  "ra_kind (run_runtime sample_runner) = WasmComponent"
  "ra_execute (run_runtime sample_runner) = wasm_execute sample_host_env sample_wasmtime"
  "run_env sample_runner = sample_host_env" "hc_now_utc (run_clock sample_runner) w = ''2026-01-01T00:00:00Z''"
  "hc_elapsed_ms (run_clock sample_runner) w w' = 1"
  "hc_mint_execution_id (run_clock sample_runner) (n, rcs) = (CHR ''x'' # replicate n CHR ''i'', Suc n, rcs)"
  by (simp_all add: sample_runner_def WasmtimeRuntimeAdapter_def)

lemma sample_child_run:
  "execute_with exec sample_runner (sample_registry sample_cycle) sample_peer sample_child_envelope (Suc 0, [])
   = (Inr sample_child_record, Suc (Suc 0), [sample_child_record])"
  by (rule execute_with_succeeds[where xid = "''xi''" and wa = "(Suc (Suc 0), [])" and wb = "(Suc (Suc 0), [])"])
    (simp_all add: sample_runner_fields sample_leaf_run sample_child_record_def
     load_evidence_records_def persist_record_def sample_registry_def Let_def map_err_def dec_of_nat.simps)


lemma sample_parent_admitted:
  "validate_execution WasmComponent (hd sample_cycle) sample_envelope = Inr ()"
  "cr_input (env_request sample_envelope) = JNull"
  by code_simp+

lemma sample_component_loads: "instantiate sample_wasmtime (hd sample_cycle) w = Inr sample_component"
proof -
  have "entrypoint (runtime (manifest (hd sample_cycle))) = INSPECT_WORLD_ENTRYPOINT"
    by code_simp
  moreover have "validate_component_import_surface sample_component = Inr ()"
    by (simp add: validate_component_import_surface_def sample_component_def Let_def ACTIVE_INSPECT_GUILD_IMPORTS_def
      GUILD_COMPONENT_IMPORT_PREFIX_def json_obj_def)
  ultimately show ?thesis
    by (simp add: instantiate_def sample_wasmtime_def res_bind_def map_err_def sample_component_def)
qed

lemma sample_parent_steps:
  "he_json_parse sample_host_env s = Inr JNull"
  "authorize_log (cx_granted_capabilities sample_context_of) Info = Inr ()"
  "from_wit_skill_output sample_host_env sample_output = Inr sample_skill_output"
  "validate_emitted_evidence sample_skill_output [] = Inr ()"
  "next_child_sequence 0 = Inr 1"
  subgoal by (simp add: sample_host_env_def)
  subgoal by code_simp
  subgoal by code_simp
  subgoal by code_simp
  subgoal by (simp add: next_child_sequence_def checked_add_def)
  done

lemma sample_guest_context:
  "\<exists>c. project_execution_context_to_inspect_abi sample_context_of = Inr c \<and> rs_digest (ix_skill c) = ''d1''"
  by (rule exI[where x="the (res_ok (project_execution_context_to_inspect_abi sample_context_of))"]) code_simp


lemma sample_parent_run:
  assumes "rh_invoke_dependency host (hd sample_cycle) sample_context_of 1 ''peer'' JNull w = (Inr out, w')"
  shows "wasm_execute sample_host_env sample_wasmtime host (hd sample_cycle) sample_context_of JNull w
   = (Inr \<lparr>ro_output = sample_skill_output, ro_emitted_evidence = [], ro_child_executions = [co_record out],
           ro_authority_observations =
             [Obs_Log Exercised \<lparr>lo_level = Info, lo_denial = None\<rparr>,
              Obs_Invoke Exercised \<lparr>io_alias = ''peer'', io_child_execution_id = Some (ch_execution_id (co_record out)),
                io_child_status = Some (ch_status (co_record out)), io_denial = None, io_result_error = None\<rparr>],
           ro_network_requests = 0\<rparr>, w')"
proof -
  obtain c where c: "project_execution_context_to_inspect_abi sample_context_of = Inr c" "rs_digest (ix_skill c) = ''d1''"
    using sample_guest_context by blast
  have "comp_run sample_component c s =
     Guest_Log Info ''hi'' (Guest_Invoke ''peer'' ''null'' (\<lambda>_. Guest_Return (Inr sample_output)))" for s
    using c(2) by (simp add: sample_component_def)
  note run = this
  show ?thesis
    by (simp add: run assms c(1) sample_parent_steps wasm_execute_def sample_component_loads host_log_def host_invoke_dependency_def WasmStoreState_new_def ws_grants_def
      push_exercised_log_def push_exercised_invoke_skill_def push_observation_def Let_def finish_run_def map_err_def res_bind_def)
qed

definition sample_record :: ExecutionRecord where
  "sample_record = succeeded_record (hd sample_cycle) sample_envelope ''x'' ''2026-01-01T00:00:00Z''
     ''2026-01-01T00:00:00Z'' 1
     \<lparr>ro_output = sample_skill_output, ro_emitted_evidence = [],
      ro_child_executions = [child_execution_record_from_execution_record ''peer'' ''x'' sample_child_record],
      ro_authority_observations =
        [Obs_Log Exercised \<lparr>lo_level = Info, lo_denial = None\<rparr>,
         Obs_Invoke Exercised \<lparr>io_alias = ''peer'', io_child_execution_id = Some ''xi'',
           io_child_status = Some Succeeded, io_denial = None, io_result_error = None\<rparr>],
      ro_network_requests = 0\<rparr> []"

lemma sample_child_call:
  "invoke_dependency_with (execute_with exec sample_runner (sample_registry sample_cycle)) (sample_registry sample_cycle)
     (hd sample_cycle) sample_context_of 1 ''peer'' JNull (Suc 0, [])
   = (Inr \<lparr>co_output = sample_skill_output,
           co_record = child_execution_record_from_execution_record ''peer'' ''x'' sample_child_record\<rparr>,
      Suc (Suc 0), [sample_child_record])"
proof -
  have "x_output sample_child_record = Some sample_skill_output"
    by (simp add: sample_child_record_def succeeded_record_def)
  then show ?thesis
    by (simp add: invoke_dependency_with_def sample_child_admitted sample_child_run sample_invocation_allowed(6))
qed

lemma sample_run:
  "execute sample_runner (sample_registry sample_cycle) (hd sample_cycle) sample_envelope (0, [])
   = (Inr sample_record, Suc (Suc 0), [sample_record, sample_child_record])"
proof -
  let ?reg = "sample_registry sample_cycle"
  obtain k where k: "unat (max_child_executions (cr_budget (env_request sample_envelope))) = Suc k"
    using sample_invocation_allowed(3)
    by (cases "unat (max_child_executions (cr_budget (env_request sample_envelope)))")
      (auto simp: sample_context_of_def build_context_def unat_eq_0)
  let ?exec = "execute_with (execute_depth k sample_runner ?reg) sample_runner ?reg"
  have ctx: "build_context sample_host_env sample_envelope ''x'' ''2026-01-01T00:00:00Z'' = sample_context_of"
    by (simp add: sample_context_of_def)
  have "execute_with ?exec sample_runner ?reg (hd sample_cycle) sample_envelope (0, [])
    = (Inr sample_record, Suc (Suc 0), [sample_record, sample_child_record])"
  proof (rule execute_with_succeeds[where xid = "''x''" and wa = "(Suc 0, [])" and wb = "(Suc (Suc 0), [sample_child_record])"])
    have "rh_invoke_dependency (runner_host_with ?exec sample_runner ?reg) (hd sample_cycle) sample_context_of 1
        ''peer'' JNull (Suc 0, []) = (Inr \<lparr>co_output = sample_skill_output,
           co_record = child_execution_record_from_execution_record ''peer'' ''x'' sample_child_record\<rparr>,
      Suc (Suc 0), [sample_child_record])"
      by (simp add: runner_host_with_def sample_child_call)
    note run = sample_parent_run[OF this]
    have "ch_execution_id (child_execution_record_from_execution_record ''peer'' ''x'' sample_child_record) = ''xi''"
      "ch_status (child_execution_record_from_execution_record ''peer'' ''x'' sample_child_record) = Succeeded"
      by (simp_all add: child_execution_record_from_execution_record_def sample_child_record_def succeeded_record_def
        build_receipt_def)
    with run show "ra_execute (run_runtime sample_runner) (runner_host_with ?exec sample_runner ?reg) (hd sample_cycle)
       (build_context (run_env sample_runner) sample_envelope ''x'' (hc_now_utc (run_clock sample_runner) (Suc 0, [])))
       (cr_input (env_request sample_envelope)) (Suc 0, [])
      = (Inr \<lparr>ro_output = sample_skill_output, ro_emitted_evidence = [],
      ro_child_executions = [child_execution_record_from_execution_record ''peer'' ''x'' sample_child_record],
      ro_authority_observations =
        [Obs_Log Exercised \<lparr>lo_level = Info, lo_denial = None\<rparr>,
         Obs_Invoke Exercised \<lparr>io_alias = ''peer'', io_child_execution_id = Some ''xi'',
           io_child_status = Some Succeeded, io_denial = None, io_result_error = None\<rparr>],
      ro_network_requests = 0\<rparr>, Suc (Suc 0), [sample_child_record])"
      by (simp add: sample_runner_fields sample_parent_admitted ctx)
  qed (simp_all add: sample_runner_fields sample_parent_admitted load_evidence_records_def persist_record_def
      sample_registry_def Let_def map_err_def sample_record_def)
  then show ?thesis
    by (simp add: execute_def k)
qed

lemma sample_store: "record_store (sample_registry installed) Inr"
  by unfold_locales (auto simp: sample_registry_def Let_def ok_or_def)

lemma sample_runtime: "run_runtime sample_runner = WasmtimeRuntimeAdapter (run_env sample_runner) sample_wasmtime"
  by (simp add: sample_runner_def)

theorem execution_recursion_witness:
  "execute_depth 1000000 sample_runner (sample_registry sample_cycle) (hd sample_cycle) sample_envelope (0, [])
     = (Inr sample_record, Suc (Suc 0), [sample_record, sample_child_record])"
proof -
  have "unat (max_child_executions (cr_budget (env_request sample_envelope))) < 1000000"
    using unsigned_less[where ?'a = nat, of "max_child_executions (cr_budget (env_request sample_envelope))"] by simp
  with execution_recursion[OF sample_runtime] sample_run show ?thesis
    by simp
qed



theorem refused_never_runs_witness:
  "\<exists>e' w'. execute sample_runner (sample_registry sample_cycle) (hd sample_cycle)
       (sample_envelope\<lparr>env_request := sample_caller\<lparr>cr_mode := Apply\<rparr>\<rparr>) (0, []) = (Inl e', w')"
proof -
  let ?envl = "sample_envelope\<lparr>env_request := sample_caller\<lparr>cr_mode := Apply\<rparr>\<rparr>"
  have "isl (validate_execution WasmComponent (hd sample_cycle) ?envl)"
    by code_simp
  then obtain e where "validate_execution (ra_kind (run_runtime sample_runner)) (hd sample_cycle) ?envl = Inl e"
    by (auto simp: isl_def sample_runner_fields)
  from refused_never_runs[OF this] show ?thesis
    by blast
qed


end
