(* ===== verification/Guild_Fs.thy ===== *)
theory Guild_Fs
  imports Guild_Registry "HOL-Library.AList"
begin

text \<open>
  The file system the registry works on, as far as \<open>std::fs\<close> is used by
  \<open>crates/guild-registry/src/lib.rs\<close>: regular files and directories under component paths, and the
  JSON writers of the registry.

  Every operation that changes the file system can fail: the state carries the faults of the coming
  operations, before they take effect or in the middle of it, so that a write may leave a torn file.
  Reading fails on missing entries, on directories and on text that is not UTF-8; permissions are not
  modelled.
\<close>

section \<open>Entries and operations\<close>

datatype Entry = File string | Dir

datatype IoError = Io_NotFound | Io_AlreadyExists | Io_IsADirectory | Io_NotADirectory | Io_InvalidData
  | Io_Other string

datatype IoFault = No_Fault | Fault_Before string | Fault_Torn nat string

record Fs =
  fs_entries :: "(path \<times> Entry) list"
  fs_faults :: "IoFault list"
  fs_minted :: nat

definition fs_get :: "Fs \<Rightarrow> path \<Rightarrow> Entry option" where
  "fs_get fs p = map_of (fs_entries fs) p"

definition fs_put :: "path \<Rightarrow> Entry \<Rightarrow> Fs \<Rightarrow> Fs" where
  "fs_put p e fs = fs\<lparr>fs_entries := AList.update p e (fs_entries fs)\<rparr>"

definition fs_del :: "path \<Rightarrow> Fs \<Rightarrow> Fs" where
  "fs_del p fs = fs\<lparr>fs_entries := AList.delete p (fs_entries fs)\<rparr>"

definition path_exists :: "Fs \<Rightarrow> path \<Rightarrow> bool" where
  "path_exists fs p \<longleftrightarrow> fs_get fs p \<noteq> None"

fun path_display :: "path \<Rightarrow> string" where
  "path_display [] = ''/''"
| "path_display [c] = ''/'' @ c"
| "path_display (c # cs) = ''/'' @ c @ path_display cs"

text \<open>Results that thread the file system, and what a caller does with the error.\<close>

type_synonym ('e, 'a) io = "('e + 'a) \<times> Fs"

definition io_bind :: "('e, 'a) io \<Rightarrow> ('a \<Rightarrow> Fs \<Rightarrow> ('e, 'b) io) \<Rightarrow> ('e, 'b) io" where
  "io_bind r k = (case r of (Inl e, fs) \<Rightarrow> (Inl e, fs) | (Inr x, fs) \<Rightarrow> k x fs)"

definition io_err :: "('d \<Rightarrow> 'e) \<Rightarrow> ('d, 'a) io \<Rightarrow> ('e, 'a) io" where
  "io_err f r = (map_err f (fst r), snd r)"

definition next_fault :: "Fs \<Rightarrow> IoFault \<times> Fs" where
  "next_fault fs = (case fs_faults fs of [] \<Rightarrow> (No_Fault, fs) | f # rest \<Rightarrow> (f, fs\<lparr>fs_faults := rest\<rparr>))"

definition read_bytes :: "Fs \<Rightarrow> path \<Rightarrow> IoError + string" where
  "read_bytes fs p =
     (case fs_get fs p of None \<Rightarrow> Inl Io_NotFound | Some Dir \<Rightarrow> Inl Io_IsADirectory | Some (File b) \<Rightarrow> Inr b)"

definition read_to_string :: "Fs \<Rightarrow> path \<Rightarrow> IoError + string" where
  "read_to_string fs p = res_bind (read_bytes fs p) (\<lambda>b. if utf8_valid b then Inr b else Inl Io_InvalidData)"

definition ensure_dirs :: "path list \<Rightarrow> Fs \<Rightarrow> Fs" where
  "ensure_dirs ps fs = foldl (\<lambda>fs p. if path_exists fs p then fs else fs_put p Dir fs) fs ps"

definition create_dir_all :: "path \<Rightarrow> Fs \<Rightarrow> (IoError, unit) io" where
  "create_dir_all p fs =
     (case next_fault fs of
        (Fault_Before e, fs) \<Rightarrow> (Inl (Io_Other e), fs)
      | (Fault_Torn n e, fs) \<Rightarrow> (Inl (Io_Other e), ensure_dirs (take n (prefixes p)) fs)
      | (No_Fault, fs) \<Rightarrow>
          if list_all (\<lambda>q. fs_get fs q \<in> {None, Some Dir}) (prefixes p)
          then (Inr (), ensure_dirs (prefixes p) fs)
          else (Inl Io_NotADirectory, fs))"

text \<open>Whether a file can be opened for writing at a path, before its contents change.\<close>

definition open_write :: "path \<Rightarrow> Fs \<Rightarrow> IoError + unit" where
  "open_write p fs =
     (if fs_get fs p = Some Dir then Inl Io_IsADirectory
      else if fs_get fs (butlast p) \<noteq> Some Dir then Inl Io_NotFound else Inr ())"

definition fs_write :: "path \<Rightarrow> string \<Rightarrow> Fs \<Rightarrow> (IoError, unit) io" where
  "fs_write p b fs =
     (case next_fault fs of
        (Fault_Before e, fs) \<Rightarrow> (Inl (Io_Other e), fs)
      | (f, fs) \<Rightarrow>
          (case open_write p fs of
             Inl e \<Rightarrow> (Inl e, fs)
           | Inr _ \<Rightarrow>
               (case f of
                  Fault_Torn n e \<Rightarrow> (Inl (Io_Other e), fs_put p (File (take n b)) fs)
                | _ \<Rightarrow> (Inr (), fs_put p (File b) fs))))"

definition create_new :: "path \<Rightarrow> Fs \<Rightarrow> (IoError, unit) io" where
  "create_new p fs =
     (case next_fault fs of
        (No_Fault, fs) \<Rightarrow>
          if path_exists fs p then (Inl Io_AlreadyExists, fs)
          else if fs_get fs (butlast p) \<noteq> Some Dir then (Inl Io_NotFound, fs)
          else (Inr (), fs_put p (File []) fs)
      | (Fault_Before e, fs) \<Rightarrow> (Inl (Io_Other e), fs)
      | (Fault_Torn _ e, fs) \<Rightarrow> (Inl (Io_Other e), fs))"

definition write_all :: "path \<Rightarrow> string \<Rightarrow> Fs \<Rightarrow> (IoError, unit) io" where
  "write_all p b fs =
     (case next_fault fs of
        (No_Fault, fs) \<Rightarrow> (Inr (), fs_put p (File b) fs)
      | (Fault_Before e, fs) \<Rightarrow> (Inl (Io_Other e), fs)
      | (Fault_Torn n e, fs) \<Rightarrow> (Inl (Io_Other e), fs_put p (File (take n b)) fs))"

definition sync_all :: "Fs \<Rightarrow> (IoError, unit) io" where
  "sync_all fs =
     (case next_fault fs of
        (No_Fault, fs) \<Rightarrow> (Inr (), fs)
      | (Fault_Before e, fs) \<Rightarrow> (Inl (Io_Other e), fs)
      | (Fault_Torn _ e, fs) \<Rightarrow> (Inl (Io_Other e), fs))"

definition remove_file :: "path \<Rightarrow> Fs \<Rightarrow> (IoError, unit) io" where
  "remove_file p fs =
     (case next_fault fs of
        (No_Fault, fs) \<Rightarrow>
          (case fs_get fs p of
             None \<Rightarrow> (Inl Io_NotFound, fs)
           | Some Dir \<Rightarrow> (Inl Io_IsADirectory, fs)
           | Some (File _) \<Rightarrow> (Inr (), fs_del p fs))
      | (Fault_Before e, fs) \<Rightarrow> (Inl (Io_Other e), fs)
      | (Fault_Torn _ e, fs) \<Rightarrow> (Inl (Io_Other e), fs))"

text \<open>The entries of a directory, with their names, in no particular order.\<close>

definition read_dir :: "Fs \<Rightarrow> path \<Rightarrow> IoError + (string \<times> Entry) list" where
  "read_dir fs d =
     (case fs_get fs d of
        None \<Rightarrow> Inl Io_NotFound
      | Some (File _) \<Rightarrow> Inl Io_NotADirectory
      | Some Dir \<Rightarrow>
          Inr (map (\<lambda>(p, e). (last p, e)) (filter (\<lambda>(p, e). p \<noteq> [] \<and> butlast p = d) (AList.clearjunk (fs_entries fs)))))"

section \<open>Registry errors and JSON files\<close>

definition RegistryError_new :: "string \<Rightarrow> string \<Rightarrow> RegistryError" where
  "RegistryError_new code msg = \<lparr>re_code = code, re_message = msg, re_detail = None\<rparr>"

definition registry_detail :: "json \<Rightarrow> RegistryError \<Rightarrow> RegistryError" where
  "registry_detail d e = e\<lparr>re_detail := Some d\<rparr>"

text \<open>The error with the text of its cause, which most failures of the registry report.\<close>

definition caused_by :: "string \<Rightarrow> string \<Rightarrow> string \<Rightarrow> RegistryError" where
  "caused_by code msg cause = registry_detail (JString cause) (RegistryError_new code msg)"

text \<open>
  \<open>write_json\<close> and \<open>write_json_new\<close> take the text of \<open>serde_json::to_vec_pretty\<close>, or its error, and
  \<open>io_text\<close>, the rendering of I/O errors.
\<close>

definition json_parent :: "(IoError \<Rightarrow> string) \<Rightarrow> path \<Rightarrow> Fs \<Rightarrow> (RegistryError, unit) io" where
  "json_parent io_text p fs =
     io_err (\<lambda>e. caused_by ''json-write-dir-failed'' ''failed to create JSON parent directory'' (io_text e))
       (create_dir_all (butlast p) fs)"

definition json_text :: "string + string \<Rightarrow> Fs \<Rightarrow> (RegistryError, string) io" where
  "json_text text fs = (map_err (caused_by ''json-serialize-failed'' ''failed to serialize JSON'') text, fs)"

definition write_json :: "(IoError \<Rightarrow> string) \<Rightarrow> path \<Rightarrow> string + string \<Rightarrow> Fs \<Rightarrow> (RegistryError, unit) io" where
  "write_json io_text p text fs =
     io_bind (json_text text fs) (\<lambda>bytes fs.
     io_bind (json_parent io_text p fs) (\<lambda>_ fs.
     io_err (\<lambda>e. caused_by ''json-write-failed'' ''failed to write JSON file'' (io_text e)) (fs_write p bytes fs)))"

definition write_json_new ::
  "(IoError \<Rightarrow> string) \<Rightarrow> path \<Rightarrow> string + string \<Rightarrow> string \<Rightarrow> string \<Rightarrow> Fs \<Rightarrow> (RegistryError, unit) io" where
  "write_json_new io_text p text exists_code exists_message fs =
     io_bind (json_text text fs) (\<lambda>bytes fs.
     io_bind (json_parent io_text p fs) (\<lambda>_ fs.
     io_bind (io_err (\<lambda>e. if e = Io_AlreadyExists then caused_by exists_code exists_message (path_display p)
                     else caused_by ''json-write-failed'' ''failed to write JSON file'' (io_text e))
                (create_new p fs)) (\<lambda>_ fs.
     io_bind (io_err (\<lambda>e. caused_by ''json-write-failed'' ''failed to write JSON file'' (io_text e))
                (write_all p bytes fs)) (\<lambda>_ fs.
     io_err (\<lambda>e. caused_by ''json-write-failed'' ''failed to sync JSON file'' (io_text e)) (sync_all fs)))))"

section \<open>Reading after writing\<close>

lemma fs_get_put [simp]: "fs_get (fs_put p e fs) q = (if q = p then Some e else fs_get fs q)"
  by (simp add: fs_get_def fs_put_def update_conv')

lemma fs_get_del [simp]: "fs_get (fs_del p fs) q = (if q = p then None else fs_get fs q)"
  by (simp add: fs_get_def fs_del_def delete_conv')

lemma fs_get_faults [simp]:
  "fs_get (fs\<lparr>fs_faults := fl\<rparr>) p = fs_get fs p" "fs_get (fs\<lparr>fs_minted := n\<rparr>) p = fs_get fs p"
  by (simp_all add: fs_get_def)

lemma next_fault_get [simp]: "next_fault fs = (f, fs') \<Longrightarrow> fs_get fs' = fs_get fs"
  by (auto simp: next_fault_def fun_eq_iff split: list.splits)

lemma ensure_dirs_get:
  "fs_get (ensure_dirs ps fs) q = (if fs_get fs q = None \<and> q \<in> set ps then Some Dir else fs_get fs q)"
  by (induction ps arbitrary: fs) (auto simp: ensure_dirs_def path_exists_def)

text \<open>
  One state extends another when every entry of the one is still there unchanged. Creating
  directories and files only extends the state, whatever fault occurs.
\<close>

definition fs_extends :: "Fs \<Rightarrow> Fs \<Rightarrow> bool" where
  "fs_extends fs fs' \<longleftrightarrow> (\<forall>p e. fs_get fs p = Some e \<longrightarrow> fs_get fs' p = Some e)"

lemma fs_extends_refl [simp]: "fs_extends fs fs"
  by (simp add: fs_extends_def)

lemma fs_extends_trans [trans]: "fs_extends a b \<Longrightarrow> fs_extends b c \<Longrightarrow> fs_extends a c"
  by (simp add: fs_extends_def)

lemma create_dir_all_extends: "create_dir_all p fs = (r, fs') \<Longrightarrow> fs_extends fs fs'"
  by (auto simp: create_dir_all_def fs_extends_def ensure_dirs_get split: prod.splits IoFault.splits if_splits)

lemma create_dir_all_get:
  "create_dir_all p fs = (r, fs')
     \<Longrightarrow> fs_get fs' q = fs_get fs q \<or> (fs_get fs q = None \<and> fs_get fs' q = Some Dir \<and> prefix q p)"
  using in_set_takeD[of q _ "prefixes p"]
  by (auto simp: create_dir_all_def ensure_dirs_get split: prod.splits IoFault.splits if_splits)

lemma create_new_Inr:
  "create_new p fs = (Inr u, fs') \<Longrightarrow> fs_get fs p = None \<and> fs_get fs' = (fs_get fs)(p \<mapsto> File [])"
  by (auto simp: create_new_def path_exists_def fun_eq_iff split: prod.splits IoFault.splits if_splits)

lemma create_new_Inl: "create_new p fs = (Inl e, fs') \<Longrightarrow> fs_get fs' = fs_get fs"
  by (auto simp: create_new_def split: prod.splits IoFault.splits if_splits)

lemma write_all_get:
  "write_all p b fs = (r, fs') \<Longrightarrow> q \<noteq> p \<Longrightarrow> fs_get fs' q = fs_get fs q"
  by (auto simp: write_all_def split: prod.splits IoFault.splits)

lemma write_all_Inr: "write_all p b fs = (Inr u, fs') \<Longrightarrow> fs_get fs' = (fs_get fs)(p \<mapsto> File b)"
  by (auto simp: write_all_def fun_eq_iff split: prod.splits IoFault.splits)

lemma sync_all_get: "sync_all fs = (r, fs') \<Longrightarrow> fs_get fs' = fs_get fs"
  by (auto simp: sync_all_def split: prod.splits IoFault.splits)

lemma fs_write_get: "fs_write p b fs = (r, fs') \<Longrightarrow> q \<noteq> p \<Longrightarrow> fs_get fs' q = fs_get fs q"
  by (auto simp: fs_write_def split: prod.splits IoFault.splits sum.splits)

lemma fs_write_Inr: "fs_write p b fs = (Inr u, fs') \<Longrightarrow> fs_get fs' = (fs_get fs)(p \<mapsto> File b)"
  by (auto simp: fs_write_def fun_eq_iff split: prod.splits IoFault.splits sum.splits)

lemma io_bind_Inr:
  "io_bind r k = (Inr y, fs') \<longleftrightarrow> (\<exists>x fs. r = (Inr x, fs) \<and> k x fs = (Inr y, fs'))"
  by (auto simp: io_bind_def split: prod.splits sum.splits)

lemma io_bind_cases:
  assumes "io_bind r k = (s, fs')"
  obtains (fail) e where "r = (Inl e, fs')" "s = Inl e" | (ok) x fs where "r = (Inr x, fs)" "k x fs = (s, fs')"
  using assms by (auto simp: io_bind_def split: prod.splits sum.splits)

lemma io_err_Inr [simp]: "io_err f r = (Inr x, fs) \<longleftrightarrow> r = (Inr x, fs)"
  by (cases r) (auto simp: io_err_def map_err_def split: sum.splits)

lemma io_err_cases:
  assumes "io_err f r = (s, fs)"
  obtains s' where "r = (s', fs)" "s = map_err f s'"
  using assms by (cases r) (auto simp: io_err_def)

lemma json_text_Inr: "json_text text fs = (Inr b, fs') \<longleftrightarrow> text = Inr b \<and> fs' = fs"
  by (auto simp: json_text_def map_err_def split: sum.splits)

lemma json_text_fs: "json_text text fs = (r, fs') \<Longrightarrow> fs' = fs"
  by (simp add: json_text_def)

lemma json_parent_get:
  "json_parent io_text p fs = (r, fs')
     \<Longrightarrow> fs_get fs' q = fs_get fs q \<or> (fs_get fs q = None \<and> fs_get fs' q = Some Dir \<and> prefix q (butlast p))"
  unfolding json_parent_def by (erule io_err_cases) (rule create_dir_all_get)

text \<open>What the JSON writers change: the file itself, and directories on the way to it.\<close>

lemma write_json_new_get:
  assumes "write_json_new io_text p text code msg fs = (r, fs')"
  shows "fs_get fs' q = fs_get fs q \<or> (fs_get fs q = None \<and> (fs_get fs' q = Some Dir \<and> prefix q (butlast p) \<or> q = p))"
  using assms unfolding write_json_new_def
proof (cases rule: io_bind_cases)
  case (ok b fs1)
  then have fs1: "fs1 = fs"
    by (simp add: json_text_Inr)
  from ok(2) show ?thesis
  proof (cases rule: io_bind_cases)
    case (fail e)
    then show ?thesis
      using json_parent_get[OF fail(1), of q] fs1 by blast
  next
    case (ok u fs2)
    note parent = json_parent_get[OF ok(1), of q, unfolded fs1]
    from ok(2) show ?thesis
    proof (cases rule: io_bind_cases)
      case (fail e)
      then obtain e' where "create_new p fs2 = (Inl e', fs')"
        by (auto elim!: io_err_cases simp: map_err_def split: sum.splits)
      then show ?thesis
        using create_new_Inl parent by metis
    next
      case (ok v fs3)
      then have new: "fs_get fs2 p = None" "fs_get fs3 = (fs_get fs2)(p \<mapsto> File [])"
        using create_new_Inr by fastforce+
      have "fs_get fs' q = fs_get fs3 q" if "q \<noteq> p"
        using ok(2) that
        by (elim io_bind_cases io_err_cases) (auto simp: write_all_get dest: sync_all_get write_all_get)
      with new parent show ?thesis
        by (cases "q = p") auto
    qed
  qed
qed (use json_text_fs in blast)

lemma write_json_new_Inr:
  assumes "write_json_new io_text p text code msg fs = (Inr u, fs')"
  obtains b where "text = Inr b" "fs_get fs' p = Some (File b)" "fs_get fs p = None \<or> prefix p (butlast p)"
proof -
  from assms obtain b fs2 fs3 fs4 v1 v2 v3 where "text = Inr b" and parent: "json_parent io_text p fs = (Inr v1, fs2)"
    and "create_new p fs2 = (Inr v2, fs3)" "write_all p b fs3 = (Inr v3, fs4)" "sync_all fs4 = (Inr u, fs')"
    by (auto simp: write_json_new_def io_bind_Inr json_text_Inr)
  then have "fs_get fs' p = Some (File b)" "fs_get fs2 p = None"
    using create_new_Inr[of p fs2 v2 fs3] write_all_Inr[of p b fs3 v3 fs4] sync_all_get[of fs4 "Inr u" fs'] by auto
  with json_parent_get[OF parent, of p] \<open>text = Inr b\<close> that show thesis
    by auto
qed

lemma write_json_new_extends: "write_json_new io_text p text code msg fs = (r, fs') \<Longrightarrow> fs_extends fs fs'"
  unfolding fs_extends_def by (metis option.distinct(1) write_json_new_get)

lemma write_json_get:
  assumes "write_json io_text p text fs = (r, fs')"
  shows "fs_get fs' q = fs_get fs q \<or> (fs_get fs q = None \<and> fs_get fs' q = Some Dir \<and> prefix q (butlast p)) \<or> q = p"
  using assms unfolding write_json_def
proof (cases rule: io_bind_cases)
  case (ok b fs1)
  then have fs1: "fs1 = fs"
    by (simp add: json_text_Inr)
  from ok(2) show ?thesis
  proof (cases rule: io_bind_cases)
    case (fail e)
    then show ?thesis
      using json_parent_get[OF fail(1), of q] fs1 by blast
  next
    case (ok u fs2)
    from ok(2) have "q \<noteq> p \<Longrightarrow> fs_get fs' q = fs_get fs2 q"
      by (elim io_err_cases) (rule fs_write_get)
    then show ?thesis
      using json_parent_get[OF ok(1), of q, unfolded fs1] by metis
  qed
qed (use json_text_fs in blast)

lemma write_json_Inr:
  assumes "write_json io_text p text fs = (Inr u, fs')"
  obtains b where "text = Inr b" "fs_get fs' p = Some (File b)"
  using assms fs_write_Inr that by (auto simp: write_json_def io_bind_Inr json_text_Inr)

lemma write_json_extends:
  "write_json io_text p text fs = (r, fs') \<Longrightarrow> fs_get fs p = None \<Longrightarrow> fs_extends fs fs'"
  unfolding fs_extends_def by (metis option.distinct(1) write_json_get)

lemma read_dir_entries:
  assumes "read_dir fs d = Inr es"
  shows "(n, e) \<in> set es \<longleftrightarrow> fs_get fs (d @ [n]) = Some e"
proof -
  have mem: "(p, e) \<in> set (AList.clearjunk al) \<longleftrightarrow> map_of al p = Some e" for p and e :: Entry and al
    by (metis distinct_clearjunk map_of_clearjunk map_of_eq_Some_iff)
  have es: "es = map (\<lambda>(p, e). (last p, e)) (filter (\<lambda>(p, e). p \<noteq> [] \<and> butlast p = d) (AList.clearjunk (fs_entries fs)))"
    using assms by (auto simp: read_dir_def split: option.splits Entry.splits)
  have "(n, e) \<in> set es \<longleftrightarrow> (\<exists>p. map_of (fs_entries fs) p = Some e \<and> p \<noteq> [] \<and> butlast p = d \<and> last p = n)"
    unfolding es by (force simp: mem)
  also have "\<dots> \<longleftrightarrow> fs_get fs (d @ [n]) = Some e"
    unfolding fs_get_def by (metis append_butlast_last_id butlast_snoc last_snoc snoc_eq_iff_butlast)
  finally show ?thesis .
qed

end
