(* ===== verification/Guild_World.thy ===== *)
theory Guild_World
  imports Guild_Runner
begin

text \<open>
  What an execution keeps of the host's state. A preorder on host states that every operation of the
  registry, the clock and the transport respects is respected by whole executions
  (\<open>Runner::execute\<close>), whatever calls the components make and however deep children nest.
\<close>

locale world_order =
  fixes keeps :: "'w \<Rightarrow> 'w \<Rightarrow> bool"
  assumes keeps_refl: "keeps w w"
    and keeps_trans: "keeps w w1 \<Longrightarrow> keeps w1 w2 \<Longrightarrow> keeps w w2"

locale keeping_host = world_order keeps for keeps :: "'w \<Rightarrow> 'w \<Rightarrow> bool" +
  fixes host :: "'w RuntimeHost"
  assumes invoke_keeps: "rh_invoke_dependency host inst cx seq al inp w = (ri, w') \<Longrightarrow> keeps w w'"
    and emit_keeps: "rh_emit_evidence host xid req w = (re, w') \<Longrightarrow> keeps w w'"
    and http_keeps: "rh_http_request host hreq timeout limit w = (rh, w') \<Longrightarrow> keeps w w'"
begin

lemma http_redirect_keeps:
  "http_redirect env req hops pol r st w = Round_Finish res st' w' \<Longrightarrow> w' = w"
  "http_redirect env req hops pol r st w = Round_Redirect req' pr st' w' \<Longrightarrow> w' = w"
  by (auto simp: http_redirect_def http_blocked_def Let_def split: option.splits if_splits sum.splits)

lemma http_round_keeps:
  "http_round env host req hops pending st w = Round_Finish res st' w' \<Longrightarrow> keeps w w'"
  "http_round env host req hops pending st w = Round_Redirect req' pr st' w' \<Longrightarrow> keeps w w'"
  by (auto simp: http_round_def Let_def keeps_refl split: prod.splits sum.splits if_splits
      dest: http_keeps http_redirect_keeps)

lemma http_request_loop_keeps:
  "http_request_loop env host req hops pending st w = (r, st', w') \<Longrightarrow> keeps w w'"
proof (induction "255 - unat hops" arbitrary: req hops pending st w rule: less_induct)
  case less
  show ?case
  proof (cases "http_round env host req hops pending st w")
    case (Round_Finish res st1 w1)
    with less.prems http_round_keeps(1) show ?thesis
      by (simp add: http_request_loop.simps)
  next
    case (Round_Redirect req1 pr st1 w1)
    with less.prems have "http_request_loop env host req1 (saturating_add hops 1) (Some pr) st1 w1 = (r, st', w')"
      by (simp add: http_request_loop.simps)
    with less.hyps http_hops_decrease[OF Round_Redirect] have "keeps w1 w'"
      by blast
    with http_round_keeps(2)[OF Round_Redirect] show ?thesis
      by (rule keeps_trans)
  qed
qed

lemma host_step_keeps:
  assumes "host_step env host s s'"
  shows "keeps (snd s) (snd s')"
  using assms
proof cases
  case (emit req st w r st' w')
  then show ?thesis
    by (auto simp: host_emit_evidence_def keeps_refl split: sum.splits prod.splits dest: emit_keeps)
next
  case (invoke al inp st w r st' w')
  then show ?thesis
    by (auto simp: host_invoke_dependency_def keeps_refl Let_def split: sum.splits prod.splits option.splits
        dest: invoke_keeps)
next
  case (http req st w r st' w')
  then show ?thesis
    by (auto simp: host_http_request_def dest: http_request_loop_keeps)
qed (simp_all add: keeps_refl)

lemma run_guest_keeps:
  assumes "run_guest env host g st w = (r, st', w')"
  shows "keeps w w'"
proof -
  have "keeps (snd s) (snd s')" if "(host_step env host)\<^sup>*\<^sup>* s s'" for s s'
    using that by induction (blast intro: keeps_refl, blast intro: keeps_trans host_step_keeps)
  from this[OF run_guest_steps[OF assms]] show ?thesis
    by simp
qed

end

locale keeping_adapter =
  fixes adapter :: "'w RuntimeAdapter"
  assumes adapter_keeps: "keeping_host keeps host \<Longrightarrow> ra_execute adapter host inst cx input w = (r, w') \<Longrightarrow> keeps w w'"

interpretation wasm_keeping: keeping_adapter "WasmtimeRuntimeAdapter env wt" for env :: "'w HostEnv" and wt
proof
  fix keeps and host :: "'w RuntimeHost" and inst cx input w r w'
  assume host: "keeping_host keeps host" and "ra_execute (WasmtimeRuntimeAdapter env wt) host inst cx input w = (r, w')"
  then have "wasm_execute env wt host inst cx input w = (r, w')"
    by (simp add: WasmtimeRuntimeAdapter_def)
  then show "keeps w w'"
  proof (cases rule: wasm_execute_cases)
    case (early e)
    then show ?thesis
      using host by (simp add: keeping_host_def world_order.keeps_refl)
  next
    case (ran guest_cx c g st)
    then show ?thesis
      by (blast intro: keeping_host.run_guest_keeps[OF host])
  qed
qed

interpretation in_process_keeping: keeping_adapter "InProcessRuntimeAdapter ip" for ip :: "'w InProcessRuntime"
  by unfold_locales
    (auto simp: InProcessRuntimeAdapter_def in_process_execute_def keeping_host_def world_order.keeps_refl
      split: sum.splits)

text \<open>A runner whose registry, clock and transport respect the order.\<close>

locale keeping_runner = world_order keeps for keeps :: "'w \<Rightarrow> 'w \<Rightarrow> bool" +
  fixes r :: "'w Runner" and reg :: "'w SkillRegistry"
  assumes persist_keeps: "reg_persist_execution_record reg rc w = (rp, w') \<Longrightarrow> keeps w w'"
    and store_keeps: "reg_store_evidence reg xid req w = (rs, w') \<Longrightarrow> keeps w w'"
    and mint_keeps: "hc_mint_execution_id (run_clock r) w = (xid, w') \<Longrightarrow> keeps w w'"
    and send_keeps: "tr_send (run_transport r) hreq tls timeout w = (rt, w') \<Longrightarrow> keeps w w'"
    and runtime_keeps: "keeping_adapter (run_runtime r)"
begin

lemma dispatch_keeps:
  "dispatch_http_request (run_env r) (run_transport r) cat hreq timeout limit w = (rh, w') \<Longrightarrow> keeps w w'"
  by (auto simp: dispatch_http_request_def execute_http_request_def keeps_refl
      split: option.splits sum.splits prod.splits if_splits dest: send_keeps)

lemma runner_host_keeps:
  assumes "\<And>i envl w res w'. exec i envl w = (res, w') \<Longrightarrow> keeps w w'"
  shows "keeping_host keeps (runner_host_with exec r reg)"
proof unfold_locales
  fix inst cx seq al inp w ri w'
  assume "rh_invoke_dependency (runner_host_with exec r reg) inst cx seq al inp w = (ri, w')"
  then show "keeps w w'"
    by (auto simp: runner_host_with_def invoke_dependency_with_def keeps_refl split: sum.splits prod.splits dest: assms)
next
  fix xid req w re w'
  assume "rh_emit_evidence (runner_host_with exec r reg) xid req w = (re, w')"
  then show "keeps w w'"
    by (auto simp: runner_host_with_def runner_emit_evidence_def split: prod.splits dest: store_keeps)
next
  fix hreq timeout limit w rh w'
  assume "rh_http_request (runner_host_with exec r reg) hreq timeout limit w = (rh, w')"
  then show "keeps w w'"
    by (simp add: runner_host_with_def dispatch_keeps)
qed

lemma persist_record_keeps: "persist_record reg rc w = (rp, w') \<Longrightarrow> keeps w w'"
  by (auto simp: persist_record_def split: prod.splits dest: persist_keeps)

lemma persist_unsuccessful_keeps: "persist_unsuccessful_attempt r reg cx f w = (e, w') \<Longrightarrow> keeps w w'"
  by (auto simp: persist_unsuccessful_attempt_def Let_def split: prod.splits sum.splits dest: persist_record_keeps)

lemma execute_with_keeps:
  assumes "\<And>i envl w res w'. exec i envl w = (res, w') \<Longrightarrow> keeps w w'"
    and run: "execute_with exec r reg i envl w = (res, w')"
  shows "keeps w w'"
proof -
  have host: "keeping_host keeps (runner_host_with exec r reg)"
    by (rule runner_host_keeps) (rule assms(1))
  note ra = keeping_adapter.adapter_keeps[OF runtime_keeps host]
  obtain xid w1 where mint: "hc_mint_execution_id (run_clock r) w = (xid, w1)"
    by fastforce
  have "keeps w1 w'"
    using run mint
    by (auto simp: execute_with_def Let_def split: sum.splits prod.splits
        dest!: ra persist_unsuccessful_keeps persist_record_keeps intro: keeps_trans keeps_refl)
  with mint_keeps[OF mint] show ?thesis
    by (rule keeps_trans)
qed

lemma execute_depth_keeps: "execute_depth n r reg i envl w = (res, w') \<Longrightarrow> keeps w w'"
  by (induction n arbitrary: i envl w res w') (simp add: keeps_refl, simp, blast intro: execute_with_keeps)

lemma execute_keeps: "execute r reg i envl w = (res, w') \<Longrightarrow> keeps w w'"
  unfolding execute_def by (rule execute_depth_keeps)

end

end
