(* ===== verification/Guild_Store.thy ===== *)
theory Guild_Store
  imports Guild_Fs Guild_World
begin

text \<open>
  The local stores of \<open>crates/guild-registry/src/lib.rs\<close>: execution records, evidence blobs and records,
  queries over the executions, resources and the policy file, as the \<open>SkillRegistry\<close> that the runner uses.

  \<open>StoreEnv\<close> holds what other crates do: the JSON codecs of \<open>serde_json\<close> for the stored types, SHA-256,
  the UUIDs of evidence records, RFC 3339 parsing and the rendering of I/O errors.
\<close>

section \<open>Stored records\<close>

text \<open>The derived deserialisation of an execution record, before absent observations are filled in.\<close>

record ExecutionRecordSerde =
  xs_receipt :: ExecutionReceipt
  xs_request :: CallerRequest
  xs_policy_decision :: PolicyDecision
  xs_resolved_skill :: ResolvedSkillRef
  xs_parent_execution_id :: "string option"
  xs_status :: ExecutionStatus
  xs_output :: "SkillOutput option"
  xs_termination :: "TerminationDetail option"
  xs_granted_capabilities :: CapabilityGrantSet
  xs_emitted_evidence :: "EvidenceRecord list"
  xs_authority_observations :: "AuthorityObservation list option"
  xs_authority_observations_recorded :: "bool option"
  xs_metrics :: ExecutionMetrics
  xs_provenance :: Provenance
  xs_child_executions :: "ChildExecutionRecord list"

definition ExecutionRecord_deserialize :: "ExecutionRecordSerde \<Rightarrow> ExecutionRecord" where
  "ExecutionRecord_deserialize r =
     \<lparr>x_receipt = xs_receipt r, x_request = xs_request r, x_policy_decision = xs_policy_decision r,
      x_resolved_skill = xs_resolved_skill r, x_parent_execution_id = xs_parent_execution_id r,
      x_status = xs_status r, x_output = xs_output r, x_termination = xs_termination r,
      x_granted_capabilities = xs_granted_capabilities r, x_emitted_evidence = xs_emitted_evidence r,
      x_authority_observations = unwrap_or [] (xs_authority_observations r),
      x_authority_observations_recorded =
        (case xs_authority_observations_recorded r of
           Some b \<Rightarrow> b
         | None \<Rightarrow> xs_authority_observations r \<noteq> None),
      x_metrics = xs_metrics r, x_provenance = xs_provenance r, x_child_executions = xs_child_executions r\<rparr>"

record ExecutionQueryMatch =
  qm_receipt :: ExecutionReceipt
  qm_resolved_skill :: ResolvedSkillRef
  qm_status :: ExecutionStatus
  qm_policy_decision :: PolicyDecision
  qm_termination :: "TerminationDetail option"
  qm_parent_execution_id :: "string option"
  qm_evidence_count :: usize
  qm_sample_evidence_record_uris :: "string list"
  qm_child_execution_count :: usize
  qm_started_at_utc :: "string option"
  qm_finished_at_utc :: "string option"

record ExecutionQueryResult =
  qr_query_uri :: string
  qr_total_matches :: usize
  qr_returned_matches :: usize
  qr_truncated :: bool
  qr_results :: "ExecutionQueryMatch list"

record StoreEnv =
  st_record_text :: "ExecutionRecord \<Rightarrow> string + string"
  st_record_parse :: "string \<Rightarrow> string + ExecutionRecordSerde"
  st_evidence_text :: "EvidenceRecord \<Rightarrow> string + string"
  st_evidence_parse :: "string \<Rightarrow> string + EvidenceRecord"
  st_blob_text :: "EvidenceBlobRecord \<Rightarrow> string + string"
  st_blob_parse :: "string \<Rightarrow> string + EvidenceBlobRecord"
  st_query_text :: "ExecutionQueryResult \<Rightarrow> string + string"
  st_policy_parse :: "string \<Rightarrow> string + LocalPolicyConfig"
  st_sha256_hex :: "string \<Rightarrow> string"
  st_evidence_record_id :: "nat \<Rightarrow> string"
  st_rfc3339 :: "string \<Rightarrow> int option"
  st_io_text :: "IoError \<Rightarrow> string"

section \<open>Paths of the stores\<close>

definition installed_root :: "path \<Rightarrow> path" where "installed_root root = root @ [''installed'']"
definition executions_root :: "path \<Rightarrow> path" where "executions_root root = root @ [''executions'']"
definition objects_root :: "path \<Rightarrow> path" where "objects_root root = root @ [''objects'']"
definition object_blobs_root :: "path \<Rightarrow> path" where "object_blobs_root root = objects_root root @ [''sha256'']"
definition object_records_root :: "path \<Rightarrow> path" where "object_records_root root = objects_root root @ [''records'']"
definition policy_path :: "path \<Rightarrow> path" where "policy_path root = root @ [''policy.json'']"

definition execution_path :: "path \<Rightarrow> string \<Rightarrow> path" where
  "execution_path root execution_id = executions_root root @ [percent_encode_component execution_id @ ''.json'']"

definition object_blob_path :: "path \<Rightarrow> string \<Rightarrow> path" where
  "object_blob_path root digest_hex = object_blobs_root root @ [digest_hex]"

definition evidence_record_path :: "path \<Rightarrow> string \<Rightarrow> path" where
  "evidence_record_path root rid = object_records_root root @ [percent_encode_component rid @ ''.json'']"

section \<open>Execution records\<close>

definition persist_execution_record :: "StoreEnv \<Rightarrow> path \<Rightarrow> ExecutionRecord \<Rightarrow> Fs \<Rightarrow> (RegistryError, unit) io" where
  "persist_execution_record st root rc fs =
     (let xid = rcpt_execution_id (x_receipt rc); expected_uri = execution_resource_uri xid
      in if rcpt_uri (x_receipt rc) \<noteq> expected_uri
         then (Inl (registry_detail (json_obj
                 [(''expected'', JString expected_uri), (''actual'', JString (rcpt_uri (x_receipt rc))),
                  (''execution_id'', JString xid)])
                 (RegistryError_new ''execution-uri-mismatch''
                    ''execution record URI did not match the host-issued execution URI'')), fs)
         else write_json_new (st_io_text st) (execution_path root xid) (st_record_text st rc)
                ''execution-record-exists'' ''execution record already exists in the local execution store'' fs)"

definition parse_execution_record :: "StoreEnv \<Rightarrow> string \<Rightarrow> string + ExecutionRecord" where
  "parse_execution_record st s = res_bind (st_record_parse st s) (\<lambda>r. Inr (ExecutionRecord_deserialize r))"

definition load_execution_record :: "StoreEnv \<Rightarrow> path \<Rightarrow> string \<Rightarrow> Fs \<Rightarrow> RegistryError + ExecutionRecord" where
  "load_execution_record st root execution_id fs =
     (let p = execution_path root execution_id
      in res_bind (map_err (\<lambda>e. if e = Io_NotFound
             then registry_detail (json_obj [(''execution_id'', JString execution_id), (''path'', JString (path_display p))])
                    (RegistryError_new ''execution-not-found''
                       ''execution record was not found in the local execution store'')
             else caused_by ''execution-read-failed'' ''failed to read execution record'' (st_io_text st e))
           (read_to_string fs p)) (\<lambda>contents.
         map_err (caused_by ''execution-parse-failed'' ''failed to parse stored execution record JSON'')
           (parse_execution_record st contents)))"

section \<open>Evidence\<close>

definition read_blob_metadata :: "StoreEnv \<Rightarrow> path \<Rightarrow> Fs \<Rightarrow> RegistryError + EvidenceBlobRecord" where
  "read_blob_metadata st p fs =
     res_bind (map_err (\<lambda>e. caused_by ''object-metadata-read-failed'' ''failed to read evidence object metadata''
         (st_io_text st e)) (read_to_string fs p)) (\<lambda>contents.
     map_err (caused_by ''object-metadata-parse-failed'' ''failed to parse evidence object metadata'')
       (st_blob_parse st contents))"

definition ensure_evidence_blob ::
  "StoreEnv \<Rightarrow> path \<Rightarrow> EvidenceEmissionRequest \<Rightarrow> Fs \<Rightarrow> (RegistryError, string \<times> string) io" where
  "ensure_evidence_blob st root req fs =
     (let digest_hex = st_sha256_hex st (ee_payload req);
          digest_label = ''sha256:'' @ digest_hex;
          blob_uri = object_resource_uri digest_hex;
          blob_dir = object_blob_path root digest_hex;
          payload_path = blob_dir @ [''payload''];
          metadata_path = blob_dir @ [''blob.json''];
          bytes = of_nat (length (ee_payload req))
      in io_bind (io_err (\<lambda>e. caused_by ''object-store-create-failed'' ''failed to create object store directory''
                    (st_io_text st e)) (create_dir_all blob_dir fs)) (\<lambda>_ fs.
         case (path_exists fs payload_path, path_exists fs metadata_path) of
           (False, False) \<Rightarrow>
             io_bind (io_err (\<lambda>e. caused_by ''object-payload-write-failed'' ''failed to persist evidence payload''
                        (st_io_text st e)) (fs_write payload_path (ee_payload req) fs)) (\<lambda>_ fs.
             io_bind (write_json (st_io_text st) metadata_path
                        (st_blob_text st \<lparr>eb_uri = blob_uri, eb_sha256 = digest_label, eb_size_bytes = bytes\<rparr>) fs)
               (\<lambda>_ fs. (Inr (blob_uri, digest_label), fs)))
         | (True, True) \<Rightarrow>
             (case read_blob_metadata st metadata_path fs of
                Inl e \<Rightarrow> (Inl e, fs)
              | Inr m \<Rightarrow>
                  if eb_uri m \<noteq> blob_uri \<or> eb_sha256 m \<noteq> digest_label \<or> eb_size_bytes m \<noteq> bytes
                  then (Inl (registry_detail (json_obj [(''uri'', JString blob_uri), (''sha256'', JString digest_label)])
                         (RegistryError_new ''object-metadata-conflict''
                            ''stored object metadata conflicted with the evidence payload digest'')), fs)
                  else (Inr (blob_uri, digest_label), fs))
         | _ \<Rightarrow>
             (Inl (registry_detail (json_obj
                 [(''uri'', JString blob_uri), (''payload_exists'', JBool (path_exists fs payload_path)),
                  (''metadata_exists'', JBool (path_exists fs metadata_path))])
                (RegistryError_new ''object-store-invalid''
                   ''evidence blob storage was partially populated and failed closed'')), fs)))"

definition evidence_record_of ::
  "string \<Rightarrow> string \<Rightarrow> string \<Rightarrow> string \<Rightarrow> EvidenceEmissionRequest \<Rightarrow> EvidenceRecord" where
  "evidence_record_of record_uri blob_uri digest_label producer req =
     \<lparr>ev_uri = record_uri, ev_blob_uri = blob_uri, ev_mime_type = ee_mime_type req, ev_sha256 = digest_label,
      ev_size_bytes = of_nat (length (ee_payload req)),
      ev_sink = Some local_object_store_evidence_sink_descriptor, ev_title = ee_title req,
      ev_audience = ee_audience req, ev_redaction = ee_redaction req, ev_freshness = ee_freshness req,
      ev_produced_by_execution = Some producer\<rparr>"

definition mint_host_evidence_record_id :: "StoreEnv \<Rightarrow> Fs \<Rightarrow> string \<times> Fs" where
  "mint_host_evidence_record_id st fs = (st_evidence_record_id st (fs_minted fs), fs\<lparr>fs_minted := Suc (fs_minted fs)\<rparr>)"

definition store_evidence ::
  "StoreEnv \<Rightarrow> path \<Rightarrow> string \<Rightarrow> EvidenceEmissionRequest \<Rightarrow> Fs \<Rightarrow> (RegistryError, EvidenceRef) io" where
  "store_evidence st root producer req fs =
     (if is_blank (ee_mime_type req)
      then (Inl (RegistryError_new ''object-mime-type-invalid''
              ''evidence payloads must declare a non-empty mime type''), fs)
      else
        io_bind (ensure_evidence_blob st root req fs) (\<lambda>(blob_uri, digest_label) fs.
          let (rid, fs) = mint_host_evidence_record_id st fs;
              rec = evidence_record_of (evidence_record_resource_uri rid) blob_uri digest_label producer req
          in io_bind (write_json_new (st_io_text st) (evidence_record_path root rid) (st_evidence_text st rec)
                 ''evidence-record-exists'' ''evidence record already exists in the local evidence store'' fs) (\<lambda>_ fs.
             (Inr \<lparr>er_uri = ev_uri rec, er_title = ee_title req, er_mime_type = Some (ee_mime_type req),
                   er_sha256 = Some digest_label, er_audience = ee_audience req, er_redaction = ee_redaction req,
                   er_freshness = ee_freshness req\<rparr>, fs))))"

definition parse_guild_uri :: "string \<Rightarrow> RegistryError + GuildResourceUri" where
  "parse_guild_uri uri =
     map_err (\<lambda>e. caused_by ''resource-uri-invalid'' (parse_error_text e) uri) (GuildResourceUri_parse uri)"

definition parse_evidence_record_contents :: "StoreEnv \<Rightarrow> string \<Rightarrow> RegistryError + EvidenceRecord" where
  "parse_evidence_record_contents st contents =
     map_err (caused_by ''object-metadata-parse-failed'' ''failed to parse evidence record metadata'')
       (st_evidence_parse st contents)"

definition not_evidence_record :: "string \<Rightarrow> RegistryError" where
  "not_evidence_record uri = registry_detail (json_obj [(''uri'', JString uri)])
     (RegistryError_new ''resource-kind-mismatch''
        ''evidence records are only available for Guild evidence-record URIs'')"

definition load_evidence_record_from_root :: "StoreEnv \<Rightarrow> path \<Rightarrow> string \<Rightarrow> Fs \<Rightarrow> RegistryError + EvidenceRecord" where
  "load_evidence_record_from_root st root uri fs =
     res_bind (parse_guild_uri uri) (\<lambda>u.
     res_bind (case u of
         Uri_ObjectRecord rid \<Rightarrow> Inr rid
       | Uri_ObjectRecordMetadata rid \<Rightarrow> Inr rid
       | _ \<Rightarrow> Inl (not_evidence_record uri)) (\<lambda>rid.
     let p = evidence_record_path root rid
     in res_bind (map_err (\<lambda>e. if e = Io_NotFound
            then registry_detail (json_obj [(''uri'', JString uri), (''path'', JString (path_display p))])
                   (RegistryError_new ''object-not-found'' ''evidence record was not found in the local object store'')
            else caused_by ''object-metadata-read-failed'' ''failed to read evidence record metadata'' (st_io_text st e))
          (read_to_string fs p)) (parse_evidence_record_contents st)))"

definition load_evidence_record_from_path :: "StoreEnv \<Rightarrow> path \<Rightarrow> Fs \<Rightarrow> RegistryError + EvidenceRecord" where
  "load_evidence_record_from_path st p fs =
     res_bind (map_err (\<lambda>e. registry_detail
            (json_obj [(''path'', JString (path_display p)), (''cause'', JString (st_io_text st e))])
            (RegistryError_new ''object-metadata-read-failed'' ''failed to read evidence record metadata''))
        (read_to_string fs p)) (parse_evidence_record_contents st)"

definition read_object_payload :: "StoreEnv \<Rightarrow> path \<Rightarrow> string \<Rightarrow> json \<Rightarrow> Fs \<Rightarrow> RegistryError + string" where
  "read_object_payload st p not_found_code not_found_detail fs =
     map_err (\<lambda>e. if e = Io_NotFound
         then registry_detail not_found_detail
                (RegistryError_new not_found_code ''evidence object was not found in the local object store'')
         else caused_by ''object-read-failed'' ''failed to read evidence object payload'' (st_io_text st e))
       (read_bytes fs p)"

section \<open>Queries over executions\<close>

definition EXECUTION_QUERY_SAMPLE_EVIDENCE_LIMIT :: usize where
  "EXECUTION_QUERY_SAMPLE_EVIDENCE_LIMIT = 3"

fun execution_record_matches_query :: "ExecutionRecord \<Rightarrow> ExecutionQueryResource \<Rightarrow> bool" where
  "execution_record_matches_query rc (Q_Recent _) = True"
| "execution_record_matches_query rc (Q_FailuresRecent _) = (x_status rc \<in> {Failed, Rejected})"
| "execution_record_matches_query rc (Q_ByStatus status _) = (x_status rc = status)"
| "execution_record_matches_query rc (Q_BySkill namespace name _) =
     (sk_namespace (rs_key (x_resolved_skill rc)) = namespace \<and> sk_name (rs_key (x_resolved_skill rc)) = name)"

text \<open>\<open>Ordering\<close>, its reversal and lexicographic composition; strings compare bytewise.\<close>

datatype Ordering = Less | Equal | Greater

definition cmp_by :: "('a \<Rightarrow> 'a \<Rightarrow> bool) \<Rightarrow> 'a \<Rightarrow> 'a \<Rightarrow> Ordering" where
  "cmp_by lt x y = (if lt x y then Less else if lt y x then Greater else Equal)"

definition then_with :: "Ordering \<Rightarrow> Ordering \<Rightarrow> Ordering" where
  "then_with a b = (if a = Equal then b else a)"

fun str_less :: "string \<Rightarrow> string \<Rightarrow> bool" where
  "str_less _ [] = False"
| "str_less [] (_ # _) = True"
| "str_less (a # s) (b # t) = (byte a < byte b \<or> (a = b \<and> str_less s t))"

definition compare_rfc3339_timestamps_desc :: "StoreEnv \<Rightarrow> string \<Rightarrow> string \<Rightarrow> Ordering" where
  "compare_rfc3339_timestamps_desc st left right =
     (case (st_rfc3339 st left, st_rfc3339 st right) of
        (Some l, Some r) \<Rightarrow> cmp_by (<) r l
      | _ \<Rightarrow> cmp_by str_less right left)"

fun compare_optional_timestamps_desc :: "StoreEnv \<Rightarrow> string option \<Rightarrow> string option \<Rightarrow> Ordering" where
  "compare_optional_timestamps_desc st (Some left) (Some right) = compare_rfc3339_timestamps_desc st left right"
| "compare_optional_timestamps_desc st (Some _) None = Less"
| "compare_optional_timestamps_desc st None (Some _) = Greater"
| "compare_optional_timestamps_desc st None None = Equal"

definition compare_execution_records_for_query :: "StoreEnv \<Rightarrow> ExecutionRecord \<Rightarrow> ExecutionRecord \<Rightarrow> Ordering" where
  "compare_execution_records_for_query st left right =
     then_with (compare_optional_timestamps_desc st (prov_finished_at_utc (x_provenance left))
                  (prov_finished_at_utc (x_provenance right)))
       (then_with (compare_optional_timestamps_desc st (prov_started_at_utc (x_provenance left))
                     (prov_started_at_utc (x_provenance right)))
          (cmp_by str_less (rcpt_execution_id (x_receipt right)) (rcpt_execution_id (x_receipt left))))"

text \<open>\<open>Vec::sort_by\<close> with a comparison.\<close>

definition sort_cmp :: "('a \<Rightarrow> 'a \<Rightarrow> Ordering) \<Rightarrow> 'a list \<Rightarrow> 'a list" where
  "sort_cmp cmp = sort_by (\<lambda>x y. cmp x y \<noteq> Greater)"

text \<open>\<open>Path::extension\<close> of a file name: the text after the last dot, unless the name starts with it.\<close>

definition has_extension :: "string \<Rightarrow> string \<Rightarrow> bool" where
  "has_extension ext name = (case rsplit_once CHR ''.'' name of
     None \<Rightarrow> False | Some (stem, e) \<Rightarrow> stem \<noteq> [] \<and> e = ext)"

definition load_listed_execution :: "StoreEnv \<Rightarrow> path \<Rightarrow> Fs \<Rightarrow> string \<Rightarrow> RegistryError + ExecutionRecord" where
  "load_listed_execution st dir fs name =
     res_bind (map_err (\<lambda>e. caused_by ''execution-list-entry-read-failed''
         ''failed to read execution record while scanning the local execution store'' (st_io_text st e))
       (read_to_string fs (dir @ [name]))) (\<lambda>contents.
     map_err (caused_by ''execution-list-entry-parse-failed''
         ''failed to parse execution record while scanning the local execution store'')
       (parse_execution_record st contents))"

definition load_execution_records_sorted :: "StoreEnv \<Rightarrow> path \<Rightarrow> Fs \<Rightarrow> RegistryError + ExecutionRecord list" where
  "load_execution_records_sorted st root fs =
     (let dir = executions_root root
      in if \<not> path_exists fs dir then Inr []
         else
           res_bind (map_err (\<lambda>e. caused_by ''execution-list-read-failed'' ''failed to read the local execution store''
               (st_io_text st e)) (read_dir fs dir)) (\<lambda>entries.
           let names = map fst (filter (\<lambda>(name, e). e \<noteq> Dir \<and> has_extension ''json'' name) entries);
               ordered = sort_cmp (\<lambda>l r. cmp_by str_less r l) names
           in res_bind (collect_results (map (load_listed_execution st dir fs) ordered)) (\<lambda>records.
              Inr (sort_cmp (compare_execution_records_for_query st) records))))"

definition query_match :: "ExecutionRecord \<Rightarrow> ExecutionQueryMatch" where
  "query_match rc =
     \<lparr>qm_receipt = x_receipt rc, qm_resolved_skill = x_resolved_skill rc, qm_status = x_status rc,
      qm_policy_decision = x_policy_decision rc, qm_termination = x_termination rc,
      qm_parent_execution_id = x_parent_execution_id rc, qm_evidence_count = length (x_emitted_evidence rc),
      qm_sample_evidence_record_uris = map ev_uri (take EXECUTION_QUERY_SAMPLE_EVIDENCE_LIMIT (x_emitted_evidence rc)),
      qm_child_execution_count = length (x_child_executions rc),
      qm_started_at_utc = prov_started_at_utc (x_provenance rc),
      qm_finished_at_utc = prov_finished_at_utc (x_provenance rc)\<rparr>"

definition query_execution_records_from_root ::
  "StoreEnv \<Rightarrow> path \<Rightarrow> ExecutionQueryResource \<Rightarrow> Fs \<Rightarrow> RegistryError + ExecutionQueryResult" where
  "query_execution_records_from_root st root query fs =
     res_bind (load_execution_records_sorted st root fs) (\<lambda>records.
     let filtered = filter (\<lambda>rc. execution_record_matches_query rc query) records;
         results = map query_match (take (ExecutionQueryResource_limit query) filtered)
     in Inr \<lparr>qr_query_uri = canonical_uri query, qr_total_matches = length filtered,
             qr_returned_matches = length results, qr_truncated = (length filtered > length results),
             qr_results = results\<rparr>)"

definition list_recent_execution_records :: "StoreEnv \<Rightarrow> path \<Rightarrow> usize \<Rightarrow> Fs \<Rightarrow> RegistryError + ExecutionRecord list" where
  "list_recent_execution_records st root limit fs =
     res_bind (load_execution_records_sorted st root fs) (\<lambda>rcs. Inr (take limit rcs))"

section \<open>Listings of the object store\<close>

text \<open>\<open>WalkDir\<close> with depth one yields the entries of a directory with their types.\<close>

definition walk_dir :: "StoreEnv \<Rightarrow> string \<Rightarrow> string \<Rightarrow> path \<Rightarrow> Fs \<Rightarrow> RegistryError + (string \<times> Entry) list" where
  "walk_dir st code msg dir fs = map_err (\<lambda>e. caused_by code msg (st_io_text st e)) (read_dir fs dir)"

definition load_evidence_records_sorted :: "StoreEnv \<Rightarrow> path \<Rightarrow> Fs \<Rightarrow> RegistryError + EvidenceRecord list" where
  "load_evidence_records_sorted st root fs =
     (let dir = object_records_root root
      in if \<not> path_exists fs dir then Inr []
         else
           res_bind (walk_dir st ''object-record-scan-failed'' ''failed while scanning evidence record metadata'' dir fs)
             (\<lambda>entries.
           res_bind (collect_results (map (\<lambda>(name, e). load_evidence_record_from_path st (dir @ [name]) fs)
               (filter (\<lambda>(name, e). e \<noteq> Dir \<and> suffix ''.json'' name) entries))) (\<lambda>records.
           Inr (sort_cmp (\<lambda>l r. cmp_by str_less (ev_uri r) (ev_uri l)) records))))"

definition load_object_blobs_sorted :: "StoreEnv \<Rightarrow> path \<Rightarrow> Fs \<Rightarrow> RegistryError + EvidenceBlobRecord list" where
  "load_object_blobs_sorted st root fs =
     (let dir = object_blobs_root root
      in if \<not> path_exists fs dir then Inr []
         else
           res_bind (walk_dir st ''object-blob-scan-failed'' ''failed while scanning object blobs'' dir fs) (\<lambda>entries.
           res_bind (collect_results (map (\<lambda>(name, e). read_blob_metadata st (dir @ [name, ''blob.json'']) fs)
               (filter (\<lambda>(name, e). e = Dir) entries))) (\<lambda>records.
           Inr (sort_cmp (\<lambda>l r. cmp_by str_less (eb_sha256 r) (eb_sha256 l)) records))))"

definition list_recent_evidence_records :: "StoreEnv \<Rightarrow> path \<Rightarrow> usize \<Rightarrow> Fs \<Rightarrow> RegistryError + EvidenceRecord list" where
  "list_recent_evidence_records st root limit fs =
     res_bind (load_evidence_records_sorted st root fs) (\<lambda>rcs. Inr (take limit rcs))"

definition list_object_blobs :: "StoreEnv \<Rightarrow> path \<Rightarrow> usize \<Rightarrow> Fs \<Rightarrow> RegistryError + EvidenceBlobRecord list" where
  "list_object_blobs st root limit fs =
     res_bind (load_object_blobs_sorted st root fs) (\<lambda>rcs. Inr (take limit rcs))"

section \<open>Resources\<close>

definition json_resource :: "StoreEnv \<Rightarrow> string \<Rightarrow> string \<Rightarrow> string \<Rightarrow> string + string \<Rightarrow> RegistryError + ResourceReadResult" where
  "json_resource st uri code msg text =
     res_bind (map_err (caused_by code msg) text) (\<lambda>bytes.
     Inr \<lparr>rr_uri = uri, rr_mime_type = ''application/json'', rr_bytes = bytes,
          rr_sha256 = Some (''sha256:'' @ st_sha256_hex st bytes)\<rparr>)"

definition read_execution_resource :: "StoreEnv \<Rightarrow> ExecutionRecord \<Rightarrow> string \<Rightarrow> RegistryError + ResourceReadResult" where
  "read_execution_resource st rc uri =
     json_resource st uri ''execution-serialize-failed'' ''failed to serialize stored execution record''
       (st_record_text st rc)"

definition read_execution_query_resource :: "StoreEnv \<Rightarrow> ExecutionQueryResult \<Rightarrow> RegistryError + ResourceReadResult" where
  "read_execution_query_resource st r =
     json_resource st (qr_query_uri r) ''execution-query-serialize-failed''
       ''failed to serialize stored execution query result'' (st_query_text st r)"

definition read_record_backed_object_payload :: "StoreEnv \<Rightarrow> path \<Rightarrow> string \<Rightarrow> Fs \<Rightarrow> RegistryError + ResourceReadResult" where
  "read_record_backed_object_payload st root uri fs =
     res_bind (load_evidence_record_from_root st root uri fs) (\<lambda>rec.
     res_bind (parse_guild_uri uri) (\<lambda>u.
     case u of
       Uri_ObjectRecord rid \<Rightarrow>
         res_bind (parse_guild_uri (ev_blob_uri rec)) (\<lambda>b.
         case b of
           Uri_ObjectBlob digest_hex \<Rightarrow>
             (let p = object_blob_path root digest_hex @ [''payload'']
              in res_bind (read_object_payload st p ''object-not-found'' (json_obj
                   [(''uri'', JString uri), (''blob_uri'', JString (ev_blob_uri rec)),
                    (''path'', JString (path_display p))]) fs) (\<lambda>bytes.
                 Inr \<lparr>rr_uri = uri, rr_mime_type = ev_mime_type rec, rr_bytes = bytes,
                      rr_sha256 = Some (ev_sha256 rec)\<rparr>))
         | _ \<Rightarrow> Inl (registry_detail (json_obj
                [(''uri'', JString uri), (''blob_uri'', JString (ev_blob_uri rec)),
                 (''evidence_record_id'', JString rid)])
                (RegistryError_new ''object-metadata-invalid'' ''evidence record referenced an invalid blob URI'')))
     | _ \<Rightarrow> Inl (not_evidence_record uri)))"

definition read_record_backed_object_metadata :: "StoreEnv \<Rightarrow> path \<Rightarrow> string \<Rightarrow> Fs \<Rightarrow> RegistryError + ResourceReadResult" where
  "read_record_backed_object_metadata st root uri fs =
     res_bind (load_evidence_record_from_root st root uri fs) (\<lambda>rec.
     json_resource st uri ''object-metadata-serialize-failed'' ''failed to serialize evidence record metadata''
       (st_evidence_text st rec))"

definition read_blob_object :: "StoreEnv \<Rightarrow> path \<Rightarrow> string \<Rightarrow> string \<Rightarrow> Fs \<Rightarrow> RegistryError + ResourceReadResult" where
  "read_blob_object st root uri digest_hex fs =
     (let dir = object_blob_path root digest_hex; p = dir @ [''payload'']
      in res_bind (read_object_payload st p ''object-not-found''
             (json_obj [(''uri'', JString uri), (''path'', JString (path_display p))]) fs) (\<lambda>bytes.
         res_bind (read_blob_metadata st (dir @ [''blob.json'']) fs) (\<lambda>m.
         Inr \<lparr>rr_uri = uri, rr_mime_type = ''application/octet-stream'', rr_bytes = bytes,
              rr_sha256 = Some (eb_sha256 m)\<rparr>)))"

definition local_read_resource :: "StoreEnv \<Rightarrow> path \<Rightarrow> string \<Rightarrow> Fs \<Rightarrow> RegistryError + ResourceReadResult" where
  "local_read_resource st root uri fs =
     res_bind (parse_guild_uri uri) (\<lambda>u.
     case u of
       Uri_Execution execution_id \<Rightarrow>
         res_bind (load_execution_record st root execution_id fs) (\<lambda>rc. read_execution_resource st rc uri)
     | Uri_ExecutionQuery query \<Rightarrow>
         res_bind (query_execution_records_from_root st root query fs) (read_execution_query_resource st)
     | Uri_ObjectRecord _ \<Rightarrow> read_record_backed_object_payload st root uri fs
     | Uri_ObjectRecordMetadata _ \<Rightarrow> read_record_backed_object_metadata st root uri fs
     | Uri_ObjectBlob digest_hex \<Rightarrow> read_blob_object st root uri digest_hex fs)"

section \<open>The policy file\<close>

definition load_policy_config :: "StoreEnv \<Rightarrow> path \<Rightarrow> Fs \<Rightarrow> RegistryError + LocalPolicyConfig" where
  "load_policy_config st root fs =
     (let p = policy_path root;
          at = (\<lambda>code msg cause. registry_detail
            (json_obj [(''path'', JString (path_display p)), (''cause'', JString cause)]) (RegistryError_new code msg))
      in if \<not> path_exists fs p then Inr LocalPolicyConfig_default
         else
           res_bind (map_err (\<lambda>e. at ''policy-read-failed'' ''failed to read local policy configuration'' (st_io_text st e))
             (read_to_string fs p)) (\<lambda>contents.
           res_bind (map_err (at ''policy-parse-failed'' ''failed to parse local policy configuration'')
             (st_policy_parse st contents)) (\<lambda>config.
           let errors = LocalPolicyConfig_validate config
           in if errors = [] then Inr config
              else Inl (registry_detail
                     (json_obj [(''path'', JString (path_display p)), (''errors'', list_json JString errors)])
                     (RegistryError_new ''policy-invalid'' ''local policy configuration was invalid'')))))"

section \<open>Search\<close>

record SearchQuery =
  sq_query :: string
  sq_category :: "SkillCategory option"
  sq_capability :: "CapabilityId option"
  sq_limit :: usize

record SearchResult =
  sr_manifest :: SkillManifest
  sr_resolved_ref :: ResolvedSkillRef

text \<open>\<open>str::to_lowercase\<close> uses the Unicode tables and is the argument \<open>lower\<close>.\<close>

definition search :: "(string \<Rightarrow> string) \<Rightarrow> InstalledSkill list \<Rightarrow> SearchQuery \<Rightarrow> SearchResult list" where
  "search lower installed q =
     (let needle = lower (sq_query q)
      in map (\<lambda>i. \<lparr>sr_manifest = manifest i, sr_resolved_ref = resolved_ref i\<rparr>)
           (take (sq_limit q)
             (filter (\<lambda>i. needle = [] \<or> contains_str needle (lower (display_name (manifest i)))
                  \<or> contains_str needle (lower (description (manifest i)))
                  \<or> contains_str needle (lower (sk_namespace (m_key (manifest i))))
                  \<or> contains_str needle (lower (sk_name (m_key (manifest i)))))
               (filter (\<lambda>i. is_none_or (sq_capability q) (\<lambda>c. list_ex (\<lambda>r. req_id r = c) (capabilities (manifest i))))
                 (filter (\<lambda>i. is_none_or (sq_category q) (\<lambda>c. category (behavior (manifest i)) = c)) installed)))))"

section \<open>The registry of the runner\<close>

definition LocalRegistry :: "StoreEnv \<Rightarrow> path \<Rightarrow> InstalledSkill list \<Rightarrow> Fs SkillRegistry" where
  "LocalRegistry st root installed =
     \<lparr>reg_resolve_exact = resolve_exact installed,
      reg_persist_execution_record = persist_execution_record st root,
      reg_load_execution_record = load_execution_record st root,
      reg_store_evidence = store_evidence st root,
      reg_load_evidence_record = load_evidence_record_from_root st root,
      reg_read_resource = local_read_resource st root,
      reg_load_policy_config = load_policy_config st root\<rparr>"

end
