(* ===== verification/Guild_Durability.thy ===== *)
theory Guild_Durability
  imports Guild_Store "HOL-Library.Option_ord" "HOL-Library.List_Lexorder" "HOL-Library.Product_Lexorder"
begin

text \<open>
  What the local stores guarantee: entries are never changed, records and evidence read back, blobs
  have the digest that names them, and queries see every record. The laws hold under every sequence of
  failed and torn writes, and carry over to whole executions through the order of \<open>Guild_World\<close>.
\<close>

section \<open>The store only grows\<close>

lemma persist_extends: "persist_execution_record st root rc fs = (r, fs') \<Longrightarrow> fs_extends fs fs'"
  by (auto simp: persist_execution_record_def Let_def split: if_splits dest: write_json_new_extends)

lemma ensure_blob_cases:
  fixes st root req
  defines "d \<equiv> st_sha256_hex st (ee_payload req)"
  defines "pp \<equiv> object_blob_path root d @ [''payload'']" and "mp \<equiv> object_blob_path root d @ [''blob.json'']"
  assumes "ensure_evidence_blob st root req fs = (r, fs')"
  obtains (unpopulated) e s where "r = Inl e" "create_dir_all (object_blob_path root d) fs = (s, fs')"
  | (reused) u m where "create_dir_all (object_blob_path root d) fs = (Inr u, fs')" "path_exists fs' pp" "path_exists fs' mp"
      "read_blob_metadata st mp fs' = Inr m" "eb_sha256 m = ''sha256:'' @ d"
      "r = Inr (object_resource_uri d, ''sha256:'' @ d)"
  | (torn) u fs1 e where "create_dir_all (object_blob_path root d) fs = (Inr u, fs1)" "\<not> path_exists fs1 pp" "\<not> path_exists fs1 mp"
      "fs_write pp (ee_payload req) fs1 = (Inl e, fs')" "isl r"
  | (written) u fs1 v fs2 s where "create_dir_all (object_blob_path root d) fs = (Inr u, fs1)" "\<not> path_exists fs1 pp" "\<not> path_exists fs1 mp"
      "fs_write pp (ee_payload req) fs1 = (Inr v, fs2)"
      "write_json (st_io_text st) mp (st_blob_text st \<lparr>eb_uri = object_resource_uri d, eb_sha256 = ''sha256:'' @ d,
         eb_size_bytes = of_nat (length (ee_payload req))\<rparr>) fs2 = (s, fs')"
      "r = res_bind s (\<lambda>_. Inr (object_resource_uri d, ''sha256:'' @ d))"
proof -
  obtain s fs1 where dir: "create_dir_all (object_blob_path root d) fs = (s, fs1)"
    by fastforce
  show thesis
  proof (cases s)
    case (Inl e)
    with assms(4) dir that(1) show thesis
      by (auto simp: ensure_evidence_blob_def Let_def d_def io_err_def io_bind_def map_err_def)
  next
    case s: (Inr u)
    note eq = assms(4)[unfolded ensure_evidence_blob_def Let_def, folded d_def, folded pp_def mp_def]
    show thesis
    proof (cases "path_exists fs1 pp"; cases "path_exists fs1 mp")
      assume ex: "path_exists fs1 pp" "path_exists fs1 mp"
      show thesis
      proof (cases "read_blob_metadata st mp fs1")
        case (Inl e)
        with eq dir s ex that(1) show thesis
          by (auto simp: io_err_def io_bind_def map_err_def)
      next
        case (Inr m)
        with eq dir s ex that(1,2) show thesis
          by (auto simp: io_err_def io_bind_def map_err_def split: if_splits)
      qed
    next
      assume ex: "\<not> path_exists fs1 pp" "\<not> path_exists fs1 mp"
      obtain v fs2 where w: "fs_write pp (ee_payload req) fs1 = (v, fs2)"
        by fastforce
      show thesis
      proof (cases v)
        case (Inl e)
        with eq dir s ex w that(3) show thesis
          by (auto simp: io_err_def io_bind_def map_err_def)
      next
        case (Inr x)
        with eq dir s ex w that(4) show thesis
          by (auto simp: io_err_def io_bind_def map_err_def res_bind_def split: prod.splits sum.splits)
      qed
    qed (use eq dir s that(1) in \<open>auto simp: io_err_def io_bind_def map_err_def\<close>)
  qed
qed

lemma ensure_blob_extends:
  assumes "ensure_evidence_blob st root req fs = (r, fs')"
  shows "fs_extends fs fs'"
  using assms
proof (cases rule: ensure_blob_cases)
  case (torn u fs1 e)
  have "fs_extends fs1 fs'"
    unfolding fs_extends_def using fs_write_get[OF torn(4)] torn(2) by (metis path_exists_def option.distinct(1))
  with create_dir_all_extends[OF torn(1)] show ?thesis
    by (rule fs_extends_trans)
next
  case (written u fs1 v fs2 s)
  have "fs_get fs2 (object_blob_path root (st_sha256_hex st (ee_payload req)) @ [''blob.json'']) = None"
    using fs_write_get[OF written(4)] written(3) by (simp add: path_exists_def)
  then have "fs_extends fs2 fs'"
    using write_json_extends[OF written(5)] by blast
  moreover have "fs_extends fs1 fs2"
    unfolding fs_extends_def using fs_write_get[OF written(4)] written(2) by (metis path_exists_def option.distinct(1))
  ultimately show ?thesis
    using create_dir_all_extends[OF written(1)] fs_extends_trans by blast
qed (use create_dir_all_extends in blast)+

lemma store_evidence_cases:
  assumes "store_evidence st root producer req fs = (r, fs')"
  obtains (invalid) e where "r = Inl e" "fs' = fs"
  | (unstored) e where "ensure_evidence_blob st root req fs = (Inl e, fs')" "r = Inl e"
  | (stored) d fs1 s where "d = st_sha256_hex st (ee_payload req)"
      "ensure_evidence_blob st root req fs = (Inr (object_resource_uri d, ''sha256:'' @ d), fs1)"
      "write_json_new (st_io_text st) (evidence_record_path root (st_evidence_record_id st (fs_minted fs1)))
         (st_evidence_text st (evidence_record_of (evidence_record_resource_uri (st_evidence_record_id st (fs_minted fs1)))
            (object_resource_uri d) (''sha256:'' @ d) producer req))
         ''evidence-record-exists'' ''evidence record already exists in the local evidence store''
         (fs1\<lparr>fs_minted := Suc (fs_minted fs1)\<rparr>) = (s, fs')"
      "r = res_bind s (\<lambda>_. Inr (evidence_ref (evidence_record_of
         (evidence_record_resource_uri (st_evidence_record_id st (fs_minted fs1)))
            (object_resource_uri d) (''sha256:'' @ d) producer req)))"
proof (cases "is_blank (ee_mime_type req)")
  case True
  with assms that(1) show thesis
    by (auto simp: store_evidence_def)
next
  case False
  obtain b fs1 where blob: "ensure_evidence_blob st root req fs = (b, fs1)"
    by fastforce
  show thesis
  proof (cases b)
    case (Inl e)
    with assms False blob that(2) show thesis
      by (auto simp: store_evidence_def io_bind_def)
  next
    case (Inr p)
    from blob have "p = (object_resource_uri (st_sha256_hex st (ee_payload req)),
        ''sha256:'' @ st_sha256_hex st (ee_payload req))"
      unfolding Inr by (cases rule: ensure_blob_cases) (auto simp: res_bind_def split: sum.splits)
    with assms False blob Inr that(3) show thesis
      by (auto simp: store_evidence_def io_bind_def mint_host_evidence_record_id_def Let_def res_bind_def
          evidence_ref_def evidence_record_of_def split: prod.splits sum.splits)
  qed
qed

lemma store_evidence_extends:
  assumes "store_evidence st root producer req fs = (r, fs')"
  shows "fs_extends fs fs'"
  using assms
proof (cases rule: store_evidence_cases)
  case (stored d fs1 s)
  have "fs_extends fs1 fs'"
    using write_json_new_extends[OF stored(3)] by (simp add: fs_extends_def)
  with ensure_blob_extends[OF stored(2)] show ?thesis
    by (rule fs_extends_trans)
qed (auto dest: ensure_blob_extends)

interpretation store_order: world_order fs_extends
  by unfold_locales (auto intro: fs_extends_trans)

section \<open>Records read back\<close>

definition record_readback :: "StoreEnv \<Rightarrow> ExecutionRecord \<Rightarrow> RegistryError + ExecutionRecord" where
  "record_readback st rc =
     (case st_record_text st rc of
        Inl e \<Rightarrow> Inl (caused_by [] [] e)
      | Inr s \<Rightarrow>
          if utf8_valid s
          then map_err (caused_by ''execution-parse-failed'' ''failed to parse stored execution record JSON'')
                 (parse_execution_record st s)
          else Inl (caused_by ''execution-read-failed'' ''failed to read execution record''
                 (st_io_text st Io_InvalidData)))"

lemma persist_load:
  assumes "persist_execution_record st root rc fs = (Inr u, fs')"
  shows "load_execution_record st root (rcpt_execution_id (x_receipt rc)) fs' = record_readback st rc"
proof -
  from assms have "write_json_new (st_io_text st) (execution_path root (rcpt_execution_id (x_receipt rc)))
     (st_record_text st rc) ''execution-record-exists''
     ''execution record already exists in the local execution store'' fs = (Inr u, fs')"
    by (simp add: persist_execution_record_def Let_def split: if_splits)
  then obtain b where "st_record_text st rc = Inr b"
    "fs_get fs' (execution_path root (rcpt_execution_id (x_receipt rc))) = Some (File b)"
    by (rule write_json_new_Inr)
  then show ?thesis
    by (simp add: load_execution_record_def Let_def read_to_string_def read_bytes_def record_readback_def res_bind_def
        map_err_def)
qed

interpretation local_store: record_store "LocalRegistry st root installed" "record_readback st"
  by unfold_locales (simp add: LocalRegistry_def persist_load)

text \<open>\<open>serde_json\<close> writes UTF-8 text that it parses back to the value.\<close>

definition faithful_codec :: "('a \<Rightarrow> string + string) \<Rightarrow> (string \<Rightarrow> string + 'a) \<Rightarrow> bool" where
  "faithful_codec text parse \<longleftrightarrow> (\<forall>x s. text x = Inr s \<longrightarrow> utf8_valid s \<and> parse s = Inr x)"

lemma record_readback_faithful:
  assumes "faithful_codec (st_record_text st) (parse_execution_record st)" "st_record_text st rc = Inr s"
  shows "record_readback st rc = Inr rc"
  using assms by (simp add: record_readback_def faithful_codec_def map_err_def)

lemma local_store_faithful:
  assumes "faithful_codec (st_record_text st) (parse_execution_record st)"
  shows "record_store (LocalRegistry st root installed) Inr"
proof
  fix rc and w w' :: Fs
  assume run: "reg_persist_execution_record (LocalRegistry st root installed) rc w = (Inr (), w')"
  then have "persist_execution_record st root rc w = (Inr (), w')"
    by (simp add: LocalRegistry_def)
  then obtain s where "st_record_text st rc = Inr s"
    by (auto simp: persist_execution_record_def Let_def split: if_splits elim: write_json_new_Inr)
  from local_store.persist_load[OF run] record_readback_faithful[OF assms this]
  show "reg_load_execution_record (LocalRegistry st root installed) (rcpt_execution_id (x_receipt rc)) w' = Inr rc"
    by simp
qed

section \<open>Content-addressed blobs\<close>

text \<open>A populated blob directory holds a payload with the digest that names the directory.\<close>

abbreviation payload_path :: "path \<Rightarrow> string \<Rightarrow> path" where
  "payload_path root d \<equiv> object_blob_path root d @ [''payload'']"

abbreviation metadata_path :: "path \<Rightarrow> string \<Rightarrow> path" where
  "metadata_path root d \<equiv> object_blob_path root d @ [''blob.json'']"

definition blobs_ok :: "StoreEnv \<Rightarrow> path \<Rightarrow> Fs \<Rightarrow> bool" where
  "blobs_ok st root fs \<longleftrightarrow>
     (\<forall>d. path_exists fs (payload_path root d) \<longrightarrow> path_exists fs (metadata_path root d)
        \<longrightarrow> (\<exists>b. fs_get fs (payload_path root d) = Some (File b) \<and> st_sha256_hex st b = d))"

text \<open>Steps that leave every path of the blob store's depth alone keep the invariant.\<close>

lemma blobs_ok_unchanged:
  assumes "blobs_ok st root fs" "\<And>q. length q = length root + 4 \<Longrightarrow> fs_get fs' q = fs_get fs q"
  shows "blobs_ok st root fs'"
  using assms by (simp add: blobs_ok_def path_exists_def object_blob_path_def object_blobs_root_def objects_root_def)

lemma shallow_dirs:
  assumes "create_dir_all p fs = (r, fs')" "length p < length q"
  shows "fs_get fs' q = fs_get fs q"
  using create_dir_all_get[OF assms(1), of q] assms(2) prefix_length_le[of q p] by fastforce

lemma blob_path_lengths [simp]:
  "length (object_blob_path root d) = length root + 3" "length (execution_path root x) = length root + 2"
  "length (evidence_record_path root x) = length root + 3"
  by (simp_all add: object_blob_path_def object_blobs_root_def objects_root_def execution_path_def executions_root_def
      evidence_record_path_def object_records_root_def)

lemma object_blob_path_eq [simp]: "object_blob_path root d = object_blob_path root d' \<longleftrightarrow> d = d'"
  by (simp add: object_blob_path_def)

lemma write_json_new_deep:
  assumes "write_json_new io_text p text code msg fs = (r, fs')" "length p < length q"
  shows "fs_get fs' q = fs_get fs q"
proof -
  have "\<not> prefix q (butlast p)" "q \<noteq> p"
    using assms(2) prefix_length_le[of q "butlast p"] by auto
  then show ?thesis
    using write_json_new_get[OF assms(1), of q] by blast
qed

lemma ensure_blob_keeps_blobs:
  assumes "ensure_evidence_blob st root req fs = (r, fs')" "blobs_ok st root fs"
  shows "blobs_ok st root fs'"
  using assms(1)
proof (cases rule: ensure_blob_cases)
  case (unpopulated e s)
  then show ?thesis
    by (intro blobs_ok_unchanged[OF assms(2)] shallow_dirs[OF unpopulated(2)]) simp
next
  case (reused u m)
  then show ?thesis
    by (intro blobs_ok_unchanged[OF assms(2)] shallow_dirs[OF reused(1)]) simp
next
  case (torn u fs1 e)
  let ?d = "st_sha256_hex st (ee_payload req)"
  have ok1: "blobs_ok st root fs1"
    by (intro blobs_ok_unchanged[OF assms(2)] shallow_dirs[OF torn(1)]) simp
  have get: "fs_get fs' q = fs_get fs1 q" if "q \<noteq> payload_path root ?d" for q
    using fs_write_get[OF torn(4) that] .
  show ?thesis
    unfolding blobs_ok_def
  proof (intro allI impI)
    fix d
    assume ex: "path_exists fs' (payload_path root d)" "path_exists fs' (metadata_path root d)"
    have m: "fs_get fs' (metadata_path root d) = fs_get fs1 (metadata_path root d)"
      by (rule get) simp
    with ex(2) torn(3) have "d \<noteq> ?d"
      by (auto simp: path_exists_def)
    then have "fs_get fs' (payload_path root d) = fs_get fs1 (payload_path root d)"
      by (intro get) simp
    with ok1 ex m show "\<exists>b. fs_get fs' (payload_path root d) = Some (File b) \<and> st_sha256_hex st b = d"
      by (simp add: blobs_ok_def path_exists_def)
  qed
next
  case (written u fs1 v fs2 s)
  let ?d = "st_sha256_hex st (ee_payload req)"
  have ok1: "blobs_ok st root fs1"
    by (intro blobs_ok_unchanged[OF assms(2)] shallow_dirs[OF written(1)]) simp
  have get: "fs_get fs' q = fs_get fs2 q" if "q \<noteq> metadata_path root ?d" "length q = length root + 4" for q
  proof -
    have "\<not> prefix q (butlast (metadata_path root ?d))"
      using that(2) prefix_length_le[of q "butlast (metadata_path root ?d)"] by auto
    then show ?thesis
      using write_json_get[OF written(5), of q] that(1) by blast
  qed
  have payload: "fs_get fs' (payload_path root ?d) = Some (File (ee_payload req))"
    using get[of "payload_path root ?d"] fs_write_Inr[OF written(4)] by simp
  show ?thesis
    unfolding blobs_ok_def
  proof (intro allI impI)
    fix d
    assume ex: "path_exists fs' (payload_path root d)" "path_exists fs' (metadata_path root d)"
    show "\<exists>b. fs_get fs' (payload_path root d) = Some (File b) \<and> st_sha256_hex st b = d"
    proof (cases "d = ?d")
      case False
      then have "fs_get fs' (payload_path root d) = fs_get fs1 (payload_path root d)"
        "fs_get fs' (metadata_path root d) = fs_get fs1 (metadata_path root d)"
        using get[of "payload_path root d"] get[of "metadata_path root d"] fs_write_get[OF written(4)]
        by simp_all
      with ok1 ex show ?thesis
        by (simp add: blobs_ok_def path_exists_def)
    qed (use payload in simp)
  qed
qed

lemma store_evidence_keeps_blobs:
  assumes "store_evidence st root producer req fs = (r, fs')" "blobs_ok st root fs"
  shows "blobs_ok st root fs'"
  using assms(1)
proof (cases rule: store_evidence_cases)
  case (stored d fs1 s)
  have "blobs_ok st root fs1"
    using ensure_blob_keeps_blobs[OF stored(2) assms(2)] .
  moreover have "fs_get fs' q = fs_get fs1 q" if "length q = length root + 4" for q
    using write_json_new_deep[OF stored(3), of q] that by simp
  ultimately show ?thesis
    by (rule blobs_ok_unchanged)
next
  case (unstored e)
  then show ?thesis
    using assms(2) by (blast intro: ensure_blob_keeps_blobs)
qed (use assms(2) in simp)

lemma persist_keeps_blobs:
  assumes "persist_execution_record st root rc fs = (r, fs')" "blobs_ok st root fs"
  shows "blobs_ok st root fs'"
proof (rule blobs_ok_unchanged[OF assms(2)])
  fix q :: path
  assume "length q = length root + 4"
  then show "fs_get fs' q = fs_get fs q"
    using assms(1) write_json_new_deep[of _ "execution_path root (rcpt_execution_id (x_receipt rc))" _ _ _ fs r fs' q]
    by (auto simp: persist_execution_record_def Let_def split: if_splits)
qed

section \<open>Evidence read back\<close>

definition hex_digests :: "StoreEnv \<Rightarrow> bool" where
  "hex_digests st \<longleftrightarrow> (\<forall>s. st_sha256_hex st s \<noteq> [] \<and> list_all is_lower_hex_digit (st_sha256_hex st s))"

lemma ensure_blob_payload:
  assumes "ensure_evidence_blob st root req fs = (Inr (u, l), fs')" "blobs_ok st root fs"
  shows "\<exists>b. fs_get fs' (payload_path root (st_sha256_hex st (ee_payload req))) = Some (File b)
    \<and> st_sha256_hex st b = st_sha256_hex st (ee_payload req)"
  using assms(1)
proof (cases rule: ensure_blob_cases)
  case (reused v m)
  then show ?thesis
    using ensure_blob_keeps_blobs[OF assms] by (simp add: blobs_ok_def)
next
  case (written u fs1 v fs2 s)
  then obtain x where "write_json (st_io_text st) (metadata_path root (st_sha256_hex st (ee_payload req)))
     (st_blob_text st \<lparr>eb_uri = object_resource_uri (st_sha256_hex st (ee_payload req)),
         eb_sha256 = ''sha256:'' @ st_sha256_hex st (ee_payload req),
         eb_size_bytes = of_nat (length (ee_payload req))\<rparr>) fs2 = (Inr x, fs')"
    by (cases s) (auto simp: res_bind_def)
  then have "path_exists fs' (metadata_path root (st_sha256_hex st (ee_payload req)))"
    by (auto simp: path_exists_def elim: write_json_Inr)
  moreover have "path_exists fs' (payload_path root (st_sha256_hex st (ee_payload req)))"
    using fs_write_Inr[OF written(4)] write_json_get[OF written(5), of "payload_path root (st_sha256_hex st (ee_payload req))"]
    by (auto simp: path_exists_def)
  ultimately show ?thesis
    using ensure_blob_keeps_blobs[OF assms] by (simp add: blobs_ok_def)
qed auto


lemma store_evidence_readback:
  assumes codec: "faithful_codec (st_evidence_text st) (st_evidence_parse st)" and hex: "hex_digests st"
    and ids: "\<And>n. st_evidence_record_id st n \<noteq> [] \<and> utf8_valid (st_evidence_record_id st n)"
    and ok: "blobs_ok st root fs" and run: "store_evidence st root producer req fs = (Inr ref, fs')"
  shows "\<exists>rec b. load_evidence_record_from_root st root (er_uri ref) fs' = Inr rec
    \<and> evidence_ref rec = ref \<and> ev_produced_by_execution rec = Some producer
    \<and> er_sha256 ref = Some (''sha256:'' @ st_sha256_hex st (ee_payload req))
    \<and> local_read_resource st root (er_uri ref) fs'
        = Inr \<lparr>rr_uri = er_uri ref, rr_mime_type = ee_mime_type req, rr_bytes = b, rr_sha256 = er_sha256 ref\<rparr>
    \<and> st_sha256_hex st b = st_sha256_hex st (ee_payload req)"
  using run
proof (cases rule: store_evidence_cases)
  case (stored d fs1 s)
  let ?rid = "st_evidence_record_id st (fs_minted fs1)"
  define rec where "rec = evidence_record_of (evidence_record_resource_uri ?rid) (object_resource_uri d)
    (''sha256:'' @ d) producer req"
  obtain x where s: "s = Inr x" and ref: "ref = evidence_ref rec"
    using stored(4) by (cases s) (auto simp: res_bind_def rec_def)
  obtain t where t: "st_evidence_text st rec = Inr t" "fs_get fs' (evidence_record_path root ?rid) = Some (File t)"
    using stored(3) unfolding s rec_def[symmetric] by (rule write_json_new_Inr)
  have uri: "er_uri ref = evidence_record_resource_uri ?rid"
    by (simp add: ref evidence_ref_def rec_def evidence_record_of_def)
  have parse: "parse_guild_uri (er_uri ref) = Inr (Uri_ObjectRecord ?rid)"
    using ids by (simp add: uri parse_guild_uri_def parse_record_resource_uri map_err_def)
  have load: "load_evidence_record_from_root st root (er_uri ref) fs' = Inr rec"
    using codec t
    by (simp add: load_evidence_record_from_root_def parse res_bind_def Let_def read_to_string_def read_bytes_def
        map_err_def parse_evidence_record_contents_def faithful_codec_def)
  obtain b where b: "fs_get fs1 (payload_path root d) = Some (File b)" "st_sha256_hex st b = d"
    using ensure_blob_payload[OF stored(2) ok] stored(1) by auto
  have "fs_get fs' (payload_path root d) = Some (File b)"
    using write_json_new_deep[OF stored(3), of "payload_path root d"] b(1) by simp
  moreover have "parse_guild_uri (ev_blob_uri rec) = Inr (Uri_ObjectBlob d)"
    using hex parse_object_resource_uri[of d]
    by (simp add: rec_def evidence_record_of_def parse_guild_uri_def map_err_def hex_digests_def stored(1))
  ultimately have "local_read_resource st root (er_uri ref) fs'
      = Inr \<lparr>rr_uri = er_uri ref, rr_mime_type = ev_mime_type rec, rr_bytes = b, rr_sha256 = Some (ev_sha256 rec)\<rparr>"
    by (simp add: local_read_resource_def read_record_backed_object_payload_def parse load res_bind_def Let_def
        read_object_payload_def read_bytes_def map_err_def)
  with load b(2) stored(1) show ?thesis
    by (auto simp: ref evidence_ref_def rec_def evidence_record_of_def)
qed auto

section \<open>Queries\<close>

lemma sorted_sort_by_on:
  assumes "\<And>x y. x \<in> set xs \<Longrightarrow> y \<in> set xs \<Longrightarrow> le x y \<longleftrightarrow> (f y :: 'b :: linorder) \<le> f x"
  shows "sorted_wrt (\<lambda>x y. f y \<le> f x) (sort_by le xs)"
  using assms
proof (induction xs)
  case (Cons a xs)
  have ins: "sorted_wrt (\<lambda>x y. f y \<le> f x) (insert_by le a ys)"
    if "sorted_wrt (\<lambda>x y. f y \<le> f x) ys" "\<And>y. y \<in> set ys \<Longrightarrow> le a y \<longleftrightarrow> f y \<le> f a" for ys
    using that by (induction ys) (auto intro: order_trans)
  have "set (sort_by le xs) = set xs"
    by simp
  with Cons show ?case
    by (auto simp: sort_by_def intro!: ins)
qed (simp add: sort_by_def)

lemma str_less_iff: "str_less s t \<longleftrightarrow> map byte s < map byte t"
proof (induction s t rule: str_less.induct)
  case (3 a s b t)
  then show ?case
    by auto
qed simp_all

definition query_time :: "StoreEnv \<Rightarrow> string option \<Rightarrow> int option" where
  "query_time st t = Option.bind t (st_rfc3339 st)"

definition query_rank :: "StoreEnv \<Rightarrow> ExecutionRecord \<Rightarrow> int option \<times> int option \<times> nat list" where
  "query_rank st rc =
     (query_time st (prov_finished_at_utc (x_provenance rc)), query_time st (prov_started_at_utc (x_provenance rc)),
      map byte (rcpt_execution_id (x_receipt rc)))"

definition timestamps_parse :: "StoreEnv \<Rightarrow> ExecutionRecord \<Rightarrow> bool" where
  "timestamps_parse st rc \<longleftrightarrow>
     (\<forall>t \<in> {prov_finished_at_utc (x_provenance rc), prov_started_at_utc (x_provenance rc)}.
        t = None \<or> query_time st t \<noteq> None)"

lemma compare_times:
  assumes "l = None \<or> query_time st l \<noteq> None" "r = None \<or> query_time st r \<noteq> None"
  shows "compare_optional_timestamps_desc st l r = cmp_by (<) (query_time st r) (query_time st l)"
  using assms
  by (cases l; cases r) (auto simp: query_time_def compare_rfc3339_timestamps_desc_def cmp_by_def)

lemma compare_records:
  assumes "timestamps_parse st l" "timestamps_parse st r"
  shows "compare_execution_records_for_query st l r \<noteq> Greater \<longleftrightarrow> query_rank st r \<le> query_rank st l"
  using assms
  by (auto simp: compare_execution_records_for_query_def timestamps_parse_def compare_times query_rank_def
      then_with_def cmp_by_def str_less_iff less_eq_prod_def)

lemma collect_results_Inr:
  "collect_results rs = Inr xs \<Longrightarrow> x \<in> set xs \<longleftrightarrow> Inr x \<in> set rs"
  unfolding collect_results_Inr_iff by (induction rs xs rule: list_all2_induct) auto

definition fs_tree :: "Fs \<Rightarrow> bool" where
  "fs_tree fs \<longleftrightarrow> (\<forall>p c. fs_get fs (p @ [c]) \<noteq> None \<longrightarrow> fs_get fs p = Some Dir)"

lemma listed_records:
  assumes "load_execution_records_sorted st root fs = Inr rcs" "fs_tree fs"
  shows "rc \<in> set rcs \<longleftrightarrow> (\<exists>name t. has_extension ''json'' name
    \<and> fs_get fs (executions_root root @ [name]) = Some (File t) \<and> utf8_valid t \<and> parse_execution_record st t = Inr rc)"
proof (cases "path_exists fs (executions_root root)")
  case False
  then have "fs_get fs (executions_root root @ [name]) = None" for name
    using assms(2) unfolding fs_tree_def path_exists_def by (metis option.distinct(1))
  with assms(1) False show ?thesis
    by (simp add: load_execution_records_sorted_def)
next
  case True
  with assms(1) obtain es where es: "read_dir fs (executions_root root) = Inr es"
    by (auto simp: load_execution_records_sorted_def Let_def res_bind_Inr_iff map_err_def split: sum.splits)
  let ?load = "load_listed_execution st (executions_root root) fs"
  define names where "names = map fst (filter (\<lambda>(name, e). e \<noteq> Dir \<and> has_extension ''json'' name) es)"
  obtain xs where xs: "collect_results (map ?load (sort_cmp (\<lambda>l r. cmp_by str_less r l) names)) = Inr xs"
    and rcs: "rcs = sort_cmp (compare_execution_records_for_query st) xs"
    using assms(1) True es
    by (auto simp: load_execution_records_sorted_def Let_def res_bind_Inr_iff map_err_def names_def)
  have "rc \<in> set rcs \<longleftrightarrow> (\<exists>name \<in> set names. ?load name = Inr rc)"
    unfolding rcs using collect_results_Inr[OF xs, of rc] by (force simp: sort_cmp_def)
  moreover have "name \<in> set names \<longleftrightarrow> has_extension ''json'' name
      \<and> (\<exists>t. fs_get fs (executions_root root @ [name]) = Some (File t))" for name
  proof -
    have "name \<in> set names \<longleftrightarrow> (\<exists>e. (name, e) \<in> set es \<and> e \<noteq> Dir) \<and> has_extension ''json'' name"
      unfolding names_def by force
    also have "(\<exists>e. (name, e) \<in> set es \<and> e \<noteq> Dir) \<longleftrightarrow> (\<exists>t. fs_get fs (executions_root root @ [name]) = Some (File t))"
      unfolding read_dir_entries[OF es] by (metis Entry.distinct(1) Entry.exhaust)
    finally show ?thesis
      by blast
  qed
  moreover have "?load name = Inr rc \<longleftrightarrow> (\<exists>t. fs_get fs (executions_root root @ [name]) = Some (File t)
      \<and> utf8_valid t \<and> parse_execution_record st t = Inr rc)" for name
    by (auto simp: load_listed_execution_def res_bind_Inr_iff map_err_def read_to_string_def read_bytes_def
        split: sum.splits option.splits Entry.splits)
  ultimately show ?thesis
    by auto
qed

lemma listed_newest_first:
  assumes "load_execution_records_sorted st root fs = Inr rcs" "\<And>rc. rc \<in> set rcs \<Longrightarrow> timestamps_parse st rc"
  shows "sorted_wrt (\<lambda>x y. query_rank st y \<le> query_rank st x) rcs"
proof -
  obtain xs where rcs: "rcs = sort_cmp (compare_execution_records_for_query st) xs"
    using assms(1)
    by (auto simp: load_execution_records_sorted_def Let_def res_bind_Inr_iff sort_cmp_def sort_by_def split: if_splits
        intro: that[of "[]"])
  have "set xs = set rcs"
    by (simp add: rcs sort_cmp_def)
  with assms(2) have "timestamps_parse st rc" if "rc \<in> set xs" for rc
    using that by blast
  then show ?thesis
    unfolding rcs sort_cmp_def by (intro sorted_sort_by_on compare_records)
qed

section \<open>Executions and the store\<close>

text \<open>What an execution keeps of the registry's files: every entry, and the content addresses.\<close>

definition store_keeps :: "StoreEnv \<Rightarrow> path \<Rightarrow> Fs \<Rightarrow> Fs \<Rightarrow> bool" where
  "store_keeps st root fs fs' \<longleftrightarrow> fs_extends fs fs' \<and> (blobs_ok st root fs \<longrightarrow> blobs_ok st root fs')"

lemma store_keeps_same: "fs_get fs' = fs_get fs \<Longrightarrow> store_keeps st root fs fs'"
  by (simp add: store_keeps_def fs_extends_def blobs_ok_def path_exists_def)

lemma local_keeping_runner:
  assumes "run_runtime r = WasmtimeRuntimeAdapter env wt"
    and "\<And>fs xid fs'. hc_mint_execution_id (run_clock r) fs = (xid, fs') \<Longrightarrow> fs_get fs' = fs_get fs"
    and "\<And>req tls timeout fs a fs'. tr_send (run_transport r) req tls timeout fs = (a, fs') \<Longrightarrow> fs_get fs' = fs_get fs"
  shows "keeping_runner (store_keeps st root) r (LocalRegistry st root installed)"
proof unfold_locales
  show "store_keeps st root w w" for w
    by (simp add: store_keeps_same)
  show "store_keeps st root w w1 \<Longrightarrow> store_keeps st root w1 w2 \<Longrightarrow> store_keeps st root w w2" for w w1 w2
    by (auto simp: store_keeps_def intro: fs_extends_trans)
  show "reg_persist_execution_record (LocalRegistry st root installed) rc w = (rp, w') \<Longrightarrow> store_keeps st root w w'"
    for rc w rp w'
    by (auto simp: LocalRegistry_def store_keeps_def dest: persist_extends persist_keeps_blobs)
  show "reg_store_evidence (LocalRegistry st root installed) xid req w = (rs, w') \<Longrightarrow> store_keeps st root w w'"
    for xid req w rs w'
    by (auto simp: LocalRegistry_def store_keeps_def dest: store_evidence_extends store_evidence_keeps_blobs)
  show "\<And>w xid w'. hc_mint_execution_id (run_clock r) w = (xid, w') \<Longrightarrow> store_keeps st root w w'"
    using assms(2) by (blast intro: store_keeps_same)
  show "\<And>hreq tls timeout w rt w'. tr_send (run_transport r) hreq tls timeout w = (rt, w') \<Longrightarrow> store_keeps st root w w'"
    using assms(3) by (blast intro: store_keeps_same)
  show "\<And>keeps host inst cx input w res w'. keeping_host keeps host
    \<Longrightarrow> ra_execute (run_runtime r) host inst cx input w = (res, w') \<Longrightarrow> keeps w w'"
    unfolding assms(1) by (rule wasm_keeping.adapter_keeps)
qed

text \<open>
  A runner over the local store: execution identifiers come from the same supply of UUIDs as those of
  evidence records, and the network answers without touching the store.
\<close>

definition local_runner ::
  "Fs HostEnv \<Rightarrow> Fs Wasmtime \<Rightarrow> (HttpRequestMsg \<Rightarrow> bool \<Rightarrow> u64 \<Rightarrow> WasiHttpErrorCode + IncomingResponse)
     \<Rightarrow> (nat \<Rightarrow> string) \<Rightarrow> string \<Rightarrow> Fs Runner" where
  "local_runner env wt answer ids now =
     \<lparr>run_env = env, run_runtime = WasmtimeRuntimeAdapter env wt,
      run_transport = \<lparr>tr_build_error = (\<lambda>_. None), tr_send = (\<lambda>req tls timeout fs. (answer req tls timeout, fs)),
        tr_error_debug = (\<lambda>_. [])\<rparr>, run_http_replay_catalog = None,
      run_clock = \<lparr>hc_mint_execution_id = (\<lambda>fs. (ids (fs_minted fs), fs\<lparr>fs_minted := Suc (fs_minted fs)\<rparr>)),
        hc_now_utc = (\<lambda>_. now), hc_elapsed_ms = (\<lambda>_ _. 0)\<rparr>\<rparr>"

interpretation local_runner: keeping_runner "store_keeps st root" "local_runner env wt answer ids now"
  "LocalRegistry st root installed" for st root env wt answer ids now installed
  by (rule local_keeping_runner[of _ env wt]) (auto simp: local_runner_def fun_eq_iff)

interpretation local_host: keeping_host "store_keeps st root"
  "runner_host_with (execute (local_runner env wt answer ids now) (LocalRegistry st root installed))
     (local_runner env wt answer ids now) (LocalRegistry st root installed)" for st root env wt answer ids now installed
  by (rule local_runner.runner_host_keeps) (rule local_runner.execute_keeps)

section \<open>Claims\<close>

text \<open>C12: An execution record is written once. Persisting never changes or removes an entry of the file system,
  whatever write fails or is torn; when it succeeds the record was not stored before, and loading it
  gives what the codec reads back from its text.\<close>

theorem records_written_once:
  assumes "persist_execution_record st root rc fs = (r, fs')"
  shows "fs_extends fs fs'
    \<and> (r = Inr () \<longrightarrow> fs_get fs (execution_path root (rcpt_execution_id (x_receipt rc))) = None
         \<and> load_execution_record st root (rcpt_execution_id (x_receipt rc)) fs' = record_readback st rc)"
proof -
  let ?p = "execution_path root (rcpt_execution_id (x_receipt rc))"
  have "\<not> prefix ?p (butlast ?p)"
    using prefix_length_le[of ?p "butlast ?p"] by auto
  then have "fs_get fs ?p = None" if "r = Inr ()"
    using assms that
    by (auto simp: persist_execution_record_def Let_def split: if_splits elim: write_json_new_Inr)
  with assms persist_extends persist_load show ?thesis
    by blast
qed

text \<open>C13: No execution, whatever its component and its children do, changes or removes a file of the local
  registry; and an object store whose blobs have the digests that name them stays one.\<close>

theorem execution_keeps_store:
  assumes "run_runtime r = WasmtimeRuntimeAdapter env wt"
    and "\<And>fs xid fs'. hc_mint_execution_id (run_clock r) fs = (xid, fs') \<Longrightarrow> fs_get fs' = fs_get fs"
    and "\<And>req tls timeout fs a fs'. tr_send (run_transport r) req tls timeout fs = (a, fs') \<Longrightarrow> fs_get fs' = fs_get fs"
    and "execute r (LocalRegistry st root installed) i envl fs = (res, fs')"
  shows "fs_extends fs fs' \<and> (blobs_ok st root fs \<longrightarrow> blobs_ok st root fs')"
proof -
  have "keeping_runner (store_keeps st root) r (LocalRegistry st root installed)"
    using assms(1-3) by (rule local_keeping_runner)
  from keeping_runner.execute_keeps[OF this assms(4)] show ?thesis
    by (simp add: store_keeps_def)
qed

text \<open>C14: Evidence reads back. After a successful emission the record loads under the returned URI, describes the
  returned reference and names the producing execution, and reading the URI as a resource gives bytes
  with the payload's media type and the digest of the payload.\<close>

theorem evidence_roundtrip:
  assumes "faithful_codec (st_evidence_text st) (st_evidence_parse st)" "hex_digests st"
    and "\<And>n. st_evidence_record_id st n \<noteq> [] \<and> utf8_valid (st_evidence_record_id st n)"
    and "blobs_ok st root fs" "store_evidence st root producer req fs = (Inr ref, fs')"
  shows "\<exists>rec b. load_evidence_record_from_root st root (er_uri ref) fs' = Inr rec
    \<and> evidence_ref rec = ref \<and> ev_produced_by_execution rec = Some producer
    \<and> er_sha256 ref = Some (''sha256:'' @ st_sha256_hex st (ee_payload req))
    \<and> local_read_resource st root (er_uri ref) fs'
        = Inr \<lparr>rr_uri = er_uri ref, rr_mime_type = ee_mime_type req, rr_bytes = b, rr_sha256 = er_sha256 ref\<rparr>
    \<and> st_sha256_hex st b = st_sha256_hex st (ee_payload req)"
  using assms by (rule store_evidence_readback)


section \<open>A small store\<close>

definition sample_emission :: EvidenceEmissionRequest where
  "sample_emission = \<lparr>ee_payload = ''hi'', ee_mime_type = ''text/plain'', ee_title = None, ee_audience = User,
     ee_redaction = RC_None, ee_freshness = None\<rparr>"

definition sample_evidence :: EvidenceRecord where
  "sample_evidence = evidence_record_of (evidence_record_resource_uri ''e1'') (object_resource_uri ''ab'')
     ''sha256:ab'' ''x1'' sample_emission"

definition sample_stored :: "string \<Rightarrow> ExecutionStatus \<Rightarrow> ExecutionRecord" where
  "sample_stored xid s = \<lparr>x_receipt = build_receipt xid ''tr1'' s, x_request = sample_caller,
     x_policy_decision = env_policy_decision sample_envelope, x_resolved_skill = resolved_ref sample_skill,
     x_parent_execution_id = None, x_status = s, x_output = None, x_termination = None,
     x_granted_capabilities = \<lparr>grants = []\<rparr>, x_emitted_evidence = [], x_authority_observations = [],
     x_authority_observations_recorded = True, x_metrics = ExecutionMetrics_default,
     x_provenance = build_provenance sample_skill sample_envelope ''2026'' ''2027'', x_child_executions = []\<rparr>"

definition sample_serde :: "ExecutionRecord \<Rightarrow> ExecutionRecordSerde" where
  "sample_serde rc = \<lparr>xs_receipt = x_receipt rc, xs_request = x_request rc, xs_policy_decision = x_policy_decision rc,
     xs_resolved_skill = x_resolved_skill rc, xs_parent_execution_id = x_parent_execution_id rc, xs_status = x_status rc,
     xs_output = x_output rc, xs_termination = x_termination rc, xs_granted_capabilities = x_granted_capabilities rc,
     xs_emitted_evidence = x_emitted_evidence rc, xs_authority_observations = Some (x_authority_observations rc),
     xs_authority_observations_recorded = Some (x_authority_observations_recorded rc), xs_metrics = x_metrics rc,
     xs_provenance = x_provenance rc, xs_child_executions = x_child_executions rc\<rparr>"

text \<open>Codecs that know one evidence record and two execution records.\<close>

definition sample_store :: StoreEnv where
  "sample_store = \<lparr>
     st_record_text = (\<lambda>rc. if rcpt_execution_id (x_receipt rc) = ''x1'' then Inr ''1'' else Inr ''2''),
     st_record_parse = (\<lambda>s. if s = ''1'' then Inr (sample_serde (sample_stored ''x1'' Succeeded))
       else if s = ''2'' then Inr (sample_serde (sample_stored ''x2'' Failed)) else Inl ''eof''),
     st_evidence_text = (\<lambda>e. if e = sample_evidence then Inr ''e'' else Inl ''unsupported''),
     st_evidence_parse = (\<lambda>s. if s = ''e'' then Inr sample_evidence else Inl ''eof''),
     st_blob_text = (\<lambda>b. Inr ''b''), st_blob_parse = (\<lambda>s. Inl ''eof''), st_query_text = (\<lambda>_. Inr ''q''),
     st_policy_parse = (\<lambda>_. Inl ''eof''), st_sha256_hex = (\<lambda>s. if s = ''hi'' then ''ab'' else ''cd''),
     st_evidence_record_id = (\<lambda>_. ''e1''), st_rfc3339 = (\<lambda>s. Some (int (length s))), st_io_text = (\<lambda>_. ''io'')\<rparr>"

definition sample_fs :: Fs where
  "sample_fs = \<lparr>fs_entries = [([], Dir), ([''g''], Dir), ([''g'', ''policy.json''], File ''p'')], fs_faults = [], fs_minted = 0\<rparr>"

theorem records_written_once_witness:
  "load_execution_record sample_store [''g''] ''x1''
     (snd (persist_execution_record sample_store [''g''] (sample_stored ''x1'' Succeeded) sample_fs))
     = Inr (sample_stored ''x1'' Succeeded)
   \<and> fs_get (snd (persist_execution_record sample_store [''g''] (sample_stored ''x1'' Succeeded)
         (sample_fs\<lparr>fs_faults := [No_Fault, No_Fault, Fault_Torn 0 ''disk full'']\<rparr>))) [''g'', ''policy.json''] = Some (File ''p'')"
proof -
  let ?run = "persist_execution_record sample_store [''g''] (sample_stored ''x1'' Succeeded)"
  let ?torn = "sample_fs\<lparr>fs_faults := [No_Fault, No_Fault, Fault_Torn 0 ''disk full'']\<rparr>"
  have ok: "fst (?run sample_fs) = Inr ()"
    by code_simp
  have readback: "record_readback sample_store (sample_stored ''x1'' Succeeded) = Inr (sample_stored ''x1'' Succeeded)"
    by code_simp
  have xid: "rcpt_execution_id (x_receipt (sample_stored ''x1'' Succeeded)) = ''x1''"
    by code_simp
  have "fs_extends ?torn (snd (?run ?torn))"
    using records_written_once[OF surjective_pairing[of "?run ?torn"]] by blast
  moreover have "fs_get ?torn [''g'', ''policy.json''] = Some (File ''p'')"
    by code_simp
  moreover have "load_execution_record sample_store [''g''] ''x1'' (snd (?run sample_fs)) = Inr (sample_stored ''x1'' Succeeded)"
    using records_written_once[OF surjective_pairing[of "?run sample_fs"]] ok readback xid by simp
  ultimately show ?thesis
    unfolding fs_extends_def by blast
qed

definition sample_local_runner :: "Fs Runner" where
  "sample_local_runner = local_runner
     \<lparr>he_url_parse = sample_url_parse, he_url_join = (\<lambda>u l. sample_url_parse l), he_ip_error = (\<lambda>s. s),
      he_dns = (\<lambda>_. sample_dns), he_json_text = (\<lambda>_. ''null''), he_json_parse = (\<lambda>_. Inr JNull),
      he_json_stream = (\<lambda>_. None), he_sha256_hex = (\<lambda>_. ''00'')\<rparr>
     \<lparr>wt_load = (\<lambda>_ _. Inl ''truncated''), wt_wasi_link_error = None, wt_host_link_error = None, wt_context = (\<lambda>_. [])\<rparr>
     (\<lambda>_ _ _. Inl ConnectionTimeout) (\<lambda>_. ''x1'') ''2026''"

theorem execution_keeps_store_witness:
  "\<exists>res fs'. execute sample_local_runner (LocalRegistry sample_store [''g''] sample_cycle) (hd sample_cycle)
       sample_envelope sample_fs = (res, fs')
     \<and> fs_get fs' [''g'', ''policy.json''] = Some (File ''p'') \<and> blobs_ok sample_store [''g''] fs'"
proof -
  obtain res fs' where run: "execute sample_local_runner (LocalRegistry sample_store [''g''] sample_cycle)
      (hd sample_cycle) sample_envelope sample_fs = (res, fs')"
    by fastforce
  have fs: "fs_get sample_fs p = (if p = [] \<or> p = [''g''] then Some Dir
      else if p = [''g'', ''policy.json''] then Some (File ''p'') else None)" for p
    by (simp add: fs_get_def sample_fs_def)
  have "blobs_ok sample_store [''g''] sample_fs"
    by (simp add: blobs_ok_def path_exists_def fs object_blob_path_def object_blobs_root_def objects_root_def)
  moreover have "fs_extends sample_fs fs' \<and> (blobs_ok sample_store [''g''] sample_fs \<longrightarrow> blobs_ok sample_store [''g''] fs')"
    by (rule execution_keeps_store[OF _ _ _ run]) (auto simp: sample_local_runner_def local_runner_def fun_eq_iff)
  ultimately show ?thesis
    using run fs unfolding fs_extends_def by auto
qed

theorem evidence_roundtrip_witness:
  "\<exists>b. local_read_resource sample_store [''g''] ''guild://objects/records/e1''
       (snd (store_evidence sample_store [''g''] ''x1'' sample_emission sample_fs))
     = Inr \<lparr>rr_uri = ''guild://objects/records/e1'', rr_mime_type = ''text/plain'', rr_bytes = b,
            rr_sha256 = Some ''sha256:ab''\<rparr>
     \<and> st_sha256_hex sample_store b = ''ab''"
proof -
  let ?run = "store_evidence sample_store [''g''] ''x1'' sample_emission sample_fs"
  have run: "?run = (Inr (evidence_ref sample_evidence), snd ?run)"
    by (rule prod_eqI) (code_simp, simp)
  have "faithful_codec (st_evidence_text sample_store) (st_evidence_parse sample_store)"
    by (simp add: faithful_codec_def sample_store_def)
  moreover have "hex_digests sample_store"
    by (simp add: hex_digests_def sample_store_def is_lower_hex_digit_def)
  moreover have "st_evidence_record_id sample_store n \<noteq> [] \<and> utf8_valid (st_evidence_record_id sample_store n)" for n
    by (simp add: sample_store_def)
  moreover have "blobs_ok sample_store [''g''] sample_fs"
    by (simp add: blobs_ok_def path_exists_def fs_get_def sample_fs_def object_blob_path_def object_blobs_root_def
        objects_root_def)
  moreover have "er_uri (evidence_ref sample_evidence) = ''guild://objects/records/e1''"
    "er_sha256 (evidence_ref sample_evidence) = Some ''sha256:ab''" "ee_mime_type sample_emission = ''text/plain''"
    "st_sha256_hex sample_store (ee_payload sample_emission) = ''ab''"
    by code_simp+
  ultimately show ?thesis
    using evidence_roundtrip[OF _ _ _ _ run] by metis
qed

definition sample_executions :: Fs where
  "sample_executions = \<lparr>fs_entries = [([], Dir), ([''g''], Dir), ([''g'', ''executions''], Dir),
     ([''g'', ''executions'', ''x1.json''], File ''1''), ([''g'', ''executions'', ''x2.json''], File ''2'')],
     fs_faults = [], fs_minted = 0\<rparr>"


end
