(* ===== verification/Guild_Trust.thy ===== *)
theory Guild_Trust
  imports Guild_Durability
begin

text \<open>
  Publishers, their keys and what their signatures vouch for
  (\<open>crates/guild-registry/src/lib.rs\<close>): local signing identities, the store of trusted publishers, signed
  execution plans and bundle signatures.

  \<open>TrustEnv\<close> holds the crates this rests on: Ed25519 keys and signatures of \<open>ed25519-dalek\<close>, \<open>base64\<close>, SHA-256,
  and the \<open>serde_json\<close> codecs of the stored types. Roots are canonical paths; there are no symbolic links.
\<close>

section \<open>Signatures and identities\<close>

record StructuredDigest =
  sd_algorithm :: string
  sd_value :: string

record ExecutionPlanSignatureEnvelope =
  pse_format_version :: string
  pse_scheme :: SignatureScheme
  pse_publisher_id :: string
  pse_signed_digest :: StructuredDigest
  pse_signature_base64 :: string

record ExecutionPlanVerification =
  pv_publisher :: PublisherRef
  pv_scheme :: SignatureScheme
  pv_signed_digest :: StructuredDigest
  pv_trust_tier :: LocalTrustTier

record LocalPublisherIdentity =
  lp_publisher :: PublisherRef
  lp_scheme :: SignatureScheme
  lp_public_key_base64 :: string
  lp_secret_key_base64 :: string

record TrustEnv =
  te_public_key :: "string \<Rightarrow> string"
  te_sign :: "string \<Rightarrow> string \<Rightarrow> string"
  te_key_check :: "string \<Rightarrow> string + unit"
  te_verify :: "string \<Rightarrow> string \<Rightarrow> string \<Rightarrow> string + unit"
  te_base64_encode :: "string \<Rightarrow> string"
  te_base64_decode :: "string \<Rightarrow> string + string"
  te_sha256_hex :: "string \<Rightarrow> string"
  te_json_text :: "json \<Rightarrow> string"
  te_signature_parse :: "json \<Rightarrow> string + ExecutionPlanSignatureEnvelope"
  te_bundle_signature_parse :: "string \<Rightarrow> string + BundleSignatureEnvelope"
  te_publisher_text :: "TrustedPublisherRecord \<Rightarrow> string + string"
  te_publisher_parse :: "string \<Rightarrow> string + TrustedPublisherRecord"
  te_identity_text :: "LocalPublisherIdentity \<Rightarrow> string + string"
  te_verification_parse :: "string \<Rightarrow> string + InstalledVerificationRecord"
  te_identity_parse :: "string \<Rightarrow> string + LocalPublisherIdentity"
  te_io_text :: "IoError \<Rightarrow> string"

definition BUNDLE_SIGNATURE_FORMAT_VERSION :: string where
  "BUNDLE_SIGNATURE_FORMAT_VERSION = ''guild-installed-bundle-signature-v1''"

definition EXECUTION_PLAN_SIGNATURE_FORMAT_VERSION :: string where
  "EXECUTION_PLAN_SIGNATURE_FORMAT_VERSION = ''guild-execution-plan-signature-v1''"

definition decode_fixed_base64 :: "TrustEnv \<Rightarrow> nat \<Rightarrow> string \<Rightarrow> string \<Rightarrow> string \<Rightarrow> RegistryError + string" where
  "decode_fixed_base64 te n v code msg =
     res_bind (map_err (caused_by code msg) (te_base64_decode te v)) (\<lambda>decoded.
     if length decoded = n then Inr decoded
     else Inl (caused_by code msg
            (''expected '' @ dec_of_nat n @ '' decoded bytes but found '' @ dec_of_nat (length decoded))))"

definition LocalPublisherIdentity_generate ::
  "TrustEnv \<Rightarrow> string + string \<Rightarrow> PublisherRef \<Rightarrow> RegistryError + LocalPublisherIdentity" where
  "LocalPublisherIdentity_generate te randomness pub =
     res_bind (map_err (caused_by ''publisher-identity-randomness-failed''
         ''failed to read system randomness for local publisher signing key'') randomness) (\<lambda>secret.
     Inr \<lparr>lp_publisher = pub, lp_scheme = Ed25519,
          lp_public_key_base64 = te_base64_encode te (te_public_key te secret),
          lp_secret_key_base64 = te_base64_encode te secret\<rparr>)"

definition signing_key :: "TrustEnv \<Rightarrow> LocalPublisherIdentity \<Rightarrow> RegistryError + string" where
  "signing_key te i =
     (case lp_scheme i of Ed25519 \<Rightarrow>
        res_bind (decode_fixed_base64 te 32 (lp_secret_key_base64 i) ''publisher-secret-key-invalid''
            ''local publisher secret key was invalid'') (\<lambda>secret.
        res_bind (decode_fixed_base64 te 32 (lp_public_key_base64 i) ''publisher-public-key-invalid''
            ''local publisher public key was invalid'') (\<lambda>public.
        if te_public_key te secret \<noteq> public
        then Inl (caused_by ''publisher-keypair-mismatch''
               ''local publisher secret key did not match the stored public key'' (publisher_id (lp_publisher i)))
        else Inr secret)))"

definition LocalPublisherIdentity_load :: "TrustEnv \<Rightarrow> path \<Rightarrow> Fs \<Rightarrow> RegistryError + LocalPublisherIdentity" where
  "LocalPublisherIdentity_load te p fs =
     res_bind (map_err (\<lambda>e. caused_by ''publisher-identity-read-failed''
         ''failed to read local publisher identity file'' (te_io_text te e)) (read_to_string fs p)) (\<lambda>contents.
     res_bind (map_err (caused_by ''publisher-identity-parse-failed''
         ''failed to parse local publisher identity file'') (te_identity_parse te contents)) (\<lambda>i.
     res_bind (signing_key te i) (\<lambda>_. Inr i)))"

definition LocalPublisherIdentity_save :: "TrustEnv \<Rightarrow> LocalPublisherIdentity \<Rightarrow> path \<Rightarrow> Fs \<Rightarrow> (RegistryError, unit) io" where
  "LocalPublisherIdentity_save te i p fs = write_json (te_io_text te) p (te_identity_text te i) fs"

definition trusted_record_with_tier :: "LocalTrustTier \<Rightarrow> LocalPublisherIdentity \<Rightarrow> TrustedPublisherRecord" where
  "trusted_record_with_tier tier i =
     \<lparr>tp_publisher = lp_publisher i, tp_scheme = lp_scheme i, tp_public_key_base64 = lp_public_key_base64 i,
      tp_trust_tier = tier\<rparr>"

definition trusted_record :: "LocalPublisherIdentity \<Rightarrow> TrustedPublisherRecord" where
  "trusted_record = trusted_record_with_tier TrustedImported"

section \<open>The trust store\<close>

definition trusted_publisher_verifying_key :: "TrustEnv \<Rightarrow> TrustedPublisherRecord \<Rightarrow> RegistryError + string" where
  "trusted_publisher_verifying_key te p =
     (case tp_scheme p of Ed25519 \<Rightarrow>
        res_bind (decode_fixed_base64 te 32 (tp_public_key_base64 p) ''trusted-publisher-key-invalid''
            ''trusted publisher public key was invalid'') (\<lambda>public.
        map_err (caused_by ''trusted-publisher-key-invalid'' ''trusted publisher public key was invalid'')
          (res_bind (te_key_check te public) (\<lambda>_. Inr public))))"

definition validate_trusted_publisher_record :: "TrustEnv \<Rightarrow> TrustedPublisherRecord \<Rightarrow> RegistryError + unit" where
  "validate_trusted_publisher_record te p =
     (if tp_trust_tier p = LocalDev
      then Inl (registry_detail (json_obj
             [(''publisher_id'', JString (publisher_id (tp_publisher p))),
              (''trust_tier'', LocalTrustTier_json (tp_trust_tier p))])
             (RegistryError_new ''trusted-publisher-tier-invalid''
                ''trusted publisher records must use an imported trust tier''))
      else res_bind (trusted_publisher_verifying_key te p) (\<lambda>_. Inr ()))"

definition trust_root :: "path \<Rightarrow> path" where "trust_root root = root @ [''trust'']"
definition trusted_publishers_root :: "path \<Rightarrow> path" where "trusted_publishers_root root = trust_root root @ [''publishers'']"

definition trusted_publisher_path :: "path \<Rightarrow> string \<Rightarrow> path" where
  "trusted_publisher_path root pid = trusted_publishers_root root @ [percent_encode_component pid @ ''.json'']"

definition ensure_dir :: "TrustEnv \<Rightarrow> string \<Rightarrow> path \<Rightarrow> Fs \<Rightarrow> (RegistryError, unit) io" where
  "ensure_dir te msg p fs = io_err (\<lambda>e. caused_by ''directory-create-failed'' msg (te_io_text te e)) (create_dir_all p fs)"

definition ensure_registry_layout :: "TrustEnv \<Rightarrow> path \<Rightarrow> Fs \<Rightarrow> (RegistryError, path) io" where
  "ensure_registry_layout te root fs =
     io_bind (ensure_dir te ''failed to create directory'' root fs) (\<lambda>_ fs.
     io_bind (foldl (\<lambda>r p. io_bind r (\<lambda>_ fs. ensure_dir te ''failed to create local registry storage directory'' p fs))
         (Inr (), fs)
         [installed_root root, executions_root root, object_blobs_root root, object_records_root root,
          trusted_publishers_root root]) (\<lambda>_ fs.
     (Inr root, fs)))"

definition open_existing_registry_root :: "path \<Rightarrow> Fs \<Rightarrow> RegistryError + path" where
  "open_existing_registry_root root fs =
     (case fs_get fs root of
        None \<Rightarrow> Inl (caused_by ''registry-root-missing'' ''Guild registry root does not exist yet'' (path_display root))
      | Some (File _) \<Rightarrow>
          Inl (caused_by ''registry-root-invalid'' ''Guild registry root was not a directory'' (path_display root))
      | Some Dir \<Rightarrow> Inr root)"

definition read_trusted_publisher_record_with_not_found_detail ::
  "TrustEnv \<Rightarrow> path \<Rightarrow> string \<Rightarrow> string \<Rightarrow> string \<Rightarrow> Fs \<Rightarrow> RegistryError + TrustedPublisherRecord" where
  "read_trusted_publisher_record_with_not_found_detail te p code msg detail fs =
     res_bind (map_err (\<lambda>e. if e = Io_NotFound then caused_by code msg detail
         else caused_by ''trusted-publisher-read-failed'' ''failed to read trusted publisher record'' (te_io_text te e))
       (read_to_string fs p)) (\<lambda>contents.
     res_bind (map_err (caused_by ''trusted-publisher-parse-failed'' ''failed to parse trusted publisher record'')
       (te_publisher_parse te contents)) (\<lambda>pub.
     res_bind (validate_trusted_publisher_record te pub) (\<lambda>_. Inr pub)))"

definition read_trusted_publisher_record :: "TrustEnv \<Rightarrow> path \<Rightarrow> Fs \<Rightarrow> RegistryError + TrustedPublisherRecord" where
  "read_trusted_publisher_record te p fs =
     read_trusted_publisher_record_with_not_found_detail te p ''trusted-publisher-missing''
       ''trusted publisher record was not found'' (path_display p) fs"

definition load_trusted_publisher_for_subject ::
  "TrustEnv \<Rightarrow> path \<Rightarrow> string \<Rightarrow> string \<Rightarrow> string \<Rightarrow> string \<Rightarrow> Fs \<Rightarrow> RegistryError + TrustedPublisherRecord" where
  "load_trusted_publisher_for_subject te root pid code msg detail fs =
     read_trusted_publisher_record_with_not_found_detail te (trusted_publisher_path root pid) code msg detail fs"

definition load_trusted_publisher :: "TrustEnv \<Rightarrow> path \<Rightarrow> string \<Rightarrow> Fs \<Rightarrow> RegistryError + TrustedPublisherRecord" where
  "load_trusted_publisher te root pid fs =
     load_trusted_publisher_for_subject te root pid ''bundle-publisher-untrusted''
       ''signed bundle publisher was not trusted by the target Guild root'' pid fs"

definition trust_publisher :: "TrustEnv \<Rightarrow> path \<Rightarrow> TrustedPublisherRecord \<Rightarrow> Fs \<Rightarrow> (RegistryError, unit) io" where
  "trust_publisher te root p fs =
     io_bind (ensure_registry_layout te root fs) (\<lambda>_ fs.
     io_bind (validate_trusted_publisher_record te p, fs) (\<lambda>_ fs.
     write_json (te_io_text te) (trusted_publisher_path root (publisher_id (tp_publisher p))) (te_publisher_text te p) fs))"

definition list_trusted_publishers :: "TrustEnv \<Rightarrow> path \<Rightarrow> Fs \<Rightarrow> RegistryError + TrustedPublisherRecord list" where
  "list_trusted_publishers te path fs =
     res_bind (open_existing_registry_root path fs) (\<lambda>root.
     let dir = trusted_publishers_root root
     in if \<not> path_exists fs dir then Inr []
        else
          res_bind (map_err (\<lambda>e. caused_by ''trusted-publisher-scan-failed''
              ''failed while scanning trusted publisher records'' (te_io_text te e)) (read_dir fs dir)) (\<lambda>entries.
          res_bind (collect_results (map (\<lambda>(name, e). read_trusted_publisher_record te (dir @ [name]) fs)
              (filter (\<lambda>(name, e). e \<noteq> Dir) entries))) (\<lambda>publishers.
          Inr (sort_cmp (\<lambda>l r. cmp_by str_less (publisher_id (tp_publisher l)) (publisher_id (tp_publisher r))) publishers))))"

definition read_trusted_publisher :: "TrustEnv \<Rightarrow> path \<Rightarrow> string \<Rightarrow> Fs \<Rightarrow> RegistryError + TrustedPublisherRecord" where
  "read_trusted_publisher te path pid fs =
     res_bind (open_existing_registry_root path fs) (\<lambda>root.
     let p = trusted_publisher_path root pid
     in res_bind (read_trusted_publisher_record_with_not_found_detail te p ''trusted-publisher-missing''
            ''trusted publisher record was not found'' pid fs) (\<lambda>pub.
        if publisher_id (tp_publisher pub) \<noteq> pid
        then Inl (registry_detail (json_obj
               [(''path'', JString (path_display p)), (''requested_publisher_id'', JString pid),
                (''record_publisher_id'', JString (publisher_id (tp_publisher pub)))])
               (RegistryError_new ''trusted-publisher-id-mismatch''
                  ''trusted publisher record did not match the requested publisher id''))
        else Inr pub))"

definition remove_trusted_publisher :: "TrustEnv \<Rightarrow> path \<Rightarrow> string \<Rightarrow> Fs \<Rightarrow> (RegistryError, bool) io" where
  "remove_trusted_publisher te path pid fs =
     io_bind (ensure_registry_layout te path fs) (\<lambda>root fs.
     case remove_file (trusted_publisher_path root pid) fs of
       (Inr _, fs) \<Rightarrow> (Inr True, fs)
     | (Inl Io_NotFound, fs) \<Rightarrow> (Inr False, fs)
     | (Inl e, fs) \<Rightarrow> (Inl (caused_by ''trusted-publisher-remove-failed''
                           ''failed to remove trusted publisher record'' (te_io_text te e)), fs))"

section \<open>Signed execution plans\<close>

definition SignatureScheme_json :: "SignatureScheme \<Rightarrow> json" where
  "SignatureScheme_json s = (case s of Ed25519 \<Rightarrow> JString ''ed25519'')"

definition StructuredDigest_json :: "StructuredDigest \<Rightarrow> json" where
  "StructuredDigest_json d = json_obj [(''algorithm'', JString (sd_algorithm d)), (''value'', JString (sd_value d))]"

definition ExecutionPlanSignatureEnvelope_json :: "ExecutionPlanSignatureEnvelope \<Rightarrow> json" where
  "ExecutionPlanSignatureEnvelope_json s = json_obj
     [(''format_version'', JString (pse_format_version s)), (''scheme'', SignatureScheme_json (pse_scheme s)),
      (''publisher_id'', JString (pse_publisher_id s)), (''signed_digest'', StructuredDigest_json (pse_signed_digest s)),
      (''signature_base64'', JString (pse_signature_base64 s))]"

fun canonical_json :: "(json \<Rightarrow> string) \<Rightarrow> json \<Rightarrow> string" where
  "canonical_json text (JArray items) = ''['' @ comma_join (map (canonical_json text) items) @ '']''"
| "canonical_json text (JObject kvs) =
     ''{'' @ comma_join (map (\<lambda>(k, t). text (JString k) @ '':'' @ t)
       (sort_key fst (map (\<lambda>kv. (fst kv, canonical_json text (snd kv))) kvs))) @ ''}''"
| "canonical_json text v = text v"

definition canonical_json_bytes :: "TrustEnv \<Rightarrow> json \<Rightarrow> string" where
  "canonical_json_bytes te v = canonical_json (te_json_text te) v"

definition sha256_structured_digest :: "TrustEnv \<Rightarrow> string \<Rightarrow> StructuredDigest" where
  "sha256_structured_digest te bytes = \<lparr>sd_algorithm = ''sha256'', sd_value = te_sha256_hex te bytes\<rparr>"

definition plan_signature_field :: "json \<Rightarrow> json option" where
  "plan_signature_field plan =
     Option.bind (json_get plan ''plan_signature'') (\<lambda>v. if v = JNull then None else Some v)"

definition not_a_plan :: RegistryError where
  "not_a_plan = RegistryError_new ''execution-plan-invalid'' ''execution plan must be a top-level JSON object''"

definition unsigned_execution_plan_payload :: "json \<Rightarrow> RegistryError + json" where
  "unsigned_execution_plan_payload plan =
     (case plan of
        JObject kvs \<Rightarrow>
          if Option.bind (map_of kvs ''kind'') json_as_str = Some ''guild.execution_plan''
          then Inr (JObject (filter (\<lambda>(k, _). k \<noteq> ''plan_signature'') kvs))
          else Inl (registry_detail (unwrap_or JNull (map_of kvs ''kind''))
                 (RegistryError_new ''execution-plan-invalid'' ''execution plan must declare kind `guild.execution_plan`''))
      | _ \<Rightarrow> Inl not_a_plan)"

definition sign_execution_plan_payload ::
  "TrustEnv \<Rightarrow> LocalPublisherIdentity \<Rightarrow> string \<Rightarrow> RegistryError + ExecutionPlanSignatureEnvelope" where
  "sign_execution_plan_payload te signer bytes =
     res_bind (signing_key te signer) (\<lambda>key.
     Inr \<lparr>pse_format_version = EXECUTION_PLAN_SIGNATURE_FORMAT_VERSION, pse_scheme = lp_scheme signer,
          pse_publisher_id = publisher_id (lp_publisher signer),
          pse_signed_digest = sha256_structured_digest te bytes,
          pse_signature_base64 = te_base64_encode te (te_sign te key bytes)\<rparr>)"

definition sign_execution_plan :: "TrustEnv \<Rightarrow> json \<Rightarrow> LocalPublisherIdentity \<Rightarrow> RegistryError + json" where
  "sign_execution_plan te plan signer =
     res_bind (unsigned_execution_plan_payload plan) (\<lambda>unsigned.
     if plan_signature_field plan \<noteq> None
     then Inl (RegistryError_new ''execution-plan-already-signed''
            ''execution plan already contained a non-null plan signature'')
     else
       res_bind (sign_execution_plan_payload te signer (canonical_json_bytes te unsigned)) (\<lambda>signature.
       case unsigned of
         JObject kvs \<Rightarrow> Inr (JObject (jinsert ''plan_signature'' (ExecutionPlanSignatureEnvelope_json signature) kvs))
       | _ \<Rightarrow> Inl not_a_plan))"

definition execution_plan_signature :: "TrustEnv \<Rightarrow> json \<Rightarrow> RegistryError + ExecutionPlanSignatureEnvelope" where
  "execution_plan_signature te plan =
     res_bind (ok_or (RegistryError_new ''execution-plan-signature-missing''
         ''execution plan did not contain a plan signature'') (plan_signature_field plan)) (\<lambda>v.
     res_bind (map_err (caused_by ''execution-plan-signature-parse-failed''
         ''failed to parse execution plan signature metadata'') (te_signature_parse te v)) (\<lambda>s.
     if pse_format_version s \<noteq> EXECUTION_PLAN_SIGNATURE_FORMAT_VERSION
     then Inl (registry_detail (json_obj
            [(''expected'', JString EXECUTION_PLAN_SIGNATURE_FORMAT_VERSION), (''actual'', JString (pse_format_version s))])
            (RegistryError_new ''execution-plan-signature-format-unsupported''
               ''execution plan signature format version is unsupported''))
     else Inr s))"

definition verify_execution_plan_with_trusted_publisher ::
  "TrustEnv \<Rightarrow> json \<Rightarrow> ExecutionPlanSignatureEnvelope \<Rightarrow> TrustedPublisherRecord
     \<Rightarrow> RegistryError + ExecutionPlanVerification" where
  "verify_execution_plan_with_trusted_publisher te plan s p =
     res_bind (unsigned_execution_plan_payload plan) (\<lambda>payload.
     let bytes = canonical_json_bytes te payload; expected = sha256_structured_digest te bytes
     in if pse_publisher_id s \<noteq> publisher_id (tp_publisher p)
        then Inl (registry_detail (json_obj
               [(''trusted_publisher_id'', JString (publisher_id (tp_publisher p))),
                (''signature_publisher_id'', JString (pse_publisher_id s))])
               (RegistryError_new ''execution-plan-signature-publisher-mismatch''
                  ''execution plan signature publisher id did not match the trusted publisher''))
        else if pse_scheme s \<noteq> tp_scheme p
        then Inl (RegistryError_new ''execution-plan-signature-scheme-mismatch''
               ''trusted publisher record used a different signature scheme than the signed execution plan'')
        else if sd_algorithm (pse_signed_digest s) \<noteq> ''sha256''
        then Inl (registry_detail (json_obj [(''actual'', JString (sd_algorithm (pse_signed_digest s)))])
               (RegistryError_new ''execution-plan-signature-digest-unsupported''
                  ''execution plan signatures currently require a sha256 signed digest''))
        else if pse_signed_digest s \<noteq> expected
        then Inl (registry_detail (json_obj
               [(''expected'', StructuredDigest_json expected), (''actual'', StructuredDigest_json (pse_signed_digest s))])
               (RegistryError_new ''execution-plan-signature-digest-mismatch''
                  ''execution plan signature metadata did not match the execution plan bytes''))
        else
          res_bind (trusted_publisher_verifying_key te p) (\<lambda>key.
          res_bind (decode_fixed_base64 te 64 (pse_signature_base64 s) ''execution-plan-signature-invalid''
              ''execution plan signature bytes were invalid'') (\<lambda>sig.
          res_bind (map_err (caused_by ''execution-plan-signature-invalid''
              ''execution plan signature verification failed'') (te_verify te key bytes sig)) (\<lambda>_.
          Inr \<lparr>pv_publisher = tp_publisher p, pv_scheme = tp_scheme p, pv_signed_digest = pse_signed_digest s,
               pv_trust_tier = tp_trust_tier p\<rparr>))))"

definition verify_execution_plan :: "TrustEnv \<Rightarrow> path \<Rightarrow> json \<Rightarrow> Fs \<Rightarrow> RegistryError + ExecutionPlanVerification" where
  "verify_execution_plan te root plan fs =
     res_bind (execution_plan_signature te plan) (\<lambda>s.
     res_bind (load_trusted_publisher_for_subject te root (pse_publisher_id s) ''execution-plan-publisher-untrusted''
         ''execution-plan publisher was not trusted by the target Guild root'' (pse_publisher_id s) fs) (\<lambda>p.
     verify_execution_plan_with_trusted_publisher te plan s p))"

section \<open>Bundle signatures\<close>

record InstalledBundleSkillEntry =
  be_resolved_ref :: ResolvedSkillRef
  be_install_dir :: string

record BundleFileEntry =
  bf_path :: string
  bf_sha256 :: string

record InstalledSkillBundle =
  bu_format_version :: string
  bu_root_skill :: ResolvedSkillRef
  bu_includes_dependency_closure :: bool
  bu_publisher :: PublisherRef
  bu_skills :: "InstalledBundleSkillEntry list"
  bu_files :: "BundleFileEntry list"

definition bundle_signature_path :: "path \<Rightarrow> path" where
  "bundle_signature_path bundle_root = bundle_root @ [''bundle.signature.json'']"

definition installed_verification_path :: "path \<Rightarrow> path" where
  "installed_verification_path install_root = install_root @ [''verification.json'']"

definition parse_bundle_signature_bytes :: "TrustEnv \<Rightarrow> string \<Rightarrow> RegistryError + BundleSignatureEnvelope" where
  "parse_bundle_signature_bytes te bytes =
     res_bind (map_err (caused_by ''bundle-signature-parse-failed'' ''failed to parse bundle signature metadata'')
       (te_bundle_signature_parse te bytes)) (\<lambda>s.
     if bse_format_version s \<noteq> BUNDLE_SIGNATURE_FORMAT_VERSION
     then Inl (registry_detail (json_obj
            [(''expected'', JString BUNDLE_SIGNATURE_FORMAT_VERSION), (''actual'', JString (bse_format_version s))])
            (RegistryError_new ''bundle-signature-format-unsupported'' ''bundle signature format version is unsupported''))
     else Inr s)"

definition read_bundle_signature :: "TrustEnv \<Rightarrow> path \<Rightarrow> Fs \<Rightarrow> RegistryError + BundleSignatureEnvelope" where
  "read_bundle_signature te bundle_root fs =
     (let p = bundle_signature_path bundle_root
      in res_bind (map_err (\<lambda>e. if e = Io_NotFound
             then caused_by ''bundle-signature-missing'' ''bundle.signature.json was not found in the bundle directory''
                    (path_display p)
             else caused_by ''bundle-signature-read-failed'' ''failed to read bundle.signature.json'' (te_io_text te e))
           (read_bytes fs p)) (parse_bundle_signature_bytes te))"

definition sign_bundle_payload :: "TrustEnv \<Rightarrow> LocalPublisherIdentity \<Rightarrow> string \<Rightarrow> RegistryError + BundleSignatureEnvelope" where
  "sign_bundle_payload te signer bytes =
     res_bind (signing_key te signer) (\<lambda>key.
     Inr \<lparr>bse_format_version = BUNDLE_SIGNATURE_FORMAT_VERSION, bse_scheme = lp_scheme signer,
          bse_publisher_id = publisher_id (lp_publisher signer),
          bse_bundle_sha256 = ''sha256:'' @ te_sha256_hex te bytes,
          bse_signature_base64 = te_base64_encode te (te_sign te key bytes)\<rparr>)"

definition verify_bundle_signature ::
  "TrustEnv \<Rightarrow> string \<Rightarrow> InstalledSkillBundle \<Rightarrow> BundleSignatureEnvelope \<Rightarrow> TrustedPublisherRecord \<Rightarrow> RegistryError + unit" where
  "verify_bundle_signature te bytes bundle s p =
     (let bundle_sha256 = ''sha256:'' @ te_sha256_hex te bytes
      in if bse_publisher_id s \<noteq> publisher_id (bu_publisher bundle)
         then Inl (registry_detail (json_obj
                [(''bundle_publisher_id'', JString (publisher_id (bu_publisher bundle))),
                 (''signature_publisher_id'', JString (bse_publisher_id s))])
                (RegistryError_new ''bundle-signature-publisher-mismatch''
                   ''bundle signature publisher id did not match the signed bundle publisher''))
         else if publisher_id (tp_publisher p) \<noteq> bse_publisher_id s
         then Inl (registry_detail (json_obj
                [(''trusted_publisher_id'', JString (publisher_id (tp_publisher p))),
                 (''signature_publisher_id'', JString (bse_publisher_id s))])
                (RegistryError_new ''bundle-signature-publisher-mismatch''
                   ''trusted publisher record did not match the bundle signature publisher''))
         else if bse_scheme s \<noteq> tp_scheme p
         then Inl (RegistryError_new ''bundle-signature-scheme-mismatch''
                ''trusted publisher record used a different signature scheme than the signed bundle'')
         else if bse_bundle_sha256 s \<noteq> bundle_sha256
         then Inl (registry_detail (json_obj
                [(''expected'', JString bundle_sha256), (''actual'', JString (bse_bundle_sha256 s))])
                (RegistryError_new ''bundle-signature-digest-mismatch''
                   ''bundle signature metadata did not match the signed bundle bytes''))
         else
           res_bind (trusted_publisher_verifying_key te p) (\<lambda>key.
           res_bind (decode_fixed_base64 te 64 (bse_signature_base64 s) ''bundle-signature-invalid''
               ''bundle signature bytes were invalid'') (\<lambda>sig.
           map_err (caused_by ''bundle-signature-invalid'' ''bundle signature verification failed'')
             (te_verify te key bytes sig))))"

definition load_verification_record :: "TrustEnv \<Rightarrow> path \<Rightarrow> Fs \<Rightarrow> RegistryError + InstalledVerificationRecord option" where
  "load_verification_record te install_root fs =
     (let p = installed_verification_path install_root
      in if \<not> path_exists fs p then Inr None
         else
           res_bind (map_err (\<lambda>e. caused_by ''verification-read-failed'' ''failed to read installed verification metadata''
               (te_io_text te e)) (read_to_string fs p)) (\<lambda>contents.
           res_bind (map_err (caused_by ''verification-parse-failed'' ''failed to parse installed verification metadata'')
               (te_verification_parse te contents)) (\<lambda>v.
           if iv_status v \<noteq> Verified
           then Inl (RegistryError_new ''verification-invalid''
                  ''installed verification metadata used an unsupported verification status'')
           else if bse_format_version (iv_signature v) \<noteq> BUNDLE_SIGNATURE_FORMAT_VERSION
           then Inl (caused_by ''verification-invalid''
                  ''installed verification metadata used an unsupported signature format version''
                  (bse_format_version (iv_signature v)))
           else if iv_scheme v \<noteq> bse_scheme (iv_signature v)
           then Inl (RegistryError_new ''verification-invalid''
                  ''installed verification metadata used mismatched signature schemes'')
           else if publisher_id (iv_publisher v) \<noteq> bse_publisher_id (iv_signature v)
           then Inl (RegistryError_new ''verification-invalid''
                  ''installed verification metadata publisher did not match the signature publisher'')
           else if iv_bundle_sha256 v \<noteq> bse_bundle_sha256 (iv_signature v)
           then Inl (RegistryError_new ''verification-invalid''
                  ''installed verification metadata bundle digest did not match the signature metadata'')
           else Inr (Some v))))"

section \<open>Trust laws\<close>

lemma decode_fixed_Inr:
  "decode_fixed_base64 te n v code msg = Inr b \<longleftrightarrow> te_base64_decode te v = Inr b \<and> length b = n"
  by (auto simp: decode_fixed_base64_def res_bind_Inr_iff map_err_def split: sum.splits)

lemma verifying_key_Inr:
  "trusted_publisher_verifying_key te p = Inr key \<longleftrightarrow>
     te_base64_decode te (tp_public_key_base64 p) = Inr key \<and> length key = 32 \<and> te_key_check te key = Inr ()"
proof -
  have "map_err f (res_bind r (\<lambda>_. Inr x)) = Inr y \<longleftrightarrow> r = Inr () \<and> x = y" for f :: "string \<Rightarrow> RegistryError" and r x y
    by (cases r) (auto simp: map_err_def res_bind_def)
  then show ?thesis
    by (cases "tp_scheme p") (auto simp: trusted_publisher_verifying_key_def res_bind_Inr_iff decode_fixed_Inr)
qed

lemma validate_publisher_Inr:
  "validate_trusted_publisher_record te p = Inr () \<longleftrightarrow>
     tp_trust_tier p \<noteq> LocalDev \<and> (\<exists>key. trusted_publisher_verifying_key te p = Inr key)"
  by (auto simp: validate_trusted_publisher_record_def res_bind_Inr_iff)

lemma signing_key_Inr:
  "signing_key te i = Inr secret \<longleftrightarrow>
     te_base64_decode te (lp_secret_key_base64 i) = Inr secret \<and> length secret = 32
     \<and> te_base64_decode te (lp_public_key_base64 i) = Inr (te_public_key te secret)
     \<and> length (te_public_key te secret) = 32"
  by (cases "lp_scheme i") (auto simp: signing_key_def res_bind_Inr_iff decode_fixed_Inr split: if_splits)

lemma read_publisher_Inr:
  "read_trusted_publisher_record_with_not_found_detail te p code msg detail fs = Inr pub \<longleftrightarrow>
     (\<exists>t. fs_get fs p = Some (File t) \<and> utf8_valid t \<and> te_publisher_parse te t = Inr pub)
     \<and> validate_trusted_publisher_record te pub = Inr ()"
  by (auto simp: read_trusted_publisher_record_with_not_found_detail_def res_bind_Inr_iff map_err_def read_to_string_def
      read_bytes_def split: sum.splits option.splits Entry.splits)

text \<open>What the crates promise: signatures verify under the key pair, and base 64 and JSON decode what they encode.\<close>

definition sound_crypto :: "TrustEnv \<Rightarrow> bool" where
  "sound_crypto te \<longleftrightarrow>
     (\<forall>secret msg. te_verify te (te_public_key te secret) msg (te_sign te secret msg) = Inr ()
        \<and> length (te_sign te secret msg) = 64)
     \<and> (\<forall>b. te_base64_decode te (te_base64_encode te b) = Inr b)
     \<and> (\<forall>s. te_signature_parse te (ExecutionPlanSignatureEnvelope_json s) = Inr s)"

lemma signer_key_trusted:
  assumes "signing_key te i = Inr secret" "validate_trusted_publisher_record te (trusted_record_with_tier tier i) = Inr ()"
  shows "trusted_publisher_verifying_key te (trusted_record_with_tier tier i) = Inr (te_public_key te secret)"
  using assms by (auto simp: signing_key_Inr validate_publisher_Inr verifying_key_Inr trusted_record_with_tier_def)

lemma sign_plan_Inr:
  assumes "sign_execution_plan te plan signer = Inr out"
  obtains kvs key where "unsigned_execution_plan_payload plan = Inr (JObject kvs)" "signing_key te signer = Inr key"
    "out = JObject (jinsert ''plan_signature'' (ExecutionPlanSignatureEnvelope_json
       \<lparr>pse_format_version = EXECUTION_PLAN_SIGNATURE_FORMAT_VERSION, pse_scheme = lp_scheme signer,
        pse_publisher_id = publisher_id (lp_publisher signer),
        pse_signed_digest = sha256_structured_digest te (canonical_json_bytes te (JObject kvs)),
        pse_signature_base64 = te_base64_encode te (te_sign te key (canonical_json_bytes te (JObject kvs)))\<rparr>) kvs)"
  using assms
  by (auto simp: sign_execution_plan_def sign_execution_plan_payload_def res_bind_Inr_iff
      unsigned_execution_plan_payload_def split: if_splits json.splits)

lemma filter_jinsert:
  "k \<notin> fst ` set kvs \<Longrightarrow> filter (\<lambda>(k', _). k' \<noteq> k) (jinsert k v kvs) = kvs"
  by (induction k v kvs rule: jinsert.induct) (force simp: filter_id_conv)+

text \<open>The payload that is signed is the payload that is verified: the signature itself is left out of it.\<close>

lemma signed_payload:
  assumes "unsigned_execution_plan_payload plan = Inr (JObject kvs)"
  shows "unsigned_execution_plan_payload (JObject (jinsert ''plan_signature'' v kvs)) = Inr (JObject kvs)"
    "plan_signature_field (JObject (jinsert ''plan_signature'' v kvs)) = (if v = JNull then None else Some v)"
proof -
  obtain kvs0 where "plan = JObject kvs0" and kvs: "kvs = filter (\<lambda>(k, _). k \<noteq> ''plan_signature'') kvs0"
    and kind: "Option.bind (map_of kvs0 ''kind'') json_as_str = Some ''guild.execution_plan''"
    using assms by (cases plan) (auto simp: unsigned_execution_plan_payload_def split: if_splits)
  have "map_of (filter (\<lambda>(k, _). k \<noteq> ''plan_signature'') xs) ''kind'' = map_of xs ''kind''" for xs :: "(string \<times> json) list"
    by (induction xs) auto
  with kind have "Option.bind (map_of kvs ''kind'') json_as_str = Some ''guild.execution_plan''"
    by (simp add: kvs)
  moreover have "''plan_signature'' \<notin> fst ` set kvs"
    by (auto simp: kvs)
  ultimately show "unsigned_execution_plan_payload (JObject (jinsert ''plan_signature'' v kvs)) = Inr (JObject kvs)"
    by (simp add: unsigned_execution_plan_payload_def filter_jinsert)
  show "plan_signature_field (JObject (jinsert ''plan_signature'' v kvs)) = (if v = JNull then None else Some v)"
    by (simp add: plan_signature_field_def)
qed

lemma signature_json_not_null: "ExecutionPlanSignatureEnvelope_json s \<noteq> JNull"
  by (simp add: ExecutionPlanSignatureEnvelope_json_def json_obj_def)

section \<open>Claims\<close>

text \<open>C16: A plan that a publisher signs verifies under every registry that trusts the publisher's key, as that
  publisher's and with the tier the registry gives it.\<close>

theorem signed_plan_verifies:
  assumes "sound_crypto te" "sign_execution_plan te plan signer = Inr out"
    and "load_trusted_publisher te root (publisher_id (lp_publisher signer)) fs = Inr (trusted_record_with_tier tier signer)"
  shows "\<exists>v. verify_execution_plan te root out fs = Inr v \<and> pv_publisher v = lp_publisher signer \<and> pv_trust_tier v = tier"
proof -
  obtain kvs key where payload: "unsigned_execution_plan_payload plan = Inr (JObject kvs)"
    and key: "signing_key te signer = Inr key"
    and out: "out = JObject (jinsert ''plan_signature'' (ExecutionPlanSignatureEnvelope_json
       \<lparr>pse_format_version = EXECUTION_PLAN_SIGNATURE_FORMAT_VERSION, pse_scheme = lp_scheme signer,
        pse_publisher_id = publisher_id (lp_publisher signer),
        pse_signed_digest = sha256_structured_digest te (canonical_json_bytes te (JObject kvs)),
        pse_signature_base64 = te_base64_encode te (te_sign te key (canonical_json_bytes te (JObject kvs)))\<rparr>) kvs)"
    using assms(2) by (rule sign_plan_Inr)
  let ?p = "trusted_record_with_tier tier signer"
  have load: "load_trusted_publisher_for_subject te root (publisher_id (lp_publisher signer)) code msg detail fs = Inr ?p"
    for code msg detail
    using assms(3) by (simp add: load_trusted_publisher_def load_trusted_publisher_for_subject_def read_publisher_Inr)
  then have "trusted_publisher_verifying_key te ?p = Inr (te_public_key te key)"
    using signer_key_trusted[OF key] by (simp add: load_trusted_publisher_for_subject_def read_publisher_Inr)
  then show ?thesis
    using assms(1) load signature_json_not_null
    by (simp add: verify_execution_plan_def execution_plan_signature_def out signed_payload[OF payload] ok_or_def
        sound_crypto_def res_bind_def map_err_def verify_execution_plan_with_trusted_publisher_def Let_def
        trusted_record_with_tier_def sha256_structured_digest_def decode_fixed_base64_def)
qed

text \<open>C17: A plan that verifies is authentic: the registry holds a record of the named publisher with an imported
  trust tier, and the plan without its signature field, in canonical form, has the signed digest and
  carries a signature that verifies under the recorded key.\<close>

theorem verified_plan_authentic:
  assumes "verify_execution_plan te root plan fs = Inr v"
  shows "\<exists>s p payload key sig t. execution_plan_signature te plan = Inr s
    \<and> fs_get fs (trusted_publisher_path root (pse_publisher_id s)) = Some (File t) \<and> te_publisher_parse te t = Inr p
    \<and> publisher_id (tp_publisher p) = pse_publisher_id s \<and> tp_trust_tier p \<noteq> LocalDev
    \<and> pv_publisher v = tp_publisher p \<and> pv_trust_tier v = tp_trust_tier p
    \<and> unsigned_execution_plan_payload plan = Inr payload
    \<and> pse_signed_digest s = \<lparr>sd_algorithm = ''sha256'', sd_value = te_sha256_hex te (canonical_json_bytes te payload)\<rparr>
    \<and> te_base64_decode te (tp_public_key_base64 p) = Inr key \<and> te_base64_decode te (pse_signature_base64 s) = Inr sig
    \<and> te_verify te key (canonical_json_bytes te payload) sig = Inr ()"
proof -
  obtain s p where s: "execution_plan_signature te plan = Inr s"
    and p: "load_trusted_publisher_for_subject te root (pse_publisher_id s) ''execution-plan-publisher-untrusted''
         ''execution-plan publisher was not trusted by the target Guild root'' (pse_publisher_id s) fs = Inr p"
    and v: "verify_execution_plan_with_trusted_publisher te plan s p = Inr v"
    using assms by (auto simp: verify_execution_plan_def res_bind_Inr_iff)
  from v obtain payload key sig where "unsigned_execution_plan_payload plan = Inr payload"
    "publisher_id (tp_publisher p) = pse_publisher_id s"
    "pse_signed_digest s = sha256_structured_digest te (canonical_json_bytes te payload)"
    "trusted_publisher_verifying_key te p = Inr key" "te_base64_decode te (pse_signature_base64 s) = Inr sig"
    "te_verify te key (canonical_json_bytes te payload) sig = Inr ()"
    "pv_publisher v = tp_publisher p" "pv_trust_tier v = tp_trust_tier p"
    by (auto simp: verify_execution_plan_with_trusted_publisher_def res_bind_Inr_iff Let_def decode_fixed_Inr
        split: if_splits)
  with s p show ?thesis
    by (auto simp: load_trusted_publisher_for_subject_def read_publisher_Inr validate_publisher_Inr verifying_key_Inr
        sha256_structured_digest_def)
qed


section \<open>A publisher and a signed plan\<close>

definition sample_signature_parse :: "json \<Rightarrow> string + ExecutionPlanSignatureEnvelope" where
  "sample_signature_parse j =
     (let field = (\<lambda>j k. unwrap_or [] (Option.bind (json_get j k) json_as_str));
          digest = unwrap_or JNull (json_get j ''signed_digest'')
      in Inr \<lparr>pse_format_version = field j ''format_version'', pse_scheme = Ed25519, pse_publisher_id = field j ''publisher_id'',
              pse_signed_digest = \<lparr>sd_algorithm = field digest ''algorithm'', sd_value = field digest ''value''\<rparr>,
              pse_signature_base64 = field j ''signature_base64''\<rparr>)"

definition sample_identity :: LocalPublisherIdentity where
  "sample_identity = \<lparr>lp_publisher = \<lparr>publisher_id = ''acme'', publisher_display_name = ''Acme'', homepage = None\<rparr>,
     lp_scheme = Ed25519, lp_public_key_base64 = replicate 32 CHR ''k'', lp_secret_key_base64 = replicate 32 CHR ''k''\<rparr>"

definition sample_trust :: TrustEnv where
  "sample_trust = \<lparr>te_public_key = (\<lambda>s. s), te_sign = (\<lambda>s m. take 64 (s @ m @ replicate 64 CHR ''a'')),
     te_key_check = (\<lambda>_. Inr ()),
     te_verify = (\<lambda>k m s. if s = take 64 (k @ m @ replicate 64 CHR ''a'') then Inr () else Inl ''signature error''),
     te_base64_encode = (\<lambda>b. b), te_base64_decode = Inr, te_sha256_hex = (\<lambda>s. ''00''),
     te_json_text = (\<lambda>j. case j of JString s \<Rightarrow> s | _ \<Rightarrow> ''null''), te_signature_parse = sample_signature_parse,
     te_bundle_signature_parse = (\<lambda>_. Inl ''eof''),
     te_publisher_text = (\<lambda>p. if p = trusted_record sample_identity then Inr ''p'' else Inl ''unsupported''),
     te_publisher_parse = (\<lambda>s. if s = ''p'' then Inr (trusted_record sample_identity) else Inl ''eof''),
     te_identity_text = (\<lambda>_. Inl ''unsupported''), te_verification_parse = (\<lambda>_. Inl ''eof''),
     te_identity_parse = (\<lambda>_. Inl ''eof''), te_io_text = (\<lambda>_. ''io'')\<rparr>"

definition sample_plan :: json where
  "sample_plan = json_obj [(''kind'', JString ''guild.execution_plan''), (''steps'', JArray [])]"

definition sample_trusting :: Fs where
  "sample_trusting = \<lparr>fs_entries = [([''g'', ''trust'', ''publishers'', ''acme.json''], File ''p'')], fs_faults = [], fs_minted = 0\<rparr>"

lemma sample_sound: "sound_crypto sample_trust"
  unfolding sound_crypto_def
proof (intro conjI allI)
  show "te_signature_parse sample_trust (ExecutionPlanSignatureEnvelope_json s) = Inr s" for s
    by (cases "pse_scheme s") (simp add: sample_trust_def sample_signature_parse_def ExecutionPlanSignatureEnvelope_json_def
      StructuredDigest_json_def json_get_obj unwrap_or_def Let_def)
qed (simp_all add: sample_trust_def)

lemma sample_trusted:
  "load_trusted_publisher sample_trust [''g''] ''acme'' sample_trusting = Inr (trusted_record_with_tier TrustedImported sample_identity)"
  by code_simp

theorem signed_plan_verifies_witness:
  "\<exists>out v. sign_execution_plan sample_trust sample_plan sample_identity = Inr out
     \<and> verify_execution_plan sample_trust [''g''] out sample_trusting = Inr v \<and> pv_trust_tier v = TrustedImported"
proof -
  have "\<not> isl (sign_execution_plan sample_trust sample_plan sample_identity)"
    by code_simp
  then obtain out where out: "sign_execution_plan sample_trust sample_plan sample_identity = Inr out"
    by (metis isl_def sum.exhaust)
  have "publisher_id (lp_publisher sample_identity) = ''acme''"
    by (simp add: sample_identity_def)
  with signed_plan_verifies[OF sample_sound out] sample_trusted out show ?thesis
    by metis
qed

theorem verified_plan_authentic_witness:
  "\<exists>plan v s p t. verify_execution_plan sample_trust [''g''] plan sample_trusting = Inr v
     \<and> execution_plan_signature sample_trust plan = Inr s
     \<and> fs_get sample_trusting (trusted_publisher_path [''g''] (pse_publisher_id s)) = Some (File t)
     \<and> te_publisher_parse sample_trust t = Inr p \<and> tp_trust_tier p \<noteq> LocalDev"
proof -
  let ?plan = "the (res_ok (sign_execution_plan sample_trust sample_plan sample_identity))"
  have "\<not> isl (verify_execution_plan sample_trust [''g''] ?plan sample_trusting)"
    by code_simp
  then obtain v where "verify_execution_plan sample_trust [''g''] ?plan sample_trusting = Inr v"
    by (metis isl_def sum.exhaust)
  with verified_plan_authentic[OF this] show ?thesis
    by blast
qed


end
