(* ===== verification/Guild_Tree.thy ===== *)
theory Guild_Tree
  imports Guild_Trust
begin

text \<open>
  Paths from text, and the operations on directory trees that installing and importing skills use:
  \<open>std::path\<close>, \<open>fs::copy\<close>, \<open>fs::rename\<close>, \<open>fs::remove_dir_all\<close> and the sorted traversal of the \<open>walkdir\<close> crate.

  As in \<open>Guild_Fs\<close>, every operation that changes the file system can fail before it takes effect or
  in the middle of it; a rename is atomic. There are no symbolic links, so a path is canonical once
  its \<open>..\<close> components are resolved.
\<close>

section \<open>Paths\<close>

definition path_is_absolute :: "string \<Rightarrow> bool" where
  "path_is_absolute s \<longleftrightarrow> prefix ''/'' s"

text \<open>\<open>Path::components\<close> after the root: separators repeat, and \<open>.\<close> only counts in front of a relative path.\<close>

definition path_components :: "string \<Rightarrow> path" where
  "path_components s =
     (case split_on CHR ''/'' s of
        [] \<Rightarrow> []
      | c # cs \<Rightarrow> (if c = [] then [] else [c]) @ filter (\<lambda>c. c \<noteq> [] \<and> c \<noteq> ''.'') cs)"

definition path_join :: "path \<Rightarrow> string \<Rightarrow> path" where
  "path_join base s =
     (if path_is_absolute s then path_components s else base @ filter (\<lambda>c. c \<noteq> ''.'') (path_components s))"

text \<open>\<open>Path::to_str\<close> of a relative path.\<close>

fun slash_join :: "path \<Rightarrow> string" where
  "slash_join [] = []"
| "slash_join [c] = c"
| "slash_join (c # cs) = c @ ''/'' @ slash_join cs"

text \<open>The place a path names: \<open>..\<close> leaves a directory that exists.\<close>

fun resolve_from :: "Fs \<Rightarrow> path \<Rightarrow> path \<Rightarrow> IoError + path" where
  "resolve_from fs cur [] = Inr cur"
| "resolve_from fs cur (c # cs) =
     (case fs_get fs cur of
        None \<Rightarrow> Inl Io_NotFound
      | Some (File _) \<Rightarrow> Inl Io_NotADirectory
      | Some Dir \<Rightarrow> resolve_from fs (if c = ''..'' then butlast cur else cur @ [c]) cs)"

definition fs_resolve :: "Fs \<Rightarrow> path \<Rightarrow> IoError + path" where
  "fs_resolve fs p = resolve_from fs [] p"

definition entry_at :: "Fs \<Rightarrow> path \<Rightarrow> Entry option" where
  "entry_at fs p = (case fs_resolve fs p of Inl _ \<Rightarrow> None | Inr q \<Rightarrow> fs_get fs q)"

definition canonicalize :: "Fs \<Rightarrow> path \<Rightarrow> IoError + path" where
  "canonicalize fs p =
     res_bind (fs_resolve fs p) (\<lambda>q. if path_exists fs q then Inr q else Inl Io_NotFound)"

section \<open>Trees\<close>

definition copy_at :: "path \<Rightarrow> path \<Rightarrow> Fs \<Rightarrow> (IoError, unit) io" where
  "copy_at src dst fs = (case read_bytes fs src of Inl e \<Rightarrow> (Inl e, fs) | Inr b \<Rightarrow> fs_write dst b fs)"

definition copy_file :: "path \<Rightarrow> path \<Rightarrow> Fs \<Rightarrow> (IoError, unit) io" where
  "copy_file src dst fs =
     (case fs_resolve fs src of
        Inl e \<Rightarrow> (Inl e, fs)
      | Inr p \<Rightarrow> (case fs_resolve fs dst of Inl e \<Rightarrow> (Inl e, fs) | Inr q \<Rightarrow> copy_at p q fs))"

definition has_children :: "Fs \<Rightarrow> path \<Rightarrow> bool" where
  "has_children fs d = list_ex (\<lambda>(p, _). strict_prefix d p) (fs_entries fs)"

definition move_tree :: "path \<Rightarrow> path \<Rightarrow> Fs \<Rightarrow> Fs" where
  "move_tree src dst fs = fs\<lparr>fs_entries :=
     map (\<lambda>(p, e). (dst @ drop (length src) p, e)) (filter (\<lambda>(p, _). prefix src p) (fs_entries fs))
     @ filter (\<lambda>(p, _). \<not> prefix src p \<and> \<not> prefix dst p) (fs_entries fs)\<rparr>"

definition rename_dir :: "path \<Rightarrow> path \<Rightarrow> Fs \<Rightarrow> (IoError, unit) io" where
  "rename_dir src dst fs =
     (case next_fault fs of
        (No_Fault, fs) \<Rightarrow>
          if fs_get fs src = None \<or> fs_get fs (butlast dst) \<noteq> Some Dir then (Inl Io_NotFound, fs)
          else if fs_get fs src \<noteq> Some Dir then (Inl Io_NotADirectory, fs)
          else if src = dst then (Inr (), fs)
          else if prefix src dst then (Inl (Io_Other ''invalid argument''), fs)
          else if path_exists fs dst \<and> fs_get fs dst \<noteq> Some Dir then (Inl Io_NotADirectory, fs)
          else if has_children fs dst then (Inl (Io_Other ''directory not empty''), fs)
          else (Inr (), move_tree src dst fs)
      | (Fault_Before e, fs) \<Rightarrow> (Inl (Io_Other e), fs)
      | (Fault_Torn _ e, fs) \<Rightarrow> (Inl (Io_Other e), fs))"

definition remove_dir_all :: "path \<Rightarrow> Fs \<Rightarrow> (IoError, unit) io" where
  "remove_dir_all d fs =
     (case next_fault fs of
        (Fault_Before e, fs) \<Rightarrow> (Inl (Io_Other e), fs)
      | (Fault_Torn n e, fs) \<Rightarrow>
          (Inl (Io_Other e), fold fs_del (take n (filter (strict_prefix d) (map fst (fs_entries fs)))) fs)
      | (No_Fault, fs) \<Rightarrow>
          (case fs_get fs d of
             None \<Rightarrow> (Inl Io_NotFound, fs)
           | Some (File _) \<Rightarrow> (Inl Io_NotADirectory, fs)
           | Some Dir \<Rightarrow> (Inr (), fs\<lparr>fs_entries := filter (\<lambda>(p, _). \<not> prefix d p) (fs_entries fs)\<rparr>)))"

text \<open>The number of components of the longest path.\<close>

definition tree_depth :: "Fs \<Rightarrow> nat" where
  "tree_depth fs = fold max (map (length \<circ> fst) (fs_entries fs)) 0"

text \<open>\<open>WalkDir\<close> sorted by file name visits a directory before its entries and those in order of their names.\<close>

fun path_le :: "path \<Rightarrow> path \<Rightarrow> bool" where
  "path_le [] _ = True"
| "path_le (_ # _) [] = False"
| "path_le (a # p) (b # q) = (str_less a b \<or> (a = b \<and> path_le p q))"

definition walk_tree :: "Fs \<Rightarrow> path \<Rightarrow> IoError + (path \<times> Entry) list" where
  "walk_tree fs d =
     (if path_exists fs d
      then Inr (sort_by (\<lambda>x y. path_le (fst x) (fst y)) (filter (\<lambda>(p, _). prefix d p) (AList.clearjunk (fs_entries fs))))
      else Inl Io_NotFound)"

section \<open>What the operations change\<close>

lemma path_components_normal:
  "c \<in> set (path_components s) \<Longrightarrow> c \<noteq> [] \<and> CHR ''/'' \<notin> set c"
  using split_on_pieces[of _ "CHR ''/''" s]
  by (cases "split_on CHR ''/'' s") (auto simp: path_components_def split: if_splits)

lemma map_of_filter_key: "map_of (filter (\<lambda>(k, _). P k) al) k = (if P k then map_of al k else None)"
  by (induction al) auto

lemma fs_get_move_tree:
  "fs_get (move_tree src dst fs) q =
    (if prefix dst q then fs_get fs (src @ drop (length dst) q) else if prefix src q then None else fs_get fs q)"
proof -
  have moved: "map_of (map (\<lambda>(p, e). (dst @ drop (length src) p, e)) (filter (\<lambda>(p, _). prefix src p) al)) q
      = (if prefix dst q then map_of al (src @ drop (length dst) q) else None)" for al :: "(path \<times> Entry) list"
    by (induction al) (auto simp: prefix_def)
  show ?thesis
    by (auto simp: fs_get_def move_tree_def map_add_def moved map_of_filter_key split: option.splits)
qed

lemma has_children_iff: "has_children fs d \<longleftrightarrow> (\<exists>p. strict_prefix d p \<and> path_exists fs p)"
proof -
  have "path_exists fs p \<longleftrightarrow> p \<in> fst ` set (fs_entries fs)" for p
    by (simp add: path_exists_def fs_get_def map_of_eq_None_iff)
  then show ?thesis
    unfolding has_children_def list_ex_iff by (auto simp: image_iff case_prod_beta)
qed

lemma copy_at_get: "copy_at src dst fs = (r, fs') \<Longrightarrow> q \<noteq> dst \<Longrightarrow> fs_get fs' q = fs_get fs q"
  by (auto simp: copy_at_def split: sum.splits intro: fs_write_get)

lemma copy_at_Inr:
  assumes "copy_at src dst fs = (Inr u, fs')"
  obtains b where "fs_get fs src = Some (File b)" "fs_get fs' = (fs_get fs)(dst \<mapsto> File b)"
  using assms fs_write_Inr that
  by (auto simp: copy_at_def read_bytes_def split: sum.splits option.splits Entry.splits)

text \<open>A rename takes away what is under its source and adds what is under its destination.\<close>

lemma rename_dir_get:
  "rename_dir src dst fs = (r, fs') \<Longrightarrow> \<not> prefix src q \<Longrightarrow> \<not> prefix dst q \<Longrightarrow> fs_get fs' q = fs_get fs q"
  by (auto simp: rename_dir_def fs_get_move_tree split: prod.splits IoFault.splits if_splits)

lemma rename_dir_keeps:
  assumes "rename_dir src dst fs = (r, fs')" "fs_get fs q = Some e" "\<not> prefix src q"
  shows "fs_get fs' q = Some e"
proof (cases "prefix dst q")
  case True
  obtain f fs1 where f: "next_fault fs = (f, fs1)"
    by fastforce
  then have same: "fs_get fs1 = fs_get fs"
    by (rule next_fault_get)
  with True assms(2) have "has_children fs1 dst" if "q \<noteq> dst"
    using that by (auto simp: has_children_iff path_exists_def strict_prefix_def simp del: next_fault_get)
  then show ?thesis
    using assms f same by (cases "q = dst")
      (auto simp: rename_dir_def fs_get_move_tree path_exists_def simp del: next_fault_get split: IoFault.splits if_splits)
qed (use assms rename_dir_get in metis)

lemma rename_dir_Inr:
  assumes "rename_dir src dst fs = (Inr u, fs')"
  shows "fs_get fs' (dst @ q) = fs_get fs (src @ q)"
  using assms by (auto simp: rename_dir_def fs_get_move_tree path_exists_def split: prod.splits IoFault.splits if_splits)

lemma fold_fs_del_get: "fs_get (fold fs_del ps fs) q = (if q \<in> set ps then None else fs_get fs q)"
  by (induction ps arbitrary: fs) auto

lemma fs_get_filter: "fs_get (fs\<lparr>fs_entries := filter (\<lambda>(p, _). P p) (fs_entries fs)\<rparr>) q = (if P q then fs_get fs q else None)"
  by (simp add: fs_get_def map_of_filter_key)

lemma remove_dir_all_get:
  assumes "remove_dir_all d fs = (r, fs')" "\<not> prefix d q"
  shows "fs_get fs' q = fs_get fs q"
proof -
  have "q \<notin> set (take n (filter (strict_prefix d) ps))" for n ps
    using assms(2) by (auto dest!: in_set_takeD simp: strict_prefix_def)
  then show ?thesis
    using assms by (auto simp: remove_dir_all_def fs_get_filter fold_fs_del_get
        split: prod.splits IoFault.splits option.splits Entry.splits if_splits)
qed

lemma clearjunk_mem: "(k, v) \<in> set (AList.clearjunk al) \<longleftrightarrow> map_of al k = Some v"
  by (metis distinct_clearjunk map_of_clearjunk map_of_eq_Some_iff)

lemma remove_dir_all_keeps:
  "remove_dir_all d fs = (r, fs') \<Longrightarrow> fs_get fs' q = Some e \<Longrightarrow> fs_get fs q = Some e"
  by (auto simp: remove_dir_all_def fs_get_filter fold_fs_del_get
      split: prod.splits IoFault.splits option.splits Entry.splits if_splits)

lemma walk_tree_entries:
  assumes "walk_tree fs d = Inr es"
  shows "(p, e) \<in> set es \<longleftrightarrow> prefix d p \<and> fs_get fs p = Some e"
  using assms by (auto simp: walk_tree_def fs_get_def clearjunk_mem split: if_splits)

declare next_fault_get [simp del]

text \<open>Without \<open>..\<close> a path names the place it spells, if anything exists there.\<close>

lemma resolve_plain: "''..'' \<notin> set p \<Longrightarrow> resolve_from fs cur p = Inr q \<Longrightarrow> q = cur @ p"
  by (induction p arbitrary: cur) (fastforce split: option.splits Entry.splits)+

lemma fs_tree_prefix:
  assumes "fs_tree fs" "fs_get fs (p @ q) \<noteq> None" "q \<noteq> []"
  shows "fs_get fs p = Some Dir"
  using assms(2,3)
proof (induction q rule: rev_induct)
  case (snoc c q)
  have "fs_get fs (p @ q) = Some Dir"
    using assms(1)[unfolded fs_tree_def, rule_format, of "p @ q" c] snoc.prems(1) by simp
  then show ?case
    using snoc.IH by (cases "q = []") simp_all
qed simp

lemma resolve_existing:
  assumes "fs_tree fs" "fs_get fs (cur @ p) \<noteq> None" "''..'' \<notin> set p"
  shows "resolve_from fs cur p = Inr (cur @ p)"
  using assms(2,3)
proof (induction p arbitrary: cur)
  case (Cons c p)
  then have "fs_get fs cur = Some Dir"
    using fs_tree_prefix[OF assms(1), of cur "c # p"] by simp
  with Cons show ?case
    by auto
qed simp

end
