(* ===== verification/Guild_Installed.thy ===== *)
theory Guild_Installed
  imports Guild_Tree
begin

text \<open>
  Loading of the installed state (\<open>crates/guild-registry/src/lib.rs\<close>): \<open>load_manifest\<close> turns an installed
  directory into an \<open>InstalledSkill\<close> and refuses it unless manifest, artifact digest, support files,
  verification metadata and publisher trust all agree; \<open>LocalRegistry::load\<close> does so for a whole root.

  \<open>RegistryEnv\<close> adds the codecs of manifests and bundles to the crates of \<open>TrustEnv\<close>.
\<close>

record RegistryEnv =
  rg_trust :: TrustEnv
  rg_manifest_parse :: "string \<Rightarrow> string + SkillManifest"
  rg_manifest_text :: "SkillManifest \<Rightarrow> string + string"
  rg_source_parse :: "string \<Rightarrow> string + SourceSkillManifest"
  rg_bundle_parse :: "string \<Rightarrow> string + InstalledSkillBundle"
  rg_bundle_text :: "InstalledSkillBundle \<Rightarrow> string + string"
  rg_signature_text :: "BundleSignatureEnvelope \<Rightarrow> string + string"
  rg_verification_text :: "InstalledVerificationRecord \<Rightarrow> string + string"

definition rg_io_text :: "RegistryEnv \<Rightarrow> IoError \<Rightarrow> string" where
  "rg_io_text rg = te_io_text (rg_trust rg)"

section \<open>Manifests on disk\<close>

definition source_not_installed :: "path \<Rightarrow> RegistryError" where
  "source_not_installed p = caused_by ''source-skill-not-installed''
     ''source manifests are not executable; install the skill into a local registry first'' (path_display p)"

definition read_installed_manifest :: "RegistryEnv \<Rightarrow> path \<Rightarrow> Fs \<Rightarrow> RegistryError + SkillManifest" where
  "read_installed_manifest rg p fs =
     res_bind (map_err (\<lambda>e. caused_by ''manifest-read-failed'' ''failed to read manifest file'' (rg_io_text rg e))
         (read_to_string fs p)) (\<lambda>contents.
     case rg_manifest_parse rg contents of
       Inr m \<Rightarrow> Inr m
     | Inl e \<Rightarrow> Inl (if is_ok (rg_source_parse rg contents) then source_not_installed p
         else caused_by ''manifest-parse-failed'' ''failed to parse installed manifest JSON'' e))"

definition validate_installed_manifest :: "SkillManifest \<Rightarrow> RegistryError + unit" where
  "validate_installed_manifest m =
     map_err (\<lambda>errors. registry_detail (list_json ManifestValidationError_json errors)
         (RegistryError_new ''invalid-manifest'' ''manifest validation failed'')) (SkillManifest_validate m)"

definition maybe_resolve_local_file :: "path \<Rightarrow> string \<Rightarrow> string + path option" where
  "maybe_resolve_local_file root uri =
     (if contains_str ''://'' uri then Inr None
      else if path_is_absolute uri then Inl ''absolute artifact paths are unsupported in the local registry''
      else Inr (Some (path_join root uri)))"

definition resolve_local_file :: "path \<Rightarrow> string \<Rightarrow> string + path" where
  "resolve_local_file root uri =
     (if contains_str ''://'' uri then Inl ''URI schemes are unsupported in the local registry''
      else if path_is_absolute uri then Inl ''absolute artifact paths are unsupported in the local registry''
      else Inr (path_join root uri))"

definition sha256_file :: "RegistryEnv \<Rightarrow> path \<Rightarrow> Fs \<Rightarrow> RegistryError + string" where
  "sha256_file rg p fs =
     res_bind (map_err (\<lambda>e. caused_by ''artifact-read-failed'' ''failed to read artifact file'' (rg_io_text rg e))
         (res_bind (fs_resolve fs p) (read_bytes fs))) (\<lambda>bytes.
     Inr (''sha256:'' @ te_sha256_hex (rg_trust rg) bytes))"

definition support_uris :: "SkillManifest \<Rightarrow> string list" where
  "support_uris m =
     [input_schema_uri (interface m), output_schema_uri (interface m)]
     @ (case examples_uri (interface m) of None \<Rightarrow> [] | Some u \<Rightarrow> [u])
     @ (case pkg_sbom_uri (package m) of None \<Rightarrow> [] | Some u \<Rightarrow> [u])
     @ (case pkg_signature_uri (package m) of None \<Rightarrow> [] | Some u \<Rightarrow> [u])
     @ concat (map (\<lambda>t. [fixtures_uri t, expected_output_uri t]) (m_tests m))"

definition validate_support_file :: "path \<Rightarrow> Fs \<Rightarrow> string \<Rightarrow> RegistryError + unit" where
  "validate_support_file dir fs uri =
     res_bind (map_err (\<lambda>e. registry_detail (json_obj [(''uri'', JString uri), (''error'', JString e)])
         (RegistryError_new ''staged-file-uri-invalid'' ''installed manifest referenced an unsupported local file URI''))
       (maybe_resolve_local_file dir uri)) (\<lambda>found.
     case found of
       None \<Rightarrow> Inr ()
     | Some p \<Rightarrow>
         if entry_at fs p = None
         then Inl (registry_detail (json_obj [(''uri'', JString uri), (''path'', JString (path_display p))])
                (RegistryError_new ''staged-file-missing''
                   ''installed manifest referenced a staged support file that did not exist''))
         else Inr ())"

definition validate_staged_support_files :: "path \<Rightarrow> SkillManifest \<Rightarrow> Fs \<Rightarrow> RegistryError + unit" where
  "validate_staged_support_files dir m fs =
     res_bind (collect_results (map (validate_support_file dir fs) (support_uris m))) (\<lambda>_. Inr ())"

definition load_manifest :: "RegistryEnv \<Rightarrow> path \<Rightarrow> path \<Rightarrow> Fs \<Rightarrow> RegistryError + InstalledSkill" where
  "load_manifest rg root p fs =
     (if p = [] then Inl (RegistryError_new ''manifest-path-invalid'' ''manifest.json must live inside a skill directory'')
      else
        let dir = butlast p
        in res_bind (read_installed_manifest rg p fs) (\<lambda>m.
           res_bind (validate_installed_manifest m) (\<lambda>_.
           res_bind (map_err (caused_by ''artifact-uri-invalid'' ''local registry only supports relative artifact paths'')
             (resolve_local_file dir (artifact_uri (package m)))) (\<lambda>artifact.
           if entry_at fs artifact = None
           then Inl (caused_by ''artifact-missing'' ''artifact file does not exist'' (path_display artifact))
           else
             res_bind (sha256_file rg artifact fs) (\<lambda>digest.
             if digest \<noteq> artifact_digest (package m)
             then Inl (registry_detail (json_obj
                    [(''expected'', JString (artifact_digest (package m))), (''actual'', JString digest),
                     (''artifact_path'', JString (path_display artifact))])
                    (RegistryError_new ''artifact-digest-mismatch'' ''artifact digest does not match manifest''))
             else
               res_bind (validate_staged_support_files dir m fs) (\<lambda>_.
               res_bind (load_verification_record (rg_trust rg) dir fs) (\<lambda>v.
               res_bind (derive_installed_trust_metadata (\<lambda>pid. load_trusted_publisher (rg_trust rg) root pid fs) v)
                 (\<lambda>t.
               Inr \<lparr>manifest = m,
                    resolved_ref = \<lparr>rs_key = m_key m, rs_version = m_version m, rs_digest = digest\<rparr>,
                    manifest_path = p, artifact_path = artifact, root_dir = dir, verification = v, trust = t\<rparr>)))))))) "

section \<open>The registry of a root\<close>

definition detect_source_skill_root :: "RegistryEnv \<Rightarrow> path \<Rightarrow> Fs \<Rightarrow> RegistryError + RegistryError option" where
  "detect_source_skill_root rg root fs =
     (let p = root @ [''manifest.json'']
      in if \<not> path_exists fs p then Inr None
         else
           res_bind (map_err (\<lambda>e. caused_by ''manifest-read-failed'' ''failed to read manifest file'' (rg_io_text rg e))
             (read_to_string fs p)) (\<lambda>contents.
           Inr (if is_ok (rg_source_parse rg contents) then Some (source_not_installed p) else None)))"

definition load_from_canonical_root :: "RegistryEnv \<Rightarrow> path \<Rightarrow> Fs \<Rightarrow> RegistryError + InstalledSkill list" where
  "load_from_canonical_root rg root fs =
     (if \<not> path_exists fs (installed_root root) then Inr []
      else
        res_bind (map_err (\<lambda>e. caused_by ''registry-scan-failed'' ''failed while scanning registry root'' (rg_io_text rg e))
          (walk_tree fs (installed_root root))) (\<lambda>entries.
        collect_results (map (\<lambda>(p, _). load_manifest rg root p fs)
          (filter (\<lambda>(p, e). e \<noteq> Dir \<and> last p = ''manifest.json'') entries))))"

definition load_existing :: "RegistryEnv \<Rightarrow> path \<Rightarrow> Fs \<Rightarrow> RegistryError + InstalledSkill list" where
  "load_existing rg root fs =
     res_bind (detect_source_skill_root rg root fs) (\<lambda>found.
     case found of
       Some e \<Rightarrow> Inl e
     | None \<Rightarrow>
         res_bind (open_existing_registry_root root fs) (\<lambda>root. load_from_canonical_root rg root fs))"

definition load :: "RegistryEnv \<Rightarrow> path \<Rightarrow> Fs \<Rightarrow> (RegistryError, InstalledSkill list) io" where
  "load rg root fs =
     io_bind (detect_source_skill_root rg root fs, fs) (\<lambda>found fs.
     case found of
       Some e \<Rightarrow> (Inl e, fs)
     | None \<Rightarrow>
         io_bind (ensure_registry_layout (rg_trust rg) root fs) (\<lambda>root fs.
         (load_from_canonical_root rg root fs, fs)))"

section \<open>What loading checks\<close>

lemma collect_results_all: "collect_results rs = Inr xs \<longleftrightarrow> rs = map Inr xs"
  by (induction rs arbitrary: xs) (auto simp: res_bind_Inr_iff Cons_eq_map_conv)

lemma sha256_file_Inr:
  "sha256_file rg p fs = Inr d \<longleftrightarrow> (\<exists>b. entry_at fs p = Some (File b) \<and> d = ''sha256:'' @ te_sha256_hex (rg_trust rg) b)"
  by (auto simp: sha256_file_def entry_at_def res_bind_def map_err_def read_bytes_def
      split: sum.splits option.splits Entry.splits)

lemma support_files_Inr:
  "validate_staged_support_files dir m fs = Inr () \<longleftrightarrow> (\<forall>uri \<in> set (support_uris m). validate_support_file dir fs uri = Inr ())"
proof -
  have "(\<exists>xs :: unit list. map f us = map Inr xs) \<longleftrightarrow> (\<forall>u \<in> set us. f u = (Inr () :: RegistryError + unit))" for f :: "string \<Rightarrow> _" and us
    by (induction us) (auto simp: Cons_eq_map_conv)
  then show ?thesis
    by (auto simp: validate_staged_support_files_def res_bind_Inr_iff collect_results_all)
qed

lemma load_manifest_Inr:
  assumes "load_manifest rg root p fs = Inr i"
  obtains b where "p \<noteq> []" "manifest_path i = p" "root_dir i = butlast p"
    "SkillManifest_validate (manifest i) = Inr ()"
    "resolve_local_file (butlast p) (artifact_uri (package (manifest i))) = Inr (artifact_path i)"
    "entry_at fs (artifact_path i) = Some (File b)"
    "artifact_digest (package (manifest i)) = ''sha256:'' @ te_sha256_hex (rg_trust rg) b"
    "resolved_ref i = \<lparr>rs_key = m_key (manifest i), rs_version = m_version (manifest i),
       rs_digest = artifact_digest (package (manifest i))\<rparr>"
    "validate_staged_support_files (butlast p) (manifest i) fs = Inr ()"
    "load_verification_record (rg_trust rg) (butlast p) fs = Inr (verification i)"
    "derive_installed_trust_metadata (\<lambda>pid. load_trusted_publisher (rg_trust rg) root pid fs) (verification i) = Inr (trust i)"
    "read_installed_manifest rg p fs = Inr (manifest i)"
proof -
  note steps = assms[unfolded load_manifest_def Let_def]
  then have p: "p \<noteq> []"
    by (cases "p = []") simp_all
  with steps obtain m artifact digest v t where
      m: "read_installed_manifest rg p fs = Inr m" "validate_installed_manifest m = Inr ()"
      "resolve_local_file (butlast p) (artifact_uri (package m)) = Inr artifact"
      "sha256_file rg artifact fs = Inr digest" "artifact_digest (package m) = digest"
      "validate_staged_support_files (butlast p) m fs = Inr ()"
      "load_verification_record (rg_trust rg) (butlast p) fs = Inr v"
      "derive_installed_trust_metadata (\<lambda>pid. load_trusted_publisher (rg_trust rg) root pid fs) v = Inr t"
    and i: "i = \<lparr>manifest = m, resolved_ref = \<lparr>rs_key = m_key m, rs_version = m_version m, rs_digest = digest\<rparr>,
          manifest_path = p, artifact_path = artifact, root_dir = butlast p, verification = v, trust = t\<rparr>"
    by (auto simp: res_bind_Inr_iff split: if_splits)
  from m(4) obtain b where "entry_at fs artifact = Some (File b)" "digest = ''sha256:'' @ te_sha256_hex (rg_trust rg) b"
    by (auto simp: sha256_file_Inr)
  with p m i show thesis
    by (intro that) (simp_all add: validate_installed_manifest_def)
qed


lemma trust_state:
  "derive_installed_trust_metadata l v = Inr t \<Longrightarrow> verification_state t = VerifiedImport \<longleftrightarrow> v \<noteq> None"
  by (auto simp: derive_installed_trust_metadata_def split: option.splits sum.splits if_splits)

lemma not_Dir: "e \<noteq> Dir \<longleftrightarrow> (\<exists>b. e = File b)"
  by (cases e) simp_all

lemma load_existing_Inr:
  assumes "load_existing rg root fs = Inr skills"
  shows "i \<in> set skills \<Longrightarrow> load_manifest rg root (manifest_path i) fs = Inr i \<and> prefix (installed_root root) (manifest_path i)"
    "path_exists fs (installed_root root) \<Longrightarrow> prefix (installed_root root) p \<Longrightarrow> last p = ''manifest.json''
      \<Longrightarrow> fs_get fs p = Some (File b) \<Longrightarrow> \<exists>i \<in> set skills. manifest_path i = p"
proof -
  have load: "load_from_canonical_root rg root fs = Inr skills"
    using assms by (auto simp: load_existing_def open_existing_registry_root_def res_bind_Inr_iff
        split: option.splits Entry.splits)
  have found: "\<exists>ps. map (\<lambda>p. load_manifest rg root p fs) ps = map Inr skills
      \<and> set ps = {p. prefix (installed_root root) p \<and> last p = ''manifest.json'' \<and> (\<exists>b. fs_get fs p = Some (File b))}"
    if "path_exists fs (installed_root root)"
  proof -
    from load that obtain es where es: "walk_tree fs (installed_root root) = Inr es"
      and skills: "map (\<lambda>(p, _). load_manifest rg root p fs) (filter (\<lambda>(p, e). e \<noteq> Dir \<and> last p = ''manifest.json'') es)
        = map Inr skills"
      by (auto simp: load_from_canonical_root_def res_bind_Inr_iff collect_results_all)
    let ?ps = "map fst (filter (\<lambda>(p, e). e \<noteq> Dir \<and> last p = ''manifest.json'') es)"
    have "map (\<lambda>p. load_manifest rg root p fs) ?ps = map Inr skills"
      using skills by (simp add: split_def comp_def)
    moreover have "p \<in> set ?ps \<longleftrightarrow> prefix (installed_root root) p \<and> last p = ''manifest.json'' \<and> (\<exists>b. fs_get fs p = Some (File b))" for p
    proof -
      have "p \<in> set ?ps \<longleftrightarrow> last p = ''manifest.json'' \<and> (\<exists>e. e \<noteq> Dir \<and> (p, e) \<in> set es)"
        by force
      then show ?thesis
        unfolding walk_tree_entries[OF es] not_Dir by blast
    qed
    ultimately show ?thesis
      by blast
  qed
  have path: "manifest_path i = p" if "load_manifest rg root p fs = Inr i" for p i
    using that by (rule load_manifest_Inr)
  show "load_manifest rg root (manifest_path i) fs = Inr i \<and> prefix (installed_root root) (manifest_path i)" if "i \<in> set skills"
  proof (cases "path_exists fs (installed_root root)")
    case True
    with found obtain ps where ps: "map (\<lambda>p. load_manifest rg root p fs) ps = map Inr skills"
      "\<And>p. p \<in> set ps \<Longrightarrow> prefix (installed_root root) p" by blast
    have "Inr i \<in> set (map (\<lambda>p. load_manifest rg root p fs) ps)"
      using that by (simp add: ps(1))
    with ps(2) path show ?thesis
      by auto
  next
    case False
    with load that show ?thesis
      by (simp add: load_from_canonical_root_def)
  qed
  assume "path_exists fs (installed_root root)" "prefix (installed_root root) p" "last p = ''manifest.json''" "fs_get fs p = Some (File b)"
  with found obtain ps where ps: "map (\<lambda>p. load_manifest rg root p fs) ps = map Inr skills" "p \<in> set ps" by blast
  then have "load_manifest rg root p fs \<in> Inr ` set skills"
    by (metis image_eqI list.set_map)
  with path show "\<exists>i \<in> set skills. manifest_path i = p"
    by blast
qed

section \<open>Claims\<close>


definition sample_bundled :: SkillManifest where
  "sample_bundled = into_installed sample_source ''./component.wasm'' ''sha256:00'' []"

definition sample_local_env :: RegistryEnv where
  "sample_local_env =
     \<lparr>rg_trust = sample_trust, rg_manifest_parse = (\<lambda>s. if s = ''m'' then Inr sample_bundled else Inl ''eof''),
      rg_manifest_text = (\<lambda>_. Inr ''m''), rg_source_parse = (\<lambda>s. if s = ''src'' then Inr sample_source else Inl ''eof''),
      rg_bundle_parse = (\<lambda>_. Inl ''eof''), rg_bundle_text = (\<lambda>_. Inl ''unsupported''),
      rg_signature_text = (\<lambda>_. Inl ''unsupported''), rg_verification_text = (\<lambda>_. Inl ''unsupported'')\<rparr>"

definition sample_skill_files :: "path \<Rightarrow> (path \<times> Entry) list" where
  "sample_skill_files d =
     [(d @ [''disk''], Dir), (d @ [''disk'', ''manifest.json''], File ''m''), (d @ [''disk'', ''component.wasm''], File ''w''),
      (d @ [''disk'', ''schemas''], Dir), (d @ [''disk'', ''schemas'', ''in.json''], File ''{}''),
      (d @ [''disk'', ''schemas'', ''out.json''], File ''{}'')]"

definition sample_root :: Fs where
  "sample_root = \<lparr>fs_entries = [([], Dir), ([''g''], Dir), ([''g'', ''installed''], Dir)] @ sample_skill_files [''g'', ''installed''],
     fs_faults = [], fs_minted = 0\<rparr>"


end
