(* ===== verification/Guild_Bundle.thy ===== *)
theory Guild_Bundle
  imports Guild_Installed
begin

text \<open>
  Portable bundles of installed skills (\<open>crates/guild-registry/src/lib.rs\<close>): the signed index, its validation
  against the bundle directory, export, preview and import.

  The sets \<open>listed_paths\<close> and \<open>actual_files\<close> are lists here, so that the first offending path is reported.
\<close>

section \<open>The bundle index\<close>

definition BUNDLE_FORMAT_VERSION :: string where
  "BUNDLE_FORMAT_VERSION = ''guild-installed-bundle-v2''"

definition VERIFICATION_FILENAME :: string where
  "VERIFICATION_FILENAME = ''verification.json''"

record ValidatedBundleSkill =
  vb_entry :: InstalledBundleSkillEntry
  vb_install_dir :: path
  vb_installed :: InstalledSkill

record PortableBundleFile =
  pf_relative_path :: string
  pf_source_path :: path
  pf_sha256 :: string

record SignedBundlePayload =
  sp_bundle :: InstalledSkillBundle
  sp_bundle_bytes :: string
  sp_signature :: BundleSignatureEnvelope
  sp_files :: "PortableBundleFile list"

datatype ImportPreviewDecision = WouldImport | WouldRefuse

record ImportPreviewReport =
  ip_bundle :: InstalledSkillBundle
  ip_signature :: BundleSignatureEnvelope
  ip_verified :: bool
  ip_verification_error :: "RegistryError option"
  ip_trust_tier :: "LocalTrustTier option"
  ip_decision :: ImportPreviewDecision
  ip_refusal :: "RegistryError option"

definition PublisherRef_json :: "PublisherRef \<Rightarrow> json" where
  "PublisherRef_json p = json_obj
     [(''id'', JString (publisher_id p)), (''display_name'', JString (publisher_display_name p)),
      (''homepage'', json_opt JString (homepage p))]"

definition bundle_index_path :: "path \<Rightarrow> path" where
  "bundle_index_path bundle_root = bundle_root @ [''bundle.json'']"

definition open_bundle_directory :: "path \<Rightarrow> Fs \<Rightarrow> RegistryError + path" where
  "open_bundle_directory p fs =
     (case fs_get fs p of
        None \<Rightarrow> Inl (caused_by ''bundle-root-missing'' ''bundle directory does not exist'' (path_display p))
      | Some (File _) \<Rightarrow> Inl (caused_by ''bundle-root-invalid'' ''bundle path must be a directory'' (path_display p))
      | Some Dir \<Rightarrow> Inr p)"

definition read_bundle_index_bytes :: "RegistryEnv \<Rightarrow> path \<Rightarrow> Fs \<Rightarrow> RegistryError + string" where
  "read_bundle_index_bytes rg bundle_root fs =
     (let p = bundle_index_path bundle_root
      in map_err (\<lambda>e. if e = Io_NotFound
           then caused_by ''bundle-index-missing'' ''bundle.json was not found in the bundle directory'' (path_display p)
           else caused_by ''bundle-index-read-failed'' ''failed to read bundle.json'' (rg_io_text rg e))
         (read_bytes fs p))"

definition validate_bundle_index_shape :: "InstalledSkillBundle \<Rightarrow> RegistryError + unit" where
  "validate_bundle_index_shape bundle =
     (if bu_format_version bundle \<noteq> BUNDLE_FORMAT_VERSION
      then Inl (registry_detail (json_obj
             [(''expected'', JString BUNDLE_FORMAT_VERSION), (''actual'', JString (bu_format_version bundle))])
             (RegistryError_new ''bundle-format-unsupported'' ''installed skill bundle format version is unsupported''))
      else if bu_skills bundle = []
      then Inl (RegistryError_new ''bundle-index-invalid'' ''installed skill bundle must include at least one skill'')
      else if is_blank (publisher_id (bu_publisher bundle))
      then Inl (RegistryError_new ''bundle-index-invalid'' ''installed skill bundle publisher id must not be empty'')
      else if bu_files bundle = []
      then Inl (RegistryError_new ''bundle-index-invalid''
             ''installed skill bundle must include at least one bundled file digest'')
      else Inr ())"

definition parse_bundle_index :: "RegistryEnv \<Rightarrow> string \<Rightarrow> RegistryError + InstalledSkillBundle" where
  "parse_bundle_index rg bytes =
     res_bind (map_err (caused_by ''bundle-index-parse-failed'' ''failed to parse installed skill bundle metadata'')
         (rg_bundle_parse rg bytes)) (\<lambda>bundle.
     res_bind (validate_bundle_index_shape bundle) (\<lambda>_. Inr bundle))"

section \<open>Paths of a bundle\<close>

text \<open>
  Both path checks differ in their messages only. A relative path has no root or prefix component,
  so \<open>..\<close> is the one component that is refused inside.
\<close>

definition bundle_relative :: "string \<Rightarrow> string \<Rightarrow> string \<Rightarrow> string \<Rightarrow> string \<Rightarrow> RegistryError + path" where
  "bundle_relative code not_relative nothing outside s =
     (if path_is_absolute s then Inl (caused_by code not_relative s)
      else if path_components s = [] then Inl (RegistryError_new code nothing)
      else if \<not> prefix [''installed''] (path_components s) \<or> ''..'' \<in> set (path_components s)
      then Inl (caused_by code outside s)
      else Inr (path_components s))"

definition bundle_file_relative_from_str :: "string \<Rightarrow> RegistryError + path" where
  "bundle_file_relative_from_str =
     bundle_relative ''bundle-file-path-invalid'' ''bundle.json file path must be a relative path''
       ''bundle.json file path must not be empty'' ''bundle.json file paths must stay under the installed/ subtree''"

definition bundle_install_dir_relative_from_str :: "string \<Rightarrow> RegistryError + path" where
  "bundle_install_dir_relative_from_str =
     bundle_relative ''bundle-entry-path-invalid'' ''bundle.json install_dir must be a relative path''
       ''bundle.json install_dir must not be empty'' ''bundle.json install_dir must stay under the installed/ subtree''"

definition bundle_install_dir_relative :: "InstalledBundleSkillEntry \<Rightarrow> RegistryError + path" where
  "bundle_install_dir_relative entry = bundle_install_dir_relative_from_str (be_install_dir entry)"

definition relative_to :: "path \<Rightarrow> path \<Rightarrow> path option" where
  "relative_to root p = (if prefix root p then Some (drop (length root) p) else None)"

definition bundle_install_dir_relative_from_path :: "path \<Rightarrow> path \<Rightarrow> RegistryError + path" where
  "bundle_install_dir_relative_from_path bundle_root install_dir =
     ok_or (registry_detail (json_obj
         [(''bundle_root'', JString (path_display bundle_root)), (''install_dir'', JString (path_display install_dir))])
         (RegistryError_new ''bundle-entry-path-invalid''
            ''bundled installed skill directory did not live under the bundle root''))
       (relative_to bundle_root install_dir)"

definition installed_relative_dir :: "path \<Rightarrow> InstalledSkill \<Rightarrow> RegistryError + path" where
  "installed_relative_dir root i =
     ok_or (registry_detail (json_obj
         [(''registry_root'', JString (path_display root)), (''install_dir'', JString (path_display (root_dir i)))])
         (RegistryError_new ''install-dir-invalid'' ''installed skill directory did not live under the registry root''))
       (relative_to root (root_dir i))"

definition path_string :: "path \<Rightarrow> RegistryError + string" where
  "path_string p =
     (if list_all utf8_valid p then Inr (slash_join p)
      else Inl (caused_by ''path-not-utf8'' ''path could not be represented as UTF-8 in the local bundle format''
             (slash_join p)))"

definition resolve_bundle_install_dir :: "RegistryEnv \<Rightarrow> path \<Rightarrow> string \<Rightarrow> Fs \<Rightarrow> RegistryError + path" where
  "resolve_bundle_install_dir rg bundle_root install_dir fs =
     res_bind (bundle_install_dir_relative_from_str install_dir) (\<lambda>relative.
     let p = bundle_root @ relative
     in res_bind (map_err (\<lambda>e. if e = Io_NotFound
            then registry_detail (json_obj
                   [(''install_dir'', JString install_dir), (''path'', JString (path_display p))])
                   (RegistryError_new ''bundle-content-missing''
                      ''bundle.json referenced an installed skill directory that did not exist'')
            else caused_by ''bundle-content-open-failed'' ''failed to open bundled installed skill directory''
                   (rg_io_text rg e)) (canonicalize fs p)) (\<lambda>canonical.
        if \<not> prefix bundle_root canonical
        then Inl (registry_detail (json_obj
               [(''install_dir'', JString install_dir), (''bundle_root'', JString (path_display bundle_root))])
               (RegistryError_new ''bundle-entry-path-invalid'' ''bundle.json install_dir escaped the bundle root''))
        else if fs_get fs canonical \<noteq> Some Dir
        then Inl (caused_by ''bundle-entry-path-invalid'' ''bundle.json install_dir must point to a directory''
               (path_display canonical))
        else Inr canonical))"

section \<open>Validation of a bundle\<close>

fun validate_entries ::
  "RegistryEnv \<Rightarrow> path \<Rightarrow> InstalledSkillBundle \<Rightarrow> Fs \<Rightarrow> ResolvedSkillRef list \<Rightarrow> string list
     \<Rightarrow> InstalledBundleSkillEntry list \<Rightarrow> RegistryError + ValidatedBundleSkill list" where
  "validate_entries rg bundle_root bundle fs refs dirs [] = Inr []"
| "validate_entries rg bundle_root bundle fs refs dirs (entry # entries) =
     (if be_resolved_ref entry \<in> set refs
      then Inl (registry_detail (json_obj [(''resolved_ref'', ResolvedSkillRef_json (be_resolved_ref entry))])
             (RegistryError_new ''bundle-index-invalid'' ''bundle.json declared the same resolved skill more than once''))
      else
        res_bind (resolve_bundle_install_dir rg bundle_root (be_install_dir entry) fs) (\<lambda>install_dir.
        res_bind (res_bind (bundle_install_dir_relative_from_path bundle_root install_dir) path_string) (\<lambda>dir.
        if dir \<in> set dirs
        then Inl (caused_by ''bundle-index-invalid'' ''bundle.json declared the same install directory more than once'' dir)
        else
          res_bind (load_manifest rg bundle_root (install_dir @ [''manifest.json'']) fs) (\<lambda>i.
          if resolved_ref i \<noteq> be_resolved_ref entry
          then Inl (registry_detail (json_obj
                 [(''expected'', ResolvedSkillRef_json (be_resolved_ref entry)),
                  (''actual'', ResolvedSkillRef_json (resolved_ref i)), (''install_dir'', JString (be_install_dir entry))])
                 (RegistryError_new ''bundle-entry-mismatch''
                    ''bundled installed manifest did not match its declared resolved skill reference''))
          else if publisher_id (publisher (manifest i)) \<noteq> publisher_id (bu_publisher bundle)
          then Inl (registry_detail (json_obj
                 [(''bundle_publisher'', PublisherRef_json (bu_publisher bundle)),
                  (''manifest_publisher'', PublisherRef_json (publisher (manifest i))),
                  (''resolved_ref'', ResolvedSkillRef_json (resolved_ref i))])
                 (RegistryError_new ''bundle-publisher-mismatch''
                    ''bundled installed manifest publisher did not match the bundle publisher''))
          else
            res_bind (validate_entries rg bundle_root bundle fs (be_resolved_ref entry # refs) (dir # dirs) entries)
              (\<lambda>rest.
            Inr (\<lparr>vb_entry = entry, vb_install_dir = install_dir, vb_installed = i\<rparr> # rest))))))"

definition validate_bundle_skill_entries ::
  "RegistryEnv \<Rightarrow> path \<Rightarrow> InstalledSkillBundle \<Rightarrow> Fs \<Rightarrow> RegistryError + ValidatedBundleSkill list" where
  "validate_bundle_skill_entries rg bundle_root bundle fs =
     validate_entries rg bundle_root bundle fs [] [] (bu_skills bundle)"

definition by_ref :: "ValidatedBundleSkill list \<Rightarrow> ResolvedSkillRef \<Rightarrow> ValidatedBundleSkill option" where
  "by_ref validated = map_of (rev (map (\<lambda>v. (resolved_ref (vb_installed v), v)) validated))"

definition root_missing :: "ResolvedSkillRef \<Rightarrow> RegistryError" where
  "root_missing r = registry_detail (json_obj [(''root_skill'', ResolvedSkillRef_json r)])
     (RegistryError_new ''bundle-root-missing''
        ''bundle.json root_skill was not included in the bundled installed skills'')"

lemma by_ref_refs: "by_ref validated r = Some v \<Longrightarrow> v \<in> set validated \<and> resolved_ref (vb_installed v) = r"
  by (auto simp: by_ref_def dest!: map_of_SomeD)

text \<open>The loop over the stack of references: the top of the stack is the head of the list.\<close>

function closure_walk ::
  "ResolvedSkillRef \<Rightarrow> ValidatedBundleSkill list \<Rightarrow> ResolvedSkillRef list \<Rightarrow> ResolvedSkillRef list \<Rightarrow> RegistryError + unit" where
  "closure_walk root validated walked [] = Inr ()"
| "closure_walk root validated walked (r # stack) =
     (if r \<in> set walked then closure_walk root validated walked stack
      else case by_ref validated r of
        None \<Rightarrow> Inl (root_missing root)
      | Some v \<Rightarrow>
          let ds = dependencies (manifest (vb_installed v))
          in case find (\<lambda>d. by_ref validated (dep_skill d) = None) ds of
               Some d \<Rightarrow> Inl (registry_detail (json_obj
                 [(''root_skill'', ResolvedSkillRef_json root), (''dependency_alias'', JString (dep_alias d)),
                  (''missing_dependency'', ResolvedSkillRef_json (dep_skill d))])
                 (RegistryError_new ''bundle-closure-incomplete''
                    ''bundle declared dependency closure but omitted a required installed dependency''))
             | None \<Rightarrow> closure_walk root validated (r # walked) (rev (map dep_skill ds) @ stack))"
  by pat_completeness auto

termination
proof (relation "measures [\<lambda>(root, validated, walked, stack).
      card (resolved_ref ` vb_installed ` set validated - set walked), \<lambda>(root, validated, walked, stack). length stack]")
  fix validated :: "ValidatedBundleSkill list" and walked r v
  assume "r \<notin> set walked" "by_ref validated r = Some v"
  then have "r \<in> resolved_ref ` vb_installed ` set validated - set walked"
    using by_ref_refs by blast
  then have "card (resolved_ref ` vb_installed ` set validated - set (r # walked))
      < card (resolved_ref ` vb_installed ` set validated - set walked)"
    by (intro psubset_card_mono) auto
  then show "((root, validated, r # walked, s'), (root, validated, walked, s)) \<in> measures
      [\<lambda>(root, validated, walked, stack). card (resolved_ref ` vb_installed ` set validated - set walked),
       \<lambda>(root, validated, walked, stack). length stack]" for root :: ResolvedSkillRef and s s' :: "ResolvedSkillRef list"
    by simp
qed auto

definition validate_bundle_root_and_dependency_closure ::
  "InstalledSkillBundle \<Rightarrow> ValidatedBundleSkill list \<Rightarrow> RegistryError + unit" where
  "validate_bundle_root_and_dependency_closure bundle validated =
     (if by_ref validated (bu_root_skill bundle) = None then Inl (root_missing (bu_root_skill bundle))
      else if \<not> bu_includes_dependency_closure bundle then Inr ()
      else closure_walk (bu_root_skill bundle) validated [] [bu_root_skill bundle])"

definition validate_file :: "RegistryEnv \<Rightarrow> path \<Rightarrow> Fs \<Rightarrow> BundleFileEntry \<Rightarrow> RegistryError + unit" where
  "validate_file rg bundle_root fs f =
     res_bind (bundle_file_relative_from_str (bf_path f)) (\<lambda>relative.
     let p = bundle_root @ relative;
         detail = json_obj [(''path'', JString (bf_path f)), (''file_path'', JString (path_display p))]
     in case entry_at fs p of
          None \<Rightarrow> Inl (registry_detail detail (RegistryError_new ''bundle-content-missing''
                    ''bundle.json referenced a bundled file that did not exist''))
        | Some Dir \<Rightarrow> Inl (registry_detail detail (RegistryError_new ''bundle-content-invalid''
                    ''bundle.json referenced a bundled path that was not a file''))
        | Some (File _) \<Rightarrow>
            res_bind (sha256_file rg p fs) (\<lambda>digest.
            if digest \<noteq> bf_sha256 f
            then Inl (registry_detail (json_obj
                   [(''path'', JString (bf_path f)), (''expected'', JString (bf_sha256 f)), (''actual'', JString digest)])
                   (RegistryError_new ''bundle-file-digest-mismatch'' ''bundled file digest did not match bundle.json''))
            else Inr ()))"

fun validate_files ::
  "RegistryEnv \<Rightarrow> path \<Rightarrow> Fs \<Rightarrow> string list \<Rightarrow> BundleFileEntry list \<Rightarrow> RegistryError + string list" where
  "validate_files rg bundle_root fs listed [] = Inr listed"
| "validate_files rg bundle_root fs listed (f # files) =
     (if bf_path f \<in> set listed
      then Inl (caused_by ''bundle-index-invalid'' ''bundle.json declared the same bundled file more than once'' (bf_path f))
      else res_bind (validate_file rg bundle_root fs f) (\<lambda>_.
           validate_files rg bundle_root fs (listed @ [bf_path f]) files))"

definition validate_listed_bundle_files ::
  "RegistryEnv \<Rightarrow> path \<Rightarrow> InstalledSkillBundle \<Rightarrow> Fs \<Rightarrow> RegistryError + string list" where
  "validate_listed_bundle_files rg bundle_root bundle fs = validate_files rg bundle_root fs [] (bu_files bundle)"

definition actual_file :: "path \<Rightarrow> path \<Rightarrow> RegistryError + string" where
  "actual_file bundle_root p =
     (if last p = VERIFICATION_FILENAME
      then Inl (caused_by ''bundle-content-invalid''
             ''bundled installed skill directories must not contain local verification metadata'' (path_display p))
      else res_bind (bundle_install_dir_relative_from_path bundle_root p) path_string)"

definition collect_actual_bundle_files ::
  "RegistryEnv \<Rightarrow> path \<Rightarrow> ValidatedBundleSkill list \<Rightarrow> Fs \<Rightarrow> RegistryError + string list" where
  "collect_actual_bundle_files rg bundle_root validated fs =
     res_bind (collect_results (map (\<lambda>v.
         res_bind (map_err (\<lambda>e. caused_by ''bundle-content-read-failed''
             ''failed while scanning bundled installed content'' (rg_io_text rg e)) (walk_tree fs (vb_install_dir v))) (\<lambda>entries.
         collect_results (map (\<lambda>(p, _). actual_file bundle_root p) (filter (\<lambda>(_, e). e \<noteq> Dir) entries)))) validated))
       (\<lambda>files. Inr (concat files))"

definition validate_bundle_file_set_alignment :: "string list \<Rightarrow> string list \<Rightarrow> RegistryError + unit" where
  "validate_bundle_file_set_alignment listed actual =
     (case find (\<lambda>f. f \<notin> set listed) actual of
        Some f \<Rightarrow> Inl (caused_by ''bundle-unexpected-content''
                    ''bundled installed content included a file that was not listed in bundle.json'' f)
      | None \<Rightarrow>
          (case find (\<lambda>f. f \<notin> set actual) listed of
             Some f \<Rightarrow> Inl (caused_by ''bundle-index-invalid''
                    ''bundle.json listed a file that did not belong to a bundled installed skill directory'' f)
           | None \<Rightarrow> Inr ()))"

definition validate_bundle ::
  "RegistryEnv \<Rightarrow> path \<Rightarrow> InstalledSkillBundle \<Rightarrow> Fs \<Rightarrow> RegistryError + ValidatedBundleSkill list" where
  "validate_bundle rg bundle_root bundle fs =
     res_bind (validate_bundle_index_shape bundle) (\<lambda>_.
     res_bind (validate_bundle_skill_entries rg bundle_root bundle fs) (\<lambda>validated.
     res_bind (validate_bundle_root_and_dependency_closure bundle validated) (\<lambda>_.
     res_bind (validate_listed_bundle_files rg bundle_root bundle fs) (\<lambda>listed.
     res_bind (collect_actual_bundle_files rg bundle_root validated fs) (\<lambda>actual.
     res_bind (validate_bundle_file_set_alignment listed actual) (\<lambda>_.
     Inr validated))))))"

section \<open>Import targets and previews\<close>

definition conflicting_digests :: "InstalledSkill list \<Rightarrow> InstalledSkill \<Rightarrow> string list" where
  "conflicting_digests existing i =
     map (\<lambda>e. rs_digest (resolved_ref e)) (filter (\<lambda>e. rs_key (resolved_ref e) = rs_key (resolved_ref i)
        \<and> rs_version (resolved_ref e) = rs_version (resolved_ref i) \<and> resolved_ref e \<noteq> resolved_ref i) existing)"

definition version_ambiguous :: "(string \<times> json) list \<Rightarrow> RegistryError" where
  "version_ambiguous kvs = registry_detail (json_obj kvs) (RegistryError_new ''bundle-import-version-ambiguous''
     ''bundle import would introduce multiple digests for the same skill version'')"

definition validate_import_target ::
  "RegistryEnv \<Rightarrow> path \<Rightarrow> InstalledSkill list \<Rightarrow> Fs \<Rightarrow> ValidatedBundleSkill \<Rightarrow> RegistryError + unit" where
  "validate_import_target rg root existing fs v =
     res_bind (bundle_install_dir_relative (vb_entry v)) (\<lambda>install_dir.
     let target_dir = root @ install_dir; conflicting = conflicting_digests existing (vb_installed v);
         ref = ResolvedSkillRef_json (be_resolved_ref (vb_entry v)); target = JString (path_display target_dir)
     in if \<not> path_exists fs target_dir
        then (if conflicting = [] then Inr ()
              else Inl (version_ambiguous [(''resolved_ref'', ref), (''conflicting_digests'', list_json JString conflicting)]))
        else
          res_bind (map_err (\<lambda>e. registry_detail (json_obj
              [(''resolved_ref'', ref), (''target_dir'', target), (''cause'', registry_cause e)])
              (RegistryError_new ''bundle-import-target-invalid''
                 ''target registry already contained an invalid installed skill directory at the bundle import path''))
            (load_manifest rg root (target_dir @ [''manifest.json'']) fs)) (\<lambda>i.
          if resolved_ref i \<noteq> resolved_ref (vb_installed v) \<or> manifest i \<noteq> manifest (vb_installed v)
          then Inl (registry_detail (json_obj [(''resolved_ref'', ref), (''target_dir'', target)])
                 (RegistryError_new ''bundle-import-conflict''
                    ''target registry already contained a different installed skill at the import path''))
          else if conflicting \<noteq> []
          then Inl (version_ambiguous
                 [(''resolved_ref'', ref), (''target_dir'', target), (''conflicting_digests'', list_json JString conflicting)])
          else Inr ()))"

definition validate_import_targets ::
  "RegistryEnv \<Rightarrow> path \<Rightarrow> ValidatedBundleSkill list \<Rightarrow> Fs \<Rightarrow> RegistryError + unit" where
  "validate_import_targets rg root validated fs =
     res_bind (map_err (\<lambda>e. registry_detail (json_obj [(''cause'', registry_cause e)])
         (RegistryError_new ''bundle-import-target-invalid''
            ''failed to load existing installed state while validating bundle import targets''))
       (load_existing rg root fs)) (\<lambda>existing.
     res_bind (collect_results (map (validate_import_target rg root existing fs) validated)) (\<lambda>_. Inr ()))"

definition verification_of :: "InstalledSkillBundle \<Rightarrow> BundleSignatureEnvelope \<Rightarrow> InstalledVerificationRecord" where
  "verification_of bundle s =
     \<lparr>iv_status = Verified, iv_publisher = bu_publisher bundle, iv_scheme = bse_scheme s,
      iv_bundle_sha256 = bse_bundle_sha256 s, iv_signature = s\<rparr>"

definition preview_bundle_import ::
  "RegistryEnv \<Rightarrow> path \<Rightarrow> InstalledSkillBundle \<Rightarrow> string \<Rightarrow> BundleSignatureEnvelope
     \<Rightarrow> (InstalledSkillBundle \<Rightarrow> InstalledVerificationRecord \<Rightarrow> RegistryError + unit) \<Rightarrow> Fs
     \<Rightarrow> RegistryError + ImportPreviewReport" where
  "preview_bundle_import rg root bundle bytes s validate_after_signature fs =
     (let refused = \<lambda>verified err tier e. \<lparr>ip_bundle = bundle, ip_signature = s, ip_verified = verified,
            ip_verification_error = err, ip_trust_tier = tier, ip_decision = WouldRefuse, ip_refusal = Some e\<rparr>
      in case load_trusted_publisher (rg_trust rg) root (bse_publisher_id s) fs of
           Inl e \<Rightarrow>
             if re_code e = ''bundle-publisher-untrusted'' then Inr (refused False (Some e) None e) else Inl e
         | Inr p \<Rightarrow>
             (case verify_bundle_signature (rg_trust rg) bytes bundle s p of
                Inl e \<Rightarrow> Inr (refused False (Some e) (Some (tp_trust_tier p)) e)
              | Inr _ \<Rightarrow>
                  (case validate_after_signature bundle (verification_of bundle s) of
                     Inl e \<Rightarrow> Inr (refused True None (Some (tp_trust_tier p)) e)
                   | Inr _ \<Rightarrow> Inr \<lparr>ip_bundle = bundle, ip_signature = s, ip_verified = True,
                       ip_verification_error = None, ip_trust_tier = Some (tp_trust_tier p),
                       ip_decision = WouldImport, ip_refusal = None\<rparr>)))"

definition preview_import_bundle :: "RegistryEnv \<Rightarrow> path \<Rightarrow> path \<Rightarrow> Fs \<Rightarrow> RegistryError + ImportPreviewReport" where
  "preview_import_bundle rg root bundle_root fs =
     res_bind (open_existing_registry_root root fs) (\<lambda>root.
     res_bind (open_bundle_directory bundle_root fs) (\<lambda>bundle_root.
     res_bind (read_bundle_index_bytes rg bundle_root fs) (\<lambda>bytes.
     res_bind (parse_bundle_index rg bytes) (\<lambda>bundle.
     res_bind (read_bundle_signature (rg_trust rg) bundle_root fs) (\<lambda>s.
     preview_bundle_import rg root bundle bytes s (\<lambda>bundle v.
       res_bind (validate_bundle rg bundle_root bundle fs) (\<lambda>validated. validate_import_targets rg root validated fs)) fs)))))"

section \<open>Import\<close>

text \<open>
  \<open>copy_dir_recursive\<close> descends at most as many levels as its first argument says and then fails as the
  system does on paths that are too long; \<open>import_depth\<close> is enough for every tree of the file system.
\<close>

fun copy_dir_recursive :: "nat \<Rightarrow> RegistryEnv \<Rightarrow> path \<Rightarrow> path \<Rightarrow> Fs \<Rightarrow> (RegistryError, unit) io"
  and copy_dir_entries :: "nat \<Rightarrow> RegistryEnv \<Rightarrow> path \<Rightarrow> path \<Rightarrow> (string \<times> Entry) list \<Rightarrow> Fs \<Rightarrow> (RegistryError, unit) io" where
  "copy_dir_recursive 0 rg source destination fs =
     (Inl (caused_by ''directory-create-failed'' ''failed to create directory while copying bundle contents''
        (rg_io_text rg (Io_Other ''file name too long''))), fs)"
| "copy_dir_recursive (Suc n) rg source destination fs =
     io_bind (io_err (\<lambda>e. caused_by ''directory-create-failed''
         ''failed to create directory while copying bundle contents'' (rg_io_text rg e)) (create_dir_all destination fs)) (\<lambda>_ fs.
     io_bind (map_err (\<lambda>e. caused_by ''directory-read-failed''
         ''failed to read directory while copying bundle contents'' (rg_io_text rg e)) (read_dir fs source), fs) (\<lambda>entries fs.
     copy_dir_entries n rg source destination entries fs))"
| "copy_dir_entries n rg source destination [] fs = (Inr (), fs)"
| "copy_dir_entries n rg source destination ((name, e) # entries) fs =
     io_bind (if e = Dir then copy_dir_recursive n rg (source @ [name]) (destination @ [name]) fs
       else io_err (\<lambda>err. registry_detail (json_obj
             [(''source'', JString (path_display (source @ [name]))),
              (''destination'', JString (path_display (destination @ [name]))), (''cause'', JString (rg_io_text rg err))])
             (RegistryError_new ''file-copy-failed'' ''failed to copy a file while copying bundle contents''))
           (copy_at (source @ [name]) (destination @ [name]) fs)) (\<lambda>_ fs.
     copy_dir_entries n rg source destination entries fs)"

definition import_depth :: "Fs \<Rightarrow> nat" where
  "import_depth fs = Suc (tree_depth fs)"

definition import_staging_root :: "path \<Rightarrow> path" where
  "import_staging_root root = root @ [''.bundle-import-staging'']"

definition cleanup_import_staging_root :: "RegistryEnv \<Rightarrow> path \<Rightarrow> Fs \<Rightarrow> (RegistryError, unit) io" where
  "cleanup_import_staging_root rg staging fs =
     (if \<not> path_exists fs staging then (Inr (), fs)
      else io_err (\<lambda>e. caused_by ''bundle-import-staging-cleanup-failed''
             ''failed to clean bundle import staging directory'' (rg_io_text rg e)) (remove_dir_all staging fs))"

definition reset_import_staging_root :: "RegistryEnv \<Rightarrow> path \<Rightarrow> Fs \<Rightarrow> (RegistryError, path) io" where
  "reset_import_staging_root rg root fs =
     (let staging = import_staging_root root
      in io_bind (cleanup_import_staging_root rg staging fs) (\<lambda>_ fs.
         io_bind (io_err (\<lambda>e. caused_by ''bundle-import-staging-create-failed''
             ''failed to create bundle import staging directory'' (rg_io_text rg e)) (create_dir_all staging fs)) (\<lambda>_ fs.
         (Inr staging, fs))))"

definition load_imported_bundle_skill :: "RegistryEnv \<Rightarrow> path \<Rightarrow> path \<Rightarrow> Fs \<Rightarrow> RegistryError + InstalledSkill" where
  "load_imported_bundle_skill rg root target_dir fs = load_manifest rg root (target_dir @ [''manifest.json'']) fs"

definition place_skill ::
  "RegistryEnv \<Rightarrow> path \<Rightarrow> path \<Rightarrow> InstalledVerificationRecord \<Rightarrow> Fs \<Rightarrow> (RegistryError, unit) io" where
  "place_skill rg staged_dir target_dir v fs =
     (if path_exists fs target_dir
      then write_json (rg_io_text rg) (installed_verification_path target_dir) (rg_verification_text rg v) fs
      else io_err (\<lambda>e. registry_detail (json_obj
             [(''from'', JString (path_display staged_dir)), (''to'', JString (path_display target_dir)),
              (''cause'', JString (rg_io_text rg e))])
             (RegistryError_new ''bundle-import-move-failed''
                ''failed to move validated bundled skill into the target registry'')) (rename_dir staged_dir target_dir fs))"

definition import_skill ::
  "RegistryEnv \<Rightarrow> path \<Rightarrow> path \<Rightarrow> ValidatedBundleSkill list \<Rightarrow> InstalledVerificationRecord
     \<Rightarrow> InstalledBundleSkillEntry \<Rightarrow> Fs \<Rightarrow> (RegistryError, InstalledSkill) io" where
  "import_skill rg root staging validated v entry fs =
     io_bind (ok_or (registry_detail (json_obj [(''resolved_ref'', ResolvedSkillRef_json (be_resolved_ref entry))])
         (RegistryError_new ''bundle-validation-incomplete''
            ''bundle validation did not retain every indexed skill entry''))
       (find (\<lambda>c. be_resolved_ref (vb_entry c) = be_resolved_ref entry) validated), fs) (\<lambda>skill fs.
     io_bind (bundle_install_dir_relative (vb_entry skill), fs) (\<lambda>install_dir fs.
     let target_dir = root @ install_dir; staged_dir = staging @ install_dir
     in io_bind (copy_dir_recursive (import_depth fs) rg (vb_install_dir skill) staged_dir fs) (\<lambda>_ fs.
        io_bind (io_err (\<lambda>e. caused_by ''bundle-import-target-create-failed''
            ''failed to create target directory for imported skill'' (rg_io_text rg e))
          (create_dir_all (butlast target_dir) fs)) (\<lambda>_ fs.
        io_bind (place_skill rg staged_dir target_dir v fs) (\<lambda>_ fs.
        io_bind (write_json (rg_io_text rg) (installed_verification_path target_dir) (rg_verification_text rg v) fs) (\<lambda>_ fs.
        (load_imported_bundle_skill rg root target_dir fs, fs)))))))"

fun import_skills ::
  "RegistryEnv \<Rightarrow> path \<Rightarrow> path \<Rightarrow> ValidatedBundleSkill list \<Rightarrow> InstalledVerificationRecord
     \<Rightarrow> InstalledBundleSkillEntry list \<Rightarrow> Fs \<Rightarrow> (RegistryError, InstalledSkill list) io" where
  "import_skills rg root staging validated v [] fs = (Inr [], fs)"
| "import_skills rg root staging validated v (entry # entries) fs =
     io_bind (import_skill rg root staging validated v entry fs) (\<lambda>i fs.
     io_bind (import_skills rg root staging validated v entries fs) (\<lambda>rest fs. (Inr (i # rest), fs)))"

definition import_checks ::
  "RegistryEnv \<Rightarrow> path \<Rightarrow> path \<Rightarrow> Fs
     \<Rightarrow> RegistryError + (InstalledSkillBundle \<times> BundleSignatureEnvelope \<times> ValidatedBundleSkill list)" where
  "import_checks rg root bundle_root fs =
     res_bind (open_bundle_directory bundle_root fs) (\<lambda>bundle_root.
     res_bind (read_bundle_index_bytes rg bundle_root fs) (\<lambda>bytes.
     res_bind (parse_bundle_index rg bytes) (\<lambda>bundle.
     res_bind (read_bundle_signature (rg_trust rg) bundle_root fs) (\<lambda>s.
     res_bind (load_trusted_publisher (rg_trust rg) root (bse_publisher_id s) fs) (\<lambda>p.
     res_bind (verify_bundle_signature (rg_trust rg) bytes bundle s p) (\<lambda>_.
     res_bind (validate_bundle rg bundle_root bundle fs) (\<lambda>validated.
     res_bind (validate_import_targets rg root validated fs) (\<lambda>_.
     Inr (bundle, s, validated)))))))))"

definition import_bundle :: "RegistryEnv \<Rightarrow> path \<Rightarrow> path \<Rightarrow> Fs \<Rightarrow> (RegistryError, InstalledSkill list) io" where
  "import_bundle rg root bundle_root fs =
     io_bind (ensure_registry_layout (rg_trust rg) root fs) (\<lambda>root fs.
     io_bind (import_checks rg root bundle_root fs, fs) (\<lambda>(bundle, s, validated) fs.
     io_bind (reset_import_staging_root rg root fs) (\<lambda>staging fs.
     case import_skills rg root staging validated (verification_of bundle s) (bu_skills bundle) fs of
       (staged, fs) \<Rightarrow>
         (case cleanup_import_staging_root rg staging fs of
            (cleanup, fs) \<Rightarrow> (res_bind staged (\<lambda>imported. res_bind cleanup (\<lambda>_. Inr imported)), fs)))))"

section \<open>Export\<close>

definition bundle_skill_order :: "InstalledSkill \<Rightarrow> InstalledSkill \<Rightarrow> Ordering" where
  "bundle_skill_order l r =
     (let a = resolved_ref l; b = resolved_ref r
      in then_with (cmp_by str_less (sk_namespace (rs_key a)) (sk_namespace (rs_key b)))
           (then_with (cmp_by str_less (sk_name (rs_key a)) (sk_name (rs_key b)))
             (then_with (cmp_by str_less (rs_version a) (rs_version b))
               (cmp_by str_less (rs_digest a) (rs_digest b)))))"

text \<open>The children of a skill, pushed one after the other, with the error of the first that is missing.\<close>

definition bundle_children :: "InstalledSkill list \<Rightarrow> InstalledSkill \<Rightarrow> InstalledSkill \<Rightarrow> RegistryError + InstalledSkill list" where
  "bundle_children installed root i =
     collect_results (map (\<lambda>d. map_err (\<lambda>e. registry_detail (json_obj
         [(''root_skill'', ResolvedSkillRef_json (resolved_ref root)), (''dependency_alias'', JString (dep_alias d)),
          (''dependency'', ResolvedSkillRef_json (dep_skill d)), (''cause'', registry_cause e)])
         (RegistryError_new ''bundle-export-dependency-missing''
            ''failed to resolve a declared installed dependency while building a bundle closure''))
       (resolve_exact installed (dep_skill d))) (dependencies (manifest i)))"

lemma bundle_children_Inr:
  assumes "bundle_children installed root i = Inr cs"
  shows "list_all2 (\<lambda>d c. resolve_exact installed (dep_skill d) = Inr c) (dependencies (manifest i)) cs"
  using assms by (auto simp: bundle_children_def collect_results_all list_all2_conv_all_nth list_eq_iff_nth_eq)

lemma bundle_children_installed:
  "bundle_children installed root i = Inr cs \<Longrightarrow> set cs \<subseteq> set installed"
  using bundle_children_Inr resolve_exact_Inr by (fastforce simp: list_all2_conv_all_nth in_set_conv_nth)

function collect_bundle_walk ::
  "InstalledSkill list \<Rightarrow> InstalledSkill \<Rightarrow> bool \<Rightarrow> ResolvedSkillRef list \<Rightarrow> InstalledSkill list \<Rightarrow> InstalledSkill list
     \<Rightarrow> RegistryError + InstalledSkill list" where
  "collect_bundle_walk installed root deps seen bundled [] = Inr bundled"
| "collect_bundle_walk installed root deps seen bundled (i # stack) =
     (if resolved_ref i \<in> set seen then collect_bundle_walk installed root deps seen bundled stack
      else case (if deps then bundle_children installed root i else Inr []) of
        Inl e \<Rightarrow> Inl e
      | Inr cs \<Rightarrow> collect_bundle_walk installed root deps (resolved_ref i # seen) (bundled @ [i]) (rev cs @ stack))"
  by pat_completeness auto

termination
proof (relation "measures [\<lambda>(installed, root, deps, seen, bundled, stack).
      card (resolved_ref ` (set installed \<union> set stack) - set seen),
      \<lambda>(installed, root, deps, seen, bundled, stack). length stack]")
  fix installed root deps seen i cs and stack bundled :: "InstalledSkill list"
  assume new: "resolved_ref i \<notin> set seen" and cs: "(if deps then bundle_children installed root i else Inr []) = Inr cs"
  have "set cs \<subseteq> set installed"
    using cs bundle_children_installed by (auto split: if_splits)
  then have "resolved_ref ` (set installed \<union> set (rev cs @ stack)) - set (resolved_ref i # seen)
      \<subset> resolved_ref ` (set installed \<union> set (i # stack)) - set seen"
    using new by auto
  then have "card (resolved_ref ` (set installed \<union> set (rev cs @ stack)) - set (resolved_ref i # seen))
      < card (resolved_ref ` (set installed \<union> set (i # stack)) - set seen)"
    by (intro psubset_card_mono) simp_all
  then show "((installed, root, deps, resolved_ref i # seen, bundled @ [i], rev cs @ stack),
      (installed, root, deps, seen, bundled, i # stack)) \<in> measures [\<lambda>(installed, root, deps, seen, bundled, stack).
      card (resolved_ref ` (set installed \<union> set stack) - set seen),
      \<lambda>(installed, root, deps, seen, bundled, stack). length stack]"
    by simp
next
  fix installed root deps seen bundled i stack
  assume "resolved_ref i \<in> set seen"
  then have "resolved_ref ` (set installed \<union> set stack) - set seen
      = resolved_ref ` (set installed \<union> set (i # stack)) - set seen"
    by auto
  then show "((installed, root, deps, seen, bundled, stack), (installed, root, deps, seen, bundled, i # stack))
      \<in> measures [\<lambda>(installed, root, deps, seen, bundled, stack).
      card (resolved_ref ` (set installed \<union> set stack) - set seen),
      \<lambda>(installed, root, deps, seen, bundled, stack). length stack]" for root :: InstalledSkill and deps :: bool
      and bundled :: "InstalledSkill list"
    by simp
qed auto

definition collect_bundle_skills ::
  "InstalledSkill list \<Rightarrow> InstalledSkill \<Rightarrow> bool \<Rightarrow> RegistryError + InstalledSkill list" where
  "collect_bundle_skills installed root include_dependencies =
     res_bind (collect_bundle_walk installed root include_dependencies [] [] [root]) (\<lambda>bundled.
     Inr (sort_cmp bundle_skill_order bundled))"

definition ensure_bundle_publisher_matches_signer ::
  "InstalledSkill list \<Rightarrow> LocalPublisherIdentity \<Rightarrow> RegistryError + unit" where
  "ensure_bundle_publisher_matches_signer bundled signer =
     (case find (\<lambda>i. publisher (manifest i) \<noteq> lp_publisher signer) bundled of
        None \<Rightarrow> Inr ()
      | Some i \<Rightarrow> Inl (registry_detail (json_obj
          [(''resolved_ref'', ResolvedSkillRef_json (resolved_ref i)),
           (''manifest_publisher'', PublisherRef_json (publisher (manifest i))),
           (''signer_publisher'', PublisherRef_json (lp_publisher signer))])
          (RegistryError_new ''bundle-publisher-mismatch''
             ''signed portable bundles may only include installed skills from the signing publisher in this milestone'')))"

definition portable_file :: "RegistryEnv \<Rightarrow> path \<Rightarrow> path \<Rightarrow> Fs \<Rightarrow> path \<Rightarrow> RegistryError + PortableBundleFile" where
  "portable_file rg source install_dir fs p =
     res_bind (ok_or (caused_by ''bundle-export-path-invalid''
         ''installed content path did not stay under the installed root'' (path_display p)) (relative_to source p)) (\<lambda>relative.
     res_bind (path_string (install_dir @ relative)) (\<lambda>name.
     res_bind (sha256_file rg p fs) (\<lambda>digest.
     Inr \<lparr>pf_relative_path = name, pf_source_path = p, pf_sha256 = digest\<rparr>)))"

definition collect_installed_dir_for_bundle ::
  "RegistryEnv \<Rightarrow> path \<Rightarrow> path \<Rightarrow> Fs \<Rightarrow> RegistryError + PortableBundleFile list" where
  "collect_installed_dir_for_bundle rg source install_dir fs =
     res_bind (map_err (\<lambda>e. caused_by ''bundle-export-read-failed''
         ''failed while scanning installed content for bundle export'' (rg_io_text rg e)) (walk_tree fs source)) (\<lambda>entries.
     collect_results (map (\<lambda>(p, _). portable_file rg source install_dir fs p)
       (filter (\<lambda>(p, e). p \<noteq> source \<and> e \<noteq> Dir \<and> last p \<noteq> VERIFICATION_FILENAME) entries)))"

definition bundle_contents ::
  "RegistryEnv \<Rightarrow> path \<Rightarrow> Fs \<Rightarrow> InstalledSkill \<Rightarrow> RegistryError + (InstalledBundleSkillEntry \<times> PortableBundleFile list)" where
  "bundle_contents rg root fs i =
     res_bind (installed_relative_dir root i) (\<lambda>install_dir.
     res_bind (collect_installed_dir_for_bundle rg (root_dir i) install_dir fs) (\<lambda>files.
     res_bind (path_string install_dir) (\<lambda>dir.
     Inr (\<lparr>be_resolved_ref = resolved_ref i, be_install_dir = dir\<rparr>, files))))"

definition build_signed_bundle_payload ::
  "RegistryEnv \<Rightarrow> path \<Rightarrow> InstalledSkill list \<Rightarrow> ResolvedSkillRef \<Rightarrow> bool \<Rightarrow> LocalPublisherIdentity \<Rightarrow> Fs
     \<Rightarrow> RegistryError + SignedBundlePayload" where
  "build_signed_bundle_payload rg registry_root installed root include_dependencies signer fs =
     res_bind (map_err (\<lambda>e. registry_detail (json_obj
         [(''root_skill'', ResolvedSkillRef_json root), (''cause'', registry_cause e)])
         (RegistryError_new ''bundle-root-skill-not-found''
            ''failed to resolve the installed root skill for bundle export'')) (resolve_exact installed root)) (\<lambda>i.
     res_bind (collect_bundle_skills installed i include_dependencies) (\<lambda>skills.
     res_bind (ensure_bundle_publisher_matches_signer skills signer) (\<lambda>_.
     res_bind (collect_results (map (bundle_contents rg registry_root fs) skills)) (\<lambda>contents.
     let files = sort_cmp (\<lambda>l r. cmp_by str_less (pf_relative_path l) (pf_relative_path r)) (concat (map snd contents));
         bundle = \<lparr>bu_format_version = BUNDLE_FORMAT_VERSION, bu_root_skill = resolved_ref i,
           bu_includes_dependency_closure = include_dependencies, bu_publisher = lp_publisher signer,
           bu_skills = map fst contents,
           bu_files = map (\<lambda>f. \<lparr>bf_path = pf_relative_path f, bf_sha256 = pf_sha256 f\<rparr>) files\<rparr>
     in res_bind (map_err (caused_by ''json-serialize-failed'' ''failed to serialize JSON'') (rg_bundle_text rg bundle)) (\<lambda>bytes.
        res_bind (sign_bundle_payload (rg_trust rg) signer bytes) (\<lambda>s.
        Inr \<lparr>sp_bundle = bundle, sp_bundle_bytes = bytes, sp_signature = s, sp_files = files\<rparr>))))))"

definition prepare_bundle_root :: "RegistryEnv \<Rightarrow> path \<Rightarrow> Fs \<Rightarrow> (RegistryError, path) io" where
  "prepare_bundle_root rg p fs =
     (case fs_get fs p of
        Some (File _) \<Rightarrow>
          (Inl (caused_by ''bundle-root-invalid'' ''bundle export target must be a directory'' (path_display p)), fs)
      | Some Dir \<Rightarrow>
          (if has_children fs p
           then Inl (caused_by ''bundle-root-not-empty'' ''bundle export target directory must be empty'' (path_display p))
           else Inr p, fs)
      | None \<Rightarrow>
          io_bind (io_err (\<lambda>e. caused_by ''bundle-root-create-failed''
              ''failed to create bundle export target directory'' (rg_io_text rg e)) (create_dir_all p fs)) (\<lambda>_ fs.
          (Inr p, fs)))"

fun write_portable_bundle_files :: "RegistryEnv \<Rightarrow> path \<Rightarrow> PortableBundleFile list \<Rightarrow> Fs \<Rightarrow> (RegistryError, unit) io" where
  "write_portable_bundle_files rg bundle_root [] fs = (Inr (), fs)"
| "write_portable_bundle_files rg bundle_root (f # files) fs =
     io_bind (bundle_file_relative_from_str (pf_relative_path f), fs) (\<lambda>relative fs.
     let destination = bundle_root @ relative
     in io_bind (io_err (\<lambda>e. caused_by ''bundle-dir-create-failed''
            ''failed to create parent directory for bundled file'' (rg_io_text rg e)) (create_dir_all (butlast destination) fs)) (\<lambda>_ fs.
        io_bind (io_err (\<lambda>e. registry_detail (json_obj
            [(''source'', JString (path_display (pf_source_path f))), (''destination'', JString (path_display destination)),
             (''cause'', JString (rg_io_text rg e))])
            (RegistryError_new ''bundle-file-copy-failed''
               ''failed to copy installed content into the portable bundle'')) (copy_at (pf_source_path f) destination fs)) (\<lambda>_ fs.
        write_portable_bundle_files rg bundle_root files fs)))"

definition write_bytes :: "RegistryEnv \<Rightarrow> path \<Rightarrow> string \<Rightarrow> Fs \<Rightarrow> (RegistryError, unit) io" where
  "write_bytes rg p bytes fs =
     io_bind (io_err (\<lambda>e. caused_by ''file-write-dir-failed'' ''failed to create parent directory for file write''
         (rg_io_text rg e)) (create_dir_all (butlast p) fs)) (\<lambda>_ fs.
     io_err (\<lambda>e. caused_by ''file-write-failed'' ''failed to write file'' (rg_io_text rg e)) (fs_write p bytes fs))"

definition export_bundle ::
  "RegistryEnv \<Rightarrow> path \<Rightarrow> InstalledSkill list \<Rightarrow> ResolvedSkillRef \<Rightarrow> bool \<Rightarrow> path \<Rightarrow> LocalPublisherIdentity \<Rightarrow> Fs
     \<Rightarrow> (RegistryError, InstalledSkillBundle) io" where
  "export_bundle rg registry_root installed root include_dependencies bundle_root signer fs =
     io_bind (build_signed_bundle_payload rg registry_root installed root include_dependencies signer fs, fs) (\<lambda>payload fs.
     io_bind (prepare_bundle_root rg bundle_root fs) (\<lambda>bundle_root fs.
     io_bind (write_portable_bundle_files rg bundle_root (sp_files payload) fs) (\<lambda>_ fs.
     io_bind (write_bytes rg (bundle_index_path bundle_root) (sp_bundle_bytes payload) fs) (\<lambda>_ fs.
     io_bind (write_json (rg_io_text rg) (bundle_signature_path bundle_root) (rg_signature_text rg (sp_signature payload)) fs) (\<lambda>_ fs.
     (Inr (sp_bundle payload), fs))))))"

end
