(* ===== verification/Guild_Bundle_Laws.thy ===== *)
theory Guild_Bundle_Laws
  imports Guild_Bundle
begin

text \<open>
  What validation of a bundle establishes: the closure walk agrees with reachability over the bundled
  skills, the listed files are exactly the files on disk, and a preview decides as the import does.
\<close>

section \<open>Dependency closure\<close>

text \<open>The installed skills of a validated bundle as a registry, and sets of references closed under dependencies.\<close>

definition bundle_lookup :: "ValidatedBundleSkill list \<Rightarrow> ResolvedSkillRef \<Rightarrow> RegistryError + InstalledSkill" where
  "bundle_lookup validated r =
     (case by_ref validated r of None \<Rightarrow> Inl (root_missing r) | Some v \<Rightarrow> Inr (vb_installed v))"

interpretation bundled: exact_registry "bundle_lookup validated" for validated
proof
  show ref: "bundle_lookup validated r = Inr s \<Longrightarrow> resolved_ref s = r" for r s
    by (auto simp: bundle_lookup_def split: option.splits dest: by_ref_refs)
  have "{r. \<exists>s. bundle_lookup validated r = Inr s} \<subseteq> resolved_ref ` vb_installed ` set validated"
    by (auto simp: bundle_lookup_def split: option.splits dest!: by_ref_refs)
  then show "finite {r. \<exists>s. bundle_lookup validated r = Inr s}"
    by (rule finite_subset) simp
qed

definition bundle_closed :: "ValidatedBundleSkill list \<Rightarrow> ResolvedSkillRef set \<Rightarrow> bool" where
  "bundle_closed validated W \<longleftrightarrow> (\<forall>r \<in> W. \<exists>v. by_ref validated r = Some v
     \<and> dep_skill ` set (dependencies (manifest (vb_installed v))) \<subseteq> W)"

lemma closure_walk_sound:
  assumes "closure_walk root validated walked stack = Inr ()"
    and "\<forall>r \<in> set walked. \<exists>v. by_ref validated r = Some v
      \<and> dep_skill ` set (dependencies (manifest (vb_installed v))) \<subseteq> set walked \<union> set stack"
  shows "\<exists>W. set walked \<union> set stack \<subseteq> W \<and> bundle_closed validated W"
  using assms
proof (induction root validated walked stack rule: closure_walk.induct)
  case (1 root validated walked)
  then show ?case
    by (auto simp: bundle_closed_def intro!: exI[of _ "set walked"])
next
  case (2 root validated walked r stack)
  show ?case
  proof (cases "r \<in> set walked")
    case True
    with 2 show ?thesis
      by (auto simp: insert_absorb)
  next
    case False
    with "2.prems"(1) obtain v where v: "by_ref validated r = Some v"
      and none: "find (\<lambda>d. by_ref validated (dep_skill d) = None) (dependencies (manifest (vb_installed v))) = None"
      and step: "closure_walk root validated (r # walked) (rev (map dep_skill (dependencies (manifest (vb_installed v)))) @ stack) = Inr ()"
      by (auto simp: Let_def split: option.splits)
    let ?stack = "rev (map dep_skill (dependencies (manifest (vb_installed v)))) @ stack"
    have "\<forall>q \<in> set (r # walked). \<exists>w. by_ref validated q = Some w
        \<and> dep_skill ` set (dependencies (manifest (vb_installed w))) \<subseteq> set (r # walked) \<union> set ?stack"
      using "2.prems"(2) v by fastforce
    from "2.IH"(2)[OF False v refl none step this] show ?thesis
      by auto
  qed
qed

lemma closure_walk_complete:
  assumes "bundle_closed validated W" "set stack \<subseteq> W"
  shows "closure_walk root validated walked stack = Inr ()"
  using assms
proof (induction root validated walked stack rule: closure_walk.induct)
  case (2 root validated walked r stack)
  show ?case
  proof (cases "r \<in> set walked")
    case False
    from 2(3,4) obtain v where v: "by_ref validated r = Some v"
      and deps: "dep_skill ` set (dependencies (manifest (vb_installed v))) \<subseteq> W"
      by (auto simp: bundle_closed_def)
    have "by_ref validated q \<noteq> None" if "q \<in> W" for q
      using 2(3) that by (auto simp: bundle_closed_def)
    with deps have none: "find (\<lambda>d. by_ref validated (dep_skill d) = None) (dependencies (manifest (vb_installed v))) = None"
      by (auto simp: find_None_iff)
    from 2(2)[OF False v refl none 2(3)] 2(4) deps False v none show ?thesis
      by simp
  qed (use 2 in simp)
qed simp

lemma closed_reachable:
  assumes "bundle_closed validated W" "r \<in> W" "bundle_lookup validated r = Inr i" "dep_reachable (bundle_lookup validated) i k"
  shows "resolved_ref k \<in> W \<and> bundle_lookup validated (resolved_ref k) = Inr k"
  using assms(4)
proof (induction rule: dep_reachable.induct)
  case self
  with assms(2,3) show ?case
    using bundled.lookup_ref by metis
next
  case (dependency j d k)
  then have "dep_skill d \<in> W"
    using assms(1) by (fastforce simp: bundle_closed_def bundle_lookup_def split: option.splits)
  with dependency show ?case
    using bundled.lookup_ref by metis
qed

lemma reachable_closed:
  assumes "bundle_lookup validated r = Inr i"
    and "\<And>k d. dep_reachable (bundle_lookup validated) i k \<Longrightarrow> d \<in> set (dependencies (manifest k))
      \<Longrightarrow> \<exists>j. bundle_lookup validated (dep_skill d) = Inr j"
  shows "bundle_closed validated {q. \<exists>k. bundle_lookup validated q = Inr k \<and> dep_reachable (bundle_lookup validated) i k}"
  unfolding bundle_closed_def
proof
  fix q
  assume "q \<in> {q. \<exists>k. bundle_lookup validated q = Inr k \<and> dep_reachable (bundle_lookup validated) i k}"
  then obtain k where k: "bundle_lookup validated q = Inr k" "dep_reachable (bundle_lookup validated) i k"
    by blast
  then obtain v where v: "by_ref validated q = Some v" "k = vb_installed v"
    by (auto simp: bundle_lookup_def split: option.splits)
  have "dep_skill d \<in> {q. \<exists>k. bundle_lookup validated q = Inr k \<and> dep_reachable (bundle_lookup validated) i k}"
    if "d \<in> set (dependencies (manifest k))" for d
    using assms(2)[OF k(2) that] dep_reachable.dependency[OF k(2) that] by blast
  with v show "\<exists>v. by_ref validated q = Some v \<and> dep_skill ` set (dependencies (manifest (vb_installed v)))
      \<subseteq> {q. \<exists>k. bundle_lookup validated q = Inr k \<and> dep_reachable (bundle_lookup validated) i k}"
    by blast
qed

lemma closure_walk_iff:
  assumes "bundle_lookup validated r = Inr i"
  shows "closure_walk root validated [] [r] = Inr () \<longleftrightarrow>
    (\<forall>k d. dep_reachable (bundle_lookup validated) i k \<and> d \<in> set (dependencies (manifest k))
      \<longrightarrow> (\<exists>j. bundle_lookup validated (dep_skill d) = Inr j))"
proof
  assume "closure_walk root validated [] [r] = Inr ()"
  then obtain W where W: "r \<in> W" "bundle_closed validated W"
    using closure_walk_sound[of root validated "[]" "[r]"] by auto
  show "\<forall>k d. dep_reachable (bundle_lookup validated) i k \<and> d \<in> set (dependencies (manifest k))
      \<longrightarrow> (\<exists>j. bundle_lookup validated (dep_skill d) = Inr j)"
  proof (intro allI impI, elim conjE)
    fix k d
    assume k: "dep_reachable (bundle_lookup validated) i k" and d: "d \<in> set (dependencies (manifest k))"
    from closed_reachable[OF W(2,1) assms k] have "dep_skill d \<in> W"
      using W(2) d by (fastforce simp: bundle_closed_def bundle_lookup_def split: option.splits)
    then show "\<exists>j. bundle_lookup validated (dep_skill d) = Inr j"
      using W(2) by (fastforce simp: bundle_closed_def bundle_lookup_def)
  qed
next
  assume "\<forall>k d. dep_reachable (bundle_lookup validated) i k \<and> d \<in> set (dependencies (manifest k))
      \<longrightarrow> (\<exists>j. bundle_lookup validated (dep_skill d) = Inr j)"
  then have "bundle_closed validated {q. \<exists>k. bundle_lookup validated q = Inr k \<and> dep_reachable (bundle_lookup validated) i k}"
    by (intro reachable_closed[OF assms]) blast
  then show "closure_walk root validated [] [r] = Inr ()"
    by (rule closure_walk_complete) (use assms dep_reachable.self in auto)
qed

section \<open>Listed files are the bundled files\<close>

lemma bundle_relative_Inr:
  "bundle_relative code a b c s = Inr p \<longleftrightarrow> \<not> path_is_absolute s \<and> p = path_components s \<and> prefix [''installed''] p \<and> ''..'' \<notin> set p"
  by (auto simp: bundle_relative_def)

lemma components_join:
  assumes "list_all (\<lambda>c. c \<noteq> [] \<and> c \<noteq> ''.'' \<and> CHR ''/'' \<notin> set c) p"
  shows "path_components (slash_join p) = p"
proof -
  have split: "split_on CHR ''/'' (slash_join (c # cs)) = c # cs"
    if "list_all (\<lambda>c. CHR ''/'' \<notin> set c) (c # cs)" for c cs
    using that by (induction cs arbitrary: c) (auto simp: split_on_no_sep split_on_append_sep)
  show ?thesis
  proof (cases p)
    case (Cons c cs)
    with assms have "list_all (\<lambda>c. CHR ''/'' \<notin> set c) (c # cs)"
      by (auto simp: list_all_iff)
    with split Cons have "split_on CHR ''/'' (slash_join p) = c # cs"
      by simp
    with assms Cons show ?thesis
      by (auto simp: path_components_def list_all_iff filter_id_conv)
  qed (simp add: path_components_def)
qed

lemma validate_file_Inr:
  "validate_file rg bundle_root fs f = Inr () \<longleftrightarrow> (\<exists>p b. bundle_file_relative_from_str (bf_path f) = Inr p
     \<and> entry_at fs (bundle_root @ p) = Some (File b) \<and> bf_sha256 f = ''sha256:'' @ te_sha256_hex (rg_trust rg) b)"
  (is "?l \<longleftrightarrow> ?r")
proof
  assume ?l
  then obtain p where "bundle_file_relative_from_str (bf_path f) = Inr p"
    by (auto simp: validate_file_def res_bind_Inr_iff)
  with \<open>?l\<close> show ?r
    by (auto simp: validate_file_def res_bind_Inr_iff Let_def sha256_file_Inr res_bind_def
        split: option.splits Entry.splits if_splits sum.splits)
next
  assume ?r
  then show ?l
    by (auto simp: validate_file_def sha256_file_Inr res_bind_Inr_iff Let_def)
qed

lemma validate_files_Inr:
  assumes "validate_files rg bundle_root fs listed files = Inr out"
  shows "out = listed @ map bf_path files \<and> distinct (map bf_path files) \<and> set listed \<inter> bf_path ` set files = {}
    \<and> (\<forall>f \<in> set files. validate_file rg bundle_root fs f = Inr ())"
  using assms
proof (induction files arbitrary: listed)
  case (Cons f files)
  then have "bf_path f \<notin> set listed" "validate_file rg bundle_root fs f = Inr ()"
    and rest: "validate_files rg bundle_root fs (listed @ [bf_path f]) files = Inr out"
    by (auto simp: res_bind_Inr_iff split: if_splits)
  with Cons.IH[OF rest] show ?case
    by auto
qed simp

lemma alignment_Inr: "validate_bundle_file_set_alignment listed actual = Inr () \<longleftrightarrow> set listed = set actual"
  by (auto simp: validate_bundle_file_set_alignment_def find_None_iff split: option.splits dest!: find_SomeD)

lemma collect_map_image: "collect_results (map f xs) = Inr ys \<Longrightarrow> f ` set xs = Inr ` set ys"
  by (metis collect_results_all list.set_map)

lemma actual_file_Inr:
  "actual_file bundle_root p = Inr s \<longleftrightarrow> last p \<noteq> VERIFICATION_FILENAME
     \<and> (\<exists>q. p = bundle_root @ q \<and> list_all utf8_valid q \<and> s = slash_join q)"
  by (auto simp: actual_file_def bundle_install_dir_relative_from_path_def relative_to_def path_string_def
      res_bind_Inr_iff prefix_def split: if_splits)

lemma skill_files_Inr:
  assumes "walk_tree fs d = Inr es"
    and "collect_results (map (\<lambda>(p, _). actual_file bundle_root p) (filter (\<lambda>(_, e). e \<noteq> Dir) es)) = Inr fl"
  shows "actual_file bundle_root ` {p. prefix d p \<and> (\<exists>b. fs_get fs p = Some (File b))} = Inr ` set fl"
proof -
  have "(\<lambda>(p, _). actual_file bundle_root p) ` set (filter (\<lambda>(_, e). e \<noteq> Dir) es)
      = actual_file bundle_root ` {p. \<exists>e. e \<noteq> Dir \<and> (p, e) \<in> set es}"
    by force
  also have "{p. \<exists>e. e \<noteq> Dir \<and> (p, e) \<in> set es} = {p. prefix d p \<and> (\<exists>b. fs_get fs p = Some (File b))}"
    unfolding walk_tree_entries[OF assms(1)] not_Dir by blast
  finally show ?thesis
    using collect_map_image[OF assms(2)] by simp
qed

lemma actual_files_Inr:
  assumes "collect_actual_bundle_files rg bundle_root validated fs = Inr actual"
  shows "actual_file bundle_root ` {p. \<exists>v \<in> set validated. prefix (vb_install_dir v) p \<and> (\<exists>b. fs_get fs p = Some (File b))}
    = Inr ` set actual"
proof -
  let ?F = "\<lambda>v. res_bind (map_err (\<lambda>e. caused_by ''bundle-content-read-failed''
             ''failed while scanning bundled installed content'' (rg_io_text rg e)) (walk_tree fs (vb_install_dir v))) (\<lambda>entries.
         collect_results (map (\<lambda>(p, _). actual_file bundle_root p) (filter (\<lambda>(_, e). e \<noteq> Dir) entries)))"
  let ?P = "\<lambda>v. {p. prefix (vb_install_dir v) p \<and> (\<exists>b. fs_get fs p = Some (File b))}"
  obtain files where files: "collect_results (map ?F validated) = Inr files" and actual: "actual = concat files"
    using assms by (auto simp: collect_actual_bundle_files_def res_bind_Inr_iff)
  have each: "actual_file bundle_root ` ?P v = Inr ` set fl" if "?F v = Inr fl" for v fl
  proof -
    from that obtain es where "walk_tree fs (vb_install_dir v) = Inr es"
      "collect_results (map (\<lambda>(p, _). actual_file bundle_root p) (filter (\<lambda>(_, e). e \<noteq> Dir) es)) = Inr fl"
      by (auto simp: res_bind_Inr_iff)
    then show ?thesis
      by (rule skill_files_Inr)
  qed
  have img: "?F ` set validated = Inr ` set files"
    using files by (rule collect_map_image)
  have "(\<Union>v \<in> set validated. actual_file bundle_root ` ?P v) = (\<Union>fl \<in> set files. Inr ` set fl)"
  proof (intro equalityI subsetI)
    fix s
    assume "s \<in> (\<Union>v \<in> set validated. actual_file bundle_root ` ?P v)"
    then obtain v where v: "v \<in> set validated" "s \<in> actual_file bundle_root ` ?P v" by blast
    then obtain fl where fl: "?F v = Inr fl" "fl \<in> set files"
      using img by blast
    show "s \<in> (\<Union>fl \<in> set files. Inr ` set fl)"
      using v(2) fl(2) unfolding each[OF fl(1)] by (rule UN_I[rotated])
  next
    fix s :: "RegistryError + string"
    assume "s \<in> (\<Union>fl \<in> set files. Inr ` set fl)"
    then obtain fl where fl: "fl \<in> set files" "s \<in> Inr ` set fl" by blast
    have "Inr fl \<in> ?F ` set validated"
      unfolding img using fl(1) by (rule imageI)
    then obtain v where v: "v \<in> set validated" "?F v = Inr fl"
      by (elim imageE) simp
    show "s \<in> (\<Union>v \<in> set validated. actual_file bundle_root ` ?P v)"
      using fl(2) v(1) unfolding each[OF v(2), symmetric] by (rule UN_I[rotated])
  qed
  moreover have "(\<Union>v \<in> set validated. actual_file bundle_root ` ?P v)
      = actual_file bundle_root ` {p. \<exists>v \<in> set validated. prefix (vb_install_dir v) p \<and> (\<exists>b. fs_get fs p = Some (File b))}"
    by blast
  moreover have "(\<Union>fl \<in> set files. Inr ` set fl) = Inr ` set actual"
    by (auto simp: actual)
  ultimately show ?thesis
    by simp
qed

text \<open>A well-formed file system is a tree whose names are ordinary components.\<close>

definition fs_wf :: "Fs \<Rightarrow> bool" where
  "fs_wf fs \<longleftrightarrow> fs_tree fs \<and> (\<forall>p c. fs_get fs p \<noteq> None \<longrightarrow> c \<in> set p \<longrightarrow>
     c \<noteq> [] \<and> c \<noteq> ''.'' \<and> c \<noteq> ''..'' \<and> CHR ''/'' \<notin> set c)"

lemma fs_wf_entry_at:
  assumes "fs_wf fs" "fs_get fs p \<noteq> None"
  shows "entry_at fs p = fs_get fs p"
proof -
  have "fs_resolve fs p = Inr p"
    using resolve_existing[of fs "[]" p] assms by (auto simp: fs_wf_def fs_resolve_def)
  then show ?thesis
    by (simp add: entry_at_def)
qed

lemma entry_at_plain:
  assumes "entry_at fs p = Some e" "''..'' \<notin> set p"
  shows "fs_get fs p = Some e"
  using assms resolve_plain[of p fs "[]"] by (auto simp: entry_at_def fs_resolve_def split: sum.splits)

lemma canonicalize_plain:
  assumes "canonicalize fs p = Inr q" "''..'' \<notin> set p"
  shows "q = p"
  using assms resolve_plain[of p fs "[]"] by (auto simp: canonicalize_def fs_resolve_def res_bind_Inr_iff split: if_splits)

lemma fs_wf_join:
  assumes "fs_wf fs" "fs_get fs (r @ q) \<noteq> None"
  shows "path_components (slash_join q) = q"
  using assms by (intro components_join) (auto simp: fs_wf_def list_all_iff)

lemma validated_files:
  assumes "validate_listed_bundle_files rg bundle_root bundle fs = Inr listed"
    and "collect_actual_bundle_files rg bundle_root validated fs = Inr actual"
    and "validate_bundle_file_set_alignment listed actual = Inr ()"
    and "fs_wf fs" "fs_get fs bundle_root = Some Dir"
  shows "v \<in> set validated \<Longrightarrow> prefix (vb_install_dir v) p \<Longrightarrow> fs_get fs p = Some (File b)
      \<Longrightarrow> last p \<noteq> VERIFICATION_FILENAME \<and> (\<exists>f \<in> set (bu_files bundle). p = bundle_root @ path_components (bf_path f)
            \<and> bf_sha256 f = ''sha256:'' @ te_sha256_hex (rg_trust rg) b)"
    and "f \<in> set (bu_files bundle) \<Longrightarrow> prefix [''installed''] (path_components (bf_path f))
      \<and> (\<exists>v \<in> set validated. prefix (vb_install_dir v) (bundle_root @ path_components (bf_path f)))
      \<and> (\<exists>b. fs_get fs (bundle_root @ path_components (bf_path f)) = Some (File b)
            \<and> bf_sha256 f = ''sha256:'' @ te_sha256_hex (rg_trust rg) b)"
proof -
  have listed: "set listed = bf_path ` set (bu_files bundle)"
    and each: "\<And>f. f \<in> set (bu_files bundle) \<Longrightarrow> validate_file rg bundle_root fs f = Inr ()"
    using validate_files_Inr[OF assms(1)[unfolded validate_listed_bundle_files_def]] by auto
  have same: "set listed = set actual"
    using assms(3) by (simp add: alignment_Inr)
  have root: "''..'' \<notin> set bundle_root"
    using assms(4,5) unfolding fs_wf_def by (metis option.distinct(1))
  have content: "prefix [''installed''] (path_components (bf_path f)) \<and> (\<exists>b. fs_get fs (bundle_root @ path_components (bf_path f)) = Some (File b)
      \<and> bf_sha256 f = ''sha256:'' @ te_sha256_hex (rg_trust rg) b)" if "f \<in> set (bu_files bundle)" for f
    using each[OF that] root entry_at_plain[of fs "bundle_root @ path_components (bf_path f)"]
    by (auto simp: validate_file_Inr bundle_file_relative_from_str_def bundle_relative_Inr)
  note actual = actual_files_Inr[OF assms(2)]
  {
    assume v: "v \<in> set validated" "prefix (vb_install_dir v) p" "fs_get fs p = Some (File b)"
    then have "actual_file bundle_root p \<in> Inr ` set actual"
      unfolding actual[symmetric] by blast
    then obtain s where "actual_file bundle_root p = Inr s" "s \<in> set actual"
      by blast
    then obtain q where q: "last p \<noteq> VERIFICATION_FILENAME" "p = bundle_root @ q" "slash_join q \<in> set actual"
      by (auto simp: actual_file_Inr)
    from q(3) have "slash_join q \<in> bf_path ` set (bu_files bundle)"
      using same listed by simp
    then obtain f where f: "f \<in> set (bu_files bundle)" "bf_path f = slash_join q"
      by (elim imageE) simp
    have "path_components (slash_join q) = q"
      using fs_wf_join[OF assms(4), of bundle_root q] v(3) q(2) by simp
    with content[OF f(1)] f q v(3) show "last p \<noteq> VERIFICATION_FILENAME \<and> (\<exists>f \<in> set (bu_files bundle).
        p = bundle_root @ path_components (bf_path f) \<and> bf_sha256 f = ''sha256:'' @ te_sha256_hex (rg_trust rg) b)"
      by (auto intro!: bexI[OF _ f(1)])
  }
  assume f: "f \<in> set (bu_files bundle)"
  then have "Inr (bf_path f) \<in> actual_file bundle_root ` {p. \<exists>v \<in> set validated. prefix (vb_install_dir v) p \<and> (\<exists>b. fs_get fs p = Some (File b))}"
    unfolding actual using same listed by auto
  then obtain p v b where p: "actual_file bundle_root p = Inr (bf_path f)" "v \<in> set validated" "prefix (vb_install_dir v) p"
      "fs_get fs p = Some (File b)"
    by auto
  then obtain q where q: "p = bundle_root @ q" "bf_path f = slash_join q"
    by (auto simp: actual_file_Inr)
  then have "path_components (bf_path f) = q"
    using fs_wf_join[OF assms(4), of bundle_root q] p(4) by simp
  with content[OF f] p q show "prefix [''installed''] (path_components (bf_path f))
      \<and> (\<exists>v \<in> set validated. prefix (vb_install_dir v) (bundle_root @ path_components (bf_path f)))
      \<and> (\<exists>b. fs_get fs (bundle_root @ path_components (bf_path f)) = Some (File b)
            \<and> bf_sha256 f = ''sha256:'' @ te_sha256_hex (rg_trust rg) b)"
    by auto
qed

section \<open>Validated entries\<close>

definition validated_entry ::
  "RegistryEnv \<Rightarrow> path \<Rightarrow> InstalledSkillBundle \<Rightarrow> Fs \<Rightarrow> ValidatedBundleSkill \<Rightarrow> bool" where
  "validated_entry rg bundle_root bundle fs v \<longleftrightarrow>
     resolve_bundle_install_dir rg bundle_root (be_install_dir (vb_entry v)) fs = Inr (vb_install_dir v)
     \<and> load_manifest rg bundle_root (vb_install_dir v @ [''manifest.json'']) fs = Inr (vb_installed v)
     \<and> resolved_ref (vb_installed v) = be_resolved_ref (vb_entry v)
     \<and> publisher_id (publisher (manifest (vb_installed v))) = publisher_id (bu_publisher bundle)"

lemma validate_entries_Inr:
  assumes "validate_entries rg bundle_root bundle fs refs dirs entries = Inr validated"
  shows "map vb_entry validated = entries \<and> distinct (map be_resolved_ref entries)
    \<and> set refs \<inter> be_resolved_ref ` set entries = {} \<and> (\<forall>v \<in> set validated. validated_entry rg bundle_root bundle fs v)"
  using assms
proof (induction entries arbitrary: refs dirs validated)
  case (Cons entry entries)
  from Cons.prems obtain install_dir dir i rest where
    "be_resolved_ref entry \<notin> set refs" "resolve_bundle_install_dir rg bundle_root (be_install_dir entry) fs = Inr install_dir"
    "load_manifest rg bundle_root (install_dir @ [''manifest.json'']) fs = Inr i" "resolved_ref i = be_resolved_ref entry"
    "publisher_id (publisher (manifest i)) = publisher_id (bu_publisher bundle)"
    and rest: "validate_entries rg bundle_root bundle fs (be_resolved_ref entry # refs) (dir # dirs) entries = Inr rest"
    and "validated = \<lparr>vb_entry = entry, vb_install_dir = install_dir, vb_installed = i\<rparr> # rest"
    by (auto simp: res_bind_Inr_iff split: if_split_asm)
  with Cons.IH[OF rest] show ?case
    by (auto simp: validated_entry_def)
qed simp

lemma validate_bundle_Inr:
  assumes "validate_bundle rg bundle_root bundle fs = Inr validated"
  obtains listed actual where "validate_bundle_index_shape bundle = Inr ()"
    "map vb_entry validated = bu_skills bundle" "distinct (map be_resolved_ref (bu_skills bundle))"
    "\<And>v. v \<in> set validated \<Longrightarrow> validated_entry rg bundle_root bundle fs v"
    "validate_bundle_root_and_dependency_closure bundle validated = Inr ()"
    "validate_listed_bundle_files rg bundle_root bundle fs = Inr listed"
    "collect_actual_bundle_files rg bundle_root validated fs = Inr actual"
    "validate_bundle_file_set_alignment listed actual = Inr ()"
proof -
  from assms obtain listed actual where "validate_bundle_index_shape bundle = Inr ()"
    and entries: "validate_bundle_skill_entries rg bundle_root bundle fs = Inr validated"
    and "validate_bundle_root_and_dependency_closure bundle validated = Inr ()"
    "validate_listed_bundle_files rg bundle_root bundle fs = Inr listed"
    "collect_actual_bundle_files rg bundle_root validated fs = Inr actual"
    "validate_bundle_file_set_alignment listed actual = Inr ()"
    by (auto simp: validate_bundle_def res_bind_Inr_iff)
  with validate_entries_Inr[OF entries[unfolded validate_bundle_skill_entries_def]] that show thesis
    by blast
qed

section \<open>Previews\<close>

lemma preview_decides:
  assumes "preview_import_bundle rg root bundle_root fs = Inr report"
  shows "ip_decision report = WouldImport \<and> ip_refusal report = None
      \<and> (\<exists>validated. import_checks rg root bundle_root fs = Inr (ip_bundle report, ip_signature report, validated))
    \<or> ip_decision report = WouldRefuse
      \<and> (\<exists>e. ip_refusal report = Some e \<and> import_checks rg root bundle_root fs = Inl e)"
proof -
  from assms obtain bytes bu s where opened: "open_existing_registry_root root fs = Inr root"
    "open_bundle_directory bundle_root fs = Inr bundle_root"
    "read_bundle_index_bytes rg bundle_root fs = Inr bytes" "parse_bundle_index rg bytes = Inr bu"
    "read_bundle_signature (rg_trust rg) bundle_root fs = Inr s"
    and preview: "preview_bundle_import rg root bu bytes s (\<lambda>bundle v.
       res_bind (validate_bundle rg bundle_root bundle fs) (\<lambda>validated. validate_import_targets rg root validated fs)) fs = Inr report"
    by (auto simp: preview_import_bundle_def res_bind_Inr_iff open_existing_registry_root_def open_bundle_directory_def
        split: option.splits Entry.splits)
  show ?thesis
  proof (cases "load_trusted_publisher (rg_trust rg) root (bse_publisher_id s) fs")
    case (Inl e)
    with preview opened show ?thesis
      by (auto simp: preview_bundle_import_def import_checks_def res_bind_def Let_def split: if_splits)
  next
    case (Inr p)
    show ?thesis
    proof (cases "verify_bundle_signature (rg_trust rg) bytes bu s p")
      case (Inl e)
      with Inr preview opened show ?thesis
        by (auto simp: preview_bundle_import_def import_checks_def res_bind_def Let_def)
    next
      case verified: (Inr u)
      with Inr preview opened show ?thesis
        by (cases "validate_bundle rg bundle_root bu fs")
          (auto simp: preview_bundle_import_def import_checks_def res_bind_def Let_def split: sum.splits)
    qed
  qed
qed

end
