(* ===== verification/Guild_Import.thy ===== *)
theory Guild_Import
  imports Guild_Bundle_Laws
begin

text \<open>
  What import and export guarantee: an import changes nothing but what it adds, it installs the skills of
  the verified index, and an export is closed under dependencies and verifies.
\<close>

section \<open>What an import changes\<close>

text \<open>
  Outside \<open>installed\<close> and the staging directory an import only creates missing directories; inside
  \<open>installed\<close> every entry stays as it is, but for verification records.
\<close>

definition import_frame :: "path \<Rightarrow> Fs \<Rightarrow> Fs \<Rightarrow> bool" where
  "import_frame root fs fs' \<longleftrightarrow> (\<forall>q.
     (\<not> prefix (installed_root root) q \<and> \<not> prefix (import_staging_root root) q \<longrightarrow>
        fs_get fs' q = fs_get fs q \<or> fs_get fs q = None \<and> fs_get fs' q = Some Dir)
     \<and> (\<not> prefix (import_staging_root root) q \<and> \<not> (prefix (installed_root root) q \<and> last q = VERIFICATION_FILENAME) \<longrightarrow>
        (\<forall>e. fs_get fs q = Some e \<longrightarrow> fs_get fs' q = Some e)))"

definition io_keeps :: "(Fs \<Rightarrow> Fs \<Rightarrow> bool) \<Rightarrow> Fs \<Rightarrow> ('e, 'a) io \<Rightarrow> bool" where
  "io_keeps R fs m \<longleftrightarrow> R fs (snd m)"

locale io_frame = world_order keeps for keeps :: "Fs \<Rightarrow> Fs \<Rightarrow> bool"
begin

lemma pure: "io_keeps keeps fs (r, fs)"
  by (simp add: io_keeps_def keeps_refl)

lemma err: "io_keeps keeps fs (io_err f m) = io_keeps keeps fs m"
  by (simp add: io_keeps_def io_err_def)

lemma bind:
  assumes "io_keeps keeps fs m" "\<And>x fs1. m = (Inr x, fs1) \<Longrightarrow> io_keeps keeps fs1 (k x fs1)"
  shows "io_keeps keeps fs (io_bind m k)"
proof (cases m)
  case (Pair r fs1)
  with assms show ?thesis
    by (cases r) (auto simp: io_bind_def io_keeps_def intro: keeps_trans)
qed

end

interpretation import_order: io_frame "import_frame root" for root
proof
  show "import_frame root w w" for w
    by (simp add: import_frame_def)
  show "import_frame root a c" if "import_frame root a b" "import_frame root b c" for a b c
    using that unfolding import_frame_def by (metis option.distinct(1))
qed

lemma framed_extend:
  assumes "\<And>q. fs_get (snd m) q = fs_get fs q \<or> fs_get fs q = None \<and> fs_get (snd m) q = Some Dir"
  shows "io_keeps (import_frame root) fs m"
  using assms unfolding io_keeps_def import_frame_def by (metis option.distinct(1))

lemma framed_dirs: "io_keeps (import_frame root) fs (create_dir_all p fs)"
  by (rule framed_extend) (metis create_dir_all_get prod.collapse)

text \<open>Operations on paths in the staging directory.\<close>

lemma framed_staging:
  assumes "\<And>q. \<not> prefix (import_staging_root root) q \<Longrightarrow> fs_get (snd m) q = fs_get fs q \<or> fs_get fs q = None \<and> fs_get (snd m) q = Some Dir"
  shows "io_keeps (import_frame root) fs m"
  using assms unfolding io_keeps_def import_frame_def by (metis option.distinct(1))

lemma framed_copy_at: "prefix (import_staging_root root) dst \<Longrightarrow> io_keeps (import_frame root) fs (copy_at src dst fs)"
  by (rule framed_staging) (metis copy_at_get prod.collapse)

lemma framed_remove: "prefix (import_staging_root root) d \<Longrightarrow> io_keeps (import_frame root) fs (remove_dir_all d fs)"
  by (rule framed_staging) (metis prefix_order.trans prod.collapse remove_dir_all_get)

lemma framed_copy_dir:
  "prefix (import_staging_root root) dst \<Longrightarrow> io_keeps (import_frame root) fs (copy_dir_recursive n rg src dst fs)"
  "prefix (import_staging_root root) dst \<Longrightarrow> io_keeps (import_frame root) fs (copy_dir_entries n rg src dst es fs)"
  by (induction n rg src dst fs and n rg src dst es fs rule: copy_dir_recursive_copy_dir_entries.induct)
    (auto simp: import_order.err intro!: import_order.pure import_order.bind framed_dirs framed_copy_at)

text \<open>Operations on a target directory under \<open>installed\<close>.\<close>

lemma framed_verification:
  assumes "prefix (installed_root root) target"
  shows "io_keeps (import_frame root) fs (write_json io_text (installed_verification_path target) text fs)"
proof -
  let ?p = "installed_verification_path target"
  have p: "prefix (installed_root root) ?p" "last ?p = VERIFICATION_FILENAME"
    using assms by (auto simp: installed_verification_path_def VERIFICATION_FILENAME_def)
  obtain r fs' where run: "write_json io_text ?p text fs = (r, fs')"
    by fastforce
  show ?thesis
    unfolding io_keeps_def import_frame_def run snd_conv using write_json_get[OF run] p by (metis option.distinct(1))
qed

lemma framed_place:
  assumes "prefix (installed_root root) target" "prefix (import_staging_root root) staged"
  shows "io_keeps (import_frame root) fs (place_skill rg staged target v fs)"
proof (cases "path_exists fs target")
  case False
  obtain r fs' where run: "rename_dir staged target fs = (r, fs')"
    by fastforce
  have "import_frame root fs fs'"
    unfolding import_frame_def
  proof (intro allI conjI impI; elim conjE)
    fix q
    assume "\<not> prefix (installed_root root) q" "\<not> prefix (import_staging_root root) q"
    with assms have "\<not> prefix target q" "\<not> prefix staged q"
      by (blast intro: prefix_order.trans)+
    with rename_dir_get[OF run] show "fs_get fs' q = fs_get fs q \<or> fs_get fs q = None \<and> fs_get fs' q = Some Dir"
      by blast
  next
    fix q e
    assume "\<not> prefix (import_staging_root root) q" "fs_get fs q = Some e"
    with rename_dir_keeps[OF run] assms(2) show "fs_get fs' q = Some e"
      by (blast intro: prefix_order.trans)
  qed
  with False run show ?thesis
    by (simp add: place_skill_def io_keeps_def io_err_def)
qed (simp add: place_skill_def framed_verification[OF assms(1)])

lemma install_dir_installed:
  "bundle_install_dir_relative entry = Inr d \<Longrightarrow> prefix (installed_root root) (root @ d)"
  by (auto simp: bundle_install_dir_relative_def bundle_install_dir_relative_from_str_def bundle_relative_Inr installed_root_def)

lemma framed_import_skill:
  assumes "prefix (import_staging_root root) staging"
  shows "io_keeps (import_frame root) fs (import_skill rg root staging validated v entry fs)"
  unfolding import_skill_def Let_def
  using assms by (auto simp: import_order.err install_dir_installed
      intro!: import_order.pure import_order.bind framed_dirs framed_copy_dir framed_place framed_verification)

lemma framed_import_skills:
  assumes "prefix (import_staging_root root) staging"
  shows "io_keeps (import_frame root) fs (import_skills rg root staging validated v entries fs)"
  by (induction entries arbitrary: fs)
    (auto intro!: import_order.pure import_order.bind framed_import_skill[OF assms])

lemma framed_layout: "io_keeps (import_frame root) fs (ensure_registry_layout te r fs)"
  by (auto simp: ensure_registry_layout_def ensure_dir_def import_order.err
      intro!: import_order.pure import_order.bind framed_dirs)

lemma framed_cleanup: "io_keeps (import_frame root) fs (cleanup_import_staging_root rg (import_staging_root root) fs)"
  by (simp add: cleanup_import_staging_root_def import_order.err import_order.pure framed_remove)

lemma framed_reset: "io_keeps (import_frame root) fs (reset_import_staging_root rg root fs)"
  by (auto simp: reset_import_staging_root_def Let_def import_order.err
      intro!: import_order.pure import_order.bind framed_dirs framed_cleanup)

lemma framed_import: "io_keeps (import_frame root) fs (import_bundle rg root bundle_root fs)"
proof -
  have layout: "ensure_registry_layout te r fs = (Inr r', fs') \<Longrightarrow> r' = r" for te r r' fs fs'
    by (auto simp: ensure_registry_layout_def io_bind_Inr)
  have reset: "reset_import_staging_root rg r fs = (Inr st, fs') \<Longrightarrow> st = import_staging_root r" for r st fs fs'
    by (auto simp: reset_import_staging_root_def Let_def io_bind_Inr)
  have finish: "io_keeps (import_frame root) fs (case import_skills rg root (import_staging_root root) validated v es fs of
       (staged, fs) \<Rightarrow>
         (case cleanup_import_staging_root rg (import_staging_root root) fs of
            (cleanup, fs) \<Rightarrow> (res_bind staged (\<lambda>imported. res_bind cleanup (\<lambda>_. Inr imported)), fs)))" for validated v es fs
    using framed_import_skills[of root "import_staging_root root" fs rg validated v es]
      framed_cleanup[of root "snd (import_skills rg root (import_staging_root root) validated v es fs)" rg]
    by (auto simp: io_keeps_def intro: import_order.keeps_trans split: prod.splits)
  show ?thesis
    unfolding import_bundle_def
    by (auto intro!: import_order.pure import_order.bind framed_layout framed_reset finish dest!: layout reset)
qed

section \<open>Import installs what the bundle holds\<close>

text \<open>Every file a copy leaves at its destination was there before or is a file of the source.\<close>

definition copies :: "path \<Rightarrow> path \<Rightarrow> Fs \<Rightarrow> Fs \<Rightarrow> bool" where
  "copies src dst fs fs' \<longleftrightarrow> (\<forall>q b. fs_get fs' (dst @ q) = Some (File b)
     \<longrightarrow> fs_get fs (dst @ q) = Some (File b) \<or> fs_get fs (src @ q) = Some (File b))
   \<and> (\<forall>p b. \<not> prefix dst p \<longrightarrow> fs_get fs' p = Some (File b) \<longrightarrow> fs_get fs p = Some (File b))"

definition apart :: "path \<Rightarrow> path \<Rightarrow> bool" where
  "apart p q \<longleftrightarrow> \<not> prefix p q \<and> \<not> prefix q p"

lemma apart_below: "apart p q \<Longrightarrow> apart (p @ a) (q @ b) \<and> \<not> prefix q (p @ a) \<and> \<not> prefix p (q @ b)"
  unfolding apart_def by (metis prefixI prefix_same_cases prefix_order.trans)

lemma copies_refl: "copies src dst fs fs"
  by (simp add: copies_def)

lemma copies_trans:
  assumes "copies src dst fs fs1" "copies src dst fs1 fs2" "apart src dst"
  shows "copies src dst fs fs2"
  using assms apart_below[OF assms(3)] unfolding copies_def by metis

lemma copies_sub:
  assumes "copies (src @ [n]) (dst @ [n]) fs fs1" "apart src dst"
  shows "copies src dst fs fs1"
  unfolding copies_def
proof (intro conjI allI impI)
  fix q b
  assume found: "fs_get fs1 (dst @ q) = Some (File b)"
  show "fs_get fs (dst @ q) = Some (File b) \<or> fs_get fs (src @ q) = Some (File b)"
  proof (cases "prefix (dst @ [n]) (dst @ q)")
    case True
    then obtain q' where "q = n # q'"
      by (auto simp: prefix_def)
    with found assms(1)[unfolded copies_def, THEN conjunct1, rule_format, of q' b] show ?thesis
      by simp
  next
    case False
    with found assms(1) show ?thesis
      unfolding copies_def by blast
  qed
next
  fix p b
  assume "\<not> prefix dst p" "fs_get fs1 p = Some (File b)"
  with assms(1) show "fs_get fs p = Some (File b)"
    unfolding copies_def by (metis append_prefixD)
qed

lemma create_dirs_files: "create_dir_all p fs = (r, fs') \<Longrightarrow> fs_get fs' q = Some (File b) \<Longrightarrow> fs_get fs q = Some (File b)"
  using create_dir_all_get[of p fs r fs' q] by auto

lemma copy_at_copies: "copy_at (src @ [n]) (dst @ [n]) fs = (Inr u, fs') \<Longrightarrow> copies src dst fs fs'"
  by (erule copy_at_Inr) (auto simp: copies_def split: if_splits)

lemma copy_dir_copies:
  "copy_dir_recursive n rg src dst fs = (Inr u, fs') \<Longrightarrow> apart src dst \<Longrightarrow> copies src dst fs fs'"
  "copy_dir_entries n rg src dst es fs = (Inr u, fs') \<Longrightarrow> apart src dst \<Longrightarrow> copies src dst fs fs'"
proof (induction n rg src dst fs and n rg src dst es fs arbitrary: u fs' and u fs'
    rule: copy_dir_recursive_copy_dir_entries.induct)
  case (2 n rg src dst fs)
  then obtain v fs1 es where dirs: "create_dir_all dst fs = (Inr v, fs1)" and es: "read_dir fs1 src = Inr es"
    and rest: "copy_dir_entries n rg src dst es fs1 = (Inr u, fs')"
    by (auto simp: io_bind_Inr)
  have "copies src dst fs fs1"
    using create_dirs_files[OF dirs] by (auto simp: copies_def)
  moreover have "copies src dst fs1 fs'"
    using "2.IH" dirs es rest "2.prems"(2) by (metis io_err_Inr map_err_Inr_iff)
  ultimately show ?case
    using "2.prems"(2) copies_trans by blast
next
  case (4 n rg src dst name e es fs)
  then obtain v fs1 where step: "(if e = Dir then copy_dir_recursive n rg (src @ [name]) (dst @ [name]) fs
       else io_err (\<lambda>err. registry_detail (json_obj
             [(''source'', JString (path_display (src @ [name]))),
              (''destination'', JString (path_display (dst @ [name]))), (''cause'', JString (rg_io_text rg err))])
             (RegistryError_new ''file-copy-failed'' ''failed to copy a file while copying bundle contents''))
           (copy_at (src @ [name]) (dst @ [name]) fs)) = (Inr v, fs1)"
    and rest: "copy_dir_entries n rg src dst es fs1 = (Inr u, fs')"
    by (auto simp: io_bind_Inr simp del: io_err_Inr)
  have "copies src dst fs fs1"
  proof (cases "e = Dir")
    case True
    with "4.IH"(1) step apart_below[OF "4.prems"(2)] show ?thesis
      by (auto intro: copies_sub[OF _ "4.prems"(2)])
  qed (use step copy_at_copies in auto)
  moreover have "copies src dst fs1 fs'"
    using "4.IH"(2) step rest "4.prems"(2) by auto
  ultimately show ?case
    using "4.prems"(2) copies_trans by blast
qed (auto simp: copies_refl)

text \<open>
  During an import the staging directory mirrors the bundle, the bundle keeps its files, and a manifest
  at an import target is the one that was validated.
\<close>

definition mirrors :: "RegistryEnv \<Rightarrow> path \<Rightarrow> path \<Rightarrow> ValidatedBundleSkill list \<Rightarrow> Fs \<Rightarrow> Fs \<Rightarrow> bool" where
  "mirrors rg root bundle_root validated fs0 fs \<longleftrightarrow>
     (\<forall>q b. fs_get fs (import_staging_root root @ q) = Some (File b) \<longrightarrow> fs_get fs0 (bundle_root @ q) = Some (File b))
   \<and> (\<forall>q b. fs_get fs (bundle_root @ q) = Some (File b) \<longrightarrow> fs_get fs0 (bundle_root @ q) = Some (File b))
   \<and> (\<forall>v \<in> set validated. \<forall>d b. bundle_install_dir_relative (vb_entry v) = Inr d
        \<longrightarrow> fs_get fs (root @ d @ [''manifest.json'']) = Some (File b) \<longrightarrow> rg_manifest_parse rg b = Inr (manifest (vb_installed v)))"

lemma mirrors_files:
  assumes "mirrors rg root bundle_root validated fs0 fs" "\<And>p b. fs_get fs' p = Some (File b) \<Longrightarrow> fs_get fs p = Some (File b)"
  shows "mirrors rg root bundle_root validated fs0 fs'"
  using assms unfolding mirrors_def by blast

lemma install_dir_shape:
  assumes "bundle_install_dir_relative entry = Inr d"
  shows "\<exists>d'. d = ''installed'' # d'" "''..'' \<notin> set d"
  using assms by (auto simp: bundle_install_dir_relative_def bundle_install_dir_relative_from_str_def bundle_relative_Inr prefix_def)

lemma staging_apart:
  assumes "apart root bundle_root" "bundle_install_dir_relative entry = Inr d"
  shows "apart (bundle_root @ p) (import_staging_root root @ q)" "\<not> prefix (import_staging_root root @ p) (root @ d @ q)"
    "\<not> prefix (import_staging_root root @ p) (bundle_root @ q)" "\<not> prefix (root @ p) (bundle_root @ q)"
proof -
  show "apart (bundle_root @ p) (import_staging_root root @ q)" "\<not> prefix (import_staging_root root @ p) (bundle_root @ q)"
      "\<not> prefix (root @ p) (bundle_root @ q)"
    using apart_below[OF assms(1), of "''.bundle-import-staging'' # q" p] apart_below[OF assms(1), of "''.bundle-import-staging'' # p" q]
      apart_below[OF assms(1), of p q] by (auto simp: import_staging_root_def apart_def)
  show "\<not> prefix (import_staging_root root @ p) (root @ d @ q)"
    using install_dir_shape(1)[OF assms(2)] by (auto simp: import_staging_root_def)
qed

lemma mirrors_copy:
  assumes "mirrors rg root bundle_root validated fs0 fs" "apart root bundle_root"
    and "copies (bundle_root @ d) (import_staging_root root @ d) fs fs'"
  shows "mirrors rg root bundle_root validated fs0 fs'"
  unfolding mirrors_def
proof (intro conjI allI ballI impI)
  have outside: "fs_get fs p = Some (File b)" if "\<not> prefix (import_staging_root root @ d) p" "fs_get fs' p = Some (File b)" for p b
    using assms(3) that unfolding copies_def by blast
  show "fs_get fs0 (bundle_root @ q) = Some (File b)" if "fs_get fs' (import_staging_root root @ q) = Some (File b)" for q b
  proof (cases "prefix d q")
    case True
    then obtain r where "q = d @ r"
      by (auto simp: prefix_def)
    with that assms(3)[unfolded copies_def, THEN conjunct1, rule_format, of r b] assms(1) show ?thesis
      unfolding mirrors_def by (metis append_assoc)
  next
    case False
    with outside[of "import_staging_root root @ q" b] that assms(1) show ?thesis
      unfolding mirrors_def by simp
  qed
  show "fs_get fs0 (bundle_root @ q) = Some (File b)" if "fs_get fs' (bundle_root @ q) = Some (File b)" for q b
  proof -
    have "\<not> prefix (import_staging_root root @ d) (bundle_root @ q)"
      using apart_below[OF assms(2), of "''.bundle-import-staging'' # d" q] by (simp add: import_staging_root_def apart_def)
    with outside that assms(1) show ?thesis
      unfolding mirrors_def by blast
  qed
  fix v e b
  assume "v \<in> set validated" "bundle_install_dir_relative (vb_entry v) = Inr e" "fs_get fs' (root @ e @ [''manifest.json'']) = Some (File b)"
  with outside staging_apart(2)[OF assms(2)] assms(1) show "rg_manifest_parse rg b = Inr (manifest (vb_installed v))"
    unfolding mirrors_def by blast
qed

lemma mirrors_write:
  assumes "mirrors rg root bundle_root validated fs0 fs" "apart root bundle_root" "bundle_install_dir_relative entry = Inr d"
    and "write_json io_text (installed_verification_path (root @ d)) text fs = (r, fs')"
  shows "mirrors rg root bundle_root validated fs0 fs'"
proof -
  let ?p = "root @ d @ [''verification.json'']"
  have same: "fs_get fs q = Some (File b)" if "q \<noteq> ?p" "fs_get fs' q = Some (File b)" for q b
    using write_json_get[OF assms(4), of q] that by (auto simp: installed_verification_path_def)
  have "import_staging_root root @ q \<noteq> ?p" for q
    using install_dir_shape(1)[OF assms(3)] by (auto simp: import_staging_root_def)
  moreover have "bundle_root @ q \<noteq> ?p" for q
    using apart_below[OF assms(2), of "d @ [''verification.json'']" q] prefix_order.refl[of "bundle_root @ q"]
    unfolding apart_def by metis
  moreover have "root @ e @ [''manifest.json''] \<noteq> ?p" for e
    by simp
  ultimately have keep: "fs_get fs' (import_staging_root root @ q) = Some (File b) \<Longrightarrow> fs_get fs (import_staging_root root @ q) = Some (File b)"
      "fs_get fs' (bundle_root @ q) = Some (File b) \<Longrightarrow> fs_get fs (bundle_root @ q) = Some (File b)"
      "fs_get fs' (root @ q @ [''manifest.json'']) = Some (File b) \<Longrightarrow> fs_get fs (root @ q @ [''manifest.json'']) = Some (File b)" for q b
    by (simp_all only: same not_False_eq_True)
  show ?thesis
    unfolding mirrors_def
  proof (intro conjI allI ballI impI)
    show "fs_get fs0 (bundle_root @ q) = Some (File b)" if "fs_get fs' (import_staging_root root @ q) = Some (File b)" for q b
      using keep(1)[OF that] assms(1) unfolding mirrors_def by blast
    show "fs_get fs0 (bundle_root @ q) = Some (File b)" if "fs_get fs' (bundle_root @ q) = Some (File b)" for q b
      using keep(2)[OF that] assms(1) unfolding mirrors_def by blast
    show "rg_manifest_parse rg b = Inr (manifest (vb_installed v))" if "v \<in> set validated"
      "bundle_install_dir_relative (vb_entry v) = Inr e" "fs_get fs' (root @ e @ [''manifest.json'']) = Some (File b)" for v e b
      using keep(3)[OF that(3)] that assms(1) unfolding mirrors_def by blast
  qed
qed

lemma rename_dir_files:
  assumes "rename_dir src dst fs = (Inr u, fs')" "\<not> path_exists fs dst" "fs_get fs' q = Some (File b)"
  shows "(\<exists>r. q = dst @ r \<and> fs_get fs (src @ r) = Some (File b)) \<or> fs_get fs q = Some (File b) \<and> \<not> prefix dst q"
proof (cases "prefix dst q")
  case True
  with rename_dir_Inr[OF assms(1)] assms(3) show ?thesis
    by (auto simp: prefix_def)
next
  case False
  with assms show ?thesis
    by (auto simp: rename_dir_def fs_get_move_tree next_fault_get path_exists_def split: prod.splits IoFault.splits if_splits)
qed

lemma mirrors_rename:
  assumes mirror: "mirrors rg root bundle_root validated fs0 fs" and "apart root bundle_root"
    and d: "bundle_install_dir_relative entry = Inr d"
    and run: "rename_dir (import_staging_root root @ d) (root @ d) fs = (Inr u, fs')" "\<not> path_exists fs (root @ d)"
    and valid: "\<And>v d b. v \<in> set validated \<Longrightarrow> bundle_install_dir_relative (vb_entry v) = Inr d
      \<Longrightarrow> fs_get fs0 (bundle_root @ d @ [''manifest.json'']) = Some (File b) \<Longrightarrow> rg_manifest_parse rg b = Inr (manifest (vb_installed v))"
  shows "mirrors rg root bundle_root validated fs0 fs'"
  unfolding mirrors_def
proof (intro conjI allI ballI impI)
  note files = rename_dir_files[OF run]
  have "\<not> prefix (root @ d) (import_staging_root root @ q)" "\<not> prefix (root @ d) (bundle_root @ q)" for q
    using install_dir_shape(1)[OF d] apart_below[OF assms(2), of d q] by (auto simp: import_staging_root_def apart_def)
  then have outside: "fs_get fs' (import_staging_root root @ q) = Some (File b) \<Longrightarrow> fs_get fs (import_staging_root root @ q) = Some (File b)"
      "fs_get fs' (bundle_root @ q) = Some (File b) \<Longrightarrow> fs_get fs (bundle_root @ q) = Some (File b)" for q b
    using files prefixI by metis+
  show "fs_get fs0 (bundle_root @ q) = Some (File b)" if "fs_get fs' (import_staging_root root @ q) = Some (File b)" for q b
    using outside(1)[OF that] mirror unfolding mirrors_def by blast
  show "fs_get fs0 (bundle_root @ q) = Some (File b)" if "fs_get fs' (bundle_root @ q) = Some (File b)" for q b
    using outside(2)[OF that] mirror unfolding mirrors_def by blast
  fix v e b
  assume v: "v \<in> set validated" "bundle_install_dir_relative (vb_entry v) = Inr e"
    and found: "fs_get fs' (root @ e @ [''manifest.json'']) = Some (File b)"
  from files[OF found] show "rg_manifest_parse rg b = Inr (manifest (vb_installed v))"
  proof
    assume "\<exists>r. root @ e @ [''manifest.json''] = (root @ d) @ r \<and> fs_get fs ((import_staging_root root @ d) @ r) = Some (File b)"
    then obtain r where "e @ [''manifest.json''] = d @ r" "fs_get fs (import_staging_root root @ (d @ r)) = Some (File b)"
      by auto
    with mirror have "fs_get fs0 (bundle_root @ e @ [''manifest.json'']) = Some (File b)"
      unfolding mirrors_def by metis
    with valid v show ?thesis
      by blast
  next
    assume "fs_get fs (root @ e @ [''manifest.json'']) = Some (File b) \<and> \<not> prefix (root @ d) (root @ e @ [''manifest.json''])"
    with mirror v show ?thesis
      unfolding mirrors_def by blast
  qed
qed

lemma read_installed_manifest_Inr:
  "read_installed_manifest rg p fs = Inr m \<longleftrightarrow> (\<exists>b. fs_get fs p = Some (File b) \<and> utf8_valid b \<and> rg_manifest_parse rg b = Inr m)"
  by (auto simp: read_installed_manifest_def res_bind_def map_err_def read_to_string_def read_bytes_def
      split: sum.splits option.splits Entry.splits if_splits)

lemma load_manifest_ref:
  assumes "load_manifest rg r p fs = Inr i" "load_manifest rg r' p' fs' = Inr j" "manifest i = manifest j"
  shows "resolved_ref i = resolved_ref j"
  using assms by (elim load_manifest_Inr) simp

lemma load_verification_written:
  assumes "load_verification_record te dir fs = Inr out" "fs_get fs (installed_verification_path dir) = Some (File b)"
    and "te_verification_parse te b = Inr v"
  shows "out = Some v"
  using assms by (auto simp: load_verification_record_def Let_def path_exists_def res_bind_Inr_iff split: if_splits)
    (auto simp: read_to_string_def read_bytes_def res_bind_Inr_iff split: if_splits)

lemma import_skill_Inr:
  assumes "import_skill rg root staging validated v entry fs = (Inr i, fs')"
  obtains skill d fs1 fs2 fs3 u1 u2 u3 u4 where
    "skill \<in> set validated" "be_resolved_ref (vb_entry skill) = be_resolved_ref entry"
    "bundle_install_dir_relative (vb_entry skill) = Inr d"
    "copy_dir_recursive (import_depth fs) rg (vb_install_dir skill) (staging @ d) fs = (Inr u1, fs1)"
    "create_dir_all (butlast (root @ d)) fs1 = (Inr u2, fs2)"
    "place_skill rg (staging @ d) (root @ d) v fs2 = (Inr u3, fs3)"
    "write_json (rg_io_text rg) (installed_verification_path (root @ d)) (rg_verification_text rg v) fs3 = (Inr u4, fs')"
    "load_manifest rg root (root @ d @ [''manifest.json'']) fs' = Inr i"
proof -
  from assms obtain skill d where
    skill: "find (\<lambda>c. be_resolved_ref (vb_entry c) = be_resolved_ref entry) validated = Some skill"
    and d: "bundle_install_dir_relative (vb_entry skill) = Inr d"
    and rest: "io_bind (copy_dir_recursive (import_depth fs) rg (vb_install_dir skill) (staging @ d) fs) (\<lambda>_ fs.
        io_bind (io_err (\<lambda>e. caused_by ''bundle-import-target-create-failed''
            ''failed to create target directory for imported skill'' (rg_io_text rg e))
          (create_dir_all (butlast (root @ d)) fs)) (\<lambda>_ fs.
        io_bind (place_skill rg (staging @ d) (root @ d) v fs) (\<lambda>_ fs.
        io_bind (write_json (rg_io_text rg) (installed_verification_path (root @ d)) (rg_verification_text rg v) fs) (\<lambda>_ fs.
        (load_imported_bundle_skill rg root (root @ d) fs, fs))))) = (Inr i, fs')"
    unfolding import_skill_def Let_def by (auto simp: io_bind_Inr)
  from rest obtain u1 fs1 u2 fs2 u3 fs3 u4 where
    "copy_dir_recursive (import_depth fs) rg (vb_install_dir skill) (staging @ d) fs = (Inr u1, fs1)"
    "create_dir_all (butlast (root @ d)) fs1 = (Inr u2, fs2)"
    "place_skill rg (staging @ d) (root @ d) v fs2 = (Inr u3, fs3)"
    "write_json (rg_io_text rg) (installed_verification_path (root @ d)) (rg_verification_text rg v) fs3 = (Inr u4, fs')"
    "load_imported_bundle_skill rg root (root @ d) fs' = Inr i"
    by (auto simp: io_bind_Inr)
  moreover from skill have "skill \<in> set validated" "be_resolved_ref (vb_entry skill) = be_resolved_ref entry"
    by (auto dest: find_SomeD)
  ultimately show thesis
    using d that by (simp add: load_imported_bundle_skill_def)
qed

text \<open>What validation established of a bundled skill, in the state the import starts from.\<close>

definition bundled_at :: "RegistryEnv \<Rightarrow> path \<Rightarrow> Fs \<Rightarrow> ValidatedBundleSkill \<Rightarrow> bool" where
  "bundled_at rg bundle_root fs v \<longleftrightarrow>
     (\<forall>d. bundle_install_dir_relative (vb_entry v) = Inr d \<longrightarrow> vb_install_dir v = bundle_root @ d)
   \<and> load_manifest rg bundle_root (vb_install_dir v @ [''manifest.json'']) fs = Inr (vb_installed v)
   \<and> resolved_ref (vb_installed v) = be_resolved_ref (vb_entry v)"

lemma bundled_manifest:
  assumes "bundled_at rg bundle_root fs v" "bundle_install_dir_relative (vb_entry v) = Inr d"
    and "fs_get fs (bundle_root @ d @ [''manifest.json'']) = Some (File b)"
  shows "rg_manifest_parse rg b = Inr (manifest (vb_installed v))"
proof -
  have "load_manifest rg bundle_root (bundle_root @ d @ [''manifest.json'']) fs = Inr (vb_installed v)"
    using assms(1,2) by (auto simp: bundled_at_def)
  then have "read_installed_manifest rg (bundle_root @ d @ [''manifest.json'']) fs = Inr (manifest (vb_installed v))"
    by (rule load_manifest_Inr)
  with assms(3) show ?thesis
    by (auto simp: read_installed_manifest_Inr)
qed

lemma mirrors_place:
  assumes mirror: "mirrors rg root bundle_root validated fs0 fs" and apart: "apart root bundle_root"
    and d: "bundle_install_dir_relative entry = Inr d"
    and valid: "\<And>v. v \<in> set validated \<Longrightarrow> bundled_at rg bundle_root fs0 v"
    and run: "place_skill rg (import_staging_root root @ d) (root @ d) v fs = (Inr u, fs')"
  shows "mirrors rg root bundle_root validated fs0 fs'"
proof (cases "path_exists fs (root @ d)")
  case True
  with run show ?thesis
    using mirrors_write[OF mirror apart d] by (simp add: place_skill_def)
next
  case False
  with run have "rename_dir (import_staging_root root @ d) (root @ d) fs = (Inr u, fs')"
    by (simp add: place_skill_def)
  then show ?thesis
    using False by (rule mirrors_rename[OF mirror apart d]) (use valid bundled_manifest in blast)
qed

lemma import_skill_installs:
  assumes mirror: "mirrors rg root bundle_root validated fs0 fs" and apart: "apart root bundle_root"
    and valid: "\<And>v. v \<in> set validated \<Longrightarrow> bundled_at rg bundle_root fs0 v"
    and codec: "faithful_codec (rg_verification_text rg) (te_verification_parse (rg_trust rg))"
    and run: "import_skill rg root (import_staging_root root) validated v entry fs = (Inr i, fs')"
  shows "mirrors rg root bundle_root validated fs0 fs' \<and> resolved_ref i = be_resolved_ref entry \<and> verification i = Some v"
  using run
proof (rule import_skill_Inr)
  fix skill d fs1 fs2 fs3 u1 u2 u3 u4
  assume skill: "skill \<in> set validated" "be_resolved_ref (vb_entry skill) = be_resolved_ref entry"
    and d: "bundle_install_dir_relative (vb_entry skill) = Inr d"
    and copy: "copy_dir_recursive (import_depth fs) rg (vb_install_dir skill) (import_staging_root root @ d) fs = (Inr u1, fs1)"
    and dirs: "create_dir_all (butlast (root @ d)) fs1 = (Inr u2, fs2)"
    and place: "place_skill rg (import_staging_root root @ d) (root @ d) v fs2 = (Inr u3, fs3)"
    and wr: "write_json (rg_io_text rg) (installed_verification_path (root @ d)) (rg_verification_text rg v) fs3 = (Inr u4, fs')"
    and load: "load_manifest rg root (root @ d @ [''manifest.json'']) fs' = Inr i"
  have "vb_install_dir skill = bundle_root @ d"
    using valid[OF skill(1)] d by (simp add: bundled_at_def)
  with copy staging_apart(1)[OF apart d] have "copies (bundle_root @ d) (import_staging_root root @ d) fs fs1"
    using copy_dir_copies(1) by metis
  then have "mirrors rg root bundle_root validated fs0 fs1"
    by (rule mirrors_copy[OF mirror apart])
  then have "mirrors rg root bundle_root validated fs0 fs2"
    by (rule mirrors_files) (rule create_dirs_files[OF dirs])
  from mirrors_place[OF this apart d valid place] have "mirrors rg root bundle_root validated fs0 fs3" .
  from mirrors_write[OF this apart d wr] have mirror': "mirrors rg root bundle_root validated fs0 fs'" .
  from load obtain b where b: "fs_get fs' (root @ d @ [''manifest.json'']) = Some (File b)" "rg_manifest_parse rg b = Inr (manifest i)"
    by (rule load_manifest_Inr) (auto simp: read_installed_manifest_Inr)
  have "rg_manifest_parse rg b = Inr (manifest (vb_installed skill))"
    using mirror' skill(1) d b(1) unfolding mirrors_def by blast
  with b(2) have same: "manifest i = manifest (vb_installed skill)"
    by simp
  have "resolved_ref i = be_resolved_ref entry"
    using load_manifest_ref[OF load _ same] valid[OF skill(1)] skill(2) by (metis bundled_at_def)
  moreover obtain t where "rg_verification_text rg v = Inr t" "fs_get fs' (installed_verification_path (root @ d)) = Some (File t)"
    using wr by (rule write_json_Inr)
  moreover have "load_verification_record (rg_trust rg) (butlast (root @ d @ [''manifest.json''])) fs' = Inr (verification i)"
    using load by (rule load_manifest_Inr)
  moreover have "butlast (root @ d @ [''manifest.json'']) = root @ d"
    by (simp add: butlast_append)
  ultimately show ?thesis
    using mirror' codec load_verification_written by (metis faithful_codec_def)
qed

lemma import_skills_install:
  assumes "mirrors rg root bundle_root validated fs0 fs" and apart: "apart root bundle_root"
    and valid: "\<And>v. v \<in> set validated \<Longrightarrow> bundled_at rg bundle_root fs0 v"
    and codec: "faithful_codec (rg_verification_text rg) (te_verification_parse (rg_trust rg))"
    and "import_skills rg root (import_staging_root root) validated v entries fs = (Inr skills, fs')"
  shows "map resolved_ref skills = map be_resolved_ref entries \<and> (\<forall>i \<in> set skills. verification i = Some v)"
  using assms(1,5)
proof (induction entries arbitrary: fs skills)
  case (Cons entry entries)
  from Cons.prems(2) obtain i fs1 rest where i: "import_skill rg root (import_staging_root root) validated v entry fs = (Inr i, fs1)"
    and rest: "import_skills rg root (import_staging_root root) validated v entries fs1 = (Inr rest, fs')" and "skills = i # rest"
    by (auto simp: io_bind_Inr)
  with import_skill_installs[OF Cons.prems(1) apart valid codec i] Cons.IH[OF _ rest] show ?case
    by simp
qed simp

text \<open>The layout of a root and the staging directory are prepared before anything is copied.\<close>

definition only_dirs :: "Fs \<Rightarrow> Fs \<Rightarrow> bool" where
  "only_dirs fs fs' \<longleftrightarrow> (\<forall>q. fs_get fs' q = fs_get fs q \<or> fs_get fs q = None \<and> fs_get fs' q = Some Dir)"

interpretation dirs_order: io_frame only_dirs
proof
  show "only_dirs a c" if "only_dirs a b" "only_dirs b c" for a b c
    using that unfolding only_dirs_def by (metis option.distinct(1))
qed (simp add: only_dirs_def)

lemma create_dirs_only: "io_keeps only_dirs fs (create_dir_all p fs)"
  unfolding io_keeps_def only_dirs_def using create_dir_all_get[OF prod.collapse[symmetric]] by blast

lemma layout_only_dirs: "io_keeps only_dirs fs (ensure_registry_layout te root fs)"
  by (auto simp: ensure_registry_layout_def ensure_dir_def dirs_order.err
      intro!: dirs_order.pure dirs_order.bind create_dirs_only)

lemma only_dirs_files: "only_dirs fs fs' \<Longrightarrow> fs_get fs' p = Some (File b) \<longleftrightarrow> fs_get fs p = Some (File b)"
  unfolding only_dirs_def by (metis Entry.distinct(1) option.distinct(1) option.inject)

lemma only_dirs_exists: "only_dirs fs fs' \<Longrightarrow> path_exists fs p \<Longrightarrow> path_exists fs' p"
  unfolding only_dirs_def path_exists_def by metis

lemma remove_dir_all_Inr:
  "remove_dir_all d fs = (Inr u, fs') \<Longrightarrow> fs_get fs' q = (if prefix d q then None else fs_get fs q)"
  by (auto simp: remove_dir_all_def fs_get_filter next_fault_get split: prod.splits IoFault.splits option.splits Entry.splits)

lemma reset_files:
  assumes "reset_import_staging_root rg root fs = (Inr st, fs')"
    and "\<And>q b. fs_get fs (import_staging_root root @ q) = Some (File b) \<Longrightarrow> path_exists fs (import_staging_root root)"
    and "fs_get fs' p = Some (File b)"
  shows "fs_get fs p = Some (File b) \<and> \<not> prefix (import_staging_root root) p"
proof -
  from assms(1) obtain u fs1 v where clean: "cleanup_import_staging_root rg (import_staging_root root) fs = (Inr u, fs1)"
    and dirs: "create_dir_all (import_staging_root root) fs1 = (Inr v, fs')"
    by (auto simp: reset_import_staging_root_def Let_def io_bind_Inr)
  have fs1: "fs_get fs1 p = Some (File b)"
    using create_dirs_files[OF dirs assms(3)] .
  show ?thesis
  proof (cases "path_exists fs (import_staging_root root)")
    case True
    with clean have "remove_dir_all (import_staging_root root) fs = (Inr u, fs1)"
      by (simp add: cleanup_import_staging_root_def)
    from remove_dir_all_Inr[OF this, of p] fs1 show ?thesis
      by (auto split: if_splits)
  next
    case False
    with clean have "fs1 = fs"
      by (simp add: cleanup_import_staging_root_def)
    with fs1 False assms(2) show ?thesis
      by (auto simp: prefix_def)
  qed
qed

lemma import_bundle_Inr:
  assumes "import_bundle rg root bundle_root fs = (Inr skills, fs')"
  obtains fs1 fs2 fs3 bu s validated where "only_dirs fs fs1"
    "import_checks rg root bundle_root fs1 = Inr (bu, s, validated)"
    "reset_import_staging_root rg root fs1 = (Inr (import_staging_root root), fs2)"
    "import_skills rg root (import_staging_root root) validated (verification_of bu s) (bu_skills bu) fs2 = (Inr skills, fs3)"
proof -
  have layout: "ensure_registry_layout te r fs = (Inr r', fs') \<Longrightarrow> r' = r" for te r r' fs fs'
    by (auto simp: ensure_registry_layout_def io_bind_Inr)
  have reset: "reset_import_staging_root rg r fs = (Inr st, fs') \<Longrightarrow> st = import_staging_root r" for r st fs fs'
    by (auto simp: reset_import_staging_root_def Let_def io_bind_Inr)
  from assms obtain r fs1 bu s validated st fs2 where steps: "ensure_registry_layout (rg_trust rg) root fs = (Inr r, fs1)"
    "import_checks rg r bundle_root fs1 = Inr (bu, s, validated)" "reset_import_staging_root rg r fs1 = (Inr st, fs2)"
    and rest: "(case import_skills rg r st validated (verification_of bu s) (bu_skills bu) fs2 of
       (staged, fs) \<Rightarrow> (case cleanup_import_staging_root rg st fs of
            (cleanup, fs) \<Rightarrow> (res_bind staged (\<lambda>imported. res_bind cleanup (\<lambda>_. Inr imported)), fs))) = (Inr skills, fs')"
    by (auto simp: import_bundle_def io_bind_Inr)
  obtain staged fs3 where run: "import_skills rg r st validated (verification_of bu s) (bu_skills bu) fs2 = (staged, fs3)"
    by fastforce
  with rest have "staged = Inr skills"
    by (auto simp: res_bind_Inr_iff split: prod.splits)
  moreover have "only_dirs fs fs1"
    using layout_only_dirs[of fs "rg_trust rg" root] steps(1) by (simp add: io_keeps_def)
  ultimately show thesis
    using that steps run layout[OF steps(1)] reset[OF steps(3)] by blast
qed

lemma import_checks_Inr:
  assumes "import_checks rg root bundle_root fs = Inr (bu, s, validated)"
  obtains bytes p existing where "fs_get fs bundle_root = Some Dir" "fs_get fs (bundle_index_path bundle_root) = Some (File bytes)"
    "rg_bundle_parse rg bytes = Inr bu" "read_bundle_signature (rg_trust rg) bundle_root fs = Inr s"
    "load_trusted_publisher (rg_trust rg) root (bse_publisher_id s) fs = Inr p"
    "verify_bundle_signature (rg_trust rg) bytes bu s p = Inr ()" "validate_bundle rg bundle_root bu fs = Inr validated"
    "load_existing rg root fs = Inr existing"
    "\<And>v. v \<in> set validated \<Longrightarrow> validate_import_target rg root existing fs v = Inr ()"
proof -
  from assms obtain bytes p where "open_bundle_directory bundle_root fs = Inr bundle_root"
    "read_bundle_index_bytes rg bundle_root fs = Inr bytes" "parse_bundle_index rg bytes = Inr bu"
    "read_bundle_signature (rg_trust rg) bundle_root fs = Inr s"
    "load_trusted_publisher (rg_trust rg) root (bse_publisher_id s) fs = Inr p"
    "verify_bundle_signature (rg_trust rg) bytes bu s p = Inr ()" "validate_bundle rg bundle_root bu fs = Inr validated"
    and targets: "validate_import_targets rg root validated fs = Inr ()"
    by (auto simp: import_checks_def res_bind_Inr_iff open_bundle_directory_def split: option.splits Entry.splits)
  moreover from targets obtain existing us where "load_existing rg root fs = Inr existing"
    and all: "collect_results (map (validate_import_target rg root existing fs) validated) = Inr us"
    by (auto simp: validate_import_targets_def res_bind_Inr_iff)
  moreover have "validate_import_target rg root existing fs v = Inr ()" if "v \<in> set validated" for v
    using collect_map_image[OF all] that by (metis (full_types) imageE imageI old.unit.exhaust)
  moreover have "fs_get fs bundle_root = Some Dir" if "open_bundle_directory bundle_root fs = Inr bundle_root"
    using that by (auto simp: open_bundle_directory_def split: option.splits Entry.splits)
  moreover have "fs_get fs (bundle_index_path bundle_root) = Some (File bytes)" if "read_bundle_index_bytes rg bundle_root fs = Inr bytes"
    using that by (auto simp: read_bundle_index_bytes_def Let_def read_bytes_def split: option.splits Entry.splits)
  moreover have "rg_bundle_parse rg bytes = Inr bu" if "parse_bundle_index rg bytes = Inr bu"
    using that by (auto simp: parse_bundle_index_def res_bind_Inr_iff)
  ultimately show thesis
    using that by blast
qed


lemma validated_bundled:
  assumes "validate_bundle rg bundle_root bu fs = Inr validated" "''..'' \<notin> set bundle_root" "v \<in> set validated"
  shows "bundled_at rg bundle_root fs v"
proof -
  have "validated_entry rg bundle_root bu fs v"
    using assms(1) by (rule validate_bundle_Inr) (use assms(3) in blast)
  moreover have "q = bundle_root @ d" if "resolve_bundle_install_dir rg bundle_root s fs = Inr q"
    "bundle_install_dir_relative_from_str s = Inr d" for s q d
  proof -
    have "''..'' \<notin> set (bundle_root @ d)"
      using assms(2) that(2) by (auto simp: bundle_install_dir_relative_from_str_def bundle_relative_Inr)
    moreover have "canonicalize fs (bundle_root @ d) = Inr q"
      using that by (auto simp: resolve_bundle_install_dir_def Let_def res_bind_Inr_iff split: if_splits)
    ultimately show ?thesis
      using canonicalize_plain by blast
  qed
  ultimately show ?thesis
    by (auto simp: validated_entry_def bundled_at_def bundle_install_dir_relative_def)
qed

lemma import_target_manifest:
  assumes "validate_import_target rg root existing fs v = Inr ()" "bundle_install_dir_relative (vb_entry v) = Inr d"
    and "path_exists fs (root @ d)" "fs_get fs (root @ d @ [''manifest.json'']) = Some (File b)"
  shows "rg_manifest_parse rg b = Inr (manifest (vb_installed v))"
proof -
  from assms(1-3) obtain i where "load_manifest rg root (root @ d @ [''manifest.json'']) fs = Inr i"
    and same: "manifest i = manifest (vb_installed v)"
    by (auto simp: validate_import_target_def Let_def res_bind_Inr_iff split: if_splits)
  from this(1) have "read_installed_manifest rg (root @ d @ [''manifest.json'']) fs = Inr (manifest i)"
    by (rule load_manifest_Inr)
  with assms(4) same show ?thesis
    by (auto simp: read_installed_manifest_Inr)
qed

lemma fs_tree_below: "fs_tree fs \<Longrightarrow> fs_get fs (p @ q) = Some (File b) \<Longrightarrow> path_exists fs p"
  by (cases "q = []") (auto simp: path_exists_def dest: fs_tree_prefix)

lemma import_mirrors:
  assumes "fs_tree fs" "only_dirs fs fs1" "reset_import_staging_root rg root fs1 = (Inr st, fs2)"
    and targets: "\<And>v. v \<in> set validated \<Longrightarrow> validate_import_target rg root existing fs1 v = Inr ()"
  shows "mirrors rg root bundle_root validated fs1 fs2"
proof -
  have above: "path_exists fs1 p" if "fs_get fs1 (p @ q) = Some (File b)" for p q b
    using that assms(1,2) by (metis fs_tree_below only_dirs_exists only_dirs_files)
  have old: "fs_get fs1 p = Some (File b) \<and> \<not> prefix (import_staging_root root) p" if "fs_get fs2 p = Some (File b)" for p b
    using assms(3) above that by (rule reset_files)
  show ?thesis
    unfolding mirrors_def
  proof (intro conjI allI ballI impI)
    show "fs_get fs1 (bundle_root @ q) = Some (File b)" if "fs_get fs2 (import_staging_root root @ q) = Some (File b)" for q b
      using old[OF that] by simp
    show "fs_get fs1 (bundle_root @ q) = Some (File b)" if "fs_get fs2 (bundle_root @ q) = Some (File b)" for q b
      using old[OF that] by simp
    fix v d b
    assume v: "v \<in> set validated" "bundle_install_dir_relative (vb_entry v) = Inr d"
      and found: "fs_get fs2 (root @ d @ [''manifest.json'']) = Some (File b)"
    then have "fs_get fs1 (root @ d @ [''manifest.json'']) = Some (File b)" "path_exists fs1 (root @ d)"
      using old[OF found] above[of "root @ d" "[''manifest.json'']" b] by simp_all
    with targets v show "rg_manifest_parse rg b = Inr (manifest (vb_installed v))"
      by (blast intro: import_target_manifest)
  qed
qed

section \<open>What an export collects\<close>

text \<open>Skills of a list that the registry knows under their own reference.\<close>

definition known :: "InstalledSkill list \<Rightarrow> InstalledSkill \<Rightarrow> InstalledSkill \<Rightarrow> bool" where
  "known installed root x \<longleftrightarrow> dep_reachable (resolve_exact installed) root x \<and> resolve_exact installed (resolved_ref x) = Inr x"

lemma known_unique: "known installed root x \<Longrightarrow> known installed root y \<Longrightarrow> resolved_ref x = resolved_ref y \<Longrightarrow> x = y"
  by (auto simp: known_def)

lemma known_child:
  assumes "known installed root x" "d \<in> set (dependencies (manifest x))" "resolve_exact installed (dep_skill d) = Inr c"
  shows "known installed root c"
  using assms resolve_exact_Inr[OF assms(3)] dep_reachable.dependency by (fastforce simp: known_def)

lemma list_all2_partners:
  assumes "list_all2 P xs ys"
  shows "x \<in> set xs \<Longrightarrow> \<exists>y \<in> set ys. P x y" "y \<in> set ys \<Longrightarrow> \<exists>x \<in> set xs. P x y"
  using assms by (induction rule: list_all2_induct) auto

lemma collect_walk_closed:
  assumes "collect_bundle_walk installed root deps seen bundled stack = Inr out" "deps"
    and "\<forall>x \<in> set bundled \<union> set stack. known installed root x" "set seen = resolved_ref ` set bundled"
    and "\<forall>x \<in> set bundled. \<forall>d \<in> set (dependencies (manifest x)). \<exists>c \<in> set bundled \<union> set stack. resolve_exact installed (dep_skill d) = Inr c"
  shows "set bundled \<union> set stack \<subseteq> set out \<and> (\<forall>x \<in> set out. known installed root x)
    \<and> (\<forall>x \<in> set out. \<forall>d \<in> set (dependencies (manifest x)). \<exists>c \<in> set out. resolve_exact installed (dep_skill d) = Inr c)"
  using assms
proof (induction installed root deps seen bundled stack rule: collect_bundle_walk.induct)
  case (2 installed root deps seen bundled i stack)
  show ?case
  proof (cases "resolved_ref i \<in> set seen")
    case True
    then obtain x where "x \<in> set bundled" "resolved_ref x = resolved_ref i"
      using "2.prems"(4) by auto
    with "2.prems"(3) have "i \<in> set bundled"
      using known_unique[of installed root x i] by auto
    with 2 True show ?thesis
      by (simp add: insert_absorb)
  next
    case False
    then obtain cs where cs: "bundle_children installed root i = Inr cs"
      and walk: "collect_bundle_walk installed root deps (resolved_ref i # seen) (bundled @ [i]) (rev cs @ stack) = Inr out"
      using "2.prems"(1,2) by (auto split: sum.splits)
    have children: "\<exists>c \<in> set cs. resolve_exact installed (dep_skill d) = Inr c" if "d \<in> set (dependencies (manifest i))" for d
      using bundle_children_Inr[OF cs] that by (rule list_all2_partners)
    have "known installed root c" if "c \<in> set cs" for c
    proof -
      from list_all2_partners(2)[OF bundle_children_Inr[OF cs] that]
      obtain d where "d \<in> set (dependencies (manifest i))" "resolve_exact installed (dep_skill d) = Inr c"
        by blast
      then show ?thesis
        using "2.prems"(3) known_child by auto
    qed
    with "2.prems"(3) have k: "\<forall>x \<in> set (bundled @ [i]) \<union> set (rev cs @ stack). known installed root x"
      by auto
    have s: "set (resolved_ref i # seen) = resolved_ref ` set (bundled @ [i])"
      using "2.prems"(4) by auto
    have c: "\<forall>x \<in> set (bundled @ [i]). \<forall>d \<in> set (dependencies (manifest x)). \<exists>c \<in> set (bundled @ [i]) \<union> set (rev cs @ stack).
        resolve_exact installed (dep_skill d) = Inr c"
      using "2.prems"(5) children by fastforce
    from "2.IH"(2)[OF False _ walk "2.prems"(2) k s c] cs "2.prems"(2) show ?thesis
      by auto
  qed
qed auto

lemma collect_bundle_skills_set:
  assumes "resolve_exact installed r = Inr i" "collect_bundle_skills installed i deps = Inr out"
  shows "set out = (if deps then {k. dep_reachable (resolve_exact installed) i k} else {i})"
proof -
  obtain bundled where walk: "collect_bundle_walk installed i deps [] [] [i] = Inr bundled" and out: "set out = set bundled"
    using assms(2) by (auto simp: collect_bundle_skills_def res_bind_Inr_iff sort_cmp_def)
  show ?thesis
  proof (cases deps)
    case True
    have "known installed i i"
      using assms(1) resolve_exact_Inr[OF assms(1)] by (auto simp: known_def intro: dep_reachable.self)
    then have result: "set [] \<union> set [i] \<subseteq> set bundled \<and> (\<forall>x \<in> set bundled. known installed i x)
      \<and> (\<forall>x \<in> set bundled. \<forall>d \<in> set (dependencies (manifest x)). \<exists>c \<in> set bundled. resolve_exact installed (dep_skill d) = Inr c)"
      by (intro collect_walk_closed[OF walk True]) simp_all
    then have closed: "i \<in> set bundled" "\<forall>x \<in> set bundled. known installed i x"
      "\<forall>x \<in> set bundled. \<forall>d \<in> set (dependencies (manifest x)). \<exists>c \<in> set bundled. resolve_exact installed (dep_skill d) = Inr c"
      by simp_all
    have "k \<in> set bundled" if "dep_reachable (resolve_exact installed) i k" for k
      using that
    proof (induction rule: dep_reachable.induct)
      case (dependency j d k)
      with closed(3) show ?case
        by fastforce
    qed (rule closed(1))
    with closed(2) out True show ?thesis
      by (auto simp: known_def)
  qed (use walk out in auto)
qed

lemma sign_verifies:
  assumes "sound_crypto te" "sign_bundle_payload te signer bytes = Inr s" "publisher_id (bu_publisher bu) = publisher_id (lp_publisher signer)"
    and "validate_trusted_publisher_record te (trusted_record_with_tier tier signer) = Inr ()"
  shows "verify_bundle_signature te bytes bu s (trusted_record_with_tier tier signer) = Inr ()"
proof -
  obtain key where key: "signing_key te signer = Inr key"
    using assms(2) by (auto simp: sign_bundle_payload_def res_bind_Inr_iff)
  have s: "s = \<lparr>bse_format_version = BUNDLE_SIGNATURE_FORMAT_VERSION, bse_scheme = lp_scheme signer,
          bse_publisher_id = publisher_id (lp_publisher signer), bse_bundle_sha256 = ''sha256:'' @ te_sha256_hex te bytes,
          bse_signature_base64 = te_base64_encode te (te_sign te key bytes)\<rparr>"
    using assms(2) key by (auto simp: sign_bundle_payload_def res_bind_Inr_iff)
  have "trusted_publisher_verifying_key te (trusted_record_with_tier tier signer) = Inr (te_public_key te key)"
    using key assms(4) by (rule signer_key_trusted)
  moreover have "decode_fixed_base64 te 64 (te_base64_encode te (te_sign te key bytes)) c m = Inr (te_sign te key bytes)" for c m
    using assms(1) by (simp add: decode_fixed_Inr sound_crypto_def)
  moreover have "te_verify te (te_public_key te key) bytes (te_sign te key bytes) = Inr ()"
    using assms(1) by (simp add: sound_crypto_def)
  ultimately show ?thesis
    using assms(3) by (simp add: verify_bundle_signature_def Let_def s res_bind_def trusted_record_with_tier_def)
qed

section \<open>Claims\<close>

text \<open>C22: The closure check is exact. A bundle passes it if and only if its root skill is bundled and, when it
  claims its dependency closure, every dependency of every skill reachable from the root is bundled;
  the walk over the stack always ends.\<close>

theorem bundle_closure_exact:
  "validate_bundle_root_and_dependency_closure bundle validated = Inr () \<longleftrightarrow>
     (\<exists>i. bundle_lookup validated (bu_root_skill bundle) = Inr i
        \<and> (bu_includes_dependency_closure bundle \<longrightarrow>
             (\<forall>k d. dep_reachable (bundle_lookup validated) i k \<and> d \<in> set (dependencies (manifest k))
                \<longrightarrow> (\<exists>j. bundle_lookup validated (dep_skill d) = Inr j))))"
proof (cases "by_ref validated (bu_root_skill bundle)")
  case None
  then show ?thesis
    by (simp add: validate_bundle_root_and_dependency_closure_def bundle_lookup_def)
next
  case (Some v)
  then have "bundle_lookup validated (bu_root_skill bundle) = Inr (vb_installed v)"
    by (simp add: bundle_lookup_def)
  then show ?thesis
    using closure_walk_iff[of validated "bu_root_skill bundle" "vb_installed v"] Some
    by (auto simp: validate_bundle_root_and_dependency_closure_def)
qed

text \<open>C23: A validated bundle holds exactly the files it lists. Every file below a bundled skill directory is listed
  with the digest of its bytes and is no verification record, and every listed file lies under
  \<open>installed\<close> in a bundled directory and has the listed digest.\<close>

theorem bundle_files_exact:
  assumes "validate_bundle rg bundle_root bundle fs = Inr validated" "fs_wf fs" "fs_get fs bundle_root = Some Dir"
  shows "(\<forall>v \<in> set validated. \<forall>p b. prefix (vb_install_dir v) p \<and> fs_get fs p = Some (File b) \<longrightarrow>
        last p \<noteq> VERIFICATION_FILENAME \<and> (\<exists>f \<in> set (bu_files bundle). p = bundle_root @ path_components (bf_path f)
            \<and> bf_sha256 f = ''sha256:'' @ te_sha256_hex (rg_trust rg) b))
    \<and> (\<forall>f \<in> set (bu_files bundle). prefix [''installed''] (path_components (bf_path f))
        \<and> (\<exists>v \<in> set validated. prefix (vb_install_dir v) (bundle_root @ path_components (bf_path f)))
        \<and> (\<exists>b. fs_get fs (bundle_root @ path_components (bf_path f)) = Some (File b)
            \<and> bf_sha256 f = ''sha256:'' @ te_sha256_hex (rg_trust rg) b))"
  using assms(1)
proof (rule validate_bundle_Inr)
  fix listed actual
  assume "validate_listed_bundle_files rg bundle_root bundle fs = Inr listed"
    "collect_actual_bundle_files rg bundle_root validated fs = Inr actual"
    "validate_bundle_file_set_alignment listed actual = Inr ()"
  note files = validated_files[OF this assms(2,3)]
  show ?thesis
    by (intro conjI ballI allI impI files; (elim conjE; assumption)?)
qed

text \<open>C21: A preview tells what an import does. When it would import, the import passes every check; when it would
  refuse, an import into the prepared root stops with exactly the reported refusal and leaves the file
  system as it was.\<close>

theorem preview_decides_import:
  assumes "preview_import_bundle rg root bundle_root fs = Inr report"
    and "ensure_registry_layout (rg_trust rg) root fs = (Inr root, fs)"
  shows "(ip_decision report = WouldImport \<longleftrightarrow>
        (\<exists>validated. import_checks rg root bundle_root fs = Inr (ip_bundle report, ip_signature report, validated)))
    \<and> (\<forall>e. ip_refusal report = Some e \<longrightarrow> import_bundle rg root bundle_root fs = (Inl e, fs))"
  using preview_decides[OF assms(1)] assms(2) by (auto simp: import_bundle_def io_bind_def)

text \<open>C20: An import only adds. Whatever bundle it reads, whether it succeeds or fails, and whatever faults occur, it
  leaves every entry outside the staging directory as it was, apart from verification records of
  installed skills, and outside \<open>installed\<close> it creates nothing but missing directories.\<close>

theorem import_only_adds:
  "import_frame root fs (snd (import_bundle rg root bundle_root fs))"
  using framed_import by (simp add: io_keeps_def)


text \<open>C24: An exported bundle is complete and verifies. Its skills are exactly the requested skill and, with
  dependencies, everything reachable from it in the registry, all of the signer's publisher; and the
  signature verifies wherever the signer is trusted.\<close>

theorem exported_bundle_complete:
  assumes "build_signed_bundle_payload rg registry_root installed root deps signer fs = Inr payload"
    and "sound_crypto (rg_trust rg)"
    and "validate_trusted_publisher_record (rg_trust rg) (trusted_record_with_tier tier signer) = Inr ()"
  shows "\<exists>i. resolve_exact installed root = Inr i
    \<and> be_resolved_ref ` set (bu_skills (sp_bundle payload))
        = resolved_ref ` (if deps then {k. dep_reachable (resolve_exact installed) i k} else {i})
    \<and> (\<forall>k \<in> (if deps then {k. dep_reachable (resolve_exact installed) i k} else {i}). publisher (manifest k) = lp_publisher signer)
    \<and> verify_bundle_signature (rg_trust rg) (sp_bundle_bytes payload) (sp_bundle payload) (sp_signature payload)
        (trusted_record_with_tier tier signer) = Inr ()"
proof -
  from assms(1) obtain i skills contents where i: "resolve_exact installed root = Inr i"
    and skills: "collect_bundle_skills installed i deps = Inr skills"
    and pubs: "ensure_bundle_publisher_matches_signer skills signer = Inr ()"
    and contents: "collect_results (map (bundle_contents rg registry_root fs) skills) = Inr contents"
    and bu: "bu_skills (sp_bundle payload) = map fst contents" "bu_publisher (sp_bundle payload) = lp_publisher signer"
    and sig: "sign_bundle_payload (rg_trust rg) signer (sp_bundle_bytes payload) = Inr (sp_signature payload)"
    by (auto simp: build_signed_bundle_payload_def Let_def res_bind_Inr_iff)
  have entry: "be_resolved_ref (fst c) = resolved_ref k" if "bundle_contents rg registry_root fs k = Inr c" for k c
    using that by (auto simp: bundle_contents_def res_bind_Inr_iff)
  have "map (bundle_contents rg registry_root fs) skills = map Inr contents"
    using contents by (simp add: collect_results_all)
  then have "map (be_resolved_ref \<circ> fst) contents = map resolved_ref skills"
    using entry by (auto simp: list_eq_iff_nth_eq)
  then have "be_resolved_ref ` set (bu_skills (sp_bundle payload)) = resolved_ref ` set skills"
    unfolding bu by (metis list.set_map map_map)
  moreover have "\<forall>k \<in> set skills. publisher (manifest k) = lp_publisher signer"
    using pubs by (auto simp: ensure_bundle_publisher_matches_signer_def find_None_iff split: option.splits)
  moreover have "verify_bundle_signature (rg_trust rg) (sp_bundle_bytes payload) (sp_bundle payload) (sp_signature payload)
        (trusted_record_with_tier tier signer) = Inr ()"
    using assms(2) sig _ assms(3) by (rule sign_verifies) (simp add: bu)
  ultimately show ?thesis
    using i collect_bundle_skills_set[OF i skills] by auto
qed

section \<open>A bundle with one skill\<close>

definition sample_bundle :: InstalledSkillBundle where
  "sample_bundle =
     \<lparr>bu_format_version = BUNDLE_FORMAT_VERSION,
      bu_root_skill = \<lparr>rs_key = sample_key, rs_version = ''1.0.0'', rs_digest = ''sha256:00''\<rparr>,
      bu_includes_dependency_closure = True, bu_publisher = lp_publisher sample_identity,
      bu_skills = [\<lparr>be_resolved_ref = \<lparr>rs_key = sample_key, rs_version = ''1.0.0'', rs_digest = ''sha256:00''\<rparr>,
        be_install_dir = ''installed/disk''\<rparr>],
      bu_files = map (\<lambda>p. \<lparr>bf_path = ''installed/disk/'' @ p, bf_sha256 = ''sha256:00''\<rparr>)
        [''component.wasm'', ''manifest.json'', ''schemas/in.json'', ''schemas/out.json'']\<rparr>"

definition sample_signature :: BundleSignatureEnvelope where
  "sample_signature =
     \<lparr>bse_format_version = BUNDLE_SIGNATURE_FORMAT_VERSION, bse_scheme = Ed25519, bse_publisher_id = ''acme'',
      bse_bundle_sha256 = ''sha256:00'', bse_signature_base64 = te_sign sample_trust (replicate 32 CHR ''k'') ''i''\<rparr>"

definition sample_bundle_env :: RegistryEnv where
  "sample_bundle_env = sample_local_env
     \<lparr>rg_trust := sample_trust
        \<lparr>te_bundle_signature_parse := (\<lambda>s. if s = ''s'' then Inr sample_signature else Inl ''eof''),
         te_verification_parse := (\<lambda>s. if s = ''v'' then Inr (verification_of sample_bundle sample_signature) else Inl ''eof'')\<rparr>,
      rg_bundle_parse := (\<lambda>s. if s = ''i'' then Inr sample_bundle else Inl ''eof''),
      rg_bundle_text := (\<lambda>_. Inr ''i''),
      rg_verification_text := (\<lambda>v. if v = verification_of sample_bundle sample_signature then Inr ''v'' else Inl ''unsupported'')\<rparr>"

definition sample_bundle_fs :: "(path \<times> Entry) list \<Rightarrow> Fs" where
  "sample_bundle_fs extra = \<lparr>fs_entries = extra @ [([], Dir), ([''g''], Dir), ([''g'', ''installed''], Dir), ([''g'', ''executions''], Dir),
      ([''g'', ''objects''], Dir), ([''g'', ''objects'', ''sha256''], Dir), ([''g'', ''objects'', ''records''], Dir),
      ([''g'', ''trust''], Dir), ([''g'', ''trust'', ''publishers''], Dir),
      ([''b''], Dir), ([''b'', ''bundle.json''], File ''i''), ([''b'', ''bundle.signature.json''], File ''s''),
      ([''b'', ''installed''], Dir)] @ sample_skill_files [''b'', ''installed''], fs_faults = [], fs_minted = 0\<rparr>"

definition sample_trusted :: Fs where
  "sample_trusted = sample_bundle_fs [([''g'', ''trust'', ''publishers'', ''acme.json''], File ''p'')]"

lemma fs_wf_entries:
  assumes "list_all (\<lambda>(p, e). (p = [] \<or> fs_get fs (butlast p) = Some Dir)
     \<and> list_all (\<lambda>c. c \<noteq> [] \<and> c \<noteq> ''.'' \<and> c \<noteq> ''..'' \<and> CHR ''/'' \<notin> set c) p) (fs_entries fs)"
  shows "fs_wf fs"
proof -
  have entry: "(p = [] \<or> fs_get fs (butlast p) = Some Dir)
      \<and> list_all (\<lambda>c. c \<noteq> [] \<and> c \<noteq> ''.'' \<and> c \<noteq> ''..'' \<and> CHR ''/'' \<notin> set c) p" if "fs_get fs p \<noteq> None" for p
    using assms that by (auto simp: list_all_iff fs_get_def dest: map_of_SomeD)
  have "fs_get fs p = Some Dir" if "fs_get fs (p @ [c]) \<noteq> None" for p c
    using entry[OF that] by simp
  with entry show ?thesis
    by (auto simp: fs_wf_def fs_tree_def list_all_iff)
qed

lemma sample_trusted_wf: "fs_wf sample_trusted"
  by (rule fs_wf_entries) code_simp

lemma sample_validated:
  obtains validated where "validate_bundle sample_bundle_env [''b''] sample_bundle sample_trusted = Inr validated" "validated \<noteq> []"
    "by_ref validated (bu_root_skill sample_bundle) \<noteq> None"
proof -
  let ?r = "validate_bundle sample_bundle_env [''b''] sample_bundle sample_trusted"
  have "\<not> isl ?r" "projr ?r \<noteq> []" "by_ref (projr ?r) (bu_root_skill sample_bundle) \<noteq> None"
    by code_simp+
  with that show thesis
    by (cases ?r) simp_all
qed

theorem bundle_closure_exact_witness:
  "\<exists>validated i. validate_bundle_root_and_dependency_closure sample_bundle validated = Inr ()
     \<and> bundle_lookup validated (bu_root_skill sample_bundle) = Inr i"
proof -
  obtain validated where "validate_bundle sample_bundle_env [''b''] sample_bundle sample_trusted = Inr validated"
    using sample_validated by blast
  then have "validate_bundle_root_and_dependency_closure sample_bundle validated = Inr ()"
    by (rule validate_bundle_Inr)
  with bundle_closure_exact[of sample_bundle validated] show ?thesis
    by blast
qed

theorem bundle_files_exact_witness:
  "\<exists>validated. validate_bundle sample_bundle_env [''b''] sample_bundle sample_trusted = Inr validated
     \<and> (\<exists>v \<in> set validated. prefix (vb_install_dir v) [''b'', ''installed'', ''disk'', ''component.wasm''])"
proof -
  obtain validated where v: "validate_bundle sample_bundle_env [''b''] sample_bundle sample_trusted = Inr validated"
    using sample_validated by blast
  let ?f = "\<lparr>bf_path = ''installed/disk/component.wasm'', bf_sha256 = ''sha256:00''\<rparr>"
  have f: "?f \<in> set (bu_files sample_bundle)" "[''b''] @ path_components (bf_path ?f) = [''b'', ''installed'', ''disk'', ''component.wasm'']"
    "fs_get sample_trusted [''b''] = Some Dir"
    by code_simp+
  show ?thesis
    using bundle_files_exact[OF v sample_trusted_wf f(3), THEN conjunct2, rule_format, OF f(1)] f(2) v by auto
qed

theorem preview_decides_import_witness:
  "\<exists>e. import_bundle sample_bundle_env [''g''] [''b''] (sample_bundle_fs []) = (Inl e, sample_bundle_fs [])
     \<and> re_code e = ''bundle-publisher-untrusted''"
proof -
  let ?p = "preview_import_bundle sample_bundle_env [''g''] [''b''] (sample_bundle_fs [])"
  have "\<not> isl ?p" "map_option re_code (ip_refusal (projr ?p)) = Some ''bundle-publisher-untrusted''"
    by code_simp+
  then obtain report e where report: "?p = Inr report" "ip_refusal report = Some e" "re_code e = ''bundle-publisher-untrusted''"
    by (cases ?p) auto
  moreover have "ensure_registry_layout (rg_trust sample_bundle_env) [''g''] (sample_bundle_fs []) = (Inr [''g''], sample_bundle_fs [])"
    by code_simp
  ultimately show ?thesis
    using preview_decides_import[of sample_bundle_env "[''g'']" "[''b'']" "sample_bundle_fs []" report] by blast
qed


theorem exported_bundle_complete_witness:
  "\<exists>payload. build_signed_bundle_payload sample_bundle_env [''g''] (projr (load_existing sample_local_env [''g''] sample_root))
       (bu_root_skill sample_bundle) True sample_identity sample_root = Inr payload
     \<and> verify_bundle_signature (rg_trust sample_bundle_env) (sp_bundle_bytes payload) (sp_bundle payload) (sp_signature payload)
         (trusted_record sample_identity) = Inr ()"
proof -
  let ?r = "build_signed_bundle_payload sample_bundle_env [''g''] (projr (load_existing sample_local_env [''g''] sample_root))
       (bu_root_skill sample_bundle) True sample_identity sample_root"
  have "\<not> isl ?r" and pub: "validate_trusted_publisher_record (rg_trust sample_bundle_env) (trusted_record_with_tier TrustedImported sample_identity) = Inr ()"
    by code_simp+
  then obtain payload where run: "?r = Inr payload"
    by (cases ?r) simp_all
  have "sound_crypto (rg_trust sample_bundle_env)"
    using sample_sound by (simp add: sample_bundle_env_def sound_crypto_def)
  from exported_bundle_complete[OF run this pub] run show ?thesis
    by (auto simp: trusted_record_def)
qed

end
