(* ===== verification/Guild_Install.thy ===== *)
theory Guild_Install
  imports Guild_Import
begin

text \<open>
  Installation of source skills (\<open>LocalSourceInstaller\<close> of \<open>crates/guild-registry/src/lib.rs\<close>): the source
  manifest is validated, its dependencies are resolved to exact references, the component is built and
  staged with its support files, and the staged directory is renamed to its content address.

  \<open>InstallEnv\<close> adds to \<open>RegistryEnv\<close> the build: \<open>ie_cargo\<close> runs \<open>cargo build\<close> on a manifest path and a target,
  which may change the file system and ends with an error of the process or with its output; JSON lines
  are parsed by \<open>serde_json\<close>, version requirements are those of \<open>semver\<close>, and the suffix of a staging
  directory comes from the process and the clock. Paths with \<open>..\<close> are resolved where they are used.
\<close>

record CargoOutput =
  co_success :: bool
  co_code :: "int option"
  co_stdout :: string
  co_stderr :: string

record InstallEnv =
  ie_registry :: RegistryEnv
  ie_cargo :: "path \<Rightarrow> string \<Rightarrow> Fs \<Rightarrow> (string + CargoOutput) \<times> Fs"
  ie_json_line :: "string \<Rightarrow> json option"
  ie_utf8_lossy :: "string \<Rightarrow> string"
  ie_current_dir :: path
  ie_staging_suffix :: "Fs \<Rightarrow> string"
  ie_req_matches :: "semver_req \<Rightarrow> semver_version \<Rightarrow> bool"
  ie_ver_le :: "semver_version \<Rightarrow> semver_version \<Rightarrow> bool"

definition ie_io_text :: "InstallEnv \<Rightarrow> IoError \<Rightarrow> string" where
  "ie_io_text ie = rg_io_text (ie_registry ie)"

section \<open>Directories with parent components\<close>

text \<open>
  \<open>fs::create_dir_all\<close> on a path with \<open>..\<close>: every component in turn names a directory that exists by then,
  so that the places it visits follow from the text of the path.
\<close>

fun places :: "path \<Rightarrow> path \<Rightarrow> path list" where
  "places cur [] = [cur]"
| "places cur (c # cs) = cur # places (if c = ''..'' then butlast cur else cur @ [c]) cs"

definition create_dir_all_at :: "path \<Rightarrow> Fs \<Rightarrow> (IoError, unit) io" where
  "create_dir_all_at p fs =
     (case next_fault fs of
        (Fault_Before e, fs) \<Rightarrow> (Inl (Io_Other e), fs)
      | (Fault_Torn n e, fs) \<Rightarrow> (Inl (Io_Other e), ensure_dirs (take n (places [] p)) fs)
      | (No_Fault, fs) \<Rightarrow>
          if list_all (\<lambda>q. fs_get fs q \<in> {None, Some Dir}) (places [] p)
          then (Inr (), ensure_dirs (places [] p) fs)
          else (Inl Io_NotADirectory, fs))"

section \<open>Sources and dependencies\<close>

definition open_existing_directory :: "InstallEnv \<Rightarrow> path \<Rightarrow> Fs \<Rightarrow> RegistryError + path" where
  "open_existing_directory ie p fs =
     (if entry_at fs p = None
      then Inl (caused_by ''source-root-missing'' ''source skill directory does not exist'' (path_display p))
      else map_err (\<lambda>e. caused_by ''source-root-open-failed'' ''failed to open source skill directory'' (ie_io_text ie e))
             (canonicalize fs p))"

definition read_source_manifest :: "InstallEnv \<Rightarrow> path \<Rightarrow> Fs \<Rightarrow> RegistryError + SourceSkillManifest" where
  "read_source_manifest ie p fs =
     res_bind (map_err (\<lambda>e. caused_by ''source-manifest-read-failed'' ''failed to read source manifest file'' (ie_io_text ie e))
         (read_to_string fs p)) (\<lambda>contents.
     map_err (caused_by ''source-manifest-parse-failed'' ''failed to parse source manifest JSON'')
       (rg_source_parse (ie_registry ie) contents))"

definition validate_source_manifest :: "SourceSkillManifest \<Rightarrow> RegistryError + unit" where
  "validate_source_manifest m =
     map_err (\<lambda>errors. registry_detail (list_json ManifestValidationError_json errors)
         (RegistryError_new ''invalid-source-manifest'' ''source manifest validation failed'')) (SourceSkillManifest_validate m)"

definition RequestedSkillRef_json :: "RequestedSkillRef \<Rightarrow> json" where
  "RequestedSkillRef_json r = json_obj
     [(''key'', SkillKey_json (rq_key r)), (''version_req'', JString (rq_version_req r))]"

definition resolve_source_dependency ::
  "InstallEnv \<Rightarrow> InstalledSkill list \<Rightarrow> SourceDependencySpec \<Rightarrow> RegistryError + InstalledDependencySpec" where
  "resolve_source_dependency ie installed d =
     map_err (\<lambda>e. registry_detail (json_obj
         [(''alias'', JString (sdep_alias d)), (''dependency'', RequestedSkillRef_json (sdep_skill d)), (''cause'', registry_cause e)])
         (RegistryError_new ''dependency-resolution-failed'' ''failed to resolve declared dependency during install''))
       (res_bind (resolve (ie_req_matches ie) (ie_ver_le ie) installed (sdep_skill d)) (\<lambda>i.
        Inr \<lparr>dep_alias = sdep_alias d, dep_skill = resolved_ref i\<rparr>))"

definition resolve_source_dependencies ::
  "InstallEnv \<Rightarrow> InstalledSkill list \<Rightarrow> SourceSkillManifest \<Rightarrow> RegistryError + InstalledDependencySpec list" where
  "resolve_source_dependencies ie installed m =
     collect_results (map (resolve_source_dependency ie installed) (s_dependencies m))"

section \<open>The build\<close>

text \<open>\<open>str::lines\<close> and \<open>Path::extension\<close> compared without case.\<close>

definition str_lines :: "string \<Rightarrow> string list" where
  "str_lines s =
     (let ls = split_on CHR 0x0A s
      in map (\<lambda>l. if l \<noteq> [] \<and> last l = CHR 0x0D then butlast l else l) (if last ls = [] then butlast ls else ls))"

definition extension_is :: "string \<Rightarrow> string \<Rightarrow> bool" where
  "extension_is ext s =
     (case path_components s of
        [] \<Rightarrow> False
      | c # cs \<Rightarrow>
          (case rsplit_once CHR ''.'' (last (c # cs)) of
             None \<Rightarrow> False
           | Some (stem, e) \<Rightarrow> last (c # cs) \<noteq> ''..'' \<and> stem \<noteq> [] \<and> to_ascii_lowercase e = ext))"

definition wasm_filenames :: "string option \<Rightarrow> json \<Rightarrow> string list" where
  "wasm_filenames cargo_manifest message =
     (if Option.bind (json_get message ''reason'') json_as_str \<noteq> Some ''compiler-artifact'' then []
      else if Option.bind (json_get message ''manifest_path'') json_as_str \<noteq> cargo_manifest then []
      else (case json_get message ''filenames'' of
              Some (JArray fs) \<Rightarrow> filter (extension_is ''wasm'') (List.map_filter json_as_str fs)
            | _ \<Rightarrow> []))"

definition reported_artifacts :: "InstallEnv \<Rightarrow> path \<Rightarrow> string \<Rightarrow> string list" where
  "reported_artifacts ie cargo_manifest stdout =
     concat (map (wasm_filenames (if list_all utf8_valid cargo_manifest then Some (path_display cargo_manifest) else None))
       (List.map_filter (ie_json_line ie) (str_lines (ie_utf8_lossy ie stdout))))"

definition find_built_wasm_artifact :: "InstallEnv \<Rightarrow> path \<Rightarrow> string \<Rightarrow> Fs \<Rightarrow> RegistryError + path" where
  "find_built_wasm_artifact ie cargo_manifest stdout fs =
     (case reported_artifacts ie cargo_manifest stdout of
        [] \<Rightarrow> Inl (caused_by ''build-artifact-missing'' ''cargo build did not report a wasm artifact for the source skill''
                (path_display cargo_manifest))
      | f # names \<Rightarrow>
          let artifact = path_join (ie_current_dir ie) (last (f # names))
          in if entry_at fs artifact = None
             then Inl (caused_by ''build-artifact-missing'' ''cargo reported a wasm artifact that does not exist'' (path_display artifact))
             else map_err (\<lambda>e. caused_by ''build-artifact-canonicalize-failed''
                    ''failed to canonicalize built wasm artifact path'' (ie_io_text ie e)) (canonicalize fs artifact))"

definition build_source_artifact :: "InstallEnv \<Rightarrow> path \<Rightarrow> SourceSkillManifest \<Rightarrow> Fs \<Rightarrow> (RegistryError, path) io" where
  "build_source_artifact ie source_root m fs =
     (if build_kind (s_build m) \<noteq> CargoWasmComponent
      then (Inl (RegistryError_new ''unsupported-build-kind'' ''local installer only supports cargo-wasm-component builds''), fs)
      else
        io_bind (map_err (caused_by ''build-manifest-path-invalid'' ''build.cargo_manifest_path must be a relative local path'')
          (resolve_local_file source_root (cargo_manifest_path (s_build m))), fs) (\<lambda>cargo_manifest fs.
        if entry_at fs cargo_manifest = None
        then (Inl (caused_by ''build-manifest-missing'' ''build.cargo_manifest_path does not exist'' (path_display cargo_manifest)), fs)
        else
          io_bind (io_err (caused_by ''build-command-failed'' ''failed to invoke cargo build'')
            (ie_cargo ie cargo_manifest (build_target (s_build m)) fs)) (\<lambda>out fs.
          if \<not> co_success out
          then (Inl (registry_detail (json_obj
                 [(''status'', json_opt (\<lambda>n. JNumber (NInt n)) (co_code out)), (''stdout'', JString (ie_utf8_lossy ie (co_stdout out))),
                  (''stderr'', JString (ie_utf8_lossy ie (co_stderr out)))])
                 (RegistryError_new ''build-failed'' ''cargo build failed for the source skill'')), fs)
          else
            (res_bind (map_err (\<lambda>e. caused_by ''build-manifest-canonicalize-failed''
                 ''failed to canonicalize build manifest path'' (ie_io_text ie e)) (canonicalize fs cargo_manifest)) (\<lambda>cargo_manifest.
             find_built_wasm_artifact ie cargo_manifest (co_stdout out) fs), fs))))"

section \<open>Staging\<close>

definition digest_dir :: "string \<Rightarrow> string" where
  "digest_dir digest = map (\<lambda>c. if c = CHR '':'' then CHR ''-'' else c) digest"

definition install_root_for :: "path \<Rightarrow> SourceSkillManifest \<Rightarrow> path" where
  "install_root_for root m =
     path_join (path_join (path_join (installed_root root) (sk_namespace (s_key m))) (sk_name (s_key m))) (s_version m)"

definition source_install_staging_root :: "path \<Rightarrow> path" where
  "source_install_staging_root root = root @ [''.source-install-staging'']"

definition create_install_staging_dir :: "InstallEnv \<Rightarrow> path \<Rightarrow> string \<Rightarrow> Fs \<Rightarrow> (RegistryError, path) io" where
  "create_install_staging_dir ie root digest fs =
     io_bind (io_err (\<lambda>e. caused_by ''install-staging-create-failed'' ''failed to create source install staging directory''
         (ie_io_text ie e)) (create_dir_all (source_install_staging_root root) fs)) (\<lambda>_ fs.
     let staging_dir = source_install_staging_root root @ [digest_dir digest @ ''-'' @ ie_staging_suffix ie fs]
     in io_bind (io_err (\<lambda>e. caused_by ''install-staging-create-failed'' ''failed to create staged install directory''
            (ie_io_text ie e)) (create_dir_all staging_dir fs)) (\<lambda>_ fs.
        (Inr staging_dir, fs)))"

definition copy_relative_file :: "InstallEnv \<Rightarrow> path \<Rightarrow> path \<Rightarrow> string \<Rightarrow> Fs \<Rightarrow> (RegistryError, unit) io" where
  "copy_relative_file ie source_root install_root uri fs =
     io_bind (map_err (caused_by ''source-file-uri-invalid'' ''source manifest referenced an unsupported local file URI'')
       (resolve_local_file source_root uri), fs) (\<lambda>source fs.
     if entry_at fs source = None
     then (Inl (caused_by ''source-file-missing'' ''source manifest referenced a file that does not exist'' (path_display source)), fs)
     else
       let destination = path_join install_root uri
       in io_bind (io_err (\<lambda>e. caused_by ''install-support-dir-create-failed''
              ''failed to create staged support file directory'' (ie_io_text ie e)) (create_dir_all_at (butlast destination) fs)) (\<lambda>_ fs.
          io_err (\<lambda>e. caused_by ''install-support-file-copy-failed'' ''failed to stage support file'' (ie_io_text ie e))
            (copy_file source destination fs)))"

definition copy_optional_relative_file :: "InstallEnv \<Rightarrow> path \<Rightarrow> path \<Rightarrow> string \<Rightarrow> Fs \<Rightarrow> (RegistryError, unit) io" where
  "copy_optional_relative_file ie source_root install_root uri fs =
     io_bind (map_err (caused_by ''source-file-uri-invalid'' ''source manifest referenced an unsupported local file URI'')
       (maybe_resolve_local_file source_root uri), fs) (\<lambda>found fs.
     if found = None then (Inr (), fs) else copy_relative_file ie source_root install_root uri fs)"

fun run_all :: "(Fs \<Rightarrow> (RegistryError, unit) io) list \<Rightarrow> Fs \<Rightarrow> (RegistryError, unit) io" where
  "run_all [] fs = (Inr (), fs)"
| "run_all (f # rest) fs = io_bind (f fs) (\<lambda>_ fs. run_all rest fs)"

definition stage_support_files :: "InstallEnv \<Rightarrow> path \<Rightarrow> path \<Rightarrow> SourceSkillManifest \<Rightarrow> Fs \<Rightarrow> (RegistryError, unit) io" where
  "stage_support_files ie source_root install_root m fs =
     (let copy = copy_relative_file ie source_root install_root;
          optional = copy_optional_relative_file ie source_root install_root
      in run_all
           ([copy (input_schema_uri (s_interface m)), copy (output_schema_uri (s_interface m))]
            @ (case examples_uri (s_interface m) of None \<Rightarrow> [] | Some u \<Rightarrow> [copy u])
            @ (case spkg_sbom_uri (s_package m) of None \<Rightarrow> [] | Some u \<Rightarrow> [optional u])
            @ (case spkg_signature_uri (s_package m) of None \<Rightarrow> [] | Some u \<Rightarrow> [optional u])
            @ concat (map (\<lambda>t. [copy (fixtures_uri t), copy (expected_output_uri t)]) (s_tests m))) fs)"

definition stage_install_contents ::
  "InstallEnv \<Rightarrow> path \<Rightarrow> path \<Rightarrow> SourceSkillManifest \<Rightarrow> InstalledDependencySpec list \<Rightarrow> path \<Rightarrow> string \<Rightarrow> Fs
     \<Rightarrow> (RegistryError, InstalledSkill) io" where
  "stage_install_contents ie source_dir staging_dir m deps built digest fs =
     io_bind (io_err (\<lambda>e. caused_by ''artifact-stage-failed'' ''failed to stage built artifact'' (ie_io_text ie e))
       (copy_at built (staging_dir @ [''component.wasm'']) fs)) (\<lambda>_ fs.
     io_bind (stage_support_files ie source_dir staging_dir m fs) (\<lambda>_ fs.
     let p = staging_dir @ [''manifest.json'']
     in io_bind (write_json (ie_io_text ie) p
            (rg_manifest_text (ie_registry ie) (into_installed m ''./component.wasm'' digest deps)) fs) (\<lambda>_ fs.
        (load_manifest (ie_registry ie) staging_dir p fs, fs))))"

definition cleanup_install_staging_dir :: "InstallEnv \<Rightarrow> path \<Rightarrow> Fs \<Rightarrow> (RegistryError, unit) io" where
  "cleanup_install_staging_dir ie p fs =
     (if \<not> path_exists fs p then (Inr (), fs)
      else io_err (\<lambda>e. caused_by ''install-staging-cleanup-failed'' ''failed to clean staged install directory'' (ie_io_text ie e))
             (remove_dir_all p fs))"

section \<open>Installation\<close>

definition reusable_existing_install :: "InstallEnv \<Rightarrow> path \<Rightarrow> InstalledSkill \<Rightarrow> Fs \<Rightarrow> RegistryError + InstalledSkill option" where
  "reusable_existing_install ie install_dir staged fs =
     (case fs_resolve fs install_dir of
        Inl _ \<Rightarrow> Inr None
      | Inr dir \<Rightarrow>
          if \<not> path_exists fs dir then Inr None
          else
            res_bind (map_err (\<lambda>e. registry_detail (json_obj
                [(''install_dir'', JString (path_display install_dir)), (''cause'', registry_cause e)])
                (RegistryError_new ''install-target-invalid'' ''existing installed digest directory was invalid''))
              (load_manifest (ie_registry ie) dir (dir @ [''manifest.json'']) fs)) (\<lambda>existing.
            if resolved_ref existing = resolved_ref staged \<and> manifest existing = manifest staged then Inr (Some existing)
            else Inl (registry_detail (json_obj
                   [(''install_dir'', JString (path_display install_dir)),
                    (''resolved_ref'', ResolvedSkillRef_json (resolved_ref staged))])
                   (RegistryError_new ''install-target-conflict''
                      ''existing installed digest directory conflicted with the staged install''))))"

definition ensure_install_parent :: "InstallEnv \<Rightarrow> path \<Rightarrow> Fs \<Rightarrow> (RegistryError, unit) io" where
  "ensure_install_parent ie install_dir fs =
     io_err (\<lambda>e. caused_by ''install-root-create-failed'' ''failed to create install directory'' (ie_io_text ie e))
       (create_dir_all_at (butlast install_dir) fs)"

definition install_move_failed :: "InstallEnv \<Rightarrow> path \<Rightarrow> path \<Rightarrow> IoError \<Rightarrow> RegistryError" where
  "install_move_failed ie staging_dir install_dir e = registry_detail (json_obj
     [(''from'', JString (path_display staging_dir)), (''to'', JString (path_display install_dir)), (''cause'', JString (ie_io_text ie e))])
     (RegistryError_new ''install-move-failed'' ''failed to move the staged install into the local registry'')"

text \<open>The result is the resolved target, the place where the skill now is.\<close>

definition move_staged_install :: "InstallEnv \<Rightarrow> path \<Rightarrow> path \<Rightarrow> Fs \<Rightarrow> (RegistryError, path) io" where
  "move_staged_install ie staging_dir install_dir fs =
     io_err (install_move_failed ie staging_dir install_dir)
       (io_bind (fs_resolve fs install_dir, fs) (\<lambda>dir fs.
        io_bind (rename_dir staging_dir dir fs) (\<lambda>_ fs. (Inr dir, fs))))"

definition finish_install ::
  "InstallEnv \<Rightarrow> path \<Rightarrow> path \<Rightarrow> path \<Rightarrow> InstalledSkill \<Rightarrow> Fs \<Rightarrow> (RegistryError, InstalledSkill) io" where
  "finish_install ie root staging_dir install_dir staged fs =
     io_bind (reusable_existing_install ie install_dir staged fs, fs) (\<lambda>existing fs.
     case existing of
       Some i \<Rightarrow> (Inr i, snd (cleanup_install_staging_dir ie staging_dir fs))
     | None \<Rightarrow>
         io_bind (ensure_install_parent ie install_dir fs) (\<lambda>_ fs.
         io_bind (move_staged_install ie staging_dir install_dir fs) (\<lambda>dir fs.
         case cleanup_install_staging_dir ie staging_dir fs of
           (_, fs) \<Rightarrow> (load_manifest (ie_registry ie) root (dir @ [''manifest.json'']) fs, fs))))"

definition install :: "InstallEnv \<Rightarrow> path \<Rightarrow> path \<Rightarrow> Fs \<Rightarrow> (RegistryError, InstalledSkill) io" where
  "install ie root source_dir fs =
     io_bind (open_existing_directory ie source_dir fs, fs) (\<lambda>source_dir fs.
     io_bind (read_source_manifest ie (source_dir @ [''manifest.json'']) fs, fs) (\<lambda>m fs.
     io_bind (validate_source_manifest m, fs) (\<lambda>_ fs.
     io_bind (load (ie_registry ie) root fs) (\<lambda>installed fs.
     io_bind (resolve_source_dependencies ie installed m, fs) (\<lambda>deps fs.
     io_bind (build_source_artifact ie source_dir m fs) (\<lambda>built fs.
     io_bind (sha256_file (ie_registry ie) built fs, fs) (\<lambda>digest fs.
     io_bind (create_install_staging_dir ie root digest fs) (\<lambda>staging_dir fs.
     case stage_install_contents ie source_dir staging_dir m deps built digest fs of
       (Inl e, fs) \<Rightarrow> (Inl e, snd (cleanup_install_staging_dir ie staging_dir fs))
     | (Inr staged, fs) \<Rightarrow>
         finish_install ie root staging_dir (path_join (install_root_for root m) (digest_dir digest)) staged fs))))))))"

section \<open>What an installation leaves behind\<close>

lemma read_written_manifest:
  assumes "faithful_codec (rg_manifest_text rg) (rg_manifest_parse rg)" "rg_manifest_text rg m = Inr b"
    "fs_get fs p = Some (File b)"
  shows "read_installed_manifest rg p fs = Inr m"
  using assms by (simp add: read_installed_manifest_Inr faithful_codec_def)

lemma stage_install_Inr:
  assumes "stage_install_contents ie source_dir staging m deps built digest fs = (Inr staged, fs')"
    "faithful_codec (rg_manifest_text (ie_registry ie)) (rg_manifest_parse (ie_registry ie))"
  shows "manifest staged = into_installed m ''./component.wasm'' digest deps"
    "read_installed_manifest (ie_registry ie) (staging @ [''manifest.json'']) fs' = Inr (manifest staged)"
    "rs_digest (resolved_ref staged) = digest"
proof -
  let ?m = "into_installed m ''./component.wasm'' digest deps" and ?p = "staging @ [''manifest.json'']"
  from assms(1) obtain fs1 u where put: "write_json (ie_io_text ie) ?p (rg_manifest_text (ie_registry ie) ?m) fs1 = (Inr u, fs')"
    and staged: "load_manifest (ie_registry ie) staging ?p fs' = Inr staged"
    by (auto simp: stage_install_contents_def io_bind_Inr Let_def)
  obtain b where "rg_manifest_text (ie_registry ie) ?m = Inr b" "fs_get fs' ?p = Some (File b)"
    using put by (rule write_json_Inr)
  from read_written_manifest[OF assms(2) this] have m: "read_installed_manifest (ie_registry ie) ?p fs' = Inr ?m" .
  show *: "manifest staged = ?m" "read_installed_manifest (ie_registry ie) ?p fs' = Inr (manifest staged)"
    using staged m by (auto elim!: load_manifest_Inr)
  show "rs_digest (resolved_ref staged) = digest"
    using staged *(1) by (auto elim!: load_manifest_Inr simp: into_installed_def)
qed

lemma resolve_from_plain: "resolve_from fs cur p = Inr q \<Longrightarrow> ''..'' \<notin> set cur \<Longrightarrow> ''..'' \<notin> set q"
  by (induction p arbitrary: cur) (auto split: option.splits Entry.splits if_splits dest: in_set_butlastD)

lemma resolve_component: "resolve_local_file d ''./component.wasm'' = Inr (d @ [''component.wasm''])"
proof -
  have "\<not> contains_str ''://'' ''./component.wasm''" "\<not> path_is_absolute ''./component.wasm''"
    "filter (\<lambda>c. c \<noteq> ''.'') (path_components ''./component.wasm'') = [''component.wasm'']"
    by code_simp+
  then show ?thesis
    by (simp add: resolve_local_file_def path_join_def)
qed

lemma load_component:
  assumes "load_manifest rg root (d @ [''manifest.json'']) fs = Inr i" "''..'' \<notin> set d"
    "artifact_uri (package (manifest i)) = ''./component.wasm''"
  obtains b where "root_dir i = d" "fs_get fs (d @ [''component.wasm'']) = Some (File b)"
    "artifact_path i = d @ [''component.wasm'']"
    "rs_digest (resolved_ref i) = ''sha256:'' @ te_sha256_hex (rg_trust rg) b"
proof -
  from assms(1) show thesis
  proof (rule load_manifest_Inr)
    fix b
    assume a: "root_dir i = butlast (d @ [''manifest.json''])" "resolve_local_file (butlast (d @ [''manifest.json''])) (artifact_uri (package (manifest i))) = Inr (artifact_path i)"
      "entry_at fs (artifact_path i) = Some (File b)"
      "artifact_digest (package (manifest i)) = ''sha256:'' @ te_sha256_hex (rg_trust rg) b"
      "resolved_ref i = \<lparr>rs_key = m_key (manifest i), rs_version = m_version (manifest i),
         rs_digest = artifact_digest (package (manifest i))\<rparr>"
    have path: "artifact_path i = d @ [''component.wasm'']"
      using a(2) unfolding assms(3) resolve_component by simp
    from a(3) obtain q where "resolve_from fs [] (artifact_path i) = Inr q" "fs_get fs q = Some (File b)"
      by (auto simp: entry_at_def fs_resolve_def split: sum.splits)
    with resolve_plain[OF _ this(1)] assms(2) path have "fs_get fs (d @ [''component.wasm'']) = Some (File b)"
      by simp
    with a path show thesis
      by (intro that) simp_all
  qed
qed

text \<open>The two ways to end: a directory that holds the same skill is reused, otherwise the staged one becomes it.\<close>

lemma cleanup_keeps:
  assumes "fs_get (snd (cleanup_install_staging_dir ie d fs)) q = Some e"
  shows "fs_get fs q = Some e"
  using assms remove_dir_all_keeps[OF prod.collapse[symmetric], of d fs q e]
  by (auto simp: cleanup_install_staging_dir_def io_err_def split: if_splits)

lemma cleanup_get:
  assumes "\<not> prefix d q"
  shows "fs_get (snd (cleanup_install_staging_dir ie d fs)) q = fs_get fs q"
  using assms remove_dir_all_get[OF prod.collapse[symmetric], of d q fs]
  by (auto simp: cleanup_install_staging_dir_def io_err_def split: if_splits)

lemma create_dir_all_at_get:
  "create_dir_all_at p fs = (r, fs')
     \<Longrightarrow> fs_get fs' q = fs_get fs q \<or> (fs_get fs q = None \<and> fs_get fs' q = Some Dir \<and> q \<in> set (places [] p))"
  using in_set_takeD[of q _ "places [] p"]
  by (auto simp: create_dir_all_at_def ensure_dirs_get next_fault_get split: prod.splits IoFault.splits if_splits)

lemma move_staged_Inr:
  assumes "ensure_install_parent ie install_dir fs = (Inr u, fs1)" "move_staged_install ie staging install_dir fs1 = (Inr dir, fs2)"
  shows "fs_resolve fs1 install_dir = Inr dir" "fs_get fs (staging @ q) = Some e \<Longrightarrow> fs_get fs2 (dir @ q) = Some e"
proof -
  from assms(2) obtain v where r: "fs_resolve fs1 install_dir = Inr dir" "rename_dir staging dir fs1 = (Inr v, fs2)"
    by (auto simp: move_staged_install_def io_bind_Inr)
  then show "fs_resolve fs1 install_dir = Inr dir"
    by simp
  assume "fs_get fs (staging @ q) = Some e"
  moreover have "create_dir_all_at (butlast install_dir) fs = (Inr u, fs1)"
    using assms(1) by (simp add: ensure_install_parent_def)
  ultimately have "fs_get fs1 (staging @ q) = Some e"
    using create_dir_all_at_get by (metis option.distinct(1))
  with rename_dir_Inr[OF r(2)] show "fs_get fs2 (dir @ q) = Some e"
    by simp
qed

lemma finish_install_Inr:
  assumes "finish_install ie root staging install_dir staged fs = (Inr i, fs')"
    "read_installed_manifest (ie_registry ie) (staging @ [''manifest.json'']) fs = Inr (manifest staged)"
    "artifact_uri (package (manifest staged)) = ''./component.wasm''"
  obtains r fs1 fs2 b where "load_manifest (ie_registry ie) r (root_dir i @ [''manifest.json'']) fs2 = Inr i"
    "manifest i = manifest staged" "fs_resolve fs1 install_dir = Inr (root_dir i)" "artifact_path i = root_dir i @ [''component.wasm'']"
    "\<not> prefix staging (artifact_path i) \<longrightarrow> fs_get fs' (artifact_path i) = Some (File b)"
    "rs_digest (resolved_ref i) = ''sha256:'' @ te_sha256_hex (rg_trust (ie_registry ie)) b"
proof -
  from assms(1) obtain existing where e: "reusable_existing_install ie install_dir staged fs = Inr existing"
    by (auto simp: finish_install_def io_bind_Inr)
  show thesis
  proof (cases existing)
    case (Some j)
    with e obtain dir where dir: "fs_resolve fs install_dir = Inr dir"
      and j: "load_manifest (ie_registry ie) dir (dir @ [''manifest.json'']) fs = Inr j" "manifest j = manifest staged"
      by (auto simp: reusable_existing_install_def res_bind_Inr_iff split: sum.splits if_splits)
    have i: "j = i" "fs' = snd (cleanup_install_staging_dir ie staging fs)"
      using assms(1) e Some by (simp_all add: finish_install_def io_bind_def)
    have "''..'' \<notin> set dir"
      using dir resolve_from_plain by (fastforce simp: fs_resolve_def)
    then obtain b where "root_dir i = dir" "fs_get fs (dir @ [''component.wasm'']) = Some (File b)"
        "artifact_path i = dir @ [''component.wasm'']"
        "rs_digest (resolved_ref i) = ''sha256:'' @ te_sha256_hex (rg_trust (ie_registry ie)) b"
      using load_component[OF j(1)] assms(3) unfolding i(1) j(2)[unfolded i(1)] by metis
    with cleanup_get[of staging "artifact_path i" ie fs] show thesis
      using j dir i by (intro that) simp_all
  next
    case None
    with assms(1) e obtain u fs1 dir fs2 where moved: "ensure_install_parent ie install_dir fs = (Inr u, fs1)"
        "move_staged_install ie staging install_dir fs1 = (Inr dir, fs2)"
      and fs': "fs' = snd (cleanup_install_staging_dir ie staging fs2)"
      and i: "load_manifest (ie_registry ie) root (dir @ [''manifest.json'']) fs' = Inr i"
      by (auto simp: finish_install_def io_bind_Inr split_beta)
    have dir: "fs_resolve fs1 install_dir = Inr dir"
      using moved by (rule move_staged_Inr)
    have read_i: "read_installed_manifest (ie_registry ie) (dir @ [''manifest.json'']) fs' = Inr (manifest i)"
      using i by (rule load_manifest_Inr)
    then obtain b c where "fs_get fs' (dir @ [''manifest.json'']) = Some (File b)" and "fs_get fs (staging @ [''manifest.json'']) = Some (File c)"
      using assms(2) unfolding read_installed_manifest_Inr by blast
    with cleanup_keeps[of ie staging fs2] move_staged_Inr(2)[OF moved] fs'
    have "fs_get fs' (dir @ [''manifest.json'']) = fs_get fs (staging @ [''manifest.json''])"
      by metis
    with assms(2) read_i have m: "manifest i = manifest staged"
      by (auto simp: read_installed_manifest_Inr)
    have "''..'' \<notin> set dir"
      using dir resolve_from_plain by (fastforce simp: fs_resolve_def)
    then obtain b where b: "root_dir i = dir" "fs_get fs' (dir @ [''component.wasm'']) = Some (File b)"
        "artifact_path i = dir @ [''component.wasm'']"
        "rs_digest (resolved_ref i) = ''sha256:'' @ te_sha256_hex (rg_trust (ie_registry ie)) b"
      using load_component[OF i] assms(3) unfolding m by metis
    show thesis
      using b m dir i by (intro that) simp_all
  qed
qed

text \<open>A name is plain when it is one component of a path.\<close>

definition plain_name :: "string \<Rightarrow> bool" where
  "plain_name c \<longleftrightarrow> c \<noteq> [] \<and> c \<notin> {''.'', ''..''} \<and> CHR ''/'' \<notin> set c"

lemma path_join_plain:
  assumes "plain_name c"
  shows "path_join d c = d @ [c]"
proof -
  have "split_on CHR ''/'' c = [c]"
    using assms by (simp add: plain_name_def split_on_no_sep)
  moreover have "\<not> prefix ''/'' c"
    using assms by (auto simp: plain_name_def prefix_def)
  ultimately show ?thesis
    using assms by (simp add: path_join_def path_is_absolute_def path_components_def plain_name_def)
qed

lemma digest_dir_plain:
  assumes "CHR ''/'' \<notin> set hex"
  shows "plain_name (digest_dir (''sha256:'' @ hex))"
  using assms by (auto simp: plain_name_def digest_dir_def)

lemma resolve_dependencies_Inr:
  assumes "resolve_source_dependencies ie installed m = Inr deps"
  shows "list_all2 (\<lambda>s d. dep_alias d = sdep_alias s
    \<and> (\<exists>j. resolve (ie_req_matches ie) (ie_ver_le ie) installed (sdep_skill s) = Inr j \<and> dep_skill d = resolved_ref j))
    (s_dependencies m) deps"
proof -
  have "map (resolve_source_dependency ie installed) (s_dependencies m) = map Inr deps"
    using assms by (simp add: resolve_source_dependencies_def collect_results_all)
  then have "list_all2 (\<lambda>s d. resolve_source_dependency ie installed s = Inr d) (s_dependencies m) deps"
    by (auto simp: list_all2_conv_all_nth list_eq_iff_nth_eq)
  then show ?thesis
    by (rule list_all2_mono) (auto simp: resolve_source_dependency_def res_bind_Inr_iff)
qed

lemma install_Inr:
  assumes "install ie root source_dir fs = (Inr i, fs')"
  obtains dir m installed fs1 deps built fs2 digest fs3 staging staged fs4 where
    "canonicalize fs source_dir = Inr dir" "read_source_manifest ie (dir @ [''manifest.json'']) fs = Inr m"
    "SourceSkillManifest_validate m = Inr ()" "load (ie_registry ie) root fs = (Inr installed, fs1)"
    "resolve_source_dependencies ie installed m = Inr deps" "build_source_artifact ie dir m fs1 = (Inr built, fs2)"
    "sha256_file (ie_registry ie) built fs2 = Inr digest" "create_install_staging_dir ie root digest fs2 = (Inr staging, fs3)"
    "stage_install_contents ie dir staging m deps built digest fs3 = (Inr staged, fs4)"
    "finish_install ie root staging (path_join (install_root_for root m) (digest_dir digest)) staged fs4 = (Inr i, fs')"
proof -
  from assms obtain dir m installed fs1 deps built fs2 digest staging fs3 where
    steps: "open_existing_directory ie source_dir fs = Inr dir" "read_source_manifest ie (dir @ [''manifest.json'']) fs = Inr m"
    "validate_source_manifest m = Inr ()" "load (ie_registry ie) root fs = (Inr installed, fs1)"
    "resolve_source_dependencies ie installed m = Inr deps" "build_source_artifact ie dir m fs1 = (Inr built, fs2)"
    "sha256_file (ie_registry ie) built fs2 = Inr digest" "create_install_staging_dir ie root digest fs2 = (Inr staging, fs3)"
    and rest: "(case stage_install_contents ie dir staging m deps built digest fs3 of
       (Inl e, fs) \<Rightarrow> (Inl e, snd (cleanup_install_staging_dir ie staging fs))
     | (Inr staged, fs) \<Rightarrow>
         finish_install ie root staging (path_join (install_root_for root m) (digest_dir digest)) staged fs) = (Inr i, fs')"
    unfolding install_def io_bind_Inr by auto
  from rest obtain staged fs4 where "stage_install_contents ie dir staging m deps built digest fs3 = (Inr staged, fs4)"
    "finish_install ie root staging (path_join (install_root_for root m) (digest_dir digest)) staged fs4 = (Inr i, fs')"
    by (auto split: prod.splits sum.splits)
  moreover have "canonicalize fs source_dir = Inr dir" "SourceSkillManifest_validate m = Inr ()"
    using steps(1,3) by (auto simp: open_existing_directory_def validate_source_manifest_def split: if_splits)
  ultimately show thesis
    using steps by (intro that)
qed

lemma staging_Inr:
  assumes "create_install_staging_dir ie root digest fs = (Inr staging, fs')"
  obtains c where "staging = root @ [''.source-install-staging'', c]" "c \<noteq> ''..''"
proof -
  have "digest_dir digest @ ''-'' @ s \<noteq> ''..''" for s
    by (cases "digest_dir digest") (auto simp: append_eq_Cons_conv)
  with assms that show thesis
    by (auto simp: create_install_staging_dir_def io_bind_Inr Let_def source_install_staging_root_def)
qed

section \<open>What an installation changes\<close>

text \<open>What an installation leaves alone: the entries of the root outside the staging directory.\<close>

definition install_frame :: "path \<Rightarrow> Fs \<Rightarrow> Fs \<Rightarrow> bool" where
  "install_frame root fs fs' \<longleftrightarrow> (\<forall>q e. prefix root q \<and> \<not> prefix (source_install_staging_root root) q
     \<and> fs_get fs q = Some e \<longrightarrow> fs_get fs' q = Some e)"

interpretation install_order: io_frame "install_frame root" for root
  by unfold_locales (auto simp: install_frame_def)

lemma install_frame_adds:
  assumes "\<And>q. \<not> prefix (source_install_staging_root root) q
    \<Longrightarrow> fs_get (snd m) q = fs_get fs q \<or> fs_get fs q = None \<and> fs_get (snd m) q = Some Dir"
  shows "io_keeps (install_frame root) fs m"
  using assms unfolding io_keeps_def install_frame_def by (metis option.distinct(1))

lemma install_frame_dirs: "io_keeps (install_frame root) fs (create_dir_all p fs)"
  by (rule install_frame_adds) (metis create_dir_all_get prod.collapse)

lemma install_frame_dirs_at: "io_keeps (install_frame root) fs (create_dir_all_at p fs)"
  by (rule install_frame_adds) (metis create_dir_all_at_get prod.collapse)

lemma install_frame_layout: "io_keeps (install_frame root) fs (ensure_registry_layout te r fs)"
  by (auto simp: ensure_registry_layout_def ensure_dir_def install_order.err
      intro!: install_order.pure install_order.bind install_frame_dirs)

lemma install_frame_copy_at:
  "prefix (source_install_staging_root root) dst \<Longrightarrow> io_keeps (install_frame root) fs (copy_at src dst fs)"
  by (rule install_frame_adds) (metis copy_at_get prod.collapse)

lemma install_frame_copy_file:
  assumes "prefix (source_install_staging_root root) dst" "''..'' \<notin> set dst"
  shows "io_keeps (install_frame root) fs (copy_file src dst fs)"
proof -
  have "q = dst" if "fs_resolve fs dst = Inr q" for q
    using that resolve_plain[OF assms(2)] by (fastforce simp: fs_resolve_def)
  with assms(1) show ?thesis
    by (auto simp: copy_file_def split: sum.splits intro: install_order.pure install_frame_copy_at)
qed

lemma install_frame_write_json:
  "prefix (source_install_staging_root root) p \<Longrightarrow> io_keeps (install_frame root) fs (write_json io_text p text fs)"
  by (rule install_frame_adds) (metis write_json_get prod.collapse)

lemma install_frame_cleanup:
  "prefix (source_install_staging_root root) d \<Longrightarrow> io_keeps (install_frame root) fs (cleanup_install_staging_dir ie d fs)"
  by (rule install_frame_adds) (metis cleanup_get prefix_order.trans)

lemma install_frame_rename:
  "prefix (source_install_staging_root root) src \<Longrightarrow> io_keeps (install_frame root) fs (rename_dir src dst fs)"
  unfolding io_keeps_def install_frame_def by (metis rename_dir_keeps prefix_order.trans prod.collapse)

text \<open>The stages: copies go into the staging directory as long as no support file is named with \<open>..\<close>.\<close>

definition plain_uri :: "string \<Rightarrow> bool" where
  "plain_uri uri \<longleftrightarrow> ''..'' \<notin> set (path_components uri)"

definition source_support_uris :: "SourceSkillManifest \<Rightarrow> string list" where
  "source_support_uris m =
     [input_schema_uri (s_interface m), output_schema_uri (s_interface m)]
     @ (case examples_uri (s_interface m) of None \<Rightarrow> [] | Some u \<Rightarrow> [u])
     @ (case spkg_sbom_uri (s_package m) of None \<Rightarrow> [] | Some u \<Rightarrow> [u])
     @ (case spkg_signature_uri (s_package m) of None \<Rightarrow> [] | Some u \<Rightarrow> [u])
     @ concat (map (\<lambda>t. [fixtures_uri t, expected_output_uri t]) (s_tests m))"

lemma path_join_staged:
  assumes "prefix s d" "''..'' \<notin> set d" "plain_uri uri" "\<not> path_is_absolute uri"
  shows "prefix s (path_join d uri) \<and> ''..'' \<notin> set (path_join d uri)"
  using assms by (auto simp: path_join_def plain_uri_def)

lemma install_frame_support:
  assumes "prefix (source_install_staging_root root) d" "''..'' \<notin> set d" "plain_uri uri"
  shows "io_keeps (install_frame root) fs (copy_relative_file ie src d uri fs)"
    "io_keeps (install_frame root) fs (copy_optional_relative_file ie src d uri fs)"
proof -
  have local: "\<not> path_is_absolute uri" if "resolve_local_file src uri = Inr p" for p
    using that by (auto simp: resolve_local_file_def split: if_splits)
  show *: "io_keeps (install_frame root) fs (copy_relative_file ie src d uri fs)" for fs
    using path_join_staged[OF assms local]
    by (auto simp: copy_relative_file_def Let_def install_order.err
        intro!: install_order.pure install_order.bind install_frame_dirs_at install_frame_copy_file)
  show "io_keeps (install_frame root) fs (copy_optional_relative_file ie src d uri fs)"
    by (auto simp: copy_optional_relative_file_def intro!: install_order.pure install_order.bind *)
qed

lemma run_all_keeps:
  "(\<And>f fs. f \<in> set ops \<Longrightarrow> io_keeps (install_frame root) fs (f fs)) \<Longrightarrow> io_keeps (install_frame root) fs (run_all ops fs)"
  by (induction ops arbitrary: fs) (auto intro!: install_order.pure install_order.bind)

lemma install_frame_stage:
  assumes "prefix (source_install_staging_root root) d" "''..'' \<notin> set d" "\<And>u. u \<in> set (source_support_uris m) \<Longrightarrow> plain_uri u"
  shows "io_keeps (install_frame root) fs (stage_install_contents ie src d m deps built digest fs)"
proof -
  have "io_keeps (install_frame root) fs (stage_support_files ie src d m fs)" for fs
    unfolding stage_support_files_def Let_def
    by (rule run_all_keeps)
      (auto simp: source_support_uris_def split: option.splits intro!: install_frame_support assms)
  with assms(1) show ?thesis
    by (auto simp: stage_install_contents_def Let_def install_order.err
        intro!: install_order.pure install_order.bind install_frame_copy_at install_frame_write_json)
qed

lemma install_frame_finish:
  assumes "prefix (source_install_staging_root root) d"
  shows "io_keeps (install_frame root) fs (finish_install ie root d dir staged fs)"
proof -
  have clean: "io_keeps (install_frame root) fs (r, snd (cleanup_install_staging_dir ie d fs))" for r fs
    using install_frame_cleanup[OF assms] by (simp add: io_keeps_def)
  show ?thesis
    unfolding finish_install_def
    by (auto simp: ensure_install_parent_def move_staged_install_def install_order.err split_beta split: option.splits
        intro!: install_order.pure install_order.bind install_frame_dirs_at install_frame_rename[OF assms] clean)
qed

lemma install_frame_load: "io_keeps (install_frame root) fs (load rg r fs)"
  by (auto simp: load_def split: option.splits intro!: install_order.pure install_order.bind install_frame_layout)

lemma install_frame_build:
  assumes "\<And>p t fs q. prefix root q \<Longrightarrow> fs_get (snd (ie_cargo ie p t fs)) q = fs_get fs q"
  shows "io_keeps (install_frame root) fs (build_source_artifact ie dir m fs)"
proof -
  have "io_keeps (install_frame root) fs (ie_cargo ie p t fs)" for p t fs
    by (simp add: io_keeps_def install_frame_def assms)
  then show ?thesis
    by (auto simp: build_source_artifact_def install_order.err intro!: install_order.pure install_order.bind)
qed

lemma install_frame_staging: "io_keeps (install_frame root) fs (create_install_staging_dir ie root digest fs)"
  by (auto simp: create_install_staging_dir_def Let_def install_order.err
      intro!: install_order.pure install_order.bind install_frame_dirs)

section \<open>Claims\<close>


definition sample_cargo_message :: json where
  "sample_cargo_message = json_obj [(''reason'', JString ''compiler-artifact''), (''manifest_path'', JString ''/s/Cargo.toml''),
     (''filenames'', JArray [JString ''/s/target/disk.wasm''])]"

definition sample_install_env :: InstallEnv where
  "sample_install_env =
     \<lparr>ie_registry = sample_local_env\<lparr>rg_manifest_text := (\<lambda>m. if m = sample_bundled then Inr ''m'' else Inl ''unsupported'')\<rparr>,
      ie_cargo = (\<lambda>p target fs. (Inr \<lparr>co_success = True, co_code = Some 0, co_stdout = ''A'', co_stderr = []\<rparr>,
        fs_put [''s'', ''target'', ''disk.wasm''] (File ''w'') (fs_put [''s'', ''target''] Dir fs))),
      ie_json_line = (\<lambda>l. if l = ''A'' then Some sample_cargo_message else None),
      ie_utf8_lossy = (\<lambda>s. s), ie_current_dir = [''s''], ie_staging_suffix = (\<lambda>_. ''1-1''),
      ie_req_matches = (\<lambda>_ _. True), ie_ver_le = (\<lambda>_ _. True)\<rparr>"

definition sample_source_tree :: Fs where
  "sample_source_tree = \<lparr>fs_entries =
     [([], Dir), ([''g''], Dir), ([''s''], Dir), ([''s'', ''manifest.json''], File ''src''), ([''s'', ''Cargo.toml''], File ''c''),
      ([''s'', ''schemas''], Dir), ([''s'', ''schemas'', ''in.json''], File ''{}''), ([''s'', ''schemas'', ''out.json''], File ''{}'')],
     fs_faults = [], fs_minted = 0\<rparr>"


text \<open>C26: Installing never touches what is there. Whatever fails on the way, an installation leaves every entry of the
  root outside its staging directory as it was, when the build leaves the root alone and no support file
  of the source manifest is named with \<open>..\<close>.\<close>

theorem install_only_adds:
  assumes run: "install ie root source_dir fs = (r, fs')" and root: "''..'' \<notin> set root"
    and cargo: "\<And>p t fs q. prefix root q \<Longrightarrow> fs_get (snd (ie_cargo ie p t fs)) q = fs_get fs q"
    and uris: "\<And>dir m u. canonicalize fs source_dir = Inr dir \<Longrightarrow> read_source_manifest ie (dir @ [''manifest.json'']) fs = Inr m
      \<Longrightarrow> u \<in> set (source_support_uris m) \<Longrightarrow> plain_uri u"
    and "prefix root q" "\<not> prefix (source_install_staging_root root) q" "fs_get fs q = Some e"
  shows "fs_get fs' q = Some e"
proof -
  have stage: "io_keeps (install_frame root) fs2
      (case stage_install_contents ie dir staging m deps built digest fs2 of
         (Inl e, fs) \<Rightarrow> (Inl e, snd (cleanup_install_staging_dir ie staging fs))
       | (Inr staged, fs) \<Rightarrow> finish_install ie root staging (path_join (install_root_for root m) (digest_dir digest)) staged fs)"
    if made: "create_install_staging_dir ie root digest fs1 = (Inr staging, fs2)" and plain: "\<And>u. u \<in> set (source_support_uris m) \<Longrightarrow> plain_uri u"
    for staging dir m deps built digest fs1 fs2
  proof -
    from made obtain c where "staging = root @ [''.source-install-staging'', c]" "c \<noteq> ''..''"
      by (rule staging_Inr)
    then have in_staging: "prefix (source_install_staging_root root) staging" "''..'' \<notin> set staging"
      using root by (auto simp: source_install_staging_root_def)
    obtain s fs3 where s: "stage_install_contents ie dir staging m deps built digest fs2 = (s, fs3)"
      by fastforce
    have "install_frame root fs2 fs3"
      using install_frame_stage[OF in_staging plain, of m fs2 ie dir deps built digest] s by (simp add: io_keeps_def)
    moreover have "io_keeps (install_frame root) fs3 (cleanup_install_staging_dir ie staging fs3)"
      using in_staging(1) by (rule install_frame_cleanup)
    moreover have "io_keeps (install_frame root) fs3 (finish_install ie root staging p i fs3)" for p i
      using in_staging(1) by (rule install_frame_finish)
    ultimately show ?thesis
      by (auto simp: s io_keeps_def split: sum.splits intro: install_order.keeps_trans)
  qed
  have "io_keeps (install_frame root) fs (install ie root source_dir fs)"
    unfolding install_def
    by (intro install_order.bind install_order.pure install_frame_load install_frame_build[OF cargo] install_frame_staging stage)
      (auto simp: open_existing_directory_def intro: uris split: if_splits)
  with run assms(5-7) show ?thesis
    by (auto simp: io_keeps_def install_frame_def)
qed

definition sample_kept_tree :: Fs where
  "sample_kept_tree = fs_put [''g'', ''policy.json''] (File ''p'') sample_source_tree"

theorem install_only_adds_witness:
  "fs_get (snd (install sample_install_env [''g''] [''s''] sample_kept_tree)) [''g'', ''policy.json''] = Some (File ''p'')"
proof (rule install_only_adds[OF prod.collapse[symmetric], of "[''g'']"])
  show "fs_get (snd (ie_cargo sample_install_env p t fs)) q = fs_get fs q" if "prefix [''g''] q" for p t fs q
    using that by (auto simp: sample_install_env_def)
  fix dir m u
  assume "canonicalize sample_kept_tree [''s''] = Inr dir" "read_source_manifest sample_install_env (dir @ [''manifest.json'']) sample_kept_tree = Inr m"
  moreover have "canonicalize sample_kept_tree [''s''] = Inr [''s'']"
    "read_source_manifest sample_install_env [''s'', ''manifest.json''] sample_kept_tree = Inr sample_source"
    "list_all plain_uri (source_support_uris sample_source)"
    by code_simp+
  moreover assume "u \<in> set (source_support_uris m)"
  ultimately show "plain_uri u"
    by (auto simp: list_all_iff)
qed (simp_all add: source_install_staging_root_def sample_kept_tree_def)

text \<open>
  The condition on support files is needed: validation accepts a URI with \<open>..\<close>, the staged copy then
  replaces a file of the root outside the staging directory, and the target is moved into \<open>installed\<close>
  before it fails to load, so that from then on the whole root does.
\<close>

definition sample_escaping_source :: SourceSkillManifest where
  "sample_escaping_source = sample_source\<lparr>s_interface :=
     (s_interface sample_source)\<lparr>input_schema_uri := ''../../trust/publishers/acme.json''\<rparr>\<rparr>"

definition sample_escaping_env :: InstallEnv where
  "sample_escaping_env = sample_install_env\<lparr>ie_registry := sample_local_env\<lparr>
     rg_manifest_text := (\<lambda>_. Inr ''m''),
     rg_manifest_parse := (\<lambda>s. if s = ''m'' then Inr (into_installed sample_escaping_source ''./component.wasm'' ''sha256:00'' []) else Inl ''eof''),
     rg_source_parse := (\<lambda>s. if s = ''src'' then Inr sample_escaping_source else Inl ''eof'')\<rparr>\<rparr>"

definition sample_escaping_tree :: Fs where
  "sample_escaping_tree = sample_kept_tree\<lparr>fs_entries := fs_entries sample_kept_tree @
     [([''g'', ''trust''], Dir), ([''g'', ''trust'', ''publishers''], Dir),
      ([''g'', ''trust'', ''publishers'', ''acme.json''], File ''p''),
      ([''trust''], Dir), ([''trust'', ''publishers''], Dir), ([''trust'', ''publishers'', ''acme.json''], File ''forged'')]\<rparr>"

theorem support_file_escapes_staging:
  "SourceSkillManifest_validate sample_escaping_source = Inr ()
   \<and> \<not> isl (load_existing (ie_registry sample_escaping_env) [''g''] sample_escaping_tree)
   \<and> fs_get sample_escaping_tree [''g'', ''trust'', ''publishers'', ''acme.json''] = Some (File ''p'')
   \<and> (case install sample_escaping_env [''g''] [''s''] sample_escaping_tree of
       (r, fs') \<Rightarrow> isl r \<and> fs_get fs' [''g'', ''trust'', ''publishers'', ''acme.json''] = Some (File ''forged'')
         \<and> isl (load_existing (ie_registry sample_escaping_env) [''g''] fs'))"
  by code_simp

end
