(* ===== verification/Guild_Oci.thy ===== *)
theory Guild_Oci
  imports Guild_Import
begin

text \<open>
  OCI artifacts of signed bundles (\<open>crates/guild-registry/src/oci_layout.rs\<close> and the references of \<open>lib.rs\<close>): a bundle
  payload as an image manifest whose config is the bundle index and whose layers are the signature and
  the files, in a layout directory or a remote registry, and the way back to a staged bundle.

  \<open>OciEnv\<close> adds the JSON codecs of layouts, indices and image manifests to \<open>RegistryEnv\<close>. Annotations are
  association lists; a \<open>BTreeMap\<close> is an association list whose keys are visited in order.
\<close>

section \<open>Artifacts\<close>

definition OCI_IMAGE_LAYOUT_VERSION :: string where
  "OCI_IMAGE_LAYOUT_VERSION = ''1.0.0''"

definition OCI_IMAGE_INDEX_MEDIA_TYPE :: string where
  "OCI_IMAGE_INDEX_MEDIA_TYPE = ''application/vnd.oci.image.index.v1+json''"

definition OCI_IMAGE_MANIFEST_MEDIA_TYPE :: string where
  "OCI_IMAGE_MANIFEST_MEDIA_TYPE = ''application/vnd.oci.image.manifest.v1+json''"

definition GUILD_OCI_ARTIFACT_TYPE :: string where
  "GUILD_OCI_ARTIFACT_TYPE = ''application/vnd.guild.installed-bundle.oci.v1''"

definition GUILD_BUNDLE_CONFIG_MEDIA_TYPE :: string where
  "GUILD_BUNDLE_CONFIG_MEDIA_TYPE = ''application/vnd.guild.installed-bundle.v2+json''"

definition GUILD_BUNDLE_SIGNATURE_MEDIA_TYPE :: string where
  "GUILD_BUNDLE_SIGNATURE_MEDIA_TYPE = ''application/vnd.guild.installed-bundle.signature.v1+json''"

definition GUILD_BUNDLE_FILE_MEDIA_TYPE :: string where
  "GUILD_BUNDLE_FILE_MEDIA_TYPE = ''application/vnd.guild.installed-bundle.file.v1''"

definition OCI_TITLE_ANNOTATION :: string where
  "OCI_TITLE_ANNOTATION = ''org.opencontainers.image.title''"

definition GUILD_ROOT_KEY_ANNOTATION :: string where
  "GUILD_ROOT_KEY_ANNOTATION = ''dev.guild.root-skill.key''"

definition GUILD_ROOT_VERSION_ANNOTATION :: string where
  "GUILD_ROOT_VERSION_ANNOTATION = ''dev.guild.root-skill.version''"

definition GUILD_ROOT_DIGEST_ANNOTATION :: string where
  "GUILD_ROOT_DIGEST_ANNOTATION = ''dev.guild.root-skill.digest''"

definition GUILD_PUBLISHER_ID_ANNOTATION :: string where
  "GUILD_PUBLISHER_ID_ANNOTATION = ''dev.guild.publisher.id''"

definition GUILD_CLOSURE_ANNOTATION :: string where
  "GUILD_CLOSURE_ANNOTATION = ''dev.guild.includes-dependency-closure''"

type_synonym annotations = "(string \<times> string) list"

record OciDescriptor =
  od_media_type :: string
  od_digest :: string
  od_size :: u64
  od_annotations :: "annotations option"

record OciImageIndex =
  ox_schema_version :: "32 word"
  ox_manifests :: "OciDescriptor list"

record OciImageManifest =
  om_schema_version :: "32 word"
  om_artifact_type :: "string option"
  om_config :: OciDescriptor
  om_layers :: "OciDescriptor list"

record OciLayoutMetadata =
  image_layout_version :: string

record OciBlob =
  ob_descriptor :: OciDescriptor
  ob_bytes :: string

record BuiltOciArtifact =
  ba_index_bytes :: string
  ba_manifest_bytes :: string
  ba_root_descriptor :: OciDescriptor
  ba_config :: OciBlob
  ba_layers :: "OciBlob list"

record DecodedOciFile =
  df_relative_path :: string
  df_bytes :: string

record DecodedOciArtifact =
  da_bundle_bytes :: string
  da_signature_bytes :: string
  da_files :: "DecodedOciFile list"

record ValidatedOciManifest =
  vm_root_descriptor :: OciDescriptor
  vm_manifest :: OciImageManifest

record DecodedBundleMetadata =
  dm_bundle :: InstalledSkillBundle
  dm_bundle_bytes :: string
  dm_signature_bytes :: string

record OciEnv =
  oc_registry :: RegistryEnv
  oc_layout_text :: "OciLayoutMetadata \<Rightarrow> string + string"
  oc_layout_parse :: "string \<Rightarrow> string + OciLayoutMetadata"
  oc_index_text :: "OciImageIndex \<Rightarrow> string + string"
  oc_index_parse :: "string \<Rightarrow> string + OciImageIndex"
  oc_manifest_text :: "OciImageManifest \<Rightarrow> string + string"
  oc_manifest_parse :: "string \<Rightarrow> string + OciImageManifest"

definition oc_io_text :: "OciEnv \<Rightarrow> IoError \<Rightarrow> string" where
  "oc_io_text oc = rg_io_text (oc_registry oc)"

definition sha256_digest :: "OciEnv \<Rightarrow> string \<Rightarrow> string" where
  "sha256_digest oc bytes = ''sha256:'' @ te_sha256_hex (rg_trust (oc_registry oc)) bytes"

definition json_bytes :: "string + string \<Rightarrow> RegistryError + string" where
  "json_bytes text = map_err (caused_by ''json-serialize-failed'' ''failed to serialize JSON'') text"

section \<open>Descriptors\<close>

definition single_annotation :: "string \<Rightarrow> string \<Rightarrow> annotations" where
  "single_annotation key v = [(key, v)]"

definition descriptor_annotation :: "OciDescriptor \<Rightarrow> string \<Rightarrow> string option" where
  "descriptor_annotation d key = Option.bind (od_annotations d) (\<lambda>a. map_of a key)"

text \<open>\<open>u64::try_from\<close> of a length.\<close>

definition u64_try_from :: "usize \<Rightarrow> u64 option" where
  "u64_try_from n = (if int n < 2 ^ 64 then Some (of_nat n) else None)"

lemma u64_try_from_nat: "u64_try_from n = (if n < 2 ^ 64 then Some (of_nat n) else None)"
proof -
  have "int n < 2 ^ 64 \<longleftrightarrow> n < 2 ^ 64"
    by (metis of_nat_less_iff of_nat_numeral of_nat_power)
  then show ?thesis
    by (simp add: u64_try_from_def)
qed

definition descriptor_for_blob :: "OciEnv \<Rightarrow> string \<Rightarrow> string \<Rightarrow> annotations option \<Rightarrow> RegistryError + OciDescriptor" where
  "descriptor_for_blob oc media_type bytes annotations =
     (case u64_try_from (length bytes) of
        None \<Rightarrow> Inl (RegistryError_new ''oci-layout-blob-size-invalid'' ''OCI layout blob size exceeded the supported descriptor range'')
      | Some blob_size \<Rightarrow> Inr \<lparr>od_media_type = media_type, od_digest = sha256_digest oc bytes, od_size = blob_size,
             od_annotations = annotations\<rparr>)"

definition validate_descriptor_bytes ::
  "OciEnv \<Rightarrow> string \<Rightarrow> OciDescriptor \<Rightarrow> string \<Rightarrow> string \<Rightarrow> string \<Rightarrow> string \<Rightarrow> RegistryError + unit" where
  "validate_descriptor_bytes oc bytes d size_invalid_code size_mismatch_code digest_mismatch_code artifact_label =
     (case u64_try_from (length bytes) of
        None \<Rightarrow> Inl (RegistryError_new size_invalid_code (artifact_label @ '' blob size exceeded the supported descriptor range''))
      | Some actual_size \<Rightarrow>
          if actual_size \<noteq> od_size d
          then Inl (registry_detail (json_obj
                 [(''digest'', JString (od_digest d)), (''expected'', json_word (od_size d)), (''actual'', json_word actual_size)])
                 (RegistryError_new size_mismatch_code (artifact_label @ '' blob size did not match its descriptor'')))
          else if sha256_digest oc bytes \<noteq> od_digest d
          then Inl (registry_detail (json_obj
                 [(''expected'', JString (od_digest d)), (''actual'', JString (sha256_digest oc bytes))])
                 (RegistryError_new digest_mismatch_code (artifact_label @ '' blob digest did not match its descriptor'')))
          else Inr ())"

definition validate_layout_bytes :: "OciEnv \<Rightarrow> string \<Rightarrow> OciDescriptor \<Rightarrow> RegistryError + unit" where
  "validate_layout_bytes oc bytes d =
     validate_descriptor_bytes oc bytes d ''oci-layout-blob-size-invalid'' ''oci-layout-blob-size-mismatch''
       ''oci-layout-blob-digest-mismatch'' ''OCI layout''"

definition validate_registry_bytes :: "OciEnv \<Rightarrow> string \<Rightarrow> OciDescriptor \<Rightarrow> RegistryError + unit" where
  "validate_registry_bytes oc bytes d =
     validate_descriptor_bytes oc bytes d ''oci-registry-blob-size-invalid'' ''oci-registry-blob-size-mismatch''
       ''oci-registry-blob-digest-mismatch'' ''OCI registry''"

definition root_skill_key :: "InstalledSkillBundle \<Rightarrow> string" where
  "root_skill_key bundle = sk_namespace (rs_key (bu_root_skill bundle)) @ ''/'' @ sk_name (rs_key (bu_root_skill bundle))"

definition root_skill_title :: "InstalledSkillBundle \<Rightarrow> string" where
  "root_skill_title bundle = root_skill_key bundle @ '':'' @ rs_version (bu_root_skill bundle)"

text \<open>In the order of the keys.\<close>

definition root_descriptor_annotations :: "InstalledSkillBundle \<Rightarrow> annotations" where
  "root_descriptor_annotations bundle =
     [(GUILD_CLOSURE_ANNOTATION, if bu_includes_dependency_closure bundle then ''true'' else ''false''),
      (GUILD_PUBLISHER_ID_ANNOTATION, publisher_id (bu_publisher bundle)),
      (GUILD_ROOT_DIGEST_ANNOTATION, rs_digest (bu_root_skill bundle)),
      (GUILD_ROOT_KEY_ANNOTATION, root_skill_key bundle),
      (GUILD_ROOT_VERSION_ANNOTATION, rs_version (bu_root_skill bundle)),
      (OCI_TITLE_ANNOTATION, root_skill_title bundle)]"

fun check_annotations :: "annotations \<Rightarrow> annotations \<Rightarrow> RegistryError + unit" where
  "check_annotations actual [] = Inr ()"
| "check_annotations actual ((key, v) # expected) =
     (case map_of actual key of
        None \<Rightarrow> Inl (caused_by ''oci-layout-index-invalid'' ''OCI root descriptor was missing a required Guild annotation'' key)
      | Some a \<Rightarrow>
          if a \<noteq> v
          then Inl (registry_detail (json_obj [(''annotation'', JString key), (''expected'', JString v), (''actual'', JString a)])
                 (RegistryError_new ''oci-layout-index-invalid''
                    ''OCI root descriptor annotation did not match the signed bundle root metadata''))
          else check_annotations actual expected)"

definition validate_root_descriptor_annotations :: "OciDescriptor \<Rightarrow> InstalledSkillBundle \<Rightarrow> RegistryError + unit" where
  "validate_root_descriptor_annotations d bundle =
     (case od_annotations d of
        None \<Rightarrow> Inl (RegistryError_new ''oci-layout-index-invalid'' ''OCI root descriptor was missing Guild root annotations'')
      | Some a \<Rightarrow> check_annotations a (root_descriptor_annotations bundle))"

section \<open>Building\<close>

definition file_layer :: "OciEnv \<Rightarrow> Fs \<Rightarrow> PortableBundleFile \<Rightarrow> RegistryError + OciBlob" where
  "file_layer oc fs f =
     res_bind (map_err (\<lambda>e. registry_detail (json_obj
         [(''path'', JString (path_display (pf_source_path f))), (''cause'', JString (oc_io_text oc e))])
         (RegistryError_new ''oci-layout-file-read-failed'' ''failed to read installed content while exporting OCI layout''))
       (read_bytes fs (pf_source_path f))) (\<lambda>bytes.
     res_bind (descriptor_for_blob oc GUILD_BUNDLE_FILE_MEDIA_TYPE bytes
         (Some (single_annotation OCI_TITLE_ANNOTATION (pf_relative_path f)))) (\<lambda>d.
     if od_digest d \<noteq> pf_sha256 f
     then Inl (registry_detail (json_obj
            [(''path'', JString (pf_relative_path f)), (''expected'', JString (pf_sha256 f)), (''actual'', JString (od_digest d))])
            (RegistryError_new ''oci-layout-file-digest-mismatch''
               ''OCI layout file blob digest did not match the signed bundle file digest''))
     else Inr \<lparr>ob_descriptor = d, ob_bytes = bytes\<rparr>))"

definition build_oci_artifact :: "OciEnv \<Rightarrow> SignedBundlePayload \<Rightarrow> Fs \<Rightarrow> RegistryError + BuiltOciArtifact" where
  "build_oci_artifact oc payload fs =
     res_bind (descriptor_for_blob oc GUILD_BUNDLE_CONFIG_MEDIA_TYPE (sp_bundle_bytes payload)
         (Some (single_annotation OCI_TITLE_ANNOTATION ''bundle.json''))) (\<lambda>config.
     res_bind (json_bytes (rg_signature_text (oc_registry oc) (sp_signature payload))) (\<lambda>signature_bytes.
     res_bind (descriptor_for_blob oc GUILD_BUNDLE_SIGNATURE_MEDIA_TYPE signature_bytes
         (Some (single_annotation OCI_TITLE_ANNOTATION ''bundle.signature.json''))) (\<lambda>signature_descriptor.
     res_bind (collect_results (map (file_layer oc fs) (sp_files payload))) (\<lambda>file_layers.
     let layers = \<lparr>ob_descriptor = signature_descriptor, ob_bytes = signature_bytes\<rparr> # file_layers
     in res_bind (json_bytes (oc_manifest_text oc
            \<lparr>om_schema_version = 2, om_artifact_type = Some GUILD_OCI_ARTIFACT_TYPE, om_config = config,
             om_layers = map ob_descriptor layers\<rparr>)) (\<lambda>manifest_bytes.
        res_bind (descriptor_for_blob oc OCI_IMAGE_MANIFEST_MEDIA_TYPE manifest_bytes None) (\<lambda>d.
        let root_descriptor = d\<lparr>od_annotations := Some (root_descriptor_annotations (sp_bundle payload))\<rparr>
        in res_bind (json_bytes (oc_index_text oc \<lparr>ox_schema_version = 2, ox_manifests = [root_descriptor]\<rparr>)) (\<lambda>index_bytes.
           Inr \<lparr>ba_index_bytes = index_bytes, ba_manifest_bytes = manifest_bytes, ba_root_descriptor = root_descriptor,
                ba_config = \<lparr>ob_descriptor = config, ob_bytes = sp_bundle_bytes payload\<rparr>, ba_layers = layers\<rparr>)))))))"

section \<open>Decoding\<close>

definition parse_and_validate_root_index :: "OciEnv \<Rightarrow> string \<Rightarrow> RegistryError + OciDescriptor" where
  "parse_and_validate_root_index oc index_bytes =
     res_bind (map_err (caused_by ''oci-layout-index-parse-failed'' ''failed to parse OCI image index'')
       (oc_index_parse oc index_bytes)) (\<lambda>index.
     if ox_schema_version index \<noteq> 2
     then Inl (registry_detail (json_word (ox_schema_version index))
            (RegistryError_new ''oci-layout-index-invalid'' ''OCI image index used an unsupported schema version''))
     else case ox_manifests index of
       [root_descriptor] \<Rightarrow>
         if od_media_type root_descriptor \<noteq> OCI_IMAGE_MANIFEST_MEDIA_TYPE
         then Inl (caused_by ''oci-layout-index-invalid''
                ''OCI image index root descriptor must reference an OCI image manifest'' (od_media_type root_descriptor))
         else Inr root_descriptor
     | ms \<Rightarrow> Inl (registry_detail (json_nat (length ms))
         (RegistryError_new ''oci-layout-index-invalid'' ''OCI image index must contain exactly one root manifest descriptor'')))"

definition parse_and_validate_root_manifest :: "OciEnv \<Rightarrow> string \<Rightarrow> RegistryError + OciImageManifest" where
  "parse_and_validate_root_manifest oc manifest_bytes =
     res_bind (map_err (caused_by ''oci-layout-manifest-parse-failed'' ''failed to parse OCI root manifest'')
       (oc_manifest_parse oc manifest_bytes)) (\<lambda>m.
     if om_schema_version m \<noteq> 2
     then Inl (registry_detail (json_word (om_schema_version m))
            (RegistryError_new ''oci-layout-manifest-invalid'' ''OCI root manifest used an unsupported schema version''))
     else if om_artifact_type m \<noteq> Some GUILD_OCI_ARTIFACT_TYPE
     then Inl (registry_detail (json_opt JString (om_artifact_type m))
            (RegistryError_new ''oci-layout-manifest-invalid'' ''OCI root manifest used an unsupported Guild artifact type''))
     else if od_media_type (om_config m) \<noteq> GUILD_BUNDLE_CONFIG_MEDIA_TYPE
     then Inl (caused_by ''oci-layout-manifest-invalid'' ''OCI root manifest config did not carry a Guild bundle index''
            (od_media_type (om_config m)))
     else Inr m)"

definition load_validated_root_manifest ::
  "OciEnv \<Rightarrow> string \<Rightarrow> (OciDescriptor \<Rightarrow> RegistryError + string) \<Rightarrow> RegistryError + ValidatedOciManifest" where
  "load_validated_root_manifest oc index_bytes load_blob =
     res_bind (parse_and_validate_root_index oc index_bytes) (\<lambda>root_descriptor.
     res_bind (load_blob root_descriptor) (\<lambda>manifest_bytes.
     res_bind (parse_and_validate_root_manifest oc manifest_bytes) (\<lambda>m.
     Inr \<lparr>vm_root_descriptor = root_descriptor, vm_manifest = m\<rparr>)))"

definition find_signature_descriptor :: "OciImageManifest \<Rightarrow> RegistryError + OciDescriptor" where
  "find_signature_descriptor m =
     (case filter (\<lambda>l. od_media_type l = GUILD_BUNDLE_SIGNATURE_MEDIA_TYPE) (om_layers m) of
        [] \<Rightarrow> Inl (RegistryError_new ''oci-layout-signature-missing''
                ''OCI root manifest did not include a Guild bundle signature layer'')
      | [d] \<Rightarrow> Inr d
      | ds \<Rightarrow> Inl (registry_detail (json_nat (length ds)) (RegistryError_new ''oci-layout-signature-duplicate''
                ''OCI root manifest included multiple Guild bundle signature layers'')))"

definition decode_bundle_metadata ::
  "OciEnv \<Rightarrow> OciDescriptor \<Rightarrow> OciImageManifest \<Rightarrow> (OciDescriptor \<Rightarrow> RegistryError + string)
     \<Rightarrow> RegistryError + DecodedBundleMetadata" where
  "decode_bundle_metadata oc root_descriptor m load_blob =
     res_bind (load_blob (om_config m)) (\<lambda>bundle_bytes.
     res_bind (parse_bundle_index (oc_registry oc) bundle_bytes) (\<lambda>bundle.
     res_bind (validate_root_descriptor_annotations root_descriptor bundle) (\<lambda>_.
     res_bind (find_signature_descriptor m) (\<lambda>signature_descriptor.
     res_bind (load_blob signature_descriptor) (\<lambda>signature_bytes.
     res_bind (parse_bundle_signature_bytes (rg_trust (oc_registry oc)) signature_bytes) (\<lambda>s.
     if od_digest (om_config m) \<noteq> bse_bundle_sha256 s
     then Inl (registry_detail (json_obj
            [(''config_digest'', JString (od_digest (om_config m))), (''bundle_sha256'', JString (bse_bundle_sha256 s))])
            (RegistryError_new ''oci-layout-config-digest-mismatch''
               ''OCI bundle config digest did not match the signed bundle digest''))
     else Inr \<lparr>dm_bundle = bundle, dm_bundle_bytes = bundle_bytes, dm_signature_bytes = signature_bytes\<rparr>))))))"

fun index_layers :: "(string \<times> OciDescriptor) list \<Rightarrow> OciDescriptor list \<Rightarrow> RegistryError + (string \<times> OciDescriptor) list" where
  "index_layers files [] = Inr files"
| "index_layers files (layer # layers) =
     (if od_media_type layer = GUILD_BUNDLE_SIGNATURE_MEDIA_TYPE then index_layers files layers
      else if od_media_type layer \<noteq> GUILD_BUNDLE_FILE_MEDIA_TYPE
      then Inl (caused_by ''oci-layout-manifest-invalid''
             ''OCI root manifest included an unsupported file layer media type'' (od_media_type layer))
      else
        res_bind (ok_or (caused_by ''oci-layout-file-annotation-missing''
            ''OCI file layer was missing its bundle-relative path annotation'' (od_digest layer))
          (descriptor_annotation layer OCI_TITLE_ANNOTATION)) (\<lambda>relative.
        res_bind (bundle_file_relative_from_str relative) (\<lambda>_.
        if relative \<in> fst ` set files
        then Inl (caused_by ''oci-layout-file-duplicate''
               ''OCI root manifest declared the same bundled file more than once'' relative)
        else index_layers ((relative, layer) # files) layers)))"

definition indexed_file_layers :: "OciImageManifest \<Rightarrow> RegistryError + (string \<times> OciDescriptor) list" where
  "indexed_file_layers m = index_layers [] (om_layers m)"

definition sorted_keys :: "(string \<times> 'v) list \<Rightarrow> string list" where
  "sorted_keys al = sort_cmp (cmp_by str_less) (map fst al)"

fun decode_files ::
  "OciEnv \<Rightarrow> (OciDescriptor \<Rightarrow> RegistryError + string) \<Rightarrow> (string \<times> OciDescriptor) list \<Rightarrow> BundleFileEntry list
     \<Rightarrow> RegistryError + DecodedOciFile list" where
  "decode_files oc load_blob files [] =
     (case sorted_keys files of
        [] \<Rightarrow> Inr []
      | extra # _ \<Rightarrow> Inl (caused_by ''oci-layout-unexpected-content''
          ''OCI artifact included a bundled file that was not listed in the signed bundle index'' extra))"
| "decode_files oc load_blob files (f # listed) =
     res_bind (ok_or (caused_by ''oci-layout-file-missing'' ''OCI artifact omitted a file listed by the signed bundle index''
         (bf_path f)) (map_of files (bf_path f))) (\<lambda>d.
     res_bind (load_blob d) (\<lambda>bytes.
     if sha256_digest oc bytes \<noteq> bf_sha256 f
     then Inl (registry_detail (json_obj
            [(''path'', JString (bf_path f)), (''expected'', JString (bf_sha256 f)), (''actual'', JString (sha256_digest oc bytes))])
            (RegistryError_new ''oci-layout-file-digest-mismatch''
               ''OCI file layer digest did not match the signed bundle file digest''))
     else
       res_bind (decode_files oc load_blob (AList.delete (bf_path f) files) listed) (\<lambda>rest.
       Inr (\<lparr>df_relative_path = bf_path f, df_bytes = bytes\<rparr> # rest))))"

definition decode_file_layers ::
  "OciEnv \<Rightarrow> InstalledSkillBundle \<Rightarrow> OciImageManifest \<Rightarrow> (OciDescriptor \<Rightarrow> RegistryError + string)
     \<Rightarrow> RegistryError + DecodedOciFile list" where
  "decode_file_layers oc bundle m load_blob =
     res_bind (indexed_file_layers m) (\<lambda>files. decode_files oc load_blob files (bu_files bundle))"

definition decode_oci_artifact ::
  "OciEnv \<Rightarrow> OciDescriptor \<Rightarrow> OciImageManifest \<Rightarrow> (OciDescriptor \<Rightarrow> RegistryError + string) \<Rightarrow> RegistryError + DecodedOciArtifact" where
  "decode_oci_artifact oc root_descriptor m load_blob =
     res_bind (decode_bundle_metadata oc root_descriptor m load_blob) (\<lambda>decoded.
     res_bind (decode_file_layers oc (dm_bundle decoded) m load_blob) (\<lambda>files.
     Inr \<lparr>da_bundle_bytes = dm_bundle_bytes decoded, da_signature_bytes = dm_signature_bytes decoded, da_files = files\<rparr>))"

section \<open>Validation of a decoded bundle\<close>

definition normalized_decoded_file_key :: "path \<Rightarrow> RegistryError + string" where
  "normalized_decoded_file_key p =
     (if ''..'' \<in> set p
      then Inl (caused_by ''bundle-file-path-invalid'' ''bundle.json file paths must stay under the installed/ subtree'' (slash_join p))
      else path_string (filter (\<lambda>c. c \<noteq> ''.'') p))"

definition decoded_file_bytes :: "(string \<times> string) list \<Rightarrow> path \<Rightarrow> string option" where
  "decoded_file_bytes files p = (case normalized_decoded_file_key p of Inl _ \<Rightarrow> None | Inr key \<Rightarrow> map_of files key)"

fun decoded_files_from :: "(string \<times> string) list \<Rightarrow> DecodedOciFile list \<Rightarrow> RegistryError + (string \<times> string) list" where
  "decoded_files_from indexed [] = Inr indexed"
| "decoded_files_from indexed (f # files) =
     res_bind (bundle_file_relative_from_str (df_relative_path f)) (\<lambda>relative.
     res_bind (normalized_decoded_file_key relative) (\<lambda>key.
     if key \<in> fst ` set indexed
     then Inl (caused_by ''bundle-index-invalid'' ''bundle.json declared the same bundled file more than once'' key)
     else decoded_files_from ((key, df_bytes f) # indexed) files))"

definition decoded_files_by_path :: "DecodedOciFile list \<Rightarrow> RegistryError + (string \<times> string) list" where
  "decoded_files_by_path files = decoded_files_from [] files"

definition decoded_installed_manifest :: "OciEnv \<Rightarrow> path \<Rightarrow> (string \<times> string) list \<Rightarrow> RegistryError + SkillManifest" where
  "decoded_installed_manifest oc p files =
     (case decoded_file_bytes files p of
        None \<Rightarrow>
          res_bind (path_string p) (\<lambda>name.
          Inl (registry_detail (json_obj [(''path'', JString name)]) (RegistryError_new ''bundle-content-missing''
            ''bundle.json referenced an installed skill directory that did not exist'')))
      | Some bytes \<Rightarrow>
          (case rg_manifest_parse (oc_registry oc) bytes of
             Inr m \<Rightarrow> Inr m
           | Inl e \<Rightarrow>
               if is_ok (rg_source_parse (oc_registry oc) bytes)
               then res_bind (path_string p) (\<lambda>name.
                    Inl (caused_by ''source-skill-not-installed''
                      ''source manifests are not executable; install the skill into a local registry first'' name))
               else Inl (caused_by ''manifest-parse-failed'' ''failed to parse installed manifest JSON'' e)))"

definition validate_decoded_support_file :: "path \<Rightarrow> (string \<times> string) list \<Rightarrow> string \<Rightarrow> RegistryError + unit" where
  "validate_decoded_support_file install_dir files uri =
     res_bind (map_err (\<lambda>e. registry_detail (json_obj [(''uri'', JString uri), (''error'', JString e)])
         (RegistryError_new ''staged-file-uri-invalid'' ''installed manifest referenced an unsupported local file URI''))
       (maybe_resolve_local_file install_dir uri)) (\<lambda>found.
     case found of
       None \<Rightarrow> Inr ()
     | Some p \<Rightarrow>
         if decoded_file_bytes files p = None
         then res_bind (path_string p) (\<lambda>name.
              Inl (caused_by ''staged-file-missing''
                ''installed manifest referenced a staged support file that did not exist'' name))
         else Inr ())"

definition validate_decoded_support_files :: "path \<Rightarrow> SkillManifest \<Rightarrow> (string \<times> string) list \<Rightarrow> RegistryError + unit" where
  "validate_decoded_support_files install_dir m files =
     res_bind (collect_results (map (validate_decoded_support_file install_dir files) (support_uris m))) (\<lambda>_. Inr ())"

text \<open>What the disk has no part in: the manifest, the artifact and the support files of one entry.\<close>

definition decoded_installed ::
  "OciEnv \<Rightarrow> (string \<times> string) list \<Rightarrow> path \<Rightarrow> RegistryError + InstalledSkill" where
  "decoded_installed oc files install_dir =
     res_bind (decoded_installed_manifest oc (install_dir @ [''manifest.json'']) files) (\<lambda>m.
     res_bind (validate_installed_manifest m) (\<lambda>_.
     res_bind (map_err (caused_by ''artifact-uri-invalid'' ''local registry only supports relative artifact paths'')
       (resolve_local_file install_dir (artifact_uri (package m)))) (\<lambda>artifact.
     res_bind (ok_or (caused_by ''artifact-missing'' ''artifact file does not exist'' (slash_join artifact))
       (decoded_file_bytes files artifact)) (\<lambda>bytes.
     if sha256_digest oc bytes \<noteq> artifact_digest (package m)
     then res_bind (path_string artifact) (\<lambda>name. Inl (registry_detail (json_obj
            [(''expected'', JString (artifact_digest (package m))), (''actual'', JString (sha256_digest oc bytes)),
             (''artifact_path'', JString name)])
            (RegistryError_new ''artifact-digest-mismatch'' ''artifact digest does not match manifest'')))
     else
       res_bind (validate_decoded_support_files install_dir m files) (\<lambda>_.
       Inr \<lparr>manifest = m,
            resolved_ref = \<lparr>rs_key = m_key m, rs_version = m_version m, rs_digest = sha256_digest oc bytes\<rparr>,
            manifest_path = install_dir @ [''manifest.json''], artifact_path = artifact, root_dir = install_dir,
            verification = None, trust = \<lparr>verification_state = LocalSource, trust_tier = LocalDev\<rparr>\<rparr>)))))"

fun validate_decoded_entries ::
  "OciEnv \<Rightarrow> InstalledSkillBundle \<Rightarrow> (string \<times> string) list \<Rightarrow> ResolvedSkillRef list \<Rightarrow> string list
     \<Rightarrow> InstalledBundleSkillEntry list \<Rightarrow> RegistryError + ValidatedBundleSkill list" where
  "validate_decoded_entries oc bundle files refs dirs [] = Inr []"
| "validate_decoded_entries oc bundle files refs dirs (entry # entries) =
     (if be_resolved_ref entry \<in> set refs
      then Inl (registry_detail (json_obj [(''resolved_ref'', ResolvedSkillRef_json (be_resolved_ref entry))])
             (RegistryError_new ''bundle-index-invalid'' ''bundle.json declared the same resolved skill more than once''))
      else
        res_bind (bundle_install_dir_relative_from_str (be_install_dir entry)) (\<lambda>install_dir.
        res_bind (path_string install_dir) (\<lambda>dir.
        if dir \<in> set dirs
        then Inl (caused_by ''bundle-index-invalid'' ''bundle.json declared the same install directory more than once'' dir)
        else
          res_bind (decoded_installed oc files install_dir) (\<lambda>i.
          if resolved_ref i \<noteq> be_resolved_ref entry
          then Inl (registry_detail (json_obj
                 [(''expected'', ResolvedSkillRef_json (be_resolved_ref entry)),
                  (''actual'', ResolvedSkillRef_json (resolved_ref i)), (''install_dir'', JString (be_install_dir entry))])
                 (RegistryError_new ''bundle-entry-mismatch''
                    ''bundled installed manifest did not match its declared resolved skill reference''))
          else if publisher_id (publisher (manifest i)) \<noteq> publisher_id (bu_publisher bundle)
          then Inl (registry_detail (json_obj
                 [(''bundle_publisher'', PublisherRef_json (bu_publisher bundle)),
                  (''manifest_publisher'', PublisherRef_json (publisher (manifest i))),
                  (''resolved_ref'', ResolvedSkillRef_json (resolved_ref i))])
                 (RegistryError_new ''bundle-publisher-mismatch''
                    ''bundled installed manifest publisher did not match the bundle publisher''))
          else
            res_bind (validate_decoded_entries oc bundle files (be_resolved_ref entry # refs) (dir # dirs) entries) (\<lambda>rest.
            Inr (\<lparr>vb_entry = entry, vb_install_dir = install_dir, vb_installed = i\<rparr> # rest))))))"

definition validate_decoded_bundle_skill_entries ::
  "OciEnv \<Rightarrow> InstalledSkillBundle \<Rightarrow> (string \<times> string) list \<Rightarrow> RegistryError + ValidatedBundleSkill list" where
  "validate_decoded_bundle_skill_entries oc bundle files = validate_decoded_entries oc bundle files [] [] (bu_skills bundle)"

definition validate_decoded_file :: "OciEnv \<Rightarrow> (string \<times> string) list \<Rightarrow> BundleFileEntry \<Rightarrow> RegistryError + unit" where
  "validate_decoded_file oc files f =
     res_bind (bundle_file_relative_from_str (bf_path f)) (\<lambda>relative.
     res_bind (ok_or (registry_detail (json_obj [(''path'', JString (bf_path f)), (''file_path'', JString (slash_join relative))])
         (RegistryError_new ''bundle-content-missing'' ''bundle.json referenced a bundled file that did not exist''))
       (decoded_file_bytes files relative)) (\<lambda>bytes.
     if sha256_digest oc bytes \<noteq> bf_sha256 f
     then Inl (registry_detail (json_obj
            [(''path'', JString (bf_path f)), (''expected'', JString (bf_sha256 f)), (''actual'', JString (sha256_digest oc bytes))])
            (RegistryError_new ''bundle-file-digest-mismatch'' ''bundled file digest did not match bundle.json''))
     else Inr ()))"

fun validate_decoded_files ::
  "OciEnv \<Rightarrow> (string \<times> string) list \<Rightarrow> string list \<Rightarrow> BundleFileEntry list \<Rightarrow> RegistryError + string list" where
  "validate_decoded_files oc files listed [] = Inr listed"
| "validate_decoded_files oc files listed (f # fs) =
     (if bf_path f \<in> set listed
      then Inl (caused_by ''bundle-index-invalid'' ''bundle.json declared the same bundled file more than once'' (bf_path f))
      else res_bind (validate_decoded_file oc files f) (\<lambda>_. validate_decoded_files oc files (listed @ [bf_path f]) fs))"

definition validate_decoded_listed_bundle_files ::
  "OciEnv \<Rightarrow> InstalledSkillBundle \<Rightarrow> (string \<times> string) list \<Rightarrow> RegistryError + string list" where
  "validate_decoded_listed_bundle_files oc bundle files = validate_decoded_files oc files [] (bu_files bundle)"

definition decoded_bundle_file :: "string \<Rightarrow> RegistryError + string" where
  "decoded_bundle_file relative =
     (if path_components relative \<noteq> [] \<and> last (path_components relative) = VERIFICATION_FILENAME
      then Inl (caused_by ''bundle-content-invalid''
             ''bundled installed skill directories must not contain local verification metadata'' relative)
      else Inr relative)"

definition collect_decoded_bundle_files ::
  "ValidatedBundleSkill list \<Rightarrow> (string \<times> string) list \<Rightarrow> RegistryError + string list" where
  "collect_decoded_bundle_files validated files =
     res_bind (collect_results (map (\<lambda>v. collect_results (map decoded_bundle_file
         (filter (\<lambda>r. prefix (vb_install_dir v) (path_components r)) (sorted_keys files)))) validated))
       (\<lambda>found. Inr (concat found))"

definition validate_decoded_bundle ::
  "OciEnv \<Rightarrow> InstalledSkillBundle \<Rightarrow> DecodedOciFile list \<Rightarrow> RegistryError + ValidatedBundleSkill list" where
  "validate_decoded_bundle oc bundle files =
     res_bind (validate_bundle_index_shape bundle) (\<lambda>_.
     res_bind (decoded_files_by_path files) (\<lambda>files.
     res_bind (validate_decoded_bundle_skill_entries oc bundle files) (\<lambda>validated.
     res_bind (validate_bundle_root_and_dependency_closure bundle validated) (\<lambda>_.
     res_bind (validate_decoded_listed_bundle_files oc bundle files) (\<lambda>listed.
     res_bind (collect_decoded_bundle_files validated files) (\<lambda>actual.
     res_bind (validate_bundle_file_set_alignment listed actual) (\<lambda>_.
     Inr validated)))))))"

definition preview_decoded_oci_artifact ::
  "OciEnv \<Rightarrow> path \<Rightarrow> DecodedOciArtifact \<Rightarrow> Fs \<Rightarrow> RegistryError + ImportPreviewReport" where
  "preview_decoded_oci_artifact oc root decoded fs =
     res_bind (parse_bundle_index (oc_registry oc) (da_bundle_bytes decoded)) (\<lambda>bundle.
     res_bind (parse_bundle_signature_bytes (rg_trust (oc_registry oc)) (da_signature_bytes decoded)) (\<lambda>s.
     preview_bundle_import (oc_registry oc) root bundle (da_bundle_bytes decoded) s (\<lambda>bundle v.
       res_bind (validate_decoded_bundle oc bundle (da_files decoded)) (\<lambda>validated.
       validate_import_targets (oc_registry oc) root validated fs)) fs))"

section \<open>Import of a decoded artifact\<close>

fun write_decoded_files :: "OciEnv \<Rightarrow> path \<Rightarrow> string \<Rightarrow> DecodedOciFile list \<Rightarrow> Fs \<Rightarrow> (RegistryError, unit) io" where
  "write_decoded_files oc bundle_root code_prefix [] fs = (Inr (), fs)"
| "write_decoded_files oc bundle_root code_prefix (f # files) fs =
     io_bind (bundle_file_relative_from_str (df_relative_path f), fs) (\<lambda>relative fs.
     let destination = bundle_root @ relative
     in io_bind (io_err (\<lambda>e. caused_by (code_prefix @ ''-import-file-create-failed'')
            ''failed to create parent directory while reconstructing bundled files'' (oc_io_text oc e))
          (create_dir_all (butlast destination) fs)) (\<lambda>_ fs.
        io_bind (write_bytes (oc_registry oc) destination (df_bytes f) fs) (\<lambda>_ fs.
        write_decoded_files oc bundle_root code_prefix files fs)))"

definition clear_oci_staging :: "OciEnv \<Rightarrow> path \<Rightarrow> string \<Rightarrow> string \<Rightarrow> Fs \<Rightarrow> (RegistryError, unit) io" where
  "clear_oci_staging oc staging code msg fs =
     (if \<not> path_exists fs staging then (Inr (), fs)
      else io_err (\<lambda>e. caused_by code msg (oc_io_text oc e)) (remove_dir_all staging fs))"

definition import_staged_artifact :: "OciEnv \<Rightarrow> path \<Rightarrow> path \<Rightarrow> string \<Rightarrow> DecodedOciArtifact \<Rightarrow> Fs \<Rightarrow> (RegistryError, InstalledSkill list) io" where
  "import_staged_artifact oc root staging code_prefix decoded fs =
     (let bundle_root = staging @ [''bundle'']
      in io_bind (io_err (\<lambda>e. caused_by (code_prefix @ ''-import-staging-create-failed'')
             ''failed to create reconstructed bundle staging directory'' (oc_io_text oc e)) (create_dir_all bundle_root fs)) (\<lambda>_ fs.
         io_bind (write_bytes (oc_registry oc) (bundle_index_path bundle_root) (da_bundle_bytes decoded) fs) (\<lambda>_ fs.
         io_bind (write_bytes (oc_registry oc) (bundle_signature_path bundle_root) (da_signature_bytes decoded) fs) (\<lambda>_ fs.
         io_bind (write_decoded_files oc bundle_root code_prefix (da_files decoded) fs) (\<lambda>_ fs.
         import_bundle (oc_registry oc) root bundle_root fs)))))"

definition import_decoded_oci_artifact ::
  "OciEnv \<Rightarrow> path \<Rightarrow> DecodedOciArtifact \<Rightarrow> string \<Rightarrow> string \<Rightarrow> Fs \<Rightarrow> (RegistryError, InstalledSkill list) io" where
  "import_decoded_oci_artifact oc root decoded staging_dir_name code_prefix fs =
     io_bind (ensure_registry_layout (rg_trust (oc_registry oc)) root fs) (\<lambda>root fs.
     let staging = root @ [staging_dir_name]; cleanup_code = code_prefix @ ''-import-staging-cleanup-failed''
     in io_bind (clear_oci_staging oc staging cleanup_code ''failed to remove previous OCI import staging directory'' fs) (\<lambda>_ fs.
        io_bind (io_err (\<lambda>e. caused_by (code_prefix @ ''-import-staging-create-failed'')
            ''failed to create OCI import staging directory'' (oc_io_text oc e)) (create_dir_all staging fs)) (\<lambda>_ fs.
        case import_staged_artifact oc root staging code_prefix decoded fs of
          (staged, fs) \<Rightarrow>
            (case clear_oci_staging oc staging cleanup_code ''failed to clean OCI import staging directory'' fs of
               (cleanup, fs) \<Rightarrow> (res_bind staged (\<lambda>imported. res_bind cleanup (\<lambda>_. Inr imported)), fs)))))"

section \<open>Layout directories\<close>

definition is_ascii_hexdigit :: "char \<Rightarrow> bool" where
  "is_ascii_hexdigit c \<longleftrightarrow>
     (CHR ''0'' \<le> c \<and> c \<le> CHR ''9'') \<or> (CHR ''a'' \<le> c \<and> c \<le> CHR ''f'') \<or> (CHR ''A'' \<le> c \<and> c \<le> CHR ''F'')"

definition sha256_hex_from_digest :: "string \<Rightarrow> RegistryError + string" where
  "sha256_hex_from_digest digest =
     (case strip_prefix ''sha256:'' digest of
        None \<Rightarrow> Inl (caused_by ''oci-layout-digest-invalid'' ''OCI descriptors must use sha256 digests'' digest)
      | Some hex \<Rightarrow>
          if length hex \<noteq> 64 \<or> \<not> list_all is_ascii_hexdigit hex
          then Inl (caused_by ''oci-layout-digest-invalid''
                 ''OCI descriptor digests must contain 64 hexadecimal sha256 characters'' digest)
          else Inr hex)"

definition blob_path_for_digest :: "path \<Rightarrow> string \<Rightarrow> RegistryError + path" where
  "blob_path_for_digest layout_root digest =
     res_bind (sha256_hex_from_digest digest) (\<lambda>hex. Inr (layout_root @ [''blobs'', ''sha256'', hex]))"

definition write_oci_blob_at_digest :: "OciEnv \<Rightarrow> path \<Rightarrow> string \<Rightarrow> string \<Rightarrow> Fs \<Rightarrow> (RegistryError, unit) io" where
  "write_oci_blob_at_digest oc layout_root digest bytes fs =
     io_bind (blob_path_for_digest layout_root digest, fs) (\<lambda>p fs. write_bytes (oc_registry oc) p bytes fs)"

fun write_layers :: "OciEnv \<Rightarrow> path \<Rightarrow> OciBlob list \<Rightarrow> Fs \<Rightarrow> (RegistryError, unit) io" where
  "write_layers oc layout_root [] fs = (Inr (), fs)"
| "write_layers oc layout_root (layer # layers) fs =
     io_bind (write_oci_blob_at_digest oc layout_root (od_digest (ob_descriptor layer)) (ob_bytes layer) fs) (\<lambda>_ fs.
     write_layers oc layout_root layers fs)"

definition read_oci_blob_bytes :: "OciEnv \<Rightarrow> path \<Rightarrow> Fs \<Rightarrow> OciDescriptor \<Rightarrow> RegistryError + string" where
  "read_oci_blob_bytes oc layout_root fs d =
     res_bind (blob_path_for_digest layout_root (od_digest d)) (\<lambda>p.
     res_bind (map_err (\<lambda>e. if e = Io_NotFound
         then registry_detail (json_obj [(''digest'', JString (od_digest d)), (''path'', JString (path_display p))])
                (RegistryError_new ''oci-layout-blob-missing'' ''OCI layout descriptor referenced a missing blob'')
         else caused_by ''oci-layout-blob-read-failed'' ''failed to read an OCI layout blob'' (oc_io_text oc e)) (read_bytes fs p)) (\<lambda>bytes.
     res_bind (validate_layout_bytes oc bytes d) (\<lambda>_. Inr bytes)))"

definition prepare_oci_layout_root :: "OciEnv \<Rightarrow> path \<Rightarrow> Fs \<Rightarrow> (RegistryError, path) io" where
  "prepare_oci_layout_root oc p fs =
     (case fs_get fs p of
        Some (File _) \<Rightarrow>
          (Inl (caused_by ''oci-layout-root-invalid'' ''OCI layout export target must be a directory'' (path_display p)), fs)
      | Some Dir \<Rightarrow>
          (if has_children fs p
           then Inl (caused_by ''oci-layout-root-not-empty'' ''OCI layout export target directory must be empty'' (path_display p))
           else Inr p, fs)
      | None \<Rightarrow>
          io_bind (io_err (\<lambda>e. caused_by ''oci-layout-root-create-failed''
              ''failed to create OCI layout export target directory'' (oc_io_text oc e)) (create_dir_all p fs)) (\<lambda>_ fs.
          (Inr p, fs)))"

definition open_oci_layout_root :: "path \<Rightarrow> Fs \<Rightarrow> RegistryError + path" where
  "open_oci_layout_root p fs =
     (case fs_get fs p of
        None \<Rightarrow> Inl (caused_by ''oci-layout-root-missing'' ''OCI layout directory does not exist'' (path_display p))
      | Some (File _) \<Rightarrow> Inl (caused_by ''oci-layout-root-invalid'' ''OCI layout path must be a directory'' (path_display p))
      | Some Dir \<Rightarrow> Inr p)"

definition read_layout_metadata :: "OciEnv \<Rightarrow> path \<Rightarrow> Fs \<Rightarrow> RegistryError + OciLayoutMetadata" where
  "read_layout_metadata oc layout_root fs =
     res_bind (map_err (\<lambda>e. if e = Io_NotFound
         then RegistryError_new ''oci-layout-metadata-missing'' ''oci-layout file was not found in the OCI layout directory''
         else caused_by ''oci-layout-metadata-read-failed'' ''failed to read OCI layout metadata'' (oc_io_text oc e))
       (read_bytes fs (layout_root @ [''oci-layout'']))) (\<lambda>bytes.
     map_err (caused_by ''oci-layout-metadata-parse-failed'' ''failed to parse OCI layout metadata'') (oc_layout_parse oc bytes))"

definition validate_layout_metadata :: "OciEnv \<Rightarrow> path \<Rightarrow> Fs \<Rightarrow> RegistryError + unit" where
  "validate_layout_metadata oc layout_root fs =
     res_bind (read_layout_metadata oc layout_root fs) (\<lambda>metadata.
     if image_layout_version metadata \<noteq> OCI_IMAGE_LAYOUT_VERSION
     then Inl (registry_detail (json_obj
            [(''expected'', JString OCI_IMAGE_LAYOUT_VERSION), (''actual'', JString (image_layout_version metadata))])
            (RegistryError_new ''oci-layout-format-unsupported'' ''OCI image layout version is unsupported''))
     else Inr ())"

definition read_layout_index_bytes :: "OciEnv \<Rightarrow> path \<Rightarrow> Fs \<Rightarrow> RegistryError + string" where
  "read_layout_index_bytes oc layout_root fs =
     map_err (\<lambda>e. if e = Io_NotFound
         then RegistryError_new ''oci-layout-index-missing'' ''index.json was not found in the OCI layout directory''
         else caused_by ''oci-layout-index-read-failed'' ''failed to read OCI layout index'' (oc_io_text oc e))
       (read_bytes fs (layout_root @ [''index.json'']))"

definition export_oci_layout :: "OciEnv \<Rightarrow> SignedBundlePayload \<Rightarrow> path \<Rightarrow> Fs \<Rightarrow> (RegistryError, unit) io" where
  "export_oci_layout oc payload layout_root fs =
     io_bind (build_oci_artifact oc payload fs, fs) (\<lambda>a fs.
     io_bind (prepare_oci_layout_root oc layout_root fs) (\<lambda>layout_root fs.
     io_bind (write_json (oc_io_text oc) (layout_root @ [''oci-layout''])
         (oc_layout_text oc \<lparr>image_layout_version = OCI_IMAGE_LAYOUT_VERSION\<rparr>) fs) (\<lambda>_ fs.
     io_bind (write_oci_blob_at_digest oc layout_root (od_digest (ob_descriptor (ba_config a))) (ob_bytes (ba_config a)) fs) (\<lambda>_ fs.
     io_bind (write_layers oc layout_root (ba_layers a) fs) (\<lambda>_ fs.
     io_bind (write_oci_blob_at_digest oc layout_root (od_digest (ba_root_descriptor a)) (ba_manifest_bytes a) fs) (\<lambda>_ fs.
     write_bytes (oc_registry oc) (layout_root @ [''index.json'']) (ba_index_bytes a) fs))))))"

definition read_oci_layout :: "OciEnv \<Rightarrow> path \<Rightarrow> Fs \<Rightarrow> RegistryError + DecodedOciArtifact" where
  "read_oci_layout oc layout_root fs =
     res_bind (open_oci_layout_root layout_root fs) (\<lambda>layout_root.
     res_bind (validate_layout_metadata oc layout_root fs) (\<lambda>_.
     res_bind (read_layout_index_bytes oc layout_root fs) (\<lambda>index_bytes.
     res_bind (load_validated_root_manifest oc index_bytes (read_oci_blob_bytes oc layout_root fs)) (\<lambda>v.
     decode_oci_artifact oc (vm_root_descriptor v) (vm_manifest v) (read_oci_blob_bytes oc layout_root fs)))))"

definition import_oci_layout :: "OciEnv \<Rightarrow> path \<Rightarrow> path \<Rightarrow> Fs \<Rightarrow> (RegistryError, InstalledSkill list) io" where
  "import_oci_layout oc root layout_root fs =
     io_bind (read_oci_layout oc layout_root fs, fs) (\<lambda>decoded fs.
     import_decoded_oci_artifact oc root decoded ''.oci-layout-import-staging'' ''oci-layout'' fs)"

definition preview_import_oci_layout :: "OciEnv \<Rightarrow> path \<Rightarrow> path \<Rightarrow> Fs \<Rightarrow> RegistryError + ImportPreviewReport" where
  "preview_import_oci_layout oc root layout_root fs =
     res_bind (open_existing_registry_root root fs) (\<lambda>root.
     res_bind (read_oci_layout oc layout_root fs) (\<lambda>decoded.
     preview_decoded_oci_artifact oc root decoded fs))"

section \<open>References\<close>

datatype OciRegistryTarget = Tag string | Digest string

record OciRegistryReference =
  or_registry :: string
  or_repository :: string
  or_target :: OciRegistryTarget

definition OciRegistryReference_to_string :: "OciRegistryReference \<Rightarrow> string" where
  "OciRegistryReference_to_string r =
     or_registry r @ ''/'' @ or_repository r @ (case or_target r of Tag t \<Rightarrow> '':'' @ t | Digest d \<Rightarrow> ''@'' @ d)"

definition reference_invalid :: "string \<Rightarrow> string \<Rightarrow> RegistryError" where
  "reference_invalid msg input = registry_detail (json_obj [(''reference'', JString input)])
     (RegistryError_new ''oci-registry-reference-invalid'' msg)"

text \<open>The check of the \<open>oci_client\<close> crate is the argument \<open>parse\<close>.\<close>

definition OciRegistryReference_from_str :: "(string \<Rightarrow> string + 'r) \<Rightarrow> string \<Rightarrow> RegistryError + OciRegistryReference" where
  "OciRegistryReference_from_str parse s =
     (let input = trim_str s;
          no_path = reference_invalid ''OCI registry reference must include a registry host and repository path'' input
      in if input = [] then Inl (RegistryError_new ''oci-registry-reference-invalid'' ''OCI registry reference cannot be empty'')
         else
           res_bind (map_err (\<lambda>e. registry_detail (json_obj [(''reference'', JString input), (''cause'', JString e)])
               (RegistryError_new ''oci-registry-reference-invalid'' ''failed to parse the OCI registry reference'')) (parse input)) (\<lambda>_.
           res_bind (case rsplit_once CHR ''@'' input of
               Some (name, digest) \<Rightarrow>
                 if digest = []
                 then Inl (reference_invalid ''OCI registry digest reference was missing the digest suffix'' input)
                 else Inr (name, Digest digest)
             | None \<Rightarrow>
                 (case rsplit_once CHR ''/'' input of
                    None \<Rightarrow> Inl no_path
                  | Some (front, back) \<Rightarrow>
                      (case rsplit_once CHR '':'' back of
                         None \<Rightarrow> Inl (reference_invalid ''OCI registry reference must include either a tag or digest'' input)
                       | Some (base, tag) \<Rightarrow>
                           if tag = []
                           then Inl (reference_invalid ''OCI registry tag reference was missing the tag suffix'' input)
                           else Inr (front @ ''/'' @ base, Tag tag)))) (\<lambda>(name, target).
           case split_once CHR ''/'' name of
             None \<Rightarrow> Inl no_path
           | Some (registry, repository) \<Rightarrow>
               if registry = [] \<or> repository = [] then Inl no_path
               else Inr \<lparr>or_registry = registry, or_repository = repository, or_target = target\<rparr>)))"

section \<open>Remote registries\<close>

text \<open>
  The client of the \<open>oci_client\<close> crate is a parameter over an arbitrary state \<open>'w\<close> of the remote side, and its
  parsed references are an arbitrary type. A pulled blob is a stream of chunks that may break off with
  an error. \<open>cl_runtime\<close> is the creation of the runtime the calls run in.
\<close>

datatype RegistryAuth = Auth_Anonymous | Auth_Basic string string | Auth_Bearer string
datatype RegistryOperation = Op_Push | Op_Pull
datatype ClientProtocol = Https | HttpsExcept "string list"
datatype OciRegistryAuth = Anonymous | Basic string string | Bearer string

record OciRegistryTransportOptions =
  to_auth :: OciRegistryAuth
  to_allow_http :: bool

record PublishedOciArtifact =
  pa_reference :: OciRegistryReference
  pa_manifest_digest :: string
  pa_bundle :: InstalledSkillBundle

record ('r, 'w) OciClient =
  cl_runtime :: "string + unit"
  cl_reference :: "string \<Rightarrow> string + 'r"
  cl_auth :: "ClientProtocol \<Rightarrow> 'r \<Rightarrow> RegistryAuth \<Rightarrow> RegistryOperation \<Rightarrow> 'w \<Rightarrow> (string + unit) \<times> 'w"
  cl_push_blob :: "ClientProtocol \<Rightarrow> 'r \<Rightarrow> string \<Rightarrow> string \<Rightarrow> 'w \<Rightarrow> (string + unit) \<times> 'w"
  cl_push_manifest_raw :: "ClientProtocol \<Rightarrow> 'r \<Rightarrow> string \<Rightarrow> string \<Rightarrow> 'w \<Rightarrow> (string + unit) \<times> 'w"
  cl_fetch_manifest_digest :: "ClientProtocol \<Rightarrow> 'r \<Rightarrow> RegistryAuth \<Rightarrow> 'w \<Rightarrow> (string + string) \<times> 'w"
  cl_pull_manifest_raw :: "ClientProtocol \<Rightarrow> 'r \<Rightarrow> RegistryAuth \<Rightarrow> string list \<Rightarrow> 'w \<Rightarrow> (string + string) \<times> 'w"
  cl_pull_blob_stream :: "ClientProtocol \<Rightarrow> 'r \<Rightarrow> string \<Rightarrow> 'w \<Rightarrow> (string + (string list \<times> string option)) \<times> 'w"

definition net_bind :: "('e + 'a) \<times> 'w \<Rightarrow> ('a \<Rightarrow> 'w \<Rightarrow> ('e + 'b) \<times> 'w) \<Rightarrow> ('e + 'b) \<times> 'w" where
  "net_bind m k = (case m of (Inl e, w) \<Rightarrow> (Inl e, w) | (Inr x, w) \<Rightarrow> k x w)"

definition net_err :: "('d \<Rightarrow> 'e) \<Rightarrow> ('d + 'a) \<times> 'w \<Rightarrow> ('e + 'a) \<times> 'w" where
  "net_err f m = (map_err f (fst m), snd m)"

definition registry_reference_string :: "OciRegistryReference \<Rightarrow> string" where
  "registry_reference_string r = OciRegistryReference_to_string r"

definition reference_with_digest :: "OciRegistryReference \<Rightarrow> string \<Rightarrow> OciRegistryReference" where
  "reference_with_digest r digest = \<lparr>or_registry = or_registry r, or_repository = or_repository r, or_target = Digest digest\<rparr>"

definition parse_registry_reference :: "('r, 'w) OciClient \<Rightarrow> OciRegistryReference \<Rightarrow> RegistryError + 'r" where
  "parse_registry_reference cl r =
     map_err (\<lambda>e. registry_detail (json_obj [(''reference'', JString (OciRegistryReference_to_string r)), (''cause'', JString e)])
         (RegistryError_new ''oci-registry-reference-invalid'' ''failed to parse the OCI registry reference''))
       (cl_reference cl (OciRegistryReference_to_string r))"

definition build_registry_client :: "OciRegistryReference \<Rightarrow> OciRegistryTransportOptions \<Rightarrow> ClientProtocol" where
  "build_registry_client r opts = (if to_allow_http opts then HttpsExcept [or_registry r] else Https)"

fun registry_auth :: "OciRegistryAuth \<Rightarrow> RegistryAuth" where
  "registry_auth Anonymous = Auth_Anonymous"
| "registry_auth (Basic username password) = Auth_Basic username password"
| "registry_auth (Bearer token) = Auth_Bearer token"

definition authenticate_registry ::
  "('r, 'w) OciClient \<Rightarrow> ClientProtocol \<Rightarrow> 'r \<Rightarrow> RegistryAuth \<Rightarrow> RegistryOperation \<Rightarrow> 'w \<Rightarrow> (RegistryError + unit) \<times> 'w" where
  "authenticate_registry cl proto r auth op w =
     net_err (caused_by ''oci-registry-auth-failed'' ''failed to authenticate against the OCI registry'') (cl_auth cl proto r auth op w)"

definition upload_registry_blob ::
  "('r, 'w) OciClient \<Rightarrow> ClientProtocol \<Rightarrow> 'r \<Rightarrow> OciBlob \<Rightarrow> 'w \<Rightarrow> (RegistryError + unit) \<times> 'w" where
  "upload_registry_blob cl proto r blob w =
     net_err (\<lambda>e. registry_detail (json_obj [(''digest'', JString (od_digest (ob_descriptor blob))), (''cause'', JString e)])
         (RegistryError_new ''oci-registry-push-blob-failed'' ''failed to push an OCI blob to the registry''))
       (cl_push_blob cl proto r (ob_bytes blob) (od_digest (ob_descriptor blob)) w)"

fun upload_registry_blobs ::
  "('r, 'w) OciClient \<Rightarrow> ClientProtocol \<Rightarrow> 'r \<Rightarrow> OciBlob list \<Rightarrow> 'w \<Rightarrow> (RegistryError + unit) \<times> 'w" where
  "upload_registry_blobs cl proto r [] w = (Inr (), w)"
| "upload_registry_blobs cl proto r (blob # blobs) w =
     net_bind (upload_registry_blob cl proto r blob w) (\<lambda>_ w. upload_registry_blobs cl proto r blobs w)"

definition run_registry_future :: "('r, 'w) OciClient \<Rightarrow> ('w \<Rightarrow> (RegistryError + 'a) \<times> 'w) \<Rightarrow> 'w \<Rightarrow> (RegistryError + 'a) \<times> 'w" where
  "run_registry_future cl future w =
     net_bind (map_err (caused_by ''oci-registry-runtime-create-failed''
         ''failed to create a Tokio runtime for OCI registry transport'') (cl_runtime cl), w) (\<lambda>_ w. future w)"

definition push_artifact ::
  "OciEnv \<Rightarrow> ('r, 'w) OciClient \<Rightarrow> BuiltOciArtifact \<Rightarrow> InstalledSkillBundle \<Rightarrow> OciRegistryReference \<Rightarrow> OciRegistryTransportOptions
     \<Rightarrow> 'w \<Rightarrow> (RegistryError + PublishedOciArtifact) \<times> 'w" where
  "push_artifact oc cl a bundle r opts w =
     (let proto = build_registry_client r opts; auth = registry_auth (to_auth opts); expected = sha256_digest oc (ba_index_bytes a)
      in net_bind (parse_registry_reference cl r, w) (\<lambda>cr w.
         net_bind (authenticate_registry cl proto cr auth Op_Push w) (\<lambda>_ w.
         net_bind (upload_registry_blob cl proto cr (ba_config a) w) (\<lambda>_ w.
         net_bind (upload_registry_blobs cl proto cr (ba_layers a) w) (\<lambda>_ w.
         net_bind (net_err (caused_by ''oci-registry-push-manifest-failed''
             ''failed to push the Guild OCI image manifest to the registry'')
           (cl_push_manifest_raw cl proto cr (ba_manifest_bytes a) OCI_IMAGE_MANIFEST_MEDIA_TYPE w)) (\<lambda>_ w.
         net_bind (net_err (caused_by ''oci-registry-push-index-failed''
             ''failed to push the Guild OCI image index to the registry'')
           (cl_push_manifest_raw cl proto cr (ba_index_bytes a) OCI_IMAGE_INDEX_MEDIA_TYPE w)) (\<lambda>_ w.
         net_bind (net_err (caused_by ''oci-registry-push-verify-failed''
             ''failed to read back the published OCI manifest digest from the registry'')
           (cl_fetch_manifest_digest cl proto cr auth w)) (\<lambda>published w.
         if published \<noteq> expected
         then (Inl (registry_detail (json_obj
                [(''expected'', JString expected), (''actual'', JString published),
                 (''reference'', JString (registry_reference_string r))])
                (RegistryError_new ''oci-registry-push-digest-mismatch''
                   ''registry-published OCI index digest did not match the locally assembled artifact'')), w)
         else (Inr \<lparr>pa_reference = r, pa_manifest_digest = published, pa_bundle = bundle\<rparr>, w)))))))))"

definition push_oci_registry ::
  "OciEnv \<Rightarrow> ('r, 'w) OciClient \<Rightarrow> SignedBundlePayload \<Rightarrow> OciRegistryReference \<Rightarrow> OciRegistryTransportOptions
     \<Rightarrow> Fs \<Rightarrow> 'w \<Rightarrow> (RegistryError + PublishedOciArtifact) \<times> 'w" where
  "push_oci_registry oc cl payload r opts fs w =
     (case or_target r of
        Digest _ \<Rightarrow> (Inl (caused_by ''oci-registry-push-reference-invalid''
            ''OCI registry push targets must use a tag reference'' (registry_reference_string r)), w)
      | Tag _ \<Rightarrow>
          net_bind (build_oci_artifact oc payload fs, w) (\<lambda>a w.
          run_registry_future cl (push_artifact oc cl a (sp_bundle payload) r opts) w))"

definition fetch_registry_blob ::
  "OciEnv \<Rightarrow> ('r, 'w) OciClient \<Rightarrow> ClientProtocol \<Rightarrow> 'r \<Rightarrow> OciDescriptor \<Rightarrow> 'w \<Rightarrow> (RegistryError + string) \<times> 'w" where
  "fetch_registry_blob oc cl proto r d w =
     (let failed = \<lambda>code msg e. registry_detail (json_obj [(''digest'', JString (od_digest d)), (''cause'', JString e)])
            (RegistryError_new code msg)
      in net_bind (net_err (failed ''oci-registry-blob-fetch-failed'' ''failed to pull an OCI blob from the registry'')
           (cl_pull_blob_stream cl proto r (od_digest d) w)) (\<lambda>(chunks, broken) w.
         case broken of
           Some e \<Rightarrow> (Inl (failed ''oci-registry-blob-read-failed'' ''failed to stream an OCI blob from the registry'' e), w)
         | None \<Rightarrow> (res_bind (validate_registry_bytes oc (concat chunks) d) (\<lambda>_. Inr (concat chunks)), w)))"

fun fetch_blobs ::
  "OciEnv \<Rightarrow> ('r, 'w) OciClient \<Rightarrow> ClientProtocol \<Rightarrow> 'r \<Rightarrow> (string \<times> string) list \<Rightarrow> OciDescriptor list \<Rightarrow> 'w
     \<Rightarrow> (RegistryError + (string \<times> string) list) \<times> 'w" where
  "fetch_blobs oc cl proto r blobs [] w = (Inr blobs, w)"
| "fetch_blobs oc cl proto r blobs (d # ds) w =
     net_bind (fetch_registry_blob oc cl proto r d w) (\<lambda>bytes w.
     fetch_blobs oc cl proto r ((od_digest d, bytes) # blobs) ds w)"

definition fetch_registry_blobs ::
  "OciEnv \<Rightarrow> ('r, 'w) OciClient \<Rightarrow> ClientProtocol \<Rightarrow> 'r \<Rightarrow> OciImageManifest \<Rightarrow> 'w \<Rightarrow> (RegistryError + (string \<times> string) list) \<times> 'w" where
  "fetch_registry_blobs oc cl proto r m w = fetch_blobs oc cl proto r [] (om_config m # om_layers m) w"

definition pulled_blob :: "(string \<times> string) list \<Rightarrow> OciDescriptor \<Rightarrow> RegistryError + string" where
  "pulled_blob blobs d =
     ok_or (caused_by ''oci-registry-blob-missing'' ''pulled OCI registry content was missing a required blob'' (od_digest d))
       (map_of blobs (od_digest d))"

definition pull_artifact ::
  "OciEnv \<Rightarrow> ('r, 'w) OciClient \<Rightarrow> OciRegistryReference \<Rightarrow> OciRegistryTransportOptions \<Rightarrow> 'w \<Rightarrow> (RegistryError + DecodedOciArtifact) \<times> 'w" where
  "pull_artifact oc cl r opts w =
     (let proto = build_registry_client r opts; auth = registry_auth (to_auth opts); name = JString (registry_reference_string r)
      in net_bind (parse_registry_reference cl r, w) (\<lambda>cr w.
         net_bind (authenticate_registry cl proto cr auth Op_Pull w) (\<lambda>_ w.
         net_bind (net_err (\<lambda>e. registry_detail (json_obj [(''reference'', name), (''cause'', JString e)])
             (RegistryError_new ''oci-registry-index-fetch-failed''
                ''failed to pull the OCI image index for the requested Guild artifact''))
           (cl_pull_manifest_raw cl proto cr auth [OCI_IMAGE_INDEX_MEDIA_TYPE] w)) (\<lambda>index_bytes w.
         net_bind (parse_and_validate_root_index oc index_bytes, w) (\<lambda>d w.
         net_bind (parse_registry_reference cl (reference_with_digest r (od_digest d)), w) (\<lambda>mr w.
         net_bind (net_err (\<lambda>e. registry_detail (json_obj
             [(''reference'', name), (''manifest_digest'', JString (od_digest d)), (''cause'', JString e)])
             (RegistryError_new ''oci-registry-manifest-fetch-failed''
                ''failed to pull the OCI image manifest for the requested Guild artifact''))
           (cl_pull_manifest_raw cl proto mr auth [OCI_IMAGE_MANIFEST_MEDIA_TYPE] w)) (\<lambda>manifest_bytes w.
         net_bind (validate_registry_bytes oc manifest_bytes d, w) (\<lambda>_ w.
         net_bind (parse_and_validate_root_manifest oc manifest_bytes, w) (\<lambda>m w.
         net_bind (fetch_registry_blobs oc cl proto cr m w) (\<lambda>blobs w.
         (decode_oci_artifact oc d m (pulled_blob blobs), w)))))))))))"

definition pull_oci_registry ::
  "OciEnv \<Rightarrow> ('r, 'w) OciClient \<Rightarrow> path \<Rightarrow> OciRegistryReference \<Rightarrow> OciRegistryTransportOptions \<Rightarrow> Fs \<Rightarrow> 'w
     \<Rightarrow> (RegistryError, InstalledSkill list) io \<times> 'w" where
  "pull_oci_registry oc cl root r opts fs w =
     (case run_registry_future cl (pull_artifact oc cl r opts) w of
        (decoded, w) \<Rightarrow>
          (io_bind (decoded, fs) (\<lambda>decoded fs.
             import_decoded_oci_artifact oc root decoded ''.oci-registry-pull-staging'' ''oci-registry'' fs), w))"

definition preview_pull_oci_registry ::
  "OciEnv \<Rightarrow> ('r, 'w) OciClient \<Rightarrow> path \<Rightarrow> OciRegistryReference \<Rightarrow> OciRegistryTransportOptions \<Rightarrow> Fs \<Rightarrow> 'w
     \<Rightarrow> (RegistryError + ImportPreviewReport) \<times> 'w" where
  "preview_pull_oci_registry oc cl root r opts fs w =
     net_bind (open_existing_registry_root root fs, w) (\<lambda>root w.
     net_bind (run_registry_future cl (pull_artifact oc cl r opts) w) (\<lambda>decoded w.
     (preview_decoded_oci_artifact oc root decoded fs, w)))"

text \<open>The entry points of \<open>LocalRegistry\<close> that build the payload first.\<close>

definition export_installed_layout ::
  "OciEnv \<Rightarrow> path \<Rightarrow> InstalledSkill list \<Rightarrow> ResolvedSkillRef \<Rightarrow> bool \<Rightarrow> path \<Rightarrow> LocalPublisherIdentity \<Rightarrow> Fs
     \<Rightarrow> (RegistryError, InstalledSkillBundle) io" where
  "export_installed_layout oc registry_root installed root include_dependencies layout_root signer fs =
     io_bind (build_signed_bundle_payload (oc_registry oc) registry_root installed root include_dependencies signer fs, fs) (\<lambda>payload fs.
     io_bind (export_oci_layout oc payload layout_root fs) (\<lambda>_ fs. (Inr (sp_bundle payload), fs)))"

definition push_installed ::
  "OciEnv \<Rightarrow> ('r, 'w) OciClient \<Rightarrow> path \<Rightarrow> InstalledSkill list \<Rightarrow> ResolvedSkillRef \<Rightarrow> bool \<Rightarrow> OciRegistryReference
     \<Rightarrow> OciRegistryTransportOptions \<Rightarrow> LocalPublisherIdentity \<Rightarrow> Fs \<Rightarrow> 'w \<Rightarrow> (RegistryError + PublishedOciArtifact) \<times> 'w" where
  "push_installed oc cl registry_root installed root include_dependencies r opts signer fs w =
     net_bind (build_signed_bundle_payload (oc_registry oc) registry_root installed root include_dependencies signer fs, w) (\<lambda>payload w.
     push_oci_registry oc cl payload r opts fs w)"

end
