(* ===== verification/Guild_Oci_Laws.thy ===== *)
theory Guild_Oci_Laws
  imports Guild_Oci
begin

text \<open>
  What OCI artifacts guarantee: nothing that decodes differs from what the signed index lists, whatever the
  layout or the registry holds, and an exported layout reads back as the payload it was made of.
\<close>

section \<open>Sources of blobs\<close>

text \<open>
  What decoding relies on: a source of blobs answers a descriptor with bytes of its digest only. Both the
  layout directory and the blobs pulled from a registry are such sources, whatever they hold.
\<close>

locale blob_source =
  fixes oc :: OciEnv and load_blob :: "OciDescriptor \<Rightarrow> RegistryError + string"
  assumes digest: "load_blob d = Inr b \<Longrightarrow> sha256_digest oc b = od_digest d"

definition authentic_artifact :: "OciEnv \<Rightarrow> DecodedOciArtifact \<Rightarrow> bool" where
  "authentic_artifact oc dec \<longleftrightarrow> (\<exists>bundle s.
     parse_bundle_index (oc_registry oc) (da_bundle_bytes dec) = Inr bundle
     \<and> parse_bundle_signature_bytes (rg_trust (oc_registry oc)) (da_signature_bytes dec) = Inr s
     \<and> bse_bundle_sha256 s = sha256_digest oc (da_bundle_bytes dec)
     \<and> list_all2 (\<lambda>f e. df_relative_path f = bf_path e \<and> sha256_digest oc (df_bytes f) = bf_sha256 e)
         (da_files dec) (bu_files bundle)
     \<and> distinct (map bf_path (bu_files bundle))
     \<and> (\<forall>f \<in> set (da_files dec). \<exists>p. bundle_file_relative_from_str (df_relative_path f) = Inr p))"

lemma index_layers_Inr:
  assumes "index_layers files layers = Inr files'" "\<forall>n \<in> fst ` set files. \<exists>p. bundle_file_relative_from_str n = Inr p"
  shows "\<forall>n \<in> fst ` set files'. \<exists>p. bundle_file_relative_from_str n = Inr p"
  using assms
proof (induction files layers rule: index_layers.induct)
  case (2 files layer layers)
  then show ?case
    by (force simp: res_bind_Inr_iff split: if_splits)
qed simp

lemma keys_delete: "fst ` set (AList.delete k al) = fst ` set al - {k}"
  using delete_keys[of k al] by (metis list.set_map set_removeAll)

lemma decode_files_Inr:
  assumes "decode_files oc load_blob files listed = Inr dec" 
  shows "list_all2 (\<lambda>f e. df_relative_path f = bf_path e \<and> sha256_digest oc (df_bytes f) = bf_sha256 e) dec listed
    \<and> distinct (map bf_path listed) \<and> set (map bf_path listed) = fst ` set files"
  using assms
proof (induction oc load_blob files listed arbitrary: dec rule: decode_files.induct)
  case (1 oc load_blob files)
  then show ?case
    by (auto simp: sorted_keys_def sort_cmp_def split: list.splits)
next
  case (2 oc load_blob files f listed)
  from "2.prems" obtain d bytes rest where d: "map_of files (bf_path f) = Some d" "load_blob d = Inr bytes"
      "sha256_digest oc bytes = bf_sha256 f"
    and rest: "decode_files oc load_blob (AList.delete (bf_path f) files) listed = Inr rest"
    and dec: "dec = \<lparr>df_relative_path = bf_path f, df_bytes = bytes\<rparr> # rest"
    by (auto simp: res_bind_Inr_iff split: if_splits)
  have "bf_path f \<in> fst ` set files"
    using d(1) by (force dest: map_of_SomeD)
  moreover have "list_all2 (\<lambda>f e. df_relative_path f = bf_path e \<and> sha256_digest oc (df_bytes f) = bf_sha256 e) rest listed
      \<and> distinct (map bf_path listed) \<and> set (map bf_path listed) = fst ` set files - {bf_path f}"
    using "2.IH"[of bytes, OF _ rest] d(3) by (simp add: keys_delete)
  ultimately show ?case
    using d(3) dec by auto
qed

lemma list_all2_map_eq: "list_all2 (\<lambda>x y. f x = g y \<and> P x y) xs ys \<Longrightarrow> map f xs = map g ys"
  by (induction rule: list_all2_induct) auto

context blob_source
begin

lemma decoded_authentic:
  assumes "decode_oci_artifact oc d m load_blob = Inr dec"
  shows "authentic_artifact oc dec"
proof -
  from assms obtain dm files where dm: "decode_bundle_metadata oc d m load_blob = Inr dm"
    and files: "decode_file_layers oc (dm_bundle dm) m load_blob = Inr files"
    and dec: "dec = \<lparr>da_bundle_bytes = dm_bundle_bytes dm, da_signature_bytes = dm_signature_bytes dm, da_files = files\<rparr>"
    by (auto simp: decode_oci_artifact_def res_bind_Inr_iff)
  from dm obtain s where "load_blob (om_config m) = Inr (dm_bundle_bytes dm)"
    "parse_bundle_index (oc_registry oc) (dm_bundle_bytes dm) = Inr (dm_bundle dm)"
    and s: "parse_bundle_signature_bytes (rg_trust (oc_registry oc)) (dm_signature_bytes dm) = Inr s" "od_digest (om_config m) = bse_bundle_sha256 s"
    by (auto simp: decode_bundle_metadata_def res_bind_Inr_iff split: if_splits)
  moreover from files obtain indexed where indexed: "index_layers [] (om_layers m) = Inr indexed"
    and listed: "decode_files oc load_blob indexed (bu_files (dm_bundle dm)) = Inr files"
    by (auto simp: decode_file_layers_def indexed_file_layers_def res_bind_Inr_iff)
  have plain: "\<forall>n \<in> fst ` set indexed. \<exists>p. bundle_file_relative_from_str n = Inr p"
    using index_layers_Inr[OF indexed] by simp
  note all = decode_files_Inr[OF listed]
  from all[THEN conjunct1] have "map df_relative_path files = map bf_path (bu_files (dm_bundle dm))"
    by (rule list_all2_map_eq)
  then have "df_relative_path ` set files = fst ` set indexed"
    using all by (metis list.set_map)
  with plain have "\<forall>f \<in> set files. \<exists>p. bundle_file_relative_from_str (df_relative_path f) = Inr p"
    by blast
  ultimately show ?thesis
    using all unfolding authentic_artifact_def dec by (intro exI[of _ "dm_bundle dm"] exI[of _ s]) (simp add: digest)
qed

end

lemma validate_descriptor_Inr:
  "validate_descriptor_bytes oc b d c1 c2 c3 l = Inr ()
    \<longleftrightarrow> length b < 2 ^ 64 \<and> od_size d = of_nat (length b) \<and> od_digest d = sha256_digest oc b"
  by (auto simp: validate_descriptor_bytes_def u64_try_from_nat split: if_splits)

interpretation layout_blobs: blob_source oc "read_oci_blob_bytes oc layout_root fs" for oc layout_root fs
  by unfold_locales (auto simp: read_oci_blob_bytes_def res_bind_Inr_iff validate_layout_bytes_def validate_descriptor_Inr)

text \<open>The answers to the descriptors of a manifest, all of whose blobs are pulled first.\<close>

definition fetched_blob ::
  "OciEnv \<Rightarrow> ('r, 'w) OciClient \<Rightarrow> ClientProtocol \<Rightarrow> 'r \<Rightarrow> OciImageManifest \<Rightarrow> 'w \<Rightarrow> OciDescriptor \<Rightarrow> RegistryError + string" where
  "fetched_blob oc cl proto r m w d = res_bind (fst (fetch_registry_blobs oc cl proto r m w)) (\<lambda>blobs. pulled_blob blobs d)"

lemma net_bind_Inr: "net_bind m k = (Inr y, w') \<longleftrightarrow> (\<exists>x w. m = (Inr x, w) \<and> k x w = (Inr y, w'))"
  by (auto simp: net_bind_def split: prod.splits sum.splits)

lemma net_err_Inr [simp]: "net_err f m = (Inr x, w) \<longleftrightarrow> m = (Inr x, w)"
  by (cases m) (auto simp: net_err_def)

lemma fetch_blobs_Inr:
  assumes "fetch_blobs oc cl proto r blobs ds w = (Inr blobs', w')" "\<forall>(n, b) \<in> set blobs. n = sha256_digest oc b"
  shows "\<forall>(n, b) \<in> set blobs'. n = sha256_digest oc b"
  using assms
proof (induction oc cl proto r blobs ds w rule: fetch_blobs.induct)
  case (2 oc cl proto r blobs d ds w)
  then show ?case
    by (fastforce simp: net_bind_Inr fetch_registry_blob_def res_bind_Inr_iff validate_registry_bytes_def validate_descriptor_Inr Let_def
        split: option.splits)
qed simp

interpretation fetched_blobs: blob_source oc "fetched_blob oc cl proto r m w" for oc cl proto r m w
proof
  show "sha256_digest oc b = od_digest d" if "fetched_blob oc cl proto r m w d = Inr b" for d b
  proof -
    from that obtain blobs w' where "fetch_registry_blobs oc cl proto r m w = (Inr blobs, w')" "map_of blobs (od_digest d) = Some b"
      by (cases "fetch_registry_blobs oc cl proto r m w") (auto simp: fetched_blob_def pulled_blob_def res_bind_Inr_iff)
    then show ?thesis
      unfolding fetch_registry_blobs_def by (fastforce dest: fetch_blobs_Inr map_of_SomeD)
  qed
qed

lemma pull_artifact_authentic:
  assumes "pull_artifact oc cl r opts w = (Inr dec, w')"
  shows "authentic_artifact oc dec"
proof -
  let ?p = "build_registry_client r opts"
  from assms obtain d m cr blobs w1 w2 where "fetch_registry_blobs oc cl ?p cr m w1 = (Inr blobs, w2)"
    "decode_oci_artifact oc d m (pulled_blob blobs) = Inr dec"
    unfolding pull_artifact_def Let_def net_bind_Inr by auto
  then have "decode_oci_artifact oc d m (fetched_blob oc cl ?p cr m w1) = Inr dec"
    by (simp add: fetched_blob_def[abs_def])
  then show ?thesis
    by (rule fetched_blobs.decoded_authentic)
qed

section \<open>Layouts read back\<close>

lemma write_bytes_get:
  assumes "write_bytes rg p b fs = (r, fs')"
  shows "q \<noteq> p \<Longrightarrow> fs_get fs q = Some e \<Longrightarrow> fs_get fs' q = Some e"
proof -
  assume "q \<noteq> p" "fs_get fs q = Some e"
  moreover from assms have "\<exists>r1 fs1. create_dir_all (butlast p) fs = (r1, fs1) \<and> (fs' = fs1 \<or> (\<exists>r2. fs_write p b fs1 = (r2, fs')))"
    unfolding write_bytes_def by (elim io_bind_cases io_err_cases) auto
  ultimately show ?thesis
    using create_dir_all_get fs_write_get by (metis option.distinct(1))
qed

lemma write_bytes_Inr: "write_bytes rg p b fs = (Inr u, fs') \<Longrightarrow> fs_get fs' p = Some (File b)"
  by (auto simp: write_bytes_def io_bind_Inr dest: fs_write_Inr)

text \<open>
  A layout holds a set of blobs when each stands at the place of its digest. Writing one more keeps the
  others, as long as no two of them share a digest.
\<close>

definition holds_blobs :: "OciEnv \<Rightarrow> path \<Rightarrow> Fs \<Rightarrow> string set \<Rightarrow> bool" where
  "holds_blobs oc l fs B \<longleftrightarrow> (\<forall>b \<in> B. \<exists>p. blob_path_for_digest l (sha256_digest oc b) = Inr p \<and> fs_get fs p = Some (File b))"

lemma blob_path_inj: "blob_path_for_digest l d = Inr p \<Longrightarrow> blob_path_for_digest l d' = Inr p \<Longrightarrow> d = d'"
  by (auto simp: blob_path_for_digest_def sha256_hex_from_digest_def res_bind_Inr_iff strip_prefix_Some_iff
      split: option.splits if_splits)

lemma blob_path_length: "blob_path_for_digest l d = Inr p \<Longrightarrow> length p = length l + 3"
  by (auto simp: blob_path_for_digest_def res_bind_Inr_iff)

lemma write_blob_Inr:
  assumes "write_oci_blob_at_digest oc l (sha256_digest oc b) b fs = (Inr u, fs')" "holds_blobs oc l fs B"
    "inj_on (sha256_digest oc) (insert b B)"
  shows "holds_blobs oc l fs' (insert b B)" 
    "length q < length l + 3 \<Longrightarrow> fs_get fs q = Some e \<Longrightarrow> fs_get fs' q = Some e"
proof -
  from assms(1) obtain p where p: "blob_path_for_digest l (sha256_digest oc b) = Inr p" "write_bytes (oc_registry oc) p b fs = (Inr u, fs')"
    by (auto simp: write_oci_blob_at_digest_def io_bind_Inr)
  have "\<exists>q. blob_path_for_digest l (sha256_digest oc c) = Inr q \<and> fs_get fs' q = Some (File c)" if "c \<in> B" for c
  proof (cases "c = b")
    case False
    from assms(2) that obtain q where q: "blob_path_for_digest l (sha256_digest oc c) = Inr q" "fs_get fs q = Some (File c)"
      by (auto simp: holds_blobs_def)
    have "q \<noteq> p"
      using blob_path_inj[OF p(1)] q(1) inj_onD[OF assms(3)] False that by blast
    with q write_bytes_get[OF p(2)] show ?thesis
      by blast
  qed (use p write_bytes_Inr in blast)
  with p write_bytes_Inr show "holds_blobs oc l fs' (insert b B)"
    by (auto simp: holds_blobs_def)
  show "fs_get fs' q = Some e" if "length q < length l + 3" "fs_get fs q = Some e"
    using that blob_path_length[OF p(1)] write_bytes_get[OF p(2), of q e] by (cases "q = p") auto
qed

lemma write_layers_Inr:
  assumes "write_layers oc l layers fs = (Inr u, fs')" "\<forall>y \<in> set layers. od_digest (ob_descriptor y) = sha256_digest oc (ob_bytes y)"
    "holds_blobs oc l fs B" "inj_on (sha256_digest oc) (B \<union> ob_bytes ` set layers)"
  shows "holds_blobs oc l fs' (B \<union> ob_bytes ` set layers)"
    "length q < length l + 3 \<Longrightarrow> fs_get fs q = Some e \<Longrightarrow> fs_get fs' q = Some e"
proof -
  have "holds_blobs oc l fs' (B \<union> ob_bytes ` set layers)
      \<and> (length q < length l + 3 \<longrightarrow> fs_get fs q = Some e \<longrightarrow> fs_get fs' q = Some e)"
    using assms
  proof (induction layers arbitrary: fs B)
    case (Cons y layers)
    from Cons.prems(1,2) obtain v fs1 where w: "write_oci_blob_at_digest oc l (sha256_digest oc (ob_bytes y)) (ob_bytes y) fs = (Inr v, fs1)"
      and rest: "write_layers oc l layers fs1 = (Inr u, fs')"
      by (auto simp: io_bind_Inr)
    have "inj_on (sha256_digest oc) (insert (ob_bytes y) B)"
      using Cons.prems(4) by (rule inj_on_subset) auto
    note step = write_blob_Inr[OF w Cons.prems(3) this]
    have "insert (ob_bytes y) B \<union> ob_bytes ` set layers = B \<union> ob_bytes ` set (y # layers)"
      by simp
    with Cons.IH[OF rest _ step(1)] Cons.prems(2,4) step(2) show ?case
      by simp
  qed simp
  then show "holds_blobs oc l fs' (B \<union> ob_bytes ` set layers)"
    "length q < length l + 3 \<Longrightarrow> fs_get fs q = Some e \<Longrightarrow> fs_get fs' q = Some e"
    by blast+
qed

lemma read_blob_held:
  assumes "holds_blobs oc l fs B" "b \<in> B" "length b < 2 ^ 64" "od_digest d = sha256_digest oc b" "od_size d = of_nat (length b)"
  shows "read_oci_blob_bytes oc l fs d = Inr b"
proof -
  from assms(1,2) obtain p where "blob_path_for_digest l (sha256_digest oc b) = Inr p" "fs_get fs p = Some (File b)"
    by (auto simp: holds_blobs_def)
  moreover have "validate_layout_bytes oc b d = Inr ()"
    using assms by (simp add: validate_layout_bytes_def validate_descriptor_Inr)
  ultimately show ?thesis
    by (simp add: read_oci_blob_bytes_def read_bytes_def assms(4))
qed

lemma create_dir_all_Inr:
  assumes "create_dir_all p fs = (Inr u, fs')"
  shows "fs_get fs' p = Some Dir"
proof -
  from assms obtain fs1 where fs': "fs' = ensure_dirs (prefixes p) fs1" and dirs: "\<forall>q \<in> set (prefixes p). fs_get fs1 q \<in> {None, Some Dir}"
    by (auto simp: create_dir_all_def list_all_iff split: prod.splits IoFault.splits if_splits)
  have "p \<in> set (prefixes p)"
    by simp
  with dirs have "fs_get fs1 p \<in> {None, Some Dir}" ..
  with fs' show ?thesis
    by (auto simp: ensure_dirs_get)
qed

lemma prepare_layout_Inr:
  assumes "prepare_oci_layout_root oc l fs = (Inr l', fs')"
  shows "l' = l \<and> fs_get fs' l = Some Dir"
  using assms create_dir_all_Inr
  by (auto simp: prepare_oci_layout_root_def io_bind_Inr split: option.splits Entry.splits if_splits)

lemma write_json_keeps:
  "write_json io_text p text fs = (r, fs') \<Longrightarrow> q \<noteq> p \<Longrightarrow> fs_get fs q = Some e \<Longrightarrow> fs_get fs' q = Some e"
  using write_json_get by (metis option.distinct(1))

text \<open>What a finished export has written.\<close>

lemma export_layout_Inr:
  assumes run: "export_oci_layout oc payload l fs = (Inr u, fs')" and a: "build_oci_artifact oc payload fs = Inr a"
    and digests: "\<forall>y \<in> set (ba_config a # ba_layers a). od_digest (ob_descriptor y) = sha256_digest oc (ob_bytes y)"
      "od_digest (ba_root_descriptor a) = sha256_digest oc (ba_manifest_bytes a)"
    and inj: "inj_on (sha256_digest oc) (insert (ba_manifest_bytes a) (ob_bytes ` set (ba_config a # ba_layers a)))"
  shows "fs_get fs' l = Some Dir" "fs_get fs' (l @ [''index.json'']) = Some (File (ba_index_bytes a))"
    "\<exists>b. oc_layout_text oc \<lparr>image_layout_version = OCI_IMAGE_LAYOUT_VERSION\<rparr> = Inr b \<and> fs_get fs' (l @ [''oci-layout'']) = Some (File b)"
    "holds_blobs oc l fs' (insert (ba_manifest_bytes a) (ob_bytes ` set (ba_config a # ba_layers a)))"
proof -
  from run a obtain l' fs1 u2 fs2 u3 fs3 u4 fs4 u5 fs5 where prep: "prepare_oci_layout_root oc l fs = (Inr l', fs1)"
    and layout: "write_json (oc_io_text oc) (l' @ [''oci-layout'']) (oc_layout_text oc \<lparr>image_layout_version = OCI_IMAGE_LAYOUT_VERSION\<rparr>) fs1 = (Inr u2, fs2)"
    and config: "write_oci_blob_at_digest oc l' (od_digest (ob_descriptor (ba_config a))) (ob_bytes (ba_config a)) fs2 = (Inr u3, fs3)"
    and layers: "write_layers oc l' (ba_layers a) fs3 = (Inr u4, fs4)"
    and root: "write_oci_blob_at_digest oc l' (od_digest (ba_root_descriptor a)) (ba_manifest_bytes a) fs4 = (Inr u5, fs5)"
    and index: "write_bytes (oc_registry oc) (l' @ [''index.json'']) (ba_index_bytes a) fs5 = (Inr u, fs')"
    unfolding export_oci_layout_def io_bind_Inr by auto
  have l: "l' = l" "fs_get fs1 l = Some Dir"
    using prepare_layout_Inr[OF prep] by simp_all
  from layout obtain b where b: "oc_layout_text oc \<lparr>image_layout_version = OCI_IMAGE_LAYOUT_VERSION\<rparr> = Inr b" "fs_get fs2 (l @ [''oci-layout'']) = Some (File b)"
    unfolding l(1) by (rule write_json_Inr)
  have dir2: "fs_get fs2 l = Some Dir"
    using write_json_keeps[OF layout, of l Dir] l by simp
  have sub: "inj_on (sha256_digest oc) B" if "B \<subseteq> insert (ba_manifest_bytes a) (ob_bytes ` set (ba_config a # ba_layers a))" for B
    using inj that by (rule inj_on_subset)
  have "holds_blobs oc l fs2 {}"
    by (simp add: holds_blobs_def)
  note c = write_blob_Inr[OF config[unfolded l(1) digests(1)[rule_format, of "ba_config a", simplified]] this sub]
  note y = write_layers_Inr[OF layers[unfolded l(1)] _ c(1) sub]
  note m = write_blob_Inr[OF root[unfolded l(1) digests(2)] y(1) sub]
  have all: "insert (ba_manifest_bytes a) (insert (ob_bytes (ba_config a)) {} \<union> ob_bytes ` set (ba_layers a))
      = insert (ba_manifest_bytes a) (ob_bytes ` set (ba_config a # ba_layers a))"
    by simp
  have held: "holds_blobs oc l fs5 (insert (ba_manifest_bytes a) (ob_bytes ` set (ba_config a # ba_layers a)))"
    using digests(1) by (intro m(1)[unfolded all]) auto
  have keep: "fs_get fs5 q = Some e" if "fs_get fs2 q = Some e" "length q < length l + 3" for q e
    using that digests(1) by (intro m(2) y(2) c(2)) auto
  have last: "fs_get fs' q = Some e" if "fs_get fs5 q = Some e" "q \<noteq> l @ [''index.json'']" for q e
    using write_bytes_get[OF index[unfolded l(1)]] that by blast
  show "fs_get fs' l = Some Dir"
    using last keep dir2 by simp
  show "fs_get fs' (l @ [''index.json'']) = Some (File (ba_index_bytes a))"
    using write_bytes_Inr[OF index] by (simp add: l)
  show "\<exists>b. oc_layout_text oc \<lparr>image_layout_version = OCI_IMAGE_LAYOUT_VERSION\<rparr> = Inr b \<and> fs_get fs' (l @ [''oci-layout'']) = Some (File b)"
    using last keep b by simp
  have "p \<noteq> l @ [''index.json'']" if "blob_path_for_digest l d = Inr p" for d p
    using blob_path_length[OF that] by auto
  with held last show "holds_blobs oc l fs' (insert (ba_manifest_bytes a) (ob_bytes ` set (ba_config a # ba_layers a)))"
    unfolding holds_blobs_def by meson
qed

text \<open>A payload as \<open>build_signed_bundle_payload\<close> makes it: the index lists the files and the signature is over its bytes.\<close>

definition portable_payload :: "OciEnv \<Rightarrow> SignedBundlePayload \<Rightarrow> bool" where
  "portable_payload oc payload \<longleftrightarrow>
     parse_bundle_index (oc_registry oc) (sp_bundle_bytes payload) = Inr (sp_bundle payload)
     \<and> bse_format_version (sp_signature payload) = BUNDLE_SIGNATURE_FORMAT_VERSION
     \<and> bse_bundle_sha256 (sp_signature payload) = sha256_digest oc (sp_bundle_bytes payload)
     \<and> bu_files (sp_bundle payload) = map (\<lambda>f. \<lparr>bf_path = pf_relative_path f, bf_sha256 = pf_sha256 f\<rparr>) (sp_files payload)
     \<and> distinct (map pf_relative_path (sp_files payload))
     \<and> list_all (\<lambda>f. is_ok (bundle_file_relative_from_str (pf_relative_path f))) (sp_files payload)"

definition layer_title :: "OciDescriptor \<Rightarrow> string" where
  "layer_title d = the (descriptor_annotation d OCI_TITLE_ANNOTATION)"

text \<open>The layer of a file, and the layers of all of them.\<close>

definition layer_of :: "OciEnv \<Rightarrow> Fs \<Rightarrow> PortableBundleFile \<Rightarrow> OciBlob \<Rightarrow> bool" where
  "layer_of oc fs f y \<longleftrightarrow> fs_get fs (pf_source_path f) = Some (File (ob_bytes y)) \<and> length (ob_bytes y) < 2 ^ 64
     \<and> sha256_digest oc (ob_bytes y) = pf_sha256 f
     \<and> ob_descriptor y = \<lparr>od_media_type = GUILD_BUNDLE_FILE_MEDIA_TYPE, od_digest = sha256_digest oc (ob_bytes y),
         od_size = of_nat (length (ob_bytes y)), od_annotations = Some [(OCI_TITLE_ANNOTATION, pf_relative_path f)]\<rparr>"

lemma read_bytes_Inr: "read_bytes fs p = Inr b \<longleftrightarrow> fs_get fs p = Some (File b)"
  by (auto simp: read_bytes_def split: option.splits Entry.splits)

lemma descriptor_for_blob_Inr:
  "descriptor_for_blob oc t b an = Inr d \<longleftrightarrow> length b < 2 ^ 64
     \<and> d = \<lparr>od_media_type = t, od_digest = sha256_digest oc b, od_size = of_nat (length b), od_annotations = an\<rparr>"
  by (auto simp: descriptor_for_blob_def u64_try_from_nat split: if_splits)

lemma file_layer_Inr: "file_layer oc fs f = Inr y \<Longrightarrow> layer_of oc fs f y"
  by (auto simp: file_layer_def res_bind_Inr_iff descriptor_for_blob_Inr read_bytes_Inr layer_of_def single_annotation_def
      split: if_splits)

lemma index_file_layers:
  assumes "\<forall>d \<in> set ds. od_media_type d = GUILD_BUNDLE_FILE_MEDIA_TYPE \<and> descriptor_annotation d OCI_TITLE_ANNOTATION = Some (layer_title d)
      \<and> is_ok (bundle_file_relative_from_str (layer_title d))"
    "distinct (map layer_title ds)" "layer_title ` set ds \<inter> fst ` set files = {}"
  shows "index_layers files ds = Inr (rev (map (\<lambda>d. (layer_title d, d)) ds) @ files)"
  using assms
proof (induction ds arbitrary: files)
  case (Cons d ds)
  have "GUILD_BUNDLE_FILE_MEDIA_TYPE \<noteq> GUILD_BUNDLE_SIGNATURE_MEDIA_TYPE"
    by code_simp
  with Cons show ?case
    by (auto simp: is_ok_iff)
qed simp

lemma decode_files_complete:
  assumes "length listed = length ys" "list_all2 (\<lambda>e y. bf_path e = layer_title (ob_descriptor y) \<and> bf_sha256 e = sha256_digest oc (ob_bytes y)) listed ys"
    "distinct (map bf_path listed)" "fst ` set files = bf_path ` set listed"
    "\<forall>y \<in> set ys. map_of files (layer_title (ob_descriptor y)) = Some (ob_descriptor y) \<and> load_blob (ob_descriptor y) = Inr (ob_bytes y)"
  shows "decode_files oc load_blob files listed
    = Inr (map (\<lambda>y. \<lparr>df_relative_path = layer_title (ob_descriptor y), df_bytes = ob_bytes y\<rparr>) ys)"
  using assms
proof (induction listed ys arbitrary: files rule: list_induct2)
  case Nil
  then show ?case
    by (simp add: sorted_keys_def sort_cmp_def sort_by_def)
next
  case (Cons e listed y ys)
  let ?files = "AList.delete (bf_path e) files"
  have "list_all2 (\<lambda>e y. bf_path e = layer_title (ob_descriptor y) \<and> bf_sha256 e = sha256_digest oc (ob_bytes y)) listed ys"
    using Cons.prems(1) by simp
  then have "map bf_path listed = map (\<lambda>y. layer_title (ob_descriptor y)) ys"
    by (rule list_all2_map_eq)
  then have "bf_path ` set listed = (\<lambda>y. layer_title (ob_descriptor y)) ` set ys"
    by (metis list.set_map)
  then have titles: "layer_title (ob_descriptor z) \<noteq> bf_path e" if "z \<in> set ys" for z
    using Cons.prems(2) that by force
  have "decode_files oc load_blob ?files listed
      = Inr (map (\<lambda>y. \<lparr>df_relative_path = layer_title (ob_descriptor y), df_bytes = ob_bytes y\<rparr>) ys)"
    using Cons.prems titles by (intro Cons.IH) (auto simp: keys_delete delete_conv')
  with Cons.prems show ?case
    by simp
qed

lemma build_artifact_Inr:
  assumes "build_oci_artifact oc payload fs = Inr a"
  obtains sb fl where "rg_signature_text (oc_registry oc) (sp_signature payload) = Inr sb"
    "list_all2 (layer_of oc fs) (sp_files payload) fl" "ob_bytes (ba_config a) = sp_bundle_bytes payload"
    "ba_layers a = \<lparr>ob_descriptor = \<lparr>od_media_type = GUILD_BUNDLE_SIGNATURE_MEDIA_TYPE, od_digest = sha256_digest oc sb,
       od_size = of_nat (length sb), od_annotations = Some [(OCI_TITLE_ANNOTATION, ''bundle.signature.json'')]\<rparr>, ob_bytes = sb\<rparr> # fl"
    "length sb < 2 ^ 64" "length (sp_bundle_bytes payload) < 2 ^ 64" "length (ba_manifest_bytes a) < 2 ^ 64"
    "ob_descriptor (ba_config a) = \<lparr>od_media_type = GUILD_BUNDLE_CONFIG_MEDIA_TYPE, od_digest = sha256_digest oc (sp_bundle_bytes payload),
       od_size = of_nat (length (sp_bundle_bytes payload)), od_annotations = Some [(OCI_TITLE_ANNOTATION, ''bundle.json'')]\<rparr>"
    "ba_root_descriptor a = \<lparr>od_media_type = OCI_IMAGE_MANIFEST_MEDIA_TYPE, od_digest = sha256_digest oc (ba_manifest_bytes a),
       od_size = of_nat (length (ba_manifest_bytes a)), od_annotations = Some (root_descriptor_annotations (sp_bundle payload))\<rparr>"
    "oc_manifest_text oc \<lparr>om_schema_version = 2, om_artifact_type = Some GUILD_OCI_ARTIFACT_TYPE, om_config = ob_descriptor (ba_config a),
       om_layers = map ob_descriptor (ba_layers a)\<rparr> = Inr (ba_manifest_bytes a)"
    "oc_index_text oc \<lparr>ox_schema_version = 2, ox_manifests = [ba_root_descriptor a]\<rparr> = Inr (ba_index_bytes a)"
proof -
  from assms obtain config sb sd fl mb d ib where
    steps: "descriptor_for_blob oc GUILD_BUNDLE_CONFIG_MEDIA_TYPE (sp_bundle_bytes payload)
         (Some (single_annotation OCI_TITLE_ANNOTATION ''bundle.json'')) = Inr config"
      "rg_signature_text (oc_registry oc) (sp_signature payload) = Inr sb"
      "descriptor_for_blob oc GUILD_BUNDLE_SIGNATURE_MEDIA_TYPE sb
         (Some (single_annotation OCI_TITLE_ANNOTATION ''bundle.signature.json'')) = Inr sd"
      "map (file_layer oc fs) (sp_files payload) = map Inr fl"
      "oc_manifest_text oc \<lparr>om_schema_version = 2, om_artifact_type = Some GUILD_OCI_ARTIFACT_TYPE, om_config = config,
         om_layers = sd # map ob_descriptor fl\<rparr> = Inr mb"
      "descriptor_for_blob oc OCI_IMAGE_MANIFEST_MEDIA_TYPE mb None = Inr d"
      "oc_index_text oc \<lparr>ox_schema_version = 2,
         ox_manifests = [d\<lparr>od_annotations := Some (root_descriptor_annotations (sp_bundle payload))\<rparr>]\<rparr> = Inr ib"
    and a: "a = \<lparr>ba_index_bytes = ib, ba_manifest_bytes = mb,
        ba_root_descriptor = d\<lparr>od_annotations := Some (root_descriptor_annotations (sp_bundle payload))\<rparr>,
        ba_config = \<lparr>ob_descriptor = config, ob_bytes = sp_bundle_bytes payload\<rparr>,
        ba_layers = \<lparr>ob_descriptor = sd, ob_bytes = sb\<rparr> # fl\<rparr>"
    by (auto simp: build_oci_artifact_def res_bind_Inr_iff json_bytes_def Let_def collect_results_all)
  have "list_all2 (\<lambda>f y. file_layer oc fs f = Inr y) (sp_files payload) fl"
    using steps(4) by (auto simp: list_all2_conv_all_nth list_eq_iff_nth_eq)
  then have "list_all2 (layer_of oc fs) (sp_files payload) fl"
    by (rule list_all2_mono) (rule file_layer_Inr)
  with steps a show thesis
    by (intro that[of sb fl]) (simp_all add: descriptor_for_blob_Inr single_annotation_def)
qed

lemma check_annotations_same: "distinct (map fst expected) \<Longrightarrow> check_annotations expected expected = Inr ()"
proof -
  have "check_annotations actual expected = Inr ()" if "\<forall>(k, v) \<in> set expected. map_of actual k = Some v" for actual
    using that by (induction actual expected rule: check_annotations.induct) auto
  then show "check_annotations expected expected = Inr ()" if "distinct (map fst expected)"
    using that by auto
qed

lemma root_annotations_valid:
  assumes "od_annotations d = Some (root_descriptor_annotations bundle)"
  shows "validate_root_descriptor_annotations d bundle = Inr ()"
proof -
  have "distinct [GUILD_CLOSURE_ANNOTATION, GUILD_PUBLISHER_ID_ANNOTATION, GUILD_ROOT_DIGEST_ANNOTATION,
      GUILD_ROOT_KEY_ANNOTATION, GUILD_ROOT_VERSION_ANNOTATION, OCI_TITLE_ANNOTATION]"
    by code_simp
  then have "distinct (map fst (root_descriptor_annotations bundle))"
    by (simp add: root_descriptor_annotations_def)
  with assms show ?thesis
    by (simp add: validate_root_descriptor_annotations_def check_annotations_same)
qed

text \<open>An artifact decodes from any source that answers its descriptors.\<close>

definition decoded_payload :: "SignedBundlePayload \<Rightarrow> string \<Rightarrow> OciBlob list \<Rightarrow> DecodedOciArtifact" where
  "decoded_payload payload sb fl = \<lparr>da_bundle_bytes = sp_bundle_bytes payload, da_signature_bytes = sb,
     da_files = map2 (\<lambda>f y. \<lparr>df_relative_path = pf_relative_path f, df_bytes = ob_bytes y\<rparr>) (sp_files payload) fl\<rparr>"

lemma layer_of_title: "layer_of oc fs f y \<Longrightarrow> layer_title (ob_descriptor y) = pf_relative_path f"
  by (simp add: layer_of_def layer_title_def descriptor_annotation_def)

lemma layers_titles:
  assumes "list_all2 (layer_of oc fs) files fl"
  shows "map (\<lambda>y. layer_title (ob_descriptor y)) fl = map pf_relative_path files"
    "map2 (\<lambda>f y. \<lparr>df_relative_path = pf_relative_path f, df_bytes = ob_bytes y\<rparr>) files fl
      = map (\<lambda>y. \<lparr>df_relative_path = layer_title (ob_descriptor y), df_bytes = ob_bytes y\<rparr>) fl"
  using assms by (induction rule: list_all2_induct) (auto simp: layer_of_title)

lemma layers_blobs:
  assumes "list_all2 (layer_of oc fs) files fl" "y \<in> set fl"
  shows "od_media_type (ob_descriptor y) = GUILD_BUNDLE_FILE_MEDIA_TYPE" "length (ob_bytes y) < 2 ^ 64"
    "od_digest (ob_descriptor y) = sha256_digest oc (ob_bytes y)" "od_size (ob_descriptor y) = of_nat (length (ob_bytes y))"
  using list_all2_partners(2)[OF assms] by (fastforce simp: layer_of_def)+

lemma file_layers_decode:
  assumes layers: "list_all2 (layer_of oc fs) (sp_files payload) fl" and wf: "portable_payload oc payload"
    and load: "\<forall>y \<in> set fl. load_blob (ob_descriptor y) = Inr (ob_bytes y)"
    and sd: "od_media_type sd = GUILD_BUNDLE_SIGNATURE_MEDIA_TYPE"
  shows "decode_file_layers oc (sp_bundle payload) \<lparr>om_schema_version = v, om_artifact_type = t, om_config = c,
      om_layers = sd # map ob_descriptor fl\<rparr> load_blob
    = Inr (map2 (\<lambda>f y. \<lparr>df_relative_path = pf_relative_path f, df_bytes = ob_bytes y\<rparr>) (sp_files payload) fl)"
proof -
  let ?ds = "map ob_descriptor fl" and ?files = "bu_files (sp_bundle payload)"
  let ?index = "rev (map (\<lambda>d. (layer_title d, d)) ?ds)"
  note titles = layers_titles[OF layers]
  have names: "map layer_title ?ds = map pf_relative_path (sp_files payload)"
    using titles(1) by (simp add: comp_def)
  have distinct: "distinct (map layer_title ?ds)"
    unfolding names using wf by (simp add: portable_payload_def)
  have each: "\<exists>f \<in> set (sp_files payload). layer_of oc fs f y" if "y \<in> set fl" for y
    using list_all2_partners[OF layers] that by blast
  have "index_layers [] ?ds = Inr ?index"
    using index_file_layers[of ?ds "[]"] each wf distinct
    by (fastforce simp: layer_of_def layer_title_def descriptor_annotation_def portable_payload_def list_all_iff)
  moreover have "decode_files oc load_blob ?index ?files
      = Inr (map (\<lambda>y. \<lparr>df_relative_path = layer_title (ob_descriptor y), df_bytes = ob_bytes y\<rparr>) fl)"
  proof (rule decode_files_complete)
    show all: "list_all2 (\<lambda>e y. bf_path e = layer_title (ob_descriptor y) \<and> bf_sha256 e = sha256_digest oc (ob_bytes y)) ?files fl"
      using layers wf by (auto simp: portable_payload_def list_all2_map1 layer_of_title elim!: list_all2_mono) (simp add: layer_of_def)
    show "length ?files = length fl"
      using all by (rule list_all2_lengthD)
    show "distinct (map bf_path ?files)"
      using wf by (simp add: portable_payload_def comp_def)
    have "fst ` set ?index = set (map layer_title ?ds)"
      by force
    then show "fst ` set ?index = bf_path ` set ?files"
      unfolding names using wf by (force simp: portable_payload_def)
    have "map fst ?index = rev (map layer_title ?ds)"
      by (simp add: rev_map comp_def)
    with distinct have "distinct (map fst ?index)"
      by (metis distinct_rev)
    then have "map_of ?index (layer_title d) = Some d" if "d \<in> set ?ds" for d
      using that by (intro map_of_is_SomeI) auto
    then show "\<forall>y \<in> set fl. map_of ?index (layer_title (ob_descriptor y)) = Some (ob_descriptor y)
        \<and> load_blob (ob_descriptor y) = Inr (ob_bytes y)"
      using load by auto
  qed
  ultimately show ?thesis
    using sd titles(2) by (simp add: decode_file_layers_def indexed_file_layers_def)
qed

lemma artifact_decodes:
  assumes built: "build_oci_artifact oc payload fs = Inr a" and wf: "portable_payload oc payload"
    and codecs: "faithful_codec (oc_index_text oc) (oc_index_parse oc)" "faithful_codec (oc_manifest_text oc) (oc_manifest_parse oc)"
      "faithful_codec (rg_signature_text (oc_registry oc)) (te_bundle_signature_parse (rg_trust (oc_registry oc)))"
    and load: "load_blob (ba_root_descriptor a) = Inr (ba_manifest_bytes a)"
      "\<And>y. y \<in> set (ba_config a # ba_layers a) \<Longrightarrow> load_blob (ob_descriptor y) = Inr (ob_bytes y)"
  obtains v sb fl where "load_validated_root_manifest oc (ba_index_bytes a) load_blob = Inr v"
    "decode_oci_artifact oc (vm_root_descriptor v) (vm_manifest v) load_blob = Inr (decoded_payload payload sb fl)"
    "rg_signature_text (oc_registry oc) (sp_signature payload) = Inr sb" "list_all2 (layer_of oc fs) (sp_files payload) fl"
proof -
  from built obtain sb fl where sb: "rg_signature_text (oc_registry oc) (sp_signature payload) = Inr sb"
    and fl: "list_all2 (layer_of oc fs) (sp_files payload) fl" and config: "ob_bytes (ba_config a) = sp_bundle_bytes payload"
    and layers: "ba_layers a = \<lparr>ob_descriptor = \<lparr>od_media_type = GUILD_BUNDLE_SIGNATURE_MEDIA_TYPE, od_digest = sha256_digest oc sb,
       od_size = of_nat (length sb), od_annotations = Some [(OCI_TITLE_ANNOTATION, ''bundle.signature.json'')]\<rparr>, ob_bytes = sb\<rparr> # fl"
    and config_d: "ob_descriptor (ba_config a) = \<lparr>od_media_type = GUILD_BUNDLE_CONFIG_MEDIA_TYPE, od_digest = sha256_digest oc (sp_bundle_bytes payload),
       od_size = of_nat (length (sp_bundle_bytes payload)), od_annotations = Some [(OCI_TITLE_ANNOTATION, ''bundle.json'')]\<rparr>"
    and root: "ba_root_descriptor a = \<lparr>od_media_type = OCI_IMAGE_MANIFEST_MEDIA_TYPE, od_digest = sha256_digest oc (ba_manifest_bytes a),
       od_size = of_nat (length (ba_manifest_bytes a)), od_annotations = Some (root_descriptor_annotations (sp_bundle payload))\<rparr>"
    and texts: "oc_manifest_text oc \<lparr>om_schema_version = 2, om_artifact_type = Some GUILD_OCI_ARTIFACT_TYPE, om_config = ob_descriptor (ba_config a),
       om_layers = map ob_descriptor (ba_layers a)\<rparr> = Inr (ba_manifest_bytes a)"
      "oc_index_text oc \<lparr>ox_schema_version = 2, ox_manifests = [ba_root_descriptor a]\<rparr> = Inr (ba_index_bytes a)"
    by (rule build_artifact_Inr)
  let ?m = "\<lparr>om_schema_version = 2, om_artifact_type = Some GUILD_OCI_ARTIFACT_TYPE, om_config = ob_descriptor (ba_config a),
       om_layers = map ob_descriptor (ba_layers a)\<rparr>"
  let ?v = "\<lparr>vm_root_descriptor = ba_root_descriptor a, vm_manifest = ?m\<rparr>"
  have parsed: "oc_index_parse oc (ba_index_bytes a) = Inr \<lparr>ox_schema_version = 2, ox_manifests = [ba_root_descriptor a]\<rparr>"
    "oc_manifest_parse oc (ba_manifest_bytes a) = Inr ?m"
    "te_bundle_signature_parse (rg_trust (oc_registry oc)) sb = Inr (sp_signature payload)"
    using codecs texts sb by (simp_all add: faithful_codec_def)
  have v: "load_validated_root_manifest oc (ba_index_bytes a) load_blob = Inr ?v"
    using load(1) parsed config_d
    by (simp add: load_validated_root_manifest_def parse_and_validate_root_index_def parse_and_validate_root_manifest_def root)
  have "filter (\<lambda>l. od_media_type l = GUILD_BUNDLE_SIGNATURE_MEDIA_TYPE) (map ob_descriptor fl) = []"
  proof -
    have "GUILD_BUNDLE_FILE_MEDIA_TYPE \<noteq> GUILD_BUNDLE_SIGNATURE_MEDIA_TYPE"
      by code_simp
    then show ?thesis
      using layers_blobs(1)[OF fl] by (auto simp: filter_empty_conv)
  qed
  then have sd: "find_signature_descriptor ?m = Inr (ob_descriptor (hd (ba_layers a)))"
    by (simp add: find_signature_descriptor_def layers)
  have "decode_bundle_metadata oc (ba_root_descriptor a) ?m load_blob
      = Inr \<lparr>dm_bundle = sp_bundle payload, dm_bundle_bytes = sp_bundle_bytes payload, dm_signature_bytes = sb\<rparr>"
    using wf load(2)[of "ba_config a"] load(2)[of "hd (ba_layers a)"] sd parsed(3) config config_d root_annotations_valid[of "ba_root_descriptor a" "sp_bundle payload"]
    by (simp add: decode_bundle_metadata_def portable_payload_def layers root parse_bundle_signature_bytes_def)
  moreover have "decode_file_layers oc (sp_bundle payload) ?m load_blob
      = Inr (map2 (\<lambda>f y. \<lparr>df_relative_path = pf_relative_path f, df_bytes = ob_bytes y\<rparr>) (sp_files payload) fl)"
    using file_layers_decode[OF fl wf, of load_blob "ob_descriptor (hd (ba_layers a))"] load(2) by (simp add: layers)
  ultimately have "decode_oci_artifact oc (vm_root_descriptor ?v) (vm_manifest ?v) load_blob = Inr (decoded_payload payload sb fl)"
    by (simp add: decode_oci_artifact_def decoded_payload_def)
  with v sb fl show thesis
    by (intro that)
qed

section \<open>References\<close>

lemma rsplit_once_None: "rsplit_once c s = None \<longleftrightarrow> c \<notin> set s"
  by (simp add: rsplit_once_def split_once_None)

lemma rsplit_once_Some:
  assumes "rsplit_once c s = Some (a, b)"
  shows "s = a @ c # b" "c \<notin> set b"
proof -
  from assms have "split_once c (rev s) = Some (rev b, rev a)"
    by (auto simp: rsplit_once_def)
  from split_once_Some[OF this] show "s = a @ c # b" "c \<notin> set b"
    by (simp_all add: rev_swap)
qed

text \<open>The texts of a reference that keep its parts apart.\<close>

fun plain_target :: "OciRegistryTarget \<Rightarrow> bool" where
  "plain_target (Tag t) = (t \<noteq> [] \<and> CHR ''/'' \<notin> set t \<and> CHR '':'' \<notin> set t \<and> CHR ''@'' \<notin> set t)"
| "plain_target (Digest d) = (d \<noteq> [] \<and> CHR ''@'' \<notin> set d)"

definition plain_reference :: "OciRegistryReference \<Rightarrow> bool" where
  "plain_reference r \<longleftrightarrow> or_registry r \<noteq> [] \<and> CHR ''/'' \<notin> set (or_registry r) \<and> or_repository r \<noteq> []
     \<and> CHR ''@'' \<notin> set (or_registry r) \<union> set (or_repository r) \<and> plain_target (or_target r)
     \<and> trim_str (OciRegistryReference_to_string r) = OciRegistryReference_to_string r"

lemma tag_name:
  assumes "CHR ''/'' \<notin> set t" "CHR '':'' \<notin> set t"
  obtains front rest where "rsplit_once CHR ''/'' (registry @ ''/'' @ repository @ '':'' @ t) = Some (front, rest)"
    "\<exists>base. rsplit_once CHR '':'' rest = Some (base, t) \<and> front @ ''/'' @ base = registry @ ''/'' @ repository"
proof (cases "rsplit_once CHR ''/'' repository")
  case None
  then have "CHR ''/'' \<notin> set (repository @ '':'' @ t)"
    using assms by (simp add: rsplit_once_None)
  then have "rsplit_once CHR ''/'' (registry @ CHR ''/'' # (repository @ '':'' @ t)) = Some (registry, repository @ '':'' @ t)"
    by (rule rsplit_once_append)
  with that[of registry "repository @ '':'' @ t"] rsplit_once_append[OF assms(2), of repository] show thesis
    by auto
next
  case (Some ab)
  obtain a b where ab: "ab = (a, b)"
    by fastforce
  have parts: "repository = a @ CHR ''/'' # b" "CHR ''/'' \<notin> set b"
    using rsplit_once_Some Some ab by simp_all
  then have "CHR ''/'' \<notin> set (b @ '':'' @ t)"
    using assms by simp
  then have "rsplit_once CHR ''/'' ((registry @ ''/'' @ a) @ CHR ''/'' # (b @ '':'' @ t)) = Some (registry @ ''/'' @ a, b @ '':'' @ t)"
    by (rule rsplit_once_append)
  with that[of "registry @ ''/'' @ a" "b @ '':'' @ t"] rsplit_once_append[OF assms(2), of b] parts(1) show thesis
    by auto
qed

section \<open>Claims\<close>

text \<open>C27: What an OCI artifact delivers is what its signed index lists. Whatever a layout directory holds and whatever a
  registry answers, a decoded artifact has an index whose digest is the one of the signature, and its files
  are exactly the listed ones, in order, without repetition, inside the bundle and with the listed digests.\<close>

theorem oci_artifacts_authentic:
  assumes "read_oci_layout oc layout_root fs = Inr dec \<or> fst (pull_artifact oc cl r opts w) = Inr dec"
  shows "authentic_artifact oc dec"
  using assms
proof
  assume "read_oci_layout oc layout_root fs = Inr dec"
  then obtain v :: ValidatedOciManifest and q where "decode_oci_artifact oc (vm_root_descriptor v) (vm_manifest v) (read_oci_blob_bytes oc q fs) = Inr dec"
    unfolding read_oci_layout_def res_bind_Inr_iff by blast
  then show ?thesis
    by (rule layout_blobs.decoded_authentic)
next
  assume "fst (pull_artifact oc cl r opts w) = Inr dec"
  then show ?thesis
    by (intro pull_artifact_authentic) (rule prod_eqI; simp)
qed


text \<open>A registry reference reads back from its text, for tags and digests, when the text of its parts does not
  contain the separators and the client accepts it.\<close>

theorem reference_roundtrip:
  assumes "plain_reference r" "is_ok (parse (OciRegistryReference_to_string r))"
  shows "OciRegistryReference_from_str parse (OciRegistryReference_to_string r) = Inr r"
proof -
  let ?s = "OciRegistryReference_to_string r"
  from assms(2) obtain x where x: "parse ?s = Inr x"
    by (auto simp: is_ok_iff)
  have s: "trim_str ?s = ?s" "?s \<noteq> []" and reg: "or_registry r \<noteq> []" "CHR ''/'' \<notin> set (or_registry r)" "or_repository r \<noteq> []"
    "CHR ''@'' \<notin> set (or_registry r) \<union> set (or_repository r)"
    using assms(1) by (auto simp: plain_reference_def OciRegistryReference_to_string_def)
  have name: "split_once CHR ''/'' (or_registry r @ ''/'' @ or_repository r) = Some (or_registry r, or_repository r)"
    using split_once_append[OF reg(2)] by simp
  show ?thesis
  proof (cases "or_target r")
    case (Digest d)
    then have d: "d \<noteq> []" "CHR ''@'' \<notin> set d"
      using assms(1) by (auto simp: plain_reference_def)
    have "rsplit_once CHR ''@'' ?s = Some (or_registry r @ ''/'' @ or_repository r, d)"
      using rsplit_once_append[OF d(2), of "or_registry r @ ''/'' @ or_repository r"]
      by (simp add: OciRegistryReference_to_string_def Digest)
    with s x d name reg Digest show ?thesis
      by (simp add: OciRegistryReference_from_str_def Let_def)
  next
    case (Tag t)
    then have t: "t \<noteq> []" "CHR ''/'' \<notin> set t" "CHR '':'' \<notin> set t" "CHR ''@'' \<notin> set t"
      using assms(1) by (auto simp: plain_reference_def)
    have shape: "?s = or_registry r @ ''/'' @ or_repository r @ '':'' @ t"
      by (simp add: OciRegistryReference_to_string_def Tag)
    then have "rsplit_once CHR ''@'' ?s = None"
      using reg(4) t(4) by (simp add: rsplit_once_None)
    moreover obtain front rest where "rsplit_once CHR ''/'' ?s = Some (front, rest)"
      and "\<exists>base. rsplit_once CHR '':'' rest = Some (base, t) \<and> front @ ''/'' @ base = or_registry r @ ''/'' @ or_repository r"
      unfolding shape using t(2,3) by (rule tag_name)
    ultimately show ?thesis
      using s x t(1) name reg Tag by (auto simp: OciRegistryReference_from_str_def Let_def)
  qed
qed

theorem reference_roundtrip_witness:
  "OciRegistryReference_from_str (\<lambda>s. Inr s :: string + string) ''ghcr.io/acme/disk:1.0.0''
     = Inr \<lparr>or_registry = ''ghcr.io'', or_repository = ''acme/disk'', or_target = Tag ''1.0.0''\<rparr>"
proof -
  let ?r = "\<lparr>or_registry = ''ghcr.io'', or_repository = ''acme/disk'', or_target = Tag ''1.0.0''\<rparr>"
  have "plain_reference ?r" "OciRegistryReference_to_string ?r = ''ghcr.io/acme/disk:1.0.0''"
    by code_simp+
  with reference_roundtrip[of ?r "\<lambda>s. Inr s :: string + string"] show ?thesis
    by simp
qed

section \<open>Sample artifact\<close>

definition sample_hash :: "string \<Rightarrow> string" where
  "sample_hash s = replicate 63 CHR ''0'' @ [if s = ''b'' then CHR ''1'' else if s = ''s'' then CHR ''2'' else if s = ''w'' then CHR ''3''
     else if s = ''m'' then CHR ''4'' else CHR ''5'']"

definition sample_digest :: "string \<Rightarrow> string" where
  "sample_digest s = ''sha256:'' @ sample_hash s"

definition sample_oci_bundle :: InstalledSkillBundle where
  "sample_oci_bundle =
     \<lparr>bu_format_version = BUNDLE_FORMAT_VERSION,
      bu_root_skill = \<lparr>rs_key = sample_key, rs_version = ''1.0.0'', rs_digest = sample_digest ''w''\<rparr>,
      bu_includes_dependency_closure = True, bu_publisher = lp_publisher sample_identity,
      bu_skills = [\<lparr>be_resolved_ref = \<lparr>rs_key = sample_key, rs_version = ''1.0.0'', rs_digest = sample_digest ''w''\<rparr>,
        be_install_dir = ''installed/disk''\<rparr>],
      bu_files = [\<lparr>bf_path = ''installed/disk/component.wasm'', bf_sha256 = sample_digest ''w''\<rparr>]\<rparr>"

definition sample_oci_signature :: BundleSignatureEnvelope where
  "sample_oci_signature =
     \<lparr>bse_format_version = BUNDLE_SIGNATURE_FORMAT_VERSION, bse_scheme = Ed25519, bse_publisher_id = ''acme'',
      bse_bundle_sha256 = sample_digest ''b'', bse_signature_base64 = ''x''\<rparr>"

definition sample_oci_payload :: SignedBundlePayload where
  "sample_oci_payload =
     \<lparr>sp_bundle = sample_oci_bundle, sp_bundle_bytes = ''b'', sp_signature = sample_oci_signature,
      sp_files = [\<lparr>pf_relative_path = ''installed/disk/component.wasm'',
        pf_source_path = [''g'', ''installed'', ''disk'', ''component.wasm''], pf_sha256 = sample_digest ''w''\<rparr>]\<rparr>"

definition sample_descriptor :: "string \<Rightarrow> string \<Rightarrow> annotations \<Rightarrow> OciDescriptor" where
  "sample_descriptor media s a = \<lparr>od_media_type = media, od_digest = sample_digest s, od_size = 1, od_annotations = Some a\<rparr>"

definition sample_image :: OciImageManifest where
  "sample_image =
     \<lparr>om_schema_version = 2, om_artifact_type = Some GUILD_OCI_ARTIFACT_TYPE,
      om_config = sample_descriptor GUILD_BUNDLE_CONFIG_MEDIA_TYPE ''b'' [(OCI_TITLE_ANNOTATION, ''bundle.json'')],
      om_layers = [sample_descriptor GUILD_BUNDLE_SIGNATURE_MEDIA_TYPE ''s'' [(OCI_TITLE_ANNOTATION, ''bundle.signature.json'')],
        sample_descriptor GUILD_BUNDLE_FILE_MEDIA_TYPE ''w'' [(OCI_TITLE_ANNOTATION, ''installed/disk/component.wasm'')]]\<rparr>"

definition sample_index :: OciImageIndex where
  "sample_index = \<lparr>ox_schema_version = 2,
     ox_manifests = [sample_descriptor OCI_IMAGE_MANIFEST_MEDIA_TYPE ''m'' (root_descriptor_annotations sample_oci_bundle)]\<rparr>"

definition sample_codec :: "'a \<Rightarrow> string \<Rightarrow> ('a \<Rightarrow> string + string) \<times> (string \<Rightarrow> string + 'a)" where
  "sample_codec x s = ((\<lambda>y. if y = x then Inr s else Inl ''unsupported''), (\<lambda>t. if t = s then Inr x else Inl ''eof''))"

definition sample_oci_env :: OciEnv where
  "sample_oci_env =
     \<lparr>oc_registry = sample_local_env
        \<lparr>rg_trust := sample_trust\<lparr>te_sha256_hex := sample_hash, te_bundle_signature_parse := snd (sample_codec sample_oci_signature ''s'')\<rparr>,
         rg_bundle_parse := snd (sample_codec sample_oci_bundle ''b''), rg_signature_text := fst (sample_codec sample_oci_signature ''s'')\<rparr>,
      oc_layout_text = fst (sample_codec \<lparr>image_layout_version = OCI_IMAGE_LAYOUT_VERSION\<rparr> ''l''),
      oc_layout_parse = snd (sample_codec \<lparr>image_layout_version = OCI_IMAGE_LAYOUT_VERSION\<rparr> ''l''),
      oc_index_text = fst (sample_codec sample_index ''i''), oc_index_parse = snd (sample_codec sample_index ''i''),
      oc_manifest_text = fst (sample_codec sample_image ''m''), oc_manifest_parse = snd (sample_codec sample_image ''m'')\<rparr>"

lemma sample_codec_faithful: "utf8_valid s \<Longrightarrow> faithful_codec (fst (sample_codec x s)) (snd (sample_codec x s))"
  by (auto simp: faithful_codec_def sample_codec_def split: if_splits)


theorem oci_artifacts_authentic_witness:
  "\<exists>dec. read_oci_layout sample_oci_env [''o''] (snd (export_oci_layout sample_oci_env sample_oci_payload [''o''] sample_root)) = Inr dec
     \<and> authentic_artifact sample_oci_env dec"
proof -
  let ?d = "read_oci_layout sample_oci_env [''o''] (snd (export_oci_layout sample_oci_env sample_oci_payload [''o''] sample_root))"
  have "\<not> isl ?d"
    by code_simp
  then obtain dec where dec: "?d = Inr dec"
    by (cases ?d) auto
  show ?thesis
    using oci_artifacts_authentic[OF disjI1[OF dec]] dec by blast
qed

end
