(* ===== verification/Spec2Isabelle.thy ===== *)
theory Spec2Isabelle
  imports Guild_Execution Guild_Install Guild_Oci_Laws
begin

text \<open>
  \<^bold>\<open>Guild: a capability-based runtime for installed skills.\<close>

  \<^bold>\<open>The program.\<close> A \<^emph>\<open>skill\<close> is a WebAssembly component with a manifest that declares its dependencies
  and the capabilities it needs. The local registry (\<^verbatim>\<open>src/crates/guild-registry\<close>) installs skills,
  resolves references to them, keeps the records and evidence of executions and decides what is
  trusted. The runner (\<^verbatim>\<open>src/crates/guild-runner\<close>) takes an execution envelope (request, granted
  capabilities, budget), admits or refuses it, runs the component behind a host that authorises every
  call, and leaves a record. A host call that invokes a dependency runs the same runner on a child
  envelope with derived grants and a smaller budget. Before a request is admitted the local policy
  may clamp, cap or deny the requested grants. The shared data types, resource URIs and validation
  rules are in \<^verbatim>\<open>src/crates/guild-types\<close>, manifests in \<^verbatim>\<open>src/crates/guild-manifest\<close>.

  \<^bold>\<open>Foundations.\<close>
  \<^item> \<^verbatim>\<open>Guild_Prelude\<close>: results (\<open>'e + 'a\<close>, errors left), strings as the byte sequences of UTF-8, the
    functions of Rust's \<^verbatim>\<open>str\<close>, \<^verbatim>\<open>Option\<close>, \<^verbatim>\<open>Result\<close> and integers that the sources call, and the laws the other
    theories share.
  \<^item> \<^verbatim>\<open>Guild_Json\<close>: serde's JSON values (objects with ordered keys), used in error details and hashes.
  \<^item> \<^verbatim>\<open>Guild_Net\<close>: IP addresses, their text form and classification (loopback, link local, private).

  \<^bold>\<open>Data and validation (guild-types, guild-manifest).\<close>
  \<^item> \<^verbatim>\<open>Guild_Types\<close>, \<^verbatim>\<open>Guild_Serde\<close>, \<^verbatim>\<open>Guild_Records\<close>: capabilities, constraints, grants, requests, budgets,
    outputs, evidence, receipts and execution records, with labels, defaults and JSON forms.
  \<^item> \<^verbatim>\<open>Guild_Resource_Uri\<close>: parser and printer of \<^verbatim>\<open>guild://\<close> URIs and scopes; both directions of the round
    trip and soundness of scope matching.
  \<^item> \<^verbatim>\<open>Guild_Validate\<close>, \<^verbatim>\<open>Guild_Manifest\<close>: every \<^verbatim>\<open>validate\<close> method; a valid source manifest installs as a
    valid manifest.

  \<^bold>\<open>Authority (guild-runner).\<close>
  \<^item> \<^verbatim>\<open>Guild_Authority\<close>: the abstract specification. A grant denotes the set of accesses it allows; the
    locales say what a reduction of grants has to satisfy.
  \<^item> \<^verbatim>\<open>Guild_Scopes\<close>, \<^verbatim>\<open>Guild_Constraints\<close>: the covers and reduce functions; each reduction denotes the
    intersection of what it combines, or is contained in it.
  \<^item> \<^verbatim>\<open>Guild_Evaluator\<close>: authorisation of host calls agrees exactly with the denotation, and a child
    never holds an access its parent lacks.
  \<^item> \<^verbatim>\<open>Guild_Http\<close>: authorisation of HTTP requests (URL, method, scheme, host, destination classes,
    budgets, redirects) and name resolution with recorded bindings.
  \<^item> \<^verbatim>\<open>Guild_Surface\<close>, \<^verbatim>\<open>Guild_Policy\<close>: the declared capability surface of a skill and its dependencies,
    and the policy evaluation: clamps, caps and denials never amplify, a denial is final, admission
    implies that the required capabilities are covered.

  \<^bold>\<open>Execution (guild-runner).\<close>
  \<^item> \<^verbatim>\<open>Guild_Errors\<close>, \<^verbatim>\<open>Guild_Host\<close>: errors; the state of a component run and the five host calls. A guest is a
    tree of host calls, so every theorem about runs holds for every component.
  \<^item> \<^verbatim>\<open>Guild_Replay\<close>: replayed and live HTTP requests; replay reaches loopback only, a response stays
    within its limit.
  \<^item> \<^verbatim>\<open>Guild_Adapter\<close>: the Wasmtime and in-process adapters and the projection to the inspect ABI.
  \<^item> \<^verbatim>\<open>Guild_Admission\<close>: each admission check; an envelope is admitted exactly when all of them hold.
  \<^item> \<^verbatim>\<open>Guild_Runner\<close>, \<^verbatim>\<open>Guild_Execution\<close>: the whole execution with nested children. Every execution that
    starts leaves a record unless the store refuses it, a refused envelope never runs, children are
    attenuated, every host call is mediated.
  \<^item> \<^verbatim>\<open>Guild_World\<close>: locales for relations between worlds that every step of a run keeps, so that a law of
    a store lifts to all of \<open>execute\<close>.

  \<^bold>\<open>The local registry (guild-registry).\<close>
  \<^item> \<^verbatim>\<open>Guild_Registry\<close>: selection of versions, exact resolution, trust metadata.
  \<^item> \<^verbatim>\<open>Guild_Fs\<close>: the operations of \<^verbatim>\<open>std::fs\<close> the registry uses, on a map from paths to entries, with a
    schedule of faults: any operation may fail and any write may be torn.
  \<^item> \<^verbatim>\<open>Guild_Store\<close>: records, evidence, queries, listings, resources, policy file and search.
  \<^item> \<^verbatim>\<open>Guild_Durability\<close>: the store's laws and the interpretation of the record store and world locales
    on it: records are written once, no run overwrites what was stored, evidence reads back, queries
    answer newest first from everything stored.
  \<^item> \<^verbatim>\<open>Guild_Trust\<close>: publisher identities, the trust store, signed execution plans and bundle signatures.
  \<^item> \<^verbatim>\<open>Guild_Tree\<close>: paths from text and the operations on directory trees (copy, rename, removal, traversal),
    with the same faults; a rename is atomic.
  \<^item> \<^verbatim>\<open>Guild_Installed\<close>: \<open>load_manifest\<close> and \<open>LocalRegistry::load\<close>: every loaded skill is what its digest says,
    and no installed manifest is left out.
  \<^item> \<^verbatim>\<open>Guild_Bundle\<close>, \<^verbatim>\<open>Guild_Bundle_Laws\<close>, \<^verbatim>\<open>Guild_Import\<close>: signed bundles: the index and its validation, preview,
    import through a staging directory, and export. The closure check is reachability, the listed files
    are those on disk, a preview decides as the import does, an import only adds verified skills, an
    export is closed under dependencies and verifies.
  \<^item> \<^verbatim>\<open>Guild_Install\<close>: \<open>LocalSourceInstaller\<close>: what is installed is what was built from the validated source,
    at its content address; an installation leaves the rest of the root alone unless a support file is
    named with \<^verbatim>\<open>..\<close>, which \<open>support_file_escapes_staging\<close> shows to be accepted.
  \<^item> \<^verbatim>\<open>Guild_Oci\<close>, \<^verbatim>\<open>Guild_Oci_Laws\<close> (\<^verbatim>\<open>oci_layout.rs\<close>): bundles as OCI artifacts in layout directories and remote
    registries. Whatever a layout or a registry holds, what decodes is what the signed index lists; an
    exported layout reads back as its payload; references read back from their text.

  \<^bold>\<open>Interfaces.\<close> A locale states what a client relies on: preorders of accesses and reductions
  (\<^verbatim>\<open>Guild_Authority\<close>), the record store (\<^verbatim>\<open>Guild_Runner\<close>), worlds that are kept (\<^verbatim>\<open>Guild_World\<close>), frames of file
  system operations (\<open>io_frame\<close> of \<^verbatim>\<open>Guild_Import\<close>, for imports and installations), sources of blobs
  (\<open>blob_source\<close> of \<^verbatim>\<open>Guild_Oci_Laws\<close>, for layouts and registries). Each is interpreted on the model's own
  operations in the theory that provides them.

  \<^bold>\<open>Parameters.\<close> Code outside the repository is an argument of the definitions that use it: the \<^verbatim>\<open>url\<close>
  crate, the system resolver, \<^verbatim>\<open>wasmtime\<close> (compile, link and call, as a function to a guest), the transport
  of \<^verbatim>\<open>wasi-http\<close>, the serde codecs of stored files, \<^verbatim>\<open>sha2\<close>, \<^verbatim>\<open>ed25519-dalek\<close>, \<^verbatim>\<open>base64\<close>, \<^verbatim>\<open>uuid\<close>, \<^verbatim>\<open>time\<close>,
  the \<^verbatim>\<open>oci_client\<close> crate over any state of the remote side, and \<^verbatim>\<open>cargo build\<close> as any change of the file system.
  What a theorem needs of them is a hypothesis of that theorem: a codec reads back what it wrote
  (\<open>faithful_codec\<close>), a signature made with a key verifies under it (\<open>sound_crypto\<close>), digests are
  hexadecimal (\<open>hex_digests\<close>). Their witnesses instantiate the parameters with concrete functions.

  \<^bold>\<open>Bounds and termination.\<close> Loops are structural recursion or carry a measure. The redirect loop of a
  request makes at most 255 hops because the hop limit is a byte. The dependency traversal of the
  declared surface is a partial function shown to return on every registry. Nested executions are
  unrolled to depth \<open>Suc (max_child_executions)\<close> of the root budget; \<open>execution_recursion\<close> shows that
  this depth is enough for every envelope, because each child's budget is one smaller.
  Copying a staged skill descends at most \<open>import_depth\<close> levels, one more than the longest path of the file
  system has, and the claims about imports show that a finished import copied every file.
  Counters and limits of type \<^verbatim>\<open>u64\<close> saturate as in the source.

  \<^bold>\<open>Not modelled.\<close> The MCP server and command line, the live proof harness, the draft truth benchmark,
  xtask and the guest SDK: protocol plumbing, process control, presentation or bindings around the parts above. \<^verbatim>\<open>session.rs\<close> declares
  traits without logic. A manifest's JSON schemas are opaque values, and a panic of the thread that
  talks to a registry is not a step of the model.\<close>

end
